(* ===== verification/Prelude.thy ===== *)
theory Prelude
  imports Complex_Main "HOL-Library.Word" "HOL-Library.Signed_Division"
begin

text \<open>
  What every component of the model shares: Go's 64-bit integers, its clock and
  its way of returning errors.

  \<^item> A Go \<open>int64\<close> is an \<open>int\<close>; every arithmetic operation that can leave the
    64-bit range is written with \<open>wrap64\<close>, which is two's complement reduction
    (\<open>wrap64_sint\<close> ties it to the \<open>64 word\<close> of HOL-Library.Word). \<open>in_i64\<close> says
    that a value is representable.
  \<^item> Go's \<open>/\<close> truncates towards zero: it is the library's \<open>sdiv\<close>.
  \<^item> A \<open>time.Time\<close> is an \<open>int\<close>, nanoseconds since the epoch; a
    \<open>time.Duration\<close> is an \<open>int\<close>, nanoseconds. \<open>t.Sub(u)\<close> saturates at the
    64-bit range, as the standard library's does. Every call of \<open>time.Now()\<close> is a
    clock argument of the definition that makes it.
  \<^item> A method with a pointer receiver returns the error it reports (\<open>None\<close> is
    Go's nil) and the receiver it leaves behind, so that what a failing call
    has already written stays visible.
\<close>

named_theorems go_arith \<open>unfolding rules for Go's arithmetic and clock\<close>
named_theorems mutation \<open>unfolding rules for methods with a pointer receiver\<close>

section \<open>Identifiers, optional values, results\<close>

type_synonym uuid = nat
type_synonym i64 = int
type_synonym time = int
type_synonym duration = int

abbreviation uuid_nil :: uuid where
  "uuid_nil \<equiv> 0"

type_synonym ('e, 's) mutation = "'e option \<times> 's"

abbreviation ok :: "'s \<Rightarrow> ('e, 's) mutation" where
  "ok s \<equiv> (None, s)"

abbreviation fail :: "'e \<Rightarrow> 's \<Rightarrow> ('e, 's) mutation" where
  "fail e s \<equiv> (Some e, s)"

definition is_set :: "'a option \<Rightarrow> bool" where
  "is_set x = (x \<noteq> None)"

lemma is_set_simps [simp]: "is_set (Some x)" "\<not> is_set None"
  by (simp_all add: is_set_def)

lemma is_set_iff: "is_set x \<longleftrightarrow> (\<exists>y. x = Some y)"
  by (cases x) simp_all

text \<open>Going on with a result, or returning its error.\<close>

fun sum_bind :: "'e + 'a \<Rightarrow> ('a \<Rightarrow> 'e + 'b) \<Rightarrow> 'e + 'b" where
  "sum_bind (Inl e) f = Inl e"
| "sum_bind (Inr x) f = f x"

lemma sum_bind_Inr: "sum_bind m f = Inr y \<longleftrightarrow> (\<exists>x. m = Inr x \<and> f x = Inr y)"
  by (cases m) simp_all

text \<open>The row a query with \<open>ORDER BY key DESC LIMIT 1\<close> returns.\<close>

definition latest :: "('a \<Rightarrow> int) \<Rightarrow> 'a list \<Rightarrow> 'a option" where
  "latest key xs = (case rev (sort_key key xs) of [] \<Rightarrow> None | x # _ \<Rightarrow> Some x)"

lemma latest_None [simp]: "latest key xs = None \<longleftrightarrow> xs = []"
  by (auto simp: latest_def split: list.splits dest: arg_cong [where f = length])

lemma latest_Some: "latest key xs = Some x \<Longrightarrow> x \<in> set xs \<and> (\<forall>y \<in> set xs. key y \<le> key x)"
proof -
  assume "latest key xs = Some x"
  then obtain ys where r: "rev (sort_key key xs) = x # ys" by (auto simp: latest_def split: list.splits)
  then have e: "sort_key key xs = rev ys @ [x]" by (metis rev.simps(2) rev_rev_ident)
  have "sorted (map key (rev ys @ [x]))" unfolding e [symmetric] by simp
  then have "\<forall>y \<in> set (rev ys @ [x]). key y \<le> key x" by (auto simp: sorted_append)
  moreover have "set xs = set (rev ys @ [x])" unfolding e [symmetric] by simp
  ultimately show ?thesis by auto
qed

text \<open>Looking a row up by a key, in a table of which rows are rewritten or added.\<close>

lemma find_map_keep: "(\<And>x. f (g x) = f x) \<Longrightarrow> find (\<lambda>x. f x = k) (map g xs) = map_option g (find (\<lambda>x. f x = k) xs)"
  by (induction xs) auto

lemma find_snoc: "find P (xs @ [x]) = (case find P xs of None \<Rightarrow> if P x then Some x else None | Some y \<Rightarrow> Some y)"
  by (induction xs) auto

section \<open>64-bit integers\<close>

definition i64_min :: int where
  "i64_min = - 9223372036854775808"

definition i64_max :: int where
  "i64_max = 9223372036854775807"

definition in_i64 :: "int \<Rightarrow> bool" where
  "in_i64 x \<longleftrightarrow> i64_min \<le> x \<and> x \<le> i64_max"

definition wrap64 :: "int \<Rightarrow> int" where
  "wrap64 x = (x + 9223372036854775808) mod 18446744073709551616 - 9223372036854775808"

lemmas i64_defs = i64_min_def i64_max_def in_i64_def

lemma in_i64_0 [simp]: "in_i64 0"
  by (simp add: i64_defs)

lemma wrap64_id [simp]: "in_i64 x \<Longrightarrow> wrap64 x = x"
  by (simp add: wrap64_def i64_defs)

lemma in_i64_wrap64 [simp]: "in_i64 (wrap64 x)"
proof -
  have "0 \<le> (x + 9223372036854775808) mod 18446744073709551616"
    and "(x + 9223372036854775808) mod 18446744073709551616 < 18446744073709551616"
    by simp_all
  then show ?thesis
    unfolding wrap64_def i64_defs by linarith
qed

lemma wrap64_sint: "wrap64 x = sint (word_of_int x :: 64 word)"
proof -
  have "sint (word_of_int x :: 64 word) = signed_take_bit 63 x"
    by (simp add: sint_sbintrunc')
  also have "\<dots> = wrap64 x"
    by (simp add: wrap64_def signed_take_bit_eq_take_bit_shift take_bit_eq_mod)
  finally show ?thesis ..
qed

text \<open>A wrapped value differs from the exact one by a multiple of \<open>2^64\<close>.\<close>

lemma wrap64_diff: "\<exists>k. wrap64 x = x + k * 18446744073709551616"
proof -
  let ?q = "(x + 9223372036854775808) div 18446744073709551616"
  have "(x + 9223372036854775808) mod 18446744073709551616
      = (x + 9223372036854775808) - 18446744073709551616 * ?q"
    by (rule minus_mult_div_eq_mod [symmetric])
  then have "wrap64 x = x + (- ?q) * 18446744073709551616"
    unfolding wrap64_def by linarith
  then show ?thesis by blast
qed

lemma wrap64_eq_iff: "wrap64 x = x \<longleftrightarrow> in_i64 x"
  by (metis in_i64_wrap64 wrap64_id)

text \<open>The three places where a 64-bit sum of two 64-bit values can land.\<close>

lemma wrap64_sum_cases:
  assumes "in_i64 a" "in_i64 b"
  shows "wrap64 (a + b) =
    (if a + b < i64_min then a + b + 18446744073709551616
     else if i64_max < a + b then a + b - 18446744073709551616
     else a + b)"
proof -
  obtain k where k: "wrap64 (a + b) = a + b + k * 18446744073709551616"
    using wrap64_diff by blast
  have r: "in_i64 (wrap64 (a + b))" by simp
  from k r assms show ?thesis
    unfolding i64_defs by (auto; presburger)
qed

lemma wrap64_diff_cases:
  assumes "in_i64 a" "in_i64 b"
  shows "wrap64 (a - b) =
    (if a - b < i64_min then a - b + 18446744073709551616
     else if i64_max < a - b then a - b - 18446744073709551616
     else a - b)"
proof -
  obtain k where k: "wrap64 (a - b) = a - b + k * 18446744073709551616"
    using wrap64_diff by blast
  have r: "in_i64 (wrap64 (a - b))" by simp
  from k r assms show ?thesis
    unfolding i64_defs by (auto; presburger)
qed

section \<open>Go's truncated division\<close>

lemma sdiv_nonneg: "0 \<le> (a::int) \<Longrightarrow> 0 \<le> b \<Longrightarrow> a sdiv b = a div b"
  by (simp add: signed_divide_int_def sgn_if zero_le_mult_iff mult_less_0_iff)

lemma sdiv_rem_bound:
  fixes a b :: int
  assumes "b \<noteq> 0"
  shows "\<bar>a - (a sdiv b) * b\<bar> < \<bar>b\<bar>"
proof -
  have m: "\<bar>a\<bar> = \<bar>b\<bar> * (\<bar>a\<bar> div \<bar>b\<bar>) + \<bar>a\<bar> mod \<bar>b\<bar>" by simp
  have r: "\<bar>a\<bar> mod \<bar>b\<bar> < \<bar>b\<bar>" "0 \<le> \<bar>a\<bar> mod \<bar>b\<bar>" using assms by simp_all
  have "a - (a sdiv b) * b = sgn a * (\<bar>a\<bar> mod \<bar>b\<bar>)"
  proof -
    have "a = sgn a * \<bar>a\<bar>" by (simp add: sgn_mult_abs)
    moreover have "(a sdiv b) * b = sgn a * (\<bar>b\<bar> * (\<bar>a\<bar> div \<bar>b\<bar>))"
      by (simp add: signed_divide_int_def sgn_mult abs_sgn mult.assoc mult.left_commute mult.commute)
    ultimately show ?thesis
      using m by (metis add_diff_cancel_left' right_diff_distrib)
  qed
  then show ?thesis
    using r by (cases "a = 0") (simp_all add: abs_mult)
qed

lemma int_div_less: 
  fixes x n k :: int
  assumes "0 < n" 
  shows "x div n < k \<longleftrightarrow> x < k * n"
proof
  assume "x div n < k"
  then have "(x div n + 1) * n \<le> k * n" using assms by (intro mult_right_mono) simp_all
  moreover have "x < (x div n + 1) * n"
    unfolding distrib_right using pos_mod_bound [OF assms, of x] div_mult_mod_eq [of x n] by linarith
  ultimately show "x < k * n" by simp
next
  assume "x < k * n"
  moreover have "(x div n) * n \<le> x"
    using assms pos_mod_sign [of n x] div_mult_mod_eq [of x n] by linarith
  ultimately have "(x div n) * n < k * n" by simp
  then show "x div n < k" using assms by (simp add: mult_less_cancel_right)
qed

section \<open>The clock\<close>

definition zero_time :: time where
  "zero_time = - 62135596800000000000"

definition time_add :: "time \<Rightarrow> duration \<Rightarrow> time" where
  [go_arith]: "time_add t d = t + d"

definition time_sub :: "time \<Rightarrow> time \<Rightarrow> duration" where
  "time_sub t u = max i64_min (min i64_max (t - u))"

definition after :: "time \<Rightarrow> time \<Rightarrow> bool" where
  [go_arith]: "after t u \<longleftrightarrow> u < t"

definition before :: "time \<Rightarrow> time \<Rightarrow> bool" where
  [go_arith]: "before t u \<longleftrightarrow> t < u"

definition second :: duration where
  [go_arith]: "second = 1000000000"

definition minute :: duration where
  [go_arith]: "minute = 60000000000"

definition hour :: duration where
  [go_arith]: "hour = 3600000000000"

lemma time_sub_exact: "in_i64 (t - u) \<Longrightarrow> time_sub t u = t - u"
  by (simp add: time_sub_def i64_defs)

lemma time_sub_le: "d < i64_max \<Longrightarrow> time_sub t u \<le> d \<longleftrightarrow> i64_min \<le> d \<and> t - u \<le> d"
  by (auto simp: time_sub_def i64_defs)

lemma time_sub_ge: "i64_min < d \<Longrightarrow> d \<le> time_sub t u \<longleftrightarrow> d \<le> i64_max \<and> d \<le> t - u"
  by (auto simp: time_sub_def i64_defs)

lemma time_sub_cases: "time_sub t u = t - u \<or> time_sub t u = i64_max \<and> i64_max < t - u
    \<or> time_sub t u = i64_min \<and> t - u < i64_min"
  by (auto simp: time_sub_def i64_defs)

section \<open>Callers\<close>

text \<open>
  \<open>identity/auth/role_checker.go\<close> and \<open>audit/admin_audit_logger.go\<close>: background
  jobs call the services as the system caller, whose id is 1.
\<close>

definition SystemCallerID :: uuid where
  "SystemCallerID = 1"

definition IsSystemCaller :: "uuid \<Rightarrow> bool" where
  "IsSystemCaller callerID \<longleftrightarrow> callerID = SystemCallerID"

definition ValidateCaller :: "uuid \<Rightarrow> bool" where
  "ValidateCaller callerID \<longleftrightarrow> callerID \<noteq> uuid_nil"

end
