(* ===== verification/Lifecycle.thy ===== *)
theory Lifecycle
  imports Prelude
begin

text \<open>
  The contract that every entity with a status promises: whatever its methods
  do, the status either stays or moves along the transition table of its
  package. What follows from that contract for whole runs of an entity (its
  status follows a path of the table, a terminal status is never left, a
  ranked status never goes back) is proved once here and used by every
  component through an interpretation on its own step relation.
\<close>

section \<open>Statuses that follow a transition table\<close>

locale lifecycle =
  fixes status :: "'e \<Rightarrow> 's"
    and allowed :: "'s \<Rightarrow> 's \<Rightarrow> bool"
    and step :: "'e \<Rightarrow> 'e \<Rightarrow> bool"
  assumes step_allowed: "step x y \<Longrightarrow> status y = status x \<or> allowed (status x) (status y)"
begin

lemma run_path: "step\<^sup>*\<^sup>* x y \<Longrightarrow> allowed\<^sup>*\<^sup>* (status x) (status y)"
proof (induction rule: rtranclp_induct)
  case base
  show ?case by simp
next
  case (step y z)
  then show ?case
    using step_allowed [OF step.hyps(2)] by (auto intro: rtranclp.rtrancl_into_rtrancl)
qed

lemma terminal_path: "allowed\<^sup>*\<^sup>* s t \<Longrightarrow> (\<And>u. \<not> allowed s u) \<Longrightarrow> t = s"
  by (induction rule: rtranclp_induct) auto

lemma terminal_absorbing:
  "step\<^sup>*\<^sup>* x y \<Longrightarrow> (\<And>u. \<not> allowed (status x) u) \<Longrightarrow> status y = status x"
  using run_path terminal_path by blast

lemma closed_set:
  assumes "step\<^sup>*\<^sup>* x y" "status x \<in> A" "\<And>s t. s \<in> A \<Longrightarrow> allowed s t \<Longrightarrow> t \<in> A"
  shows "status y \<in> A"
  using assms(1,2)
proof (induction rule: rtranclp_induct)
  case base
  then show ?case by simp
next
  case (step y z)
  then show ?case
    using step_allowed [OF step.hyps(2)] assms(3) by auto
qed

end

section \<open>Statuses that only move forward\<close>

locale ranked_lifecycle = lifecycle +
  fixes rank :: "'s \<Rightarrow> nat"
  assumes allowed_rank: "allowed s t \<Longrightarrow> rank s < rank t"
begin

lemma step_rank: "step x y \<Longrightarrow> rank (status x) \<le> rank (status y)"
  using step_allowed allowed_rank by (metis less_imp_le order_refl)

lemma run_rank: "step\<^sup>*\<^sup>* x y \<Longrightarrow> rank (status x) \<le> rank (status y)"
proof (induction rule: rtranclp_induct)
  case base
  show ?case by simp
next
  case (step y z)
  then show ?case using step_rank by (meson order_trans)
qed

lemma run_moves_up: "step\<^sup>*\<^sup>* x y \<Longrightarrow> status y \<noteq> status x \<Longrightarrow> rank (status x) < rank (status y)"
proof (induction rule: rtranclp_induct)
  case base
  then show ?case by simp
next
  case (step y z)
  show ?case
  proof (cases "status z = status y")
    case True
    with step show ?thesis by simp
  next
    case False
    with step_allowed [OF step.hyps(2)] have "rank (status y) < rank (status z)"
      by (auto intro: allowed_rank)
    with run_rank [OF step.hyps(1)] show ?thesis by linarith
  qed
qed

lemma never_returns:
  "step\<^sup>*\<^sup>* x y \<Longrightarrow> step\<^sup>*\<^sup>* y z \<Longrightarrow> status z = status x \<Longrightarrow> status y = status x"
  using run_moves_up run_rank by (metis leD)

end

section \<open>Facts about an entity that every step keeps\<close>

locale kept_fact =
  fixes step :: "'e \<Rightarrow> 'e \<Rightarrow> bool"
    and inv :: "'e \<Rightarrow> bool"
  assumes step_keeps: "step x y \<Longrightarrow> inv x \<Longrightarrow> inv y"
begin

lemma run_keeps: "step\<^sup>*\<^sup>* x y \<Longrightarrow> inv x \<Longrightarrow> inv y"
  by (induction rule: rtranclp_induct) (auto intro: step_keeps)

end

end
