(* ===== verification/Money.thy ===== *)
theory Money
  imports Prelude
begin

text \<open>
  \<open>pkg/money/money.go\<close>: a rupiah amount is an \<open>int64\<close> that panics rather than
  wraps. Each arithmetic method computes the wrapped 64-bit result and then
  decides from it whether an overflow happened; a panic is \<open>Inl\<close>.
  The theorems show that those after-the-fact tests are exact: a method
  returns iff the true result fits, and then it returns the true result.
\<close>

type_synonym money = i64

datatype money_panic = AdditionOverflow | SubtractionUnderflow | NegationOverflow | MultiplicationOverflow

definition money_New :: "i64 \<Rightarrow> money" where
  "money_New amount = amount"

definition money_Zero :: money where
  "money_Zero = 0"

definition money_Add :: "money \<Rightarrow> money \<Rightarrow> money_panic + money" where
  "money_Add m other =
    (let result = wrap64 (m + other)
     in if (other > 0 \<and> result < m) \<or> (other < 0 \<and> result > m)
        then Inl AdditionOverflow
        else Inr result)"

definition money_Sub :: "money \<Rightarrow> money \<Rightarrow> money_panic + money" where
  "money_Sub m other =
    (let result = wrap64 (m - other)
     in if (other > 0 \<and> result > m) \<or> (other < 0 \<and> result < m)
        then Inl SubtractionUnderflow
        else Inr result)"

definition money_Neg :: "money \<Rightarrow> money_panic + money" where
  "money_Neg m =
    (if m = - 9223372036854775808 then Inl NegationOverflow else Inr (wrap64 (- m)))"

definition money_Mul :: "money \<Rightarrow> i64 \<Rightarrow> money_panic + money" where
  "money_Mul m n =
    (let result = wrap64 (m * n)
     in if n \<noteq> 0 \<and> wrap64 (result sdiv n) \<noteq> m
        then Inl MultiplicationOverflow
        else if n = -1 \<and> m = - 9223372036854775808
        then Inl MultiplicationOverflow
        else Inr result)"

definition money_Equal :: "money \<Rightarrow> money \<Rightarrow> bool" where
  "money_Equal m other \<longleftrightarrow> m = other"

definition money_GreaterThan :: "money \<Rightarrow> money \<Rightarrow> bool" where
  "money_GreaterThan m other \<longleftrightarrow> m > other"

definition money_LessThan :: "money \<Rightarrow> money \<Rightarrow> bool" where
  "money_LessThan m other \<longleftrightarrow> m < other"

definition money_IsZero :: "money \<Rightarrow> bool" where
  "money_IsZero m \<longleftrightarrow> m = 0"

definition money_IsNegative :: "money \<Rightarrow> bool" where
  "money_IsNegative m \<longleftrightarrow> m < 0"

definition money_Int64 :: "money \<Rightarrow> i64" where
  "money_Int64 m = m"

lemmas money_defs = money_New_def money_Zero_def money_Equal_def money_GreaterThan_def
  money_LessThan_def money_IsZero_def money_IsNegative_def money_Int64_def

section \<open>The overflow tests are exact\<close>

lemma money_Add_exact:
  assumes "in_i64 m" "in_i64 n"
  shows "money_Add m n = (if in_i64 (m + n) then Inr (m + n) else Inl AdditionOverflow)"
  using assms wrap64_sum_cases [OF assms]
  unfolding money_Add_def Let_def i64_defs by (auto split: if_splits)

lemma in_i64_uminus: "in_i64 n \<Longrightarrow> n \<noteq> i64_min \<Longrightarrow> in_i64 (- n)"
  by (auto simp: i64_defs)

lemma money_Sub_exact:
  assumes "in_i64 m" "in_i64 n"
  shows "money_Sub m n = (if in_i64 (m - n) then Inr (m - n) else Inl SubtractionUnderflow)"
  using assms wrap64_diff_cases [OF assms]
  unfolding money_Sub_def Let_def i64_defs by (auto split: if_splits)

lemma sdiv_abs_le: "\<bar>(a::int) sdiv b\<bar> \<le> \<bar>a\<bar>"
proof -
  have "\<bar>a\<bar> div \<bar>b\<bar> \<le> \<bar>a\<bar>"
    using zdiv_mono2 [of "\<bar>a\<bar>" 1 "\<bar>b\<bar>"] by (cases "b = 0") simp_all
  then show ?thesis
    by (auto simp: signed_divide_int_def abs_mult abs_sgn_eq pos_imp_zdiv_nonneg_iff)
qed

lemma sdiv_cancel:
  fixes m n :: int
  assumes "n \<noteq> 0"
  shows "(m * n) sdiv n = m"
proof -
  have "\<bar>m * n\<bar> div \<bar>n\<bar> = \<bar>m\<bar>" using assms by (simp add: abs_mult)
  moreover have "sgn (m * n) * sgn n = sgn m"
    using assms by (simp add: sgn_mult mult.assoc)
  ultimately show ?thesis
    by (simp only: signed_divide_int_def sgn_mult_abs)
qed

text \<open>The quotient check lets a wrapped product through in one case only.\<close>

lemma mul_check_wraps:
  assumes m: "in_i64 m" and n: "in_i64 n" "n \<noteq> 0"
    and ov: "\<not> in_i64 (m * n)"
    and eq: "wrap64 (wrap64 (m * n) sdiv n) = m"
  shows "n = -1 \<and> m = - 9223372036854775808"
proof -
  let ?r = "wrap64 (m * n)"
  obtain k where k: "?r = m * n + k * 18446744073709551616"
    using wrap64_diff by blast
  have r: "in_i64 ?r" by simp
  have "k \<noteq> 0" using k ov r by auto
  have rem: "\<bar>?r - (?r sdiv n) * n\<bar> < \<bar>n\<bar>" using n(2) by (rule sdiv_rem_bound)
  have q: "\<bar>?r sdiv n\<bar> \<le> \<bar>?r\<bar>" by (rule sdiv_abs_le)
  have "\<not> in_i64 (?r sdiv n)"
  proof
    assume "in_i64 (?r sdiv n)"
    then have "?r sdiv n = m" using eq by simp
    with rem k have "\<bar>k * 18446744073709551616\<bar> < \<bar>n\<bar>" by simp
    with n(1) \<open>k \<noteq> 0\<close> show False unfolding i64_defs by linarith
  qed
  with q r have quot: "?r sdiv n = 9223372036854775808"
    unfolding i64_defs by linarith
  with eq have mv: "m = - 9223372036854775808" by (simp add: wrap64_def)
  from quot q r have rv: "?r = - 9223372036854775808" unfolding i64_defs by linarith
  from rem have "\<bar>- 9223372036854775808 - 9223372036854775808 * n\<bar> < \<bar>n\<bar>"
    unfolding quot unfolding rv .
  then have "n = -1" by linarith
  with mv show ?thesis by simp
qed

lemma money_Mul_exact:
  assumes m: "in_i64 m" and n: "in_i64 n"
  shows "money_Mul m n = (if in_i64 (m * n) then Inr (m * n) else Inl MultiplicationOverflow)"
proof (cases "n = 0")
  case True
  then show ?thesis by (simp add: money_Mul_def)
next
  case nz: False
  show ?thesis
  proof (cases "in_i64 (m * n)")
    case True
    have "(m * n) sdiv n = m" using nz by (rule sdiv_cancel)
    moreover have "\<not> (n = -1 \<and> m = - 9223372036854775808)"
      using True by (auto simp: i64_defs)
    ultimately show ?thesis using True m by (simp add: money_Mul_def)
  next
    case False
    then show ?thesis
      using mul_check_wraps [OF m n nz False] by (auto simp: money_Mul_def Let_def)
  qed
qed

lemma money_Neg_exact:
  "in_i64 m \<Longrightarrow> money_Neg m = (if in_i64 (- m) then Inr (- m) else Inl NegationOverflow)"
  by (auto simp: money_Neg_def i64_defs)

text \<open>
  Each arithmetic method of \<open>Money\<close> returns exactly when the mathematical
  result fits in 64 bits, and then returns that result; otherwise it panics
  with its own message. No sum, difference, product or negation is ever
  silently wrapped.
\<close>

theorem money_arithmetic_exact:
  assumes "in_i64 m" "in_i64 n"
  shows "(money_Add m n = (if in_i64 (m + n) then Inr (m + n) else Inl AdditionOverflow))
    \<and> (money_Sub m n = (if in_i64 (m - n) then Inr (m - n) else Inl SubtractionUnderflow))
    \<and> (money_Mul m n = (if in_i64 (m * n) then Inr (m * n) else Inl MultiplicationOverflow))
    \<and> (money_Neg m = (if in_i64 (- m) then Inr (- m) else Inl NegationOverflow))"
  using assms by (simp add: money_Add_exact money_Sub_exact money_Mul_exact money_Neg_exact)

theorem money_arithmetic_exact_witness:
  "money_Add 9223372036854775807 2 = Inl AdditionOverflow
    \<and> money_Mul 9223372036854775807 2 = Inl MultiplicationOverflow
    \<and> money_Sub 9223372036854775807 2 = Inr 9223372036854775805"
  using money_arithmetic_exact [of 9223372036854775807 2] by (simp add: i64_defs)

end
