(* ===== verification/AuctionTiming.thy ===== *)
theory AuctionTiming
  imports Prelude
begin

text \<open>
  \<open>auction/entity/auction_timing_policy.go\<close>: when an auction may start, how
  long it may run, and how the seller's start mode and duration become a
  start and an end. A validation returns the error, \<open>None\<close> being Go's nil.
\<close>

definition MinAuctionDuration :: duration where
  "MinAuctionDuration = 24 * hour"

definition MaxAuctionDuration :: duration where
  "MaxAuctionDuration = 7 * 24 * hour"

definition AntiSnipingWindow :: duration where
  "AntiSnipingWindow = 5 * minute"

definition AntiSnipingExtension :: duration where
  "AntiSnipingExtension = 5 * minute"

definition MaxAntiSnipingTotalExtension :: duration where
  "MaxAntiSnipingTotalExtension = 30 * minute"

definition scheduledStartClockSkewTolerance :: duration where
  "scheduledStartClockSkewTolerance = 1 * minute"

definition MaxScheduledStartHorizon :: duration where
  "MaxScheduledStartHorizon = 30 * 24 * hour"

lemmas timing_consts = MinAuctionDuration_def MaxAuctionDuration_def AntiSnipingWindow_def
  AntiSnipingExtension_def MaxAntiSnipingTotalExtension_def
  scheduledStartClockSkewTolerance_def MaxScheduledStartHorizon_def hour_def minute_def

datatype StartMode = StartModeNow | StartModeScheduled | StartModeOther string

datatype timing_error =
    ErrEndAtNotAfterStartAt
  | ErrScheduledStartRequired
  | ErrInvalidStartMode
  | ErrAuctionDurationOutOfRange duration duration duration
  | ErrScheduledStartMustBeFuture time time
  | ErrAuctionEndAlreadyPassed time time
  | ErrScheduledStartBeyondHorizon time time duration

definition ValidateAuctionTiming :: "time \<Rightarrow> time \<Rightarrow> timing_error option" where
  "ValidateAuctionTiming startAt endAt =
    (if \<not> after endAt startAt then Some ErrEndAtNotAfterStartAt
     else let duration = time_sub endAt startAt
          in if duration < MinAuctionDuration \<or> duration > MaxAuctionDuration
             then Some (ErrAuctionDurationOutOfRange duration MinAuctionDuration MaxAuctionDuration)
             else None)"

definition RequireFutureScheduledStart :: "time \<Rightarrow> time \<Rightarrow> timing_error option" where
  "RequireFutureScheduledStart startAt now =
    (if \<not> after startAt (time_add now (- scheduledStartClockSkewTolerance))
     then Some (ErrScheduledStartMustBeFuture startAt now)
     else None)"

definition RequireFutureAuctionEnd :: "time \<Rightarrow> time \<Rightarrow> timing_error option" where
  "RequireFutureAuctionEnd endAt now =
    (if \<not> after endAt (time_add now (- scheduledStartClockSkewTolerance))
     then Some (ErrAuctionEndAlreadyPassed endAt now)
     else None)"

definition RequireScheduledStartWithinHorizon :: "time \<Rightarrow> time \<Rightarrow> timing_error option" where
  "RequireScheduledStartWithinHorizon startAt now =
    (if after startAt (time_add now MaxScheduledStartHorizon)
     then Some (ErrScheduledStartBeyondHorizon startAt now MaxScheduledStartHorizon)
     else None)"

text \<open>The start chosen by the mode, before the duration is looked at.\<close>

definition resolve_start :: "StartMode \<Rightarrow> time option \<Rightarrow> time \<Rightarrow> timing_error + time" where
  "resolve_start mode scheduledStartAt now =
    (case mode of
       StartModeNow \<Rightarrow> Inr now
     | StartModeScheduled \<Rightarrow>
         (case scheduledStartAt of
            None \<Rightarrow> Inl ErrScheduledStartRequired
          | Some s \<Rightarrow>
              (case RequireFutureScheduledStart s now of
                 Some e \<Rightarrow> Inl e
               | None \<Rightarrow>
                   (case RequireScheduledStartWithinHorizon s now of
                      Some e \<Rightarrow> Inl e
                    | None \<Rightarrow> Inr s)))
     | StartModeOther _ \<Rightarrow> Inl ErrInvalidStartMode)"

definition ResolveAuctionTiming ::
    "StartMode \<Rightarrow> time option \<Rightarrow> duration \<Rightarrow> time \<Rightarrow> timing_error + time \<times> time" where
  "ResolveAuctionTiming mode scheduledStartAt duration now =
    (case resolve_start mode scheduledStartAt now of
       Inl e \<Rightarrow> Inl e
     | Inr start \<Rightarrow>
         (let end_at = time_add start duration
          in case ValidateAuctionTiming start end_at of
               Some e \<Rightarrow> Inl e
             | None \<Rightarrow> Inr (start, end_at)))"

section \<open>What the validations decide\<close>

lemma ValidateAuctionTiming_None:
  "ValidateAuctionTiming s e = None \<longleftrightarrow> s + MinAuctionDuration \<le> e \<and> e \<le> s + MaxAuctionDuration"
  using time_sub_cases [of e s]
  by (auto simp: ValidateAuctionTiming_def Let_def after_def timing_consts i64_defs)

lemma RequireFutureScheduledStart_None:
  "RequireFutureScheduledStart s now = None \<longleftrightarrow> now - minute < s"
  by (simp add: RequireFutureScheduledStart_def scheduledStartClockSkewTolerance_def go_arith)

lemma RequireFutureAuctionEnd_None:
  "RequireFutureAuctionEnd e now = None \<longleftrightarrow> now - minute < e"
  by (simp add: RequireFutureAuctionEnd_def scheduledStartClockSkewTolerance_def go_arith)

lemma RequireScheduledStartWithinHorizon_None:
  "RequireScheduledStartWithinHorizon s now = None \<longleftrightarrow> s \<le> now + MaxScheduledStartHorizon"
  by (auto simp: RequireScheduledStartWithinHorizon_def go_arith)

lemmas timing_None = ValidateAuctionTiming_None RequireFutureScheduledStart_None
  RequireFutureAuctionEnd_None RequireScheduledStartWithinHorizon_None

lemma resolve_start_Inr:
  "resolve_start mode sched now = Inr s \<longleftrightarrow>
     mode = StartModeNow \<and> s = now
   \<or> mode = StartModeScheduled \<and> sched = Some s
       \<and> now - minute < s \<and> s \<le> now + MaxScheduledStartHorizon"
  by (cases mode)
    (auto simp: resolve_start_def timing_None [symmetric] split: option.splits)

lemma ResolveAuctionTiming_Inr:
  "ResolveAuctionTiming mode sched d now = Inr (s, e) \<longleftrightarrow>
     resolve_start mode sched now = Inr s \<and> e = s + d
       \<and> MinAuctionDuration \<le> d \<and> d \<le> MaxAuctionDuration"
  using ValidateAuctionTiming_None [of s "s + d"]
  by (auto simp: ResolveAuctionTiming_def Let_def time_add_def split: sum.splits option.splits)

text \<open>
  \<open>ResolveAuctionTiming\<close> accepts exactly the requests of the published
  policy, and computes exactly their window: an immediate start begins at the
  server clock; a scheduled start must be given, lie later than one minute
  before now and at most 30 days ahead; the duration must be between one and
  seven days; the end is the start plus the duration.
\<close>

theorem ResolveAuctionTiming_policy:
  "ResolveAuctionTiming mode sched d now = Inr (s, e) \<longleftrightarrow>
     (mode = StartModeNow \<and> s = now
      \<or> mode = StartModeScheduled \<and> sched = Some s
        \<and> now - 60000000000 < s \<and> s \<le> now + 30 * 86400000000000)
     \<and> e = s + d \<and> 86400000000000 \<le> d \<and> d \<le> 7 * 86400000000000"
  unfolding ResolveAuctionTiming_Inr resolve_start_Inr timing_consts by auto

end
