(* ===== verification/Auction.thy ===== *)
theory Auction
  imports AuctionTiming Lifecycle
begin

text \<open>
  \<open>commerce/auction/entity/auction.go\<close>: the auction state machine, one
  definition per method of \<open>*Auction\<close>. The joined \<open>Product\<close> pointer is not
  part of the record: the package never reads or writes through it. A status
  string outside the declared constants is \<open>AuctionOther\<close>.
\<close>

section \<open>Status\<close>

datatype AuctionStatus =
    AuctionScheduled | AuctionActive | AuctionWaitingSettlement
  | AuctionEnded | AuctionCancelled | AuctionLapsed | AuctionOther string

fun auction_transitionAllowed :: "AuctionStatus \<Rightarrow> AuctionStatus list option" where
  "auction_transitionAllowed AuctionScheduled = Some [AuctionActive, AuctionCancelled, AuctionLapsed]"
| "auction_transitionAllowed AuctionLapsed = Some [AuctionScheduled]"
| "auction_transitionAllowed AuctionActive =
     Some [AuctionWaitingSettlement, AuctionEnded, AuctionCancelled]"
| "auction_transitionAllowed AuctionWaitingSettlement =
     Some [AuctionEnded, AuctionScheduled, AuctionCancelled]"
| "auction_transitionAllowed AuctionEnded = Some [AuctionScheduled]"
| "auction_transitionAllowed AuctionCancelled = Some []"
| "auction_transitionAllowed (AuctionOther _) = None"

definition auction_canTransition :: "AuctionStatus \<Rightarrow> AuctionStatus \<Rightarrow> bool" where
  "auction_canTransition s t =
    (case auction_transitionAllowed s of None \<Rightarrow> False | Some ts \<Rightarrow> t \<in> set ts)"

definition auction_IsRepostable :: "AuctionStatus \<Rightarrow> bool" where
  "auction_IsRepostable s \<longleftrightarrow> s = AuctionScheduled \<or> s = AuctionActive"

fun auction_PublicLifecycle :: "AuctionStatus \<Rightarrow> string" where
  "auction_PublicLifecycle AuctionActive = ''active''"
| "auction_PublicLifecycle AuctionWaitingSettlement = ''active''"
| "auction_PublicLifecycle _ = ''unavailable''"

fun auction_PublicPhase :: "AuctionStatus \<Rightarrow> string" where
  "auction_PublicPhase AuctionScheduled = ''scheduled''"
| "auction_PublicPhase AuctionActive = ''active''"
| "auction_PublicPhase AuctionWaitingSettlement = ''waiting_settlement''"
| "auction_PublicPhase AuctionEnded = ''ended''"
| "auction_PublicPhase AuctionCancelled = ''cancelled''"
| "auction_PublicPhase AuctionLapsed = ''cancelled''"
| "auction_PublicPhase (AuctionOther _) = ''cancelled''"

fun auction_IsPublicDiscoverable :: "AuctionStatus \<Rightarrow> bool" where
  "auction_IsPublicDiscoverable AuctionScheduled = True"
| "auction_IsPublicDiscoverable AuctionActive = True"
| "auction_IsPublicDiscoverable _ = False"

section \<open>Errors and the entity\<close>

datatype auction_error =
    AuctionInvalidTransition AuctionStatus AuctionStatus
  | AuctionInvalidOperation AuctionStatus string
  | BidTooLow i64 i64
  | SelfBid uuid uuid
  | AuctionHasEnded uuid time
  | AuctionNotActive uuid AuctionStatus
  | ErrShippingAlreadyResolved
  | ErrAuctionNotRelistable
  | ErrOrderBindingMismatch
  | AuctionTimingError timing_error

record auction =
  au_ID :: uuid
  au_SellerID :: uuid
  au_ProductID :: uuid
  au_OrderID :: "uuid option"
  au_ShippingResolvedAt :: "time option"
  au_SellerActionRequired :: bool
  au_SellerQuoteProvided :: bool
  au_StartPrice :: i64
  au_BidIncrement :: i64
  au_BuyNowPrice :: "i64 option"
  au_StartAt :: time
  au_EndAt :: time
  au_AntiSnipeExtensionTotal :: duration
  au_CurrentBid :: "i64 option"
  au_CurrentWinnerID :: "uuid option"
  au_Status :: AuctionStatus
  au_CreatedAt :: time
  au_UpdatedAt :: time

definition auction_NewScheduled ::
    "uuid \<Rightarrow> time \<Rightarrow> uuid \<Rightarrow> uuid \<Rightarrow> i64 \<Rightarrow> i64 \<Rightarrow> i64 option \<Rightarrow> time \<Rightarrow> time \<Rightarrow> auction" where
  "auction_NewScheduled new_id now sellerID productID startPrice bidIncrement buyNowPrice startAt endAt =
    \<lparr>au_ID = new_id, au_SellerID = sellerID, au_ProductID = productID, au_OrderID = None,
     au_ShippingResolvedAt = None, au_SellerActionRequired = False, au_SellerQuoteProvided = False,
     au_StartPrice = startPrice, au_BidIncrement = bidIncrement, au_BuyNowPrice = buyNowPrice,
     au_StartAt = startAt, au_EndAt = endAt, au_AntiSnipeExtensionTotal = 0,
     au_CurrentBid = None, au_CurrentWinnerID = None, au_Status = AuctionScheduled,
     au_CreatedAt = now, au_UpdatedAt = now\<rparr>"

section \<open>Status transitions\<close>

definition auction_Lapse :: "time \<Rightarrow> auction \<Rightarrow> (auction_error, auction) mutation" where
  [mutation]: "auction_Lapse now a =
    (if \<not> auction_canTransition (au_Status a) AuctionLapsed
     then fail (AuctionInvalidTransition (au_Status a) AuctionLapsed) a
     else ok (a\<lparr>au_Status := AuctionLapsed, au_UpdatedAt := now\<rparr>))"

definition auction_Activate :: "time \<Rightarrow> auction \<Rightarrow> (auction_error, auction) mutation" where
  [mutation]: "auction_Activate now a =
    (if \<not> auction_canTransition (au_Status a) AuctionActive
     then fail (AuctionInvalidTransition (au_Status a) AuctionActive) a
     else ok (a\<lparr>au_Status := AuctionActive, au_UpdatedAt := now\<rparr>))"

definition auction_End :: "time \<Rightarrow> auction \<Rightarrow> (auction_error, auction) mutation" where
  [mutation]: "auction_End now a =
    (if \<not> auction_canTransition (au_Status a) AuctionEnded
     then fail (AuctionInvalidTransition (au_Status a) AuctionEnded) a
     else ok (a\<lparr>au_Status := AuctionEnded, au_UpdatedAt := now\<rparr>))"

definition auction_TransitionToWaitingSettlement ::
    "time \<Rightarrow> auction \<Rightarrow> (auction_error, auction) mutation" where
  [mutation]: "auction_TransitionToWaitingSettlement now a =
    (if \<not> auction_canTransition (au_Status a) AuctionWaitingSettlement
     then fail (AuctionInvalidTransition (au_Status a) AuctionWaitingSettlement) a
     else ok (a\<lparr>au_Status := AuctionWaitingSettlement, au_UpdatedAt := now\<rparr>))"

definition auction_SettlementDeadline :: "auction \<Rightarrow> time" where
  "auction_SettlementDeadline a = time_add (au_EndAt a) (24 * hour)"

definition auction_SettlementDeadlinePassed :: "auction \<Rightarrow> time \<Rightarrow> bool" where
  "auction_SettlementDeadlinePassed a now = after now (auction_SettlementDeadline a)"

text \<open>\<open>resetForRelist\<close>, the single clearing authority of both restarts.\<close>

definition auction_resetForRelist :: "time \<Rightarrow> auction \<Rightarrow> auction" where
  "auction_resetForRelist now a =
    a\<lparr>au_OrderID := None, au_ShippingResolvedAt := None, au_SellerActionRequired := False,
      au_SellerQuoteProvided := False, au_CurrentWinnerID := None, au_CurrentBid := None,
      au_AntiSnipeExtensionTotal := 0, au_UpdatedAt := now\<rparr>"

definition auction_RescheduleAfterSettlementFailure ::
    "time \<Rightarrow> time \<Rightarrow> auction \<Rightarrow> (auction_error, auction) mutation" where
  [mutation]: "auction_RescheduleAfterSettlementFailure now reset_now a =
    (if au_Status a \<noteq> AuctionWaitingSettlement
     then fail (AuctionInvalidTransition (au_Status a) AuctionScheduled) a
     else
       let duration = time_sub (au_EndAt a) (au_StartAt a);
           duration = (if duration < MinAuctionDuration then MinAuctionDuration else duration);
           duration = (if duration > MaxAuctionDuration then MaxAuctionDuration else duration)
       in case ResolveAuctionTiming StartModeNow None duration now of
            Inl e \<Rightarrow> fail (AuctionTimingError e) a
          | Inr (startAt, endAt) \<Rightarrow>
              ok ((auction_resetForRelist reset_now a)
                \<lparr>au_StartAt := startAt, au_EndAt := endAt, au_Status := AuctionScheduled,
                 au_UpdatedAt := now\<rparr>))"

definition auction_has_outcome :: "auction \<Rightarrow> bool" where
  "auction_has_outcome a \<longleftrightarrow>
    is_set (au_CurrentBid a) \<or> is_set (au_CurrentWinnerID a) \<or> is_set (au_OrderID a)"

definition auction_Relist ::
    "time \<Rightarrow> time \<Rightarrow> time \<Rightarrow> time \<Rightarrow> time \<Rightarrow> i64 \<Rightarrow> i64 \<Rightarrow> i64 option \<Rightarrow> auction
      \<Rightarrow> (auction_error, auction) mutation" where
  [mutation]: "auction_Relist now reset_now updated_now startAt endAt startPrice bidIncrement buyNowPrice a =
    (case (case au_Status a of
             AuctionEnded \<Rightarrow> if auction_has_outcome a then Some ErrAuctionNotRelistable else None
           | AuctionLapsed \<Rightarrow> if auction_has_outcome a then Some ErrAuctionNotRelistable else None
           | s \<Rightarrow> Some (AuctionInvalidTransition s AuctionScheduled)) of
       Some e \<Rightarrow> fail e a
     | None \<Rightarrow>
         (case RequireFutureAuctionEnd endAt now of
            Some e \<Rightarrow> fail (AuctionTimingError e) a
          | None \<Rightarrow>
              ok ((auction_resetForRelist reset_now a)
                \<lparr>au_StartPrice := startPrice, au_BidIncrement := bidIncrement,
                 au_BuyNowPrice := buyNowPrice, au_StartAt := startAt, au_EndAt := endAt,
                 au_Status := AuctionScheduled, au_UpdatedAt := updated_now\<rparr>)))"

definition auction_Settle :: "time \<Rightarrow> auction \<Rightarrow> (auction_error, auction) mutation" where
  [mutation]: "auction_Settle now a =
    (if \<not> auction_canTransition (au_Status a) AuctionEnded
     then fail (AuctionInvalidTransition (au_Status a) AuctionEnded) a
     else ok (a\<lparr>au_Status := AuctionEnded, au_UpdatedAt := now\<rparr>))"

definition auction_ResolveShipping :: "time \<Rightarrow> auction \<Rightarrow> (auction_error, auction) mutation" where
  [mutation]: "auction_ResolveShipping now a =
    (if is_set (au_ShippingResolvedAt a) then fail ErrShippingAlreadyResolved a
     else ok (a\<lparr>au_ShippingResolvedAt := Some now, au_UpdatedAt := now\<rparr>))"

definition auction_ReleaseUnpaidOrder ::
    "time \<Rightarrow> uuid \<Rightarrow> auction \<Rightarrow> (auction_error, auction) mutation" where
  [mutation]: "auction_ReleaseUnpaidOrder now orderID a =
    (case au_OrderID a of
       None \<Rightarrow> ok a
     | Some bound \<Rightarrow>
         if bound \<noteq> orderID then fail ErrOrderBindingMismatch a
         else ok (a\<lparr>au_OrderID := None, au_UpdatedAt := now\<rparr>))"

definition auction_Cancel :: "time \<Rightarrow> auction \<Rightarrow> (auction_error, auction) mutation" where
  [mutation]: "auction_Cancel now a =
    (if \<not> auction_canTransition (au_Status a) AuctionCancelled
     then fail (AuctionInvalidTransition (au_Status a) AuctionCancelled) a
     else ok (a\<lparr>au_Status := AuctionCancelled, au_UpdatedAt := now\<rparr>))"

definition auction_UpdateScheduled ::
    "time \<Rightarrow> time \<Rightarrow> time \<Rightarrow> time \<Rightarrow> auction \<Rightarrow> (auction_error, auction) mutation" where
  [mutation]: "auction_UpdateScheduled now updated_now startAt endAt a =
    (if au_Status a \<noteq> AuctionScheduled
     then fail (AuctionInvalidOperation (au_Status a) ''can only update scheduled auctions'') a
     else case ValidateAuctionTiming startAt endAt of
       Some e \<Rightarrow> fail (AuctionTimingError e) a
     | None \<Rightarrow>
         (case RequireFutureScheduledStart startAt now of
            Some e \<Rightarrow> fail (AuctionTimingError e) a
          | None \<Rightarrow>
              (case RequireScheduledStartWithinHorizon startAt now of
                 Some e \<Rightarrow> fail (AuctionTimingError e) a
               | None \<Rightarrow>
                   ok (a\<lparr>au_StartAt := startAt, au_EndAt := endAt, au_UpdatedAt := updated_now\<rparr>))))"

section \<open>Bidding\<close>

definition auction_MinimumBid :: "auction \<Rightarrow> i64" where
  "auction_MinimumBid a =
    (case au_CurrentBid a of
       None \<Rightarrow> au_StartPrice a
     | Some bid \<Rightarrow> wrap64 (bid + au_BidIncrement a))"

definition auction_applyAntiSnipingExtension :: "time \<Rightarrow> auction \<Rightarrow> bool \<times> auction" where
  "auction_applyAntiSnipingExtension now a =
    (if time_sub (au_EndAt a) now > AntiSnipingWindow then (False, a)
     else
       let remaining = MaxAntiSnipingTotalExtension - au_AntiSnipeExtensionTotal a
       in if remaining \<le> 0 then (False, a)
          else
            let extension = (if AntiSnipingExtension > remaining then remaining else AntiSnipingExtension)
            in (True, a\<lparr>au_EndAt := time_add (au_EndAt a) extension,
                        au_AntiSnipeExtensionTotal := au_AntiSnipeExtensionTotal a + extension\<rparr>))"

definition auction_PlaceBid ::
    "time \<Rightarrow> uuid \<Rightarrow> i64 \<Rightarrow> time \<Rightarrow> auction \<Rightarrow> (auction_error, auction) mutation" where
  [mutation]: "auction_PlaceBid updated_now bidderID amount now a =
    (if au_Status a \<noteq> AuctionActive then fail (AuctionNotActive (au_ID a) (au_Status a)) a
     else if \<not> before now (au_EndAt a) then fail (AuctionHasEnded (au_ID a) (au_EndAt a)) a
     else if bidderID = au_SellerID a then fail (SelfBid bidderID (au_SellerID a)) a
     else
       let minimum = auction_MinimumBid a
       in if amount < minimum then fail (BidTooLow minimum amount) a
          else
            let a1 = a\<lparr>au_CurrentBid := Some amount, au_CurrentWinnerID := Some bidderID\<rparr>;
                a2 = snd (auction_applyAntiSnipingExtension now a1)
            in ok (a2\<lparr>au_UpdatedAt := updated_now\<rparr>))"

definition auction_CanCancel :: "auction \<Rightarrow> bool" where
  "auction_CanCancel a =
    (case au_Status a of
       AuctionScheduled \<Rightarrow> True
     | AuctionActive \<Rightarrow> \<not> is_set (au_CurrentBid a)
     | _ \<Rightarrow> False)"

definition auction_HasWinner :: "auction \<Rightarrow> bool" where
  "auction_HasWinner a = is_set (au_CurrentWinnerID a)"

definition auction_WinnerID :: "auction \<Rightarrow> uuid option" where
  "auction_WinnerID a = au_CurrentWinnerID a"

definition auction_WinningBid :: "auction \<Rightarrow> i64 option" where
  "auction_WinningBid a = au_CurrentBid a"

section \<open>Calls and runs\<close>

text \<open>Every call that can be made on an auction, with its clock readings and arguments.\<close>

datatype auction_call =
    ALapse time | AActivate time | AEnd time | AWaitSettlement time
  | AReschedule time time
  | ARelist time time time time time i64 i64 "i64 option"
  | ASettle time | AResolveShipping time | AReleaseUnpaidOrder time uuid | ACancel time
  | AUpdateScheduled time time time time
  | APlaceBid time uuid i64 time

fun auction_do :: "auction_call \<Rightarrow> auction \<Rightarrow> (auction_error, auction) mutation" where
  "auction_do (ALapse t) a = auction_Lapse t a"
| "auction_do (AActivate t) a = auction_Activate t a"
| "auction_do (AEnd t) a = auction_End t a"
| "auction_do (AWaitSettlement t) a = auction_TransitionToWaitingSettlement t a"
| "auction_do (AReschedule t u) a = auction_RescheduleAfterSettlementFailure t u a"
| "auction_do (ARelist t u v s e p i b) a = auction_Relist t u v s e p i b a"
| "auction_do (ASettle t) a = auction_Settle t a"
| "auction_do (AResolveShipping t) a = auction_ResolveShipping t a"
| "auction_do (AReleaseUnpaidOrder t oid) a = auction_ReleaseUnpaidOrder t oid a"
| "auction_do (ACancel t) a = auction_Cancel t a"
| "auction_do (AUpdateScheduled t u s e) a = auction_UpdateScheduled t u s e a"
| "auction_do (APlaceBid u b n t) a = auction_PlaceBid u b n t a"

inductive auction_step :: "auction \<Rightarrow> auction \<Rightarrow> bool" where
  auction_step: "auction_do c a = (err, b) \<Longrightarrow> auction_step a b"

inductive_simps auction_step_simps: "auction_step a b"

section \<open>Every call: errors, status, identity\<close>

lemma auction_applyAntiSnipingExtension_frame [simp]:
  "au_ID (snd (auction_applyAntiSnipingExtension now a)) = au_ID a"
  "au_SellerID (snd (auction_applyAntiSnipingExtension now a)) = au_SellerID a"
  "au_ProductID (snd (auction_applyAntiSnipingExtension now a)) = au_ProductID a"
  "au_OrderID (snd (auction_applyAntiSnipingExtension now a)) = au_OrderID a"
  "au_StartPrice (snd (auction_applyAntiSnipingExtension now a)) = au_StartPrice a"
  "au_BidIncrement (snd (auction_applyAntiSnipingExtension now a)) = au_BidIncrement a"
  "au_StartAt (snd (auction_applyAntiSnipingExtension now a)) = au_StartAt a"
  "au_CurrentBid (snd (auction_applyAntiSnipingExtension now a)) = au_CurrentBid a"
  "au_CurrentWinnerID (snd (auction_applyAntiSnipingExtension now a)) = au_CurrentWinnerID a"
  "au_Status (snd (auction_applyAntiSnipingExtension now a)) = au_Status a"
  "au_CreatedAt (snd (auction_applyAntiSnipingExtension now a)) = au_CreatedAt a"
  by (simp_all add: auction_applyAntiSnipingExtension_def Let_def)

lemmas auction_splits = if_splits option.splits sum.splits prod.splits AuctionStatus.splits

lemma auction_do_error: "auction_do c a = (Some e, b) \<Longrightarrow> b = a"
  by (cases c) (auto simp: mutation Let_def split: auction_splits)

lemma auction_do_status:
  "auction_do c a = (err, b) \<Longrightarrow>
     au_Status b = au_Status a \<or> auction_canTransition (au_Status a) (au_Status b)"
  by (cases c)
    (auto simp: mutation Let_def auction_canTransition_def split: auction_splits)

lemma auction_do_identity:
  "auction_do c a = (err, b) \<Longrightarrow>
     au_ID b = au_ID a \<and> au_SellerID b = au_SellerID a \<and> au_ProductID b = au_ProductID a
       \<and> au_CreatedAt b = au_CreatedAt a"
  by (cases c)
    (auto simp: mutation Let_def auction_resetForRelist_def split: auction_splits)

interpretation auction_life: lifecycle au_Status auction_canTransition auction_step
  by unfold_locales (auto simp: auction_step_simps dest: auction_do_status)

interpretation auction_identity: kept_fact auction_step
    "\<lambda>b. au_ID b = i \<and> au_SellerID b = s \<and> au_ProductID b = p \<and> au_CreatedAt b = t" for i s p t
  by unfold_locales (auto simp: auction_step_simps dest: auction_do_identity)

section \<open>The running time of an auction\<close>

text \<open>
  Without its soft-close extension an auction runs between one and seven days,
  and the extension stays within its budget; an auction that has not started
  has no extension yet.
\<close>

definition auction_timing_wf :: "auction \<Rightarrow> bool" where
  "auction_timing_wf a \<longleftrightarrow>
     0 \<le> au_AntiSnipeExtensionTotal a \<and> au_AntiSnipeExtensionTotal a \<le> MaxAntiSnipingTotalExtension
   \<and> (au_Status a = AuctionScheduled \<longrightarrow> au_AntiSnipeExtensionTotal a = 0)
   \<and> au_StartAt a + MinAuctionDuration \<le> au_EndAt a - au_AntiSnipeExtensionTotal a
   \<and> au_EndAt a - au_AntiSnipeExtensionTotal a \<le> au_StartAt a + MaxAuctionDuration"

text \<open>
  \<open>Relist\<close> takes its window from the caller, which must have it from
  \<open>ResolveAuctionTiming\<close>; the other calls are unrestricted.
\<close>

fun auction_vetted :: "auction_call \<Rightarrow> bool" where
  "auction_vetted (ARelist t u v s e p i b) = (ValidateAuctionTiming s e = None)"
| "auction_vetted _ = True"

inductive auction_vetted_step :: "auction \<Rightarrow> auction \<Rightarrow> bool" where
  auction_vetted_step: "auction_vetted c \<Longrightarrow> auction_do c a = (err, b) \<Longrightarrow> auction_vetted_step a b"

inductive_simps auction_vetted_step_simps: "auction_vetted_step a b"

lemma auction_transition_to_scheduled:
  "auction_canTransition s AuctionScheduled \<longleftrightarrow>
     s = AuctionLapsed \<or> s = AuctionWaitingSettlement \<or> s = AuctionEnded"
  by (cases s) (simp_all add: auction_canTransition_def)

lemma antisnipe_timing_wf:
  "auction_timing_wf a \<Longrightarrow> au_Status a \<noteq> AuctionScheduled \<Longrightarrow>
     auction_timing_wf (snd (auction_applyAntiSnipingExtension now a))"
  by (auto simp: auction_timing_wf_def auction_applyAntiSnipingExtension_def Let_def time_add_def
      timing_consts)

lemma auction_do_timing_wf:
  assumes "auction_do c a = (err, b)" "auction_vetted c" "auction_timing_wf a"
  shows "auction_timing_wf b"
proof (cases c)
  case (APlaceBid u bidder n t)
  let ?a1 = "a\<lparr>au_CurrentBid := Some n, au_CurrentWinnerID := Some bidder\<rparr>"
  from assms(1) APlaceBid consider "b = a"
    | "au_Status a = AuctionActive"
      "b = (snd (auction_applyAntiSnipingExtension t ?a1))\<lparr>au_UpdatedAt := u\<rparr>"
    by (auto simp: mutation Let_def split: if_splits)
  then show ?thesis
  proof cases
    case 1
    then show ?thesis using assms(3) by simp
  next
    case 2
    have "auction_timing_wf (snd (auction_applyAntiSnipingExtension t ?a1))"
      using assms(3) 2(1) by (intro antisnipe_timing_wf) (simp_all add: auction_timing_wf_def)
    then show ?thesis by (simp add: 2(2) auction_timing_wf_def)
  qed
next
  case (AReschedule t u)
  with assms show ?thesis
    by (auto simp: mutation Let_def auction_resetForRelist_def auction_timing_wf_def
        ResolveAuctionTiming_Inr timing_consts split: auction_splits)
next
  case (ARelist t u v s e p i w)
  with assms show ?thesis
    by (auto simp: mutation auction_resetForRelist_def auction_timing_wf_def
        ValidateAuctionTiming_None timing_consts split: auction_splits)
next
  case (AUpdateScheduled t u s e)
  with assms show ?thesis
    by (auto simp: mutation auction_timing_wf_def ValidateAuctionTiming_None timing_consts
        split: auction_splits)
qed (use assms in \<open>auto simp: mutation auction_timing_wf_def auction_transition_to_scheduled
        split: auction_splits\<close>)

interpretation auction_timing: kept_fact auction_vetted_step auction_timing_wf
  by unfold_locales (auto simp: auction_vetted_step_simps intro: auction_do_timing_wf)

lemma auction_NewScheduled_timing_wf:
  "ValidateAuctionTiming s e = None \<Longrightarrow> auction_timing_wf (auction_NewScheduled i now sel p sp inc bn s e)"
  by (simp add: auction_NewScheduled_def auction_timing_wf_def ValidateAuctionTiming_None timing_consts)

section \<open>A restart is a new auction\<close>

lemma ResolveAuctionTiming_now:
  "ResolveAuctionTiming StartModeNow None d now =
     (case ValidateAuctionTiming now (now + d) of Some e \<Rightarrow> Inl e | None \<Rightarrow> Inr (now, now + d))"
  by (simp add: ResolveAuctionTiming_def resolve_start_def Let_def time_add_def)

lemma auction_Reschedule_eq:
  fixes a :: auction
  defines "d \<equiv> min MaxAuctionDuration (max MinAuctionDuration (time_sub (au_EndAt a) (au_StartAt a)))"
  shows "auction_RescheduleAfterSettlementFailure now r a =
    (if au_Status a \<noteq> AuctionWaitingSettlement
     then fail (AuctionInvalidTransition (au_Status a) AuctionScheduled) a
     else ok ((auction_NewScheduled (au_ID a) now (au_SellerID a) (au_ProductID a) (au_StartPrice a)
            (au_BidIncrement a) (au_BuyNowPrice a) now (now + d))\<lparr>au_CreatedAt := au_CreatedAt a\<rparr>))"
proof -
  have v: "ValidateAuctionTiming now (now + d) = None"
    unfolding ValidateAuctionTiming_None d_def by (auto simp: timing_consts)
  have eq: "(if (if time_sub (au_EndAt a) (au_StartAt a) < MinAuctionDuration then MinAuctionDuration
        else time_sub (au_EndAt a) (au_StartAt a)) > MaxAuctionDuration then MaxAuctionDuration
      else (if time_sub (au_EndAt a) (au_StartAt a) < MinAuctionDuration then MinAuctionDuration
        else time_sub (au_EndAt a) (au_StartAt a))) = d"
    by (auto simp: d_def)
  show ?thesis
    unfolding auction_RescheduleAfterSettlementFailure_def Let_def eq ResolveAuctionTiming_now v
    by (simp add: auction_resetForRelist_def auction_NewScheduled_def)
qed

lemma auction_Relist_eq:
  "auction_Relist now r u s e p i w a =
    (if au_Status a \<noteq> AuctionEnded \<and> au_Status a \<noteq> AuctionLapsed
     then fail (AuctionInvalidTransition (au_Status a) AuctionScheduled) a
     else if auction_has_outcome a then fail ErrAuctionNotRelistable a
     else if e \<le> now - minute then fail (AuctionTimingError (ErrAuctionEndAlreadyPassed e now)) a
     else ok ((auction_NewScheduled (au_ID a) u (au_SellerID a) (au_ProductID a) p i w s e)
            \<lparr>au_CreatedAt := au_CreatedAt a\<rparr>))"
  by (auto simp: auction_Relist_def auction_resetForRelist_def auction_NewScheduled_def
      RequireFutureAuctionEnd_def scheduledStartClockSkewTolerance_def go_arith
      split: AuctionStatus.splits)

section \<open>A sequence of bids\<close>

text \<open>
  The bids that reach an auction in order, each with the clock that stamps it,
  the bidder, the amount and the server time; what \<open>accepted\<close> returns are the
  bids that changed the price.
\<close>

type_synonym bid = "time \<times> uuid \<times> i64 \<times> time"

fun run_bids :: "bid list \<Rightarrow> auction \<Rightarrow> auction" where
  "run_bids [] a = a"
| "run_bids ((u, bidder, amount, now) # bs) a =
     run_bids bs (snd (auction_PlaceBid u bidder amount now a))"

fun accepted :: "bid list \<Rightarrow> auction \<Rightarrow> (uuid \<times> i64) list" where
  "accepted [] a = []"
| "accepted ((u, bidder, amount, now) # bs) a =
     (case auction_PlaceBid u bidder amount now a of
        (None, b) \<Rightarrow> (bidder, amount) # accepted bs b
      | (Some _, b) \<Rightarrow> accepted bs b)"

lemma PlaceBid_Some: "auction_PlaceBid u bidder n t a = (Some e, b) \<Longrightarrow> b = a"
  using auction_do_error [of "APlaceBid u bidder n t"] by simp

lemma PlaceBid_None:
  "auction_PlaceBid u bidder n t a = (None, b) \<longleftrightarrow>
     au_Status a = AuctionActive \<and> t < au_EndAt a \<and> bidder \<noteq> au_SellerID a
   \<and> auction_MinimumBid a \<le> n
   \<and> b = (snd (auction_applyAntiSnipingExtension t
           (a\<lparr>au_CurrentBid := Some n, au_CurrentWinnerID := Some bidder\<rparr>)))\<lparr>au_UpdatedAt := u\<rparr>"
  by (auto simp: auction_PlaceBid_def Let_def before_def)

lemma PlaceBid_fields:
  assumes "auction_PlaceBid u bidder n t a = (None, b)"
  shows "au_CurrentBid b = Some n" "au_CurrentWinnerID b = Some bidder"
    "au_SellerID b = au_SellerID a" "au_BidIncrement b = au_BidIncrement a"
    "au_StartPrice b = au_StartPrice a"
  using assms by (auto simp: PlaceBid_None)

definition raises_by :: "int \<Rightarrow> uuid \<times> i64 \<Rightarrow> uuid \<times> i64 \<Rightarrow> bool" where
  "raises_by inc x y \<longleftrightarrow> snd x + inc \<le> snd y"

lemma raises_by_simp [simp]: "raises_by inc (b, n) y \<longleftrightarrow> n + inc \<le> snd y"
  by (simp add: raises_by_def)

text \<open>The floor a bid has to reach when no sum overflows.\<close>

definition bid_floor :: "auction \<Rightarrow> int" where
  "bid_floor a = (case au_CurrentBid a of None \<Rightarrow> au_StartPrice a | Some c \<Rightarrow> c + au_BidIncrement a)"

lemma MinimumBid_floor:
  "in_i64 (bid_floor a) \<Longrightarrow> auction_MinimumBid a = bid_floor a"
  by (auto simp: auction_MinimumBid_def bid_floor_def split: option.splits)

lemma accepted_bids_raise:
  assumes "0 < au_BidIncrement a" "in_i64 (bid_floor a)" "i64_min \<le> au_StartPrice a"
    and "\<forall>(u, bidder, amount, t) \<in> set bs. i64_min \<le> amount \<and> amount + au_BidIncrement a \<le> i64_max"
  shows "sorted_wrt (raises_by (au_BidIncrement a)) (accepted bs a)
    \<and> (\<forall>x \<in> set (accepted bs a). bid_floor a \<le> snd x \<and> fst x \<noteq> au_SellerID a)
    \<and> au_CurrentBid (run_bids bs a)
        = (if accepted bs a = [] then au_CurrentBid a else Some (snd (last (accepted bs a))))
    \<and> au_CurrentWinnerID (run_bids bs a)
        = (if accepted bs a = [] then au_CurrentWinnerID a else Some (fst (last (accepted bs a))))"
  using assms
proof (induction bs arbitrary: a)
  case Nil
  then show ?case by simp
next
  case (Cons x bs)
  obtain u bidder amount t where x: "x = (u, bidder, amount, t)" by (cases x) auto
  obtain err b where pb: "auction_PlaceBid u bidder amount t a = (err, b)" by fastforce
  show ?case
  proof (cases err)
    case (Some e)
    with pb have "b = a" by (auto dest: PlaceBid_Some)
    with Cons pb x Some show ?thesis by simp
  next
    case None
    note placed = pb [unfolded None]
    note f = PlaceBid_fields [OF placed]
    from placed Cons.prems(2) have acc: "bid_floor a \<le> amount" "bidder \<noteq> au_SellerID a"
      by (auto simp: PlaceBid_None MinimumBid_floor)
    have fl: "bid_floor b = amount + au_BidIncrement a" by (simp add: bid_floor_def f)
    have rng: "i64_min \<le> amount" "amount + au_BidIncrement a \<le> i64_max"
      using Cons.prems(4) x by auto
    then have "in_i64 (bid_floor b)"
      using Cons.prems(1) by (simp add: fl in_i64_def)
    then have IH: "sorted_wrt (raises_by (au_BidIncrement a)) (accepted bs b)"
      "\<forall>y \<in> set (accepted bs b). bid_floor b \<le> snd y \<and> fst y \<noteq> au_SellerID a"
      "au_CurrentBid (run_bids bs b)
        = (if accepted bs b = [] then Some amount else Some (snd (last (accepted bs b))))"
      "au_CurrentWinnerID (run_bids bs b)
        = (if accepted bs b = [] then Some bidder else Some (fst (last (accepted bs b))))"
      using Cons.IH [of b] Cons.prems by (auto simp: f)
    then show ?thesis
      using acc Cons.prems(1) by (auto simp: x placed fl)
  qed
qed

section \<open>Properties\<close>

definition sample_auction :: auction where
  "sample_auction = auction_NewScheduled 1 0 7 8 100 10 None 0 (24 * hour)"

definition sample_active :: auction where
  "sample_active = snd (auction_Activate 5 sample_auction)"

lemmas sample_auction_defs = sample_active_def sample_auction_def auction_NewScheduled_def
  auction_canTransition_def mutation go_arith timing_consts

text \<open>
  However the methods of an auction are called, in any order and with any
  arguments and clocks, its status follows the transition table, a cancelled
  auction stays cancelled, an auction that ended or lapsed only comes back
  through \<open>scheduled\<close>, and its id, seller, product and creation time never change.
\<close>

theorem auction_follows_table:
  assumes "auction_step\<^sup>*\<^sup>* a b"
  shows "auction_canTransition\<^sup>*\<^sup>* (au_Status a) (au_Status b)
    \<and> (au_Status a = AuctionCancelled \<longrightarrow> au_Status b = AuctionCancelled)
    \<and> au_ID b = au_ID a \<and> au_SellerID b = au_SellerID a \<and> au_ProductID b = au_ProductID a
    \<and> au_CreatedAt b = au_CreatedAt a"
proof -
  have "au_Status a = AuctionCancelled \<Longrightarrow> au_Status b = AuctionCancelled"
    using auction_life.terminal_absorbing [OF assms] by (simp add: auction_canTransition_def)
  then show ?thesis
    using auction_life.run_path [OF assms] auction_identity.run_keeps [OF assms] by blast
qed

lemma auction_do_run: "auction_step\<^sup>*\<^sup>* a b \<Longrightarrow> auction_do c b = (err, b') \<Longrightarrow> auction_step\<^sup>*\<^sup>* a b'"
  by (meson auction_step rtranclp.rtrancl_into_rtrancl)

theorem auction_follows_table_witness:
  "au_Status (snd (auction_Cancel 9 sample_active)) = AuctionCancelled
    \<and> auction_canTransition\<^sup>*\<^sup>* AuctionScheduled AuctionCancelled"
proof -
  have "auction_step\<^sup>*\<^sup>* sample_auction sample_active"
    by (rule auction_do_run [where c = "AActivate 5" and err = None, OF rtranclp.rtrancl_refl])
      (simp add: sample_auction_defs)
  then have "auction_step\<^sup>*\<^sup>* sample_auction (snd (auction_Cancel 9 sample_active))"
    by (rule auction_do_run [where c = "ACancel 9" and err = None]) (simp add: sample_auction_defs)
  from auction_follows_table [OF this] show ?thesis by (simp add: sample_auction_defs)
qed

text \<open>
  Every method of an auction that reports an error leaves the auction
  exactly as it was: no guard fires after a write.
\<close>

theorem auction_error_changes_nothing:
  assumes "auction_do c a = (Some e, b)"
  shows "b = a"
  using assms by (rule auction_do_error)

theorem auction_error_changes_nothing_witness:
  "snd (auction_PlaceBid 6 9 50 6 sample_active) = sample_active"
  using auction_error_changes_nothing [of "APlaceBid 6 9 50 6" sample_active "BidTooLow 100 50"]
  by (auto simp: sample_auction_defs Let_def auction_MinimumBid_def)

text \<open>
  C15. An auction created with a window the timing policy accepts always keeps
  one: after any sequence of calls (a relist being given a window the policy
  accepts) it still runs for at least a day, for at most seven days plus the
  soft-close extension, and that extension never exceeds 30 minutes, however
  many last-minute bids arrive.
\<close>

theorem auction_window_bounded:
  assumes "ValidateAuctionTiming s e = None"
    and "auction_vetted_step\<^sup>*\<^sup>* (auction_NewScheduled i now sel p sp inc bn s e) b"
  shows "24 * hour \<le> au_EndAt b - au_StartAt b - au_AntiSnipeExtensionTotal b
    \<and> au_EndAt b - au_StartAt b \<le> 7 * 24 * hour + au_AntiSnipeExtensionTotal b
    \<and> 0 \<le> au_AntiSnipeExtensionTotal b \<and> au_AntiSnipeExtensionTotal b \<le> 30 * minute"
  using auction_timing.run_keeps [OF assms(2)] auction_NewScheduled_timing_wf [OF assms(1)]
  by (auto simp: auction_timing_wf_def timing_consts)

definition sniped :: auction where
  "sniped = snd (auction_PlaceBid 0 9 100 (24 * hour - minute) sample_active)"

theorem auction_window_bounded_witness:
  "au_EndAt sniped - au_StartAt sniped = 24 * hour + 5 * minute
    \<and> au_AntiSnipeExtensionTotal sniped \<le> 30 * minute"
proof -
  have "ValidateAuctionTiming 0 (24 * hour) = None" by (simp add: ValidateAuctionTiming_None timing_consts)
  moreover have "auction_vetted_step sample_auction sample_active"
    by (rule auction_vetted_step [where c = "AActivate 5" and err = None])
      (simp_all add: sample_auction_defs)
  moreover have "auction_vetted_step sample_active sniped"
    by (rule auction_vetted_step [where c = "APlaceBid 0 9 100 (24 * hour - minute)" and err = None])
      (simp_all add: sniped_def sample_auction_defs Let_def auction_MinimumBid_def)
  ultimately have "auction_vetted_step\<^sup>*\<^sup>* (auction_NewScheduled 1 0 7 8 100 10 None 0 (24 * hour)) sniped"
    by (metis rtranclp.simps sample_auction_def)
  then have "au_AntiSnipeExtensionTotal sniped \<le> 30 * minute"
    using auction_window_bounded [OF \<open>ValidateAuctionTiming 0 (24 * hour) = None\<close>] by blast
  then show ?thesis
    by (simp add: sniped_def sample_auction_defs Let_def auction_MinimumBid_def
        auction_applyAntiSnipingExtension_def time_sub_def i64_defs)
qed

text \<open>
  C14. While no sum of a bid and the increment leaves 64 bits, the bids an
  auction accepts, in the order they arrive, each raise the one before by at
  least the increment and start at the floor (the start price, or the current
  bid plus the increment); none comes from the seller; and the recorded bid and
  winner are those of the last accepted bid.
\<close>

theorem accepted_bids_are_a_fair_auction:
  assumes "0 < au_BidIncrement a" "in_i64 (bid_floor a)" "i64_min \<le> au_StartPrice a"
    and "\<forall>(u, bidder, amount, t) \<in> set bs. i64_min \<le> amount \<and> amount + au_BidIncrement a \<le> i64_max"
  shows "sorted_wrt (\<lambda>x y. snd x + au_BidIncrement a \<le> snd y) (accepted bs a)
    \<and> (\<forall>x \<in> set (accepted bs a). bid_floor a \<le> snd x \<and> fst x \<noteq> au_SellerID a)
    \<and> (accepted bs a = [] \<longrightarrow> au_CurrentBid (run_bids bs a) = au_CurrentBid a
         \<and> au_CurrentWinnerID (run_bids bs a) = au_CurrentWinnerID a)
    \<and> (accepted bs a \<noteq> [] \<longrightarrow>
         au_CurrentBid (run_bids bs a) = Some (snd (last (accepted bs a)))
         \<and> au_CurrentWinnerID (run_bids bs a) = Some (fst (last (accepted bs a))))"
  using accepted_bids_raise [OF assms] unfolding raises_by_def [abs_def] by simp

theorem accepted_bids_are_a_fair_auction_witness:
  "accepted [(5, 9, 100, 5), (6, 10, 105, 6), (8, 10, 120, 8)] sample_active
     = [(9, 100), (10, 120)]
   \<and> au_CurrentWinnerID (run_bids [(5, 9, 100, 5), (6, 10, 105, 6), (8, 10, 120, 8)]
       sample_active) = Some 10"
proof -
  let ?bs = "[(5, 9, 100, 5), (6, 10, 105, 6), (8, 10, 120, 8)] :: bid list"
  have acc: "accepted ?bs sample_active = [(9, 100), (10, 120)]"
    by code_simp
  with accepted_bids_are_a_fair_auction [of sample_active ?bs] show ?thesis
    by (simp add: sample_auction_defs i64_defs bid_floor_def)
qed

text \<open>
  Both ways of restarting an auction, the reschedule after a failed
  settlement and the seller's relist, produce exactly the auction that
  \<open>NewScheduled\<close> would create for the same id, seller and product (only the
  creation time is kept): nothing of the previous round, no winner, bid, order,
  shipping decision or extension, survives. The reschedule is refused outside
  \<open>waiting_settlement\<close> and never for its timing; the relist is refused outside
  \<open>ended\<close> and \<open>lapsed\<close>, when the round had an outcome, or when the end is past.
\<close>

theorem restart_is_a_new_auction:
  "auction_RescheduleAfterSettlementFailure now r a =
     (if au_Status a \<noteq> AuctionWaitingSettlement
      then fail (AuctionInvalidTransition (au_Status a) AuctionScheduled) a
      else ok ((auction_NewScheduled (au_ID a) now (au_SellerID a) (au_ProductID a) (au_StartPrice a)
             (au_BidIncrement a) (au_BuyNowPrice a) now
             (now + min MaxAuctionDuration (max MinAuctionDuration (time_sub (au_EndAt a) (au_StartAt a)))))
           \<lparr>au_CreatedAt := au_CreatedAt a\<rparr>))
   \<and> auction_Relist now r u s e p i w a =
     (if au_Status a \<noteq> AuctionEnded \<and> au_Status a \<noteq> AuctionLapsed
      then fail (AuctionInvalidTransition (au_Status a) AuctionScheduled) a
      else if is_set (au_CurrentBid a) \<or> is_set (au_CurrentWinnerID a) \<or> is_set (au_OrderID a)
      then fail ErrAuctionNotRelistable a
      else if e \<le> now - minute then fail (AuctionTimingError (ErrAuctionEndAlreadyPassed e now)) a
      else ok ((auction_NewScheduled (au_ID a) u (au_SellerID a) (au_ProductID a) p i w s e)
             \<lparr>au_CreatedAt := au_CreatedAt a\<rparr>))"
  using auction_Reschedule_eq [of now r a] auction_Relist_eq [of now r u s e p i w a]
  unfolding auction_has_outcome_def by (rule conjI)

text \<open>
  \<open>MinimumBid\<close> adds the increment in 64 bits without a check. It is the
  true floor as long as that sum fits; once a bid has come within an increment
  of the largest amount the sum wraps to a negative floor, and every later bid
  that is not negative is accepted, whoever else makes it and however low, and
  becomes the recorded bid.
\<close>

theorem MinimumBid_overflow_loses_the_price:
  assumes "au_CurrentBid a = Some c" "in_i64 c" "in_i64 (au_BidIncrement a)" "0 < au_BidIncrement a"
  shows "(auction_MinimumBid a = c + au_BidIncrement a \<longleftrightarrow> c + au_BidIncrement a \<le> i64_max)
    \<and> (i64_max < c + au_BidIncrement a \<and> au_Status a = AuctionActive \<and> t < au_EndAt a
         \<and> bidder \<noteq> au_SellerID a \<and> 0 \<le> n \<longrightarrow>
       (\<exists>b. auction_PlaceBid u bidder n t a = (None, b) \<and> au_CurrentBid b = Some n
          \<and> au_CurrentWinnerID b = Some bidder))"
proof -
  have m: "auction_MinimumBid a = wrap64 (c + au_BidIncrement a)"
    by (simp add: auction_MinimumBid_def assms(1))
  have "auction_MinimumBid a = (if i64_max < c + au_BidIncrement a
      then c + au_BidIncrement a - 18446744073709551616 else c + au_BidIncrement a)"
    unfolding m wrap64_sum_cases [OF assms(2,3)] using assms(2,4) by (auto simp: i64_defs)
  moreover have "c + au_BidIncrement a < 18446744073709551616"
    using assms(2,3) by (simp add: i64_defs)
  ultimately show ?thesis
    by (auto simp: PlaceBid_None)
qed

theorem MinimumBid_overflow_loses_the_price_witness:
  "\<exists>b. auction_PlaceBid 6 10 1 6 (sample_active\<lparr>au_CurrentBid := Some 9223372036854775807\<rparr>) = (None, b)
     \<and> au_CurrentBid b = Some 1"
  using MinimumBid_overflow_loses_the_price
    [of "sample_active\<lparr>au_CurrentBid := Some 9223372036854775807\<rparr>" 9223372036854775807 6 10 1 6]
  by (auto simp: sample_auction_defs i64_defs)

end
