(* ===== verification/Order.thy ===== *)
theory Order
  imports Money Lifecycle
begin

text \<open>
  \<open>commerce/order/entity\<close>: the order, its status machine and its deadlines
  (\<open>order.go\<close>, \<open>order_status.go\<close>, \<open>order_source_type.go\<close>, \<open>order_item.go\<close>,
  \<open>shipping_proof.go\<close>, \<open>auction_settlement_type.go\<close>). Go's \<open>int\<close> is 64 bits wide.
  A string pointer is a \<open>string option\<close>; a string is its list of bytes, so that
  \<open>len\<close> is the length of the list. What the package formats from the clock or a
  random uuid is an argument.
\<close>

section \<open>Status, source type\<close>

datatype OrderStatus =
    OrderPending | OrderPaid | OrderShipped | OrderDelivered | OrderCompleted | OrderCancelled
  | OrderCancelledTimeout | OrderRefunded | OrderPartiallyRefunded | OrderDisputeOpen | OrderExpired
  | OrderOther string

fun order_transitionAllowed :: "OrderStatus \<Rightarrow> OrderStatus list option" where
  "order_transitionAllowed OrderPending = Some [OrderPaid, OrderCancelled, OrderExpired]"
| "order_transitionAllowed OrderPaid = Some [OrderShipped, OrderRefunded, OrderCancelledTimeout]"
| "order_transitionAllowed OrderShipped =
     Some [OrderCompleted, OrderDelivered, OrderRefunded, OrderDisputeOpen, OrderPartiallyRefunded]"
| "order_transitionAllowed OrderDelivered =
     Some [OrderCompleted, OrderRefunded, OrderDisputeOpen, OrderPartiallyRefunded]"
| "order_transitionAllowed OrderDisputeOpen =
     Some [OrderCompleted, OrderRefunded, OrderPartiallyRefunded]"
| "order_transitionAllowed OrderCompleted = Some []"
| "order_transitionAllowed OrderCancelled = Some []"
| "order_transitionAllowed OrderCancelledTimeout = Some []"
| "order_transitionAllowed OrderRefunded = Some []"
| "order_transitionAllowed OrderPartiallyRefunded = Some []"
| "order_transitionAllowed OrderExpired = Some []"
| "order_transitionAllowed (OrderOther _) = None"

definition order_canTransition :: "OrderStatus \<Rightarrow> OrderStatus \<Rightarrow> bool" where
  "order_canTransition s t =
    (case order_transitionAllowed s of None \<Rightarrow> False | Some ts \<Rightarrow> t \<in> set ts)"

datatype OrderSourceType = SourceForSale | SourceNegotiation | SourceAuction | SourceOther string

fun sourceType_IsValid :: "OrderSourceType \<Rightarrow> bool" where
  "sourceType_IsValid SourceForSale = True"
| "sourceType_IsValid SourceNegotiation = True"
| "sourceType_IsValid SourceAuction = True"
| "sourceType_IsValid (SourceOther _) = False"

fun sourceType_String :: "OrderSourceType \<Rightarrow> string" where
  "sourceType_String SourceForSale = ''for_sale''"
| "sourceType_String SourceNegotiation = ''negotiation''"
| "sourceType_String SourceAuction = ''auction''"
| "sourceType_String (SourceOther s) = s"

datatype AuctionSettlementType = SettlementBuyNow | SettlementBidWin | SettlementOther string

fun settlementType_IsValid :: "AuctionSettlementType \<Rightarrow> bool" where
  "settlementType_IsValid SettlementBuyNow = True"
| "settlementType_IsValid SettlementBidWin = True"
| "settlementType_IsValid (SettlementOther _) = False"

section \<open>The entity\<close>

record address_snapshot =
  as_RecipientName :: string
  as_Phone :: string
  as_ProvinceID :: string
  as_ProvinceName :: string
  as_CityID :: string
  as_CityName :: string
  as_DistrictID :: string
  as_DistrictName :: string
  as_VillageID :: string
  as_VillageName :: string
  as_StreetAddress :: string
  as_PostalCode :: string
  as_Latitude :: "rat option"
  as_Longitude :: "rat option"

text \<open>The pricing snapshot, immutable after creation, is a record of its own.\<close>

record order_pricing =
  op_Quantity :: int
  op_UnitPrice :: money
  op_Subtotal :: money
  op_ShippingTotal :: money
  op_CommissionPercent :: i64
  op_CommissionAmount :: money
  op_ServiceFeeAmount :: money
  op_TotalPayableAmount :: money
  op_TotalBeforeCoinsAmount :: money

record order_shipping_setup =
  os_ShippingSetupID :: "uuid option"
  os_ShippingSetupName :: string
  os_ShippingTransportType :: string
  os_ShippingSource :: "string option"
  os_ShippingQuoteID :: "uuid option"
  os_ShippingQuotePrice :: "i64 option"

record order =
  or_ID :: uuid
  or_BuyerID :: uuid
  or_SellerID :: uuid
  or_OrderNumber :: "string option"
  or_SourceType :: OrderSourceType
  or_SourceID :: uuid
  or_NegotiationID :: "uuid option"
  or_Pricing :: order_pricing
  or_ShippingSetup :: order_shipping_setup
  or_ProofType :: "string option"
  or_TrackingNumber :: "string option"
  or_ShippingProofMedia :: "string option"
  or_ShippingNote :: "string option"
  or_PreparationTimeSnapshot :: string
  or_ReadyToShipBy :: "time option"
  or_AddressSnapshot :: "address_snapshot option"
  or_ShippingOrigin :: "address_snapshot option"
  or_Status :: OrderStatus
  or_AutoReleaseAt :: "time option"
  or_HasDispute :: bool
  or_ConfirmationExtensionUsed :: bool
  or_ConfirmationExtendedAt :: "time option"
  or_IdempotencyKey :: "string option"
  or_PricingTokenID :: "uuid option"
  or_PaymentExpiresAt :: time
  or_PaymentMethodCode :: "string option"
  or_CompletedAt :: "time option"
  or_CreatedAt :: time
  or_UpdatedAt :: time

datatype order_error =
    OrderInvalidTransition OrderStatus OrderStatus
  | OrderAlreadyShipped OrderStatus
  | OrderDisputeActive uuid
  | ShipmentDeadlineExceeded uuid time time
  | InvalidShippingProof string
  | ImmutableShippingProof string string
  | ConfirmationAlreadyExtended uuid
  | AutoReleaseNotSet uuid
  | CannotExtendExpired uuid
  | ExtensionOnlyNearExpiry uuid duration

definition FulfillmentGracePeriodDays :: int where
  "FulfillmentGracePeriodDays = 2"

definition PostShipDisputeWindowHours :: int where
  "PostShipDisputeWindowHours = 12"

definition PreShipDisputeAllowedAfterHours :: int where
  "PreShipDisputeAllowedAfterHours = 24"

definition AutoReleaseDuration :: duration where
  "AutoReleaseDuration = 5 * 24 * hour"

lemmas order_consts = FulfillmentGracePeriodDays_def PostShipDisputeWindowHours_def
  PreShipDisputeAllowedAfterHours_def AutoReleaseDuration_def hour_def

section \<open>Proof of shipment\<close>

definition is_digit_char :: "char \<Rightarrow> bool" where
  "is_digit_char ch \<longleftrightarrow> \<not> (of_char ch < (48::nat) \<or> of_char ch > (57::nat))"

definition isValidPhoneFormat :: "string \<Rightarrow> bool" where
  "isValidPhoneFormat phone =
    (if length phone < 10 then False
     else if length phone \<ge> 2 \<and> take 2 phone = ''08'' then list_all is_digit_char phone
     else if length phone \<ge> 3 \<and> take 3 phone = ''+62'' then list_all is_digit_char (drop 1 phone)
     else if length phone \<ge> 3 \<and> take 3 phone = ''628'' then list_all is_digit_char phone
     else False)"

definition isValidTrackingNumber :: "string \<Rightarrow> bool" where
  "isValidTrackingNumber tracking \<longleftrightarrow> length tracking \<ge> 6"

definition order_isShippedOrLater :: "order \<Rightarrow> bool" where
  "order_isShippedOrLater o1 \<longleftrightarrow>
     or_Status o1 = OrderShipped \<or> or_Status o1 = OrderDelivered \<or> or_Status o1 = OrderCompleted
     \<or> or_Status o1 = OrderDisputeOpen \<or> or_Status o1 = OrderPartiallyRefunded"

text \<open>A pointer that is given and differs from the one the order already has.\<close>

fun changes_pointer :: "string option \<Rightarrow> string option \<Rightarrow> bool" where
  "changes_pointer (Some new) (Some old) = (new \<noteq> old)"
| "changes_pointer _ _ = False"

definition order_validateShippingProofImmutability ::
    "string option \<Rightarrow> string option \<Rightarrow> string option \<Rightarrow> order \<Rightarrow> order_error option" where
  "order_validateShippingProofImmutability newProofType newTrackingNumber newShippingProofMedia o1 =
    (if \<not> order_isShippedOrLater o1 then None
     else if changes_pointer newProofType (or_ProofType o1)
     then Some (ImmutableShippingProof ''proof_type''
            (''cannot change from '' @ the (or_ProofType o1) @ '' to '' @ the newProofType
              @ '' after order is shipped''))
     else if changes_pointer newTrackingNumber (or_TrackingNumber o1)
     then Some (ImmutableShippingProof ''tracking_number''
            (''cannot modify tracking number after order is shipped (original: ''
              @ the (or_TrackingNumber o1) @ '')''))
     else if changes_pointer newShippingProofMedia (or_ShippingProofMedia o1)
     then Some (ImmutableShippingProof ''shipping_proof_media''
            ''cannot modify proof media URL after order is shipped'')
     else None)"

section \<open>Payment\<close>

definition preparationTimeToDays :: "string \<Rightarrow> int" where
  "preparationTimeToDays preparationTime =
    (if preparationTime = ''4_7_days'' then 7
     else if preparationTime = ''8_15_days'' then 15
     else if preparationTime = ''1_3_days'' then 3
     else 3)"

definition order_MarkPaid :: "time \<Rightarrow> time \<Rightarrow> order \<Rightarrow> (order_error, order) mutation" where
  [mutation]: "order_MarkPaid now updated_now o1 =
    (if \<not> order_canTransition (or_Status o1) OrderPaid
     then fail (OrderInvalidTransition (or_Status o1) OrderPaid) o1
     else let preparationDays = preparationTimeToDays (or_PreparationTimeSnapshot o1);
              readyBy = time_add now (preparationDays * 24 * hour)
          in ok (o1\<lparr>or_Status := OrderPaid, or_ReadyToShipBy := Some readyBy,
                   or_UpdatedAt := updated_now\<rparr>))"

definition order_IsExpired :: "time \<Rightarrow> order \<Rightarrow> bool" where
  "order_IsExpired now o1 = after now (or_PaymentExpiresAt o1)"

text \<open>The function builds an order with only these two fields to ask \<open>IsExpired\<close>.\<close>

definition IsInvalidForPaymentFinalization :: "time \<Rightarrow> OrderStatus \<Rightarrow> time \<Rightarrow> bool" where
  "IsInvalidForPaymentFinalization now status paymentExpiresAt =
    (if status = OrderPaid then False
     else after now paymentExpiresAt \<or> \<not> order_canTransition status OrderPaid)"

section \<open>Deadlines\<close>

definition order_IsShipmentOverdue :: "time \<Rightarrow> order \<Rightarrow> bool" where
  "order_IsShipmentOverdue now o1 =
    (case or_ReadyToShipBy o1 of
       None \<Rightarrow> False
     | Some readyBy \<Rightarrow> after now (time_add readyBy (FulfillmentGracePeriodDays * 24 * hour)))"

definition order_IsBuyerEligibleForCancel :: "time \<Rightarrow> order \<Rightarrow> bool" where
  "order_IsBuyerEligibleForCancel now o1 \<longleftrightarrow> or_Status o1 = OrderPaid \<and> order_IsShipmentOverdue now o1"

definition order_IsBuyerEligibleForPreShipDispute :: "time \<Rightarrow> order \<Rightarrow> bool" where
  "order_IsBuyerEligibleForPreShipDispute now o1 =
    (if or_Status o1 \<noteq> OrderPaid then False
     else case or_ReadyToShipBy o1 of
       None \<Rightarrow> False
     | Some readyBy \<Rightarrow>
         after now (time_add readyBy
           ((FulfillmentGracePeriodDays * 24) + (PreShipDisputeAllowedAfterHours * hour))))"

definition order_IsWithinPostShipDisputeWindow :: "time \<Rightarrow> order \<Rightarrow> bool" where
  "order_IsWithinPostShipDisputeWindow now o1 =
    (if or_Status o1 \<noteq> OrderShipped then False
     else case or_AutoReleaseAt o1 of
       None \<Rightarrow> False
     | Some releaseAt \<Rightarrow>
         let markShipTime = time_add releaseAt (- AutoReleaseDuration);
             windowCloses = time_add markShipTime (PostShipDisputeWindowHours * hour)
         in before now windowCloses)"

definition order_IsRefundWindowOpen :: "time \<Rightarrow> order \<Rightarrow> bool" where
  "order_IsRefundWindowOpen now o1 =
    (if or_Status o1 \<noteq> OrderShipped then False
     else if or_HasDispute o1 then False
     else case or_AutoReleaseAt o1 of
       None \<Rightarrow> True
     | Some releaseAt \<Rightarrow> before now releaseAt)"

definition order_IsUserAuthorizedForDispute :: "uuid \<Rightarrow> order \<Rightarrow> bool" where
  "order_IsUserAuthorizedForDispute userID o1 \<longleftrightarrow> userID = or_BuyerID o1 \<or> userID = or_SellerID o1"

definition order_GetGracePeriodEnd :: "order \<Rightarrow> time option" where
  "order_GetGracePeriodEnd o1 =
    map_option (\<lambda>readyBy. time_add readyBy (FulfillmentGracePeriodDays * 24 * hour)) (or_ReadyToShipBy o1)"

section \<open>Shipping\<close>

definition ProofTypeTracking :: string where "ProofTypeTracking = ''tracking''"
definition ProofTypePhone :: string where "ProofTypePhone = ''phone''"
definition ProofTypeManual :: string where "ProofTypeManual = ''manual''"

lemmas proof_types = ProofTypeTracking_def ProofTypePhone_def ProofTypeManual_def

definition missing_string :: "string option \<Rightarrow> bool" where
  "missing_string x \<longleftrightarrow> x = None \<or> x = Some ''''"

text \<open>The proof checks of \<open>MarkShipped\<close>, in the order the code makes them.\<close>

definition shipping_proof_error :: "string option \<Rightarrow> string option \<Rightarrow> string option \<Rightarrow> order_error option" where
  "shipping_proof_error proofType trackingNumber shippingProofMedia =
    (if missing_string proofType then Some (InvalidShippingProof ''proof_type is required'')
     else let pt = the proofType in
     if pt \<noteq> ProofTypeTracking \<and> pt \<noteq> ProofTypePhone \<and> pt \<noteq> ProofTypeManual
     then Some (InvalidShippingProof ''proof_type must be one of: tracking, phone, manual'')
     else if (pt = ProofTypeTracking \<or> pt = ProofTypePhone) \<and> missing_string trackingNumber
     then Some (InvalidShippingProof (''tracking_number is required for proof_type='' @ pt))
     else if pt = ProofTypeManual \<and> missing_string shippingProofMedia
     then Some (InvalidShippingProof ''shipping_proof_media is required for proof_type=manual'')
     else if pt = ProofTypeTracking \<and> is_set trackingNumber \<and> \<not> isValidTrackingNumber (the trackingNumber)
     then Some (InvalidShippingProof ''tracking number must be at least 6 characters'')
     else if pt = ProofTypePhone \<and> is_set trackingNumber \<and> \<not> isValidPhoneFormat (the trackingNumber)
     then Some (InvalidShippingProof ''phone number must be at least 10 digits (Indonesian format: 08xxxxxxxxxx, +628xxxxxxxxxx, or 628xxxxxxxxxx)'')
     else None)"

definition order_MarkShipped ::
    "time \<Rightarrow> time \<Rightarrow> time \<Rightarrow> string option \<Rightarrow> string option \<Rightarrow> string option \<Rightarrow> string option \<Rightarrow> order
      \<Rightarrow> (order_error, order) mutation" where
  [mutation]: "order_MarkShipped now release_now updated_now proofType trackingNumber shippingProofMedia shippingNote o1 =
    (if or_Status o1 \<noteq> OrderPaid
     then fail (OrderInvalidTransition (or_Status o1) OrderShipped) o1
     else case (case or_ReadyToShipBy o1 of
                  None \<Rightarrow> None
                | Some readyBy \<Rightarrow>
                    let gracePeriodEnd = time_add readyBy (FulfillmentGracePeriodDays * 24 * hour)
                    in if after now gracePeriodEnd
                       then Some (ShipmentDeadlineExceeded (or_ID o1) readyBy gracePeriodEnd)
                       else None) of
       Some e \<Rightarrow> fail e o1
     | None \<Rightarrow>
         (case shipping_proof_error proofType trackingNumber shippingProofMedia of
            Some e \<Rightarrow> fail e o1
          | None \<Rightarrow>
              ok (o1\<lparr>or_Status := OrderShipped,
                     or_AutoReleaseAt :=
                       (case or_AutoReleaseAt o1 of
                          None \<Rightarrow> Some (time_add release_now AutoReleaseDuration)
                        | Some r \<Rightarrow> Some r),
                     or_ProofType := proofType, or_TrackingNumber := trackingNumber,
                     or_ShippingProofMedia := shippingProofMedia, or_ShippingNote := shippingNote,
                     or_UpdatedAt := updated_now\<rparr>)))"

section \<open>Completion, cancellation, dispute, refund\<close>

definition order_ValidateComplete :: "order \<Rightarrow> order_error option" where
  "order_ValidateComplete o1 =
    (if or_Status o1 \<noteq> OrderShipped \<and> or_Status o1 \<noteq> OrderDelivered
     then Some (OrderInvalidTransition (or_Status o1) OrderCompleted)
     else if or_HasDispute o1 then Some (OrderDisputeActive (or_ID o1))
     else None)"

definition order_Cancel :: "time \<Rightarrow> order \<Rightarrow> (order_error, order) mutation" where
  [mutation]: "order_Cancel now o1 =
    (if or_Status o1 = OrderShipped \<or> or_Status o1 = OrderDelivered
     then fail (OrderAlreadyShipped (or_Status o1)) o1
     else if \<not> order_canTransition (or_Status o1) OrderCancelled
     then fail (OrderInvalidTransition (or_Status o1) OrderCancelled) o1
     else ok (o1\<lparr>or_Status := OrderCancelled, or_UpdatedAt := now\<rparr>))"

definition order_ValidateCancelTimeout :: "order \<Rightarrow> order_error option" where
  "order_ValidateCancelTimeout o1 =
    (if \<not> order_canTransition (or_Status o1) OrderCancelledTimeout
     then Some (OrderInvalidTransition (or_Status o1) OrderCancelledTimeout)
     else None)"

definition order_MarkExpired :: "time \<Rightarrow> order \<Rightarrow> (order_error, order) mutation" where
  [mutation]: "order_MarkExpired now o1 =
    (if \<not> order_canTransition (or_Status o1) OrderExpired
     then fail (OrderInvalidTransition (or_Status o1) OrderExpired) o1
     else ok (o1\<lparr>or_Status := OrderExpired, or_UpdatedAt := now\<rparr>))"

definition order_MarkDisputeOpen :: "time \<Rightarrow> order \<Rightarrow> (order_error, order) mutation" where
  [mutation]: "order_MarkDisputeOpen now o1 =
    (if \<not> order_canTransition (or_Status o1) OrderDisputeOpen
     then fail (OrderInvalidTransition (or_Status o1) OrderDisputeOpen) o1
     else ok (o1\<lparr>or_Status := OrderDisputeOpen, or_HasDispute := True, or_UpdatedAt := now\<rparr>))"

definition order_MarkPartiallyRefunded :: "time \<Rightarrow> order \<Rightarrow> (order_error, order) mutation" where
  [mutation]: "order_MarkPartiallyRefunded now o1 =
    (if \<not> order_canTransition (or_Status o1) OrderPartiallyRefunded
     then fail (OrderInvalidTransition (or_Status o1) OrderPartiallyRefunded) o1
     else ok (o1\<lparr>or_Status := OrderPartiallyRefunded, or_UpdatedAt := now\<rparr>))"

definition order_ExtendConfirmationPeriod :: "time \<Rightarrow> order \<Rightarrow> (order_error, order) mutation" where
  [mutation]: "order_ExtendConfirmationPeriod now o1 =
    (if or_Status o1 \<noteq> OrderShipped
     then fail (OrderInvalidTransition (or_Status o1) OrderShipped) o1
     else if or_HasDispute o1 then fail (OrderDisputeActive (or_ID o1)) o1
     else if or_ConfirmationExtensionUsed o1 then fail (ConfirmationAlreadyExtended (or_ID o1)) o1
     else case or_AutoReleaseAt o1 of
       None \<Rightarrow> fail (AutoReleaseNotSet (or_ID o1)) o1
     | Some releaseAt \<Rightarrow>
         if before releaseAt now then fail (CannotExtendExpired (or_ID o1)) o1
         else
           let remaining = time_sub releaseAt now
           in if remaining > 24 * hour then fail (ExtensionOnlyNearExpiry (or_ID o1) remaining) o1
              else ok (o1\<lparr>or_AutoReleaseAt := Some (time_add releaseAt (3 * 24 * hour)),
                          or_ConfirmationExtensionUsed := True,
                          or_ConfirmationExtendedAt := Some now, or_UpdatedAt := now\<rparr>))"

definition order_SetAutoRelease :: "time \<Rightarrow> time \<Rightarrow> order \<Rightarrow> order" where
  "order_SetAutoRelease now at_time o1 = o1\<lparr>or_AutoReleaseAt := Some at_time, or_UpdatedAt := now\<rparr>"

section \<open>Money base, snapshots, creation\<close>

definition order_DiscountedProductAmount :: "order \<Rightarrow> money_panic + money" where
  "order_DiscountedProductAmount o1 =
    money_Sub (op_TotalBeforeCoinsAmount (or_Pricing o1)) (op_ShippingTotal (or_Pricing o1))"

definition order_HasCanonicalMoneyBase :: "order \<Rightarrow> money_panic + bool" where
  "order_HasCanonicalMoneyBase o1 =
    (if money_Int64 (op_TotalBeforeCoinsAmount (or_Pricing o1)) \<le> 0 then Inr False
     else case order_DiscountedProductAmount o1 of
       Inl p \<Rightarrow> Inl p
     | Inr pd \<Rightarrow> Inr (money_Int64 pd > 0))"

definition order_ApplyAddressSnapshot :: "time \<Rightarrow> address_snapshot \<Rightarrow> order \<Rightarrow> order" where
  "order_ApplyAddressSnapshot now snapshot o1 =
    o1\<lparr>or_AddressSnapshot := Some snapshot, or_UpdatedAt := now\<rparr>"

definition order_ApplyShippingOrigin :: "time \<Rightarrow> address_snapshot \<Rightarrow> order \<Rightarrow> order" where
  "order_ApplyShippingOrigin now snapshot o1 =
    o1\<lparr>or_ShippingOrigin := Some snapshot, or_UpdatedAt := now\<rparr>"

text \<open>The date \<open>YYYYMMDD\<close> and the text of the random uuid are arguments.\<close>

definition GenerateOrderNumber :: "string \<Rightarrow> string \<Rightarrow> string" where
  "GenerateOrderNumber date_text uuid_text = ''ORD-'' @ date_text @ ''-'' @ take 8 uuid_text"

datatype order_panic =
    QuantityNotPositive | UnitPriceNegative | EscrowBaseNegative
  | UnitPriceExceedsMaximum money money | InvalidSourceType OrderSourceType
  | OrderMoneyPanic money_panic

definition maxUnitPrice :: money where
  "maxUnitPrice = 50000000000"

text \<open>The pricing argument carries the snapshot of the token; its total payable is computed here.\<close>

definition NewOrderFromSource ::
    "uuid \<Rightarrow> time \<Rightarrow> string \<Rightarrow> uuid \<Rightarrow> uuid \<Rightarrow> OrderSourceType \<Rightarrow> uuid \<Rightarrow> uuid option
      \<Rightarrow> int \<Rightarrow> money \<Rightarrow> money \<Rightarrow> money \<Rightarrow> i64 \<Rightarrow> money \<Rightarrow> money \<Rightarrow> money
      \<Rightarrow> order_shipping_setup \<Rightarrow> string \<Rightarrow> uuid option \<Rightarrow> time \<Rightarrow> order_panic + order" where
  "NewOrderFromSource new_id now orderNum buyerID sellerID sourceType sourceID negotiationID
     quantity unitPrice subtotal shippingTotal commissionPercent commissionAmount serviceFeeAmount
     escrowBase shippingSetup preparationTimeSnapshot pricingTokenID paymentExpiresAt =
    (if quantity \<le> 0 then Inl QuantityNotPositive
     else if money_IsNegative unitPrice then Inl UnitPriceNegative
     else if money_IsNegative escrowBase then Inl EscrowBaseNegative
     else if money_Int64 unitPrice > maxUnitPrice
     then Inl (UnitPriceExceedsMaximum unitPrice maxUnitPrice)
     else if \<not> sourceType_IsValid sourceType then Inl (InvalidSourceType sourceType)
     else case money_Add escrowBase serviceFeeAmount of
       Inl p \<Rightarrow> Inl (OrderMoneyPanic p)
     | Inr totalPayable \<Rightarrow> Inr
        \<lparr>or_ID = new_id, or_BuyerID = buyerID, or_SellerID = sellerID, or_OrderNumber = Some orderNum,
         or_SourceType = sourceType, or_SourceID = sourceID, or_NegotiationID = negotiationID,
         or_Pricing =
           \<lparr>op_Quantity = quantity, op_UnitPrice = unitPrice, op_Subtotal = subtotal,
            op_ShippingTotal = shippingTotal, op_CommissionPercent = commissionPercent,
            op_CommissionAmount = commissionAmount, op_ServiceFeeAmount = serviceFeeAmount,
            op_TotalPayableAmount = totalPayable, op_TotalBeforeCoinsAmount = escrowBase\<rparr>,
         or_ShippingSetup = shippingSetup,
         or_ProofType = None, or_TrackingNumber = None, or_ShippingProofMedia = None,
         or_ShippingNote = None, or_PreparationTimeSnapshot = preparationTimeSnapshot,
         or_ReadyToShipBy = None, or_AddressSnapshot = None, or_ShippingOrigin = None,
         or_Status = OrderPending, or_AutoReleaseAt = None, or_HasDispute = False,
         or_ConfirmationExtensionUsed = False, or_ConfirmationExtendedAt = None,
         or_IdempotencyKey = None, or_PricingTokenID = pricingTokenID,
         or_PaymentExpiresAt = paymentExpiresAt, or_PaymentMethodCode = None,
         or_CompletedAt = None, or_CreatedAt = now, or_UpdatedAt = now\<rparr>)"

record order_item =
  oi_ID :: uuid
  oi_OrderID :: uuid
  oi_ProductID :: uuid
  oi_UnitPriceSnapshot :: money
  oi_Quantity :: int
  oi_Name :: string
  oi_CreatedAt :: time

definition NewOrderItem :: "uuid \<Rightarrow> time \<Rightarrow> uuid \<Rightarrow> uuid \<Rightarrow> money \<Rightarrow> int \<Rightarrow> string \<Rightarrow> order_item" where
  "NewOrderItem new_id now orderID productID unitPriceSnapshot quantity name =
    \<lparr>oi_ID = new_id, oi_OrderID = orderID, oi_ProductID = productID,
     oi_UnitPriceSnapshot = unitPriceSnapshot, oi_Quantity = quantity, oi_Name = name,
     oi_CreatedAt = now\<rparr>"

definition orderItem_Subtotal :: "order_item \<Rightarrow> money_panic + money" where
  "orderItem_Subtotal oi = money_Mul (oi_UnitPriceSnapshot oi) (oi_Quantity oi)"

record shipping_proof =
  sp_ID :: uuid
  sp_OrderID :: uuid
  sp_SellerID :: uuid
  sp_MediaURL :: string
  sp_CreatedAt :: time

definition NewShippingProof :: "uuid \<Rightarrow> time \<Rightarrow> uuid \<Rightarrow> uuid \<Rightarrow> string \<Rightarrow> shipping_proof" where
  "NewShippingProof new_id now orderID sellerID mediaURL =
    \<lparr>sp_ID = new_id, sp_OrderID = orderID, sp_SellerID = sellerID, sp_MediaURL = mediaURL,
     sp_CreatedAt = now\<rparr>"

section \<open>Calls and runs\<close>

datatype order_call =
    OMarkPaid time time
  | OMarkShipped time time time "string option" "string option" "string option" "string option"
  | OCancel time | OMarkExpired time | OMarkDisputeOpen time | OMarkPartiallyRefunded time
  | OExtend time | OSetAutoRelease time time
  | OApplyAddress time address_snapshot | OApplyOrigin time address_snapshot

fun order_do :: "order_call \<Rightarrow> order \<Rightarrow> (order_error, order) mutation" where
  "order_do (OMarkPaid t u) a = order_MarkPaid t u a"
| "order_do (OMarkShipped t r u p tr m n) a = order_MarkShipped t r u p tr m n a"
| "order_do (OCancel t) a = order_Cancel t a"
| "order_do (OMarkExpired t) a = order_MarkExpired t a"
| "order_do (OMarkDisputeOpen t) a = order_MarkDisputeOpen t a"
| "order_do (OMarkPartiallyRefunded t) a = order_MarkPartiallyRefunded t a"
| "order_do (OExtend t) a = order_ExtendConfirmationPeriod t a"
| "order_do (OSetAutoRelease t r) a = ok (order_SetAutoRelease t r a)"
| "order_do (OApplyAddress t s) a = ok (order_ApplyAddressSnapshot t s a)"
| "order_do (OApplyOrigin t s) a = ok (order_ApplyShippingOrigin t s a)"

inductive order_step :: "order \<Rightarrow> order \<Rightarrow> bool" where
  order_step: "order_do c a = (err, b) \<Longrightarrow> order_step a b"

inductive_simps order_step_simps: "order_step a b"

lemmas order_splits = if_splits option.splits OrderStatus.splits
lemmas order_setters = order_SetAutoRelease_def order_ApplyAddressSnapshot_def order_ApplyShippingOrigin_def

fun order_rank :: "OrderStatus \<Rightarrow> nat" where
  "order_rank OrderPending = 0"
| "order_rank OrderPaid = 1"
| "order_rank OrderShipped = 2"
| "order_rank OrderDelivered = 3"
| "order_rank OrderDisputeOpen = 4"
| "order_rank _ = 5"

lemma order_canTransition_rank: "order_canTransition s t \<Longrightarrow> order_rank s < order_rank t"
  by (cases s) (auto simp: order_canTransition_def)

lemma order_do_error: "order_do c a = (Some e, b) \<Longrightarrow> b = a"
  by (cases c) (auto simp: mutation Let_def split: order_splits)

lemma order_do_status:
  "order_do c a = (err, b) \<Longrightarrow>
     or_Status b = or_Status a \<or> order_canTransition (or_Status a) (or_Status b)"
  by (cases c)
    (auto simp: mutation order_setters Let_def order_canTransition_def split: order_splits)

definition same_deal :: "order \<Rightarrow> order \<Rightarrow> bool" where
  "same_deal a b \<longleftrightarrow> or_ID b = or_ID a \<and> or_BuyerID b = or_BuyerID a \<and> or_SellerID b = or_SellerID a
    \<and> or_SourceType b = or_SourceType a \<and> or_SourceID b = or_SourceID a
    \<and> or_Pricing b = or_Pricing a \<and> or_ShippingSetup b = or_ShippingSetup a
    \<and> or_PricingTokenID b = or_PricingTokenID a \<and> or_PaymentExpiresAt b = or_PaymentExpiresAt a"

lemma order_do_deal: "order_do c a = (err, b) \<Longrightarrow> same_deal a b"
  by (cases c) (auto simp: same_deal_def mutation order_setters Let_def split: order_splits)

interpretation order_life: ranked_lifecycle or_Status order_canTransition order_step order_rank
  by unfold_locales (auto simp: order_step_simps dest: order_do_status order_canTransition_rank)

interpretation order_deal: kept_fact order_step "same_deal a" for a
  by unfold_locales (auto simp: order_step_simps same_deal_def dest!: order_do_deal)

section \<open>The confirmation window\<close>

text \<open>
  An order shipped at \<open>t\<close> is released five days later, or eight once its buyer
  used the extension; \<open>SetAutoRelease\<close>, which nothing in the program calls, is
  left out of these runs.
\<close>

definition order_window :: "time \<Rightarrow> order \<Rightarrow> bool" where
  "order_window t b \<longleftrightarrow>
     or_AutoReleaseAt b = Some (t + AutoReleaseDuration
        + (if or_ConfirmationExtensionUsed b then 3 * 24 * hour else 0))
   \<and> (or_ConfirmationExtensionUsed b \<longrightarrow>
        (\<exists>e. or_ConfirmationExtendedAt b = Some e \<and> t + 4 * 24 * hour \<le> e \<and> e \<le> t + AutoReleaseDuration))"

fun order_regular :: "order_call \<Rightarrow> bool" where
  "order_regular (OSetAutoRelease t r) = False"
| "order_regular _ = True"

inductive order_regular_step :: "order \<Rightarrow> order \<Rightarrow> bool" where
  order_regular_step: "order_regular c \<Longrightarrow> order_do c a = (err, b) \<Longrightarrow> order_regular_step a b"

inductive_simps order_regular_step_simps: "order_regular_step a b"

lemma order_ExtendConfirmationPeriod_None:
  "order_ExtendConfirmationPeriod now a = (None, b) \<longleftrightarrow>
     or_Status a = OrderShipped \<and> \<not> or_HasDispute a \<and> \<not> or_ConfirmationExtensionUsed a
   \<and> (\<exists>r. or_AutoReleaseAt a = Some r \<and> now \<le> r \<and> r \<le> now + 24 * hour
        \<and> b = a\<lparr>or_AutoReleaseAt := Some (r + 3 * 24 * hour), or_ConfirmationExtensionUsed := True,
              or_ConfirmationExtendedAt := Some now, or_UpdatedAt := now\<rparr>)"
proof -
  have "\<And>r. time_sub r now > 24 * hour \<longleftrightarrow> r > now + 24 * hour"
    by (auto simp: time_sub_def i64_defs hour_def)
  then show ?thesis
    by (auto simp: order_ExtendConfirmationPeriod_def Let_def before_def time_add_def split: option.splits)
qed

lemma order_window_extend:
  assumes "order_window t a" "order_ExtendConfirmationPeriod now a = (None, b)"
  shows "order_window t b"
  using assms by (auto simp: order_ExtendConfirmationPeriod_None order_window_def AutoReleaseDuration_def hour_def)

lemma order_do_window:
  assumes "order_do c a = (err, b)" "order_regular c" "order_window t a"
  shows "order_window t b"
proof (cases "b = a")
  case True
  then show ?thesis using assms(3) by simp
next
  case False
  then have err: "err = None" using assms(1) order_do_error by (cases err) auto
  show ?thesis
  proof (cases c)
    case (OExtend now)
    with assms err show ?thesis by (auto intro: order_window_extend)
  next
    case (OMarkShipped n r u p tr m memo)
    with assms err show ?thesis
      by (auto simp: order_MarkShipped_def order_window_def split: order_splits)
  qed (use assms err in \<open>auto simp: mutation order_setters order_window_def Let_def split: order_splits\<close>)
qed

interpretation order_confirmation: kept_fact order_regular_step "order_window t" for t
  by unfold_locales (auto simp: order_regular_step_simps intro: order_do_window)

lemma order_MarkShipped_None:
  "order_MarkShipped now rel upd pt tr m memo a = (None, b) \<longleftrightarrow>
     or_Status a = OrderPaid
   \<and> (\<forall>d. or_ReadyToShipBy a = Some d \<longrightarrow> now \<le> d + 2 * 24 * hour)
   \<and> shipping_proof_error pt tr m = None
   \<and> b = a\<lparr>or_Status := OrderShipped,
           or_AutoReleaseAt := (case or_AutoReleaseAt a of None \<Rightarrow> Some (rel + AutoReleaseDuration) | Some r \<Rightarrow> Some r),
           or_ProofType := pt, or_TrackingNumber := tr, or_ShippingProofMedia := m,
           or_ShippingNote := memo, or_UpdatedAt := upd\<rparr>"
  by (auto simp: order_MarkShipped_def Let_def after_def time_add_def order_consts split: order_splits)

lemma shipping_proof_error_None:
  "shipping_proof_error pt tr m = None \<longleftrightarrow>
     pt = Some ''tracking'' \<and> (\<exists>n. tr = Some n \<and> 6 \<le> length n)
   \<or> pt = Some ''phone'' \<and> (\<exists>n. tr = Some n \<and> isValidPhoneFormat n)
   \<or> pt = Some ''manual'' \<and> m \<noteq> None \<and> m \<noteq> Some ''''"
proof -
  have nv: "\<not> isValidPhoneFormat ''''" by (simp add: isValidPhoneFormat_def)
  show ?thesis
    using nv by (cases pt; cases tr; cases m)
      (auto simp: shipping_proof_error_def Let_def missing_string_def proof_types
        isValidTrackingNumber_def split: if_splits)
qed

section \<open>Disputes and completion\<close>

definition order_disputed :: "order \<Rightarrow> bool" where
  "order_disputed b \<longleftrightarrow> or_HasDispute b \<and> or_Status b \<in> {OrderDisputeOpen, OrderPartiallyRefunded}"

interpretation order_dispute: kept_fact order_step order_disputed
proof unfold_locales
  fix a b
  assume "order_step a b" "order_disputed a"
  then show "order_disputed b"
    unfolding order_step_simps
  proof (elim exE)
    fix c err
    assume "order_do c a = (err, b)"
    then show "order_disputed b"
      using \<open>order_disputed a\<close>
      by (cases c) (auto simp: mutation order_setters order_disputed_def Let_def
          order_canTransition_def split: order_splits)
  qed
qed

section \<open>Properties\<close>

definition sample_pricing :: order_pricing where
  "sample_pricing = \<lparr>op_Quantity = 2, op_UnitPrice = 500, op_Subtotal = 1000, op_ShippingTotal = 100,
     op_CommissionPercent = 5, op_CommissionAmount = 50, op_ServiceFeeAmount = 25,
     op_TotalPayableAmount = 1125, op_TotalBeforeCoinsAmount = 1100\<rparr>"

definition sample_setup :: order_shipping_setup where
  "sample_setup = \<lparr>os_ShippingSetupID = Some 40, os_ShippingSetupName = ''JNE'',
     os_ShippingTransportType = ''plane'', os_ShippingSource = None, os_ShippingQuoteID = None,
     os_ShippingQuotePrice = None\<rparr>"

definition sample_order :: order where
  "sample_order =
    (case NewOrderFromSource 1 0 ''ORD-1'' 2 3 SourceForSale 4 None 2 500 1000 100 5 50 25 1100
       sample_setup ''1_3_days'' None 1000 of Inr o1 \<Rightarrow> o1)"

definition sample_paid :: order where
  "sample_paid = snd (order_MarkPaid 500 500 sample_order)"

definition sample_shipped :: order where
  "sample_shipped = snd (order_MarkShipped 1000 1000 1000 (Some ''tracking'') (Some ''JP123456'') None None sample_paid)"

lemmas sample_order_defs = sample_shipped_def sample_paid_def sample_order_def sample_setup_def
  NewOrderFromSource_def mutation order_canTransition_def preparationTimeToDays_def Let_def
  money_defs maxUnitPrice_def money_Add_def wrap64_def go_arith order_consts shipping_proof_error_def
  missing_string_def proof_types isValidTrackingNumber_def

lemma sample_order_run: "order_step\<^sup>*\<^sup>* sample_order sample_paid" "order_step\<^sup>*\<^sup>* sample_order sample_shipped"
proof -
  have a: "order_step sample_order sample_paid"
    by (rule order_step [where c = "OMarkPaid 500 500" and err = None]) (simp add: sample_order_defs)
  have b: "order_step sample_paid sample_shipped"
    by (rule order_step [where err = None
        and c = "OMarkShipped 1000 1000 1000 (Some ''tracking'') (Some ''JP123456'') None None"])
      (simp add: sample_order_defs)
  from a show "order_step\<^sup>*\<^sup>* sample_order sample_paid" by simp
  from a b show "order_step\<^sup>*\<^sup>* sample_order sample_shipped" by auto
qed

text \<open>
  Whatever methods are called on an order, its status only moves forward
  along the transition table (it never comes back to a status it left, and a
  terminal status is final), and the deal itself never changes: parties,
  source, the whole pricing snapshot, the shipping choice, the pricing token and
  the payment deadline.
\<close>

theorem order_moves_forward:
  assumes "order_step\<^sup>*\<^sup>* a b" "order_step\<^sup>*\<^sup>* b c"
  shows "order_canTransition\<^sup>*\<^sup>* (or_Status a) (or_Status b)
    \<and> (or_Status c = or_Status a \<longrightarrow> or_Status b = or_Status a)
    \<and> (or_Status a \<in> {OrderCompleted, OrderCancelled, OrderCancelledTimeout, OrderRefunded,
          OrderPartiallyRefunded, OrderExpired} \<longrightarrow> or_Status b = or_Status a)
    \<and> or_Pricing b = or_Pricing a \<and> or_BuyerID b = or_BuyerID a \<and> or_SellerID b = or_SellerID a
    \<and> same_deal a b"
proof -
  have "or_Status a \<in> {OrderCompleted, OrderCancelled, OrderCancelledTimeout, OrderRefunded,
          OrderPartiallyRefunded, OrderExpired} \<Longrightarrow> or_Status b = or_Status a"
    using order_life.terminal_absorbing [OF assms(1)] by (auto simp: order_canTransition_def)
  moreover have "same_deal a b"
    using order_deal.run_keeps [OF assms(1), of a] by (simp add: same_deal_def)
  ultimately show ?thesis
    using order_life.run_path [OF assms(1)] order_life.never_returns [OF assms]
    unfolding same_deal_def by blast
qed

theorem order_moves_forward_witness:
  "order_canTransition\<^sup>*\<^sup>* OrderPending OrderPaid \<and> or_Pricing sample_paid = or_Pricing sample_order"
  using order_moves_forward [OF sample_order_run(1), of sample_paid]
  by (simp add: sample_order_defs)

lemma AutoReleaseDuration_eq: "AutoReleaseDuration = 5 * 86400000000000"
  by (simp add: order_consts)

lemma hour_days: "2 * 24 * hour = 2 * 86400000000000"
  by (simp add: hour_def)

text \<open>
  \<open>MarkShipped\<close> succeeds exactly on a paid order, no later than two days
  after its ready-to-ship deadline, with one of three proofs: a tracking number
  of at least six bytes, a well-formed Indonesian phone number, or a manual
  proof with media. It then starts the five-day release timer, unless one is
  already running, which it never resets, and stores the proof it was given;
  otherwise it leaves the order untouched.
\<close>

theorem MarkShipped_exactly:
  "(order_MarkShipped now rel upd pt tr m memo a = (None, b) \<longleftrightarrow>
     or_Status a = OrderPaid
     \<and> (\<forall>d. or_ReadyToShipBy a = Some d \<longrightarrow> now \<le> d + 2 * 86400000000000)
     \<and> (pt = Some ''tracking'' \<and> (\<exists>n. tr = Some n \<and> 6 \<le> length n)
        \<or> pt = Some ''phone'' \<and> (\<exists>n. tr = Some n \<and> isValidPhoneFormat n)
        \<or> pt = Some ''manual'' \<and> m \<noteq> None \<and> m \<noteq> Some '''')
     \<and> b = a\<lparr>or_Status := OrderShipped,
             or_AutoReleaseAt := (case or_AutoReleaseAt a of
               None \<Rightarrow> Some (rel + 5 * 86400000000000) | Some r \<Rightarrow> Some r),
             or_ProofType := pt, or_TrackingNumber := tr, or_ShippingProofMedia := m,
             or_ShippingNote := memo, or_UpdatedAt := upd\<rparr>)
   \<and> (fst (order_MarkShipped now rel upd pt tr m memo a) \<noteq> None \<longrightarrow>
        snd (order_MarkShipped now rel upd pt tr m memo a) = a)"
proof (rule conjI)
  show "fst (order_MarkShipped now rel upd pt tr m memo a) \<noteq> None \<longrightarrow>
        snd (order_MarkShipped now rel upd pt tr m memo a) = a"
    using order_do_error [of "OMarkShipped now rel upd pt tr m memo" a]
    by (cases "order_MarkShipped now rel upd pt tr m memo a") auto
qed (simp only: order_MarkShipped_None shipping_proof_error_None AutoReleaseDuration_eq hour_days)

theorem MarkShipped_exactly_witness:
  "fst (order_MarkShipped 1000 1000 1000 (Some ''tracking'') (Some ''JP123'') None None sample_paid) \<noteq> None"
  using MarkShipped_exactly [of 1000 1000 1000 "Some ''tracking''" "Some ''JP123''" None None sample_paid
      "snd (order_MarkShipped 1000 1000 1000 (Some ''tracking'') (Some ''JP123'') None None sample_paid)"]
  by (cases "order_MarkShipped 1000 1000 1000 (Some ''tracking'') (Some ''JP123'') None None sample_paid") auto



text \<open>
  Once a dispute is opened on an order, no sequence of the order's own
  methods lets it complete: the dispute flag stays, completion is refused, the
  refund window is closed and the confirmation cannot be extended.
\<close>

theorem dispute_blocks_completion:
  assumes "order_MarkDisputeOpen t a = (None, b)" "order_step\<^sup>*\<^sup>* b c"
  shows "or_HasDispute c \<and> order_ValidateComplete c \<noteq> None \<and> \<not> order_IsRefundWindowOpen now c
    \<and> fst (order_ExtendConfirmationPeriod now c) \<noteq> None"
proof -
  have "order_disputed b"
    using assms(1) by (auto simp: order_MarkDisputeOpen_def order_disputed_def split: if_splits)
  then have "order_disputed c" by (rule order_dispute.run_keeps [OF assms(2)])
  then show ?thesis
    by (auto simp: order_disputed_def order_ValidateComplete_def order_IsRefundWindowOpen_def
        order_ExtendConfirmationPeriod_def)
qed

theorem dispute_blocks_completion_witness:
  "order_ValidateComplete sample_shipped = None
    \<and> order_ValidateComplete (snd (order_MarkDisputeOpen 2000 sample_shipped)) \<noteq> None"
  using dispute_blocks_completion [of 2000 sample_shipped "snd (order_MarkDisputeOpen 2000 sample_shipped)"
      "snd (order_MarkDisputeOpen 2000 sample_shipped)"]
  by (simp add: sample_order_defs order_ValidateComplete_def)

text \<open>
  The decision to turn a late gateway success into a refund is exactly the
  complement of what payment finalization would do: it is taken iff the order
  is neither already paid nor both unexpired and accepted by \<open>MarkPaid\<close>. And
  every order that \<open>MarkPaid\<close> accepts was pending and leaves with a shipment
  deadline of 3, 7 or 15 days.
\<close>

theorem late_payment_decision:
  "(IsInvalidForPaymentFinalization now (or_Status a) (or_PaymentExpiresAt a) \<longleftrightarrow>
      \<not> (or_Status a = OrderPaid
         \<or> \<not> order_IsExpired now a \<and> fst (order_MarkPaid t u a) = None))
   \<and> (fst (order_MarkPaid t u a) = None \<longleftrightarrow> or_Status a = OrderPending)
   \<and> (or_Status a = OrderPending \<longrightarrow>
       (\<exists>days \<in> {3, 7, 15}. or_ReadyToShipBy (snd (order_MarkPaid t u a)) = Some (t + days * 24 * hour)))"
  by (cases "or_Status a")
    (auto simp: IsInvalidForPaymentFinalization_def order_MarkPaid_def order_IsExpired_def Let_def
      order_canTransition_def preparationTimeToDays_def time_add_def)

theorem late_payment_decision_witness:
  "IsInvalidForPaymentFinalization 1001 OrderPending 1000
    \<and> or_ReadyToShipBy sample_paid = Some (500 + 3 * 24 * hour)"
proof -
  have "or_Status sample_order = OrderPending" "or_PaymentExpiresAt sample_order = 1000"
    by (simp_all add: sample_order_defs)
  then have "IsInvalidForPaymentFinalization 1001 OrderPending 1000"
    using late_payment_decision [of 1001 sample_order 500 500] by (simp add: order_IsExpired_def after_def)
  then show ?thesis by (simp add: sample_order_defs)
qed

text \<open>
  The pre-shipment dispute does not do what its comment promises. The
  buffer adds the grace period's 48 hours as 48 nanoseconds, so a buyer becomes
  eligible one day after the ready-to-ship deadline, a day before the order is
  overdue and while the seller may still ship; and an order in the only status
  that makes a buyer eligible always refuses to open a dispute.
\<close>

theorem pre_ship_dispute_is_early_and_dead:
  assumes "or_Status a = OrderPaid" "or_ReadyToShipBy a = Some d"
  shows "(order_IsBuyerEligibleForPreShipDispute now a \<longleftrightarrow> d + 24 * hour + 48 < now)
    \<and> (order_IsShipmentOverdue now a \<longleftrightarrow> d + 48 * hour < now)
    \<and> order_MarkDisputeOpen t a = (Some (OrderInvalidTransition OrderPaid OrderDisputeOpen), a)"
  using assms
  by (auto simp: order_IsBuyerEligibleForPreShipDispute_def order_IsShipmentOverdue_def
      order_MarkDisputeOpen_def order_canTransition_def go_arith order_consts)

theorem pre_ship_dispute_is_early_and_dead_witness:
  "\<exists>now. order_IsBuyerEligibleForPreShipDispute now sample_paid \<and> \<not> order_IsShipmentOverdue now sample_paid"
proof -
  have "or_Status sample_paid = OrderPaid" "or_ReadyToShipBy sample_paid = Some (500 + 72 * hour)"
    by (simp_all add: sample_order_defs)
  from pre_ship_dispute_is_early_and_dead [OF this, of "500 + 97 * hour" 0]
  show ?thesis by (auto simp: hour_def)
qed

end
