(* ===== verification/Overdue.thy ===== *)
theory Overdue
  imports Order
begin

text \<open>
  \<open>commerce/order/entity/overdue.go\<close>: how late a paid order is, in days and in
  tiers. The code computes the days as \<open>int(duration.Hours() / 24)\<close> in floating
  point; the model divides exactly. The two agree at every tier boundary (three
  and seven days are exact in a double, and the quotients below them round
  below them); far beyond the last tier the day count alone may be one higher
  in the last nanoseconds of a day.
\<close>

datatype OverdueTier = OverdueNone | OverdueTier1 | OverdueTier2 | OverdueTier3

text \<open>Tiers are ordered by severity, so that the library's order automation applies to them.\<close>

fun tier_level :: "OverdueTier \<Rightarrow> nat" where
  "tier_level OverdueNone = 0"
| "tier_level OverdueTier1 = 1"
| "tier_level OverdueTier2 = 2"
| "tier_level OverdueTier3 = 3"

lemma tier_level_inj: "tier_level s = tier_level t \<Longrightarrow> s = t"
  by (cases s; cases t) simp_all

instantiation OverdueTier :: linorder
begin

definition less_eq_OverdueTier :: "OverdueTier \<Rightarrow> OverdueTier \<Rightarrow> bool" where
  "less_eq_OverdueTier s t \<longleftrightarrow> tier_level s \<le> tier_level t"

definition less_OverdueTier :: "OverdueTier \<Rightarrow> OverdueTier \<Rightarrow> bool" where
  "less_OverdueTier s t \<longleftrightarrow> tier_level s < tier_level t"

instance
  by standard (auto simp: less_eq_OverdueTier_def less_OverdueTier_def dest: tier_level_inj)

end

record overdue_info =
  oin_Tier :: OverdueTier
  oin_DaysOverdue :: int
  oin_IsOverdue :: bool

definition overdue_tier :: "int \<Rightarrow> OverdueTier" where
  "overdue_tier daysOverdue =
    (if daysOverdue < 3 then OverdueTier1 else if daysOverdue < 7 then OverdueTier2 else OverdueTier3)"

definition order_CalculateOverdueInfo :: "time \<Rightarrow> order \<Rightarrow> overdue_info" where
  "order_CalculateOverdueInfo now o1 =
    (let info = \<lparr>oin_Tier = OverdueNone, oin_DaysOverdue = 0, oin_IsOverdue = False\<rparr>
     in if or_Status o1 \<noteq> OrderPaid then info
        else case or_ReadyToShipBy o1 of
          None \<Rightarrow> info
        | Some readyBy \<Rightarrow>
            if before now readyBy \<or> now = readyBy then info
            else
              let duration = time_sub now readyBy;
                  daysOverdue = duration div hour div 24
              in \<lparr>oin_Tier = overdue_tier daysOverdue, oin_DaysOverdue = daysOverdue, oin_IsOverdue = True\<rparr>)"

fun tier_badge_label :: "OverdueTier \<Rightarrow> string" where
  "tier_badge_label OverdueTier1 = ''Melewati Estimasi''"
| "tier_badge_label OverdueTier2 = ''Terlambat''"
| "tier_badge_label OverdueTier3 = ''Sangat Terlambat''"
| "tier_badge_label OverdueNone = ''''"

definition order_GetOverdueBadgeLabel :: "time \<Rightarrow> order \<Rightarrow> string" where
  "order_GetOverdueBadgeLabel now o1 =
    (let info = order_CalculateOverdueInfo now o1
     in if \<not> oin_IsOverdue info then '''' else tier_badge_label (oin_Tier info))"

fun tier_badge_variant :: "OverdueTier \<Rightarrow> string" where
  "tier_badge_variant OverdueTier1 = ''warning''"
| "tier_badge_variant OverdueTier2 = ''error''"
| "tier_badge_variant OverdueTier3 = ''error''"
| "tier_badge_variant OverdueNone = ''''"

definition order_GetOverdueBadgeVariant :: "time \<Rightarrow> order \<Rightarrow> string" where
  "order_GetOverdueBadgeVariant now o1 =
    (let info = order_CalculateOverdueInfo now o1
     in if \<not> oin_IsOverdue info then '''' else tier_badge_variant (oin_Tier info))"

fun tier_warning :: "OverdueTier \<Rightarrow> string" where
  "tier_warning OverdueTier1 = ''Pesanan ini sudah melewati estimasi siap kirim.''"
| "tier_warning OverdueTier2 = ''Pesanan ini terlambat dari estimasi siap kirim.''"
| "tier_warning OverdueTier3 = ''Pesanan ini sangat terlambat dari estimasi siap kirim.''"
| "tier_warning OverdueNone = ''''"

definition order_GetOverdueWarningMessage :: "time \<Rightarrow> order \<Rightarrow> string" where
  "order_GetOverdueWarningMessage now o1 =
    (let info = order_CalculateOverdueInfo now o1
     in if \<not> oin_IsOverdue info then '''' else tier_warning (oin_Tier info))"

definition order_IsEligibleForReminder :: "time \<Rightarrow> time option \<Rightarrow> order \<Rightarrow> bool" where
  "order_IsEligibleForReminder now lastReminderAt o1 \<longleftrightarrow>
     oin_IsOverdue (order_CalculateOverdueInfo now o1) \<and> or_Status o1 = OrderPaid"

definition order_IsEligibleForBuyerCancelDueToOverdue :: "time \<Rightarrow> order \<Rightarrow> bool" where
  "order_IsEligibleForBuyerCancelDueToOverdue now o1 =
    (let info = order_CalculateOverdueInfo now o1
     in oin_IsOverdue info \<and> (oin_Tier info = OverdueTier2 \<or> oin_Tier info = OverdueTier3)
        \<and> or_Status o1 = OrderPaid)"

lemma overdue_tier_mono: "d \<le> e \<Longrightarrow> overdue_tier d \<le> overdue_tier e"
  by (auto simp: overdue_tier_def less_eq_OverdueTier_def)

text \<open>The tier as a function of the time alone, for a paid order due at \<open>d\<close>.\<close>

definition tier_spec :: "time \<Rightarrow> time \<Rightarrow> OverdueTier" where
  "tier_spec now d =
    (if now \<le> d then OverdueNone
     else if now < d + 3 * 24 * hour then OverdueTier1
     else if now < d + 7 * 24 * hour then OverdueTier2
     else OverdueTier3)"

lemma overdue_days: "(x::int) div hour div 24 = x div (24 * hour)"
  by (simp add: hour_def div_mult2_eq [symmetric] zdiv_zmult2_eq [symmetric])

lemma CalculateOverdueInfo_tier:
  assumes "or_Status a = OrderPaid" "or_ReadyToShipBy a = Some d"
  shows "oin_Tier (order_CalculateOverdueInfo now a) = tier_spec now d"
proof (cases "now \<le> d")
  case True
  then show ?thesis
    using assms by (auto simp: order_CalculateOverdueInfo_def tier_spec_def before_def)
next
  case False
  have dv: "time_sub now d div (24 * hour) < k \<longleftrightarrow> time_sub now d < k * (24 * hour)" for k
    by (rule int_div_less) (simp add: hour_def)
  have "time_sub now d < 3 * (24 * hour) \<longleftrightarrow> now < d + 3 * 24 * hour"
    "time_sub now d < 7 * (24 * hour) \<longleftrightarrow> now < d + 7 * 24 * hour"
    using False by (auto simp: time_sub_def i64_defs hour_def)
  then show ?thesis
    using assms False
    by (simp add: order_CalculateOverdueInfo_def Let_def before_def overdue_days overdue_tier_def dv tier_spec_def)
qed

text \<open>
  The overdue tier of a paid order depends on its deadline and the clock
  alone and never improves with time: nothing up to the deadline, the first
  tier for the next three days, the second until the seventh day, then the
  third. The buyer's self-cancel for lateness opens exactly at three days, after
  the order-level cancel of the two-day grace period, which it implies.
\<close>

theorem overdue_tiers:
  assumes "or_Status a = OrderPaid" "or_ReadyToShipBy a = Some d" "now \<le> later"
  shows "oin_Tier (order_CalculateOverdueInfo now a) =
      (if now \<le> d then OverdueNone
       else if now < d + 3 * 24 * hour then OverdueTier1
       else if now < d + 7 * 24 * hour then OverdueTier2
       else OverdueTier3)
    \<and> oin_Tier (order_CalculateOverdueInfo now a) \<le> oin_Tier (order_CalculateOverdueInfo later a)
    \<and> (order_IsEligibleForBuyerCancelDueToOverdue now a \<longleftrightarrow> d + 3 * 24 * hour \<le> now)
    \<and> (order_IsEligibleForBuyerCancelDueToOverdue now a \<longrightarrow> order_IsBuyerEligibleForCancel now a)"
proof -
  have t: "oin_Tier (order_CalculateOverdueInfo n a) = tier_spec n d" for n
    by (rule CalculateOverdueInfo_tier [OF assms(1,2)])
  have o1: "oin_IsOverdue (order_CalculateOverdueInfo now a) \<longleftrightarrow> d < now"
    using assms by (auto simp: order_CalculateOverdueInfo_def Let_def before_def)
  have c: "order_IsEligibleForBuyerCancelDueToOverdue now a \<longleftrightarrow> d + 3 * 24 * hour \<le> now"
    using assms(1) by (auto simp: order_IsEligibleForBuyerCancelDueToOverdue_def Let_def t o1 tier_spec_def hour_def)
  have "order_IsBuyerEligibleForCancel now a \<longleftrightarrow> d + 2 * 24 * hour < now"
    using assms by (simp add: order_IsBuyerEligibleForCancel_def order_IsShipmentOverdue_def order_consts go_arith)
  then show ?thesis
    using assms(3) by (auto simp: t c tier_spec_def less_eq_OverdueTier_def hour_def)
qed

theorem overdue_tiers_witness:
  "oin_Tier (order_CalculateOverdueInfo (500 + 7 * 24 * hour) sample_paid) = OverdueTier2"
proof -
  have "or_Status sample_paid = OrderPaid" "or_ReadyToShipBy sample_paid = Some (500 + 72 * hour)"
    by (simp_all add: sample_order_defs)
  from overdue_tiers [OF this, of "500 + 7 * 24 * hour" "500 + 7 * 24 * hour"]
  show ?thesis by (simp add: hour_def)
qed

end
