(* ===== verification/Escrow.thy ===== *)
theory Escrow
  imports Lifecycle
begin

text \<open>
  \<open>core/escrow/entity/escrow.go\<close>: the escrow of an order, held until it is
  either released to the seller or refunded to the buyer.
\<close>

datatype EscrowStatus = EscrowHolding | EscrowReleased | EscrowRefunded | EscrowOther string

fun escrowStatus_String :: "EscrowStatus \<Rightarrow> string" where
  "escrowStatus_String EscrowHolding = ''holding''"
| "escrowStatus_String EscrowReleased = ''released''"
| "escrowStatus_String EscrowRefunded = ''refunded''"
| "escrowStatus_String (EscrowOther s) = s"

fun escrowStatus_IsValid :: "EscrowStatus \<Rightarrow> bool" where
  "escrowStatus_IsValid (EscrowOther _) = False"
| "escrowStatus_IsValid _ = True"

definition escrowStatus_IsFinal :: "EscrowStatus \<Rightarrow> bool" where
  "escrowStatus_IsFinal s \<longleftrightarrow> s = EscrowReleased \<or> s = EscrowRefunded"

record escrow =
  es_ID :: uuid
  es_OrderID :: uuid
  es_Amount :: i64
  es_Status :: EscrowStatus
  es_PaymentID :: "uuid option"
  es_CreatedAt :: time
  es_ReleasedAt :: "time option"
  es_RefundedAt :: "time option"

datatype escrow_error =
    EscrowInvalidStatus EscrowStatus | EscrowNegativeAmount i64 | EscrowNilOrder
  | EscrowAlreadyFinalized uuid EscrowStatus

definition escrow_IsValid :: "escrow \<Rightarrow> escrow_error option" where
  "escrow_IsValid e =
    (if \<not> escrowStatus_IsValid (es_Status e) then Some (EscrowInvalidStatus (es_Status e))
     else if es_Amount e < 0 then Some (EscrowNegativeAmount (es_Amount e))
     else None)"

definition NewEscrow :: "uuid \<Rightarrow> time \<Rightarrow> uuid \<Rightarrow> i64 \<Rightarrow> escrow_error + escrow" where
  "NewEscrow new_id now orderID amount =
    (if orderID = uuid_nil then Inl EscrowNilOrder
     else if amount < 0 then Inl (EscrowNegativeAmount amount)
     else Inr \<lparr>es_ID = new_id, es_OrderID = orderID, es_Amount = amount, es_Status = EscrowHolding,
               es_PaymentID = None, es_CreatedAt = now, es_ReleasedAt = None, es_RefundedAt = None\<rparr>)"

definition escrow_Release :: "time \<Rightarrow> escrow \<Rightarrow> (escrow_error, escrow) mutation" where
  [mutation]: "escrow_Release now e =
    (if escrowStatus_IsFinal (es_Status e) then fail (EscrowAlreadyFinalized (es_ID e) (es_Status e)) e
     else ok (e\<lparr>es_Status := EscrowReleased, es_ReleasedAt := Some now\<rparr>))"

definition escrow_Refund :: "time \<Rightarrow> escrow \<Rightarrow> (escrow_error, escrow) mutation" where
  [mutation]: "escrow_Refund now e =
    (if escrowStatus_IsFinal (es_Status e) then fail (EscrowAlreadyFinalized (es_ID e) (es_Status e)) e
     else ok (e\<lparr>es_Status := EscrowRefunded, es_RefundedAt := Some now\<rparr>))"

section \<open>Calls and runs\<close>

datatype escrow_call = ERelease time | ERefund time

fun escrow_do :: "escrow_call \<Rightarrow> escrow \<Rightarrow> (escrow_error, escrow) mutation" where
  "escrow_do (ERelease t) e = escrow_Release t e"
| "escrow_do (ERefund t) e = escrow_Refund t e"

inductive escrow_step :: "escrow \<Rightarrow> escrow \<Rightarrow> bool" where
  escrow_step: "escrow_do c a = (err, b) \<Longrightarrow> escrow_step a b"

inductive_simps escrow_step_simps: "escrow_step a b"

definition escrow_settled :: "EscrowStatus \<Rightarrow> EscrowStatus \<Rightarrow> bool" where
  "escrow_settled s t \<longleftrightarrow> \<not> escrowStatus_IsFinal s \<and> escrowStatus_IsFinal t"

lemma escrow_do_status:
  "escrow_do c a = (err, b) \<Longrightarrow>
     es_Status b = es_Status a \<or> escrow_settled (es_Status a) (es_Status b)"
  by (cases c) (auto simp: mutation escrow_settled_def escrowStatus_IsFinal_def split: if_splits)

interpretation escrow_life: ranked_lifecycle es_Status escrow_settled escrow_step
    "\<lambda>s. if escrowStatus_IsFinal s then 1 else 0"
  by unfold_locales (auto simp: escrow_step_simps escrow_settled_def dest: escrow_do_status)

text \<open>The timestamps of an escrow say which way it was settled, and never both ways.\<close>

definition escrow_stamped :: "escrow \<Rightarrow> bool" where
  "escrow_stamped e \<longleftrightarrow>
     escrowStatus_IsValid (es_Status e) \<and> 0 \<le> es_Amount e
   \<and> (es_ReleasedAt e \<noteq> None \<longleftrightarrow> es_Status e = EscrowReleased)
   \<and> (es_RefundedAt e \<noteq> None \<longleftrightarrow> es_Status e = EscrowRefunded)"

interpretation escrow_stamps: kept_fact escrow_step
    "\<lambda>b. escrow_stamped b \<and> es_Amount b = n \<and> es_OrderID b = i" for n i
proof unfold_locales
  fix a b
  assume "escrow_step a b" and a: "escrow_stamped a \<and> es_Amount a = n \<and> es_OrderID a = i"
  then obtain c err where "escrow_do c a = (err, b)" by (auto simp: escrow_step_simps)
  with a show "escrow_stamped b \<and> es_Amount b = n \<and> es_OrderID b = i"
    by (cases c) (auto simp: mutation escrow_stamped_def escrowStatus_IsFinal_def split: if_splits)
qed

text \<open>
  Money held for an order leaves the escrow once: from the escrow a payment
  creates, whatever releases and refunds are attempted, in any order, the first
  one settles it for good; the amount and the order never change, and it is
  never both released and refunded.
\<close>

theorem escrow_settles_once:
  assumes "NewEscrow i t oid n = Inr a" "escrow_step\<^sup>*\<^sup>* a b" "escrow_step\<^sup>*\<^sup>* b c"
  shows "es_Amount b = n \<and> es_OrderID b = oid
    \<and> (es_ReleasedAt b = None \<or> es_RefundedAt b = None)
    \<and> escrow_IsValid b = None
    \<and> (es_Status b \<noteq> EscrowHolding \<longrightarrow> es_Status c = es_Status b)"
proof -
  have "escrow_stamped a \<and> es_Amount a = n \<and> es_OrderID a = oid"
    using assms(1) by (auto simp: NewEscrow_def escrow_stamped_def split: if_splits)
  note b = escrow_stamps.run_keeps [OF assms(2) this]
  have "es_Status b \<noteq> EscrowHolding \<Longrightarrow> es_Status c = es_Status b"
    using escrow_life.terminal_absorbing [OF assms(3)] b
    by (cases "es_Status b") (auto simp: escrow_settled_def escrowStatus_IsFinal_def escrow_stamped_def)
  with b show ?thesis
    by (auto simp: escrow_stamped_def escrow_IsValid_def)
qed

definition sample_escrow :: escrow where
  "sample_escrow = \<lparr>es_ID = 1, es_OrderID = 7, es_Amount = 500, es_Status = EscrowHolding,
     es_PaymentID = None, es_CreatedAt = 0, es_ReleasedAt = None, es_RefundedAt = None\<rparr>"

theorem escrow_settles_once_witness:
  "es_Status (snd (escrow_Refund 9 (snd (escrow_Release 8 sample_escrow)))) = EscrowReleased"
proof -
  let ?b = "snd (escrow_Release 8 sample_escrow)"
  have "NewEscrow 1 0 7 500 = Inr sample_escrow" by (simp add: NewEscrow_def sample_escrow_def)
  moreover have "escrow_step sample_escrow ?b"
    by (rule escrow_step [where c = "ERelease 8" and err = None])
      (simp add: sample_escrow_def mutation escrowStatus_IsFinal_def)
  moreover have "escrow_step ?b (snd (escrow_Refund 9 ?b))"
    by (rule escrow_step [where c = "ERefund 9" and err = "fst (escrow_Refund 9 ?b)"]) simp
  moreover have "es_Status ?b = EscrowReleased"
    by (simp add: sample_escrow_def mutation escrowStatus_IsFinal_def)
  ultimately show ?thesis
    using escrow_settles_once [of 1 0 7 500 sample_escrow ?b "snd (escrow_Refund 9 ?b)"] by auto
qed

end
