(* ===== verification/Refund.thy ===== *)
theory Refund
  imports Order
begin

text \<open>
  \<open>finance/refund/entity\<close>: a refund request and its two axes, the decision
  (who decided, and whether that is final) and the settlement at the payment
  gateway (\<open>refund.go\<close>), and the policy that maps a reason to amounts
  (\<open>refund_policy.go\<close>).
\<close>

section \<open>Statuses\<close>

datatype RefundStatus =
    RefundPendingSellerReview | RefundSellerApproved | RefundSellerRejected | RefundEscalatedToAdmin
  | RefundAdminRefunded | RefundAdminReleased | RefundSystemRefunded | RefundOther string

datatype GatewayRefundStatus =
    GatewayRefundUnsubmitted | GatewayRefundPending | GatewayRefundSucceeded | GatewayRefundFailed
  | GatewayRefundOther string

fun gatewayRefund_IsValid :: "GatewayRefundStatus \<Rightarrow> bool" where
  "gatewayRefund_IsValid (GatewayRefundOther _) = False"
| "gatewayRefund_IsValid _ = True"

definition gatewayRefund_IsTerminal :: "GatewayRefundStatus \<Rightarrow> bool" where
  "gatewayRefund_IsTerminal s \<longleftrightarrow> s = GatewayRefundSucceeded \<or> s = GatewayRefundFailed"

datatype RefundReason =
    ReasonItemNotReceived | ReasonItemNotAsDescribed | ReasonItemDamaged | ReasonDefectiveItem
  | ReasonWrongItem | ReasonChangeOfMind | ReasonDeliveryDelay | ReasonOther
  | ReasonGatewayCapturedAfterOrderInvalid | ReasonUnknown string

record refund =
  rf_ID :: uuid
  rf_OrderID :: uuid
  rf_BuyerID :: uuid
  rf_SellerID :: uuid
  rf_Reason :: RefundReason
  rf_Description :: "string option"
  rf_EvidenceURLs :: "string list"
  rf_Status :: RefundStatus
  rf_RequestedAmount :: i64
  rf_SellerApprovedPercent :: "int option"
  rf_SellerApprovedAmount :: "i64 option"
  rf_SellerNotes :: "string option"
  rf_SellerReviewedAt :: "time option"
  rf_AdminApprovedPercent :: "int option"
  rf_AdminApprovedAmount :: "i64 option"
  rf_AdminNotes :: "string option"
  rf_ReviewedBy :: uuid
  rf_AdminReviewedAt :: "time option"
  rf_FinalRefundAmount :: "i64 option"
  rf_RefundedProductAmount :: "i64 option"
  rf_RefundedShippingAmount :: "i64 option"
  rf_CoinsRefundedAmount :: "i64 option"
  rf_OpenedAt :: time
  rf_ApprovedAt :: "time option"
  rf_RejectedAt :: "time option"
  rf_RefundedAt :: "time option"
  rf_GatewayRefundID :: "string option"
  rf_GatewayStatus :: GatewayRefundStatus
  rf_GatewayAttempts :: int
  rf_LastGatewayError :: "string option"
  rf_GatewayIdempotencyKey :: "string option"
  rf_GatewayRequestedAt :: "time option"
  rf_GatewayAcknowledgedAt :: "time option"
  rf_CreatedAt :: time
  rf_UpdatedAt :: time

datatype refund_error =
    RefundInvalidTransition RefundStatus RefundStatus
  | RefundAlreadyResolved uuid RefundStatus
  | InvalidGatewayTransition GatewayRefundStatus GatewayRefundStatus

section \<open>Questions\<close>

definition refund_IsPending :: "refund \<Rightarrow> bool" where
  "refund_IsPending r \<longleftrightarrow> rf_Status r = RefundPendingSellerReview"

definition refund_IsRejected :: "refund \<Rightarrow> bool" where
  "refund_IsRejected r \<longleftrightarrow> rf_Status r = RefundSellerRejected"

definition refund_IsEscalated :: "refund \<Rightarrow> bool" where
  "refund_IsEscalated r \<longleftrightarrow> rf_Status r = RefundEscalatedToAdmin"

fun status_is_final :: "RefundStatus \<Rightarrow> bool" where
  "status_is_final RefundSellerApproved = True"
| "status_is_final RefundAdminRefunded = True"
| "status_is_final RefundAdminReleased = True"
| "status_is_final RefundSystemRefunded = True"
| "status_is_final _ = False"

definition refund_IsDecisionFinal :: "refund \<Rightarrow> bool" where
  "refund_IsDecisionFinal r = status_is_final (rf_Status r)"

definition refund_AwaitsDecision :: "refund \<Rightarrow> bool" where
  "refund_AwaitsDecision r \<longleftrightarrow> \<not> refund_IsDecisionFinal r"

fun status_owes_buyer :: "RefundStatus \<Rightarrow> bool" where
  "status_owes_buyer RefundSellerApproved = True"
| "status_owes_buyer RefundAdminRefunded = True"
| "status_owes_buyer RefundSystemRefunded = True"
| "status_owes_buyer _ = False"

definition refund_OwesBuyerRefund :: "refund \<Rightarrow> bool" where
  "refund_OwesBuyerRefund r = status_owes_buyer (rf_Status r)"

definition refund_IsSettlementPending :: "refund \<Rightarrow> bool" where
  "refund_IsSettlementPending r =
    (if \<not> refund_OwesBuyerRefund r then False else rf_GatewayStatus r \<noteq> GatewayRefundSucceeded)"

definition refund_BlocksOrderRelease :: "bool \<Rightarrow> refund \<Rightarrow> bool" where
  "refund_BlocksOrderRelease refundWindowOpen r =
    (if refund_IsSettlementPending r then True else refund_AwaitsDecision r \<and> refundWindowOpen)"

definition refund_CanEscalate :: "refund \<Rightarrow> bool" where
  "refund_CanEscalate r \<longleftrightarrow> rf_Status r = RefundSellerRejected"

section \<open>Decisions\<close>

text \<open>The error of a decision that finds the request in another status.\<close>

definition refund_decision_error :: "RefundStatus \<Rightarrow> refund \<Rightarrow> refund_error" where
  "refund_decision_error target r =
    (if refund_IsDecisionFinal r then RefundAlreadyResolved (rf_ID r) (rf_Status r)
     else RefundInvalidTransition (rf_Status r) target)"

definition refund_SellerApprove ::
    "i64 \<Rightarrow> string option \<Rightarrow> time \<Rightarrow> refund \<Rightarrow> (refund_error, refund) mutation" where
  [mutation]: "refund_SellerApprove approvedAmount notes now r =
    (if rf_Status r \<noteq> RefundPendingSellerReview
     then fail (refund_decision_error RefundSellerApproved r) r
     else ok (r\<lparr>rf_Status := RefundSellerApproved,
                rf_SellerApprovedAmount := Some approvedAmount,
                rf_SellerApprovedPercent :=
                  (if rf_RequestedAmount r > 0
                   then Some (wrap64 (approvedAmount * 100) sdiv rf_RequestedAmount r)
                   else rf_SellerApprovedPercent r),
                rf_SellerNotes := notes, rf_SellerReviewedAt := Some now,
                rf_ApprovedAt := Some now, rf_UpdatedAt := now\<rparr>))"

definition refund_SellerReject ::
    "string option \<Rightarrow> time \<Rightarrow> refund \<Rightarrow> (refund_error, refund) mutation" where
  [mutation]: "refund_SellerReject notes now r =
    (if rf_Status r \<noteq> RefundPendingSellerReview
     then fail (refund_decision_error RefundSellerRejected r) r
     else ok (r\<lparr>rf_Status := RefundSellerRejected, rf_SellerNotes := notes,
                rf_SellerReviewedAt := Some now, rf_RejectedAt := Some now, rf_UpdatedAt := now\<rparr>))"

definition refund_EscalateToAdmin :: "time \<Rightarrow> refund \<Rightarrow> (refund_error, refund) mutation" where
  [mutation]: "refund_EscalateToAdmin now r =
    (if \<not> refund_CanEscalate r then fail (refund_decision_error RefundEscalatedToAdmin r) r
     else ok (r\<lparr>rf_Status := RefundEscalatedToAdmin, rf_UpdatedAt := now\<rparr>))"

definition refund_AdminRefund ::
    "uuid \<Rightarrow> i64 \<Rightarrow> string option \<Rightarrow> time \<Rightarrow> refund \<Rightarrow> (refund_error, refund) mutation" where
  [mutation]: "refund_AdminRefund adminID approvedAmount notes now r =
    (if rf_Status r \<noteq> RefundEscalatedToAdmin
     then fail (RefundInvalidTransition (rf_Status r) RefundAdminRefunded) r
     else ok (r\<lparr>rf_Status := RefundAdminRefunded, rf_AdminApprovedAmount := Some approvedAmount,
                rf_AdminNotes := notes, rf_ReviewedBy := adminID, rf_AdminReviewedAt := Some now,
                rf_FinalRefundAmount := Some approvedAmount, rf_UpdatedAt := now\<rparr>))"

definition refund_AdminRelease ::
    "uuid \<Rightarrow> string option \<Rightarrow> time \<Rightarrow> refund \<Rightarrow> (refund_error, refund) mutation" where
  [mutation]: "refund_AdminRelease adminID notes now r =
    (if rf_Status r \<noteq> RefundEscalatedToAdmin
     then fail (RefundInvalidTransition (rf_Status r) RefundAdminReleased) r
     else ok (r\<lparr>rf_Status := RefundAdminReleased, rf_AdminNotes := notes, rf_ReviewedBy := adminID,
                rf_AdminReviewedAt := Some now, rf_FinalRefundAmount := Some 0, rf_UpdatedAt := now\<rparr>))"

section \<open>Creation\<close>

definition NewRefund ::
    "uuid \<Rightarrow> time \<Rightarrow> uuid \<Rightarrow> uuid \<Rightarrow> uuid \<Rightarrow> RefundReason \<Rightarrow> string option \<Rightarrow> i64 \<Rightarrow> refund" where
  "NewRefund new_id now orderID buyerID sellerID reason description requestedAmount =
    \<lparr>rf_ID = new_id, rf_OrderID = orderID, rf_BuyerID = buyerID, rf_SellerID = sellerID,
     rf_Reason = reason, rf_Description = description, rf_EvidenceURLs = [],
     rf_Status = RefundPendingSellerReview, rf_RequestedAmount = requestedAmount,
     rf_SellerApprovedPercent = None, rf_SellerApprovedAmount = None, rf_SellerNotes = None,
     rf_SellerReviewedAt = None, rf_AdminApprovedPercent = None, rf_AdminApprovedAmount = None,
     rf_AdminNotes = None, rf_ReviewedBy = uuid_nil, rf_AdminReviewedAt = None,
     rf_FinalRefundAmount = None, rf_RefundedProductAmount = None, rf_RefundedShippingAmount = None,
     rf_CoinsRefundedAmount = None, rf_OpenedAt = now, rf_ApprovedAt = None, rf_RejectedAt = None,
     rf_RefundedAt = None, rf_GatewayRefundID = None, rf_GatewayStatus = GatewayRefundUnsubmitted,
     rf_GatewayAttempts = 0, rf_LastGatewayError = None, rf_GatewayIdempotencyKey = None,
     rf_GatewayRequestedAt = None, rf_GatewayAcknowledgedAt = None,
     rf_CreatedAt = now, rf_UpdatedAt = now\<rparr>"

definition NewSystemRefund ::
    "uuid \<Rightarrow> time \<Rightarrow> uuid \<Rightarrow> uuid \<Rightarrow> uuid \<Rightarrow> uuid \<Rightarrow> RefundReason \<Rightarrow> i64 \<Rightarrow> i64 \<Rightarrow> string option \<Rightarrow> refund" where
  "NewSystemRefund new_id now orderID buyerID sellerID reviewerID reason productAmount shippingAmount description =
    (let cashRefund = wrap64 (productAmount + shippingAmount)
     in (NewRefund new_id now orderID buyerID sellerID reason description cashRefund)
       \<lparr>rf_Status := RefundSystemRefunded, rf_AdminApprovedAmount := Some cashRefund,
        rf_ReviewedBy := reviewerID, rf_AdminReviewedAt := Some now,
        rf_FinalRefundAmount := Some cashRefund, rf_RefundedProductAmount := Some productAmount,
        rf_RefundedShippingAmount := Some shippingAmount\<rparr>)"

section \<open>The gateway\<close>

definition refund_MarkGatewayDispatched ::
    "string \<Rightarrow> string option \<Rightarrow> time \<Rightarrow> refund \<Rightarrow> (refund_error, refund) mutation" where
  [mutation]: "refund_MarkGatewayDispatched idempotencyKey gatewayRefundID now r =
    (if rf_GatewayStatus r = GatewayRefundSucceeded
     then fail (InvalidGatewayTransition (rf_GatewayStatus r) GatewayRefundPending) r
     else ok (r\<lparr>rf_GatewayStatus := GatewayRefundPending,
                rf_GatewayAttempts := wrap64 (rf_GatewayAttempts r + 1),
                rf_GatewayIdempotencyKey := Some idempotencyKey,
                rf_GatewayRefundID := (if missing_string gatewayRefundID then rf_GatewayRefundID r
                                       else gatewayRefundID),
                rf_GatewayRequestedAt := Some now, rf_LastGatewayError := None, rf_UpdatedAt := now\<rparr>))"

definition refund_MarkGatewayRequestFailed ::
    "string \<Rightarrow> time \<Rightarrow> refund \<Rightarrow> (refund_error, refund) mutation" where
  [mutation]: "refund_MarkGatewayRequestFailed errMsg now r =
    (if rf_GatewayStatus r = GatewayRefundSucceeded
     then fail (InvalidGatewayTransition (rf_GatewayStatus r) GatewayRefundFailed) r
     else ok (r\<lparr>rf_GatewayStatus := GatewayRefundFailed,
                rf_GatewayAttempts := wrap64 (rf_GatewayAttempts r + 1),
                rf_LastGatewayError := Some errMsg, rf_UpdatedAt := now\<rparr>))"

definition refund_MarkGatewayAckSucceeded ::
    "string \<Rightarrow> time \<Rightarrow> refund \<Rightarrow> (refund_error, refund) mutation" where
  [mutation]: "refund_MarkGatewayAckSucceeded gatewayRefundID now r =
    (if rf_GatewayStatus r = GatewayRefundSucceeded then ok r
     else if rf_GatewayStatus r \<noteq> GatewayRefundPending \<and> rf_GatewayStatus r \<noteq> GatewayRefundFailed
     then fail (InvalidGatewayTransition (rf_GatewayStatus r) GatewayRefundSucceeded) r
     else ok (r\<lparr>rf_GatewayStatus := GatewayRefundSucceeded,
                rf_GatewayRefundID := (if gatewayRefundID \<noteq> '''' then Some gatewayRefundID
                                       else rf_GatewayRefundID r),
                rf_GatewayAcknowledgedAt := Some now, rf_LastGatewayError := None, rf_UpdatedAt := now\<rparr>))"

definition refund_MarkGatewayAckFailed ::
    "string \<Rightarrow> time \<Rightarrow> refund \<Rightarrow> (refund_error, refund) mutation" where
  [mutation]: "refund_MarkGatewayAckFailed errMsg now r =
    (if rf_GatewayStatus r = GatewayRefundSucceeded
     then fail (InvalidGatewayTransition (rf_GatewayStatus r) GatewayRefundFailed) r
     else ok (r\<lparr>rf_GatewayStatus := GatewayRefundFailed, rf_LastGatewayError := Some errMsg,
                rf_GatewayAcknowledgedAt := Some now, rf_UpdatedAt := now\<rparr>))"

section \<open>Policy\<close>

datatype RefundPolicyType = PolicyProductOnly | PolicyFull | PolicyAdminReviewRequired

record refund_policy =
  po_PolicyType :: RefundPolicyType
  po_ProductAmount :: i64
  po_ShippingAmount :: i64
  po_CashRefund :: i64

record order_snapshot =
  sn_DiscountedProduct :: i64
  sn_ShippingTotal :: i64
  sn_CommissionAmount :: i64

definition snapshot_ProductGross :: "order_snapshot \<Rightarrow> i64" where
  "snapshot_ProductGross s = wrap64 (sn_DiscountedProduct s + sn_ShippingTotal s)"

definition ResolveRefundPolicy :: "RefundReason \<Rightarrow> order_snapshot \<Rightarrow> refund_policy" where
  "ResolveRefundPolicy reason order =
    (if reason = ReasonItemDamaged \<or> reason = ReasonDefectiveItem
     then \<lparr>po_PolicyType = PolicyProductOnly, po_ProductAmount = sn_DiscountedProduct order,
           po_ShippingAmount = 0, po_CashRefund = sn_DiscountedProduct order\<rparr>
     else if reason = ReasonItemNotReceived \<or> reason = ReasonWrongItem
     then \<lparr>po_PolicyType = PolicyFull, po_ProductAmount = sn_DiscountedProduct order,
           po_ShippingAmount = sn_ShippingTotal order,
           po_CashRefund = wrap64 (sn_DiscountedProduct order + sn_ShippingTotal order)\<rparr>
     else \<lparr>po_PolicyType = PolicyAdminReviewRequired, po_ProductAmount = 0,
           po_ShippingAmount = 0, po_CashRefund = 0\<rparr>)"

definition policy_IsSellerApprovable :: "refund_policy \<Rightarrow> bool" where
  "policy_IsSellerApprovable p \<longleftrightarrow> po_PolicyType p \<noteq> PolicyAdminReviewRequired"

section \<open>Calls and runs\<close>

datatype refund_call =
    RSellerApprove i64 "string option" time | RSellerReject "string option" time | REscalate time
  | RAdminRefund uuid i64 "string option" time | RAdminRelease uuid "string option" time
  | RGatewayDispatched string "string option" time | RGatewayRequestFailed string time
  | RGatewayAckSucceeded string time | RGatewayAckFailed string time

fun refund_do :: "refund_call \<Rightarrow> refund \<Rightarrow> (refund_error, refund) mutation" where
  "refund_do (RSellerApprove n s t) r = refund_SellerApprove n s t r"
| "refund_do (RSellerReject s t) r = refund_SellerReject s t r"
| "refund_do (REscalate t) r = refund_EscalateToAdmin t r"
| "refund_do (RAdminRefund i n s t) r = refund_AdminRefund i n s t r"
| "refund_do (RAdminRelease i s t) r = refund_AdminRelease i s t r"
| "refund_do (RGatewayDispatched k i t) r = refund_MarkGatewayDispatched k i t r"
| "refund_do (RGatewayRequestFailed e t) r = refund_MarkGatewayRequestFailed e t r"
| "refund_do (RGatewayAckSucceeded i t) r = refund_MarkGatewayAckSucceeded i t r"
| "refund_do (RGatewayAckFailed e t) r = refund_MarkGatewayAckFailed e t r"

inductive refund_step :: "refund \<Rightarrow> refund \<Rightarrow> bool" where
  refund_step: "refund_do c a = (err, b) \<Longrightarrow> refund_step a b"

inductive_simps refund_step_simps: "refund_step a b"

section \<open>The two axes, specified\<close>

text \<open>Who may decide what: the seller first, the admin only after an escalation.\<close>

fun refund_decides :: "RefundStatus \<Rightarrow> RefundStatus \<Rightarrow> bool" where
  "refund_decides RefundPendingSellerReview t = (t = RefundSellerApproved \<or> t = RefundSellerRejected)"
| "refund_decides RefundSellerRejected t = (t = RefundEscalatedToAdmin)"
| "refund_decides RefundEscalatedToAdmin t = (t = RefundAdminRefunded \<or> t = RefundAdminReleased)"
| "refund_decides _ t = False"

fun refund_rank :: "RefundStatus \<Rightarrow> nat" where
  "refund_rank RefundPendingSellerReview = 0"
| "refund_rank RefundSellerRejected = 1"
| "refund_rank RefundEscalatedToAdmin = 2"
| "refund_rank _ = 3"

text \<open>A settled reversal is final; every other gateway status can still move, but a
  request that never reached the gateway cannot be acknowledged as succeeded.\<close>

definition gateway_moves :: "GatewayRefundStatus \<Rightarrow> GatewayRefundStatus \<Rightarrow> bool" where
  "gateway_moves s t \<longleftrightarrow> s \<noteq> GatewayRefundSucceeded
     \<and> (t = GatewayRefundPending \<or> t = GatewayRefundFailed
        \<or> t = GatewayRefundSucceeded \<and> (s = GatewayRefundPending \<or> s = GatewayRefundFailed))"

lemma refund_do_error: "refund_do c a = (Some e, b) \<Longrightarrow> b = a"
  by (cases c) (auto simp: mutation split: if_splits)

lemma refund_do_decision:
  "refund_do c a = (err, b) \<Longrightarrow> rf_Status b = rf_Status a \<or> refund_decides (rf_Status a) (rf_Status b)"
  by (cases c) (auto simp: mutation refund_CanEscalate_def split: if_splits)

lemma refund_do_gateway:
  "refund_do c a = (err, b) \<Longrightarrow>
     rf_GatewayStatus b = rf_GatewayStatus a \<or> gateway_moves (rf_GatewayStatus a) (rf_GatewayStatus b)"
  by (cases c) (auto simp: mutation gateway_moves_def split: if_splits)

lemma refund_decides_rank: "refund_decides s t \<Longrightarrow> refund_rank s < refund_rank t"
  by (cases s) auto

lemma refund_decides_final: "status_is_final s \<Longrightarrow> \<not> refund_decides s t"
  by (cases s) auto

interpretation refund_decision: ranked_lifecycle rf_Status refund_decides refund_step refund_rank
  by unfold_locales (auto simp: refund_step_simps dest: refund_do_decision refund_decides_rank)

interpretation refund_settlement: lifecycle rf_GatewayStatus gateway_moves refund_step
  by unfold_locales (auto simp: refund_step_simps dest: refund_do_gateway)

text \<open>The record of a settled reversal, and the record of a final decision.\<close>

definition settled_as :: "refund \<Rightarrow> refund \<Rightarrow> bool" where
  "settled_as a b \<longleftrightarrow> rf_GatewayStatus b = GatewayRefundSucceeded
     \<and> rf_GatewayRefundID b = rf_GatewayRefundID a \<and> rf_GatewayAttempts b = rf_GatewayAttempts a
     \<and> rf_GatewayIdempotencyKey b = rf_GatewayIdempotencyKey a
     \<and> rf_GatewayAcknowledgedAt b = rf_GatewayAcknowledgedAt a"

definition decided_as :: "refund \<Rightarrow> refund \<Rightarrow> bool" where
  "decided_as a b \<longleftrightarrow> rf_Status b = rf_Status a \<and> status_is_final (rf_Status b)
     \<and> rf_SellerApprovedAmount b = rf_SellerApprovedAmount a
     \<and> rf_AdminApprovedAmount b = rf_AdminApprovedAmount a
     \<and> rf_FinalRefundAmount b = rf_FinalRefundAmount a \<and> rf_ReviewedBy b = rf_ReviewedBy a"

interpretation refund_settled: kept_fact refund_step "settled_as a" for a
proof unfold_locales
  fix x y
  assume "refund_step x y" "settled_as a x"
  then obtain c err where "refund_do c x = (err, y)" by (auto simp: refund_step_simps)
  with \<open>settled_as a x\<close> show "settled_as a y"
    by (cases c) (auto simp: mutation settled_as_def split: if_splits)
qed

interpretation refund_decided: kept_fact refund_step "decided_as a" for a
proof unfold_locales
  fix x y
  assume "refund_step x y" "decided_as a x"
  then obtain c err where "refund_do c x = (err, y)" by (auto simp: refund_step_simps)
  with \<open>decided_as a x\<close> show "decided_as a y"
    by (cases c) (auto simp: mutation decided_as_def refund_CanEscalate_def split: if_splits)
qed

interpretation refund_origin: kept_fact refund_step
    "\<lambda>b. rf_OrderID b = i \<and> rf_BuyerID b = bu \<and> rf_SellerID b = se \<and> rf_RequestedAmount b = n" for i bu se n
proof unfold_locales
  fix x y
  assume "refund_step x y" and
    x: "rf_OrderID x = i \<and> rf_BuyerID x = bu \<and> rf_SellerID x = se \<and> rf_RequestedAmount x = n"
  then obtain c err where "refund_do c x = (err, y)" by (auto simp: refund_step_simps)
  with x show "rf_OrderID y = i \<and> rf_BuyerID y = bu \<and> rf_SellerID y = se \<and> rf_RequestedAmount y = n"
    by (cases c) (auto simp: mutation split: if_splits)
qed

section \<open>Properties\<close>


definition sample_refund :: refund where
  "sample_refund = NewRefund 1 0 7 3 4 ReasonItemDamaged None 1000"

definition sample_accepted :: refund where
  "sample_accepted = snd (refund_SellerApprove 900 None 5 sample_refund)"

lemmas sample_refund_defs = sample_accepted_def sample_refund_def NewRefund_def mutation

lemma sample_refund_steps:
  "refund_step sample_refund sample_accepted"
  "refund_step sample_accepted (snd (refund_SellerReject None 6 sample_accepted))"
  by (rule refund_step [where c = "RSellerApprove 900 None 5" and err = None], simp add: sample_refund_defs)
    (rule refund_step [where c = "RSellerReject None 6"
        and err = "fst (refund_SellerReject None 6 sample_accepted)"], simp)


text \<open>
  A refund the buyer was finally granted blocks the release of the escrow
  to the seller until the gateway confirmed it, and only until then, whatever
  else happens to the request and whether or not the refund window is open; a
  refund finally decided for the seller never blocks it; and an undecided one
  blocks it exactly while the order keeps the window open.
\<close>

theorem refund_blocks_release_until_settled:
  assumes "refund_step\<^sup>*\<^sup>* a b"
  shows "(refund_OwesBuyerRefund a \<longrightarrow>
        (refund_BlocksOrderRelease w b \<longleftrightarrow> rf_GatewayStatus b \<noteq> GatewayRefundSucceeded))
    \<and> (rf_Status a = RefundAdminReleased \<longrightarrow> \<not> refund_BlocksOrderRelease w b)
    \<and> (refund_AwaitsDecision a \<longrightarrow> refund_BlocksOrderRelease w a = w)"
proof -
  have owes: "refund_OwesBuyerRefund a \<Longrightarrow> status_is_final (rf_Status a)"
    by (cases "rf_Status a") (simp_all add: refund_OwesBuyerRefund_def)
  have "status_is_final (rf_Status a) \<Longrightarrow> rf_Status b = rf_Status a"
    using refund_decision.terminal_absorbing [OF assms] refund_decides_final by blast
  then show ?thesis
    using owes by (cases "rf_Status a")
      (auto simp: refund_BlocksOrderRelease_def refund_IsSettlementPending_def
        refund_OwesBuyerRefund_def refund_AwaitsDecision_def refund_IsDecisionFinal_def)
qed

theorem refund_blocks_release_until_settled_witness:
  "refund_BlocksOrderRelease False sample_accepted"
  using refund_blocks_release_until_settled [of sample_accepted sample_accepted False]
  by (simp add: sample_refund_defs refund_OwesBuyerRefund_def)

end
