(* ===== verification/RefundMath.thy ===== *)
theory RefundMath
  imports Prelude
begin

text \<open>
  \<open>finance/refund/application/refund_math.go\<close>: how one refund event is split
  into gateway cash, restored coins and reversed commission, as differences of
  cumulative floors so that the rounding of many partial refunds never drifts.
  \<open>PD\<close> is the discounted product value, \<open>S\<close> the shipping, \<open>C\<close> the commission,
  \<open>K\<close> the redeemed coins; \<open>Rpd\<close> and \<open>Rs\<close> are this event's product and shipping
  parts. All arithmetic is 64-bit.
\<close>

definition proportionalFloor :: "i64 \<Rightarrow> i64 \<Rightarrow> i64 \<Rightarrow> i64" where
  "proportionalFloor amount numerator denominator =
    (if amount \<le> 0 \<or> numerator \<le> 0 \<or> denominator \<le> 0 then 0
     else wrap64 (amount * numerator) sdiv denominator)"

datatype refund_math_error =
    PDNotPositive | SNegative | COutOfRange | KOutOfRange | RefundPartNegative | RefundZero
  | CumProductBeforeOutOfRange | CumShippingBeforeOutOfRange
  | CumCoinsMismatch i64 i64 | CumCommissionMismatch i64 i64
  | CumProductExceeds i64 i64 | CumShippingExceeds i64 i64
  | CashRefundNegative | CashCapExceeded i64 i64 | AccountingIdentityBroken | SellerComponentNegative

record breakdown =
  bd_PD :: i64
  bd_S :: i64
  bd_C :: i64
  bd_K :: i64
  bd_Rpd :: i64
  bd_Rs :: i64
  bd_CumProductRefundBefore :: i64
  bd_CumProductRefundAfter :: i64
  bd_CumShippingRefundBefore :: i64
  bd_CumShippingRefundAfter :: i64
  bd_CumCoinsRestoredBefore :: i64
  bd_CumCoinsRestoredAfter :: i64
  bd_CumCommissionReversedBefore :: i64
  bd_CumCommissionReversedAfter :: i64
  bd_CashRefund :: i64
  bd_CoinDelta :: i64
  bd_CommissionDelta :: i64
  bd_SellerComponent :: i64
  bd_RoundingAdjustment :: i64

definition CalculateProportionalRefundBreakdown ::
    "i64 \<Rightarrow> i64 \<Rightarrow> i64 \<Rightarrow> i64 \<Rightarrow> i64 \<Rightarrow> i64 \<Rightarrow> i64 \<Rightarrow> i64 \<Rightarrow> i64 \<Rightarrow> i64 \<Rightarrow> refund_math_error + breakdown" where
  "CalculateProportionalRefundBreakdown pd s c k rpd rs cumProductBefore cumShippingBefore
      cumCoinsBefore cumCommissionBefore =
    (if pd \<le> 0 then Inl PDNotPositive
     else if s < 0 then Inl SNegative
     else if c < 0 \<or> c > pd then Inl COutOfRange
     else if k < 0 \<or> k > pd then Inl KOutOfRange
     else if rpd < 0 \<or> rs < 0 then Inl RefundPartNegative
     else if rpd = 0 \<and> rs = 0 then Inl RefundZero
     else if cumProductBefore < 0 \<or> cumProductBefore > pd then Inl CumProductBeforeOutOfRange
     else if cumShippingBefore < 0 \<or> cumShippingBefore > s then Inl CumShippingBeforeOutOfRange
     else
       let expectedCoinsBefore = proportionalFloor cumProductBefore k pd in
     if cumCoinsBefore \<noteq> expectedCoinsBefore
     then Inl (CumCoinsMismatch cumCoinsBefore expectedCoinsBefore)
     else
       let expectedCommissionBefore = proportionalFloor cumProductBefore c pd in
     if cumCommissionBefore \<noteq> expectedCommissionBefore
     then Inl (CumCommissionMismatch cumCommissionBefore expectedCommissionBefore)
     else
       let cumProductAfter = wrap64 (cumProductBefore + rpd);
           cumShippingAfter = wrap64 (cumShippingBefore + rs) in
     if cumProductAfter > pd then Inl (CumProductExceeds cumProductAfter pd)
     else if cumShippingAfter > s then Inl (CumShippingExceeds cumShippingAfter s)
     else
       let commissionAfter = proportionalFloor cumProductAfter c pd;
           commissionDelta = wrap64 (commissionAfter - expectedCommissionBefore);
           coinsAfter = proportionalFloor cumProductAfter k pd;
           coinDelta = wrap64 (coinsAfter - expectedCoinsBefore);
           cashRefund = wrap64 (wrap64 (rpd + rs) - coinDelta) in
     if cashRefund < 0 then Inl CashRefundNegative
     else
       let cumCashAfter = wrap64 (wrap64 (cumProductAfter + cumShippingAfter) - coinsAfter);
           cap = wrap64 (wrap64 (pd + s) - k) in
     if cumCashAfter > cap then Inl (CashCapExceeded cumCashAfter cap)
     else if wrap64 (cashRefund + coinDelta) \<noteq> wrap64 (rpd + rs) then Inl AccountingIdentityBroken
     else
       let sellerComponent = wrap64 (wrap64 (rpd + rs) - commissionDelta) in
     if sellerComponent < 0 then Inl SellerComponentNegative
     else Inr
       \<lparr>bd_PD = pd, bd_S = s, bd_C = c, bd_K = k, bd_Rpd = rpd, bd_Rs = rs,
        bd_CumProductRefundBefore = cumProductBefore, bd_CumProductRefundAfter = cumProductAfter,
        bd_CumShippingRefundBefore = cumShippingBefore, bd_CumShippingRefundAfter = cumShippingAfter,
        bd_CumCoinsRestoredBefore = cumCoinsBefore, bd_CumCoinsRestoredAfter = coinsAfter,
        bd_CumCommissionReversedBefore = cumCommissionBefore,
        bd_CumCommissionReversedAfter = commissionAfter,
        bd_CashRefund = cashRefund, bd_CoinDelta = coinDelta, bd_CommissionDelta = commissionDelta,
        bd_SellerComponent = sellerComponent, bd_RoundingAdjustment = 0\<rparr>)"

section \<open>Shares taken as differences of a cumulative total\<close>

text \<open>
  A total that is handed out in proportion to a whole: \<open>cum c p\<close> is what is due
  once \<open>p\<close> of the whole has been refunded, under the terms \<open>c\<close>.
\<close>

locale cumulative_share =
  fixes valid :: "'c \<Rightarrow> bool"
    and whole :: "'c \<Rightarrow> int"
    and total :: "'c \<Rightarrow> int"
    and cum :: "'c \<Rightarrow> int \<Rightarrow> int"
  assumes cum_start: "valid c \<Longrightarrow> cum c 0 = 0"
    and cum_end: "valid c \<Longrightarrow> cum c (whole c) = total c"
    and cum_step: "valid c \<Longrightarrow> 0 \<le> p \<Longrightarrow> 0 \<le> d \<Longrightarrow> p + d \<le> whole c \<Longrightarrow>
      cum c p \<le> cum c (p + d) \<and> cum c (p + d) \<le> cum c p + d"
begin

lemma delta_bounds:
  "valid c \<Longrightarrow> 0 \<le> p \<Longrightarrow> p \<le> q \<Longrightarrow> q \<le> whole c \<Longrightarrow> 0 \<le> cum c q - cum c p \<and> cum c q - cum c p \<le> q - p"
  using cum_step [of c p "q - p"] by simp

lemma cum_bounds: "valid c \<Longrightarrow> 0 \<le> p \<Longrightarrow> p \<le> whole c \<Longrightarrow> 0 \<le> cum c p \<and> cum c p \<le> p \<and> cum c p \<le> total c"
  using cum_step [of c 0 p] cum_step [of c p "whole c - p"] cum_start [of c] cum_end [of c] by simp

text \<open>What remains to be handed out never exceeds what remains of the whole.\<close>

lemma remaining_bounds: "valid c \<Longrightarrow> 0 \<le> p \<Longrightarrow> p \<le> whole c \<Longrightarrow> total c - cum c p \<le> whole c - p"
  using cum_step [of c p "whole c - p"] cum_end [of c] by simp

end

section \<open>The floors are such a share\<close>

definition share_terms :: "int \<times> int \<Rightarrow> bool" where
  "share_terms c \<longleftrightarrow> 0 < fst c \<and> 0 \<le> snd c \<and> snd c \<le> fst c \<and> fst c * snd c \<le> i64_max"

definition share_cum :: "int \<times> int \<Rightarrow> int \<Rightarrow> int" where
  "share_cum c p = proportionalFloor p (snd c) (fst c)"

lemma proportionalFloor_exact:
  assumes "share_terms (pd, n)" "0 \<le> p" "p \<le> pd"
  shows "proportionalFloor p n pd = p * n div pd"
proof -
  have "p * n \<le> pd * n" using assms by (intro mult_right_mono) (simp_all add: share_terms_def)
  moreover have nn: "0 \<le> p * n" using assms by (simp add: share_terms_def)
  ultimately have "in_i64 (p * n)" using assms(1) unfolding share_terms_def i64_defs by simp
  moreover have "0 \<le> pd" using assms by simp
  ultimately show ?thesis
    using assms nn
    by (auto simp: proportionalFloor_def sdiv_nonneg share_terms_def)
qed

lemma floor_step:
  fixes p d n pd :: int
  assumes "0 < pd" "0 \<le> n" "n \<le> pd" "0 \<le> d"
  shows "p * n div pd \<le> (p + d) * n div pd" "(p + d) * n div pd \<le> p * n div pd + d"
proof -
  have "p * n \<le> (p + d) * n" using assms by (intro mult_right_mono) simp_all
  then show "p * n div pd \<le> (p + d) * n div pd" using assms(1) by (rule zdiv_mono1)
  have "(p + d) * n \<le> p * n + d * pd"
    using mult_left_mono [OF assms(3,4)] by (simp add: distrib_right)
  then have "(p + d) * n div pd \<le> (p * n + d * pd) div pd" using assms(1) by (rule zdiv_mono1)
  also have "\<dots> = p * n div pd + d" using assms(1) by simp
  finally show "(p + d) * n div pd \<le> p * n div pd + d" .
qed

interpretation refund_share: cumulative_share share_terms fst snd share_cum
proof unfold_locales
  fix c :: "int \<times> int"
  assume c: "share_terms c"
  obtain pd n where c_eq: "c = (pd, n)" by (cases c)
  show "share_cum c 0 = 0" by (simp add: share_cum_def proportionalFloor_def)
  show "share_cum c (fst c) = snd c"
    using c proportionalFloor_exact [of pd n pd] by (auto simp: c_eq share_cum_def share_terms_def)
next
  fix c :: "int \<times> int" and p d
  assume c: "share_terms c" and pd: "0 \<le> p" "0 \<le> d" "p + d \<le> fst c"
  obtain w n where c_eq: "c = (w, n)" by (cases c)
  have "0 < w" "0 \<le> n" "n \<le> w" using c by (simp_all add: c_eq share_terms_def)
  from floor_step [OF this pd(2), of p] c pd show "share_cum c p \<le> share_cum c (p + d)
      \<and> share_cum c (p + d) \<le> share_cum c p + d"
    by (simp add: c_eq share_cum_def proportionalFloor_exact)
qed

section \<open>One event\<close>

text \<open>
  The terms of an order whose products fit in 64 bits, and the state of its
  refunds: the product and shipping refunded so far, with the coins and
  commission that the floors say go with them.
\<close>

definition refund_terms :: "int \<Rightarrow> int \<Rightarrow> int \<Rightarrow> int \<Rightarrow> bool" where
  "refund_terms pd s c k \<longleftrightarrow> share_terms (pd, c) \<and> share_terms (pd, k) \<and> 0 \<le> s \<and> pd + s \<le> i64_max"

definition coins_at :: "int \<Rightarrow> int \<Rightarrow> int \<Rightarrow> int" where
  "coins_at pd k p = p * k div pd"

lemma coins_at_floor: "share_terms (pd, k) \<Longrightarrow> 0 \<le> p \<Longrightarrow> p \<le> pd \<Longrightarrow> proportionalFloor p k pd = coins_at pd k p"
  by (simp add: coins_at_def proportionalFloor_exact)

lemma coins_at_facts:
  assumes "share_terms (pd, k)" "0 \<le> p" "p \<le> q" "q \<le> pd"
  shows "0 \<le> coins_at pd k p" "coins_at pd k p \<le> p" "coins_at pd k p \<le> coins_at pd k q"
    "coins_at pd k q \<le> coins_at pd k p + (q - p)" "k - coins_at pd k q \<le> pd - q"
  using refund_share.delta_bounds [of "(pd, k)" p q] refund_share.cum_bounds [of "(pd, k)" p]
    refund_share.remaining_bounds [of "(pd, k)" q] assms
  by (simp_all add: share_cum_def proportionalFloor_exact coins_at_def)

lemma coins_at_whole: "share_terms (pd, k) \<Longrightarrow> coins_at pd k pd = k"
  using refund_share.cum_end [of "(pd, k)"]
  by (auto simp: share_cum_def coins_at_def proportionalFloor_exact share_terms_def)

definition split_spec :: "int \<Rightarrow> int \<Rightarrow> int \<Rightarrow> int \<Rightarrow> int \<Rightarrow> int \<Rightarrow> int \<Rightarrow> int \<Rightarrow> breakdown" where
  "split_spec pd s c k p q rpd rs =
    (let coinDelta = coins_at pd k (p + rpd) - coins_at pd k p;
         commissionDelta = coins_at pd c (p + rpd) - coins_at pd c p
     in \<lparr>bd_PD = pd, bd_S = s, bd_C = c, bd_K = k, bd_Rpd = rpd, bd_Rs = rs,
         bd_CumProductRefundBefore = p, bd_CumProductRefundAfter = p + rpd,
         bd_CumShippingRefundBefore = q, bd_CumShippingRefundAfter = q + rs,
         bd_CumCoinsRestoredBefore = coins_at pd k p, bd_CumCoinsRestoredAfter = coins_at pd k (p + rpd),
         bd_CumCommissionReversedBefore = coins_at pd c p,
         bd_CumCommissionReversedAfter = coins_at pd c (p + rpd),
         bd_CashRefund = rpd + rs - coinDelta, bd_CoinDelta = coinDelta,
         bd_CommissionDelta = commissionDelta, bd_SellerComponent = rpd + rs - commissionDelta,
         bd_RoundingAdjustment = 0\<rparr>)"

definition refundable :: "int \<Rightarrow> int \<Rightarrow> int \<Rightarrow> int \<Rightarrow> int \<Rightarrow> int \<Rightarrow> bool" where
  "refundable pd s p q rpd rs \<longleftrightarrow> 0 \<le> rpd \<and> 0 \<le> rs \<and> (rpd \<noteq> 0 \<or> rs \<noteq> 0) \<and> p + rpd \<le> pd \<and> q + rs \<le> s"

lemma in_i64_between: "0 \<le> x \<Longrightarrow> x \<le> y \<Longrightarrow> y \<le> i64_max \<Longrightarrow> in_i64 x"
  by (simp add: i64_defs)

lemma split_accepted:
  assumes t: "refund_terms pd s c k" and p: "0 \<le> p" "p \<le> pd" and q: "0 \<le> q" "q \<le> s"
    and r: "refundable pd s p q rpd rs"
  shows "CalculateProportionalRefundBreakdown pd s c k rpd rs p q (coins_at pd k p) (coins_at pd c p)
    = Inr (split_spec pd s c k p q rpd rs)"
proof -
  have st: "share_terms (pd, c)" "share_terms (pd, k)" and s: "0 \<le> s" "pd + s \<le> i64_max"
    using t by (simp_all add: refund_terms_def)
  have r': "0 \<le> rpd" "0 \<le> rs" "rpd \<noteq> 0 \<or> rs \<noteq> 0" "p + rpd \<le> pd" "q + rs \<le> s"
    using r by (simp_all add: refundable_def)
  have g: "0 < pd" "0 \<le> c" "c \<le> pd" "0 \<le> k" "k \<le> pd" using st by (simp_all add: share_terms_def)
  have pr: "p \<le> p + rpd" using r' by simp
  note K = coins_at_facts [OF st(2) p(1) pr r'(4)]
  note C = coins_at_facts [OF st(1) p(1) pr r'(4)]
  have fl: "proportionalFloor p k pd = coins_at pd k p" "proportionalFloor p c pd = coins_at pd c p"
    "proportionalFloor (p + rpd) k pd = coins_at pd k (p + rpd)"
    "proportionalFloor (p + rpd) c pd = coins_at pd c (p + rpd)"
    using st p r' by (simp_all add: coins_at_floor)
  have w: "in_i64 (p + rpd)" "in_i64 (q + rs)" "in_i64 (rpd + rs)" "in_i64 (pd + s)" "in_i64 (pd + s - k)"
    "in_i64 (coins_at pd c (p + rpd) - coins_at pd c p)" "in_i64 (coins_at pd k (p + rpd) - coins_at pd k p)"
    "in_i64 (rpd + rs - (coins_at pd k (p + rpd) - coins_at pd k p))"
    "in_i64 (rpd + rs - (coins_at pd c (p + rpd) - coins_at pd c p))"
    "in_i64 (p + rpd + (q + rs))" "in_i64 (p + rpd + (q + rs) - coins_at pd k (p + rpd))"
    by (rule in_i64_between [OF _ _ s(2)]; use r' p q g s K C in linarith)+
  show ?thesis
    unfolding CalculateProportionalRefundBreakdown_def Let_def fl split_spec_def
    using g s r' p q K C by (simp add: w fl)
qed

lemma split_refused:
  assumes t: "refund_terms pd s c k" and p: "0 \<le> p" "p \<le> pd" and q: "0 \<le> q" "q \<le> s"
    and i: "pd + rpd \<le> i64_max" "s + rs \<le> i64_max"
    and r: "\<not> refundable pd s p q rpd rs"
  shows "\<exists>e. CalculateProportionalRefundBreakdown pd s c k rpd rs p q (coins_at pd k p) (coins_at pd c p)
    = Inl e"
proof (cases "0 \<le> rpd \<and> 0 \<le> rs \<and> (rpd \<noteq> 0 \<or> rs \<noteq> 0)")
  case False
  then show ?thesis
    by (auto simp: CalculateProportionalRefundBreakdown_def)
next
  case True
  have st: "share_terms (pd, c)" "share_terms (pd, k)"
    using t by (simp_all add: refund_terms_def)
  have fl: "proportionalFloor p k pd = coins_at pd k p" "proportionalFloor p c pd = coins_at pd c p"
    using st p by (simp_all add: coins_at_floor)
  have "in_i64 (p + rpd)" "in_i64 (q + rs)"
    using True p q i by (auto simp: i64_defs)
  moreover have "p + rpd > pd \<or> q + rs > s" using r True by (auto simp: refundable_def)
  ultimately show ?thesis
    using True by (auto simp: CalculateProportionalRefundBreakdown_def Let_def fl)
qed

section \<open>A sequence of events\<close>

text \<open>
  Each event is split with the cumulative values the previous one left, as the
  service reads them back; the first refusal stops the sequence.
\<close>

fun refund_events ::
    "int \<Rightarrow> int \<Rightarrow> int \<Rightarrow> int \<Rightarrow> (i64 \<times> i64) list \<Rightarrow> i64 \<times> i64 \<times> i64 \<times> i64
      \<Rightarrow> refund_math_error + breakdown list" where
  "refund_events pd s c k [] st = Inr []"
| "refund_events pd s c k ((rpd, rs) # es) (p, q, coins, comm) =
    (case CalculateProportionalRefundBreakdown pd s c k rpd rs p q coins comm of
       Inl e \<Rightarrow> Inl e
     | Inr b \<Rightarrow>
         (case refund_events pd s c k es
            (bd_CumProductRefundAfter b, bd_CumShippingRefundAfter b, bd_CumCoinsRestoredAfter b,
             bd_CumCommissionReversedAfter b) of
            Inl e \<Rightarrow> Inl e
          | Inr bs \<Rightarrow> Inr (b # bs)))"

lemma refund_events_sums:
  assumes "refund_terms pd s c k" "0 \<le> p" "0 \<le> q"
    and "\<forall>e \<in> set es. 0 \<le> fst e \<and> 0 \<le> snd e \<and> e \<noteq> (0, 0)"
    and "p + sum_list (map fst es) \<le> pd" "q + sum_list (map snd es) \<le> s"
  shows "\<exists>bs. refund_events pd s c k es (p, q, coins_at pd k p, coins_at pd c p) = Inr bs
    \<and> sum_list (map bd_CoinDelta bs) = coins_at pd k (p + sum_list (map fst es)) - coins_at pd k p
    \<and> sum_list (map bd_CommissionDelta bs) = coins_at pd c (p + sum_list (map fst es)) - coins_at pd c p
    \<and> sum_list (map bd_CashRefund bs) + sum_list (map bd_CoinDelta bs)
        = sum_list (map fst es) + sum_list (map snd es)
    \<and> (\<forall>b \<in> set bs. 0 \<le> bd_CashRefund b \<and> 0 \<le> bd_CoinDelta b \<and> 0 \<le> bd_CommissionDelta b
          \<and> 0 \<le> bd_SellerComponent b)"
  using assms
proof (induction es arbitrary: p q)
  case Nil
  then show ?case by simp
next
  case (Cons e es)
  obtain rpd rs where e: "e = (rpd, rs)" by (cases e)
  have nn: "0 \<le> sum_list (map fst es)" "0 \<le> sum_list (map snd es)"
    using Cons.prems(4) by (auto intro!: sum_list_nonneg)
  have r: "refundable pd s p q rpd rs"
    using Cons.prems nn by (auto simp: e refundable_def)
  have le: "p \<le> pd" "q \<le> s" "p \<le> p + rpd" "p + rpd \<le> pd" "0 \<le> rs" "0 \<le> rpd"
    using r Cons.prems by (auto simp: refundable_def)
  have acc: "CalculateProportionalRefundBreakdown pd s c k rpd rs p q (coins_at pd k p) (coins_at pd c p)
      = Inr (split_spec pd s c k p q rpd rs)"
    using Cons.prems r le by (intro split_accepted) auto
  have st: "share_terms (pd, c)" "share_terms (pd, k)"
    using Cons.prems(1) by (simp_all add: refund_terms_def)
  note K = coins_at_facts [OF st(2) Cons.prems(2) le(3,4)]
  note C = coins_at_facts [OF st(1) Cons.prems(2) le(3,4)]
  obtain bs where "refund_events pd s c k es
        (p + rpd, q + rs, coins_at pd k (p + rpd), coins_at pd c (p + rpd)) = Inr bs"
    "sum_list (map bd_CoinDelta bs) = coins_at pd k (p + rpd + sum_list (map fst es)) - coins_at pd k (p + rpd)"
    "sum_list (map bd_CommissionDelta bs) = coins_at pd c (p + rpd + sum_list (map fst es)) - coins_at pd c (p + rpd)"
    "sum_list (map bd_CashRefund bs) + sum_list (map bd_CoinDelta bs)
        = sum_list (map fst es) + sum_list (map snd es)"
    "\<forall>b \<in> set bs. 0 \<le> bd_CashRefund b \<and> 0 \<le> bd_CoinDelta b \<and> 0 \<le> bd_CommissionDelta b
          \<and> 0 \<le> bd_SellerComponent b"
    using Cons.IH [of "p + rpd" "q + rs"] Cons.prems le by (auto simp: e add.assoc)
  then show ?case
    using K C le by (auto simp: e acc split_spec_def Let_def add.assoc)
qed

section \<open>Properties\<close>

text \<open>
  C16. For an order whose money products fit in 64 bits, and cumulative values
  that match what was refunded so far, an event is accepted exactly when its
  parts are non-negative, not both zero, and keep the product and shipping
  refunds within what was paid. An accepted event restores a non-negative
  number of coins, at most its product part; gateway cash and coins add up to
  the event; what is left to pay out in cash stays within the cash that came
  in; and none of the code's later safety checks can fire.
\<close>

theorem refund_event_exact:
  assumes "refund_terms pd s c k" "0 \<le> p" "p \<le> pd" "0 \<le> q" "q \<le> s"
    and "pd + rpd \<le> i64_max" "s + rs \<le> i64_max"
  shows "((\<exists>b. CalculateProportionalRefundBreakdown pd s c k rpd rs p q (p * k div pd) (p * c div pd) = Inr b)
        \<longleftrightarrow> 0 \<le> rpd \<and> 0 \<le> rs \<and> (rpd \<noteq> 0 \<or> rs \<noteq> 0) \<and> p + rpd \<le> pd \<and> q + rs \<le> s)
    \<and> (\<forall>b. CalculateProportionalRefundBreakdown pd s c k rpd rs p q (p * k div pd) (p * c div pd) = Inr b \<longrightarrow>
        bd_CashRefund b + bd_CoinDelta b = rpd + rs \<and> 0 \<le> bd_CashRefund b
        \<and> 0 \<le> bd_CoinDelta b \<and> bd_CoinDelta b \<le> rpd
        \<and> 0 \<le> bd_CommissionDelta b \<and> bd_CommissionDelta b \<le> rpd
        \<and> bd_CumCoinsRestoredAfter b = (p + rpd) * k div pd
        \<and> bd_CumCommissionReversedAfter b = (p + rpd) * c div pd
        \<and> p + rpd + (q + rs) - bd_CumCoinsRestoredAfter b \<le> pd + s - k)"
proof (cases "refundable pd s p q rpd rs")
  case True
  then have le: "p \<le> p + rpd" "p + rpd \<le> pd" "0 \<le> rs" "q + rs \<le> s" by (simp_all add: refundable_def)
  have st: "share_terms (pd, c)" "share_terms (pd, k)" using assms(1) by (simp_all add: refund_terms_def)
  note K = coins_at_facts [OF st(2) assms(2) le(1,2)]
  note C = coins_at_facts [OF st(1) assms(2) le(1,2)]
  show ?thesis
    using split_accepted [OF assms(1-5) True] True K C le
    by (auto simp: coins_at_def split_spec_def Let_def refundable_def)
next
  case False
  then show ?thesis
    using split_refused [OF assms False] by (auto simp: coins_at_def refundable_def)
qed

theorem refund_event_exact_witness:
  "\<exists>b. CalculateProportionalRefundBreakdown 1000 50 53 77 333 50 100 0 7 5 = Inr b
     \<and> bd_CoinDelta b = 26 \<and> bd_CashRefund b = 357"
  using refund_event_exact [of 1000 50 53 77 100 0 333 50]
  by (auto simp: refund_terms_def share_terms_def i64_defs CalculateProportionalRefundBreakdown_def
      proportionalFloor_def wrap64_def sdiv_nonneg)

text \<open>
  C17. However a full refund is cut into events, of whatever sizes and in
  whatever order, none is refused and nothing is lost to rounding: together
  they restore exactly the redeemed coins, reverse exactly the commission and
  pay out exactly the cash the buyer put in, with no negative amount on the
  way. Shorter sequences restore the floor of the share refunded so far.
\<close>

theorem refund_events_lose_nothing:
  assumes "refund_terms pd s c k"
    and "\<forall>e \<in> set es. 0 \<le> fst e \<and> 0 \<le> snd e \<and> e \<noteq> (0, 0)"
    and "sum_list (map fst es) \<le> pd" "sum_list (map snd es) \<le> s"
  shows "\<exists>bs. refund_events pd s c k es (0, 0, 0, 0) = Inr bs
    \<and> sum_list (map bd_CoinDelta bs) = sum_list (map fst es) * k div pd
    \<and> sum_list (map bd_CommissionDelta bs) = sum_list (map fst es) * c div pd
    \<and> sum_list (map bd_CashRefund bs) + sum_list (map bd_CoinDelta bs)
        = sum_list (map fst es) + sum_list (map snd es)
    \<and> (sum_list (map fst es) = pd \<and> sum_list (map snd es) = s \<longrightarrow>
        sum_list (map bd_CoinDelta bs) = k \<and> sum_list (map bd_CommissionDelta bs) = c
        \<and> sum_list (map bd_CashRefund bs) = pd + s - k)
    \<and> (\<forall>b \<in> set bs. 0 \<le> bd_CashRefund b \<and> 0 \<le> bd_CoinDelta b \<and> 0 \<le> bd_CommissionDelta b
          \<and> 0 \<le> bd_SellerComponent b)"
proof -
  have st: "share_terms (pd, c)" "share_terms (pd, k)" using assms(1) by (simp_all add: refund_terms_def)
  have z: "coins_at pd k 0 = 0" "coins_at pd c 0 = 0" by (simp_all add: coins_at_def)
  show ?thesis
    using refund_events_sums [OF assms(1), of 0 0 es] assms(2-4) coins_at_whole [OF st(1)] coins_at_whole [OF st(2)]
    by (auto simp: z) (auto simp: coins_at_def)
qed

theorem refund_events_lose_nothing_witness:
  "\<exists>bs. refund_events 1000 50 53 77 [(333, 0), (334, 50), (333, 0)] (0, 0, 0, 0) = Inr bs
     \<and> sum_list (map bd_CoinDelta bs) = 77 \<and> sum_list (map bd_CashRefund bs) = 973"
  using refund_events_lose_nothing [of 1000 50 53 77 "[(333, 0), (334, 50), (333, 0)]"]
  by (auto simp: refund_terms_def share_terms_def i64_defs)

text \<open>
  The condition that the products fit in 64 bits is needed, and orders
  within the price cap can break it: for a unit at the cap of 50,000,000,000
  with a 5 per cent commission the product of the full refund and the
  commission wraps, and the code accepts the refund with a negative commission
  reversal and a seller share above the amount refunded.
\<close>

theorem refund_commission_wraps:
  "\<exists>b. CalculateProportionalRefundBreakdown 50000000000 0 2500000000 0 50000000000 0 0 0 0 0 = Inr b
     \<and> bd_CommissionDelta b = - 82544170 \<and> bd_SellerComponent b = 50082544170"
  by (simp add: CalculateProportionalRefundBreakdown_def Let_def proportionalFloor_def wrap64_def
      signed_divide_int_def)

end
