(* ===== verification/Dispute.thy ===== *)
theory Dispute
  imports Order Escrow
begin

text \<open>
  \<open>governance/dispute\<close>: the dispute entity (\<open>entity/dispute.go\<close>), the abuse
  limits (\<open>application/dispute_abuse_service.go\<close>) and the opening of a dispute
  (\<open>application/dispute_service.go\<close>). The rows a transaction reads, the order, its
  escrow and the disputes table, are arguments; the two counting queries of the
  repository are computed on the table. A failing query aborts the transaction
  and is not modelled, nor are the notification events.
\<close>

section \<open>The entity\<close>

datatype DisputeStatus =
    DisputeUnderReview | DisputeResolvedRefund | DisputeResolvedRelease | DisputeResolvedPartial
  | DisputeOther string

definition DefaultDisputeTimeoutDays :: int where
  "DefaultDisputeTimeoutDays = 14"

definition DisputeOverdueThresholdDays :: int where
  "DisputeOverdueThresholdDays = 3"

definition ValidReasonCodes :: "string list" where
  "ValidReasonCodes = [''item_not_received'', ''item_not_as_described'', ''shipping_damage'',
     ''buyer_not_responding'', ''seller_not_shipping'', ''payment_issue'', ''other'']"

definition BuyerReasonCodes :: "string list" where
  "BuyerReasonCodes = [''item_not_received'', ''item_not_as_described'', ''shipping_damage'',
     ''payment_issue'', ''other'']"

definition SellerReasonCodes :: "string list" where
  "SellerReasonCodes = [''buyer_not_responding'', ''seller_not_shipping'', ''other'']"

record dispute =
  di_ID :: uuid
  di_OrderID :: uuid
  di_BuyerID :: uuid
  di_SellerID :: uuid
  di_Reason :: string
  di_Description :: "string option"
  di_Status :: DisputeStatus
  di_OpenedAt :: time
  di_ResolvedAt :: "time option"
  di_ResolvedBy :: "uuid option"
  di_ResolutionNotes :: "string option"
  di_CallerID :: "uuid option"
  di_ReasonCode :: "string option"
  di_EvidenceURLs :: "string list"
  di_TimeoutDays :: int
  di_IsOverdue :: bool
  di_OverdueMarkedAt :: "time option"
  di_AutoResolvedAt :: "time option"
  di_AutoResolutionType :: "string option"
  di_CreatedAt :: time
  di_UpdatedAt :: time

datatype dispute_error =
    DisputeInvalidTransition DisputeStatus DisputeStatus
  | DisputeAlreadyResolved uuid DisputeStatus
  | InvalidReasonCode string
  | ReasonCodeNotAuthorized string string
  | MissingReasonCode
  | InsufficientEvidence uuid string
  | DisputeAlreadyOverdue
  | DisputeNotUnderReview

definition dispute_IsUnderReview :: "dispute \<Rightarrow> bool" where
  "dispute_IsUnderReview d \<longleftrightarrow> di_Status d = DisputeUnderReview"

definition dispute_IsResolved :: "dispute \<Rightarrow> bool" where
  "dispute_IsResolved d \<longleftrightarrow> di_Status d = DisputeResolvedRefund \<or> di_Status d = DisputeResolvedRelease
     \<or> di_Status d = DisputeResolvedPartial"

definition dispute_CanResolve :: "dispute \<Rightarrow> bool" where
  "dispute_CanResolve d \<longleftrightarrow> di_Status d = DisputeUnderReview"

text \<open>The three resolutions differ in their target status only.\<close>

definition dispute_resolve_to ::
    "DisputeStatus \<Rightarrow> time \<Rightarrow> uuid \<Rightarrow> string option \<Rightarrow> dispute \<Rightarrow> (dispute_error, dispute) mutation" where
  [mutation]: "dispute_resolve_to target now adminID notes d =
    (if \<not> dispute_CanResolve d then
       (if dispute_IsResolved d then fail (DisputeAlreadyResolved (di_ID d) (di_Status d)) d
        else fail (DisputeInvalidTransition (di_Status d) target) d)
     else ok (d\<lparr>di_Status := target, di_ResolvedAt := Some now, di_ResolvedBy := Some adminID,
                di_ResolutionNotes := notes, di_UpdatedAt := now\<rparr>))"

definition dispute_ResolveRefund ::
    "time \<Rightarrow> uuid \<Rightarrow> string option \<Rightarrow> dispute \<Rightarrow> (dispute_error, dispute) mutation" where
  [mutation]: "dispute_ResolveRefund = dispute_resolve_to DisputeResolvedRefund"

definition dispute_ResolveRelease ::
    "time \<Rightarrow> uuid \<Rightarrow> string option \<Rightarrow> dispute \<Rightarrow> (dispute_error, dispute) mutation" where
  [mutation]: "dispute_ResolveRelease = dispute_resolve_to DisputeResolvedRelease"

definition dispute_ResolvePartialSplit ::
    "time \<Rightarrow> uuid \<Rightarrow> string option \<Rightarrow> dispute \<Rightarrow> (dispute_error, dispute) mutation" where
  [mutation]: "dispute_ResolvePartialSplit = dispute_resolve_to DisputeResolvedPartial"

definition NewDispute :: "uuid \<Rightarrow> time \<Rightarrow> uuid \<Rightarrow> uuid \<Rightarrow> uuid \<Rightarrow> string \<Rightarrow> string option \<Rightarrow> dispute" where
  "NewDispute new_id now orderID buyerID sellerID reason description =
    \<lparr>di_ID = new_id, di_OrderID = orderID, di_BuyerID = buyerID, di_SellerID = sellerID,
     di_Reason = reason, di_Description = description, di_Status = DisputeUnderReview,
     di_OpenedAt = now, di_ResolvedAt = None, di_ResolvedBy = None, di_ResolutionNotes = None,
     di_CallerID = None, di_ReasonCode = None, di_EvidenceURLs = [],
     di_TimeoutDays = DefaultDisputeTimeoutDays, di_IsOverdue = False, di_OverdueMarkedAt = None,
     di_AutoResolvedAt = None, di_AutoResolutionType = None, di_CreatedAt = now, di_UpdatedAt = now\<rparr>"

definition NewDisputeWithDetails ::
    "uuid \<Rightarrow> time \<Rightarrow> uuid \<Rightarrow> uuid \<Rightarrow> uuid \<Rightarrow> uuid \<Rightarrow> string \<Rightarrow> string option \<Rightarrow> string \<Rightarrow> string list
      \<Rightarrow> dispute_error + dispute" where
  "NewDisputeWithDetails new_id now orderID buyerID sellerID callerID reason description reasonCode evidenceURLs =
    (if reasonCode \<notin> set ValidReasonCodes then Inl (InvalidReasonCode reasonCode)
     else if callerID = buyerID \<and> reasonCode \<notin> set BuyerReasonCodes
     then Inl (ReasonCodeNotAuthorized reasonCode ''buyer'')
     else if callerID \<noteq> buyerID \<and> callerID = sellerID \<and> reasonCode \<notin> set SellerReasonCodes
     then Inl (ReasonCodeNotAuthorized reasonCode ''seller'')
     else Inr ((NewDispute new_id now orderID buyerID sellerID reason description)
       \<lparr>di_CallerID := Some callerID, di_ReasonCode := Some reasonCode, di_EvidenceURLs := evidenceURLs\<rparr>))"

definition dispute_ShouldBeOverdue :: "time \<Rightarrow> dispute \<Rightarrow> bool" where
  "dispute_ShouldBeOverdue now d =
    (if di_Status d \<noteq> DisputeUnderReview then False
     else if di_IsOverdue d then False
     else time_sub now (di_OpenedAt d) > DisputeOverdueThresholdDays * 24 * hour)"

definition dispute_MarkAsOverdue :: "time \<Rightarrow> dispute \<Rightarrow> (dispute_error, dispute) mutation" where
  [mutation]: "dispute_MarkAsOverdue now d =
    (if di_IsOverdue d then fail DisputeAlreadyOverdue d
     else if di_Status d \<noteq> DisputeUnderReview then fail DisputeNotUnderReview d
     else ok (d\<lparr>di_IsOverdue := True, di_OverdueMarkedAt := Some now, di_UpdatedAt := now\<rparr>))"

definition dispute_ShouldAutoResolve :: "time \<Rightarrow> dispute \<Rightarrow> bool" where
  "dispute_ShouldAutoResolve now d =
    (if di_Status d \<noteq> DisputeUnderReview then False
     else if is_set (di_AutoResolvedAt d) then False
     else time_sub now (di_OpenedAt d) > wrap64 (di_TimeoutDays d * 24 * hour))"

definition dispute_IsNearTimeout :: "time \<Rightarrow> dispute \<Rightarrow> bool" where
  "dispute_IsNearTimeout now d =
    (if di_Status d \<noteq> DisputeUnderReview then False
     else let timeoutDuration = wrap64 (di_TimeoutDays d * 24 * hour);
              elapsed = time_sub now (di_OpenedAt d)
          in elapsed > wrap64 (timeoutDuration - 2 * 24 * hour))"

definition dispute_IsOpenedBySeller :: "dispute \<Rightarrow> bool" where
  "dispute_IsOpenedBySeller d \<longleftrightarrow> di_CallerID d = Some (di_SellerID d)"

definition dispute_IsOpenedByBuyer :: "dispute \<Rightarrow> bool" where
  "dispute_IsOpenedByBuyer d \<longleftrightarrow> di_CallerID d = Some (di_BuyerID d)"

definition dispute_HasSufficientEvidence :: "dispute \<Rightarrow> bool" where
  "dispute_HasSufficientEvidence d =
    (if dispute_IsOpenedByBuyer d then length (di_EvidenceURLs d) > 0 else True)"

definition dispute_ValidateForSeller :: "dispute \<Rightarrow> dispute_error option" where
  "dispute_ValidateForSeller d =
    (if \<not> dispute_IsOpenedBySeller d then None
     else if di_ReasonCode d = None then Some MissingReasonCode
     else None)"

definition dispute_ValidateForBuyer :: "dispute \<Rightarrow> dispute_error option" where
  "dispute_ValidateForBuyer d =
    (if \<not> dispute_IsOpenedByBuyer d then None
     else if \<not> dispute_HasSufficientEvidence d
     then Some (InsufficientEvidence (di_ID d) ''buyer disputes require evidence (video)'')
     else None)"

section \<open>Calls and runs\<close>

datatype dispute_call =
    DResolveRefund time uuid "string option" | DResolveRelease time uuid "string option"
  | DResolvePartialSplit time uuid "string option" | DMarkAsOverdue time

fun dispute_do :: "dispute_call \<Rightarrow> dispute \<Rightarrow> (dispute_error, dispute) mutation" where
  "dispute_do (DResolveRefund t i s) d = dispute_ResolveRefund t i s d"
| "dispute_do (DResolveRelease t i s) d = dispute_ResolveRelease t i s d"
| "dispute_do (DResolvePartialSplit t i s) d = dispute_ResolvePartialSplit t i s d"
| "dispute_do (DMarkAsOverdue t) d = dispute_MarkAsOverdue t d"

inductive dispute_step :: "dispute \<Rightarrow> dispute \<Rightarrow> bool" where
  dispute_step: "dispute_do c a = (err, b) \<Longrightarrow> dispute_step a b"

inductive_simps dispute_step_simps: "dispute_step a b"

definition dispute_moves :: "DisputeStatus \<Rightarrow> DisputeStatus \<Rightarrow> bool" where
  "dispute_moves s t \<longleftrightarrow> s = DisputeUnderReview
     \<and> t \<in> {DisputeResolvedRefund, DisputeResolvedRelease, DisputeResolvedPartial}"

lemmas dispute_defs = mutation dispute_CanResolve_def dispute_IsResolved_def

lemma dispute_do_status:
  "dispute_do c a = (err, b) \<Longrightarrow> di_Status b = di_Status a \<or> dispute_moves (di_Status a) (di_Status b)"
  by (cases c) (auto simp: dispute_defs dispute_moves_def split: if_splits)

interpretation dispute_life: ranked_lifecycle di_Status dispute_moves dispute_step
    "\<lambda>s. if s = DisputeUnderReview then 0 else 1"
  by unfold_locales (auto simp: dispute_step_simps dispute_moves_def dest: dispute_do_status)

text \<open>A resolution with its attribution, and the stamps of an open dispute.\<close>

definition resolved_as :: "dispute \<Rightarrow> dispute \<Rightarrow> bool" where
  "resolved_as a b \<longleftrightarrow> di_Status b = di_Status a \<and> dispute_IsResolved b
     \<and> di_ResolvedAt b = di_ResolvedAt a \<and> di_ResolvedBy b = di_ResolvedBy a
     \<and> di_ResolutionNotes b = di_ResolutionNotes a \<and> di_IsOverdue b = di_IsOverdue a"

definition dispute_stamped :: "dispute \<Rightarrow> bool" where
  "dispute_stamped d \<longleftrightarrow>
     (dispute_IsResolved d \<longleftrightarrow> di_ResolvedBy d \<noteq> None) \<and> (dispute_IsResolved d \<longleftrightarrow> di_ResolvedAt d \<noteq> None)
     \<and> (di_Status d = DisputeUnderReview \<or> dispute_IsResolved d)"

interpretation dispute_resolved: kept_fact dispute_step "resolved_as a" for a
proof unfold_locales
  fix x y
  assume "dispute_step x y" "resolved_as a x"
  then obtain c err where "dispute_do c x = (err, y)" by (auto simp: dispute_step_simps)
  with \<open>resolved_as a x\<close> show "resolved_as a y"
    by (cases c) (auto simp: dispute_defs resolved_as_def split: if_splits)
qed

interpretation dispute_stamps: kept_fact dispute_step dispute_stamped
proof unfold_locales
  fix x y
  assume "dispute_step x y" "dispute_stamped x"
  then obtain c err where "dispute_do c x = (err, y)" by (auto simp: dispute_step_simps)
  with \<open>dispute_stamped x\<close> show "dispute_stamped y"
    by (cases c) (auto simp: dispute_defs dispute_stamped_def split: if_splits)
qed

section \<open>Abuse limits\<close>

definition MaxDisputesPer30Days :: nat where
  "MaxDisputesPer30Days = 5"

definition MaxDisputesWithSameCounterparty :: nat where
  "MaxDisputesWithSameCounterparty = 3"

definition GetCallerDisputeCount :: "dispute list \<Rightarrow> uuid \<Rightarrow> time \<Rightarrow> nat" where
  "GetCallerDisputeCount table callerID since =
    length (filter (\<lambda>d. di_CallerID d = Some callerID \<and> di_OpenedAt d \<ge> since) table)"

definition GetCallerDisputeCountAgainstParty :: "dispute list \<Rightarrow> uuid \<Rightarrow> uuid \<Rightarrow> time \<Rightarrow> nat" where
  "GetCallerDisputeCountAgainstParty table callerID partyID since =
    length (filter (\<lambda>d. di_CallerID d = Some callerID
      \<and> (di_BuyerID d = partyID \<or> di_SellerID d = partyID) \<and> di_OpenedAt d \<ge> since) table)"

datatype abuse_error = HighDisputeFrequency uuid nat nat | RepeatedCounterpartyAbuse uuid uuid nat

definition CheckUserBeforeDispute :: "time \<Rightarrow> dispute list \<Rightarrow> uuid \<Rightarrow> uuid \<Rightarrow> abuse_error option" where
  "CheckUserBeforeDispute now table userID counterpartyID =
    (let window30 = time_add now (- 30 * 24 * hour);
         count30 = GetCallerDisputeCount table userID window30
     in if count30 \<ge> MaxDisputesPer30Days
        then Some (HighDisputeFrequency userID count30 MaxDisputesPer30Days)
        else if counterpartyID \<noteq> uuid_nil then
          (let counterpartyCount = GetCallerDisputeCountAgainstParty table userID counterpartyID window30
           in if counterpartyCount \<ge> MaxDisputesWithSameCounterparty
              then Some (RepeatedCounterpartyAbuse userID counterpartyID counterpartyCount)
              else None)
        else None)"

datatype AbuseRiskLevel = RiskLow | RiskMedium | RiskHigh | RiskCritical

definition DetectAbusePatterns_risk :: "time \<Rightarrow> dispute list \<Rightarrow> uuid \<Rightarrow> uuid \<Rightarrow> AbuseRiskLevel" where
  "DetectAbusePatterns_risk now table userID counterpartyID =
    (let window30 = time_add now (- 30 * 24 * hour);
         high = GetCallerDisputeCount table userID window30 \<ge> MaxDisputesPer30Days;
         repeated = counterpartyID \<noteq> uuid_nil
           \<and> GetCallerDisputeCountAgainstParty table userID counterpartyID window30
               \<ge> MaxDisputesWithSameCounterparty;
         level = (if high then RiskHigh else RiskLow);
         level = (if repeated \<and> level = RiskLow then RiskMedium else level);
         flagCount = of_bool high + of_bool repeated
     in if flagCount \<ge> (2::nat) then RiskCritical
        else if flagCount = 1 \<and> level = RiskLow then RiskMedium
        else level)"

section \<open>Opening a dispute\<close>

record open_dispute_input =
  in_Reason :: string
  in_Description :: "string option"
  in_MediaURLs :: "string list"
  in_VideoURL :: "string option"
  in_ReasonCode :: string

datatype open_error =
    OpenOrderNotFound
  | OpenUnauthorized uuid uuid
  | OpenAfterOrderCompletion
  | OpenAbuse abuse_error
  | OpenAlreadyHasActive
  | OpenNoEscrow
  | OpenAfterCompletion
  | OpenInvalidEscrowState
  | OpenPreShipNotEligible
  | OpenPostShipWindowExpired
  | OpenVideoRequired uuid
  | OpenMissingReasonCode
  | OpenMarkDisputeFailed order_error
  | OpenEntity dispute_error
  | OpenSellerValidation dispute_error

text \<open>The rows the transaction works on: the locked order, its escrow, the disputes table.\<close>

record dispute_rows =
  dr_Order :: "order option"
  dr_Escrow :: "escrow option"
  dr_Disputes :: "dispute list"

definition enforceAppDisputeFinality :: "order \<Rightarrow> open_error option" where
  "enforceAppDisputeFinality o1 =
    (if or_Status o1 = OrderCompleted then Some OpenAfterOrderCompletion else None)"

definition escrow_gate :: "escrow option \<Rightarrow> open_error option" where
  "escrow_gate e =
    (case e of
       None \<Rightarrow> Some OpenNoEscrow
     | Some x \<Rightarrow>
         (case es_Status x of
            EscrowHolding \<Rightarrow> None
          | EscrowReleased \<Rightarrow> Some OpenAfterCompletion
          | _ \<Rightarrow> Some OpenInvalidEscrowState))"

text \<open>The pre-shipment allowance and the post-shipment window.\<close>

definition dispute_timing_gate :: "time \<Rightarrow> uuid \<Rightarrow> order \<Rightarrow> open_error option" where
  "dispute_timing_gate now callerID o1 =
    (if or_Status o1 = OrderPaid then
       (if callerID = or_BuyerID o1 \<and> order_IsBuyerEligibleForPreShipDispute now o1 then None
        else Some OpenPreShipNotEligible)
     else if or_Status o1 = OrderShipped then
       (if \<not> order_IsWithinPostShipDisputeWindow now o1 then Some OpenPostShipWindowExpired else None)
     else None)"

definition dispute_evidence :: "open_dispute_input \<Rightarrow> string list" where
  "dispute_evidence inp =
    (case in_VideoURL inp of None \<Rightarrow> in_MediaURLs inp | Some v \<Rightarrow> in_MediaURLs inp @ [v])"

definition OpenDispute ::
    "time \<Rightarrow> time \<Rightarrow> time \<Rightarrow> time \<Rightarrow> uuid \<Rightarrow> uuid \<Rightarrow> open_dispute_input \<Rightarrow> dispute_rows
      \<Rightarrow> open_error + dispute \<times> dispute_rows" where
  "OpenDispute abuse_now now mark_now new_now new_id callerID inp rows =
    (case dr_Order rows of
       None \<Rightarrow> Inl OpenOrderNotFound
     | Some o1 \<Rightarrow>
     if \<not> IsSystemCaller callerID \<and> \<not> order_IsUserAuthorizedForDispute callerID o1
     then Inl (OpenUnauthorized (or_ID o1) callerID)
     else case enforceAppDisputeFinality o1 of Some e \<Rightarrow> Inl e | None \<Rightarrow>
     let counterpartyID = (if callerID = or_SellerID o1 then or_BuyerID o1 else or_SellerID o1) in
     case CheckUserBeforeDispute abuse_now (dr_Disputes rows) callerID counterpartyID of
       Some e \<Rightarrow> Inl (OpenAbuse e)
     | None \<Rightarrow>
     if or_HasDispute o1 then Inl OpenAlreadyHasActive
     else case escrow_gate (dr_Escrow rows) of Some e \<Rightarrow> Inl e | None \<Rightarrow>
     case dispute_timing_gate now callerID o1 of Some e \<Rightarrow> Inl e | None \<Rightarrow>
     if callerID = or_BuyerID o1 \<and> in_VideoURL inp = None \<and> length (dispute_evidence inp) = 0
     then Inl (OpenVideoRequired (or_ID o1))
     else if in_ReasonCode inp = '''' then Inl OpenMissingReasonCode
     else case order_MarkDisputeOpen mark_now o1 of
       (Some e, _) \<Rightarrow> Inl (OpenMarkDisputeFailed e)
     | (None, o2) \<Rightarrow>
     case NewDisputeWithDetails new_id new_now (or_ID o1) (or_BuyerID o1) (or_SellerID o1) callerID
            (in_Reason inp) (in_Description inp) (in_ReasonCode inp) (dispute_evidence inp) of
       Inl e \<Rightarrow> Inl (OpenEntity e)
     | Inr d \<Rightarrow>
     case (if callerID = or_SellerID o1 then dispute_ValidateForSeller d else None) of
       Some e \<Rightarrow> Inl (OpenSellerValidation e)
     | None \<Rightarrow> Inr (d, rows\<lparr>dr_Order := Some o2, dr_Disputes := dr_Disputes rows @ [d]\<rparr>))"

definition OpenDisputeFromEscalation ::
    "time \<Rightarrow> time \<Rightarrow> uuid \<Rightarrow> uuid \<Rightarrow> string \<Rightarrow> string option \<Rightarrow> string \<Rightarrow> string list \<Rightarrow> dispute_rows
      \<Rightarrow> open_error + dispute \<times> dispute_rows" where
  "OpenDisputeFromEscalation mark_now new_now new_id callerID reason description reasonCode evidenceURLs rows =
    (case dr_Order rows of
       None \<Rightarrow> Inl OpenOrderNotFound
     | Some o1 \<Rightarrow>
     if \<not> order_IsUserAuthorizedForDispute callerID o1 then Inl (OpenUnauthorized (or_ID o1) callerID)
     else if or_HasDispute o1 then Inl OpenAlreadyHasActive
     else if \<not> (\<exists>x \<in> set_option (dr_Escrow rows). es_Status x = EscrowHolding)
     then Inl OpenInvalidEscrowState
     else case NewDisputeWithDetails new_id new_now (or_ID o1) (or_BuyerID o1) (or_SellerID o1) callerID
            reason description reasonCode evidenceURLs of
       Inl e \<Rightarrow> Inl (OpenEntity e)
     | Inr d \<Rightarrow>
     case order_MarkDisputeOpen mark_now o1 of
       (Some e, _) \<Rightarrow> Inl (OpenMarkDisputeFailed e)
     | (None, o2) \<Rightarrow> Inr (d, rows\<lparr>dr_Order := Some o2, dr_Disputes := dr_Disputes rows @ [d]\<rparr>))"

section \<open>What opening requires\<close>

lemma escrow_gate_None: "escrow_gate e = None \<longleftrightarrow> (\<exists>x. e = Some x \<and> es_Status x = EscrowHolding)"
  by (auto simp: escrow_gate_def split: option.splits EscrowStatus.splits)

lemma NewDisputeWithDetails_Inr:
  "NewDisputeWithDetails i t oid b s c r descr code ev = Inr d \<longleftrightarrow>
     code \<in> set ValidReasonCodes \<and> (c = b \<longrightarrow> code \<in> set BuyerReasonCodes)
   \<and> (c \<noteq> b \<and> c = s \<longrightarrow> code \<in> set SellerReasonCodes)
   \<and> d = (NewDispute i t oid b s r descr)\<lparr>di_CallerID := Some c, di_ReasonCode := Some code, di_EvidenceURLs := ev\<rparr>"
  by (auto simp: NewDisputeWithDetails_def)

lemma order_MarkDisputeOpen_None:
  "order_MarkDisputeOpen t o1 = (None, o2) \<longleftrightarrow>
     (or_Status o1 = OrderShipped \<or> or_Status o1 = OrderDelivered)
   \<and> o2 = o1\<lparr>or_Status := OrderDisputeOpen, or_HasDispute := True, or_UpdatedAt := t\<rparr>"
  by (cases "or_Status o1") (auto simp: order_MarkDisputeOpen_def order_canTransition_def)

lemma dispute_timing_gate_open:
  "or_Status o1 = OrderShipped \<or> or_Status o1 = OrderDelivered \<Longrightarrow>
     dispute_timing_gate now c o1 = None \<longleftrightarrow>
       or_Status o1 = OrderDelivered \<or> order_IsWithinPostShipDisputeWindow now o1"
  by (auto simp: dispute_timing_gate_def order_IsWithinPostShipDisputeWindow_def)

lemma OpenDispute_Inr:
  "OpenDispute an now mn nn i c inp rows = Inr (d, rows') \<longleftrightarrow>
     (\<exists>o1. dr_Order rows = Some o1
       \<and> (c = SystemCallerID \<or> c = or_BuyerID o1 \<or> c = or_SellerID o1)
       \<and> CheckUserBeforeDispute an (dr_Disputes rows) c
            (if c = or_SellerID o1 then or_BuyerID o1 else or_SellerID o1) = None
       \<and> \<not> or_HasDispute o1
       \<and> (\<exists>x. dr_Escrow rows = Some x \<and> es_Status x = EscrowHolding)
       \<and> (or_Status o1 = OrderDelivered
          \<or> or_Status o1 = OrderShipped \<and> order_IsWithinPostShipDisputeWindow now o1)
       \<and> (c = or_BuyerID o1 \<longrightarrow> dispute_evidence inp \<noteq> [])
       \<and> in_ReasonCode inp \<in> set ValidReasonCodes
       \<and> (c = or_BuyerID o1 \<longrightarrow> in_ReasonCode inp \<in> set BuyerReasonCodes)
       \<and> (c \<noteq> or_BuyerID o1 \<and> c = or_SellerID o1 \<longrightarrow> in_ReasonCode inp \<in> set SellerReasonCodes)
       \<and> d = (NewDispute i nn (or_ID o1) (or_BuyerID o1) (or_SellerID o1) (in_Reason inp) (in_Description inp))
               \<lparr>di_CallerID := Some c, di_ReasonCode := Some (in_ReasonCode inp),
                di_EvidenceURLs := dispute_evidence inp\<rparr>
       \<and> rows' = rows\<lparr>dr_Order := Some (o1\<lparr>or_Status := OrderDisputeOpen, or_HasDispute := True,
                         or_UpdatedAt := mn\<rparr>),
                      dr_Disputes := dr_Disputes rows @ [d]\<rparr>)"
  (is "?L = ?R")
proof
  have ev: "in_VideoURL inp = None \<and> dispute_evidence inp = [] \<longleftrightarrow> dispute_evidence inp = []"
    by (auto simp: dispute_evidence_def split: option.splits)
  show "?L \<Longrightarrow> ?R"
    using ev dispute_timing_gate_open escrow_gate_None
    by (auto simp: OpenDispute_def Let_def IsSystemCaller_def order_IsUserAuthorizedForDispute_def
        escrow_gate_None order_MarkDisputeOpen_None NewDisputeWithDetails_Inr
        split: option.splits if_splits sum.splits prod.splits)
next
  assume ?R
  then obtain o1 x where o1: "dr_Order rows = Some o1" "dr_Escrow rows = Some x" "es_Status x = EscrowHolding"
    and c: "c = SystemCallerID \<or> c = or_BuyerID o1 \<or> c = or_SellerID o1"
    and ab: "CheckUserBeforeDispute an (dr_Disputes rows) c
            (if c = or_SellerID o1 then or_BuyerID o1 else or_SellerID o1) = None"
    and st: "\<not> or_HasDispute o1" "or_Status o1 = OrderDelivered
          \<or> or_Status o1 = OrderShipped \<and> order_IsWithinPostShipDisputeWindow now o1"
    and evd: "c = or_BuyerID o1 \<longrightarrow> dispute_evidence inp \<noteq> []"
    and code: "in_ReasonCode inp \<in> set ValidReasonCodes"
      "c = or_BuyerID o1 \<longrightarrow> in_ReasonCode inp \<in> set BuyerReasonCodes"
      "c \<noteq> or_BuyerID o1 \<and> c = or_SellerID o1 \<longrightarrow> in_ReasonCode inp \<in> set SellerReasonCodes"
    and d: "d = (NewDispute i nn (or_ID o1) (or_BuyerID o1) (or_SellerID o1) (in_Reason inp) (in_Description inp))
               \<lparr>di_CallerID := Some c, di_ReasonCode := Some (in_ReasonCode inp),
                di_EvidenceURLs := dispute_evidence inp\<rparr>"
    and rows': "rows' = rows\<lparr>dr_Order := Some (o1\<lparr>or_Status := OrderDisputeOpen, or_HasDispute := True,
                         or_UpdatedAt := mn\<rparr>), dr_Disputes := dr_Disputes rows @ [d]\<rparr>"
    by blast
  have e: "escrow_gate (Some x) = None" using o1 by (simp add: escrow_gate_None)
  have t: "dispute_timing_gate now c o1 = None" using st(2) dispute_timing_gate_open by blast
  have m: "order_MarkDisputeOpen mn o1 = (None, o1\<lparr>or_Status := OrderDisputeOpen, or_HasDispute := True,
                         or_UpdatedAt := mn\<rparr>)"
    using st(2) by (auto simp: order_MarkDisputeOpen_None)
  have n: "NewDisputeWithDetails i nn (or_ID o1) (or_BuyerID o1) (or_SellerID o1) c (in_Reason inp)
      (in_Description inp) (in_ReasonCode inp) (dispute_evidence inp) = Inr d"
    using code d by (simp add: NewDisputeWithDetails_Inr)
  have v: "dispute_ValidateForSeller d = None" by (simp add: d dispute_ValidateForSeller_def)
  have f: "enforceAppDisputeFinality o1 = None" using st(2) by (auto simp: enforceAppDisputeFinality_def)
  have ne: "in_ReasonCode inp \<noteq> ''''" using code(1) by (auto simp: ValidReasonCodes_def)
  show ?L
    using c evd ne st(1)
    by (auto simp: OpenDispute_def Let_def o1 IsSystemCaller_def order_IsUserAuthorizedForDispute_def
        ab e t m n v f rows' split del: if_split cong: if_cong)
qed

lemma OpenDispute_effect:
  assumes "OpenDispute an now mn nn i c inp rows = Inr (d, rows')"
  shows "\<exists>other. CheckUserBeforeDispute an (dr_Disputes rows) c other = None \<and> di_CallerID d = Some c
    \<and> di_OpenedAt d = nn \<and> dr_Disputes rows' = dr_Disputes rows @ [d]"
  using assms unfolding OpenDispute_Inr
  by (elim exE conjE) (intro exI conjI, assumption, simp_all add: NewDispute_def)

text \<open>At most five disputes of a caller fall in any window of thirty days.\<close>

definition disputes_in :: "dispute list \<Rightarrow> uuid \<Rightarrow> time \<Rightarrow> nat" where
  "disputes_in table c w =
    length (filter (\<lambda>d. di_CallerID d = Some c \<and> w \<le> di_OpenedAt d \<and> di_OpenedAt d \<le> w + 30 * 24 * hour) table)"

lemma disputes_in_le: "v \<le> w \<Longrightarrow> disputes_in table c w \<le> GetCallerDisputeCount table c v"
  unfolding disputes_in_def GetCallerDisputeCount_def
  by (induction table) auto

definition dispute_rate_ok :: "dispute list \<Rightarrow> bool" where
  "dispute_rate_ok table \<longleftrightarrow> (\<forall>c w. disputes_in table c w \<le> 5)"

lemma dispute_rate_append:
  assumes "dispute_rate_ok table" "di_CallerID d = Some c" "an \<le> di_OpenedAt d"
    and "CheckUserBeforeDispute an table c other = None"
  shows "dispute_rate_ok (table @ [d])"
proof -
  have c4: "GetCallerDisputeCount table c (an - 30 * 24 * hour) \<le> 4"
    using assms(4) by (simp add: CheckUserBeforeDispute_def Let_def MaxDisputesPer30Days_def
        time_add_def split: if_splits)
  have "disputes_in (table @ [d]) c' w \<le> 5" for c' w
  proof (cases "c' = c \<and> w \<le> di_OpenedAt d \<and> di_OpenedAt d \<le> w + 30 * 24 * hour")
    case True
    then have "disputes_in table c w \<le> 4"
      using disputes_in_le [of "an - 30 * 24 * hour" w table c] c4 assms(3) by linarith
    moreover have "disputes_in (table @ [d]) c' w = disputes_in table c w + 1"
      using True assms(2) by (simp add: disputes_in_def)
    ultimately show ?thesis by simp
  next
    case False
    then have "disputes_in (table @ [d]) c' w = disputes_in table c' w"
      using assms(2) by (auto simp: disputes_in_def)
    then show ?thesis using assms(1) by (simp add: dispute_rate_ok_def)
  qed
  then show ?thesis by (simp add: dispute_rate_ok_def)
qed

text \<open>One attempt to open a dispute on some order, with the disputes table carried along.\<close>

inductive dispute_attempt :: "dispute list \<Rightarrow> dispute list \<Rightarrow> bool" where
  attempt_opened: "dr_Disputes rows = table \<Longrightarrow> an \<le> nn \<Longrightarrow>
     OpenDispute an now mn nn i c inp rows = Inr (d, rows') \<Longrightarrow> dispute_attempt table (dr_Disputes rows')"
| attempt_refused: "dispute_attempt table table"

inductive_cases dispute_attempt_cases: "dispute_attempt table table'"

interpretation dispute_rate: kept_fact dispute_attempt dispute_rate_ok
proof unfold_locales
  fix x y
  assume "dispute_attempt x y" "dispute_rate_ok x"
  then show "dispute_rate_ok y"
  proof (elim dispute_attempt_cases)
    fix rows an nn now mn i c inp d rows'
    assume x: "dispute_rate_ok x" "dr_Disputes rows = x" "an \<le> nn" "y = dr_Disputes rows'"
      "OpenDispute an now mn nn i c inp rows = Inr (d, rows')"
    obtain other where "CheckUserBeforeDispute an (dr_Disputes rows) c other = None"
      "di_CallerID d = Some c" "di_OpenedAt d = nn" "dr_Disputes rows' = dr_Disputes rows @ [d]"
      using OpenDispute_effect [OF x(5)] by blast
    then show "dispute_rate_ok y"
      using x dispute_rate_append [of x d c an] by auto
  qed simp
qed

section \<open>Properties\<close>

text \<open>
  A dispute is resolved at most once, with its attribution: under any
  methods it is either still under review, with no resolution recorded, or
  resolved with a resolver and a time, and then nothing changes the outcome,
  the resolver, the time, the notes or the overdue mark any more.
\<close>

theorem dispute_resolved_once:
  assumes "dispute_step\<^sup>*\<^sup>* (NewDispute i t oid bu se r descr) a" "dispute_step\<^sup>*\<^sup>* a b"
  shows "(dispute_IsUnderReview a \<longleftrightarrow> di_ResolvedBy a = None)
    \<and> (dispute_IsResolved a \<longleftrightarrow> di_ResolvedAt a \<noteq> None)
    \<and> (dispute_IsResolved a \<longrightarrow> di_Status b = di_Status a \<and> di_ResolvedBy b = di_ResolvedBy a
        \<and> di_ResolvedAt b = di_ResolvedAt a \<and> di_ResolutionNotes b = di_ResolutionNotes a
        \<and> di_IsOverdue b = di_IsOverdue a)"
proof -
  have "dispute_stamped (NewDispute i t oid bu se r descr)"
    by (simp add: dispute_stamped_def NewDispute_def dispute_IsResolved_def)
  then have "dispute_stamped a" by (rule dispute_stamps.run_keeps [OF assms(1)])
  moreover have "dispute_IsResolved a \<Longrightarrow> resolved_as a b"
    using dispute_resolved.run_keeps [OF assms(2), of a] by (simp add: resolved_as_def)
  moreover have "di_Status a = DisputeUnderReview \<Longrightarrow> \<not> dispute_IsResolved a"
    by (simp add: dispute_IsResolved_def)
  ultimately show ?thesis
    unfolding dispute_stamped_def resolved_as_def dispute_IsUnderReview_def by blast
qed

theorem dispute_resolved_once_witness:
  "di_Status (snd (dispute_ResolveRefund 9 99 None
      (snd (dispute_ResolveRelease 8 98 None (NewDispute 1 0 7 3 4 ''late'' None))))) = DisputeResolvedRelease"
proof -
  let ?n = "NewDispute 1 0 7 3 4 ''late'' None"
  let ?a = "snd (dispute_ResolveRelease 8 98 None ?n)"
  let ?b = "snd (dispute_ResolveRefund 9 99 None ?a)"
  have "dispute_step ?n ?a"
    by (rule dispute_step [where c = "DResolveRelease 8 98 None" and err = "fst (dispute_ResolveRelease 8 98 None ?n)"]) simp
  moreover have "dispute_step ?a ?b"
    by (rule dispute_step [where c = "DResolveRefund 9 99 None" and err = "fst (dispute_ResolveRefund 9 99 None ?a)"]) simp
  moreover have "dispute_IsResolved ?a" "di_Status ?a = DisputeResolvedRelease"
    by (simp_all add: NewDispute_def dispute_defs)
  ultimately show ?thesis
    using dispute_resolved_once [of 1 0 7 3 4 "''late''" None ?a ?b] by auto
qed


text \<open>
  Three paths the program relies on can never open a dispute: the
  pre-shipment dispute of a paid order, the forced dispute of the user-ban
  handler, whose input has no reason code, and the escalation of a support
  ticket, which passes the administrator as the caller.
\<close>

theorem dispute_paths_always_refused:
  assumes "dr_Order rows = Some o1"
    and "or_Status o1 = OrderPaid \<or> in_ReasonCode inp = ''''
      \<or> \<not> IsSystemCaller c \<and> c \<noteq> or_BuyerID o1 \<and> c \<noteq> or_SellerID o1"
  shows "\<exists>e. OpenDispute an now mn nn i c inp rows = Inl e"
proof -
  have "'''' \<notin> set ValidReasonCodes" by (simp add: ValidReasonCodes_def)
  then have "OpenDispute an now mn nn i c inp rows \<noteq> Inr (d, rows')" for d rows'
    unfolding OpenDispute_Inr using assms by (auto simp: IsSystemCaller_def)
  then show ?thesis
    by (cases "OpenDispute an now mn nn i c inp rows") auto
qed

definition ban_input :: open_dispute_input where
  "ban_input = \<lparr>in_Reason = ''user_banned_review'', in_Description = None, in_MediaURLs = [],
     in_VideoURL = None, in_ReasonCode = ''''\<rparr>"

definition sample_rows :: dispute_rows where
  "sample_rows = \<lparr>dr_Order = Some sample_shipped, dr_Escrow = Some sample_escrow, dr_Disputes = []\<rparr>"

theorem dispute_paths_always_refused_witness:
  "\<exists>e. OpenDispute 2000 2000 2000 2000 50 SystemCallerID ban_input sample_rows = Inl e"
  using dispute_paths_always_refused [of sample_rows sample_shipped ban_input SystemCallerID 2000 2000 2000 2000 50]
  by (simp add: ban_input_def sample_rows_def)

text \<open>
  Whatever attempts are made, as long as no call reads its clock backwards,
  no caller ever has more than five disputes opened within any thirty days.
\<close>

theorem dispute_rate_limited:
  assumes "dispute_attempt\<^sup>*\<^sup>* [] table"
  shows "length (filter (\<lambda>d. di_CallerID d = Some c \<and> w \<le> di_OpenedAt d
      \<and> di_OpenedAt d \<le> w + 30 * 24 * hour) table) \<le> 5"
  using dispute_rate.run_keeps [OF assms] by (simp add: dispute_rate_ok_def disputes_in_def)

definition buyer_input :: open_dispute_input where
  "buyer_input = \<lparr>in_Reason = ''damaged'', in_Description = None, in_MediaURLs = [],
     in_VideoURL = Some ''https'', in_ReasonCode = ''shipping_damage''\<rparr>"

definition buyer_dispute :: dispute where
  "buyer_dispute = (NewDispute 50 2000 1 2 3 ''damaged'' None)
     \<lparr>di_CallerID := Some 2, di_ReasonCode := Some ''shipping_damage'', di_EvidenceURLs := [''https'']\<rparr>"

lemma buyer_dispute_opens:
  "\<exists>rows'. OpenDispute 2000 2000 2000 2000 50 2 buyer_input sample_rows = Inr (buyer_dispute, rows')
     \<and> dr_Disputes rows' = [buyer_dispute]"
proof -
  have "or_ID sample_shipped = 1" "or_BuyerID sample_shipped = 2" "or_SellerID sample_shipped = 3"
    "\<not> or_HasDispute sample_shipped" "or_Status sample_shipped = OrderShipped"
    "or_AutoReleaseAt sample_shipped = Some (1000 + AutoReleaseDuration)"
    by (simp_all add: sample_order_defs)
  then show ?thesis
    unfolding OpenDispute_Inr
    by (simp add: sample_rows_def sample_escrow_def buyer_input_def buyer_dispute_def dispute_evidence_def
        ValidReasonCodes_def BuyerReasonCodes_def CheckUserBeforeDispute_def GetCallerDisputeCount_def
        GetCallerDisputeCountAgainstParty_def MaxDisputesPer30Days_def
        MaxDisputesWithSameCounterparty_def order_IsWithinPostShipDisputeWindow_def go_arith order_consts)
qed

theorem dispute_rate_limited_witness:
  "length (filter (\<lambda>d. di_CallerID d = Some 2 \<and> 0 \<le> di_OpenedAt d
      \<and> di_OpenedAt d \<le> 0 + 30 * 24 * hour) [buyer_dispute]) \<le> 5"
proof -
  from buyer_dispute_opens obtain rows' where
    o: "OpenDispute 2000 2000 2000 2000 50 2 buyer_input sample_rows = Inr (buyer_dispute, rows')"
      "dr_Disputes rows' = [buyer_dispute]" by blast
  have "dispute_attempt [] (dr_Disputes rows')"
    by (rule attempt_opened [OF _ _ o(1)]) (simp_all add: sample_rows_def)
  then have "dispute_attempt\<^sup>*\<^sup>* [] [buyer_dispute]" by (simp add: o(2))
  then show ?thesis by (rule dispute_rate_limited)
qed


end
