(* ===== verification/Negotiation.thy ===== *)
theory Negotiation
  imports Order
begin

text \<open>
  \<open>commerce/negotiation/entity\<close>: the price agreement between a buyer and a
  seller (\<open>negotiation_session.go\<close>, \<open>negotiation_status.go\<close>,
  \<open>negotiation_price_history.go\<close>, \<open>negotiation_resource_type.go\<close>).
\<close>

datatype NegotiationStatus =
    NegotiationActive | NegotiationAccepted | NegotiationCancelled | NegotiationExpired
  | NegotiationOther string

definition negotiationStatus_IsActive :: "NegotiationStatus \<Rightarrow> bool" where
  "negotiationStatus_IsActive s \<longleftrightarrow> s = NegotiationActive"

definition negotiationStatus_IsTerminal :: "NegotiationStatus \<Rightarrow> bool" where
  "negotiationStatus_IsTerminal s \<longleftrightarrow> s = NegotiationCancelled \<or> s = NegotiationExpired"

fun negotiationStatus_CanTransition :: "NegotiationStatus \<Rightarrow> NegotiationStatus \<Rightarrow> bool" where
  "negotiationStatus_CanTransition NegotiationActive target =
     (target = NegotiationAccepted \<or> target = NegotiationCancelled \<or> target = NegotiationExpired)"
| "negotiationStatus_CanTransition NegotiationAccepted target = (target = NegotiationExpired)"
| "negotiationStatus_CanTransition NegotiationCancelled target = False"
| "negotiationStatus_CanTransition NegotiationExpired target = False"
| "negotiationStatus_CanTransition (NegotiationOther _) target = False"

datatype NegotiationResourceType = ResourceForSale | ResourceOther string

definition negotiationResource_IsValid :: "NegotiationResourceType \<Rightarrow> bool" where
  "negotiationResource_IsValid t \<longleftrightarrow> t = ResourceForSale"

record negotiation =
  ng_ID :: uuid
  ng_ResourceType :: NegotiationResourceType
  ng_ForSaleID :: uuid
  ng_BuyerID :: uuid
  ng_SellerID :: uuid
  ng_ChatRoomID :: "uuid option"
  ng_Status :: NegotiationStatus
  ng_OrderID :: "uuid option"
  ng_ExpiresAt :: "time option"
  ng_CurrentPrice :: "i64 option"
  ng_AcceptedPrice :: "i64 option"
  ng_ProposalSequence :: i64
  ng_AcceptedAt :: "time option"
  ng_CreatedAt :: time
  ng_UpdatedAt :: time

datatype negotiation_error =
    NegotiationInvalidTransition uuid NegotiationStatus NegotiationStatus
  | SessionNotActive uuid NegotiationStatus
  | ChatRoomNotSet uuid
  | NegotiationAlreadySettled uuid uuid
  | NoPrice uuid
  | InvalidPrice uuid i64 string

definition DefaultNegotiationExpiration :: duration where
  "DefaultNegotiationExpiration = 24 * hour"

definition negotiation_maxPrice :: i64 where
  "negotiation_maxPrice = 1000000000000"

definition NewNegotiationSession ::
    "uuid \<Rightarrow> time \<Rightarrow> NegotiationResourceType \<Rightarrow> uuid \<Rightarrow> uuid \<Rightarrow> uuid \<Rightarrow> negotiation" where
  "NewNegotiationSession new_id now resourceType forSaleID buyerID sellerID =
    \<lparr>ng_ID = new_id, ng_ResourceType = resourceType, ng_ForSaleID = forSaleID, ng_BuyerID = buyerID,
     ng_SellerID = sellerID, ng_ChatRoomID = None, ng_Status = NegotiationActive, ng_OrderID = None,
     ng_ExpiresAt = Some (time_add now DefaultNegotiationExpiration), ng_CurrentPrice = None,
     ng_AcceptedPrice = None, ng_ProposalSequence = 0, ng_AcceptedAt = None,
     ng_CreatedAt = now, ng_UpdatedAt = now\<rparr>"

definition negotiation_transitionTo ::
    "NegotiationStatus \<Rightarrow> time \<Rightarrow> negotiation \<Rightarrow> (negotiation_error, negotiation) mutation" where
  [mutation]: "negotiation_transitionTo target now s =
    (if \<not> negotiationStatus_CanTransition (ng_Status s) target
     then fail (NegotiationInvalidTransition (ng_ID s) (ng_Status s) target) s
     else ok (s\<lparr>ng_Status := target, ng_UpdatedAt := now\<rparr>))"

definition negotiation_Cancel :: "time \<Rightarrow> negotiation \<Rightarrow> (negotiation_error, negotiation) mutation" where
  [mutation]: "negotiation_Cancel now s = negotiation_transitionTo NegotiationCancelled now s"

definition negotiation_IsSettled :: "negotiation \<Rightarrow> bool" where
  "negotiation_IsSettled s \<longleftrightarrow> is_set (ng_OrderID s) \<and> the (ng_OrderID s) \<noteq> uuid_nil"

definition negotiation_Expire :: "time \<Rightarrow> negotiation \<Rightarrow> (negotiation_error, negotiation) mutation" where
  [mutation]: "negotiation_Expire now s =
    (if negotiation_IsSettled s then fail (NegotiationAlreadySettled (ng_ID s) (the (ng_OrderID s))) s
     else negotiation_transitionTo NegotiationExpired now s)"

definition negotiation_EnsureSessionActive :: "negotiation \<Rightarrow> negotiation_error option" where
  "negotiation_EnsureSessionActive s =
    (if ng_Status s \<noteq> NegotiationActive then Some (SessionNotActive (ng_ID s) (ng_Status s)) else None)"

definition negotiation_IsExpired :: "time \<Rightarrow> negotiation \<Rightarrow> bool" where
  "negotiation_IsExpired now s =
    (case ng_ExpiresAt s of None \<Rightarrow> False | Some t \<Rightarrow> after now t)"

definition negotiation_CanSettle :: "time \<Rightarrow> negotiation \<Rightarrow> bool" where
  "negotiation_CanSettle now s \<longleftrightarrow>
     ng_Status s = NegotiationAccepted \<and> \<not> negotiation_IsExpired now s \<and> \<not> negotiation_IsSettled s"

definition negotiation_IsParticipant :: "uuid \<Rightarrow> negotiation \<Rightarrow> bool" where
  "negotiation_IsParticipant userID s \<longleftrightarrow> ng_BuyerID s = userID \<or> ng_SellerID s = userID"

definition negotiation_IsBuyer :: "uuid \<Rightarrow> negotiation \<Rightarrow> bool" where
  "negotiation_IsBuyer userID s \<longleftrightarrow> ng_BuyerID s = userID"

definition negotiation_IsSeller :: "uuid \<Rightarrow> negotiation \<Rightarrow> bool" where
  "negotiation_IsSeller userID s \<longleftrightarrow> ng_SellerID s = userID"

definition negotiation_SetChatRoomID :: "time \<Rightarrow> uuid \<Rightarrow> negotiation \<Rightarrow> negotiation" where
  "negotiation_SetChatRoomID now chatRoomID s = s\<lparr>ng_ChatRoomID := Some chatRoomID, ng_UpdatedAt := now\<rparr>"

definition negotiation_HasChatRoom :: "negotiation \<Rightarrow> bool" where
  "negotiation_HasChatRoom s \<longleftrightarrow> is_set (ng_ChatRoomID s) \<and> the (ng_ChatRoomID s) \<noteq> uuid_nil"

definition negotiation_EnsureChatRoomExists :: "negotiation \<Rightarrow> negotiation_error option" where
  "negotiation_EnsureChatRoomExists s =
    (if \<not> negotiation_HasChatRoom s then Some (ChatRoomNotSet (ng_ID s)) else None)"

definition negotiation_SetCurrentPrice ::
    "time \<Rightarrow> i64 \<Rightarrow> negotiation \<Rightarrow> (negotiation_error, negotiation) mutation" where
  [mutation]: "negotiation_SetCurrentPrice now price s =
    (if price \<le> 0 then fail (InvalidPrice (ng_ID s) price ''price must be greater than 0'') s
     else if price > negotiation_maxPrice
     then fail (InvalidPrice (ng_ID s) price ''price exceeds maximum allowed value'') s
     else ok (s\<lparr>ng_CurrentPrice := Some price,
                ng_ProposalSequence := wrap64 (ng_ProposalSequence s + 1), ng_UpdatedAt := now\<rparr>))"

text \<open>The fields are written before the transition is attempted, as in the code.\<close>

definition negotiation_AcceptWithPrice ::
    "time \<Rightarrow> time \<Rightarrow> negotiation \<Rightarrow> (negotiation_error, negotiation) mutation" where
  [mutation]: "negotiation_AcceptWithPrice now updated_now s =
    (case ng_CurrentPrice s of
       None \<Rightarrow> fail (NoPrice (ng_ID s)) s
     | Some price \<Rightarrow>
         if price \<le> 0
         then fail (InvalidPrice (ng_ID s) price ''current_price is invalid (must be > 0)'') s
         else if price > negotiation_maxPrice
         then fail (InvalidPrice (ng_ID s) price ''current_price exceeds maximum allowed value'') s
         else negotiation_transitionTo NegotiationAccepted updated_now
           (s\<lparr>ng_AcceptedPrice := ng_CurrentPrice s, ng_AcceptedAt := Some now,
              ng_ExpiresAt := Some (time_add now DefaultNegotiationExpiration)\<rparr>))"

section \<open>Price history\<close>

record price_history =
  ph_ID :: uuid
  ph_SessionID :: uuid
  ph_ProposalSequence :: i64
  ph_OldPrice :: "i64 option"
  ph_NewPrice :: i64
  ph_ChangedByUserID :: uuid
  ph_ChangeReason :: string
  ph_CreatedAt :: time

definition NewNegotiationPriceHistory ::
    "uuid \<Rightarrow> time \<Rightarrow> uuid \<Rightarrow> i64 \<Rightarrow> i64 option \<Rightarrow> i64 \<Rightarrow> uuid \<Rightarrow> string \<Rightarrow> price_history" where
  "NewNegotiationPriceHistory new_id now sessionID proposalSequence oldPrice newPrice changedByUserID changeReason =
    \<lparr>ph_ID = new_id, ph_SessionID = sessionID, ph_ProposalSequence = proposalSequence,
     ph_OldPrice = oldPrice, ph_NewPrice = newPrice, ph_ChangedByUserID = changedByUserID,
     ph_ChangeReason = changeReason, ph_CreatedAt = now\<rparr>"

definition priceHistory_GetPriceChange :: "price_history \<Rightarrow> i64" where
  "priceHistory_GetPriceChange h =
    (case ph_OldPrice h of None \<Rightarrow> ph_NewPrice h | Some old \<Rightarrow> wrap64 (ph_NewPrice h - old))"

definition priceHistory_IsPriceIncrease :: "price_history \<Rightarrow> bool" where
  "priceHistory_IsPriceIncrease h =
    (case ph_OldPrice h of None \<Rightarrow> False | Some old \<Rightarrow> ph_NewPrice h > old)"

definition priceHistory_IsPriceDecrease :: "price_history \<Rightarrow> bool" where
  "priceHistory_IsPriceDecrease h =
    (case ph_OldPrice h of None \<Rightarrow> False | Some old \<Rightarrow> ph_NewPrice h < old)"

section \<open>Calls and runs\<close>

datatype negotiation_call =
    NCancel time | NExpire time | NSetChatRoom time uuid | NSetPrice time i64 | NAccept time time

fun negotiation_do :: "negotiation_call \<Rightarrow> negotiation \<Rightarrow> (negotiation_error, negotiation) mutation" where
  "negotiation_do (NCancel t) s = negotiation_Cancel t s"
| "negotiation_do (NExpire t) s = negotiation_Expire t s"
| "negotiation_do (NSetChatRoom t i) s = ok (negotiation_SetChatRoomID t i s)"
| "negotiation_do (NSetPrice t p) s = negotiation_SetCurrentPrice t p s"
| "negotiation_do (NAccept t u) s = negotiation_AcceptWithPrice t u s"

text \<open>
  The callers persist a session only when its method succeeded, so a step of the
  stored session is a successful call.
\<close>

inductive negotiation_step :: "negotiation \<Rightarrow> negotiation \<Rightarrow> bool" where
  negotiation_step: "negotiation_do c a = (None, b) \<Longrightarrow> negotiation_step a b"

inductive_simps negotiation_step_simps: "negotiation_step a b"

lemma negotiation_do_status:
  "negotiation_do c a = (None, b) \<Longrightarrow>
     ng_Status b = ng_Status a \<or> negotiationStatus_CanTransition (ng_Status a) (ng_Status b)"
  by (cases c) (auto simp: mutation negotiation_SetChatRoomID_def split: if_splits option.splits)

fun negotiation_rank :: "NegotiationStatus \<Rightarrow> nat" where
  "negotiation_rank NegotiationActive = 0"
| "negotiation_rank NegotiationAccepted = 1"
| "negotiation_rank _ = 2"

lemma negotiation_CanTransition_rank:
  "negotiationStatus_CanTransition s t \<Longrightarrow> negotiation_rank s < negotiation_rank t"
  by (cases s) auto

interpretation negotiation_life: ranked_lifecycle ng_Status negotiationStatus_CanTransition
    negotiation_step negotiation_rank
  by unfold_locales
    (auto simp: negotiation_step_simps dest: negotiation_do_status negotiation_CanTransition_rank)

text \<open>The agreed price and the deal's 24 hours.\<close>

definition negotiation_wf :: "negotiation \<Rightarrow> bool" where
  "negotiation_wf s \<longleftrightarrow>
     (ng_AcceptedPrice s \<noteq> None \<longleftrightarrow> ng_AcceptedAt s \<noteq> None)
   \<and> (ng_Status s = NegotiationAccepted \<longrightarrow> ng_AcceptedPrice s \<noteq> None)
   \<and> (ng_Status s = NegotiationActive \<longrightarrow> ng_AcceptedPrice s = None)
   \<and> (\<forall>p. ng_AcceptedPrice s = Some p \<longrightarrow> 0 < p \<and> p \<le> negotiation_maxPrice)
   \<and> (\<forall>p. ng_CurrentPrice s = Some p \<longrightarrow> 0 < p \<and> p \<le> negotiation_maxPrice)
   \<and> (\<forall>t. ng_AcceptedAt s = Some t \<longrightarrow> ng_ExpiresAt s = Some (t + 24 * hour))"

interpretation negotiation_inv: kept_fact negotiation_step negotiation_wf
proof unfold_locales
  fix x y
  assume "negotiation_step x y" "negotiation_wf x"
  then obtain c where "negotiation_do c x = (None, y)" by (auto simp: negotiation_step_simps)
  with \<open>negotiation_wf x\<close> show "negotiation_wf y"
    by (cases c) (auto simp: mutation negotiation_SetChatRoomID_def negotiation_wf_def
        DefaultNegotiationExpiration_def time_add_def split: if_splits option.splits)
qed

definition agreed_on :: "i64 option \<Rightarrow> time option \<Rightarrow> negotiation \<Rightarrow> bool" where
  "agreed_on p t s \<longleftrightarrow> ng_Status s \<in> {NegotiationAccepted, NegotiationExpired}
     \<and> ng_AcceptedPrice s = p \<and> ng_ExpiresAt s = t"

interpretation negotiation_deal: kept_fact negotiation_step "agreed_on p t" for p t
proof unfold_locales
  fix x y
  assume "negotiation_step x y" "agreed_on p t x"
  then obtain c where "negotiation_do c x = (None, y)" by (auto simp: negotiation_step_simps)
  with \<open>agreed_on p t x\<close> show "agreed_on p t y"
    by (cases c) (auto simp: mutation negotiation_SetChatRoomID_def agreed_on_def
        split: if_splits option.splits)
qed

section \<open>Properties\<close>


definition sample_session :: negotiation where
  "sample_session = NewNegotiationSession 1 0 ResourceForSale 4 2 3"

definition sample_deal :: "i64 \<Rightarrow> negotiation" where
  "sample_deal p = snd (negotiation_AcceptWithPrice 20 20 (snd (negotiation_SetCurrentPrice 10 p sample_session)))"

lemmas sample_session_defs = sample_deal_def sample_session_def NewNegotiationSession_def mutation
  negotiation_maxPrice_def DefaultNegotiationExpiration_def time_add_def

lemma sample_deal_run:
  "0 < p \<Longrightarrow> p \<le> negotiation_maxPrice \<Longrightarrow> negotiation_step\<^sup>*\<^sup>* sample_session (sample_deal p)"
proof -
  assume p: "0 < p" "p \<le> negotiation_maxPrice"
  let ?a = "snd (negotiation_SetCurrentPrice 10 p sample_session)"
  have "negotiation_step sample_session ?a"
    by (rule negotiation_step [where c = "NSetPrice 10 p"]) (use p in \<open>simp add: sample_session_defs\<close>)
  moreover have "negotiation_step ?a (sample_deal p)"
    by (rule negotiation_step [where c = "NAccept 20 20"]) (use p in \<open>simp add: sample_session_defs\<close>)
  ultimately show "negotiation_step\<^sup>*\<^sup>* sample_session (sample_deal p)" by auto
qed


text \<open>
  A failing \<open>AcceptWithPrice\<close> is not without effect: on a session that is
  no longer active, with a valid current price, it reports an error and yet
  overwrites the accepted price with the current one and restarts the 24 hours
  on the object it leaves to its caller.
\<close>

theorem failed_accept_rewrites_the_deal:
  assumes "ng_Status s \<noteq> NegotiationActive" "ng_CurrentPrice s = Some p" "0 < p" "p \<le> 1000000000000"
  shows "negotiation_AcceptWithPrice now u s =
    (Some (NegotiationInvalidTransition (ng_ID s) (ng_Status s) NegotiationAccepted),
     s\<lparr>ng_AcceptedPrice := Some p, ng_AcceptedAt := Some now, ng_ExpiresAt := Some (now + 24 * hour)\<rparr>)"
  using assms by (cases "ng_Status s")
    (simp_all add: mutation negotiation_maxPrice_def DefaultNegotiationExpiration_def time_add_def)

theorem failed_accept_rewrites_the_deal_witness:
  "ng_ExpiresAt (snd (negotiation_AcceptWithPrice 90 90 (sample_deal 900))) = Some (90 + 24 * hour)"
proof -
  have "ng_Status (sample_deal 900) \<noteq> NegotiationActive" "ng_CurrentPrice (sample_deal 900) = Some 900"
    by (simp_all add: sample_session_defs)
  from failed_accept_rewrites_the_deal [OF this] show ?thesis by simp
qed

text \<open>
  The two price caps disagree: a price between the order's cap of 5 * 10^10
  and the negotiation's cap of 10^12 can be proposed and accepted, and then
  every attempt to create the order at the agreed price panics.
\<close>

theorem agreed_price_can_be_unorderable:
  assumes "50000000000 < p" "p \<le> 1000000000000" "0 < q" "0 \<le> eb"
  shows "negotiation_step\<^sup>*\<^sup>* sample_session (sample_deal p)
    \<and> ng_Status (sample_deal p) = NegotiationAccepted \<and> ng_AcceptedPrice (sample_deal p) = Some p
    \<and> NewOrderFromSource i now onum bu se SourceNegotiation sid nid q p sub ship cp ca sf eb setup prep tok pe
        = Inl (UnitPriceExceedsMaximum p 50000000000)"
  using assms sample_deal_run [of p]
  by (simp add: sample_session_defs NewOrderFromSource_def money_defs maxUnitPrice_def)

theorem agreed_price_can_be_unorderable_witness:
  "ng_AcceptedPrice (sample_deal 60000000000) = Some 60000000000
   \<and> NewOrderFromSource 1 0 '''' 2 3 SourceNegotiation 4 None 1 60000000000 0 0 5 0 0 0 sample_setup '''' None 9
        = Inl (UnitPriceExceedsMaximum 60000000000 50000000000)"
  using agreed_price_can_be_unorderable [of 60000000000 1 0 1 0 "''''" 2 3 4 None 0 0 5 0 0 sample_setup "''''" None 9]
  by simp
end
