(* ===== verification/Coins.thy ===== *)
theory Coins
  imports Lifecycle
begin

text \<open>
  \<open>incentive/coins/entity\<close> and \<open>application/limits.go\<close>: loyalty-coin
  transactions, the aggregate balance row, reservations, and the limits on how
  many coins an order may use.
\<close>

section \<open>Transactions\<close>

datatype CoinTransactionType = CoinEarn | CoinSpend | CoinTypeOther string

datatype CoinReferenceType =
    RefOrderReward | RefOrderSpend | RefRefundEarn | RefRefundSpend | RefOther string

fun coinType_IsValid :: "CoinTransactionType \<Rightarrow> bool" where
  "coinType_IsValid (CoinTypeOther _) = False"
| "coinType_IsValid _ = True"

fun coinReference_IsValid :: "CoinReferenceType \<Rightarrow> bool" where
  "coinReference_IsValid (RefOther _) = False"
| "coinReference_IsValid _ = True"

record coins_transaction =
  ct_ID :: uuid
  ct_UserID :: uuid
  ct_Type :: CoinTransactionType
  ct_Amount :: i64
  ct_ReferenceType :: CoinReferenceType
  ct_ReferenceID :: "uuid option"
  ct_CreatedAt :: time

datatype coins_error =
    CoinAmountNotPositive i64
  | CoinInvalidType
  | CoinInvalidReference
  | NegativeInitialBalance i64
  | NegativeBalance i64 i64
  | ReservationAmountNotPositive i64
  | ReservationNoExpiry
  | ReservationNotReserved string
  | ReservationConflict uuid i64 i64
  | ReservationInsufficient uuid i64 i64 i64 i64
  | ReservationAlreadyReleased uuid
  | ReservationAlreadyConsumed uuid
  | ReservationUnknownStatus
  | DuplicateTransaction uuid CoinReferenceType "uuid option"
  | ConstraintViolation
  | TransactionAborted
  | NoReservationNoSpend uuid
  | InsufficientCoinBalance uuid i64

definition coinsTransaction_IsValid :: "coins_transaction \<Rightarrow> coins_error option" where
  "coinsTransaction_IsValid t =
    (if \<not> coinType_IsValid (ct_Type t) then Some CoinInvalidType
     else if \<not> coinReference_IsValid (ct_ReferenceType t) then Some CoinInvalidReference
     else if ct_Amount t \<le> 0 then Some (CoinAmountNotPositive (ct_Amount t))
     else None)"

definition NewCoinsTransaction ::
    "uuid \<Rightarrow> time \<Rightarrow> uuid \<Rightarrow> CoinTransactionType \<Rightarrow> i64 \<Rightarrow> CoinReferenceType \<Rightarrow> uuid option
      \<Rightarrow> coins_error + coins_transaction" where
  "NewCoinsTransaction new_id now userID transactionType amount referenceType referenceID =
    (if amount \<le> 0 then Inl (CoinAmountNotPositive amount)
     else if \<not> coinType_IsValid transactionType then Inl CoinInvalidType
     else if \<not> coinReference_IsValid referenceType then Inl CoinInvalidReference
     else Inr \<lparr>ct_ID = new_id, ct_UserID = userID, ct_Type = transactionType, ct_Amount = amount,
               ct_ReferenceType = referenceType, ct_ReferenceID = referenceID, ct_CreatedAt = now\<rparr>)"

definition NewEarnTransaction ::
    "uuid \<Rightarrow> time \<Rightarrow> uuid \<Rightarrow> i64 \<Rightarrow> CoinReferenceType \<Rightarrow> uuid option \<Rightarrow> coins_error + coins_transaction" where
  "NewEarnTransaction new_id now userID amount referenceType referenceID =
    NewCoinsTransaction new_id now userID CoinEarn amount referenceType referenceID"

definition NewSpendTransaction ::
    "uuid \<Rightarrow> time \<Rightarrow> uuid \<Rightarrow> i64 \<Rightarrow> uuid \<Rightarrow> coins_error + coins_transaction" where
  "NewSpendTransaction new_id now userID amount referenceID =
    NewCoinsTransaction new_id now userID CoinSpend amount RefOrderSpend (Some referenceID)"

section \<open>The aggregate balance row\<close>

record user_coin_balance =
  cb_UserID :: uuid
  cb_Balance :: i64
  cb_Version :: i64
  cb_CreatedAt :: time
  cb_UpdatedAt :: time

definition NewUserCoinBalance :: "time \<Rightarrow> time \<Rightarrow> uuid \<Rightarrow> i64 \<Rightarrow> coins_error + user_coin_balance" where
  "NewUserCoinBalance now updated_now userID initialBalance =
    (if initialBalance < 0 then Inl (NegativeInitialBalance initialBalance)
     else Inr \<lparr>cb_UserID = userID, cb_Balance = initialBalance, cb_Version = 1,
               cb_CreatedAt = now, cb_UpdatedAt = updated_now\<rparr>)"

definition balance_CanSpend :: "i64 \<Rightarrow> user_coin_balance \<Rightarrow> bool" where
  "balance_CanSpend amount b \<longleftrightarrow> cb_Balance b \<ge> amount"

definition balance_CalculateNewBalance :: "i64 \<Rightarrow> user_coin_balance \<Rightarrow> coins_error + i64" where
  "balance_CalculateNewBalance spendAmount b =
    (let newBalance = wrap64 (cb_Balance b - spendAmount)
     in if newBalance < 0 then Inl (NegativeBalance (cb_Balance b) spendAmount) else Inr newBalance)"

definition balance_CalculateNewBalanceWithEarn :: "i64 \<Rightarrow> user_coin_balance \<Rightarrow> i64" where
  "balance_CalculateNewBalanceWithEarn earnAmount b = wrap64 (cb_Balance b + earnAmount)"

definition balance_ReconcileDifference :: "i64 \<Rightarrow> user_coin_balance \<Rightarrow> i64" where
  "balance_ReconcileDifference derivedBalance b = wrap64 (cb_Balance b - derivedBalance)"

section \<open>Reservations\<close>

datatype CoinReservationStatus =
    ReservationReserved | ReservationConsumed | ReservationReleased | ReservationOther string

fun reservationStatus_String :: "CoinReservationStatus \<Rightarrow> string" where
  "reservationStatus_String ReservationReserved = ''reserved''"
| "reservationStatus_String ReservationConsumed = ''consumed''"
| "reservationStatus_String ReservationReleased = ''released''"
| "reservationStatus_String (ReservationOther s) = s"

fun reservationStatus_IsValid :: "CoinReservationStatus \<Rightarrow> bool" where
  "reservationStatus_IsValid (ReservationOther _) = False"
| "reservationStatus_IsValid _ = True"

definition reservationStatus_IsTerminal :: "CoinReservationStatus \<Rightarrow> bool" where
  "reservationStatus_IsTerminal s \<longleftrightarrow> s = ReservationConsumed \<or> s = ReservationReleased"

record coin_reservation =
  rs_ID :: uuid
  rs_PaymentID :: uuid
  rs_UserID :: uuid
  rs_Amount :: i64
  rs_Status :: CoinReservationStatus
  rs_ExpiresAt :: time
  rs_ConsumedAt :: "time option"
  rs_ReleasedAt :: "time option"
  rs_CreatedAt :: time
  rs_UpdatedAt :: time

definition NewCoinReservation ::
    "uuid \<Rightarrow> time \<Rightarrow> uuid \<Rightarrow> uuid \<Rightarrow> i64 \<Rightarrow> time \<Rightarrow> coins_error + coin_reservation" where
  "NewCoinReservation new_id now paymentID userID amount expiresAt =
    (if amount \<le> 0 then Inl (ReservationAmountNotPositive amount)
     else if expiresAt = zero_time then Inl ReservationNoExpiry
     else Inr \<lparr>rs_ID = new_id, rs_PaymentID = paymentID, rs_UserID = userID, rs_Amount = amount,
               rs_Status = ReservationReserved, rs_ExpiresAt = expiresAt, rs_ConsumedAt = None,
               rs_ReleasedAt = None, rs_CreatedAt = now, rs_UpdatedAt = now\<rparr>)"

definition reservation_Consume :: "time \<Rightarrow> coin_reservation \<Rightarrow> (coins_error, coin_reservation) mutation" where
  [mutation]: "reservation_Consume now r =
    (if rs_Status r \<noteq> ReservationReserved
     then fail (ReservationNotReserved (reservationStatus_String (rs_Status r))) r
     else ok (r\<lparr>rs_Status := ReservationConsumed, rs_ConsumedAt := Some now, rs_UpdatedAt := now\<rparr>))"

definition reservation_Release :: "time \<Rightarrow> coin_reservation \<Rightarrow> (coins_error, coin_reservation) mutation" where
  [mutation]: "reservation_Release now r =
    (if rs_Status r \<noteq> ReservationReserved
     then fail (ReservationNotReserved (reservationStatus_String (rs_Status r))) r
     else ok (r\<lparr>rs_Status := ReservationReleased, rs_ReleasedAt := Some now, rs_UpdatedAt := now\<rparr>))"

definition reservation_IsActive :: "coin_reservation \<Rightarrow> bool" where
  "reservation_IsActive r \<longleftrightarrow> rs_Status r = ReservationReserved"

section \<open>Limits\<close>

definition MaxCoinsUsagePercentage :: i64 where
  "MaxCoinsUsagePercentage = 20"

definition MaxCoinsAllowedForDiscountedProduct :: "i64 \<Rightarrow> i64" where
  "MaxCoinsAllowedForDiscountedProduct discountedProduct =
    (if discountedProduct \<le> 0 then 0
     else wrap64 (discountedProduct * MaxCoinsUsagePercentage) sdiv 100)"

definition ResolveOrderRedemption :: "i64 \<Rightarrow> i64 \<Rightarrow> bool \<Rightarrow> i64" where
  "ResolveOrderRedemption availableBalance maxCoinsAllowed useCoins =
    (if \<not> useCoins \<or> maxCoinsAllowed \<le> 0 \<or> availableBalance \<le> 0 then 0
     else if availableBalance < maxCoinsAllowed then availableBalance
     else maxCoinsAllowed)"

lemma MaxCoinsAllowed_exact:
  "pd * 20 \<le> i64_max \<Longrightarrow> 0 < pd \<Longrightarrow> MaxCoinsAllowedForDiscountedProduct pd = pd * 20 div 100"
  by (simp add: MaxCoinsAllowedForDiscountedProduct_def MaxCoinsUsagePercentage_def i64_defs sdiv_nonneg)

lemma ResolveOrderRedemption_bounds:
  "0 \<le> ResolveOrderRedemption b m u"
  "ResolveOrderRedemption b m u \<le> max 0 b" "ResolveOrderRedemption b m u \<le> max 0 m"
  by (simp_all add: ResolveOrderRedemption_def)

end
