(* ===== verification/CoinsStore.thy ===== *)
theory CoinsStore
  imports Coins
begin

text \<open>
  \<open>incentive/coins/infrastructure/repository/coins_repository_impl.go\<close> on its three
  tables, inside one database transaction. The model of PostgreSQL is what the
  queries say, the unique and check constraints of the migrations, and the
  documented rule that a failed statement aborts the transaction: every later
  statement of it fails, and it can only be rolled back. \<open>NOW()\<close> is an argument;
  the session runs in UTC. Connection failures are not modelled, and a \<open>bigint\<close>
  is an \<open>int\<close> (out-of-range arithmetic raises in the database).
\<close>

record coins_db =
  cd_Transactions :: "coins_transaction list"
  cd_Balances :: "uuid \<Rightarrow> user_coin_balance option"
  cd_Reservations :: "coin_reservation list"
  cd_Aborted :: bool

type_synonym 'a coins_op = "coins_db \<Rightarrow> (coins_error + 'a) \<times> coins_db"

text \<open>Sequencing: an error stops the Go function, the database keeps what was written.\<close>

definition cbind :: "'a coins_op \<Rightarrow> ('a \<Rightarrow> 'b coins_op) \<Rightarrow> 'b coins_op" where
  "cbind m f db = (case m db of (Inl e, db') \<Rightarrow> (Inl e, db') | (Inr x, db') \<Rightarrow> f x db')"

definition creturn :: "'a \<Rightarrow> 'a coins_op" where
  "creturn x db = (Inr x, db)"

definition cerror :: "coins_error \<Rightarrow> 'a coins_op" where
  "cerror e db = (Inl e, db)"

text \<open>A statement that only reads, and one that also writes.\<close>

definition cquery :: "(coins_db \<Rightarrow> 'a) \<Rightarrow> 'a coins_op" where
  "cquery f db = (if cd_Aborted db then (Inl TransactionAborted, db) else (Inr (f db), db))"

definition cexec :: "(coins_db \<Rightarrow> 'a \<times> coins_db) \<Rightarrow> 'a coins_op" where
  "cexec f db = (if cd_Aborted db then (Inl TransactionAborted, db) else (Inr (fst (f db)), snd (f db)))"

lemma cbind_simps [simp]:
  "m db = (Inr x, db') \<Longrightarrow> cbind m f db = f x db'"
  "m db = (Inl e, db') \<Longrightarrow> cbind m f db = (Inl e, db')"
  by (simp_all add: cbind_def)

lemma cbind_Inr: "cbind m f db = (Inr y, db') \<longleftrightarrow> (\<exists>x d. m db = (Inr x, d) \<and> f x d = (Inr y, db'))"
  by (auto simp: cbind_def split: prod.splits sum.splits)

lemma cquery_simps:
  "cquery f db = (Inr x, db') \<longleftrightarrow> \<not> cd_Aborted db \<and> x = f db \<and> db' = db"
  "cexec g db = (Inr y, db') \<longleftrightarrow> \<not> cd_Aborted db \<and> y = fst (g db) \<and> db' = snd (g db)"
  "creturn z db = (Inr y2, db') \<longleftrightarrow> y2 = z \<and> db' = db"
  "cerror e db \<noteq> (Inr y2, db')"
  by (auto simp: cquery_def cexec_def creturn_def cerror_def)

section \<open>Transactions\<close>

definition same_reference :: "coins_transaction \<Rightarrow> coins_transaction \<Rightarrow> bool" where
  "same_reference s t \<longleftrightarrow> ct_UserID s = ct_UserID t \<and> ct_ReferenceType s = ct_ReferenceType t
     \<and> ct_ReferenceID s = ct_ReferenceID t \<and> is_set (ct_ReferenceID s)"

definition repo_CreateTransaction :: "coins_transaction \<Rightarrow> unit coins_op" where
  "repo_CreateTransaction t db =
    (if cd_Aborted db then (Inl TransactionAborted, db)
     else if coinsTransaction_IsValid t \<noteq> None then (Inl ConstraintViolation, db\<lparr>cd_Aborted := True\<rparr>)
     else if (\<exists>s \<in> set (cd_Transactions db). same_reference s t)
     then (Inl (DuplicateTransaction (ct_UserID t) (ct_ReferenceType t) (ct_ReferenceID t)),
           db\<lparr>cd_Aborted := True\<rparr>)
     else (Inr (), db\<lparr>cd_Transactions := cd_Transactions db @ [t]\<rparr>))"

fun IsDuplicateTransaction :: "coins_error \<Rightarrow> bool" where
  "IsDuplicateTransaction (DuplicateTransaction _ _ _) = True"
| "IsDuplicateTransaction _ = False"

definition repo_FindSpendByReference :: "uuid \<Rightarrow> uuid \<Rightarrow> coins_transaction option coins_op" where
  "repo_FindSpendByReference userID referenceID = cquery (\<lambda>db.
    find (\<lambda>t. ct_UserID t = userID \<and> ct_Type t = CoinSpend \<and> ct_ReferenceID t = Some referenceID)
      (cd_Transactions db))"

definition repo_FindEarnByReference ::
    "uuid \<Rightarrow> uuid \<Rightarrow> CoinReferenceType \<Rightarrow> coins_transaction option coins_op" where
  "repo_FindEarnByReference userID referenceID referenceType = cquery (\<lambda>db.
    find (\<lambda>t. ct_UserID t = userID \<and> ct_Type t = CoinEarn \<and> ct_ReferenceID t = Some referenceID
        \<and> ct_ReferenceType t = referenceType) (cd_Transactions db))"

definition signed_amount :: "coins_transaction \<Rightarrow> int" where
  "signed_amount t = (if ct_Type t = CoinEarn then ct_Amount t else - ct_Amount t)"

definition ledger_balance :: "coins_db \<Rightarrow> uuid \<Rightarrow> int" where
  "ledger_balance db userID =
    sum_list (map signed_amount (filter (\<lambda>t. ct_UserID t = userID) (cd_Transactions db)))"

definition repo_GetActiveBalance :: "uuid \<Rightarrow> i64 coins_op" where
  "repo_GetActiveBalance userID = cquery (\<lambda>db. ledger_balance db userID)"

definition lifetime_earned :: "coins_db \<Rightarrow> uuid \<Rightarrow> int" where
  "lifetime_earned db userID =
    sum_list (map (\<lambda>t. if ct_Type t = CoinEarn then ct_Amount t else 0)
      (filter (\<lambda>t. ct_UserID t = userID) (cd_Transactions db)))"

definition lifetime_spent :: "coins_db \<Rightarrow> uuid \<Rightarrow> int" where
  "lifetime_spent db userID =
    sum_list (map (\<lambda>t. if ct_Type t = CoinSpend then ct_Amount t else 0)
      (filter (\<lambda>t. ct_UserID t = userID) (cd_Transactions db)))"

definition day_of :: "time \<Rightarrow> int" where
  "day_of t = t div (24 * hour)"

definition daily_earned :: "coins_db \<Rightarrow> time \<Rightarrow> uuid \<Rightarrow> int" where
  "daily_earned db db_now userID =
    sum_list (map ct_Amount (filter (\<lambda>t. ct_UserID t = userID \<and> ct_Type t = CoinEarn
      \<and> day_of (ct_CreatedAt t) = day_of db_now) (cd_Transactions db)))"

definition repo_GetDailyEarnedTotal :: "time \<Rightarrow> uuid \<Rightarrow> i64 coins_op" where
  "repo_GetDailyEarnedTotal db_now userID = cquery (\<lambda>db. daily_earned db db_now userID)"

section \<open>The aggregate balance\<close>

definition repo_EnsureBalanceRow :: "time \<Rightarrow> uuid \<Rightarrow> unit coins_op" where
  "repo_EnsureBalanceRow db_now userID = cexec (\<lambda>db.
    ((), case cd_Balances db userID of
           Some _ \<Rightarrow> db
         | None \<Rightarrow> db\<lparr>cd_Balances := (cd_Balances db)(userID \<mapsto>
             \<lparr>cb_UserID = userID, cb_Balance = 0, cb_Version = 1, cb_CreatedAt = db_now, cb_UpdatedAt = db_now\<rparr>)\<rparr>))"

definition repo_GetBalanceRow :: "uuid \<Rightarrow> user_coin_balance option coins_op" where
  "repo_GetBalanceRow userID = cquery (\<lambda>db. cd_Balances db userID)"

definition bump_balance :: "time \<Rightarrow> int \<Rightarrow> user_coin_balance \<Rightarrow> user_coin_balance" where
  "bump_balance db_now n b =
    b\<lparr>cb_Balance := cb_Balance b + n, cb_UpdatedAt := db_now, cb_Version := cb_Version b + 1\<rparr>"

definition repo_AtomicDeductBalance :: "time \<Rightarrow> uuid \<Rightarrow> i64 \<Rightarrow> i64 coins_op" where
  "repo_AtomicDeductBalance db_now userID amount = cexec (\<lambda>db.
    case cd_Balances db userID of
      None \<Rightarrow> (0, db)
    | Some b \<Rightarrow>
        if cb_Balance b \<ge> amount
        then (1, db\<lparr>cd_Balances := (cd_Balances db)(userID \<mapsto> bump_balance db_now (- amount) b)\<rparr>)
        else (0, db))"

definition repo_AtomicAddBalance :: "time \<Rightarrow> uuid \<Rightarrow> i64 \<Rightarrow> i64 coins_op" where
  "repo_AtomicAddBalance db_now userID amount = cexec (\<lambda>db.
    case cd_Balances db userID of
      None \<Rightarrow> (0, db)
    | Some b \<Rightarrow> (1, db\<lparr>cd_Balances := (cd_Balances db)(userID \<mapsto> bump_balance db_now amount b)\<rparr>))"

definition repo_ReconcileBalance :: "uuid \<Rightarrow> i64 coins_op" where
  "repo_ReconcileBalance userID = cbind (repo_GetBalanceRow userID) (\<lambda>row.
    case row of
      None \<Rightarrow> creturn 0
    | Some b \<Rightarrow> cbind (repo_GetActiveBalance userID) (\<lambda>derived. creturn (cb_Balance b - derived)))"

section \<open>Reservations\<close>

definition reserved_sum :: "coins_db \<Rightarrow> uuid \<Rightarrow> int" where
  "reserved_sum db userID =
    sum_list (map rs_Amount (filter (\<lambda>r. rs_UserID r = userID \<and> rs_Status r = ReservationReserved)
      (cd_Reservations db)))"

definition repo_SumActiveReservations :: "uuid \<Rightarrow> i64 coins_op" where
  "repo_SumActiveReservations userID = cquery (\<lambda>db. reserved_sum db userID)"

definition find_reservation :: "coins_db \<Rightarrow> uuid \<Rightarrow> coin_reservation option" where
  "find_reservation db paymentID = find (\<lambda>r. rs_PaymentID r = paymentID) (cd_Reservations db)"

definition repo_GetReservationByPaymentID :: "uuid \<Rightarrow> coin_reservation option coins_op" where
  "repo_GetReservationByPaymentID paymentID = cquery (\<lambda>db. find_reservation db paymentID)"

definition insert_reservation :: "coin_reservation \<Rightarrow> unit coins_op" where
  "insert_reservation r db =
    (if cd_Aborted db then (Inl TransactionAborted, db)
     else if rs_Amount r \<le> 0 then (Inl ConstraintViolation, db\<lparr>cd_Aborted := True\<rparr>)
     else (Inr (), db\<lparr>cd_Reservations := cd_Reservations db @ [r]\<rparr>))"

text \<open>The lookup under the row lock rules out a concurrent insert, so the unique
  violation branch after the insert is the conflict branch before it.\<close>

definition repo_CreateReservation :: "time \<Rightarrow> coin_reservation \<Rightarrow> unit coins_op" where
  "repo_CreateReservation db_now r =
    (if rs_Status r \<noteq> ReservationReserved
     then cerror (ReservationNotReserved (reservationStatus_String (rs_Status r)))
     else cbind (repo_EnsureBalanceRow db_now (rs_UserID r)) (\<lambda>_.
       cbind (repo_GetBalanceRow (rs_UserID r)) (\<lambda>row.
       case row of
         None \<Rightarrow> cerror ReservationUnknownStatus
       | Some b \<Rightarrow>
           cbind (repo_GetReservationByPaymentID (rs_PaymentID r)) (\<lambda>existing.
           case existing of
             Some x \<Rightarrow> cerror (ReservationConflict (rs_PaymentID r) (rs_Amount x) (rs_Amount r))
           | None \<Rightarrow>
               cbind (repo_SumActiveReservations (rs_UserID r)) (\<lambda>reserved.
               let available = cb_Balance b - reserved
               in if rs_Amount r > available
                  then cerror (ReservationInsufficient (rs_UserID r) (rs_Amount r) available (cb_Balance b) reserved)
                  else insert_reservation r)))))"

text \<open>The \<open>UPDATE\<close> of the row of a payment while it is reserved.\<close>

definition set_reservation ::
    "uuid \<Rightarrow> (coin_reservation \<Rightarrow> coin_reservation) \<Rightarrow> coins_db \<Rightarrow> coins_db" where
  "set_reservation paymentID upd db = db\<lparr>cd_Reservations :=
    map (\<lambda>r. if rs_PaymentID r = paymentID \<and> rs_Status r = ReservationReserved then upd r else r)
      (cd_Reservations db)\<rparr>"

definition repo_ConsumeReservation :: "time \<Rightarrow> uuid \<Rightarrow> coin_reservation option coins_op" where
  "repo_ConsumeReservation now paymentID =
    cbind (repo_GetReservationByPaymentID paymentID) (\<lambda>found.
    case found of
      None \<Rightarrow> creturn None
    | Some r \<Rightarrow>
        (case rs_Status r of
           ReservationConsumed \<Rightarrow> creturn None
         | ReservationReleased \<Rightarrow> cerror (ReservationAlreadyReleased paymentID)
         | ReservationReserved \<Rightarrow>
             (let upd = (\<lambda>x. x\<lparr>rs_Status := ReservationConsumed, rs_ConsumedAt := Some now, rs_UpdatedAt := now\<rparr>)
              in cexec (\<lambda>db. (Some (upd r), set_reservation paymentID upd db)))
         | ReservationOther _ \<Rightarrow> cerror ReservationUnknownStatus))"

definition repo_ReleaseReservation :: "time \<Rightarrow> uuid \<Rightarrow> coin_reservation option coins_op" where
  "repo_ReleaseReservation now paymentID =
    cbind (repo_GetReservationByPaymentID paymentID) (\<lambda>found.
    case found of
      None \<Rightarrow> creturn None
    | Some r \<Rightarrow>
        (case rs_Status r of
           ReservationReleased \<Rightarrow> creturn None
         | ReservationConsumed \<Rightarrow> cerror (ReservationAlreadyConsumed paymentID)
         | ReservationReserved \<Rightarrow>
             (let upd = (\<lambda>x. x\<lparr>rs_Status := ReservationReleased, rs_ReleasedAt := Some now, rs_UpdatedAt := now\<rparr>)
              in cexec (\<lambda>db. (Some (upd r), set_reservation paymentID upd db)))
         | ReservationOther _ \<Rightarrow> cerror ReservationUnknownStatus))"

end
