(* ===== verification/CoinsService.thy ===== *)
theory CoinsService
  imports CoinsStore
begin

text \<open>
  \<open>incentive/coins/application/coins_service.go\<close> on top of the repository: the
  reward of a completed order, the spending of a settled payment's coins and
  the two restorations of a refund. The repository's promises are the locale
  \<open>coins_repository\<close>; the service's bookkeeping argument is made from them and
  holds for the tables by the interpretation.
\<close>

section \<open>The contract of the repository\<close>

text \<open>
  What the service relies on: a created transaction moves the ledger of its user
  by its signed amount and nothing else; the aggregate operations move the
  aggregate of their user and never the ledger.
\<close>

locale coins_repository =
  fixes ledger :: "'db \<Rightarrow> uuid \<Rightarrow> int"
    and aggregate :: "'db \<Rightarrow> uuid \<Rightarrow> int option"
    and create :: "coins_transaction \<Rightarrow> 'db \<Rightarrow> 'db option"
    and ensure :: "uuid \<Rightarrow> 'db \<Rightarrow> 'db option"
    and add :: "uuid \<Rightarrow> int \<Rightarrow> 'db \<Rightarrow> 'db option"
    and deduct :: "uuid \<Rightarrow> int \<Rightarrow> 'db \<Rightarrow> 'db option"
  assumes create_ledger: "create t db = Some db' \<Longrightarrow>
      ledger db' u = ledger db u + (if ct_UserID t = u then signed_amount t else 0)"
    and create_aggregate: "create t db = Some db' \<Longrightarrow> aggregate db' = aggregate db"
    and ensure_ledger: "ensure u db = Some db' \<Longrightarrow> ledger db' = ledger db"
    and ensure_aggregate: "ensure u db = Some db' \<Longrightarrow>
      aggregate db' = (if aggregate db u = None then (aggregate db)(u \<mapsto> 0) else aggregate db)"
    and add_ledger: "add u n db = Some db' \<Longrightarrow> ledger db' = ledger db"
    and add_aggregate: "add u n db = Some db' \<Longrightarrow>
      aggregate db' = (case aggregate db u of None \<Rightarrow> aggregate db | Some b \<Rightarrow> (aggregate db)(u \<mapsto> b + n))"
    and deduct_ledger: "deduct u n db = Some db' \<Longrightarrow> ledger db' = ledger db"
    and deduct_aggregate: "deduct u n db = Some db' \<Longrightarrow>
      (\<exists>b. aggregate db u = Some b \<and> n \<le> b \<and> aggregate db' = (aggregate db)(u \<mapsto> b - n))"
begin

text \<open>Ledger and aggregate agree; a user without an aggregate row has an empty ledger.\<close>

definition synced :: "'db \<Rightarrow> bool" where
  "synced db \<longleftrightarrow> (\<forall>u. ledger db u = (case aggregate db u of None \<Rightarrow> 0 | Some b \<Rightarrow> b))"

lemma ensure_synced: "ensure u db = Some db' \<Longrightarrow> synced db \<Longrightarrow> synced db'"
  by (auto simp: synced_def ensure_ledger ensure_aggregate split: option.splits)

text \<open>A credit with its row ensured first keeps them in step.\<close>

lemma credit_synced:
  assumes "synced db" "create t db = Some d1" "ct_Type t = CoinEarn"
    and "ensure (ct_UserID t) d1 = Some d2" "add (ct_UserID t) (ct_Amount t) d2 = Some d3"
  shows "synced d3"
  unfolding synced_def
proof
  fix u
  have l: "ledger d3 u = ledger db u + (if ct_UserID t = u then ct_Amount t else 0)"
    using assms by (simp add: add_ledger ensure_ledger create_ledger signed_amount_def)
  have a: "aggregate d1 = aggregate db" using assms(2) by (rule create_aggregate)
  show "ledger d3 u = (case aggregate d3 u of None \<Rightarrow> 0 | Some b \<Rightarrow> b)"
    using assms(1) unfolding l add_aggregate [OF assms(5)] ensure_aggregate [OF assms(4)] a synced_def
    by (auto split: option.splits)
qed

text \<open>A credit without the row is in step only if the row was there.\<close>

lemma bare_credit_synced:
  assumes "synced db" "create t db = Some d1" "ct_Type t = CoinEarn" "0 < ct_Amount t"
    and "add (ct_UserID t) (ct_Amount t) d1 = Some d2"
  shows "synced d2 \<longleftrightarrow> aggregate db (ct_UserID t) \<noteq> None"
proof -
  have a: "aggregate d1 = aggregate db" using assms(2) by (rule create_aggregate)
  have l: "ledger d2 u = ledger db u + (if ct_UserID t = u then ct_Amount t else 0)" for u
    using assms by (simp add: add_ledger create_ledger signed_amount_def)
  show ?thesis
  proof (cases "aggregate db (ct_UserID t)")
    case None
    have "ledger db (ct_UserID t) = 0" using assms(1) None by (simp add: synced_def)
    then have "ledger d2 (ct_UserID t) \<noteq> 0" using l assms(4) by simp
    moreover have "aggregate d2 (ct_UserID t) = None"
      using None by (simp add: add_aggregate [OF assms(5)] a)
    ultimately show ?thesis using None by (auto simp: synced_def split: option.splits)
  next
    case (Some b)
    then have "synced d2"
      using assms(1) unfolding synced_def l add_aggregate [OF assms(5)] a
      by (auto split: option.splits)
    with Some show ?thesis by simp
  qed
qed

lemma debit_synced:
  assumes "synced db" "create t db = Some d1" "ct_Type t \<noteq> CoinEarn"
    and "deduct (ct_UserID t) (ct_Amount t) d1 = Some d2"
  shows "synced d2"
proof -
  have a: "aggregate d1 = aggregate db" using assms(2) by (rule create_aggregate)
  have l: "ledger d2 u = ledger db u - (if ct_UserID t = u then ct_Amount t else 0)" for u
    using assms by (simp add: deduct_ledger create_ledger signed_amount_def)
  obtain b where b: "aggregate db (ct_UserID t) = Some b"
    "aggregate d2 = (aggregate db)(ct_UserID t \<mapsto> b - ct_Amount t)"
    using deduct_aggregate [OF assms(4)] a by auto
  have "ledger db (ct_UserID t) = b" using assms(1) b(1) by (simp add: synced_def)
  then show ?thesis
    using assms(1) unfolding synced_def l b(2) by (auto split: option.splits)
qed

end

section \<open>The tables keep the contract\<close>

definition success :: "'a coins_op \<Rightarrow> coins_db \<Rightarrow> coins_db option" where
  "success m db = (case m db of (Inl _, _) \<Rightarrow> None | (Inr _, db') \<Rightarrow> Some db')"

lemma success_Some: "success m db = Some db' \<longleftrightarrow> (\<exists>x. m db = (Inr x, db'))"
  by (auto simp: success_def split: prod.splits sum.splits)

definition table_aggregate :: "coins_db \<Rightarrow> uuid \<Rightarrow> int option" where
  "table_aggregate db u = map_option cb_Balance (cd_Balances db u)"

text \<open>A deduction counts as made when it affected a row, as its callers check.\<close>

definition table_deduct :: "time \<Rightarrow> uuid \<Rightarrow> int \<Rightarrow> coins_db \<Rightarrow> coins_db option" where
  "table_deduct t u n db =
    (case repo_AtomicDeductBalance t u n db of (Inr rows, db') \<Rightarrow> if rows = 0 then None else Some db' | _ \<Rightarrow> None)"

lemma create_transaction_Inr:
  "repo_CreateTransaction t db = (Inr x, db') \<longleftrightarrow> \<not> cd_Aborted db \<and> coinsTransaction_IsValid t = None
     \<and> (\<forall>s \<in> set (cd_Transactions db). \<not> same_reference s t)
     \<and> db' = db\<lparr>cd_Transactions := cd_Transactions db @ [t]\<rparr>"
  by (auto simp: repo_CreateTransaction_def)

lemma map_option_upd: "map_option g \<circ> m(k \<mapsto> v) = (map_option g \<circ> m)(k \<mapsto> g v)"
  by (auto simp: fun_eq_iff)

lemma table_aggregate_eq: "table_aggregate db = map_option cb_Balance \<circ> cd_Balances db"
  by (simp add: table_aggregate_def fun_eq_iff)

interpretation coin_tables: coins_repository ledger_balance table_aggregate
    "\<lambda>t. success (repo_CreateTransaction t)" "\<lambda>u. success (repo_EnsureBalanceRow now u)"
    "\<lambda>u n. success (repo_AtomicAddBalance now u n)" "table_deduct now" for now
proof unfold_locales
  fix t db db' u n
  show "success (repo_CreateTransaction t) db = Some db' \<Longrightarrow>
      ledger_balance db' u = ledger_balance db u + (if ct_UserID t = u then signed_amount t else 0)"
    by (auto simp: success_Some create_transaction_Inr ledger_balance_def)
  show "success (repo_CreateTransaction t) db = Some db' \<Longrightarrow> table_aggregate db' = table_aggregate db"
    by (auto simp: success_Some create_transaction_Inr table_aggregate_eq)
  show "success (repo_EnsureBalanceRow now u) db = Some db' \<Longrightarrow> ledger_balance db' = ledger_balance db"
    by (auto simp: success_Some repo_EnsureBalanceRow_def cquery_simps ledger_balance_def fun_eq_iff
        split: option.splits)
  show "success (repo_EnsureBalanceRow now u) db = Some db' \<Longrightarrow> table_aggregate db' =
      (if table_aggregate db u = None then (table_aggregate db)(u \<mapsto> 0) else table_aggregate db)"
    by (auto simp: success_Some repo_EnsureBalanceRow_def cquery_simps table_aggregate_eq map_option_upd
        split: option.splits)
  show "success (repo_AtomicAddBalance now u n) db = Some db' \<Longrightarrow> ledger_balance db' = ledger_balance db"
    by (auto simp: success_Some repo_AtomicAddBalance_def cquery_simps ledger_balance_def fun_eq_iff
        split: option.splits)
  show "success (repo_AtomicAddBalance now u n) db = Some db' \<Longrightarrow> table_aggregate db' =
      (case table_aggregate db u of None \<Rightarrow> table_aggregate db | Some b \<Rightarrow> (table_aggregate db)(u \<mapsto> b + n))"
    by (auto simp: success_Some repo_AtomicAddBalance_def cquery_simps table_aggregate_eq map_option_upd
        bump_balance_def split: option.splits)
  show "table_deduct now u n db = Some db' \<Longrightarrow> ledger_balance db' = ledger_balance db"
    by (auto simp: table_deduct_def repo_AtomicDeductBalance_def cexec_def ledger_balance_def fun_eq_iff
        split: option.splits if_splits)
  show "table_deduct now u n db = Some db' \<Longrightarrow> \<exists>b. table_aggregate db u = Some b \<and> n \<le> b
      \<and> table_aggregate db' = (table_aggregate db)(u \<mapsto> b - n)"
    by (auto simp: table_deduct_def repo_AtomicDeductBalance_def cexec_def table_aggregate_eq map_option_upd
        bump_balance_def split: option.splits if_splits)
qed

section \<open>The service\<close>

definition OrderRewardRate :: i64 where
  "OrderRewardRate = 1000"

definition MinOrderValueForCoins :: i64 where
  "MinOrderValueForCoins = 10000"

definition MaxDailyCoinsEarn :: i64 where
  "MaxDailyCoinsEarn = 10000"

text \<open>A result the code throws away, and an insert whose duplicate error is handled apart.\<close>

definition cignore :: "'a coins_op \<Rightarrow> unit coins_op" where
  "cignore m db = (Inr (), snd (m db))"

definition create_or_duplicate :: "coins_transaction \<Rightarrow> unit coins_op \<Rightarrow> unit coins_op \<Rightarrow> unit coins_op" where
  "create_or_duplicate t on_duplicate on_created db =
    (case repo_CreateTransaction t db of
       (Inl e, db') \<Rightarrow> if IsDuplicateTransaction e then on_duplicate db' else (Inl e, db')
     | (Inr _, db') \<Rightarrow> on_created db')"

definition clift :: "coins_error + 'a \<Rightarrow> 'a coins_op" where
  "clift r = (case r of Inl e \<Rightarrow> cerror e | Inr x \<Rightarrow> creturn x)"

text \<open>The points an order earns, given what the user already earned today.\<close>

definition reward_points :: "i64 \<Rightarrow> i64 \<Rightarrow> i64 option" where
  "reward_points finalPaidAmount dailyTotal =
    (let pointsEarned = finalPaidAmount sdiv OrderRewardRate
     in if wrap64 (dailyTotal + pointsEarned) > MaxDailyCoinsEarn
        then (let remaining = wrap64 (MaxDailyCoinsEarn - dailyTotal)
              in if remaining \<le> 0 then None else Some remaining)
        else Some pointsEarned)"

definition EarnPointsForOrderCompletion ::
    "time \<Rightarrow> uuid \<Rightarrow> time \<Rightarrow> uuid \<Rightarrow> uuid \<Rightarrow> i64 \<Rightarrow> unit coins_op" where
  "EarnPointsForOrderCompletion db_now new_id now userID orderID finalPaidAmount =
    (if finalPaidAmount < MinOrderValueForCoins then creturn ()
     else cbind (repo_GetDailyEarnedTotal db_now userID) (\<lambda>dailyTotal.
       case reward_points finalPaidAmount dailyTotal of
         None \<Rightarrow> creturn ()
       | Some pointsEarned \<Rightarrow>
           cbind (repo_FindEarnByReference userID orderID RefOrderReward) (\<lambda>existingTx.
           if is_set existingTx then creturn ()
           else cbind (clift (NewEarnTransaction new_id now userID pointsEarned RefOrderReward (Some orderID)))
             (\<lambda>t. create_or_duplicate t (creturn ())
                (cignore (repo_AtomicAddBalance db_now userID pointsEarned))))))"

definition ConsumeAndSpendForOrder ::
    "time \<Rightarrow> uuid \<Rightarrow> time \<Rightarrow> time \<Rightarrow> uuid \<Rightarrow> uuid \<Rightarrow> uuid \<Rightarrow> i64 \<Rightarrow> unit coins_op" where
  "ConsumeAndSpendForOrder db_now new_id consume_now now userID orderID paymentID amount =
    (if amount \<le> 0 then creturn ()
     else cbind (repo_ConsumeReservation consume_now paymentID) (\<lambda>reservation.
       case reservation of
         None \<Rightarrow>
           cbind (repo_FindSpendByReference userID orderID) (\<lambda>existing.
           if is_set existing then creturn () else cerror (NoReservationNoSpend paymentID))
       | Some _ \<Rightarrow>
           cbind (clift (NewSpendTransaction new_id now userID amount orderID)) (\<lambda>spend.
           let deduct =
             cbind (repo_AtomicDeductBalance db_now userID amount) (\<lambda>rows.
             if rows = 0 then cerror (InsufficientCoinBalance userID amount) else creturn ())
           in create_or_duplicate spend deduct deduct)))"

text \<open>The tail both restorations share: insert first, then ensure the row and add.\<close>

definition restore_coins :: "time \<Rightarrow> coins_transaction \<Rightarrow> unit coins_op" where
  "restore_coins db_now t =
    create_or_duplicate t (creturn ())
      (cbind (cignore (repo_EnsureBalanceRow db_now (ct_UserID t))) (\<lambda>_.
        cignore (repo_AtomicAddBalance db_now (ct_UserID t) (ct_Amount t))))"

definition RefundCoinsInternal :: "time \<Rightarrow> uuid \<Rightarrow> time \<Rightarrow> uuid \<Rightarrow> uuid \<Rightarrow> unit coins_op" where
  "RefundCoinsInternal db_now new_id now userID orderID =
    cbind (repo_FindSpendByReference userID orderID) (\<lambda>existingTx.
    case existingTx of
      None \<Rightarrow> creturn ()
    | Some spend \<Rightarrow>
        (let amountToRefund = ct_Amount spend
         in if amountToRefund \<le> 0 then creturn ()
            else cbind (clift (NewEarnTransaction new_id now userID amountToRefund RefRefundEarn (Some orderID)))
              (restore_coins db_now)))"

definition RefundCoinsWithDelta :: "time \<Rightarrow> uuid \<Rightarrow> time \<Rightarrow> uuid \<Rightarrow> uuid \<Rightarrow> i64 \<Rightarrow> unit coins_op" where
  "RefundCoinsWithDelta db_now new_id now userID eventID amount =
    (if amount \<le> 0 then creturn ()
     else cbind (clift (NewEarnTransaction new_id now userID amount RefRefundEarn (Some eventID)))
       (restore_coins db_now))"

section \<open>Transactions on the database\<close>

datatype coins_call =
    CReserve time coin_reservation
  | CRelease time uuid
  | CEarn time uuid time uuid uuid i64
  | CConsume time uuid time time uuid uuid uuid i64
  | CRefundInternal time uuid time uuid uuid
  | CRefundDelta time uuid time uuid uuid i64

fun coins_do :: "coins_call \<Rightarrow> unit coins_op" where
  "coins_do (CReserve t r) = repo_CreateReservation t r"
| "coins_do (CRelease t p) = cbind (repo_ReleaseReservation t p) (\<lambda>_. creturn ())"
| "coins_do (CEarn t i n u oid a) = EarnPointsForOrderCompletion t i n u oid a"
| "coins_do (CConsume t i c n u oid p a) = ConsumeAndSpendForOrder t i c n u oid p a"
| "coins_do (CRefundInternal t i n u oid) = RefundCoinsInternal t i n u oid"
| "coins_do (CRefundDelta t i n u ev a) = RefundCoinsWithDelta t i n u ev a"

text \<open>One call in a transaction of its own: an error, or an aborted transaction,
  rolls everything back.\<close>

definition coins_commit :: "coins_call \<Rightarrow> coins_db \<Rightarrow> coins_db" where
  "coins_commit c db =
    (case coins_do c db of
       (Inl _, _) \<Rightarrow> db
     | (Inr _, db') \<Rightarrow> if cd_Aborted db' then db else db')"

lemma coins_commit_cases:
  assumes "coins_commit c db \<noteq> db"
  obtains "coins_do c db = (Inr (), coins_commit c db)" "\<not> cd_Aborted (coins_commit c db)"
  using assms that by (auto simp: coins_commit_def split: prod.splits sum.splits if_splits)

section \<open>The books stay balanced\<close>

definition balance_of :: "coins_db \<Rightarrow> uuid \<Rightarrow> int" where
  "balance_of db u = (case table_aggregate db u of None \<Rightarrow> 0 | Some b \<Rightarrow> b)"

text \<open>
  The invariant of the committed tables: ledger and aggregate agree, no user has
  more coins reserved than owned, and reservations are positive with one row
  per payment.
\<close>

definition coins_ok :: "coins_db \<Rightarrow> bool" where
  "coins_ok db \<longleftrightarrow> \<not> cd_Aborted db
   \<and> coin_tables.synced db
   \<and> (\<forall>u. reserved_sum db u \<le> balance_of db u)
   \<and> (\<forall>r \<in> set (cd_Reservations db). 0 < rs_Amount r)
   \<and> distinct (map rs_PaymentID (cd_Reservations db))"

text \<open>
  What the service expects of its callers and does not check: a reward goes to a
  user who already has a balance row, and a settled payment spends its own
  user's coins in the amount that was reserved.
\<close>

fun coins_disciplined :: "coins_db \<Rightarrow> coins_call \<Rightarrow> bool" where
  "coins_disciplined db (CEarn t i n u oid a) = (cd_Balances db u \<noteq> None)"
| "coins_disciplined db (CConsume t i c n u oid p a) =
     (\<forall>r. find_reservation db p = Some r \<longrightarrow> rs_UserID r = u \<and> rs_Amount r = a)"
| "coins_disciplined db c = True"

inductive coins_step :: "coins_db \<Rightarrow> coins_db \<Rightarrow> bool" where
  coins_step: "coins_disciplined db c \<Longrightarrow> coins_step db (coins_commit c db)"

inductive_cases coins_step_cases: "coins_step db db'"

lemma synced_balance: "coin_tables.synced db \<longleftrightarrow> (\<forall>u. ledger_balance db u = balance_of db u)"
  by (simp add: coin_tables.synced_def balance_of_def)

lemma NewCoinsTransaction_Inr:
  "NewCoinsTransaction i n u ty a rt rid = Inr t \<longleftrightarrow> 0 < a \<and> coinType_IsValid ty \<and> coinReference_IsValid rt
     \<and> t = \<lparr>ct_ID = i, ct_UserID = u, ct_Type = ty, ct_Amount = a, ct_ReferenceType = rt,
           ct_ReferenceID = rid, ct_CreatedAt = n\<rparr>"
  by (auto simp: NewCoinsTransaction_def)

lemma clift_Inr: "clift r db = (Inr x, db') \<longleftrightarrow> r = Inr x \<and> db' = db"
  by (auto simp: clift_def creturn_def cerror_def split: sum.splits)

text \<open>A duplicate insert leaves an aborted transaction, which never commits.\<close>

lemma create_or_duplicate_kept:
  assumes "create_or_duplicate t dup cont db = (Inr (), db')" "\<not> cd_Aborted db'"
    and "\<And>d d'. cd_Aborted d \<Longrightarrow> dup d = (Inr (), d') \<Longrightarrow> cd_Aborted d'"
  shows "\<exists>d1. repo_CreateTransaction t db = (Inr (), d1) \<and> cont d1 = (Inr (), db')"
  using assms(1,2) assms(3) [of "db\<lparr>cd_Aborted := True\<rparr>" db']
  by (auto simp: create_or_duplicate_def repo_CreateTransaction_def split: if_splits)

lemma frame_simps [simp]:
  "cd_Reservations (snd (repo_EnsureBalanceRow t u db)) = cd_Reservations db"
  "cd_Reservations (snd (repo_AtomicAddBalance t u n db)) = cd_Reservations db"
  "cd_Reservations (snd (repo_AtomicDeductBalance t u n db)) = cd_Reservations db"
  "cd_Reservations (snd (repo_CreateTransaction x db)) = cd_Reservations db"
  by (auto simp: repo_EnsureBalanceRow_def repo_AtomicAddBalance_def repo_AtomicDeductBalance_def
      repo_CreateTransaction_def cexec_def split: option.splits)

lemma reserved_sum_cong: "cd_Reservations a = cd_Reservations b \<Longrightarrow> reserved_sum a u = reserved_sum b u"
  by (simp add: reserved_sum_def)

text \<open>Settling a reserved row takes exactly its amount out of the reserved sum.\<close>

lemma reserved_sum_settle:
  assumes "distinct (map rs_PaymentID rs)" "find (\<lambda>r. rs_PaymentID r = p) rs = Some r"
    and "rs_Status r = ReservationReserved"
    and "\<And>x. rs_UserID (upd x) = rs_UserID x" "\<And>x. rs_Status (upd x) \<noteq> ReservationReserved"
  shows "sum_list (map rs_Amount (filter (\<lambda>r. rs_UserID r = u \<and> rs_Status r = ReservationReserved)
      (map (\<lambda>r. if rs_PaymentID r = p \<and> rs_Status r = ReservationReserved then upd r else r) rs)))
    = sum_list (map rs_Amount (filter (\<lambda>r. rs_UserID r = u \<and> rs_Status r = ReservationReserved) rs))
      - (if rs_UserID r = u then rs_Amount r else 0)"
  using assms(1,2)
proof (induction rs)
  case Nil
  then show ?case by simp
next
  case (Cons a rs)
  show ?case
  proof (cases "rs_PaymentID a = p")
    case True
    then have "a = r" using Cons.prems(2) by simp
    moreover have "map (\<lambda>r. if rs_PaymentID r = p \<and> rs_Status r = ReservationReserved then upd r else r) rs = rs"
      using Cons.prems(1) True by (intro map_idI) (auto simp: rev_image_eqI)
    ultimately show ?thesis using True assms(3-5) by simp
  next
    case False
    then show ?thesis using Cons by simp
  qed
qed

lemma set_reservation_sum:
  assumes "distinct (map rs_PaymentID (cd_Reservations db))" "find_reservation db p = Some r"
    and "rs_Status r = ReservationReserved"
    and "\<And>x. rs_UserID (upd x) = rs_UserID x" "\<And>x. rs_Status (upd x) \<noteq> ReservationReserved"
  shows "reserved_sum (set_reservation p upd db) u
    = reserved_sum db u - (if rs_UserID r = u then rs_Amount r else 0)"
  using reserved_sum_settle [OF assms(1) _ assms(3-5)] assms(2)
  by (simp add: reserved_sum_def set_reservation_def find_reservation_def)

lemma set_reservation_frame:
  assumes "\<And>x. rs_PaymentID (upd x) = rs_PaymentID x" "\<And>x. rs_Amount (upd x) = rs_Amount x"
  shows "map rs_PaymentID (cd_Reservations (set_reservation p upd db)) = map rs_PaymentID (cd_Reservations db)"
    "(\<forall>r \<in> set (cd_Reservations db). 0 < rs_Amount r) \<Longrightarrow>
       (\<forall>r \<in> set (cd_Reservations (set_reservation p upd db)). 0 < rs_Amount r)"
  using assms by (auto simp: set_reservation_def)

section \<open>Each call keeps the invariant\<close>

lemma coins_ok_same_reservations:
  assumes "coins_ok db" "\<not> cd_Aborted db'" "coin_tables.synced db'"
    and "cd_Reservations db' = cd_Reservations db" "\<And>u. balance_of db u \<le> balance_of db' u"
  shows "coins_ok db'"
proof -
  have "reserved_sum db' u \<le> balance_of db' u" for u
    using assms(1) assms(5) [of u] reserved_sum_cong [OF assms(4), of u]
    by (auto simp: coins_ok_def intro: order_trans)
  with assms show ?thesis by (simp add: coins_ok_def)
qed

lemma ensure_success:
  "\<not> cd_Aborted db \<Longrightarrow> success (repo_EnsureBalanceRow t u) db = Some (snd (repo_EnsureBalanceRow t u db))
     \<and> \<not> cd_Aborted (snd (repo_EnsureBalanceRow t u db))"
  by (auto simp: success_def repo_EnsureBalanceRow_def cexec_def split: option.splits)

lemma add_success:
  "\<not> cd_Aborted db \<Longrightarrow> success (repo_AtomicAddBalance t u n) db = Some (snd (repo_AtomicAddBalance t u n db))
     \<and> \<not> cd_Aborted (snd (repo_AtomicAddBalance t u n db))"
  by (auto simp: success_def repo_AtomicAddBalance_def cexec_def split: option.splits)

lemma ensure_ok:
  assumes "coins_ok db"
  shows "coins_ok (snd (repo_EnsureBalanceRow t u db))"
    and "balance_of (snd (repo_EnsureBalanceRow t u db)) = balance_of db"
proof -
  have na: "\<not> cd_Aborted db" and sy: "coin_tables.synced db" using assms by (simp_all add: coins_ok_def)
  note e = ensure_success [OF na, of t u]
  have s': "coin_tables.synced (snd (repo_EnsureBalanceRow t u db))"
    using coin_tables.ensure_synced e sy by blast
  have "ledger_balance (snd (repo_EnsureBalanceRow t u db)) = ledger_balance db"
    using coin_tables.ensure_ledger e by blast
  then show b: "balance_of (snd (repo_EnsureBalanceRow t u db)) = balance_of db"
    using s' sy by (auto simp: synced_balance)
  show "coins_ok (snd (repo_EnsureBalanceRow t u db))"
    by (rule coins_ok_same_reservations [OF assms]) (use e s' b in simp_all)
qed

lemma created_ok:
  assumes "repo_CreateTransaction t db = (Inr (), d1)" "coins_ok db"
  shows "success (repo_CreateTransaction t) db = Some d1" "\<not> cd_Aborted d1"
    "cd_Reservations d1 = cd_Reservations db" "0 < ct_Amount t"
  using assms
  by (auto simp: success_Some create_transaction_Inr coins_ok_def coinsTransaction_IsValid_def split: if_splits)

lemma restore_coins_ok:
  assumes "restore_coins n t db = (Inr (), db')" "\<not> cd_Aborted db'" "ct_Type t = CoinEarn" "coins_ok db"
  shows "coins_ok db'"
proof -
  obtain d1 where d1: "repo_CreateTransaction t db = (Inr (), d1)"
    and rest: "cbind (cignore (repo_EnsureBalanceRow n (ct_UserID t))) (\<lambda>_.
        cignore (repo_AtomicAddBalance n (ct_UserID t) (ct_Amount t))) d1 = (Inr (), db')"
    using create_or_duplicate_kept [OF assms(1) [unfolded restore_coins_def] assms(2)]
    by (auto simp: creturn_def)
  note c = created_ok [OF d1 assms(4)]
  let ?d2 = "snd (repo_EnsureBalanceRow n (ct_UserID t) d1)"
  have db': "db' = snd (repo_AtomicAddBalance n (ct_UserID t) (ct_Amount t) ?d2)"
    using rest by (simp add: cbind_def cignore_def)
  note e = ensure_success [OF c(2), of n "ct_UserID t"]
  have a: "success (repo_AtomicAddBalance n (ct_UserID t) (ct_Amount t)) ?d2 = Some db'"
    using add_success [of ?d2 n "ct_UserID t" "ct_Amount t"] e db' by simp
  have sy: "coin_tables.synced db" using assms(4) by (simp add: coins_ok_def)
  have s': "coin_tables.synced db'"
    using coin_tables.credit_synced [OF sy c(1) assms(3)] e a by blast
  have "ledger_balance db u \<le> ledger_balance db' u" for u
    using coin_tables.add_ledger [OF a] coin_tables.ensure_ledger [OF conjunct1 [OF e]]
      coin_tables.create_ledger [OF c(1), of u] assms(3) c(4) by (simp add: signed_amount_def)
  then have "balance_of db u \<le> balance_of db' u" for u
    using sy s' by (simp add: synced_balance)
  then show ?thesis
    using coins_ok_same_reservations [OF assms(4,2) s'] by (simp add: db' c(3))
qed

lemma EarnPoints_ok:
  assumes "EarnPointsForOrderCompletion t i n u oid a db = (Inr (), db')" "\<not> cd_Aborted db'"
    and "cd_Balances db u \<noteq> None" "coins_ok db"
  shows "coins_ok db'"
proof (cases "db' = db")
  case True
  then show ?thesis using assms(4) by simp
next
  case False
  then obtain p tr where tr: "NewEarnTransaction i n u p RefOrderReward (Some oid) = Inr tr"
    and run: "create_or_duplicate tr (creturn ()) (cignore (repo_AtomicAddBalance t u p)) db = (Inr (), db')"
    using assms(1) by (auto simp: EarnPointsForOrderCompletion_def cbind_Inr cquery_simps
        repo_GetDailyEarnedTotal_def repo_FindEarnByReference_def clift_Inr split: if_splits option.splits)
  obtain d1 where d1: "repo_CreateTransaction tr db = (Inr (), d1)"
    and add: "db' = snd (repo_AtomicAddBalance t u p d1)"
    using create_or_duplicate_kept [OF run assms(2)] by (auto simp: creturn_def cignore_def)
  have f: "ct_UserID tr = u" "ct_Amount tr = p" "ct_Type tr = CoinEarn"
    using tr by (auto simp: NewEarnTransaction_def NewCoinsTransaction_Inr)
  note c = created_ok [OF d1 assms(4)]
  have a: "success (repo_AtomicAddBalance t u p) d1 = Some db'"
    using add_success [OF c(2), of t u p] add by simp
  have sy: "coin_tables.synced db" using assms(4) by (simp add: coins_ok_def)
  have s': "coin_tables.synced db'"
    using coin_tables.bare_credit_synced [OF sy c(1) f(3) c(4), of t db'] a assms(3)
    by (simp add: f table_aggregate_def)
  have "ledger_balance db v \<le> ledger_balance db' v" for v
    using coin_tables.add_ledger [OF a] coin_tables.create_ledger [OF c(1), of v] f c(4)
    by (simp add: signed_amount_def)
  then have "balance_of db v \<le> balance_of db' v" for v
    using sy s' by (simp add: synced_balance)
  then show ?thesis
    using coins_ok_same_reservations [OF assms(4,2) s'] by (simp add: add c(3))
qed

lemma Reserve_ok:
  assumes "repo_CreateReservation t r db = (Inr (), db')" "coins_ok db"
  shows "coins_ok db'"
proof -
  obtain d1 where d1_eq: "d1 = snd (repo_EnsureBalanceRow t (rs_UserID r) db)" by simp
  have d1: "coins_ok d1" unfolding d1_eq using assms(2) by (rule ensure_ok)
  have na: "\<not> cd_Aborted db" "\<not> cd_Aborted d1" using assms(2) d1 by (simp_all add: coins_ok_def)
  have e: "repo_EnsureBalanceRow t (rs_UserID r) db = (Inr (), d1)"
    using na(1) by (simp add: d1_eq repo_EnsureBalanceRow_def cexec_def)
  obtain b where b0: "cd_Balances d1 (rs_UserID r) = Some b"
    using na(1) by (cases "cd_Balances db (rs_UserID r)") (auto simp: d1_eq repo_EnsureBalanceRow_def cexec_def)
  have b: "find_reservation d1 (rs_PaymentID r) = None"
    "rs_Amount r \<le> cb_Balance b - reserved_sum d1 (rs_UserID r)" "0 < rs_Amount r"
    "db' = d1\<lparr>cd_Reservations := cd_Reservations d1 @ [r]\<rparr>" "rs_Status r = ReservationReserved"
    using assms(1) na(2) unfolding repo_CreateReservation_def cbind_def
    by (auto simp: e b0 repo_GetBalanceRow_def repo_GetReservationByPaymentID_def cquery_def cerror_def
        repo_SumActiveReservations_def Let_def insert_reservation_def
        split: if_splits option.splits)
  have bal: "balance_of db' v = balance_of d1 v" for v
    by (simp add: b(4) balance_of_def table_aggregate_def)
  have sy: "coin_tables.synced db'"
    using d1 bal by (simp add: coins_ok_def synced_balance b(4) ledger_balance_def)
  have "balance_of d1 (rs_UserID r) = cb_Balance b"
    by (simp add: balance_of_def table_aggregate_def b0)
  then have "reserved_sum db' v \<le> balance_of db' v" for v
    unfolding bal using d1 b(2,5) by (auto simp: coins_ok_def b(4) reserved_sum_def)
  moreover have "rs_PaymentID r \<notin> set (map rs_PaymentID (cd_Reservations d1))"
    using b(1) by (auto simp: find_reservation_def find_None_iff)
  ultimately show ?thesis
    using d1 sy b(3) by (auto simp: coins_ok_def b(4))
qed

text \<open>Settling a reservation, either way.\<close>

lemma settle_ok:
  assumes "coins_ok db" "find_reservation db p = Some r" "rs_Status r = ReservationReserved"
    and upd: "\<And>x. rs_UserID (upd x) = rs_UserID x" "\<And>x. rs_Status (upd x) \<noteq> ReservationReserved"
      "\<And>x. rs_PaymentID (upd x) = rs_PaymentID x" "\<And>x. rs_Amount (upd x) = rs_Amount x"
  shows "\<not> cd_Aborted (set_reservation p upd db)" "coin_tables.synced (set_reservation p upd db)"
    "balance_of (set_reservation p upd db) = balance_of db"
    "reserved_sum (set_reservation p upd db) u = reserved_sum db u - (if rs_UserID r = u then rs_Amount r else 0)"
    "\<forall>x \<in> set (cd_Reservations (set_reservation p upd db)). 0 < rs_Amount x"
    "distinct (map rs_PaymentID (cd_Reservations (set_reservation p upd db)))"
    "0 < rs_Amount r"
proof -
  have d: "distinct (map rs_PaymentID (cd_Reservations db))" "\<forall>x \<in> set (cd_Reservations db). 0 < rs_Amount x"
    using assms(1) by (simp_all add: coins_ok_def)
  show b: "balance_of (set_reservation p upd db) = balance_of db"
    by (simp add: balance_of_def table_aggregate_def set_reservation_def fun_eq_iff)
  show "\<not> cd_Aborted (set_reservation p upd db)" "coin_tables.synced (set_reservation p upd db)"
    using assms(1) unfolding coins_ok_def synced_balance b
    by (simp_all add: set_reservation_def ledger_balance_def)
  show "reserved_sum (set_reservation p upd db) u = reserved_sum db u - (if rs_UserID r = u then rs_Amount r else 0)"
    by (rule set_reservation_sum [OF d(1) assms(2,3) upd(1,2)])
  show "\<forall>x \<in> set (cd_Reservations (set_reservation p upd db)). 0 < rs_Amount x"
    "distinct (map rs_PaymentID (cd_Reservations (set_reservation p upd db)))"
    using set_reservation_frame [where upd = upd and p = p and db = db, OF upd(3,4)] d by simp_all
  show "0 < rs_Amount r"
    using assms(2) d(2) by (auto simp: find_reservation_def find_Some_iff)
qed

lemma Release_ok:
  assumes "repo_ReleaseReservation t p db = (Inr x, db')" "coins_ok db"
  shows "coins_ok db'"
proof (cases "db' = db")
  case False
  let ?upd = "\<lambda>x. x\<lparr>rs_Status := ReservationReleased, rs_ReleasedAt := Some t, rs_UpdatedAt := t\<rparr>"
  obtain r where r: "find_reservation db p = Some r" "rs_Status r = ReservationReserved"
    "db' = set_reservation p ?upd db"
    using assms(1) False unfolding repo_ReleaseReservation_def
    by (auto simp: cbind_Inr cquery_simps repo_GetReservationByPaymentID_def Let_def
        split: option.splits CoinReservationStatus.splits)
  note s = settle_ok [OF assms(2) r(1,2), of ?upd, simplified]
  have "reserved_sum db' u \<le> balance_of db' u" for u
  proof -
    have "reserved_sum db u \<le> balance_of db u" using assms(2) by (simp add: coins_ok_def)
    then show ?thesis using s(3) s(4) [of u] s(7) by (simp add: r(3) split: if_splits)
  qed
  then show ?thesis
    using s by (simp add: coins_ok_def r(3))
qed (use assms in simp)

lemma Consume_ok:
  assumes "ConsumeAndSpendForOrder t i c n u oid p a db = (Inr (), db')" "\<not> cd_Aborted db'"
    and "coins_disciplined db (CConsume t i c n u oid p a)" "coins_ok db"
  shows "coins_ok db'"
proof (cases "db' = db")
  case False
  let ?upd = "\<lambda>x. x\<lparr>rs_Status := ReservationConsumed, rs_ConsumedAt := Some c, rs_UpdatedAt := c\<rparr>"
  let ?d1 = "set_reservation p ?upd db"
  let ?deduct = "cbind (repo_AtomicDeductBalance t u a) (\<lambda>rows.
             if rows = 0 then cerror (InsufficientCoinBalance u a) else creturn ())"
  obtain r sp where r: "find_reservation db p = Some r" "rs_Status r = ReservationReserved"
    and sp: "NewSpendTransaction i n u a oid = Inr sp"
    and run: "create_or_duplicate sp ?deduct ?deduct ?d1 = (Inr (), db')"
    using assms(1) False unfolding ConsumeAndSpendForOrder_def repo_ConsumeReservation_def
    by (auto simp: cbind_Inr cquery_simps repo_GetReservationByPaymentID_def repo_FindSpendByReference_def
        Let_def clift_Inr split: option.splits CoinReservationStatus.splits if_splits)
  have ra: "rs_UserID r = u" "rs_Amount r = a" using assms(3) r(1) by simp_all
  note s = settle_ok [OF assms(4) r, of ?upd, simplified]
  have f: "ct_UserID sp = u" "ct_Amount sp = a" "ct_Type sp \<noteq> CoinEarn" "0 < a"
    using sp by (auto simp: NewSpendTransaction_def NewCoinsTransaction_Inr)
  obtain d2 where d2: "repo_CreateTransaction sp ?d1 = (Inr (), d2)" and ded: "?deduct d2 = (Inr (), db')"
  proof -
    have "\<And>d d'. cd_Aborted d \<Longrightarrow> ?deduct d = (Inr (), d') \<Longrightarrow> cd_Aborted d'"
      by (simp add: cbind_Inr repo_AtomicDeductBalance_def cquery_simps)
    with create_or_duplicate_kept [OF run assms(2)] that show thesis by blast
  qed
  have c: "success (repo_CreateTransaction sp) ?d1 = Some d2" using d2 by (auto simp: success_Some)
  have td: "table_deduct t u a d2 = Some db'"
    using ded by (auto simp: table_deduct_def cbind_def creturn_def cerror_def
        split: prod.splits sum.splits if_splits)
  have sy: "coin_tables.synced db'"
    using coin_tables.debit_synced [OF s(2) c f(3)] td by (simp add: f)
  have "ledger_balance db' v = ledger_balance ?d1 v - (if v = u then a else 0)" for v
    using coin_tables.deduct_ledger [OF td] coin_tables.create_ledger [OF c, of v] f
    by (simp add: signed_amount_def)
  then have bal: "balance_of db' v = balance_of db v - (if v = u then a else 0)" for v
    using sy s(2,3) by (simp add: synced_balance)
  have "db' = snd (repo_AtomicDeductBalance t u a d2)"
    using ded by (auto simp: cbind_def creturn_def cerror_def split: prod.splits sum.splits if_splits)
  moreover have "d2 = snd (repo_CreateTransaction sp ?d1)" using d2 by simp
  ultimately have res: "cd_Reservations db' = cd_Reservations ?d1" by (simp only: frame_simps)
  have "reserved_sum db' v \<le> balance_of db' v" for v
  proof -
    have "reserved_sum db v \<le> balance_of db v" using assms(4) by (simp add: coins_ok_def)
    then show ?thesis
      using s(4) [of v] ra reserved_sum_cong [OF res, of v] bal [of v] by (simp split: if_splits)
  qed
  then show ?thesis
    using s sy assms(2) by (simp add: coins_ok_def res)
qed (use assms in simp)

lemma coins_do_ok:
  assumes "coins_do c db = (Inr (), db')" "\<not> cd_Aborted db'" "coins_disciplined db c" "coins_ok db"
  shows "coins_ok db'"
proof (cases c)
  case (CReserve t r)
  with assms show ?thesis by (auto intro: Reserve_ok)
next
  case (CRelease t p)
  with assms show ?thesis by (auto simp: cbind_Inr cquery_simps intro: Release_ok)
next
  case (CEarn t i n u oid a)
  with assms show ?thesis by (auto intro: EarnPoints_ok)
next
  case (CConsume t i c' n u oid p a)
  with assms show ?thesis by (auto intro: Consume_ok)
next
  case (CRefundInternal t i n u oid)
  show ?thesis
  proof (cases "db' = db")
    case False
    with assms CRefundInternal obtain tr where "restore_coins t tr db = (Inr (), db')" "ct_Type tr = CoinEarn"
      by (auto simp: RefundCoinsInternal_def cbind_Inr cquery_simps repo_FindSpendByReference_def
          clift_Inr NewEarnTransaction_def NewCoinsTransaction_Inr Let_def split: option.splits if_splits)
    then show ?thesis using assms restore_coins_ok by blast
  qed (use assms in simp)
next
  case (CRefundDelta t i n u ev a)
  show ?thesis
  proof (cases "db' = db")
    case False
    with assms CRefundDelta obtain tr where "restore_coins t tr db = (Inr (), db')" "ct_Type tr = CoinEarn"
      by (auto simp: RefundCoinsWithDelta_def cbind_Inr cquery_simps clift_Inr NewEarnTransaction_def
          NewCoinsTransaction_Inr split: if_splits)
    then show ?thesis using assms restore_coins_ok by blast
  qed (use assms in simp)
qed

interpretation coins_run: kept_fact coins_step coins_ok
proof unfold_locales
  fix x y
  assume "coins_step x y" "coins_ok x"
  then obtain c where c: "coins_disciplined x c" "y = coins_commit c x" by (auto elim: coins_step_cases)
  show "coins_ok y"
  proof (cases "y = x")
    case False
    with c(2) coins_commit_cases [of c x] have "coins_do c x = (Inr (), y)" "\<not> cd_Aborted y" by auto
    with coins_do_ok c(1) \<open>coins_ok x\<close> show ?thesis by blast
  qed (use \<open>coins_ok x\<close> in simp)
qed

section \<open>Properties\<close>

definition empty_coins :: coins_db where
  "empty_coins = \<lparr>cd_Transactions = [], cd_Balances = (\<lambda>_. None), cd_Reservations = [], cd_Aborted = False\<rparr>"

definition reserve_40 :: coin_reservation where
  "reserve_40 = \<lparr>rs_ID = 60, rs_PaymentID = 70, rs_UserID = 2, rs_Amount = 40,
     rs_Status = ReservationReserved, rs_ExpiresAt = 9000, rs_ConsumedAt = None, rs_ReleasedAt = None,
     rs_CreatedAt = 10, rs_UpdatedAt = 10\<rparr>"

definition coins_with_100 :: coins_db where
  "coins_with_100 = coins_commit (CRefundDelta 5 50 5 2 80 100) empty_coins"

definition coins_reserved :: coins_db where
  "coins_reserved = coins_commit (CReserve 10 reserve_40) coins_with_100"

lemma coins_with_100_eq:
  "coins_with_100 = \<lparr>cd_Transactions = [\<lparr>ct_ID = 50, ct_UserID = 2, ct_Type = CoinEarn, ct_Amount = 100,
       ct_ReferenceType = RefRefundEarn, ct_ReferenceID = Some 80, ct_CreatedAt = 5\<rparr>],
     cd_Balances = [2 \<mapsto> \<lparr>cb_UserID = 2, cb_Balance = 100, cb_Version = 2, cb_CreatedAt = 5, cb_UpdatedAt = 5\<rparr>],
     cd_Reservations = [], cd_Aborted = False\<rparr>"
  by (simp add: coins_with_100_def empty_coins_def coins_commit_def RefundCoinsWithDelta_def cbind_def
      clift_def creturn_def NewEarnTransaction_def NewCoinsTransaction_def restore_coins_def
      create_or_duplicate_def repo_CreateTransaction_def coinsTransaction_IsValid_def cignore_def
      repo_EnsureBalanceRow_def repo_AtomicAddBalance_def cexec_def bump_balance_def)

lemma coins_reserved_eq: "coins_reserved = coins_with_100\<lparr>cd_Reservations := [reserve_40]\<rparr>"
  by (simp add: coins_reserved_def coins_with_100_eq coins_commit_def repo_CreateReservation_def
      reserve_40_def cbind_def repo_EnsureBalanceRow_def cexec_def repo_GetBalanceRow_def cquery_def
      repo_GetReservationByPaymentID_def find_reservation_def repo_SumActiveReservations_def
      reserved_sum_def insert_reservation_def)

lemma empty_coins_ok: "coins_ok empty_coins"
  by (simp add: coins_ok_def empty_coins_def synced_balance ledger_balance_def balance_of_def
      table_aggregate_def reserved_sum_def)

lemma coins_reserved_run: "coins_step\<^sup>*\<^sup>* empty_coins coins_reserved"
proof -
  have "coins_step empty_coins coins_with_100"
    unfolding coins_with_100_def by (rule coins_step) simp
  moreover have "coins_step coins_with_100 coins_reserved"
    unfolding coins_reserved_def by (rule coins_step) simp
  ultimately show ?thesis by auto
qed

text \<open>
  C19. From empty tables on, whatever sequence of reservations, releases,
  rewards, settled payments and refunds commits, each user's ledger and
  aggregate balance agree, and the coins under reservation never exceed the
  balance; given that a reward goes to a user with a balance row and a payment
  spends what it reserved.
\<close>

theorem coin_books_balance:
  assumes "coins_step\<^sup>*\<^sup>* empty_coins db"
  shows "ledger_balance db u = (case cd_Balances db u of None \<Rightarrow> 0 | Some b \<Rightarrow> cb_Balance b)
    \<and> 0 \<le> reserved_sum db u \<and> reserved_sum db u \<le> ledger_balance db u"
proof -
  have ok: "coins_ok db" by (rule coins_run.run_keeps [OF assms empty_coins_ok])
  then have "ledger_balance db u = balance_of db u" "reserved_sum db u \<le> balance_of db u"
    "\<forall>r \<in> set (cd_Reservations db). 0 < rs_Amount r"
    by (simp_all add: coins_ok_def synced_balance)
  moreover from this(3) have "0 \<le> reserved_sum db u"
    unfolding reserved_sum_def by (intro sum_list_nonneg) (auto intro: less_imp_le)
  ultimately show ?thesis
    by (simp add: balance_of_def table_aggregate_def split: option.splits)
qed

theorem coin_books_balance_witness:
  "reserved_sum coins_reserved 2 = 40 \<and> reserved_sum coins_reserved 2 \<le> ledger_balance coins_reserved 2"
  using coin_books_balance [OF coins_reserved_run, of 2]
  by (simp add: coins_reserved_eq coins_with_100_eq reserved_sum_def reserve_40_def)

text \<open>A reserved payment that spends its own amount for a fresh order goes through.\<close>

lemma Consume_commits:
  assumes "coins_ok db" "find_reservation db p = Some r" "rs_Status r = ReservationReserved"
    and "\<forall>s \<in> set (cd_Transactions db). \<not> (ct_UserID s = rs_UserID r
          \<and> ct_ReferenceType s = RefOrderSpend \<and> ct_ReferenceID s = Some oid)"
  shows "\<exists>db'. ConsumeAndSpendForOrder t i c n (rs_UserID r) oid p (rs_Amount r) db = (Inr (), db')
    \<and> \<not> cd_Aborted db'
    \<and> cd_Transactions db' = cd_Transactions db @
        [\<lparr>ct_ID = i, ct_UserID = rs_UserID r, ct_Type = CoinSpend, ct_Amount = rs_Amount r,
          ct_ReferenceType = RefOrderSpend, ct_ReferenceID = Some oid, ct_CreatedAt = n\<rparr>]
    \<and> find_reservation db' p
        = Some (r\<lparr>rs_Status := ReservationConsumed, rs_ConsumedAt := Some c, rs_UpdatedAt := c\<rparr>)
    \<and> balance_of db' (rs_UserID r) = balance_of db (rs_UserID r) - rs_Amount r"
proof -
  let ?upd = "\<lambda>x. x\<lparr>rs_Status := ReservationConsumed, rs_ConsumedAt := Some c, rs_UpdatedAt := c\<rparr>"
  note s = settle_ok [OF assms(1-3), of ?upd, simplified]
  have pos: "0 < rs_Amount r" by (rule s(7))
  have mem: "r \<in> set (cd_Reservations db)" using assms(2) by (auto simp: find_reservation_def find_Some_iff)
  have "\<forall>x \<in> set (filter (\<lambda>x. rs_UserID x = rs_UserID r \<and> rs_Status x = ReservationReserved)
      (cd_Reservations db)). 0 \<le> rs_Amount x"
    using assms(1) by (auto simp: coins_ok_def less_imp_le)
  then have "rs_Amount r \<le> reserved_sum db (rs_UserID r)"
    unfolding reserved_sum_def using mem assms(3)
    by (intro member_le_sum_list) auto
  then have "rs_Amount r \<le> balance_of db (rs_UserID r)"
    using assms(1) by (auto simp: coins_ok_def intro: order_trans)
  then obtain b where b: "cd_Balances db (rs_UserID r) = Some b" "rs_Amount r \<le> cb_Balance b"
    using pos by (auto simp: balance_of_def table_aggregate_def split: option.splits)
  have na: "\<not> cd_Aborted db" using assms(1) by (simp add: coins_ok_def)
  have find': "find (\<lambda>x. rs_PaymentID x = p)
      (map (\<lambda>x. if rs_PaymentID x = p \<and> rs_Status x = ReservationReserved then ?upd x else x) rs)
      = Some (?upd r)" if "find (\<lambda>x. rs_PaymentID x = p) rs = Some r" for rs
    using that assms(3) by (induction rs) (auto split: if_splits)
  show ?thesis
    using pos na assms(2-4) b find' [of "cd_Reservations db"]
    by (auto simp: ConsumeAndSpendForOrder_def repo_ConsumeReservation_def cbind_def cquery_def cexec_def
        repo_GetReservationByPaymentID_def Let_def clift_def creturn_def NewSpendTransaction_def
        NewCoinsTransaction_def create_or_duplicate_def repo_CreateTransaction_def same_reference_def
        coinsTransaction_IsValid_def repo_AtomicDeductBalance_def set_reservation_def
        find_reservation_def balance_of_def table_aggregate_def bump_balance_def)
qed

lemma Consume_replay:
  assumes "find_reservation db p = Some r" "rs_Status r = ReservationConsumed" "\<not> cd_Aborted db"
    and "\<exists>s \<in> set (cd_Transactions db). ct_UserID s = u \<and> ct_Type s = CoinSpend \<and> ct_ReferenceID s = Some oid"
    and "0 < a"
  shows "ConsumeAndSpendForOrder t i c n u oid p a db = (Inr (), db)"
proof -
  have "find (\<lambda>s. ct_UserID s = u \<and> ct_Type s = CoinSpend \<and> ct_ReferenceID s = Some oid)
      (cd_Transactions db) \<noteq> None"
    using assms(4) by (auto simp: find_None_iff)
  then show ?thesis
    using assms by (auto simp: ConsumeAndSpendForOrder_def repo_ConsumeReservation_def cbind_def cquery_def
        repo_GetReservationByPaymentID_def repo_FindSpendByReference_def creturn_def)
qed



text \<open>The reward of an order, on true integers.\<close>

lemma reward_points_exact:
  assumes "0 \<le> a" "in_i64 a" "0 \<le> d" "d \<le> i64_max - a" "in_i64 d"
  shows "reward_points a d =
    (if 10000 < d + a div 1000 then (if 10000 \<le> d then None else Some (10000 - d)) else Some (a div 1000))"
proof -
  have "a sdiv 1000 = a div 1000" using assms(1) by (simp add: sdiv_nonneg)
  moreover have "0 \<le> a div 1000" "a div 1000 \<le> a" using assms(1) by linarith+
  moreover have "in_i64 (d + a div 1000)" "in_i64 (10000 - d)"
    using assms calculation unfolding i64_defs by auto
  ultimately show ?thesis
    by (auto simp: reward_points_def OrderRewardRate_def MaxDailyCoinsEarn_def Let_def)
qed

lemma EarnPoints_effect:
  assumes "EarnPointsForOrderCompletion t i n u oid a db = (Inr (), db')" "\<not> cd_Aborted db'" "db' \<noteq> db"
  shows "\<exists>pts. 10000 \<le> a \<and> reward_points a (daily_earned db t u) = Some pts \<and> 0 < pts
    \<and> cd_Transactions db' = cd_Transactions db @
        [\<lparr>ct_ID = i, ct_UserID = u, ct_Type = CoinEarn, ct_Amount = pts,
          ct_ReferenceType = RefOrderReward, ct_ReferenceID = Some oid, ct_CreatedAt = n\<rparr>]
    \<and> table_aggregate db' u = map_option (\<lambda>b. b + pts) (table_aggregate db u)"
proof -
  obtain p tr where p: "10000 \<le> a" "reward_points a (daily_earned db t u) = Some p"
    and tr: "NewEarnTransaction i n u p RefOrderReward (Some oid) = Inr tr"
    and run: "create_or_duplicate tr (creturn ()) (cignore (repo_AtomicAddBalance t u p)) db = (Inr (), db')"
    using assms(1,3) by (auto simp: EarnPointsForOrderCompletion_def cbind_Inr cquery_simps
        repo_GetDailyEarnedTotal_def repo_FindEarnByReference_def clift_Inr MinOrderValueForCoins_def
        split: if_splits option.splits)
  obtain d1 where d1: "repo_CreateTransaction tr db = (Inr (), d1)"
    and add: "db' = snd (repo_AtomicAddBalance t u p d1)"
    using create_or_duplicate_kept [OF run assms(2)] by (auto simp: creturn_def cignore_def)
  show ?thesis
    using p tr d1 add
    by (auto simp: NewEarnTransaction_def NewCoinsTransaction_Inr create_transaction_Inr table_aggregate_def
        repo_AtomicAddBalance_def cexec_def bump_balance_def split: option.splits)
qed

text \<open>
  The reward of an order is bounded by the order and by the day: a
  committed reward is one point per 1000 rupiah of an order of at least 10,000,
  cut down to what is left of the user's 10,000 points for the day, and the
  day's total never passes 10,000 because of it.
\<close>

theorem reward_respects_daily_cap:
  assumes "EarnPointsForOrderCompletion t i n u oid a db = (Inr (), db')" "\<not> cd_Aborted db'" "db' \<noteq> db"
    and "in_i64 a" "0 \<le> daily_earned db t u" "daily_earned db t u \<le> i64_max - a" "day_of n = day_of t"
  shows "\<exists>pts. lifetime_earned db' u = lifetime_earned db u + pts
    \<and> pts = min (a div 1000) (10000 - daily_earned db t u) \<and> 0 < pts \<and> 10000 \<le> a
    \<and> daily_earned db' t u = daily_earned db t u + pts \<and> daily_earned db' t u \<le> 10000"
proof -
  obtain pts where p: "10000 \<le> a" "reward_points a (daily_earned db t u) = Some pts" "0 < pts"
    "cd_Transactions db' = cd_Transactions db @
        [\<lparr>ct_ID = i, ct_UserID = u, ct_Type = CoinEarn, ct_Amount = pts,
          ct_ReferenceType = RefOrderReward, ct_ReferenceID = Some oid, ct_CreatedAt = n\<rparr>]"
    using EarnPoints_effect [OF assms(1-3)] by blast
  have "in_i64 (daily_earned db t u)" using assms(5,6) p(1) by (simp add: i64_defs)
  then have "pts = min (a div 1000) (10000 - daily_earned db t u)"
    using p(1,2) reward_points_exact [of a "daily_earned db t u"] assms(4-6) by (auto split: if_splits)
  then show ?thesis
    using p assms(7) by (simp add: lifetime_earned_def daily_earned_def)
qed

theorem reward_respects_daily_cap_witness:
  "\<exists>pts. lifetime_earned (coins_commit (CEarn 7 51 7 2 33 12345678) coins_with_100) 2
     = lifetime_earned coins_with_100 2 + pts \<and> pts = 9900"
proof -
  let ?r = "EarnPointsForOrderCompletion 7 51 7 2 33 12345678 coins_with_100"
  have r: "?r = (Inr (), snd ?r)" "\<not> cd_Aborted (snd ?r)" "snd ?r \<noteq> coins_with_100"
    by (simp_all add: coins_with_100_eq EarnPointsForOrderCompletion_def MinOrderValueForCoins_def cbind_def
        repo_GetDailyEarnedTotal_def cquery_def daily_earned_def day_of_def hour_def reward_points_def
        OrderRewardRate_def MaxDailyCoinsEarn_def sdiv_nonneg wrap64_def repo_FindEarnByReference_def
        creturn_def clift_def NewEarnTransaction_def NewCoinsTransaction_def create_or_duplicate_def
        repo_CreateTransaction_def coinsTransaction_IsValid_def same_reference_def cignore_def
        repo_AtomicAddBalance_def cexec_def bump_balance_def)
  have "daily_earned coins_with_100 7 2 = 100"
    by (simp add: coins_with_100_eq daily_earned_def day_of_def hour_def)
  moreover have "coins_commit (CEarn 7 51 7 2 33 12345678) coins_with_100 = snd ?r"
    using r(2) by (simp add: coins_commit_def) (subst r(1), simp)
  ultimately show ?thesis
    using reward_respects_daily_cap [OF r] by (simp add: i64_defs)
qed

text \<open>
  The reward of an order breaks the books of a user who has no balance row:
  the ledger gains the points, no balance row appears, and the reconciliation
  meant to detect such a drift reports none.
\<close>

theorem reward_without_row_diverges:
  assumes "EarnPointsForOrderCompletion t i n u oid a db = (Inr (), db')" "\<not> cd_Aborted db'" "db' \<noteq> db"
    and "cd_Balances db u = None" "ledger_balance db u = 0"
  shows "0 < ledger_balance db' u \<and> cd_Balances db' u = None
    \<and> repo_ReconcileBalance u db' = (Inr 0, db')"
proof -
  obtain pts where p: "0 < pts" "cd_Transactions db' = cd_Transactions db @
        [\<lparr>ct_ID = i, ct_UserID = u, ct_Type = CoinEarn, ct_Amount = pts,
          ct_ReferenceType = RefOrderReward, ct_ReferenceID = Some oid, ct_CreatedAt = n\<rparr>]"
    "table_aggregate db' u = map_option (\<lambda>b. b + pts) (table_aggregate db u)"
    using EarnPoints_effect [OF assms(1-3)] by blast
  have "cd_Balances db' u = None" using p(3) assms(4) by (simp add: table_aggregate_def)
  then show ?thesis
    using p(1,2) assms(2,5) by (simp add: ledger_balance_def signed_amount_def repo_ReconcileBalance_def
        cbind_def repo_GetBalanceRow_def cquery_def creturn_def)
qed

theorem reward_without_row_diverges_witness:
  "0 < ledger_balance (snd (EarnPointsForOrderCompletion 7 51 7 2 33 75000 empty_coins)) 2"
proof -
  let ?r = "EarnPointsForOrderCompletion 7 51 7 2 33 75000 empty_coins"
  have r: "?r = (Inr (), snd ?r)" "\<not> cd_Aborted (snd ?r)" "snd ?r \<noteq> empty_coins"
    by (simp_all add: empty_coins_def EarnPointsForOrderCompletion_def MinOrderValueForCoins_def cbind_def
        repo_GetDailyEarnedTotal_def cquery_def daily_earned_def reward_points_def
        OrderRewardRate_def MaxDailyCoinsEarn_def sdiv_nonneg wrap64_def repo_FindEarnByReference_def
        creturn_def clift_def NewEarnTransaction_def NewCoinsTransaction_def create_or_duplicate_def
        repo_CreateTransaction_def coinsTransaction_IsValid_def cignore_def
        repo_AtomicAddBalance_def cexec_def)
  show ?thesis
    using reward_without_row_diverges [OF r] by (simp add: empty_coins_def ledger_balance_def)
qed

end
