(* ===== verification/CircuitBreaker.thy ===== *)
theory CircuitBreaker
  imports Lifecycle
begin

text \<open>
  The circuit breaker of the Midtrans client (\<open>pkg/midtrans/midtrans.go\<close>, lines
  30 to 145). Its methods run under one mutex, so a concurrent history is a
  sequence of their calls; \<open>onSuccess\<close> and \<open>onFailure\<close> of a request arrive some
  time after its \<open>allowRequest\<close>.
\<close>

datatype CircuitState = CircuitClosed | CircuitOpen | CircuitHalfOpen

definition maxFailures :: int where
  "maxFailures = 5"

definition openTimeout :: duration where
  "openTimeout = 30 * second"

definition halfOpenAttempts :: int where
  "halfOpenAttempts = 1"

lemmas circuit_consts = maxFailures_def openTimeout_def halfOpenAttempts_def second_def

fun circuitState_String :: "CircuitState \<Rightarrow> string" where
  "circuitState_String CircuitClosed = ''closed''"
| "circuitState_String CircuitOpen = ''open''"
| "circuitState_String CircuitHalfOpen = ''half-open''"

record circuit_breaker =
  br_state :: CircuitState
  br_failures :: int
  br_lastFailTime :: time
  br_halfOpenCount :: int
  br_openUntil :: time

definition newCircuitBreaker :: circuit_breaker where
  "newCircuitBreaker = \<lparr>br_state = CircuitClosed, br_failures = 0, br_lastFailTime = zero_time,
     br_halfOpenCount = 0, br_openUntil = zero_time\<rparr>"

definition breaker_allowRequest :: "time \<Rightarrow> circuit_breaker \<Rightarrow> bool \<times> circuit_breaker" where
  "breaker_allowRequest now cb =
    (if br_state cb = CircuitOpen then
       (if after now (br_openUntil cb)
        then (True, cb\<lparr>br_state := CircuitHalfOpen, br_halfOpenCount := 0\<rparr>)
        else (False, cb))
     else if br_state cb = CircuitHalfOpen then
       (if br_halfOpenCount cb < halfOpenAttempts
        then (True, cb\<lparr>br_halfOpenCount := wrap64 (br_halfOpenCount cb + 1)\<rparr>)
        else (False, cb))
     else (True, cb))"

definition breaker_onSuccess :: "circuit_breaker \<Rightarrow> circuit_breaker" where
  "breaker_onSuccess cb =
    (let cb1 = (if br_state cb = CircuitHalfOpen then cb\<lparr>br_state := CircuitClosed\<rparr> else cb)
     in cb1\<lparr>br_failures := 0, br_halfOpenCount := 0\<rparr>)"

definition breaker_onFailure :: "time \<Rightarrow> time \<Rightarrow> circuit_breaker \<Rightarrow> circuit_breaker" where
  "breaker_onFailure fail_now open_now cb =
    (let cb1 = cb\<lparr>br_failures := wrap64 (br_failures cb + 1), br_lastFailTime := fail_now\<rparr>
     in if br_failures cb1 \<ge> maxFailures
        then cb1\<lparr>br_state := CircuitOpen, br_openUntil := time_add open_now openTimeout\<rparr>
        else cb1)"

definition breaker_getState :: "circuit_breaker \<Rightarrow> CircuitState" where
  "breaker_getState cb = br_state cb"

section \<open>Histories\<close>

datatype breaker_event = BAllow time | BSuccess | BFailure time time

fun breaker_do :: "breaker_event \<Rightarrow> circuit_breaker \<Rightarrow> circuit_breaker" where
  "breaker_do (BAllow t) cb = snd (breaker_allowRequest t cb)"
| "breaker_do BSuccess cb = breaker_onSuccess cb"
| "breaker_do (BFailure t u) cb = breaker_onFailure t u cb"

definition breaker_run :: "breaker_event list \<Rightarrow> circuit_breaker \<Rightarrow> circuit_breaker" where
  "breaker_run es cb = fold breaker_do es cb"

lemma breaker_run_simps [simp]:
  "breaker_run [] cb = cb" "breaker_run (e # es) cb = breaker_run es (breaker_do e cb)"
  "breaker_run (es @ fs) cb = breaker_run fs (breaker_run es cb)"
  by (simp_all add: breaker_run_def)

inductive breaker_step :: "circuit_breaker \<Rightarrow> circuit_breaker \<Rightarrow> bool" where
  breaker_step: "br_failures cb < i64_max \<Longrightarrow> breaker_step cb (breaker_do e cb)"

inductive_cases breaker_step_cases: "breaker_step a b"

text \<open>Closed means fewer than five failures in a row; the counters stay in range.\<close>

definition breaker_wf :: "circuit_breaker \<Rightarrow> bool" where
  "breaker_wf cb \<longleftrightarrow> 0 \<le> br_failures cb \<and> br_failures cb \<le> i64_max
     \<and> 0 \<le> br_halfOpenCount cb \<and> br_halfOpenCount cb \<le> 1
     \<and> (br_state cb = CircuitClosed \<longrightarrow> br_failures cb < 5)"

lemma breaker_do_wf: "breaker_wf cb \<Longrightarrow> br_failures cb < i64_max \<Longrightarrow> breaker_wf (breaker_do e cb)"
  by (cases e) (auto simp: breaker_wf_def breaker_allowRequest_def breaker_onSuccess_def
      breaker_onFailure_def Let_def circuit_consts i64_defs)

interpretation breaker_inv: kept_fact breaker_step breaker_wf
  by unfold_locales (auto elim: breaker_step_cases intro: breaker_do_wf)

text \<open>An open breaker rejects up to its deadline, whatever failures are still reported.\<close>

definition fast_failing :: "time \<Rightarrow> circuit_breaker \<Rightarrow> bool" where
  "fast_failing deadline cb \<longleftrightarrow> br_state cb = CircuitOpen \<and> deadline \<le> br_openUntil cb \<and> 0 \<le> br_failures cb"

fun not_before :: "time \<Rightarrow> breaker_event \<Rightarrow> bool" where
  "not_before t (BFailure u v) = (t \<le> v)"
| "not_before t e = True"

fun asked_by :: "time \<Rightarrow> breaker_event \<Rightarrow> bool" where
  "asked_by d (BAllow u) = (u \<le> d)"
| "asked_by d e = True"

lemma fast_failing_do:
  assumes "fast_failing (t + 30 * second) cb" "not_before t e" "asked_by (t + 30 * second) e"
    and "br_failures cb < i64_max"
  shows "fast_failing (t + 30 * second) (breaker_do e cb)"
  using assms by (cases e) (auto simp: fast_failing_def breaker_allowRequest_def breaker_onSuccess_def
      breaker_onFailure_def Let_def circuit_consts go_arith i64_defs)

lemma fast_failing_run:
  assumes "fast_failing (t + 30 * second) cb"
    and "\<forall>e \<in> set es. not_before t e \<and> asked_by (t + 30 * second) e"
    and "br_failures cb + int (length es) \<le> i64_max"
  shows "fast_failing (t + 30 * second) (breaker_run es cb)"
  using assms
proof (induction es arbitrary: cb)
  case Nil
  then show ?case by simp
next
  case (Cons e es)
  have step: "fast_failing (t + 30 * second) (breaker_do e cb)"
    using Cons.prems by (intro fast_failing_do) auto
  have "in_i64 (br_failures cb + 1)"
    using Cons.prems by (auto simp: fast_failing_def i64_defs)
  then have "br_failures (breaker_do e cb) \<le> br_failures cb + 1"
    using Cons.prems(1) by (cases e) (auto simp: fast_failing_def breaker_allowRequest_def
        breaker_onSuccess_def breaker_onFailure_def Let_def)
  then show ?case using Cons step by simp
qed

section \<open>Properties\<close>

text \<open>
  The breaker stays closed, and lets every request through, until the fifth
  failure in a row; the failure that opens it makes it reject every request
  for thirty seconds, whatever outcomes of earlier requests still arrive in
  between, and the first request after the deadline is let through.
\<close>

theorem breaker_opens_for_thirty_seconds:
  assumes "breaker_step\<^sup>*\<^sup>* newCircuitBreaker cb" "br_state cb = CircuitClosed"
    and "\<forall>e \<in> set es. not_before t e \<and> asked_by (t + 30 * second) e" "5 + int (length es) \<le> i64_max"
    and "u \<le> t + 30 * second"
  shows "fst (breaker_allowRequest n cb)
    \<and> (br_state (breaker_onFailure f t cb) = CircuitOpen \<longleftrightarrow> br_failures cb = 4)
    \<and> (br_failures cb = 4 \<longrightarrow>
        \<not> fst (breaker_allowRequest u (breaker_run es (breaker_onFailure f t cb)))
        \<and> (\<forall>v > br_openUntil (breaker_run es (breaker_onFailure f t cb)).
             fst (breaker_allowRequest v (breaker_run es (breaker_onFailure f t cb)))))"
proof -
  have "breaker_wf newCircuitBreaker"
    by (simp add: breaker_wf_def newCircuitBreaker_def i64_defs)
  then have wf: "breaker_wf cb" by (rule breaker_inv.run_keeps [OF assms(1)])
  have opened: "fast_failing (t + 30 * second) (breaker_run es (breaker_onFailure f t cb))"
    if "br_failures cb = 4"
    using that assms(4) by (intro fast_failing_run assms(3))
      (auto simp: fast_failing_def breaker_onFailure_def Let_def circuit_consts go_arith i64_defs wrap64_def)
  show ?thesis
    using wf assms(2,5) opened
    by (auto simp: breaker_wf_def breaker_allowRequest_def breaker_onFailure_def Let_def fast_failing_def
        circuit_consts go_arith i64_defs)
qed

lemma breaker_stepped:
  "breaker_step\<^sup>*\<^sup>* a cb \<Longrightarrow> br_failures cb < i64_max \<Longrightarrow> breaker_step\<^sup>*\<^sup>* a (breaker_do e cb)"
  by (blast intro: rtranclp.rtrancl_into_rtrancl breaker_step)

definition four_failures :: circuit_breaker where
  "four_failures = breaker_run [BFailure 1 1, BFailure 2 2, BFailure 3 3, BFailure 4 4] newCircuitBreaker"

lemma four_failures_eq:
  "four_failures = newCircuitBreaker\<lparr>br_failures := 4, br_lastFailTime := 4\<rparr>"
  by (simp add: four_failures_def newCircuitBreaker_def breaker_onFailure_def Let_def circuit_consts wrap64_def)

theorem breaker_opens_for_thirty_seconds_witness:
  "\<not> fst (breaker_allowRequest (5 + 30 * second) (breaker_run [BSuccess] (breaker_onFailure 5 5 four_failures)))"
proof -
  have "breaker_step\<^sup>*\<^sup>* newCircuitBreaker four_failures"
    unfolding four_failures_def breaker_run_simps
    by (intro breaker_stepped rtranclp.rtrancl_refl)
      (simp_all add: newCircuitBreaker_def breaker_onFailure_def Let_def circuit_consts wrap64_def i64_defs)
  moreover have "br_state four_failures = CircuitClosed" "br_failures four_failures = 4"
    by (simp_all add: four_failures_eq newCircuitBreaker_def)
  ultimately show ?thesis
    using breaker_opens_for_thirty_seconds [of four_failures "[BSuccess]" 5 "5 + 30 * second" 0 5]
    by (simp add: i64_defs)
qed

text \<open>
  The breaker can lock the gateway out for good. A success that arrives
  late, while the breaker is open, resets the failure count; the two probes of
  the next half-open phase (the code lets two through, not the one its constant
  names) then fail without reopening it, and from that state every request is
  rejected at every later time, the state never changing again.
\<close>

theorem breaker_locks_out:
  assumes "br_state cb = CircuitOpen" "br_openUntil cb < t1"
  shows "let stuck = breaker_run [BSuccess, BAllow t1, BFailure f1 o1, BAllow t2, BFailure f2 o2] cb
    in fst (breaker_allowRequest t1 (breaker_onSuccess cb))
     \<and> fst (breaker_allowRequest t2 (breaker_run [BSuccess, BAllow t1, BFailure f1 o1] cb))
     \<and> br_state stuck = CircuitHalfOpen
     \<and> (\<forall>ts. breaker_run (map BAllow ts) stuck = stuck)
     \<and> (\<forall>t. \<not> fst (breaker_allowRequest t stuck))"
proof -
  define stuck where "stuck = breaker_run [BSuccess, BAllow t1, BFailure f1 o1, BAllow t2, BFailure f2 o2] cb"
  have s: "br_state stuck = CircuitHalfOpen \<and> br_halfOpenCount stuck = 1"
    unfolding stuck_def using assms
    by (simp add: breaker_onSuccess_def breaker_allowRequest_def breaker_onFailure_def Let_def
        circuit_consts go_arith wrap64_def)
  have rej: "breaker_allowRequest t stuck = (False, stuck)" for t
    using s by (simp add: breaker_allowRequest_def halfOpenAttempts_def)
  have "breaker_run (map BAllow ts) stuck = stuck" for ts
    by (induction ts) (simp_all add: rej)
  then show ?thesis
    using assms s rej unfolding Let_def stuck_def [symmetric]
    by (simp add: breaker_onSuccess_def breaker_allowRequest_def breaker_onFailure_def Let_def
        circuit_consts go_arith wrap64_def)
qed

theorem breaker_locks_out_witness:
  "\<not> fst (breaker_allowRequest 999000000000
      (breaker_run [BFailure 1 1, BFailure 2 2, BFailure 3 3, BFailure 4 4, BFailure 5 5,
         BSuccess, BAllow 40000000000, BFailure 41000000000 41000000000,
         BAllow 42000000000, BFailure 43000000000 43000000000] newCircuitBreaker))"
proof -
  let ?cb = "breaker_do (BFailure 5 5) four_failures"
  have "br_state ?cb = CircuitOpen" "br_openUntil ?cb < 40000000000"
    by (simp_all add: four_failures_eq newCircuitBreaker_def breaker_onFailure_def Let_def circuit_consts
        wrap64_def go_arith)
  from breaker_locks_out [OF this, of 41000000000 41000000000 42000000000 43000000000 43000000000]
  show ?thesis by (simp add: Let_def four_failures_def)
qed

end
