(* ===== verification/TokenBucket.thy ===== *)
theory TokenBucket
  imports Lifecycle
begin

text \<open>
  \<open>pkg/rate/token_bucket.go\<close>: the token bucket. \<open>Allow\<close> runs under the bucket's
  mutex, so concurrent callers are a sequence of calls. A refill duration of
  zero makes the code divide by zero; the properties ask for a positive one.
\<close>

record bucket =
  bk_capacity :: int
  bk_tokens :: int
  bk_refill :: duration
  bk_last :: time

definition NewBucket :: "time \<Rightarrow> int \<Rightarrow> duration \<Rightarrow> bucket" where
  "NewBucket now capacity refill =
    \<lparr>bk_capacity = capacity, bk_tokens = capacity, bk_refill = refill, bk_last = now\<rparr>"

definition bucket_refilled :: "time \<Rightarrow> bucket \<Rightarrow> bucket" where
  "bucket_refilled now b =
    (let elapsed = time_sub now (bk_last b)
     in if elapsed \<ge> bk_refill b then
          let tokensToAdd = elapsed sdiv bk_refill b;
              tokens = wrap64 (bk_tokens b + tokensToAdd)
          in b\<lparr>bk_tokens := (if tokens > bk_capacity b then bk_capacity b else tokens),
               bk_last := time_add (bk_last b) (wrap64 (tokensToAdd * bk_refill b))\<rparr>
        else b)"

definition bucket_Allow :: "time \<Rightarrow> bucket \<Rightarrow> bool \<times> bucket" where
  "bucket_Allow now b =
    (let b1 = bucket_refilled now b
     in if bk_tokens b1 > 0 then (True, b1\<lparr>bk_tokens := wrap64 (bk_tokens b1 - 1)\<rparr>)
        else (False, b1))"

definition bucket_Tokens :: "bucket \<Rightarrow> int" where
  "bucket_Tokens b = bk_tokens b"

section \<open>Counting what a bucket lets through\<close>

fun bucket_allowed :: "time list \<Rightarrow> bucket \<Rightarrow> nat" where
  "bucket_allowed [] b = 0"
| "bucket_allowed (t # ts) b =
     (case bucket_Allow t b of (granted, b') \<Rightarrow> (if granted then 1 else 0) + bucket_allowed ts b')"

definition bucket_wf :: "bucket \<Rightarrow> bool" where
  "bucket_wf b \<longleftrightarrow> 2 \<le> bk_refill b \<and> bk_refill b \<le> i64_max \<and> 0 \<le> bk_tokens b
     \<and> bk_tokens b \<le> bk_capacity b \<and> bk_capacity b \<le> 4611686018427387903"

text \<open>A refill adds whole tokens for whole periods of elapsed time, up to the capacity.\<close>

lemma bucket_refilled_exact:
  assumes "bucket_wf b" "bk_last b \<le> now"
  shows "\<exists>k. 0 \<le> k \<and> bk_last b + k * bk_refill b \<le> now
    \<and> bucket_refilled now b = b\<lparr>bk_tokens := min (bk_capacity b) (bk_tokens b + k),
        bk_last := bk_last b + k * bk_refill b\<rparr>"
proof (cases "time_sub now (bk_last b) \<ge> bk_refill b")
  case False
  then have "bucket_refilled now b = b" by (simp add: bucket_refilled_def Let_def)
  then show ?thesis using assms by (intro exI [of _ 0]) (simp add: bucket_wf_def min_def)
next
  case True
  let ?e = "time_sub now (bk_last b)"
  let ?k = "?e div bk_refill b"
  have e: "0 \<le> ?e" "?e \<le> i64_max" "?e \<le> now - bk_last b"
    using assms(2) by (auto simp: time_sub_def i64_defs)
  have r: "2 \<le> bk_refill b" using assms(1) by (simp add: bucket_wf_def)
  have "?k * bk_refill b = ?e - ?e mod bk_refill b" by (rule minus_mod_eq_div_mult [symmetric])
  moreover have "0 \<le> ?e mod bk_refill b" using r by simp
  ultimately have k: "0 \<le> ?k" "?k * bk_refill b \<le> ?e"
    using e r by (auto simp: pos_imp_zdiv_nonneg_iff)
  have "?k * 2 \<le> ?k * bk_refill b" using k(1) r by (intro mult_left_mono) simp_all
  then have k2: "?k \<le> 4611686018427387903" using k e by (simp add: i64_defs)
  have s: "?e sdiv bk_refill b = ?k" using e r by (simp add: sdiv_nonneg)
  have kr: "0 \<le> ?k * bk_refill b" using k(1) r by simp
  have "in_i64 (?k * bk_refill b)"
    unfolding in_i64_def using kr k(2) e(2) by (simp only: i64_min_def) linarith
  moreover have "in_i64 (bk_tokens b + ?k)"
    using assms(1) k(1) k2 by (auto simp: bucket_wf_def i64_defs)
  ultimately have w: "wrap64 (?k * bk_refill b) = ?k * bk_refill b" "wrap64 (bk_tokens b + ?k) = bk_tokens b + ?k"
    by (blast intro: wrap64_id)+
  then show ?thesis
    using True k e by (intro exI [of _ ?k])
      (auto simp: bucket_refilled_def Let_def s w time_add_def min_def)
qed

lemma bucket_Allow_exact:
  assumes "bucket_wf b" "bk_last b \<le> now" "bucket_Allow now b = (granted, b')"
  shows "\<exists>k. 0 \<le> k \<and> bk_last b' = bk_last b + k * bk_refill b \<and> bk_last b' \<le> now
    \<and> bk_refill b' = bk_refill b \<and> bk_capacity b' = bk_capacity b
    \<and> bk_tokens b' + of_bool granted \<le> bk_tokens b + k \<and> bucket_wf b'
    \<and> (granted \<longleftrightarrow> 0 < min (bk_capacity b) (bk_tokens b + k))"
proof -
  obtain k where k: "0 \<le> k" "bk_last b + k * bk_refill b \<le> now"
    "bucket_refilled now b = b\<lparr>bk_tokens := min (bk_capacity b) (bk_tokens b + k),
        bk_last := bk_last b + k * bk_refill b\<rparr>"
    using bucket_refilled_exact [OF assms(1,2)] by blast
  have c: "0 \<le> bk_tokens b" "bk_tokens b \<le> bk_capacity b" "bk_capacity b \<le> 4611686018427387903"
    using assms(1) by (simp_all add: bucket_wf_def)
  then have "wrap64 (min (bk_capacity b) (bk_tokens b + k) - 1) = min (bk_capacity b) (bk_tokens b + k) - 1"
    using k(1) by (intro wrap64_id) (simp add: i64_defs min_def)
  then have "granted = (0 < min (bk_capacity b) (bk_tokens b + k))"
    "b' = b\<lparr>bk_tokens := min (bk_capacity b) (bk_tokens b + k) - of_bool granted,
       bk_last := bk_last b + k * bk_refill b\<rparr>"
    using assms(3) unfolding bucket_Allow_def k(3) Let_def by (auto split: if_splits)
  then show ?thesis
    using assms(1) k(1,2) c unfolding bucket_wf_def
    by (intro exI [of _ k]) (cases granted; auto simp: min_def split: if_splits)
qed

text \<open>Tokens left plus requests let through never exceed the tokens that came in.\<close>

lemma bucket_allowed_bound:
  assumes "bucket_wf b" "sorted ts" "\<forall>t \<in> set ts. bk_last b \<le> t \<and> t \<le> end"
    and "bk_last b \<le> end"
  shows "int (bucket_allowed ts b) \<le> bk_tokens b + (end - bk_last b) div bk_refill b"
  using assms
proof (induction ts arbitrary: b)
  case Nil
  then have "0 \<le> (end - bk_last b) div bk_refill b"
    by (simp add: bucket_wf_def pos_imp_zdiv_nonneg_iff)
  then show ?case using Nil.prems(1) by (simp add: bucket_wf_def)
next
  case (Cons t ts)
  obtain granted b' where a: "bucket_Allow t b = (granted, b')" by fastforce
  obtain k where k: "0 \<le> k" "bk_last b' = bk_last b + k * bk_refill b" "bk_last b' \<le> t"
    "bk_refill b' = bk_refill b" "bk_tokens b' + of_bool granted \<le> bk_tokens b + k" "bucket_wf b'"
    using bucket_Allow_exact [OF Cons.prems(1) _ a] Cons.prems(3) by (metis list.set_intros(1))
  have "int (bucket_allowed ts b') \<le> bk_tokens b' + (end - bk_last b') div bk_refill b'"
    using Cons.prems k by (intro Cons.IH) auto
  moreover have "(end - bk_last b') div bk_refill b' = (end - bk_last b) div bk_refill b - k"
  proof -
    have "end - bk_last b' = (end - bk_last b) + (- k) * bk_refill b" by (simp add: k(2))
    moreover have "bk_refill b \<noteq> 0" using Cons.prems(1) by (simp add: bucket_wf_def)
    ultimately have "(end - bk_last b') div bk_refill b = - k + (end - bk_last b) div bk_refill b"
      using div_mult_self1 [of "bk_refill b" "end - bk_last b" "- k"] by (simp only: refl not_False_eq_True)
    then show ?thesis by (simp only: k(4))
  qed
  ultimately show ?case using k(5) by (cases granted) (simp_all add: a)
qed

text \<open>
  A bucket never lets more through than it promises: from its creation on,
  whatever requests arrive at whatever non-decreasing times up to \<open>end\<close>, it
  allows at most its capacity plus one for each whole refill period that has
  passed; and a request is refused only when no token is left.
\<close>

theorem bucket_rate_limit:
  assumes "0 \<le> c" "c \<le> 4611686018427387903" "2 \<le> r" "r \<le> i64_max"
    and "sorted ts" "\<forall>t \<in> set ts. start \<le> t \<and> t \<le> end" "start \<le> end"
  shows "int (bucket_allowed ts (NewBucket start c r)) \<le> c + (end - start) div r
    \<and> (0 < c \<longrightarrow> fst (bucket_Allow start (NewBucket start c r)))"
proof -
  have wf: "bucket_wf (NewBucket start c r)" using assms(1-4) by (simp add: bucket_wf_def NewBucket_def)
  have "int (bucket_allowed ts (NewBucket start c r)) \<le> c + (end - start) div r"
    using bucket_allowed_bound [OF wf assms(5), of "end"] assms(6,7) by (simp add: NewBucket_def)
  moreover have "0 < c \<Longrightarrow> fst (bucket_Allow start (NewBucket start c r))"
    using bucket_Allow_exact [OF wf, of start] assms(1)
    by (cases "bucket_Allow start (NewBucket start c r)") (fastforce simp: NewBucket_def)
  ultimately show ?thesis by blast
qed

theorem bucket_rate_limit_witness:
  "bucket_allowed [0, 0, 0, 5, 12, 12] (NewBucket 0 2 5) = 4"
proof -
  have "int (bucket_allowed [0, 0, 0, 5, 12, 12] (NewBucket 0 2 5)) \<le> 2 + (12 - 0) div 5"
    using bucket_rate_limit [of 2 5 "[0, 0, 0, 5, 12, 12]" 0 12] by (simp add: i64_defs)
  moreover have "bucket_allowed [0, 0, 0, 5, 12, 12] (NewBucket 0 2 5) \<ge> 4" by code_simp
  ultimately show ?thesis by simp
qed

end
