(* ===== verification/Ledger.thy ===== *)
theory Ledger
  imports Money Lifecycle
begin

text \<open>
  \<open>internal/finance/account_types.go\<close>,
  \<open>internal/finance/infrastructure/repository/ledger_repository.go\<close>,
  \<open>system_account_bootstrap.go\<close> and \<open>total_money_invariant_checker.go\<close>: the
  double-entry ledger. The three tables \<open>financial_accounts\<close>,
  \<open>ledger_transactions\<close> and \<open>ledger_entries\<close> are lists of rows; the CHECK
  constraints of the schema (\<open>migrations/000001_canonical_schema.up.sql\<close>
  2461-2468) that the code relies on are the error branches of the inserts. An
  operation runs in one database transaction that its caller rolls back on an
  error, so an error carries no ledger. Every id that \<open>uuid.New\<close> returns is an
  argument. Idempotency keys are a fixed prefix and a 36-character uuid, hence
  pairs; one key ends in the gateway's own transaction id. The time stamps of
  the rows are left out.
\<close>

section \<open>Accounts\<close>

datatype AccountClass = ClassAsset | ClassLiability | ClassRevenue | ClassExpense | ClassEquity

datatype AccountType =
  AccountGatewayClearing | AccountEscrow | AccountSellerPayable | AccountPlatformRevenue
  | AccountBankSettlement | AccountWithdrawalPending | AccountWithdrawalCommitted
  | AccountPlatformBank | AccountPlatformCoinBenefit | AccountUserServiceCredit
  | AccountBuyerRefundable | AccountAdRevenue | AccountPromoteBalance
  | AccountPromotionAllocation | AccountOther string

fun AccountClassOf :: "AccountType \<Rightarrow> AccountClass" where
  "AccountClassOf AccountGatewayClearing = ClassLiability"
| "AccountClassOf AccountEscrow = ClassLiability"
| "AccountClassOf AccountSellerPayable = ClassLiability"
| "AccountClassOf AccountWithdrawalPending = ClassLiability"
| "AccountClassOf AccountWithdrawalCommitted = ClassLiability"
| "AccountClassOf AccountBuyerRefundable = ClassLiability"
| "AccountClassOf AccountUserServiceCredit = ClassLiability"
| "AccountClassOf AccountPromoteBalance = ClassLiability"
| "AccountClassOf AccountPromotionAllocation = ClassLiability"
| "AccountClassOf AccountPlatformRevenue = ClassRevenue"
| "AccountClassOf AccountAdRevenue = ClassRevenue"
| "AccountClassOf AccountPlatformBank = ClassAsset"
| "AccountClassOf AccountPlatformCoinBenefit = ClassExpense"
| "AccountClassOf AccountBankSettlement = ClassLiability"
| "AccountClassOf (AccountOther _) = ClassAsset"

definition class_DebitIncreasesBalance :: "AccountClass \<Rightarrow> bool" where
  "class_DebitIncreasesBalance c \<longleftrightarrow> c = ClassAsset \<or> c = ClassExpense"

record account =
  ac_ID :: uuid
  ac_UserID :: "uuid option"
  ac_Type :: AccountType
  ac_HolderID :: "uuid option"
  ac_Balance :: i64

record entry =
  en_AccountID :: uuid
  en_Amount :: money

datatype entry_type = EntryDebit | EntryCredit

record ledger_entry =
  le_TransactionID :: uuid
  le_AccountID :: uuid
  le_EntryType :: entry_type
  le_Amount :: i64
  le_BalanceAfter :: i64

datatype idem_key = KeyUuid string uuid | KeyText string string

record ledger_transaction =
  lt_ID :: uuid
  lt_Key :: idem_key
  lt_ReferenceType :: string
  lt_ReferenceID :: uuid
  lt_OrderID :: "uuid option"
  lt_PaymentID :: "uuid option"
  lt_TotalDebit :: i64
  lt_TotalCredit :: i64

record ledger =
  lg_Accounts :: "account list"
  lg_Transactions :: "ledger_transaction list"
  lg_Entries :: "ledger_entry list"

datatype ledger_error =
  LedgerNoEntries | LedgerPanic money_panic | LedgerUnbalanced i64 | LedgerInsertTransactionFailed
  | LedgerAccountsNotFound nat nat | LedgerUpdateBalanceFailed uuid | LedgerInsertEntryFailed
  | LedgerSystemAccountNotFound AccountType | LedgerUserAccountNotFound AccountType uuid
  | LedgerHolderAccountNotFound AccountType uuid uuid | LedgerAccountNotFound uuid
  | LedgerSumFailed

section \<open>Looking rows up\<close>

definition find_account :: "uuid \<Rightarrow> ledger \<Rightarrow> account option" where
  "find_account i L = find (\<lambda>a. ac_ID a = i) (lg_Accounts L)"

definition ledger_GetAccountBalance :: "uuid \<Rightarrow> ledger \<Rightarrow> ledger_error + money" where
  "ledger_GetAccountBalance i L =
    (case find_account i L of None \<Rightarrow> Inl (LedgerAccountNotFound i) | Some a \<Rightarrow> Inr (money_New (ac_Balance a)))"

definition ledger_GetAccountBalanceForUpdate :: "uuid \<Rightarrow> ledger \<Rightarrow> ledger_error + money" where
  "ledger_GetAccountBalanceForUpdate i L =
    (case find_account i L of None \<Rightarrow> Inl (LedgerAccountNotFound i) | Some a \<Rightarrow> Inr (money_New (ac_Balance a)))"

definition ledger_GetSystemAccountID :: "AccountType \<Rightarrow> ledger \<Rightarrow> ledger_error + uuid" where
  "ledger_GetSystemAccountID t L =
    (case find (\<lambda>a. ac_Type a = t \<and> ac_UserID a = None) (lg_Accounts L) of
       None \<Rightarrow> Inl (LedgerSystemAccountNotFound t) | Some a \<Rightarrow> Inr (ac_ID a))"

definition ledger_GetUserAccountID :: "AccountType \<Rightarrow> uuid \<Rightarrow> ledger \<Rightarrow> ledger_error + uuid" where
  "ledger_GetUserAccountID t u L =
    (case find (\<lambda>a. ac_Type a = t \<and> ac_UserID a = Some u) (lg_Accounts L) of
       None \<Rightarrow> Inl (LedgerUserAccountNotFound t u) | Some a \<Rightarrow> Inr (ac_ID a))"

definition ledger_GetHolderAccountID :: "AccountType \<Rightarrow> uuid \<Rightarrow> uuid \<Rightarrow> ledger \<Rightarrow> ledger_error + uuid" where
  "ledger_GetHolderAccountID t u h L =
    (case find (\<lambda>a. ac_Type a = t \<and> ac_UserID a = Some u \<and> ac_HolderID a = Some h) (lg_Accounts L) of
       None \<Rightarrow> Inl (LedgerHolderAccountNotFound t u h) | Some a \<Rightarrow> Inr (ac_ID a))"

definition insert_account :: "account \<Rightarrow> ledger \<Rightarrow> ledger" where
  "insert_account a L = L\<lparr>lg_Accounts := lg_Accounts L @ [a]\<rparr>"

definition ledger_GetOrCreateUserAccount ::
    "uuid \<Rightarrow> AccountType \<Rightarrow> uuid \<Rightarrow> ledger \<Rightarrow> uuid \<times> ledger" where
  "ledger_GetOrCreateUserAccount newID t u L =
    (case ledger_GetUserAccountID t u L of
       Inr i \<Rightarrow> (i, L)
     | Inl _ \<Rightarrow> (newID, insert_account
         \<lparr>ac_ID = newID, ac_UserID = Some u, ac_Type = t, ac_HolderID = None, ac_Balance = 0\<rparr> L))"

definition ledger_GetOrCreateHolderAccount ::
    "uuid \<Rightarrow> AccountType \<Rightarrow> uuid \<Rightarrow> uuid \<Rightarrow> ledger \<Rightarrow> uuid \<times> ledger" where
  "ledger_GetOrCreateHolderAccount newID t u h L =
    (case ledger_GetHolderAccountID t u h L of
       Inr i \<Rightarrow> (i, L)
     | Inl _ \<Rightarrow> (newID, insert_account
         \<lparr>ac_ID = newID, ac_UserID = Some u, ac_Type = t, ac_HolderID = Some h, ac_Balance = 0\<rparr> L))"

definition ledger_TransactionExistsByKey :: "idem_key \<Rightarrow> ledger \<Rightarrow> bool" where
  "ledger_TransactionExistsByKey k L \<longleftrightarrow> (\<exists>x \<in> set (lg_Transactions L). lt_Key x = k)"

definition ledger_CountTransactionsByEntityID :: "uuid \<Rightarrow> ledger \<Rightarrow> nat" where
  "ledger_CountTransactionsByEntityID r L = length (filter (\<lambda>x. lt_ReferenceID x = r) (lg_Transactions L))"

definition ledger_GetTotalCreditToUserAccount :: "AccountType \<Rightarrow> uuid \<Rightarrow> ledger \<Rightarrow> ledger_error + i64" where
  "ledger_GetTotalCreditToUserAccount t u L =
    (case ledger_GetUserAccountID t u L of
       Inl e \<Rightarrow> Inl e
     | Inr i \<Rightarrow>
         let tot = (\<Sum>e\<leftarrow>filter (\<lambda>e. le_AccountID e = i) (lg_Entries L).
                        if le_EntryType e = EntryDebit then le_Amount e else 0)
         in if in_i64 tot then Inr tot else Inl LedgerSumFailed)"

section \<open>Posting a transaction\<close>

fun sum_amounts :: "money \<Rightarrow> entry list \<Rightarrow> money_panic + money" where
  "sum_amounts acc [] = Inr acc"
| "sum_amounts acc (e # es) =
     (case money_Add acc (en_Amount e) of Inl p \<Rightarrow> Inl p | Inr t \<Rightarrow> sum_amounts t es)"

fun debit_credit_totals :: "entry list \<Rightarrow> i64 \<times> i64 \<Rightarrow> i64 \<times> i64" where
  "debit_credit_totals [] (d, c) = (d, c)"
| "debit_credit_totals (e # es) (d, c) =
     debit_credit_totals es
       (if money_Int64 (en_Amount e) > 0 then (wrap64 (d + money_Int64 (en_Amount e)), c)
        else (d, wrap64 (c + wrap64 (- money_Int64 (en_Amount e)))))"

definition set_balance :: "uuid \<Rightarrow> i64 \<Rightarrow> ledger \<Rightarrow> ledger" where
  "set_balance i b L =
    L\<lparr>lg_Accounts := map (\<lambda>a. if ac_ID a = i then a\<lparr>ac_Balance := b\<rparr> else a) (lg_Accounts L)\<rparr>"

definition post_entry :: "uuid \<Rightarrow> entry \<Rightarrow> ledger \<Rightarrow> ledger_error + ledger" where
  "post_entry transactionID e L =
    (case find_account (en_AccountID e) L of
       None \<Rightarrow> Inl (LedgerAccountNotFound (en_AccountID e))
     | Some a \<Rightarrow>
       let newBalance = (if class_DebitIncreasesBalance (AccountClassOf (ac_Type a))
                         then wrap64 (ac_Balance a + money_Int64 (en_Amount e))
                         else wrap64 (ac_Balance a - money_Int64 (en_Amount e)));
           entryType = (if money_Int64 (en_Amount e) < 0 then EntryCredit else EntryDebit);
           amount = (if money_Int64 (en_Amount e) < 0 then wrap64 (- money_Int64 (en_Amount e))
                     else money_Int64 (en_Amount e))
       in if newBalance < 0 then Inl (LedgerUpdateBalanceFailed (en_AccountID e))
          else if amount \<le> 0 then Inl LedgerInsertEntryFailed
          else let L1 = set_balance (en_AccountID e) newBalance L
               in Inr (L1\<lparr>lg_Entries := lg_Entries L1 @
                    [\<lparr>le_TransactionID = transactionID, le_AccountID = en_AccountID e,
                      le_EntryType = entryType, le_Amount = amount, le_BalanceAfter = newBalance\<rparr>]\<rparr>))"

fun post_entries :: "uuid \<Rightarrow> entry list \<Rightarrow> ledger \<Rightarrow> ledger_error + ledger" where
  "post_entries transactionID [] L = Inr L"
| "post_entries transactionID (e # es) L =
     (case post_entry transactionID e L of Inl err \<Rightarrow> Inl err | Inr L1 \<Rightarrow> post_entries transactionID es L1)"

definition ledger_CreateTransaction ::
    "uuid \<Rightarrow> idem_key \<Rightarrow> string \<Rightarrow> uuid \<Rightarrow> uuid option \<Rightarrow> uuid option \<Rightarrow> entry list \<Rightarrow> ledger
      \<Rightarrow> ledger_error + ledger" where
  "ledger_CreateTransaction transactionID key referenceType referenceID orderID paymentID entries L =
    (if length entries = 0 then Inl LedgerNoEntries
     else case sum_amounts money_Zero entries of
       Inl p \<Rightarrow> Inl (LedgerPanic p)
     | Inr tot \<Rightarrow>
       if \<not> money_IsZero tot then Inl (LedgerUnbalanced (money_Int64 tot))
       else if ledger_TransactionExistsByKey key L then Inr L
       else
         let (totalDebit, totalCredit) = debit_credit_totals entries (0, 0);
             accountIDs = remdups (map en_AccountID entries);
             found = filter (\<lambda>i. is_set (find_account i L)) accountIDs
         in if totalDebit \<noteq> totalCredit \<or> totalDebit < 0 then Inl LedgerInsertTransactionFailed
            else if length found \<noteq> length accountIDs
            then Inl (LedgerAccountsNotFound (length accountIDs) (length found))
            else post_entries transactionID entries
              (L\<lparr>lg_Transactions := lg_Transactions L @
                 [\<lparr>lt_ID = transactionID, lt_Key = key, lt_ReferenceType = referenceType,
                   lt_ReferenceID = referenceID, lt_OrderID = orderID, lt_PaymentID = paymentID,
                   lt_TotalDebit = totalDebit, lt_TotalCredit = totalCredit\<rparr>]\<rparr>))"

section \<open>Opening the books\<close>

record systemAccountConfig =
  sc_accountType :: AccountType
  sc_initialBalance :: i64

definition bankSettlementReserveFloat :: i64 where
  "bankSettlementReserveFloat = 9000000000000000"

definition platformBankReserveFloat :: i64 where
  "platformBankReserveFloat = 9000000000000000"

definition systemAccountConfigs :: "systemAccountConfig list" where
  "systemAccountConfigs =
    [\<lparr>sc_accountType = AccountGatewayClearing, sc_initialBalance = 0\<rparr>,
     \<lparr>sc_accountType = AccountEscrow, sc_initialBalance = 0\<rparr>,
     \<lparr>sc_accountType = AccountSellerPayable, sc_initialBalance = 0\<rparr>,
     \<lparr>sc_accountType = AccountPlatformRevenue, sc_initialBalance = 0\<rparr>,
     \<lparr>sc_accountType = AccountWithdrawalPending, sc_initialBalance = 0\<rparr>,
     \<lparr>sc_accountType = AccountWithdrawalCommitted, sc_initialBalance = 0\<rparr>,
     \<lparr>sc_accountType = AccountPlatformBank, sc_initialBalance = platformBankReserveFloat\<rparr>,
     \<lparr>sc_accountType = AccountBankSettlement, sc_initialBalance = bankSettlementReserveFloat\<rparr>,
     \<lparr>sc_accountType = AccountPlatformCoinBenefit, sc_initialBalance = 0\<rparr>]"

text \<open>The code walks the configuration map in an arbitrary order; the order only
  decides the order of the rows.\<close>

definition bootstrap_ensureAccount :: "uuid \<Rightarrow> systemAccountConfig \<Rightarrow> ledger \<Rightarrow> bool \<times> ledger" where
  "bootstrap_ensureAccount newID config L =
    (case ledger_GetSystemAccountID (sc_accountType config) L of
       Inr _ \<Rightarrow> (False, L)
     | Inl _ \<Rightarrow> (True, insert_account
         \<lparr>ac_ID = newID, ac_UserID = None, ac_Type = sc_accountType config, ac_HolderID = None,
           ac_Balance = money_Int64 (money_New (sc_initialBalance config))\<rparr> L))"

fun ensure_accounts :: "uuid \<Rightarrow> systemAccountConfig list \<Rightarrow> ledger \<Rightarrow> nat \<times> ledger" where
  "ensure_accounts newID [] L = (0, L)"
| "ensure_accounts newID (config # rest) L =
     (case bootstrap_ensureAccount newID config L of (created, L1) \<Rightarrow>
      case ensure_accounts (newID + 1) rest L1 of (n, L2) \<Rightarrow> ((if created then n + 1 else n), L2))"

definition EnsureSystemAccounts :: "uuid \<Rightarrow> ledger \<Rightarrow> nat \<times> ledger" where
  "EnsureSystemAccounts newID L = ensure_accounts newID systemAccountConfigs L"

definition empty_ledger :: ledger where
  "empty_ledger = \<lparr>lg_Accounts = [], lg_Transactions = [], lg_Entries = []\<rparr>"

definition opening_books :: ledger where
  "opening_books = snd (EnsureSystemAccounts 101 empty_ledger)"

section \<open>The money invariant checker\<close>

text \<open>The query's own list of credit-normal types and its own seeds.\<close>

definition checker_credit_normal :: "AccountType \<Rightarrow> bool" where
  "checker_credit_normal t \<longleftrightarrow> t \<in> {AccountSellerPayable, AccountBuyerRefundable, AccountPlatformRevenue,
     AccountWithdrawalPending, AccountWithdrawalCommitted, AccountGatewayClearing, AccountEscrow,
     AccountUserServiceCredit, AccountAdRevenue, AccountPromoteBalance, AccountPromotionAllocation,
     AccountBankSettlement}"

definition checker_computed :: "ledger \<Rightarrow> account \<Rightarrow> int" where
  "checker_computed L a =
    (\<Sum>e\<leftarrow>filter (\<lambda>e. le_AccountID e = ac_ID a) (lg_Entries L).
       if checker_credit_normal (ac_Type a)
       then (if le_EntryType e = EntryCredit then le_Amount e else - le_Amount e)
       else (if le_EntryType e = EntryDebit then le_Amount e else - le_Amount e))"

definition checker_expected :: "ledger \<Rightarrow> account \<Rightarrow> int" where
  "checker_expected L a = checker_computed L a
     + (if ac_Type a = AccountBankSettlement \<or> ac_Type a = AccountPlatformBank then 9000000000000000 else 0)"

definition checker_getBalanceMismatches :: "ledger \<Rightarrow> account list" where
  "checker_getBalanceMismatches L = filter (\<lambda>a. ac_Balance a \<noteq> checker_expected L a) (lg_Accounts L)"

definition CheckTotalMoneyInvariant :: "ledger \<Rightarrow> bool" where
  "CheckTotalMoneyInvariant L \<longleftrightarrow> length (checker_getBalanceMismatches L) > 0"

section \<open>The accounting equation\<close>

text \<open>
  An account counts positive when a debit increases it. The books balance when
  the signed balances cancel: what the platform has and has spent is what it
  owes and has earned.
\<close>

definition debit_normal :: "account \<Rightarrow> bool" where
  "debit_normal a \<longleftrightarrow> class_DebitIncreasesBalance (AccountClassOf (ac_Type a))"

definition signed_balance :: "account \<Rightarrow> int" where
  "signed_balance a = (if debit_normal a then ac_Balance a else - ac_Balance a)"

definition signed_where :: "(uuid option \<Rightarrow> AccountType \<Rightarrow> bool) \<Rightarrow> ledger \<Rightarrow> int" where
  "signed_where P L = (\<Sum>a\<leftarrow>lg_Accounts L. if P (ac_UserID a) (ac_Type a) then signed_balance a else 0)"

abbreviation books :: "ledger \<Rightarrow> int" where
  "books \<equiv> signed_where (\<lambda>_ _. True)"

definition rows_ok :: "ledger \<Rightarrow> bool" where
  "rows_ok L \<longleftrightarrow> distinct (map ac_ID (lg_Accounts L))
     \<and> (\<forall>a \<in> set (lg_Accounts L). 0 \<le> ac_Balance a \<and> ac_Balance a \<le> i64_max)
     \<and> (\<forall>a \<in> set (lg_Accounts L). ac_Balance a = checker_expected L a)
     \<and> (\<forall>e \<in> set (lg_Entries L). le_AccountID e \<in> set (map ac_ID (lg_Accounts L)) \<and> 0 < le_Amount e)"

definition ledger_ok :: "ledger \<Rightarrow> bool" where
  "ledger_ok L \<longleftrightarrow> rows_ok L \<and> books L = 0"

lemma checker_credit_normal_iff [simp]: "checker_credit_normal (ac_Type a) \<longleftrightarrow> \<not> debit_normal a"
  by (cases "ac_Type a")
    (simp_all add: checker_credit_normal_def debit_normal_def class_DebitIncreasesBalance_def)

lemma find_account_Some:
  assumes "find_account i L = Some a"
  shows "a \<in> set (lg_Accounts L)" "ac_ID a = i"
  using assms by (auto simp: find_account_def find_Some_iff)

lemma find_account_in:
  "is_set (find_account i L) \<longleftrightarrow> i \<in> set (map ac_ID (lg_Accounts L))"
  by (auto simp: find_account_def is_set_def find_None_iff)

text \<open>Changing the one row with a given id changes a sum over the rows by one term.\<close>

lemma sum_update_row:
  fixes g :: "account \<Rightarrow> int"
  assumes "distinct (map ac_ID as)" "a \<in> set as"
  shows "(\<Sum>x\<leftarrow>map (\<lambda>x. if ac_ID x = ac_ID a then f x else x) as. g x)
    = (\<Sum>x\<leftarrow>as. g x) - g a + g (f a)"
  using assms
proof (induction as)
  case Nil
  then show ?case by simp
next
  case (Cons x as)
  show ?case
  proof (cases "x = a")
    case True
    then have "map (\<lambda>x. if ac_ID x = ac_ID a then f x else x) as = as"
      using Cons.prems(1) by (intro map_idI) (auto simp: rev_image_eqI)
    with True show ?thesis by simp
  next
    case False
    then have "a \<in> set as" "ac_ID x \<noteq> ac_ID a" using Cons.prems by (auto simp: rev_image_eqI)
    with Cons show ?thesis by simp
  qed
qed

section \<open>What posting does\<close>

definition owners :: "ledger \<Rightarrow> (uuid \<times> uuid option \<times> AccountType) list" where
  "owners L = map (\<lambda>a. (ac_ID a, ac_UserID a, ac_Type a)) (lg_Accounts L)"

lemma ids_of_owners: "map ac_ID (lg_Accounts L) = map fst (owners L)"
  by (simp add: owners_def comp_def)

text \<open>
  The CHECK on the balance makes the wrap-around harmless: a wrapped sum of a
  non-negative balance and an amount is negative and refused.
\<close>

lemma balance_step_exact:
  assumes "0 \<le> b" "b \<le> i64_max" "in_i64 n"
  shows "0 \<le> wrap64 (b + n) \<Longrightarrow> wrap64 (b + n) = b + n"
    and "0 \<le> wrap64 (b - n) \<Longrightarrow> wrap64 (b - n) = b - n"
  using wrap64_sum_cases [of b n] wrap64_diff_cases [of b n] assms
  by (auto simp: i64_defs split: if_splits)

lemma stored_amount_exact:
  "in_i64 n \<Longrightarrow> 0 < wrap64 (- n) \<Longrightarrow> wrap64 (- n) = - n"
proof (cases "n = i64_min")
  case True
  then show "0 < wrap64 (- n) \<Longrightarrow> wrap64 (- n) = - n" by (simp add: i64_min_def wrap64_def)
next
  case False
  then show "in_i64 n \<Longrightarrow> wrap64 (- n) = - n" by (simp add: in_i64_uminus)
qed

lemma post_entry_Inr:
  assumes "rows_ok L" "in_i64 (en_Amount e)" "post_entry x e L = Inr L'"
  obtains a b le where "find_account (en_AccountID e) L = Some a"
    and "L' = (set_balance (ac_ID a) b L)\<lparr>lg_Entries := lg_Entries L @ [le]\<rparr>"
    and "0 \<le> b" "b \<le> i64_max"
    and "b = ac_Balance a + (if debit_normal a then en_Amount e else - en_Amount e)"
    and "le_AccountID le = ac_ID a" "0 < le_Amount le"
    and "le_Amount le = \<bar>en_Amount e\<bar>" "le_EntryType le = (if en_Amount e < 0 then EntryCredit else EntryDebit)"
proof -
  obtain a where a: "find_account (en_AccountID e) L = Some a"
    using assms(3) by (auto simp: post_entry_def split: option.splits)
  have bal: "0 \<le> ac_Balance a" "ac_Balance a \<le> i64_max" "ac_ID a = en_AccountID e"
    using find_account_Some [OF a] assms(1) by (auto simp: rows_ok_def)
  define b where "b = ac_Balance a + (if debit_normal a then en_Amount e else - en_Amount e)"
  define le where "le = \<lparr>le_TransactionID = x, le_AccountID = ac_ID a,
    le_EntryType = (if en_Amount e < 0 then EntryCredit else EntryDebit),
    le_Amount = \<bar>en_Amount e\<bar>, le_BalanceAfter = b\<rparr>"
  have w: "(if debit_normal a then wrap64 (ac_Balance a + en_Amount e) else wrap64 (ac_Balance a - en_Amount e)) = b"
    "0 \<le> b" "b \<le> i64_max"
    using assms(3) a balance_step_exact [OF bal(1,2) assms(2)] in_i64_wrap64 [of "ac_Balance a + en_Amount e"]
      in_i64_wrap64 [of "ac_Balance a - en_Amount e"]
    by (auto simp: post_entry_def Let_def money_defs b_def debit_normal_def in_i64_def split: if_splits)
  have amt: "(if en_Amount e < 0 then wrap64 (- en_Amount e) else en_Amount e) = \<bar>en_Amount e\<bar>"
    "en_Amount e \<noteq> 0"
    using assms(3) a stored_amount_exact [OF assms(2)]
    by (auto simp: post_entry_def Let_def money_defs split: if_splits)
  show ?thesis
  proof (rule that [where a = a and b = b and le = le])
    show "L' = (set_balance (ac_ID a) b L)\<lparr>lg_Entries := lg_Entries L @ [le]\<rparr>"
      using assms(3) a w amt bal(3)
      by (simp add: post_entry_def Let_def money_defs debit_normal_def [symmetric] le_def set_balance_def
          split: if_splits)
  qed (use a w amt in \<open>simp_all add: b_def le_def\<close>)
qed

lemma post_entry_keeps:
  assumes "rows_ok L" "in_i64 (en_Amount e)" "post_entry x e L = Inr L'"
  shows "rows_ok L'" "owners L' = owners L" "lg_Transactions L' = lg_Transactions L"
    and "\<exists>a. find_account (en_AccountID e) L = Some a \<and> (\<forall>P. signed_where P L'
      = signed_where P L + (if P (ac_UserID a) (ac_Type a) then en_Amount e else 0))"
proof -
  obtain a b le where a: "find_account (en_AccountID e) L = Some a"
    and L': "L' = (set_balance (ac_ID a) b L)\<lparr>lg_Entries := lg_Entries L @ [le]\<rparr>"
    and b: "0 \<le> b" "b \<le> i64_max"
      "b = ac_Balance a + (if debit_normal a then en_Amount e else - en_Amount e)"
    and le: "le_AccountID le = ac_ID a" "0 < le_Amount le" "le_Amount le = \<bar>en_Amount e\<bar>"
      "le_EntryType le = (if en_Amount e < 0 then EntryCredit else EntryDebit)"
    using post_entry_Inr [OF assms] by metis
  note mem = find_account_Some [OF a]
  show o: "owners L' = owners L" "lg_Transactions L' = lg_Transactions L"
    by (auto simp: L' owners_def set_balance_def)
  have d: "distinct (map ac_ID (lg_Accounts L))" using assms(1) by (simp add: rows_ok_def)
  have same: "c = a" if "c \<in> set (lg_Accounts L)" "ac_ID c = ac_ID a" for c
    using that mem(1) d by (auto dest: map_inj_on [of ac_ID] simp: distinct_map inj_on_def)
  have cmp: "checker_expected L' (c\<lparr>ac_Balance := y\<rparr>) = checker_expected L c
      + (if ac_ID c = ac_ID a then (if debit_normal c then en_Amount e else - en_Amount e) else 0)" for c y
    using checker_credit_normal_iff [of c] le
    by (auto simp: checker_expected_def checker_computed_def L' set_balance_def abs_if)
  then have cmp': "checker_expected L' c = checker_expected L c
      + (if ac_ID c = ac_ID a then (if debit_normal c then en_Amount e else - en_Amount e) else 0)" for c
    using cmp [where c = c and y = "ac_Balance c"] by simp
  have ok: "0 \<le> ac_Balance c \<and> ac_Balance c \<le> i64_max \<and> ac_Balance c = checker_expected L c"
    if "c \<in> set (lg_Accounts L)" for c using assms(1) that unfolding rows_ok_def by blast
  have "0 \<le> ac_Balance c \<and> ac_Balance c \<le> i64_max \<and> ac_Balance c = checker_expected L' c"
    if "c \<in> set (lg_Accounts L')" for c
  proof -
    from that obtain c0 where c0: "c0 \<in> set (lg_Accounts L)"
      "c = (if ac_ID c0 = ac_ID a then c0\<lparr>ac_Balance := b\<rparr> else c0)"
      by (auto simp: L' set_balance_def)
    show ?thesis
    proof (cases "ac_ID c0 = ac_ID a")
      case True
      then have "c0 = a" using same c0(1) by simp
      with c0 True b ok [OF mem(1)] show ?thesis by (simp add: cmp)
    next
      case False
      then have "c = c0" using c0(2) by simp
      with False ok [OF c0(1)] show ?thesis by (simp add: cmp')
    qed
  qed
  moreover have "map ac_ID (lg_Accounts L') = map ac_ID (lg_Accounts L)"
    unfolding ids_of_owners o ..
  moreover have "le_AccountID y \<in> set (map ac_ID (lg_Accounts L)) \<and> 0 < le_Amount y"
    if "y \<in> set (lg_Entries L')" for y
    using that mem(1) le(1,2) assms(1) by (auto simp: L' rows_ok_def)
  ultimately show "rows_ok L'"
    using d unfolding rows_ok_def by metis
  have sb: "signed_balance (a\<lparr>ac_Balance := b\<rparr>) = signed_balance a + en_Amount e"
    by (simp add: b(3) signed_balance_def debit_normal_def)
  have "signed_where P L' = signed_where P L + (if P (ac_UserID a) (ac_Type a) then en_Amount e else 0)" for P
    using sum_update_row [OF d mem(1), of "\<lambda>a. if P (ac_UserID a) (ac_Type a) then signed_balance a else 0"
        "\<lambda>a. a\<lparr>ac_Balance := b\<rparr>"]
    by (simp add: signed_where_def L' set_balance_def sb)
  with a show "\<exists>a. find_account (en_AccountID e) L = Some a \<and> (\<forall>P. signed_where P L'
      = signed_where P L + (if P (ac_UserID a) (ac_Type a) then en_Amount e else 0))" by blast
qed

text \<open>What one entry adds to the accounts that satisfy a condition.\<close>

definition owner_of :: "ledger \<Rightarrow> uuid \<Rightarrow> (uuid option \<times> AccountType) option" where
  "owner_of L i = map_of (owners L) i"

definition entry_effect :: "(uuid option \<times> AccountType) option \<Rightarrow> (uuid option \<Rightarrow> AccountType \<Rightarrow> bool) \<Rightarrow> int \<Rightarrow> int" where
  "entry_effect o' P n = (case o' of None \<Rightarrow> 0 | Some (u, t) \<Rightarrow> if P u t then n else 0)"

lemma entry_effect_simps [simp]:
  "entry_effect (Some (u, t)) P n = (if P u t then n else 0)" "entry_effect None P n = 0"
  by (simp_all add: entry_effect_def)

lemma owner_of_find:
  "owner_of L i = map_option (\<lambda>a. (ac_UserID a, ac_Type a)) (find_account i L)"
proof -
  have "map_of (map (\<lambda>a. (ac_ID a, ac_UserID a, ac_Type a)) as) i
      = map_option (\<lambda>a. (ac_UserID a, ac_Type a)) (find (\<lambda>a. ac_ID a = i) as)" for as
    by (induction as) auto
  then show ?thesis by (simp add: owner_of_def owners_def find_account_def)
qed

lemma post_entries_keeps:
  assumes "rows_ok L" "\<forall>e \<in> set es. in_i64 (en_Amount e)" "post_entries x es L = Inr L'"
  shows "rows_ok L' \<and> owners L' = owners L \<and> lg_Transactions L' = lg_Transactions L
    \<and> (\<forall>e \<in> set es. owner_of L (en_AccountID e) \<noteq> None)
    \<and> (\<forall>P. signed_where P L' = signed_where P L
         + (\<Sum>e\<leftarrow>es. entry_effect (owner_of L (en_AccountID e)) P (en_Amount e)))"
  using assms
proof (induction es arbitrary: L)
  case Nil
  then show ?case by simp
next
  case (Cons e es)
  from Cons.prems(3) obtain L1 where L1: "post_entry x e L = Inr L1" "post_entries x es L1 = Inr L'"
    by (auto split: sum.splits)
  note keep = post_entry_keeps [OF Cons.prems(1) _ L1(1)]
  have i: "in_i64 (en_Amount e)" "\<forall>e \<in> set es. in_i64 (en_Amount e)" using Cons.prems(2) by simp_all
  have o: "owner_of L1 = owner_of L" using keep(2) [OF i(1)] by (simp add: owner_of_def fun_eq_iff)
  from keep(4) [OF i(1)] obtain a where "find_account (en_AccountID e) L = Some a"
    and s: "\<And>P. signed_where P L1 = signed_where P L + (if P (ac_UserID a) (ac_Type a) then en_Amount e else 0)"
    by blast
  then have "owner_of L (en_AccountID e) = Some (ac_UserID a, ac_Type a)" by (simp add: owner_of_find)
  with Cons.IH [OF keep(1) [OF i(1)] i(2) L1(2)] s keep(2,3) [OF i(1)] o show ?case by simp
qed

lemma owner_of_cong: "owners L' = owners L \<Longrightarrow> owner_of L' = owner_of L"
  by (simp add: owner_of_def fun_eq_iff)

lemma rows_ok_cong:
  assumes "lg_Accounts L' = lg_Accounts L" "lg_Entries L' = lg_Entries L"
  shows "rows_ok L' = rows_ok L"
  by (simp only: rows_ok_def checker_expected_def checker_computed_def assms)

lemma sum_amounts_exact:
  assumes "in_i64 acc" "\<forall>e \<in> set es. in_i64 (en_Amount e)" "sum_amounts acc es = Inr t"
  shows "t = acc + (\<Sum>e\<leftarrow>es. en_Amount e) \<and> in_i64 t"
  using assms
proof (induction es arbitrary: acc)
  case Nil
  then show ?case by simp
next
  case (Cons e es)
  then have "in_i64 (acc + en_Amount e)" "sum_amounts (acc + en_Amount e) es = Inr t"
    by (auto simp: money_Add_exact split: if_splits sum.splits)
  with Cons.IH [of "acc + en_Amount e"] Cons.prems
  have "t = (acc + en_Amount e) + (\<Sum>e\<leftarrow>es. en_Amount e)" "in_i64 t" by auto
  then show ?case by (simp only: add.assoc list.map sum_list.Cons)
qed

lemma CreateTransaction_Inr:
  assumes "rows_ok L" "\<forall>e \<in> set es. in_i64 (en_Amount e)"
    and "ledger_CreateTransaction x k rt r oid pid es L = Inr L'"
  shows "(\<Sum>e\<leftarrow>es. en_Amount e) = 0 \<and> ledger_TransactionExistsByKey k L'
    \<and> (if ledger_TransactionExistsByKey k L then L' = L
       else rows_ok L' \<and> owner_of L' = owner_of L
         \<and> (\<forall>e \<in> set es. owner_of L (en_AccountID e) \<noteq> None)
         \<and> (\<forall>P. signed_where P L' = signed_where P L
              + (\<Sum>e\<leftarrow>es. entry_effect (owner_of L (en_AccountID e)) P (en_Amount e))))"
proof -
  obtain t where t: "sum_amounts money_Zero es = Inr t" "money_IsZero t"
    using assms(3) by (auto simp: ledger_CreateTransaction_def split: sum.splits if_splits)
  then have z: "(\<Sum>e\<leftarrow>es. en_Amount e) = 0"
    using sum_amounts_exact [OF _ assms(2), of money_Zero t] by (simp add: money_defs)
  show ?thesis
  proof (cases "ledger_TransactionExistsByKey k L")
    case True
    then show ?thesis using assms(3) t z by (auto simp: ledger_CreateTransaction_def split: if_splits)
  next
    case False
    then obtain row where p: "post_entries x es (L\<lparr>lg_Transactions := lg_Transactions L @ [row]\<rparr>) = Inr L'"
      "lt_Key row = k"
      using assms(3) t by (fastforce simp: ledger_CreateTransaction_def Let_def split: if_splits prod.splits)
    let ?L = "L\<lparr>lg_Transactions := lg_Transactions L @ [row]\<rparr>"
    have "rows_ok ?L"
      using assms(1) by (subst rows_ok_cong [of _ L]) simp_all
    moreover have "owners ?L = owners L" "owner_of ?L = owner_of L" "signed_where P ?L = signed_where P L" for P
      by (simp_all add: owners_def owner_of_def signed_where_def fun_eq_iff)
    ultimately show ?thesis
      using post_entries_keeps [OF _ assms(2) p(1)] z p(2) False owner_of_cong [of L' L]
      by (simp add: ledger_TransactionExistsByKey_def)
  qed
qed

lemma CreateTransaction_replay:
  assumes "ledger_TransactionExistsByKey k L" "es \<noteq> []" "sum_amounts money_Zero es = Inr 0"
  shows "ledger_CreateTransaction x k rt r oid pid es L = Inr L"
  using assms by (simp add: ledger_CreateTransaction_def money_defs)

section \<open>Opening an account\<close>

definition account_ids :: "ledger \<Rightarrow> uuid set" where
  "account_ids L = set (map ac_ID (lg_Accounts L))"

lemma insert_account_keeps:
  assumes "rows_ok L" "ac_ID a \<notin> account_ids L" "0 \<le> ac_Balance a" "ac_Balance a \<le> i64_max"
    and "ac_Balance a = (if ac_Type a = AccountBankSettlement \<or> ac_Type a = AccountPlatformBank
           then 9000000000000000 else 0)"
  shows "rows_ok (insert_account a L)"
proof -
  have e: "le_AccountID e \<in> account_ids L" "0 < le_Amount e" if "e \<in> set (lg_Entries L)" for e
    using assms(1) that by (auto simp: rows_ok_def account_ids_def)
  have "le_AccountID e \<noteq> ac_ID a" if "e \<in> set (lg_Entries L)" for e
    using e(1) [OF that] assms(2) by auto
  then have "filter (\<lambda>e. le_AccountID e = ac_ID a) (lg_Entries L) = []"
    by (simp add: filter_empty_conv)
  then have n: "ac_Balance a = checker_expected (insert_account a L) a"
    using assms(5) by (simp add: checker_expected_def checker_computed_def insert_account_def)
  have o: "checker_expected (insert_account a L) c = checker_expected L c" for c
    by (simp add: checker_expected_def checker_computed_def insert_account_def)
  have "0 \<le> ac_Balance c \<and> ac_Balance c \<le> i64_max \<and> ac_Balance c = checker_expected (insert_account a L) c"
    if "c \<in> set (lg_Accounts (insert_account a L))" for c
    using that assms(1,3,4) n o unfolding rows_ok_def by (cases "c = a") (auto simp: insert_account_def)
  moreover have "distinct (map ac_ID (lg_Accounts (insert_account a L)))"
    using assms(1,2) by (simp add: rows_ok_def account_ids_def insert_account_def)
  moreover have "le_AccountID y \<in> set (map ac_ID (lg_Accounts (insert_account a L))) \<and> 0 < le_Amount y"
    if "y \<in> set (lg_Entries (insert_account a L))" for y
    using that e [of y] by (simp add: insert_account_def account_ids_def)
  ultimately show ?thesis
    unfolding rows_ok_def by metis
qed

lemma insert_account_opens:
  assumes "rows_ok L" "ac_ID a \<notin> account_ids L" "ac_Type a \<noteq> AccountBankSettlement"
    and "ac_Type a \<noteq> AccountPlatformBank" "ac_Balance a = 0"
  shows "rows_ok (insert_account a L) \<and> signed_where P (insert_account a L) = signed_where P L
    \<and> owner_of (insert_account a L) (ac_ID a) = Some (ac_UserID a, ac_Type a)
    \<and> (\<forall>j. owner_of L j \<noteq> None \<longrightarrow> owner_of (insert_account a L) j = owner_of L j)
    \<and> account_ids (insert_account a L) \<subseteq> insert (ac_ID a) (account_ids L)
    \<and> (\<forall>k. ledger_TransactionExistsByKey k (insert_account a L) = ledger_TransactionExistsByKey k L)"
proof -
  have "map_of (owners L) (ac_ID a) = None"
    using assms(2) by (simp add: account_ids_def ids_of_owners map_of_eq_None_iff)
  moreover have "owners (insert_account a L) = owners L @ [(ac_ID a, ac_UserID a, ac_Type a)]"
    by (simp add: owners_def insert_account_def)
  ultimately have "owner_of (insert_account a L) (ac_ID a) = Some (ac_UserID a, ac_Type a)"
    "\<forall>j. owner_of L j \<noteq> None \<longrightarrow> owner_of (insert_account a L) j = owner_of L j"
    by (auto simp: owner_of_def map_add_def split: option.splits)
  moreover have "rows_ok (insert_account a L)"
    by (rule insert_account_keeps) (use assms in \<open>simp_all add: i64_max_def\<close>)
  ultimately show ?thesis
    using assms(5) by (auto simp: insert_account_def signed_where_def signed_balance_def account_ids_def
        ledger_TransactionExistsByKey_def)
qed

lemma owner_of_row:
  assumes "rows_ok L" "a \<in> set (lg_Accounts L)"
  shows "owner_of L (ac_ID a) = Some (ac_UserID a, ac_Type a)"
proof -
  have "(ac_ID a, ac_UserID a, ac_Type a) \<in> set (owners L)" using assms(2) by (force simp: owners_def)
  moreover have "distinct (map fst (owners L))"
    using assms(1) unfolding rows_ok_def ids_of_owners by blast
  ultimately show ?thesis by (simp add: owner_of_def)
qed

lemma GetSystemAccountID_owner:
  assumes "rows_ok L" "ledger_GetSystemAccountID t L = Inr i"
  shows "owner_of L i = Some (None, t)"
  using assms owner_of_row [OF assms(1)]
  by (fastforce simp: ledger_GetSystemAccountID_def find_Some_iff split: option.splits)

lemma GetHolderAccountID_owner:
  assumes "rows_ok L" "ledger_GetHolderAccountID t u h L = Inr i"
  shows "owner_of L i = Some (Some u, t)"
  using assms owner_of_row [OF assms(1)]
  by (fastforce simp: ledger_GetHolderAccountID_def find_Some_iff split: option.splits)

lemma GetUserAccountID_owner:
  assumes "rows_ok L" "ledger_GetUserAccountID t u L = Inr i"
  shows "owner_of L i = Some (Some u, t)"
  using assms owner_of_row [OF assms(1)]
  by (fastforce simp: ledger_GetUserAccountID_def find_Some_iff split: option.splits)

lemma GetOrCreateUserAccount_keeps:
  assumes "rows_ok L" "newID \<notin> account_ids L" "t \<noteq> AccountBankSettlement" "t \<noteq> AccountPlatformBank"
    and "ledger_GetOrCreateUserAccount newID t u L = (i, L1)"
  shows "rows_ok L1 \<and> signed_where P L1 = signed_where P L \<and> owner_of L1 i = Some (Some u, t)
    \<and> (\<forall>j. owner_of L j \<noteq> None \<longrightarrow> owner_of L1 j = owner_of L j)
    \<and> account_ids L1 \<subseteq> insert newID (account_ids L)
    \<and> (\<forall>k. ledger_TransactionExistsByKey k L1 = ledger_TransactionExistsByKey k L)"
proof (cases "ledger_GetUserAccountID t u L")
  case (Inl err)
  then show ?thesis
    using assms(5) insert_account_opens [OF assms(1), of "\<lparr>ac_ID = newID, ac_UserID = Some u, ac_Type = t,
      ac_HolderID = None, ac_Balance = 0\<rparr>" P] assms(2-4)
    unfolding ledger_GetOrCreateUserAccount_def by (simp only: sum.case prod.inject) auto
next
  case (Inr j)
  then show ?thesis
    using assms(1,5) GetUserAccountID_owner [OF assms(1) Inr] by (auto simp: ledger_GetOrCreateUserAccount_def)
qed

lemma GetOrCreateHolderAccount_keeps:
  assumes "rows_ok L" "newID \<notin> account_ids L" "t \<noteq> AccountBankSettlement" "t \<noteq> AccountPlatformBank"
    and "ledger_GetOrCreateHolderAccount newID t u h L = (i, L1)"
  shows "rows_ok L1 \<and> signed_where P L1 = signed_where P L \<and> owner_of L1 i = Some (Some u, t)
    \<and> (\<forall>j. owner_of L j \<noteq> None \<longrightarrow> owner_of L1 j = owner_of L j)
    \<and> account_ids L1 \<subseteq> insert newID (account_ids L)
    \<and> (\<forall>k. ledger_TransactionExistsByKey k L1 = ledger_TransactionExistsByKey k L)"
proof (cases "ledger_GetHolderAccountID t u h L")
  case (Inl err)
  then show ?thesis
    using assms(5) insert_account_opens [OF assms(1), of "\<lparr>ac_ID = newID, ac_UserID = Some u, ac_Type = t,
      ac_HolderID = Some h, ac_Balance = 0\<rparr>" P] assms(2-4)
    unfolding ledger_GetOrCreateHolderAccount_def by (simp only: sum.case prod.inject) auto
next
  case (Inr j)
  then show ?thesis
    using assms(1,5) GetHolderAccountID_owner [OF assms(1) Inr] by (auto simp: ledger_GetOrCreateHolderAccount_def)
qed

section \<open>The interface of the ledger\<close>

text \<open>
  What a client of the repository may rely on: opening an account moves no
  money, a recorded transaction is balanced, is recorded under its key, changes
  nothing when its key was recorded before, and otherwise adds each entry to
  its account. The finance service is built on these laws alone.
\<close>

locale double_entry =
  fixes rows :: "'l \<Rightarrow> bool"
    and total_where :: "(uuid option \<Rightarrow> AccountType \<Rightarrow> bool) \<Rightarrow> 'l \<Rightarrow> int"
    and owner :: "'l \<Rightarrow> uuid \<Rightarrow> (uuid option \<times> AccountType) option"
    and recorded :: "idem_key \<Rightarrow> 'l \<Rightarrow> bool"
    and transact :: "uuid \<Rightarrow> idem_key \<Rightarrow> string \<Rightarrow> uuid \<Rightarrow> uuid option \<Rightarrow> uuid option \<Rightarrow> entry list \<Rightarrow> 'l
      \<Rightarrow> 'e + 'l"
  assumes transact_law: "rows L \<Longrightarrow> \<forall>e \<in> set es. in_i64 (en_Amount e) \<Longrightarrow> transact x k rt r oid pid es L = Inr L'
      \<Longrightarrow> (\<Sum>e\<leftarrow>es. en_Amount e) = 0 \<and> recorded k L'
        \<and> (if recorded k L then L' = L
           else rows L' \<and> owner L' = owner L
             \<and> (\<forall>e \<in> set es. owner L (en_AccountID e) \<noteq> None)
             \<and> (\<forall>P. total_where P L' = total_where P L
                  + (\<Sum>e\<leftarrow>es. entry_effect (owner L (en_AccountID e)) P (en_Amount e))))"
begin

lemma effects_sum:
  "\<forall>e \<in> set es. o' (en_AccountID e) \<noteq> None \<Longrightarrow>
    (\<Sum>e\<leftarrow>es. entry_effect (o' (en_AccountID e)) (\<lambda>_ _. True) (en_Amount e)) = (\<Sum>e\<leftarrow>es. en_Amount e)"
  by (induction es) auto

text \<open>A transaction keeps the rows and the accounting equation.\<close>

lemma transact_keeps:
  assumes "rows L" "\<forall>e \<in> set es. in_i64 (en_Amount e)" "transact x k rt r oid pid es L = Inr L'"
  shows "rows L' \<and> total_where (\<lambda>_ _. True) L' = total_where (\<lambda>_ _. True) L"
  using transact_law [OF assms] effects_sum [of es "owner L"] assms(1) by (auto split: if_splits)

lemma transact_moves:
  assumes "rows L" "\<forall>e \<in> set es. in_i64 (en_Amount e)" "transact x k rt r oid pid es L = Inr L'"
    and "\<not> recorded k L"
  shows "total_where P L' = total_where P L
    + (\<Sum>e\<leftarrow>es. entry_effect (owner L (en_AccountID e)) P (en_Amount e))"
  using transact_law [OF assms(1-3)] assms(4) by auto

lemma transact_recorded:
  assumes "rows L" "\<forall>e \<in> set es. in_i64 (en_Amount e)" "transact x k rt r oid pid es L = Inr L'"
  shows "recorded k L'"
  using transact_law [OF assms] by simp

end

interpretation lg: double_entry rows_ok signed_where owner_of ledger_TransactionExistsByKey
    ledger_CreateTransaction
  by unfold_locales (rule CreateTransaction_Inr)

lemma opening_books_ok: "ledger_ok opening_books"
proof -
  have d: "opening_books = \<lparr>lg_Accounts =
     [\<lparr>ac_ID = 101, ac_UserID = None, ac_Type = AccountGatewayClearing, ac_HolderID = None, ac_Balance = 0\<rparr>,
      \<lparr>ac_ID = 102, ac_UserID = None, ac_Type = AccountEscrow, ac_HolderID = None, ac_Balance = 0\<rparr>,
      \<lparr>ac_ID = 103, ac_UserID = None, ac_Type = AccountSellerPayable, ac_HolderID = None, ac_Balance = 0\<rparr>,
      \<lparr>ac_ID = 104, ac_UserID = None, ac_Type = AccountPlatformRevenue, ac_HolderID = None, ac_Balance = 0\<rparr>,
      \<lparr>ac_ID = 105, ac_UserID = None, ac_Type = AccountWithdrawalPending, ac_HolderID = None, ac_Balance = 0\<rparr>,
      \<lparr>ac_ID = 106, ac_UserID = None, ac_Type = AccountWithdrawalCommitted, ac_HolderID = None, ac_Balance = 0\<rparr>,
      \<lparr>ac_ID = 107, ac_UserID = None, ac_Type = AccountPlatformBank, ac_HolderID = None,
        ac_Balance = 9000000000000000\<rparr>,
      \<lparr>ac_ID = 108, ac_UserID = None, ac_Type = AccountBankSettlement, ac_HolderID = None,
        ac_Balance = 9000000000000000\<rparr>,
      \<lparr>ac_ID = 109, ac_UserID = None, ac_Type = AccountPlatformCoinBenefit, ac_HolderID = None,
        ac_Balance = 0\<rparr>],
     lg_Transactions = [], lg_Entries = []\<rparr>"
    by (simp add: opening_books_def EnsureSystemAccounts_def systemAccountConfigs_def empty_ledger_def
        bootstrap_ensureAccount_def ledger_GetSystemAccountID_def insert_account_def money_defs
        platformBankReserveFloat_def bankSettlementReserveFloat_def)
  show ?thesis
    unfolding d by (simp add: ledger_ok_def rows_ok_def checker_expected_def checker_computed_def i64_max_def
        signed_where_def signed_balance_def debit_normal_def class_DebitIncreasesBalance_def)
qed

end
