(* ===== verification/FinanceService.thy ===== *)
theory FinanceService
  imports Ledger
begin

text \<open>
  \<open>internal/finance/application/finance_service.go\<close> and \<open>promotion_finance.go\<close>:
  the single entry point to the ledger. One definition per method, with its
  guards in the order of the code; a method that succeeds returns the ledger
  it leaves, an error means that the caller's database transaction is rolled
  back. \<open>uuid.Nil\<close> is 0. The ids that \<open>uuid.New\<close> would return for a new account
  and for the ledger transaction are the first arguments. Log lines are left
  out; the summaries that only feed log lines are too.
\<close>

datatype finance_error =
  FinInvalid | FinLedger ledger_error | FinSellerPayableInsufficient
  | FinWithdrawalBlocked uuid i64 i64 i64
  | FinPromoteBalanceInsufficient | FinPromotionAllocationInsufficient

definition led :: "ledger_error + 'a \<Rightarrow> finance_error + 'a" where
  "led = map_sum FinLedger id"

lemma led_Inr [simp]: "led m = Inr y \<longleftrightarrow> m = Inr y"
  by (cases m) (simp_all add: led_def)

definition check :: "bool \<Rightarrow> finance_error + unit" where
  "check b = (if b then Inr () else Inl FinInvalid)"

lemma check_Inr [simp]: "check b = Inr u \<longleftrightarrow> b"
  by (simp add: check_def)

definition leg :: "uuid \<Rightarrow> i64 \<Rightarrow> entry" where
  "leg i n = \<lparr>en_AccountID = i, en_Amount = money_New n\<rparr>"

abbreviation neg64 :: "i64 \<Rightarrow> i64" where
  "neg64 n \<equiv> wrap64 (- n)"

section \<open>Seller earnings\<close>

definition GetSellerTotalEarnings :: "uuid \<Rightarrow> ledger \<Rightarrow> finance_error + i64" where
  "GetSellerTotalEarnings sellerID L = led (ledger_GetTotalCreditToUserAccount AccountSellerPayable sellerID L)"

section \<open>Orders and payments\<close>

definition RecordOrderRelease :: "uuid \<Rightarrow> uuid \<Rightarrow> uuid \<Rightarrow> uuid \<Rightarrow> i64 \<Rightarrow> i64 \<Rightarrow> i64 \<Rightarrow> ledger \<Rightarrow> finance_error + ledger" where
  "RecordOrderRelease newID txID orderID sellerID gross commission sellerNet L =
    sum_bind (check (\<not> (gross < 0 \<or> commission < 0 \<or> sellerNet < 0))) (\<lambda>_.
    sum_bind (check (wrap64 (sellerNet + commission) = gross)) (\<lambda>_.
    sum_bind (led (ledger_GetSystemAccountID AccountGatewayClearing L)) (\<lambda>gatewayClearingID.
    sum_bind (led (ledger_GetSystemAccountID AccountPlatformRevenue L)) (\<lambda>platformRevenueID.
    let (sellerPayableID, L1) = ledger_GetOrCreateUserAccount newID AccountSellerPayable sellerID L
    in led (ledger_CreateTransaction txID (KeyUuid ''order_release_'' orderID) ''order_release'' orderID
         (Some orderID) None
         [leg gatewayClearingID gross, leg sellerPayableID (neg64 sellerNet), leg platformRevenueID (neg64 commission)]
         L1)))))"

definition RecordSubscriptionRevenue :: "uuid \<Rightarrow> uuid \<Rightarrow> i64 \<Rightarrow> ledger \<Rightarrow> finance_error + ledger" where
  "RecordSubscriptionRevenue txID paymentID amount L =
    sum_bind (led (ledger_GetSystemAccountID AccountPlatformRevenue L)) (\<lambda>platformRevenueID.
    sum_bind (led (ledger_GetSystemAccountID AccountBankSettlement L)) (\<lambda>bankSettlementID.
    led (ledger_CreateTransaction txID (KeyUuid ''seller_subscription_payment_'' paymentID)
      ''seller_subscription_payment'' paymentID None None
      [leg platformRevenueID (neg64 amount), leg bankSettlementID amount] L)))"

definition RecordSubscriptionPaymentFeeRevenue :: "uuid \<Rightarrow> uuid \<Rightarrow> uuid \<Rightarrow> i64 \<Rightarrow> ledger \<Rightarrow> finance_error + ledger" where
  "RecordSubscriptionPaymentFeeRevenue txID paymentID subID buyerPaymentFee L =
    sum_bind (check (paymentID \<noteq> uuid_nil \<and> subID \<noteq> uuid_nil \<and> \<not> buyerPaymentFee < 0)) (\<lambda>_.
    if buyerPaymentFee = 0 then Inr L else
    sum_bind (led (ledger_GetSystemAccountID AccountBankSettlement L)) (\<lambda>bankSettlementID.
    sum_bind (led (ledger_GetSystemAccountID AccountPlatformRevenue L)) (\<lambda>platformRevenueID.
    led (ledger_CreateTransaction txID (KeyUuid ''subscription_fee_revenue_'' paymentID)
      ''subscription_fee_revenue'' paymentID (Some subID) (Some paymentID)
      [leg bankSettlementID buyerPaymentFee, leg platformRevenueID (neg64 buyerPaymentFee)] L))))"

definition RecordGatewayPaymentSettlement ::
    "uuid \<Rightarrow> uuid \<Rightarrow> uuid \<Rightarrow> string \<Rightarrow> i64 \<Rightarrow> ledger \<Rightarrow> finance_error + ledger" where
  "RecordGatewayPaymentSettlement txID paymentID orderID providerTransactionID gross L =
    sum_bind (check (paymentID \<noteq> uuid_nil \<and> orderID \<noteq> uuid_nil \<and> providerTransactionID \<noteq> ''''
      \<and> \<not> gross \<le> 0)) (\<lambda>_.
    sum_bind (led (ledger_GetSystemAccountID AccountGatewayClearing L)) (\<lambda>gatewayClearingID.
    sum_bind (led (ledger_GetSystemAccountID AccountBankSettlement L)) (\<lambda>bankSettlementID.
    led (ledger_CreateTransaction txID (KeyText ''payment_settlement_'' providerTransactionID)
      ''payment_settlement'' paymentID (Some orderID) (Some paymentID)
      [leg gatewayClearingID (neg64 gross), leg bankSettlementID gross] L))))"

definition RecordBuyerPaymentFeeRevenue :: "uuid \<Rightarrow> uuid \<Rightarrow> uuid \<Rightarrow> i64 \<Rightarrow> ledger \<Rightarrow> finance_error + ledger" where
  "RecordBuyerPaymentFeeRevenue txID paymentID orderID buyerPaymentFee L =
    sum_bind (check (paymentID \<noteq> uuid_nil \<and> orderID \<noteq> uuid_nil \<and> \<not> buyerPaymentFee < 0)) (\<lambda>_.
    if buyerPaymentFee = 0 then Inr L else
    sum_bind (led (ledger_GetSystemAccountID AccountGatewayClearing L)) (\<lambda>gatewayClearingID.
    sum_bind (led (ledger_GetSystemAccountID AccountPlatformRevenue L)) (\<lambda>platformRevenueID.
    led (ledger_CreateTransaction txID (KeyUuid ''payment_fee_revenue_'' paymentID)
      ''payment_fee_revenue'' paymentID (Some orderID) (Some paymentID)
      [leg gatewayClearingID buyerPaymentFee, leg platformRevenueID (neg64 buyerPaymentFee)] L))))"

definition RecordBillingPaymentFeeRevenue :: "uuid \<Rightarrow> uuid \<Rightarrow> uuid \<Rightarrow> i64 \<Rightarrow> ledger \<Rightarrow> finance_error + ledger" where
  "RecordBillingPaymentFeeRevenue txID paymentID billingID buyerPaymentFee L =
    sum_bind (check (paymentID \<noteq> uuid_nil \<and> billingID \<noteq> uuid_nil \<and> \<not> buyerPaymentFee < 0)) (\<lambda>_.
    if buyerPaymentFee = 0 then Inr L else
    sum_bind (led (ledger_GetSystemAccountID AccountBankSettlement L)) (\<lambda>bankSettlementID.
    sum_bind (led (ledger_GetSystemAccountID AccountPlatformRevenue L)) (\<lambda>platformRevenueID.
    led (ledger_CreateTransaction txID (KeyUuid ''billing_fee_revenue_'' paymentID)
      ''billing_fee_revenue'' paymentID (Some billingID) (Some paymentID)
      [leg bankSettlementID buyerPaymentFee, leg platformRevenueID (neg64 buyerPaymentFee)] L))))"

definition RecordCoinFunding :: "uuid \<Rightarrow> uuid \<Rightarrow> uuid \<Rightarrow> i64 \<Rightarrow> ledger \<Rightarrow> finance_error + ledger" where
  "RecordCoinFunding txID paymentID orderID amount L =
    sum_bind (check (paymentID \<noteq> uuid_nil \<and> orderID \<noteq> uuid_nil \<and> \<not> amount \<le> 0)) (\<lambda>_.
    sum_bind (led (ledger_GetSystemAccountID AccountPlatformCoinBenefit L)) (\<lambda>coinBenefitID.
    sum_bind (led (ledger_GetSystemAccountID AccountGatewayClearing L)) (\<lambda>gatewayClearingID.
    led (ledger_CreateTransaction txID (KeyUuid ''coin_funding_'' paymentID)
      ''coin_funding'' paymentID (Some orderID) (Some paymentID)
      [leg coinBenefitID amount, leg gatewayClearingID (neg64 amount)] L))))"

definition RecordCoinFundingReversal :: "uuid \<Rightarrow> uuid \<Rightarrow> uuid \<Rightarrow> i64 \<Rightarrow> ledger \<Rightarrow> finance_error + ledger" where
  "RecordCoinFundingReversal txID refundID orderID amount L =
    sum_bind (check (refundID \<noteq> uuid_nil \<and> orderID \<noteq> uuid_nil)) (\<lambda>_.
    if amount \<le> 0 then Inr L else
    sum_bind (led (ledger_GetSystemAccountID AccountGatewayClearing L)) (\<lambda>gatewayClearingID.
    sum_bind (led (ledger_GetSystemAccountID AccountPlatformCoinBenefit L)) (\<lambda>coinBenefitID.
    led (ledger_CreateTransaction txID (KeyUuid ''coin_funding_reversal_'' refundID)
      ''coin_funding_reversal'' refundID (Some orderID) None
      [leg gatewayClearingID amount, leg coinBenefitID (neg64 amount)] L))))"

section \<open>Refunds\<close>

record RecordRefundReversalInput =
  rv_RefundID :: uuid
  rv_OrderID :: uuid
  rv_BuyerID :: uuid
  rv_SellerID :: uuid
  rv_RefundAmount :: i64
  rv_SellerComponent :: i64
  rv_CommissionComponent :: i64
  rv_OrderGross :: i64
  rv_CumulativeRefunded :: i64
  rv_AfterRelease :: bool

definition refund_reversal_valid :: "RecordRefundReversalInput \<Rightarrow> bool" where
  "refund_reversal_valid inp \<longleftrightarrow>
     rv_RefundID inp \<noteq> uuid_nil \<and> rv_OrderID inp \<noteq> uuid_nil \<and> rv_BuyerID inp \<noteq> uuid_nil
     \<and> rv_SellerID inp \<noteq> uuid_nil
     \<and> \<not> (rv_RefundAmount inp \<le> 0 \<or> rv_CommissionComponent inp < 0 \<or> rv_SellerComponent inp < 0)
     \<and> wrap64 (rv_SellerComponent inp + rv_CommissionComponent inp) = rv_RefundAmount inp
     \<and> \<not> (rv_OrderGross inp \<le> 0 \<or> rv_CumulativeRefunded inp \<le> 0
           \<or> rv_CumulativeRefunded inp > rv_OrderGross inp)"

definition RecordRefundReversal ::
    "uuid \<Rightarrow> uuid \<Rightarrow> uuid \<Rightarrow> RecordRefundReversalInput \<Rightarrow> ledger \<Rightarrow> finance_error + ledger" where
  "RecordRefundReversal newBuyerID newSellerID txID inp L =
    sum_bind (check (refund_reversal_valid inp)) (\<lambda>_.
    let alreadyRecorded = ledger_CountTransactionsByEntityID (rv_RefundID inp) L in
    sum_bind (led (ledger_GetSystemAccountID AccountGatewayClearing L)) (\<lambda>gatewayClearingID.
    let (buyerRefundableID, L1) =
          ledger_GetOrCreateUserAccount newBuyerID AccountBuyerRefundable (rv_BuyerID inp) L
    in if rv_AfterRelease inp then
         let (sellerPayableID, L2) =
               ledger_GetOrCreateUserAccount newSellerID AccountSellerPayable (rv_SellerID inp) L1;
             entries = (\<lambda>platformRevenueID.
               [leg buyerRefundableID (neg64 (rv_RefundAmount inp)), leg sellerPayableID (rv_SellerComponent inp),
                leg platformRevenueID (rv_CommissionComponent inp)])
         in sum_bind (led (ledger_GetSystemAccountID AccountPlatformRevenue L2)) (\<lambda>platformRevenueID.
            sum_bind (if alreadyRecorded = 0
                      then sum_bind (led (ledger_GetAccountBalanceForUpdate sellerPayableID L2)) (\<lambda>available.
                             if money_Int64 available \<ge> rv_SellerComponent inp then Inr ()
                             else Inl FinSellerPayableInsufficient)
                      else Inr ()) (\<lambda>_.
            led (ledger_CreateTransaction txID (KeyUuid ''refund_reversal_'' (rv_RefundID inp))
              ''refund_reversal'' (rv_RefundID inp) (Some (rv_OrderID inp)) None
              (entries platformRevenueID) L2)))
       else
         led (ledger_CreateTransaction txID (KeyUuid ''refund_reversal_'' (rv_RefundID inp))
           ''refund_reversal'' (rv_RefundID inp) (Some (rv_OrderID inp)) None
           [leg buyerRefundableID (neg64 (rv_RefundAmount inp)), leg gatewayClearingID (rv_RefundAmount inp)] L1)))"

record RecordPartialRefundReleaseInput =
  pr_RefundID :: uuid
  pr_OrderID :: uuid
  pr_SellerID :: uuid
  pr_Remainder :: i64
  pr_SellerNet :: i64
  pr_Commission :: i64

definition RecordPartialRefundRelease ::
    "uuid \<Rightarrow> uuid \<Rightarrow> RecordPartialRefundReleaseInput \<Rightarrow> ledger \<Rightarrow> finance_error + ledger" where
  "RecordPartialRefundRelease newID txID inp L =
    sum_bind (check (pr_RefundID inp \<noteq> uuid_nil \<and> pr_OrderID inp \<noteq> uuid_nil \<and> pr_SellerID inp \<noteq> uuid_nil
      \<and> \<not> pr_Remainder inp \<le> 0 \<and> \<not> (pr_SellerNet inp < 0 \<or> pr_Commission inp < 0)
      \<and> wrap64 (pr_SellerNet inp + pr_Commission inp) = pr_Remainder inp)) (\<lambda>_.
    sum_bind (led (ledger_GetSystemAccountID AccountGatewayClearing L)) (\<lambda>gatewayClearingID.
    let (sellerPayableID, L1) = ledger_GetOrCreateUserAccount newID AccountSellerPayable (pr_SellerID inp) L
    in sum_bind (led (ledger_GetSystemAccountID AccountPlatformRevenue L1)) (\<lambda>platformRevenueID.
       led (ledger_CreateTransaction txID (KeyUuid ''partial_release_'' (pr_RefundID inp))
         ''partial_refund_release'' (pr_RefundID inp) (Some (pr_OrderID inp)) None
         [leg gatewayClearingID (pr_Remainder inp), leg sellerPayableID (neg64 (pr_SellerNet inp)),
          leg platformRevenueID (neg64 (pr_Commission inp))] L1))))"

section \<open>Seller withdrawals\<close>

record SellerWithdrawableSummary =
  sw_PayableBalance :: i64
  sw_Withdrawable :: i64

definition GetSellerWithdrawable :: "uuid \<Rightarrow> ledger \<Rightarrow> finance_error + SellerWithdrawableSummary" where
  "GetSellerWithdrawable sellerID L =
    sum_bind (check (sellerID \<noteq> uuid_nil)) (\<lambda>_.
    sum_bind (case ledger_GetUserAccountID AccountSellerPayable sellerID L of
                Inl _ \<Rightarrow> Inr 0
              | Inr payableID \<Rightarrow> led (ledger_GetAccountBalance payableID L)) (\<lambda>payableBalance.
    Inr \<lparr>sw_PayableBalance = money_Int64 payableBalance, sw_Withdrawable = money_Int64 payableBalance\<rparr>))"

definition AssertSellerWithdrawalAllowed ::
    "uuid \<Rightarrow> uuid \<Rightarrow> i64 \<Rightarrow> ledger \<Rightarrow> finance_error + SellerWithdrawableSummary \<times> ledger" where
  "AssertSellerWithdrawalAllowed newID sellerID amount L =
    sum_bind (check (sellerID \<noteq> uuid_nil \<and> \<not> amount \<le> 0)) (\<lambda>_.
    let (payableID, L1) = ledger_GetOrCreateUserAccount newID AccountSellerPayable sellerID L
    in sum_bind (led (ledger_GetAccountBalanceForUpdate payableID L1)) (\<lambda>payableBal.
       let withdrawable = money_Int64 payableBal
       in if amount > withdrawable
          then Inl (FinWithdrawalBlocked sellerID amount (money_Int64 payableBal) withdrawable)
          else Inr (\<lparr>sw_PayableBalance = money_Int64 payableBal, sw_Withdrawable = withdrawable\<rparr>, L1)))"

definition withdrawal_valid :: "uuid \<Rightarrow> i64 \<Rightarrow> i64 \<Rightarrow> uuid \<Rightarrow> bool" where
  "withdrawal_valid sellerID amount feeAmount withdrawalID \<longleftrightarrow>
     sellerID \<noteq> uuid_nil \<and> withdrawalID \<noteq> uuid_nil \<and> \<not> amount \<le> 0 \<and> \<not> feeAmount < 0"

definition RecordWithdrawalRequest ::
    "uuid \<Rightarrow> uuid \<Rightarrow> uuid \<Rightarrow> i64 \<Rightarrow> i64 \<Rightarrow> uuid \<Rightarrow> ledger \<Rightarrow> finance_error + ledger" where
  "RecordWithdrawalRequest newID txID sellerID amount feeAmount withdrawalID L =
    sum_bind (check (withdrawal_valid sellerID amount feeAmount withdrawalID)) (\<lambda>_.
    let (sellerPayableID, L1) = ledger_GetOrCreateUserAccount newID AccountSellerPayable sellerID L
    in sum_bind (led (ledger_GetSystemAccountID AccountWithdrawalPending L1)) (\<lambda>pendingID.
       led (ledger_CreateTransaction txID (KeyUuid ''withdrawal_request_'' withdrawalID)
         ''withdrawal_request'' withdrawalID None None
         [leg sellerPayableID amount, leg pendingID (neg64 amount)] L1)))"

definition RecordWithdrawalCommit ::
    "uuid \<Rightarrow> uuid \<Rightarrow> i64 \<Rightarrow> i64 \<Rightarrow> uuid \<Rightarrow> ledger \<Rightarrow> finance_error + ledger" where
  "RecordWithdrawalCommit txID sellerID amount feeAmount withdrawalID L =
    sum_bind (check (withdrawal_valid sellerID amount feeAmount withdrawalID)) (\<lambda>_.
    sum_bind (led (ledger_GetSystemAccountID AccountWithdrawalPending L)) (\<lambda>pendingID.
    sum_bind (led (ledger_GetSystemAccountID AccountWithdrawalCommitted L)) (\<lambda>committedID.
    led (ledger_CreateTransaction txID (KeyUuid ''withdrawal_commit_'' withdrawalID)
      ''withdrawal_commit'' withdrawalID None None
      [leg pendingID amount, leg committedID (neg64 amount)] L))))"

definition RecordWithdrawalReject ::
    "uuid \<Rightarrow> uuid \<Rightarrow> uuid \<Rightarrow> i64 \<Rightarrow> i64 \<Rightarrow> uuid \<Rightarrow> ledger \<Rightarrow> finance_error + ledger" where
  "RecordWithdrawalReject newID txID sellerID amount feeAmount withdrawalID L =
    sum_bind (check (withdrawal_valid sellerID amount feeAmount withdrawalID)) (\<lambda>_.
    sum_bind (led (ledger_GetSystemAccountID AccountWithdrawalPending L)) (\<lambda>pendingID.
    let (sellerPayableID, L1) = ledger_GetOrCreateUserAccount newID AccountSellerPayable sellerID L
    in led (ledger_CreateTransaction txID (KeyUuid ''withdrawal_reject_'' withdrawalID)
         ''withdrawal_reject'' withdrawalID None None
         [leg pendingID amount, leg sellerPayableID (neg64 amount)] L1)))"

definition RecordWithdrawalRestore ::
    "uuid \<Rightarrow> uuid \<Rightarrow> uuid \<Rightarrow> i64 \<Rightarrow> i64 \<Rightarrow> uuid \<Rightarrow> ledger \<Rightarrow> finance_error + ledger" where
  "RecordWithdrawalRestore newID txID sellerID amount feeAmount withdrawalID L =
    sum_bind (check (withdrawal_valid sellerID amount feeAmount withdrawalID)) (\<lambda>_.
    sum_bind (led (ledger_GetSystemAccountID AccountWithdrawalCommitted L)) (\<lambda>committedID.
    let (sellerPayableID, L1) = ledger_GetOrCreateUserAccount newID AccountSellerPayable sellerID L
    in led (ledger_CreateTransaction txID (KeyUuid ''withdrawal_restore_'' withdrawalID)
         ''withdrawal_restore'' withdrawalID None None
         [leg committedID amount, leg sellerPayableID (neg64 amount)] L1)))"

definition RecordWithdrawalComplete ::
    "uuid \<Rightarrow> uuid \<Rightarrow> i64 \<Rightarrow> i64 \<Rightarrow> uuid \<Rightarrow> ledger \<Rightarrow> finance_error + ledger" where
  "RecordWithdrawalComplete txID sellerID amount feeAmount withdrawalID L =
    sum_bind (check (withdrawal_valid sellerID amount feeAmount withdrawalID \<and> \<not> feeAmount \<ge> amount)) (\<lambda>_.
    sum_bind (led (ledger_GetSystemAccountID AccountWithdrawalCommitted L)) (\<lambda>committedID.
    sum_bind (led (ledger_GetSystemAccountID AccountPlatformBank L)) (\<lambda>platformBankID.
    sum_bind (led (ledger_GetSystemAccountID AccountPlatformRevenue L)) (\<lambda>platformRevenueID.
    let netPayout = wrap64 (amount - feeAmount)
    in led (ledger_CreateTransaction txID (KeyUuid ''withdrawal_complete_'' withdrawalID)
         ''withdrawal_complete'' withdrawalID None None
         [leg committedID amount, leg platformBankID (neg64 netPayout), leg platformRevenueID (neg64 feeAmount)]
         L)))))"

section \<open>Promotion budgets\<close>

definition RecordPromoteBalanceFunding ::
    "uuid \<Rightarrow> uuid \<Rightarrow> uuid \<Rightarrow> uuid \<Rightarrow> i64 \<Rightarrow> ledger \<Rightarrow> finance_error + ledger" where
  "RecordPromoteBalanceFunding newID txID fundingID sellerID amount L =
    sum_bind (check (fundingID \<noteq> uuid_nil \<and> sellerID \<noteq> uuid_nil \<and> \<not> amount \<le> 0)) (\<lambda>_.
    if ledger_TransactionExistsByKey (KeyUuid ''promote_balance_funding_'' fundingID) L then Inr L else
    sum_bind (led (ledger_GetSystemAccountID AccountBankSettlement L)) (\<lambda>bankSettlementID.
    let (promoteBalanceID, L1) = ledger_GetOrCreateUserAccount newID AccountPromoteBalance sellerID L
    in led (ledger_CreateTransaction txID (KeyUuid ''promote_balance_funding_'' fundingID)
         ''promote_balance_funding'' fundingID None None
         [leg bankSettlementID amount, leg promoteBalanceID (neg64 amount)] L1)))"

definition RecordPromotionAllocation ::
    "uuid \<Rightarrow> uuid \<Rightarrow> uuid \<Rightarrow> uuid \<Rightarrow> uuid \<Rightarrow> i64 \<Rightarrow> ledger \<Rightarrow> finance_error + uuid \<times> ledger" where
  "RecordPromotionAllocation newID newHolderID txID promotionID sellerID budget L =
    sum_bind (check (promotionID \<noteq> uuid_nil \<and> sellerID \<noteq> uuid_nil \<and> \<not> budget \<le> 0)) (\<lambda>_.
    if ledger_TransactionExistsByKey (KeyUuid ''promotion_allocation_'' promotionID) L then
      sum_bind (led (ledger_GetHolderAccountID AccountPromotionAllocation sellerID promotionID L)) (\<lambda>existingID.
      Inr (existingID, L))
    else
      let (promoteBalanceID, L1) = ledger_GetOrCreateUserAccount newID AccountPromoteBalance sellerID L
      in sum_bind (led (ledger_GetAccountBalanceForUpdate promoteBalanceID L1)) (\<lambda>promoteBal.
         if money_Int64 promoteBal < budget then Inl FinPromoteBalanceInsufficient
         else
           let (allocationID, L2) =
                 ledger_GetOrCreateHolderAccount newHolderID AccountPromotionAllocation sellerID promotionID L1
           in sum_bind (led (ledger_CreateTransaction txID (KeyUuid ''promotion_allocation_'' promotionID)
                ''promotion_allocation'' promotionID None None
                [leg promoteBalanceID budget, leg allocationID (neg64 budget)] L2)) (\<lambda>L3.
              Inr (allocationID, L3))))"

definition RecordQualifiedImpression ::
    "uuid \<Rightarrow> uuid \<Rightarrow> uuid \<Rightarrow> uuid \<Rightarrow> i64 \<Rightarrow> ledger \<Rightarrow> finance_error + ledger" where
  "RecordQualifiedImpression txID qualifiedImpressionID promotionID sellerID charge L =
    sum_bind (check (qualifiedImpressionID \<noteq> uuid_nil \<and> promotionID \<noteq> uuid_nil \<and> sellerID \<noteq> uuid_nil
      \<and> \<not> charge < 0)) (\<lambda>_.
    if charge = 0 then Inr L
    else if ledger_TransactionExistsByKey (KeyUuid ''promotion_qi_'' qualifiedImpressionID) L then Inr L
    else
      sum_bind (led (ledger_GetHolderAccountID AccountPromotionAllocation sellerID promotionID L)) (\<lambda>allocationID.
      sum_bind (led (ledger_GetAccountBalanceForUpdate allocationID L)) (\<lambda>allocationBal.
      if money_Int64 allocationBal < charge then Inl FinPromotionAllocationInsufficient
      else sum_bind (led (ledger_GetSystemAccountID AccountPlatformRevenue L)) (\<lambda>platformRevenueID.
        led (ledger_CreateTransaction txID (KeyUuid ''promotion_qi_'' qualifiedImpressionID)
          ''promotion_qi'' qualifiedImpressionID None None
          [leg allocationID charge, leg platformRevenueID (neg64 charge)] L)))))"

definition RecordPromotionAllocationRelease ::
    "uuid \<Rightarrow> uuid \<Rightarrow> uuid \<Rightarrow> uuid \<Rightarrow> i64 \<Rightarrow> ledger \<Rightarrow> finance_error + ledger" where
  "RecordPromotionAllocationRelease newID txID promotionID sellerID amount L =
    sum_bind (check (promotionID \<noteq> uuid_nil \<and> sellerID \<noteq> uuid_nil \<and> \<not> amount < 0)) (\<lambda>_.
    if amount = 0 then Inr L
    else if ledger_TransactionExistsByKey (KeyUuid ''promotion_allocation_release_'' promotionID) L then Inr L
    else
      sum_bind (led (ledger_GetHolderAccountID AccountPromotionAllocation sellerID promotionID L)) (\<lambda>allocationID.
      sum_bind (led (ledger_GetAccountBalanceForUpdate allocationID L)) (\<lambda>allocationBal.
      if money_Int64 allocationBal < amount then Inl FinPromotionAllocationInsufficient
      else
        let (promoteBalanceID, L1) = ledger_GetOrCreateUserAccount newID AccountPromoteBalance sellerID L
        in led (ledger_CreateTransaction txID (KeyUuid ''promotion_allocation_release_'' promotionID)
             ''promotion_allocation_release'' promotionID None None
             [leg allocationID amount, leg promoteBalanceID (neg64 amount)] L1))))"

section \<open>The service as one step relation\<close>

datatype finance_call =
  CallOrderRelease uuid uuid i64 i64 i64
  | CallSubscriptionRevenue uuid i64
  | CallSubscriptionFee uuid uuid i64
  | CallPaymentSettlement uuid uuid string i64
  | CallBuyerPaymentFee uuid uuid i64
  | CallBillingPaymentFee uuid uuid i64
  | CallCoinFunding uuid uuid i64
  | CallCoinFundingReversal uuid uuid i64
  | CallRefundReversal RecordRefundReversalInput
  | CallPartialRefundRelease RecordPartialRefundReleaseInput
  | CallAssertWithdrawal uuid i64
  | CallWithdrawalRequest uuid i64 i64 uuid
  | CallWithdrawalCommit uuid i64 i64 uuid
  | CallWithdrawalReject uuid i64 i64 uuid
  | CallWithdrawalRestore uuid i64 i64 uuid
  | CallWithdrawalComplete uuid i64 i64 uuid
  | CallPromoteFunding uuid uuid i64
  | CallPromotionAllocation uuid uuid i64
  | CallQualifiedImpression uuid uuid uuid i64
  | CallAllocationRelease uuid uuid i64

text \<open>The first two numbers are the ids for new accounts, the third the transaction's.\<close>

fun finance_do :: "uuid \<times> uuid \<times> uuid \<Rightarrow> finance_call \<Rightarrow> ledger \<Rightarrow> finance_error + ledger" where
  "finance_do (a, b, x) (CallOrderRelease o' s g c n) L = RecordOrderRelease a x o' s g c n L"
| "finance_do (a, b, x) (CallSubscriptionRevenue p n) L = RecordSubscriptionRevenue x p n L"
| "finance_do (a, b, x) (CallSubscriptionFee p s n) L = RecordSubscriptionPaymentFeeRevenue x p s n L"
| "finance_do (a, b, x) (CallPaymentSettlement p o' t n) L = RecordGatewayPaymentSettlement x p o' t n L"
| "finance_do (a, b, x) (CallBuyerPaymentFee p o' n) L = RecordBuyerPaymentFeeRevenue x p o' n L"
| "finance_do (a, b, x) (CallBillingPaymentFee p o' n) L = RecordBillingPaymentFeeRevenue x p o' n L"
| "finance_do (a, b, x) (CallCoinFunding p o' n) L = RecordCoinFunding x p o' n L"
| "finance_do (a, b, x) (CallCoinFundingReversal r o' n) L = RecordCoinFundingReversal x r o' n L"
| "finance_do (a, b, x) (CallRefundReversal inp) L = RecordRefundReversal a b x inp L"
| "finance_do (a, b, x) (CallPartialRefundRelease inp) L = RecordPartialRefundRelease a x inp L"
| "finance_do (a, b, x) (CallAssertWithdrawal s n) L = map_sum id snd (AssertSellerWithdrawalAllowed a s n L)"
| "finance_do (a, b, x) (CallWithdrawalRequest s n f w) L = RecordWithdrawalRequest a x s n f w L"
| "finance_do (a, b, x) (CallWithdrawalCommit s n f w) L = RecordWithdrawalCommit x s n f w L"
| "finance_do (a, b, x) (CallWithdrawalReject s n f w) L = RecordWithdrawalReject a x s n f w L"
| "finance_do (a, b, x) (CallWithdrawalRestore s n f w) L = RecordWithdrawalRestore a x s n f w L"
| "finance_do (a, b, x) (CallWithdrawalComplete s n f w) L = RecordWithdrawalComplete x s n f w L"
| "finance_do (a, b, x) (CallPromoteFunding f s n) L = RecordPromoteBalanceFunding a x f s n L"
| "finance_do (a, b, x) (CallPromotionAllocation p s n) L = map_sum id snd (RecordPromotionAllocation a b x p s n L)"
| "finance_do (a, b, x) (CallQualifiedImpression q p s n) L = RecordQualifiedImpression x q p s n L"
| "finance_do (a, b, x) (CallAllocationRelease p s n) L = RecordPromotionAllocationRelease a x p s n L"

fun call_amounts :: "finance_call \<Rightarrow> i64 set" where
  "call_amounts (CallOrderRelease _ _ g c n) = {g, c, n}"
| "call_amounts (CallSubscriptionRevenue _ n) = {n}"
| "call_amounts (CallSubscriptionFee _ _ n) = {n}"
| "call_amounts (CallPaymentSettlement _ _ _ n) = {n}"
| "call_amounts (CallBuyerPaymentFee _ _ n) = {n}"
| "call_amounts (CallBillingPaymentFee _ _ n) = {n}"
| "call_amounts (CallCoinFunding _ _ n) = {n}"
| "call_amounts (CallCoinFundingReversal _ _ n) = {n}"
| "call_amounts (CallRefundReversal inp) = {rv_RefundAmount inp, rv_SellerComponent inp, rv_CommissionComponent inp}"
| "call_amounts (CallPartialRefundRelease inp) = {pr_Remainder inp, pr_SellerNet inp, pr_Commission inp}"
| "call_amounts (CallAssertWithdrawal _ n) = {n}"
| "call_amounts (CallWithdrawalRequest _ n f _) = {n, f}"
| "call_amounts (CallWithdrawalCommit _ n f _) = {n, f}"
| "call_amounts (CallWithdrawalReject _ n f _) = {n, f}"
| "call_amounts (CallWithdrawalRestore _ n f _) = {n, f}"
| "call_amounts (CallWithdrawalComplete _ n f _) = {n, f}"
| "call_amounts (CallPromoteFunding _ _ n) = {n}"
| "call_amounts (CallPromotionAllocation _ _ n) = {n}"
| "call_amounts (CallQualifiedImpression _ _ _ n) = {n}"
| "call_amounts (CallAllocationRelease _ _ n) = {n}"

lemmas finance_defs = RecordOrderRelease_def RecordSubscriptionRevenue_def
  RecordSubscriptionPaymentFeeRevenue_def RecordGatewayPaymentSettlement_def
  RecordBuyerPaymentFeeRevenue_def RecordBillingPaymentFeeRevenue_def RecordCoinFunding_def
  RecordCoinFundingReversal_def RecordRefundReversal_def RecordPartialRefundRelease_def
  AssertSellerWithdrawalAllowed_def RecordWithdrawalRequest_def RecordWithdrawalCommit_def
  RecordWithdrawalReject_def RecordWithdrawalRestore_def RecordWithdrawalComplete_def
  RecordPromoteBalanceFunding_def RecordPromotionAllocation_def RecordQualifiedImpression_def
  RecordPromotionAllocationRelease_def

definition fresh_ids :: "uuid \<times> uuid \<times> uuid \<Rightarrow> ledger \<Rightarrow> bool" where
  "fresh_ids ids L \<longleftrightarrow> fst ids \<notin> account_ids L \<and> fst (snd ids) \<notin> account_ids L \<and> fst ids \<noteq> fst (snd ids)"

inductive finance_step :: "ledger \<Rightarrow> ledger \<Rightarrow> bool" where
  finance_step: "finance_do ids c L = Inr L' \<Longrightarrow> fresh_ids ids L \<Longrightarrow> \<forall>n \<in> call_amounts c. in_i64 n
    \<Longrightarrow> finance_step L L'"

inductive_cases finance_step_cases: "finance_step L L'"

section \<open>The books stay in order\<close>

lemma leg_simps [simp]: "en_AccountID (leg i n) = i" "en_Amount (leg i n) = n"
  by (simp_all add: leg_def money_New_def)

lemma transact_ledger_ok:
  assumes "ledger_CreateTransaction x k rt r oid pid es L = Inr L'" "ledger_ok L"
    and "\<forall>e \<in> set es. in_i64 (en_Amount e)"
  shows "ledger_ok L'"
  using lg.transact_keeps [OF _ assms(3,1)] assms(2) by (simp add: ledger_ok_def)

lemma open_ledger_ok:
  assumes "ledger_GetOrCreateUserAccount newID t u L = (i, L1)" "ledger_ok L" "newID \<notin> account_ids L"
    and "t \<noteq> AccountBankSettlement" "t \<noteq> AccountPlatformBank"
  shows "ledger_ok L1 \<and> account_ids L1 \<subseteq> insert newID (account_ids L)"
  using GetOrCreateUserAccount_keeps [OF _ assms(3-5,1)] assms(2) by (simp add: ledger_ok_def)

lemma open_holder_ledger_ok:
  assumes "ledger_GetOrCreateHolderAccount newID t u h L = (i, L1)" "ledger_ok L" "newID \<notin> account_ids L"
    and "t \<noteq> AccountBankSettlement" "t \<noteq> AccountPlatformBank"
  shows "ledger_ok L1 \<and> account_ids L1 \<subseteq> insert newID (account_ids L)"
  using GetOrCreateHolderAccount_keeps [OF _ assms(3-5,1)] assms(2) by (simp add: ledger_ok_def)

lemma map_sum_Inr: "map_sum f g m = Inr y \<longleftrightarrow> (\<exists>z. m = Inr z \<and> g z = y)"
  by (cases m) auto

lemma open_first:
  assumes "ledger_GetOrCreateUserAccount a t u L = (i, L1)" "ledger_ok L" "fresh_ids (a, b, x) L"
    and "t \<noteq> AccountBankSettlement" "t \<noteq> AccountPlatformBank"
  shows "ledger_ok L1 \<and> b \<notin> account_ids L1"
  using open_ledger_ok [OF assms(1,2) _ assms(4,5)] assms(3) by (auto simp: fresh_ids_def)

lemma opened_ok:
  assumes "ledger_ok L" "fresh_ids (a, b, x) L" "t \<noteq> AccountBankSettlement" "t \<noteq> AccountPlatformBank"
  shows "ledger_ok (snd (ledger_GetOrCreateUserAccount a t u L))"
  using open_first [OF prod.collapse [symmetric] assms] by simp

lemma finance_do_keeps:
  assumes "finance_do ids c L = Inr L'" "fresh_ids ids L" "\<forall>n \<in> call_amounts c. in_i64 n" "ledger_ok L"
  shows "ledger_ok L'"
proof -
  obtain a b x where ids: "ids = (a, b, x)" using prod_cases3 by blast
  note fresh = assms(2) [unfolded ids]
  note run = assms(1) [unfolded ids]
  have a: "a \<notin> account_ids L" using fresh by (simp add: fresh_ids_def)
  have [simp]: "in_i64 0" by simp
  show ?thesis
  proof (cases c)
    case (CallRefundReversal inp)
    obtain i L1 where o1: "ledger_GetOrCreateUserAccount a AccountBuyerRefundable (rv_BuyerID inp) L = (i, L1)"
      by fastforce
    obtain j L2 where o2: "ledger_GetOrCreateUserAccount b AccountSellerPayable (rv_SellerID inp) L1 = (j, L2)"
      by fastforce
    note L1 = open_first [OF o1 assms(4) fresh]
    have "ledger_ok L1" "ledger_ok L2" using L1 open_ledger_ok [OF o2] by simp_all
    then show ?thesis
      using run assms(3) CallRefundReversal
      by (auto simp: RecordRefundReversal_def sum_bind_Inr o1 o2 split: if_splits)
        (erule transact_ledger_ok, assumption, simp)+
  next
    case (CallPromotionAllocation p s n)
    obtain i L1 where o1: "ledger_GetOrCreateUserAccount a AccountPromoteBalance s L = (i, L1)"
      by fastforce
    obtain j L2 where o2: "ledger_GetOrCreateHolderAccount b AccountPromotionAllocation s p L1 = (j, L2)"
      by fastforce
    note L1 = open_first [OF o1 assms(4) fresh]
    have "ledger_ok L1" "ledger_ok L2" using L1 open_holder_ledger_ok [OF o2] by simp_all
    then show ?thesis
      using run assms(3,4) CallPromotionAllocation
      by (auto simp: RecordPromotionAllocation_def sum_bind_Inr map_sum_Inr o1 o2 split: if_splits)
        (erule transact_ledger_ok, assumption, simp)+
  qed (use run assms(3,4) fresh in
      \<open>auto simp: finance_defs sum_bind_Inr Let_def map_sum_Inr case_prod_unfold
          intro: opened_ok split: if_splits\<close>,
       (erule transact_ledger_ok, (assumption | rule opened_ok, assumption, assumption, simp, simp), simp)+)
qed

interpretation finance_books: kept_fact finance_step ledger_ok
  by unfold_locales (auto elim!: finance_step_cases intro: finance_do_keeps)

section \<open>Calling an operation again\<close>

text \<open>Who owns which kinds of account: accounts are only ever added.\<close>

definition kinds :: "ledger \<Rightarrow> (uuid option \<times> AccountType \<times> uuid option) set" where
  "kinds L = (\<lambda>a. (ac_UserID a, ac_Type a, ac_HolderID a)) ` set (lg_Accounts L)"

lemma has_system_account:
  "(\<exists>i. ledger_GetSystemAccountID t L = Inr i) \<longleftrightarrow> (\<exists>h. (None, t, h) \<in> kinds L)"
  by (force simp: ledger_GetSystemAccountID_def kinds_def find_None_iff find_Some_iff split: option.splits)

lemma has_user_account:
  "(\<exists>i. ledger_GetUserAccountID t u L = Inr i) \<longleftrightarrow> (\<exists>h. (Some u, t, h) \<in> kinds L)"
  by (force simp: ledger_GetUserAccountID_def kinds_def find_None_iff find_Some_iff split: option.splits)

lemma has_holder_account:
  "(\<exists>i. ledger_GetHolderAccountID t u h L = Inr i) \<longleftrightarrow> (Some u, t, Some h) \<in> kinds L"
  by (force simp: ledger_GetHolderAccountID_def kinds_def find_None_iff find_Some_iff split: option.splits)

lemma opened_kinds:
  "kinds L \<subseteq> kinds (snd (ledger_GetOrCreateUserAccount a t u L))"
  "\<exists>h. (Some u, t, h) \<in> kinds (snd (ledger_GetOrCreateUserAccount a t u L))"
  using has_user_account [of t u L]
  by (auto simp: ledger_GetOrCreateUserAccount_def insert_account_def kinds_def split: sum.splits)

lemma opened_holder_kinds:
  "kinds L \<subseteq> kinds (snd (ledger_GetOrCreateHolderAccount a t u h L))"
  "(Some u, t, Some h) \<in> kinds (snd (ledger_GetOrCreateHolderAccount a t u h L))"
  using has_holder_account [of t u h L]
  by (auto simp: ledger_GetOrCreateHolderAccount_def insert_account_def kinds_def split: sum.splits)

lemma opened_again:
  "(Some u, t, h) \<in> kinds L \<Longrightarrow> snd (ledger_GetOrCreateUserAccount a t u L) = L"
  using has_user_account [of t u L] by (auto simp: ledger_GetOrCreateUserAccount_def)

lemma set_balance_kinds: "kinds (set_balance i b L) = kinds L"
proof -
  have "map (\<lambda>a. (ac_UserID a, ac_Type a, ac_HolderID a)) (lg_Accounts (set_balance i b L))
      = map (\<lambda>a. (ac_UserID a, ac_Type a, ac_HolderID a)) (lg_Accounts L)"
    by (simp add: set_balance_def)
  then show ?thesis unfolding kinds_def set_map [symmetric] by (rule arg_cong)
qed

lemma post_entry_static:
  assumes "post_entry x e L = Inr L'"
  shows "lg_Transactions L' = lg_Transactions L \<and> kinds L' = kinds L"
proof -
  have "kinds (M\<lparr>lg_Entries := f\<rparr>) = kinds M" for M f by (simp add: kinds_def)
  moreover have "lg_Transactions (set_balance i b M) = lg_Transactions M" for i b M
    by (simp add: set_balance_def)
  ultimately show ?thesis
    using assms set_balance_kinds by (auto simp: post_entry_def Let_def split: option.splits if_splits)
qed

lemma post_entries_static:
  "post_entries x es L = Inr L' \<Longrightarrow> lg_Transactions L' = lg_Transactions L \<and> kinds L' = kinds L"
proof (induction es arbitrary: L)
  case Nil
  then show ?case by simp
next
  case (Cons e es)
  then obtain L1 where L1: "post_entry x e L = Inr L1" "post_entries x es L1 = Inr L'"
    by (auto split: sum.splits)
  show ?case using Cons.IH [OF L1(2)] post_entry_static [OF L1(1)] by simp
qed

lemma sum_amounts_same: "map en_Amount es' = map en_Amount es \<Longrightarrow> sum_amounts acc es' = sum_amounts acc es"
proof (induction es arbitrary: es' acc)
  case Nil
  then show ?case by simp
next
  case (Cons e es)
  then obtain e' fs where e: "es' = e' # fs" "en_Amount e' = en_Amount e" "map en_Amount fs = map en_Amount es"
    by (cases es') auto
  have "sum_amounts t fs = sum_amounts t es" for t by (rule Cons.IH) (rule e(3))
  then show ?case by (simp only: e sum_amounts.simps)
qed

text \<open>
  Once a transaction is recorded, posting any entries with the same amounts
  under its key succeeds and changes nothing; the ledger has the same kinds of
  account, and at most the one new row.
\<close>

lemma CreateTransaction_again:
  assumes "ledger_CreateTransaction x k rt r oid pid es L = Inr L'"
  shows "ledger_TransactionExistsByKey k L' \<and> kinds L' = kinds L
    \<and> (\<forall>x' rt' r' oid' pid' es'. map en_Amount es' = map en_Amount es \<longrightarrow>
         ledger_CreateTransaction x' k rt' r' oid' pid' es' L' = Inr L')
    \<and> set (lg_Transactions L) \<subseteq> set (lg_Transactions L')
    \<and> (\<forall>y \<in> set (lg_Transactions L') - set (lg_Transactions L). lt_Key y = k \<and> lt_ReferenceID y = r)"
proof -
  obtain t where t: "sum_amounts money_Zero es = Inr t" "money_IsZero t" "es \<noteq> []"
    using assms by (auto simp: ledger_CreateTransaction_def split: sum.splits if_splits)
  have rec: "ledger_TransactionExistsByKey k L' \<and> kinds L' = kinds L
    \<and> set (lg_Transactions L) \<subseteq> set (lg_Transactions L')
    \<and> (\<forall>y \<in> set (lg_Transactions L') - set (lg_Transactions L). lt_Key y = k \<and> lt_ReferenceID y = r)"
  proof (cases "ledger_TransactionExistsByKey k L")
    case True
    then show ?thesis using assms t by (auto simp: ledger_CreateTransaction_def)
  next
    case False
    then obtain row where "post_entries x es (L\<lparr>lg_Transactions := lg_Transactions L @ [row]\<rparr>) = Inr L'"
      "lt_Key row = k" "lt_ReferenceID row = r"
      using assms t by (fastforce simp: ledger_CreateTransaction_def Let_def split: if_splits prod.splits)
    then show ?thesis
      using post_entries_static [of x es _ L'] by (fastforce simp: ledger_TransactionExistsByKey_def kinds_def)
  qed
  have "ledger_CreateTransaction x' k rt' r' oid' pid' es' L' = Inr L'"
    if "map en_Amount es' = map en_Amount es" for x' rt' r' oid' pid' es'
    using that rec t sum_amounts_same [OF that, of money_Zero]
    by (auto simp: ledger_CreateTransaction_def)
  with rec show ?thesis by blast
qed

text \<open>The keys of refund reversals name the refund they refer to.\<close>

definition reversal_keys_ok :: "ledger \<Rightarrow> bool" where
  "reversal_keys_ok L \<longleftrightarrow> (\<forall>y \<in> set (lg_Transactions L). \<forall>r. lt_Key y = KeyUuid ''refund_reversal_'' r
     \<longrightarrow> lt_ReferenceID y = r)"

lemma opened_transactions [simp]:
  "lg_Transactions (snd (ledger_GetOrCreateUserAccount a t u L)) = lg_Transactions L"
  "lg_Transactions (snd (ledger_GetOrCreateHolderAccount a t u h L)) = lg_Transactions L"
  by (simp_all add: ledger_GetOrCreateUserAccount_def ledger_GetOrCreateHolderAccount_def insert_account_def
      split: sum.splits)

lemma transact_reversal_keys:
  assumes "ledger_CreateTransaction x k rt r oid pid es L = Inr L'" "reversal_keys_ok L"
    and "\<And>q. k = KeyUuid ''refund_reversal_'' q \<Longrightarrow> q = r"
  shows "reversal_keys_ok L'"
  unfolding reversal_keys_ok_def
proof (intro ballI allI impI)
  fix y q assume y: "y \<in> set (lg_Transactions L')" "lt_Key y = KeyUuid ''refund_reversal_'' q"
  show "lt_ReferenceID y = q"
  proof (cases "y \<in> set (lg_Transactions L)")
    case True
    then show ?thesis using assms(2) y(2) by (simp add: reversal_keys_ok_def)
  next
    case False
    then have "lt_Key y = k" "lt_ReferenceID y = r"
      using CreateTransaction_again [OF assms(1)] y(1) by blast+
    then show ?thesis using assms(3) [of q] y(2) by simp
  qed
qed

lemma opened_reversal_keys [simp]:
  "reversal_keys_ok (snd (ledger_GetOrCreateUserAccount a t u L)) = reversal_keys_ok L"
  "reversal_keys_ok (snd (ledger_GetOrCreateHolderAccount a t u h L)) = reversal_keys_ok L"
  by (simp_all add: reversal_keys_ok_def)

lemma finance_do_reversal_keys:
  assumes "finance_do ids c L = Inr L'" "reversal_keys_ok L"
  shows "reversal_keys_ok L'"
proof -
  obtain a b x where ids: "ids = (a, b, x)" using prod_cases3 by blast
  show ?thesis
    by (cases c) (use assms in
      \<open>auto simp: ids finance_defs sum_bind_Inr Let_def map_sum_Inr case_prod_unfold
        elim!: transact_reversal_keys split: if_splits\<close>)
qed

lemma opening_transactions: "lg_Transactions opening_books = []"
proof -
  have one: "lg_Transactions (snd (bootstrap_ensureAccount n c L)) = lg_Transactions L" for n c L
    by (simp add: bootstrap_ensureAccount_def insert_account_def split: sum.splits)
  have "lg_Transactions (snd (ensure_accounts n cs L)) = lg_Transactions L" for n cs L
    by (induction cs arbitrary: n L) (simp_all add: one case_prod_unfold)
  then show ?thesis
    by (simp add: opening_books_def EnsureSystemAccounts_def empty_ledger_def)
qed

lemma opening_reversal_keys: "reversal_keys_ok opening_books"
  by (simp add: reversal_keys_ok_def opening_transactions)

interpretation finance_keys: kept_fact finance_step reversal_keys_ok
  by unfold_locales (auto elim!: finance_step_cases intro: finance_do_reversal_keys)

lemma opened_system_account [simp]:
  "ledger_GetSystemAccountID s (snd (ledger_GetOrCreateUserAccount a t u L)) = ledger_GetSystemAccountID s L"
proof -
  have "find P (as @ [y]) = find P as" if "\<not> P y" for P :: "account \<Rightarrow> bool" and as y
    using that by (induction as) simp_all
  then show ?thesis
    by (simp add: ledger_GetOrCreateUserAccount_def ledger_GetSystemAccountID_def insert_account_def
        split: sum.splits)
qed

lemma system_account_again:
  "ledger_GetSystemAccountID t L = Inr i \<Longrightarrow> kinds L \<subseteq> kinds L' \<Longrightarrow> \<exists>j. ledger_GetSystemAccountID t L' = Inr j"
  using has_system_account [of t L] has_system_account [of t L'] by blast

lemma transact_opened_again:
  assumes "ledger_CreateTransaction x k rt r oid pid es (snd (ledger_GetOrCreateUserAccount a t u L)) = Inr L'"
  shows "kinds L \<subseteq> kinds L' \<and> snd (ledger_GetOrCreateUserAccount a' t u L') = L'
    \<and> (\<forall>x' rt' r' oid' pid' es'. map en_Amount es' = map en_Amount es \<longrightarrow>
         ledger_CreateTransaction x' k rt' r' oid' pid' es' L' = Inr L')"
proof -
  note again = CreateTransaction_again [OF assms]
  obtain h where "(Some u, t, h) \<in> kinds L'" using opened_kinds(2) [of u t a L] again by auto
  then have "snd (ledger_GetOrCreateUserAccount a' t u L') = L'" by (rule opened_again)
  then show ?thesis using again opened_kinds(1) [of L a t u] by blast
qed

lemma transact_again:
  assumes "ledger_CreateTransaction x k rt r oid pid es L = Inr L'"
  shows "kinds L \<subseteq> kinds L'
    \<and> (\<forall>x' rt' r' oid' pid' es'. map en_Amount es' = map en_Amount es \<longrightarrow>
         ledger_CreateTransaction x' k rt' r' oid' pid' es' L' = Inr L')"
  using CreateTransaction_again [OF assms] by blast

lemma recorded_again:
  "ledger_CreateTransaction x k rt r oid pid es L = Inr L' \<Longrightarrow> ledger_TransactionExistsByKey k L'"
  using CreateTransaction_again by blast

text \<open>The operations that check nothing but their arguments.\<close>

fun plain_call :: "finance_call \<Rightarrow> bool" where
  "plain_call (CallRefundReversal _) = False"
| "plain_call (CallPromotionAllocation _ _ _) = False"
| "plain_call (CallAssertWithdrawal _ _) = False"
| "plain_call _ = True"

lemma finance_do_kinds:
  assumes "finance_do ids c L = Inr L'"
  shows "kinds L \<subseteq> kinds L'"
proof -
  obtain a b x where ids: "ids = (a, b, x)" using prod_cases3 by blast
  have t: "kinds L' = kinds M" if "ledger_CreateTransaction x k rt r oid pid es M = Inr L'"
    for k rt r oid pid es M using CreateTransaction_again [OF that] by blast
  note open1 = subsetD [OF opened_kinds(1)] subsetD [OF opened_holder_kinds(1)]
  show ?thesis
    by (rule subsetI, cases c) (use assms in
      \<open>auto simp: ids finance_defs sum_bind_Inr Let_def map_sum_Inr case_prod_unfold
        dest!: t intro: open1 split: if_splits\<close>)
qed

lemma plain_call_again:
  assumes "finance_do (a, b, x) c L = Inr L'" "plain_call c"
  shows "finance_do (a', b', x') c L' = Inr L'"
proof -
  note sys = system_account_again [OF _ finance_do_kinds [OF assms(1)]]
  show ?thesis
    by (cases c) (use assms in \<open>auto simp: finance_defs sum_bind_Inr case_prod_unfold Let_def
      dest!: sys dest: transact_opened_again [where a' = a'] transact_again recorded_again
      split: if_splits\<close>)
qed

lemma refund_reversal_again:
  assumes "RecordRefundReversal a b x inp L = Inr L'" "reversal_keys_ok L'"
  shows "RecordRefundReversal a' b' x' inp L' = Inr L'"
proof -
  let ?L1 = "snd (ledger_GetOrCreateUserAccount a AccountBuyerRefundable (rv_BuyerID inp) L)"
  let ?L2 = "snd (ledger_GetOrCreateUserAccount b AccountSellerPayable (rv_SellerID inp) ?L1)"
  obtain M es where v: "refund_reversal_valid inp" "\<exists>i. ledger_GetSystemAccountID AccountGatewayClearing L = Inr i"
    "rv_AfterRelease inp \<Longrightarrow> \<exists>i. ledger_GetSystemAccountID AccountPlatformRevenue L = Inr i"
    and M: "M = (if rv_AfterRelease inp then ?L2 else ?L1)"
    "ledger_CreateTransaction x (KeyUuid ''refund_reversal_'' (rv_RefundID inp)) ''refund_reversal''
       (rv_RefundID inp) (Some (rv_OrderID inp)) None es M = Inr L'"
    "map en_Amount es = (if rv_AfterRelease inp
       then [neg64 (rv_RefundAmount inp), rv_SellerComponent inp, rv_CommissionComponent inp]
       else [neg64 (rv_RefundAmount inp), rv_RefundAmount inp])"
    using assms(1)
    by (cases "rv_AfterRelease inp"; fastforce simp: RecordRefundReversal_def sum_bind_Inr case_prod_unfold Let_def)
  note again = CreateTransaction_again [OF M(2)]
  have "kinds L \<subseteq> kinds L'" "\<exists>h. (Some (rv_BuyerID inp), AccountBuyerRefundable, h) \<in> kinds L'"
    "rv_AfterRelease inp \<Longrightarrow> \<exists>h. (Some (rv_SellerID inp), AccountSellerPayable, h) \<in> kinds L'"
    using again M(1) opened_kinds [where L = L and a = a and t = AccountBuyerRefundable and u = "rv_BuyerID inp"]
      opened_kinds [where L = ?L1 and a = b and t = AccountSellerPayable and u = "rv_SellerID inp"] by (auto split: if_splits)
  note k = this
  have o: "snd (ledger_GetOrCreateUserAccount a' AccountBuyerRefundable (rv_BuyerID inp) L') = L'"
    "rv_AfterRelease inp \<Longrightarrow> snd (ledger_GetOrCreateUserAccount b' AccountSellerPayable (rv_SellerID inp) L') = L'"
    using k(2,3) opened_again by metis+
  have s: "\<exists>i. ledger_GetSystemAccountID AccountGatewayClearing L' = Inr i"
    "rv_AfterRelease inp \<Longrightarrow> \<exists>i. ledger_GetSystemAccountID AccountPlatformRevenue L' = Inr i"
    using v k(1) system_account_again by metis+
  have c: "ledger_CountTransactionsByEntityID (rv_RefundID inp) L' \<noteq> 0"
    using again assms(2)
    by (auto simp: ledger_CountTransactionsByEntityID_def ledger_TransactionExistsByKey_def reversal_keys_ok_def
        filter_empty_conv)
  show ?thesis
    using v(1) s o c again M(3)
    by (auto simp: RecordRefundReversal_def sum_bind_Inr case_prod_unfold Let_def)
qed

lemma promotion_allocation_again:
  assumes "RecordPromotionAllocation a b x p s n L = Inr (i, L')"
  shows "\<exists>j. RecordPromotionAllocation a' b' x' p s n L' = Inr (j, L')"
proof -
  let ?L1 = "snd (ledger_GetOrCreateUserAccount a AccountPromoteBalance s L)"
  have "(Some s, AccountPromotionAllocation, Some p) \<in> kinds L'
    \<and> ledger_TransactionExistsByKey (KeyUuid ''promotion_allocation_'' p) L'"
  proof (cases "ledger_TransactionExistsByKey (KeyUuid ''promotion_allocation_'' p) L")
    case True
    then show ?thesis
      using assms has_holder_account [of AccountPromotionAllocation s p L]
      by (auto simp: RecordPromotionAllocation_def sum_bind_Inr)
  next
    case False
    then show ?thesis
      using assms opened_holder_kinds(2) [of s AccountPromotionAllocation p b ?L1]
      by (auto simp: RecordPromotionAllocation_def sum_bind_Inr case_prod_unfold Let_def
          dest!: CreateTransaction_again split: if_splits)
  qed
  moreover have "p \<noteq> uuid_nil \<and> s \<noteq> uuid_nil \<and> \<not> n \<le> 0"
    using assms by (auto simp: RecordPromotionAllocation_def sum_bind_Inr)
  ultimately show ?thesis
    using has_holder_account [of AccountPromotionAllocation s p L']
    by (auto simp: RecordPromotionAllocation_def sum_bind_Inr)
qed

lemma assert_withdrawal_again:
  assumes "AssertSellerWithdrawalAllowed a s n L = Inr (sm, L')" "a \<notin> account_ids L"
  shows "AssertSellerWithdrawalAllowed a' s n L' = Inr (sm, L')"
proof (cases "ledger_GetUserAccountID AccountSellerPayable s L")
  case (Inl e)
  have "find_account a (insert_account y L) = Some y" if "ac_ID y = a" for y
  proof -
    have "find (\<lambda>z. ac_ID z = a) (as @ [y]) = Some y" if "a \<notin> set (map ac_ID as)" "ac_ID y = a" for as
      using that by (induction as) auto
    then show ?thesis using assms(2) that
      by (simp add: find_account_def insert_account_def account_ids_def)
  qed
  then show ?thesis
    using assms(1) Inl by (auto simp: AssertSellerWithdrawalAllowed_def sum_bind_Inr
        ledger_GetOrCreateUserAccount_def ledger_GetAccountBalanceForUpdate_def money_defs split: if_splits)
next
  case (Inr i)
  then show ?thesis
    using assms(1) by (auto simp: AssertSellerWithdrawalAllowed_def sum_bind_Inr
        ledger_GetOrCreateUserAccount_def Let_def split: if_splits)
qed

lemma finance_do_again:
  assumes "finance_do ids c L = Inr L'" "fresh_ids ids L" "reversal_keys_ok L"
  shows "finance_do ids' c L' = Inr L'"
proof -
  obtain a b x a' b' x' where ids: "ids = (a, b, x)" "ids' = (a', b', x')" using prod_cases3 by metis
  note keys = finance_do_reversal_keys [OF assms(1,3)]
  show ?thesis
  proof (cases "plain_call c")
    case True
    then show ?thesis using plain_call_again assms(1) ids by simp
  next
    case False
    then show ?thesis
      using assms(1,2) ids keys refund_reversal_again [of a b x _ L L' a' b' x']
        promotion_allocation_again [of a b x _ _ _ L _ L' a' b' x'] assert_withdrawal_again [of a _ _ L _ L' a']
      by (cases c) (fastforce simp: map_sum_Inr fresh_ids_def)+
  qed
qed

section \<open>What the operations of an order move\<close>

definition held :: "uuid option \<Rightarrow> AccountType \<Rightarrow> ledger \<Rightarrow> int" where
  "held u t L = (\<Sum>a\<leftarrow>filter (\<lambda>a. ac_UserID a = u \<and> ac_Type a = t) (lg_Accounts L). ac_Balance a)"

lemma held_signed:
  "held u t L = (if class_DebitIncreasesBalance (AccountClassOf t) then 1 else - 1)
     * signed_where (\<lambda>u' t'. u' = u \<and> t' = t) L"
proof -
  have "(\<Sum>a\<leftarrow>filter (\<lambda>a. ac_UserID a = u \<and> ac_Type a = t) as. ac_Balance a)
    = (if class_DebitIncreasesBalance (AccountClassOf t) then 1 else - 1)
      * (\<Sum>a\<leftarrow>as. if ac_UserID a = u \<and> ac_Type a = t then signed_balance a else 0)" for as
    by (induction as) (auto simp: signed_balance_def debit_normal_def)
  then show ?thesis by (simp add: held_def signed_where_def)
qed

definition recorded_keys :: "ledger \<Rightarrow> idem_key set" where
  "recorded_keys L = lt_Key ` set (lg_Transactions L)"

lemma recorded_keys_iff: "k \<in> recorded_keys L \<longleftrightarrow> ledger_TransactionExistsByKey k L"
  by (auto simp: recorded_keys_def ledger_TransactionExistsByKey_def)

lemma transact_keys:
  "ledger_CreateTransaction x k rt r oid pid es L = Inr L' \<Longrightarrow> recorded_keys L' \<subseteq> insert k (recorded_keys L)"
  using CreateTransaction_again by (fastforce simp: recorded_keys_def)

lemma transact_rows:
  assumes "ledger_CreateTransaction x k rt r oid pid es L = Inr L'" "rows_ok L"
    and "\<forall>e \<in> set es. in_i64 (en_Amount e)"
  shows "rows_ok L'"
  using lg.transact_keeps [OF assms(2,3,1)] by simp

lemma two_legs:
  assumes "ledger_CreateTransaction x k rt r oid pid [leg i m, leg j n] L = Inr L'"
    and "ledger_GetSystemAccountID s L = Inr i" "ledger_GetSystemAccountID t L = Inr j"
    and "rows_ok L" "in_i64 m" "in_i64 n" "k \<notin> recorded_keys L"
  shows "rows_ok L' \<and> recorded_keys L' \<subseteq> insert k (recorded_keys L)
    \<and> (\<forall>P. signed_where P L' = signed_where P L + (if P None s then m else 0) + (if P None t then n else 0))"
  using lg.transact_moves [OF assms(4) _ assms(1)] transact_rows [OF assms(1,4)] transact_keys [OF assms(1)]
    GetSystemAccountID_owner [OF assms(4,2)] GetSystemAccountID_owner [OF assms(4,3)] assms(5-7)
  by (simp add: recorded_keys_iff)

lemma neg64_nonneg: "0 \<le> n \<Longrightarrow> in_i64 n \<Longrightarrow> wrap64 (- n) = - n"
  by (rule wrap64_id) (auto simp: i64_defs)

lemma settlement_effect:
  assumes "RecordGatewayPaymentSettlement x p o' tid g L = Inr L'" "rows_ok L" "in_i64 g"
    and "KeyText ''payment_settlement_'' tid \<notin> recorded_keys L"
  shows "0 < g \<and> rows_ok L' \<and> recorded_keys L' \<subseteq> insert (KeyText ''payment_settlement_'' tid) (recorded_keys L)
    \<and> (\<forall>P. signed_where P L' = signed_where P L + (if P None AccountGatewayClearing then - g else 0)
         + (if P None AccountBankSettlement then g else 0))"
proof -
  have "g = 0 \<and> L' = L \<or> (\<exists>i j rt r oid pid.
      ledger_CreateTransaction x (KeyText ''payment_settlement_'' tid) rt r oid pid [leg i (neg64 g), leg j (g)] L = Inr L'
      \<and> ledger_GetSystemAccountID AccountGatewayClearing L = Inr i \<and> ledger_GetSystemAccountID AccountBankSettlement L = Inr j)"
    using assms(1) by (fastforce simp: RecordGatewayPaymentSettlement_def sum_bind_Inr split: if_splits)
  moreover have "0 < g"
    using assms(1) by (auto simp: RecordGatewayPaymentSettlement_def sum_bind_Inr split: if_splits)
  ultimately show ?thesis
    using two_legs [OF _ _ _ assms(2) _ _ assms(4)] neg64_nonneg [of g] in_i64_wrap64 [of "- g"] assms(2,3)
    by fastforce
qed

lemma buyer_fee_effect:
  assumes "RecordBuyerPaymentFeeRevenue x p o' f L = Inr L'" "rows_ok L" "in_i64 f"
    and "KeyUuid ''payment_fee_revenue_'' p \<notin> recorded_keys L"
  shows "0 \<le> f \<and> rows_ok L' \<and> recorded_keys L' \<subseteq> insert (KeyUuid ''payment_fee_revenue_'' p) (recorded_keys L)
    \<and> (\<forall>P. signed_where P L' = signed_where P L + (if P None AccountGatewayClearing then f else 0)
         + (if P None AccountPlatformRevenue then - f else 0))"
proof -
  have "f = 0 \<and> L' = L \<or> (\<exists>i j rt r oid pid.
      ledger_CreateTransaction x (KeyUuid ''payment_fee_revenue_'' p) rt r oid pid [leg i (f), leg j (neg64 f)] L = Inr L'
      \<and> ledger_GetSystemAccountID AccountGatewayClearing L = Inr i \<and> ledger_GetSystemAccountID AccountPlatformRevenue L = Inr j)"
    using assms(1) by (fastforce simp: RecordBuyerPaymentFeeRevenue_def sum_bind_Inr split: if_splits)
  moreover have "0 \<le> f"
    using assms(1) by (auto simp: RecordBuyerPaymentFeeRevenue_def sum_bind_Inr split: if_splits)
  ultimately show ?thesis
    using two_legs [OF _ _ _ assms(2) _ _ assms(4)] neg64_nonneg [of f] in_i64_wrap64 [of "- f"] assms(2,3)
    by fastforce
qed

lemma coin_funding_effect:
  assumes "RecordCoinFunding x p o' k L = Inr L'" "rows_ok L" "in_i64 k"
    and "KeyUuid ''coin_funding_'' p \<notin> recorded_keys L"
  shows "0 < k \<and> rows_ok L' \<and> recorded_keys L' \<subseteq> insert (KeyUuid ''coin_funding_'' p) (recorded_keys L)
    \<and> (\<forall>P. signed_where P L' = signed_where P L + (if P None AccountPlatformCoinBenefit then k else 0)
         + (if P None AccountGatewayClearing then - k else 0))"
proof -
  have "k = 0 \<and> L' = L \<or> (\<exists>i j rt r oid pid.
      ledger_CreateTransaction x (KeyUuid ''coin_funding_'' p) rt r oid pid [leg i (k), leg j (neg64 k)] L = Inr L'
      \<and> ledger_GetSystemAccountID AccountPlatformCoinBenefit L = Inr i \<and> ledger_GetSystemAccountID AccountGatewayClearing L = Inr j)"
    using assms(1) by (fastforce simp: RecordCoinFunding_def sum_bind_Inr split: if_splits)
  moreover have "0 < k"
    using assms(1) by (auto simp: RecordCoinFunding_def sum_bind_Inr split: if_splits)
  ultimately show ?thesis
    using two_legs [OF _ _ _ assms(2) _ _ assms(4)] neg64_nonneg [of k] in_i64_wrap64 [of "- k"] assms(2,3)
    by fastforce
qed

lemma release_effect:
  assumes "RecordOrderRelease a x o' s g c n L = Inr L'" "rows_ok L" "in_i64 g" "in_i64 c" "in_i64 n"
    and "KeyUuid ''order_release_'' o' \<notin> recorded_keys L" "a \<notin> account_ids L"
  shows "0 \<le> c \<and> 0 \<le> n \<and> n + c = g
    \<and> (\<forall>P. signed_where P L' = signed_where P L + (if P None AccountGatewayClearing then g else 0)
         + (if P (Some s) AccountSellerPayable then - n else 0) + (if P None AccountPlatformRevenue then - c else 0))"
proof -
  obtain i L1 where o1: "ledger_GetOrCreateUserAccount a AccountSellerPayable s L = (i, L1)" by fastforce
  obtain gc pv where g: "0 \<le> g" "0 \<le> c" "0 \<le> n" "wrap64 (n + c) = g"
    "ledger_GetSystemAccountID AccountGatewayClearing L = Inr gc"
    "ledger_GetSystemAccountID AccountPlatformRevenue L = Inr pv"
    "ledger_CreateTransaction x (KeyUuid ''order_release_'' o') ''order_release'' o' (Some o') None
       [leg gc g, leg i (neg64 n), leg pv (neg64 c)] L1 = Inr L'"
    using assms(1) o1 by (auto simp: RecordOrderRelease_def sum_bind_Inr)
  note L1 = GetOrCreateUserAccount_keeps [OF assms(2,7) _ _ o1]
  have r: "rows_ok L1" "owner_of L1 i = Some (Some s, AccountSellerPayable)"
    "owner_of L1 gc = Some (None, AccountGatewayClearing)" "owner_of L1 pv = Some (None, AccountPlatformRevenue)"
    "\<not> ledger_TransactionExistsByKey (KeyUuid ''order_release_'' o') L1" "\<And>P. signed_where P L1 = signed_where P L"
    using L1 GetSystemAccountID_owner [OF assms(2) g(5)] GetSystemAccountID_owner [OF assms(2) g(6)] assms(6)
    by (auto simp: recorded_keys_iff)
  have "n + c = g"
    using wrap64_sum_cases [OF assms(5,4)] g(1-4) assms(3-5) by (auto simp: i64_defs split: if_splits)
  moreover have "in_i64 (- n)" "in_i64 (- c)" using g(2,3) assms(4,5) by (auto simp: i64_defs)
  then have "signed_where P L' = signed_where P L + (if P None AccountGatewayClearing then g else 0)
         + (if P (Some s) AccountSellerPayable then - n else 0) + (if P None AccountPlatformRevenue then - c else 0)" for P
    using lg.transact_moves [OF r(1) _ g(7) r(5), of P] assms(3-5) r neg64_nonneg [OF g(2) assms(4)]
      neg64_nonneg [OF g(3) assms(5)] by simp
  ultimately show ?thesis using g by blast
qed

section \<open>A seller's first sale\<close>

text \<open>
  A concrete run used to show that the properties' hypotheses can hold: a
  payment of 105 with a fee of 5 and 20 coins settles, the order is released
  with a commission of 12, and the seller withdraws 50 up to the commit.
\<close>

fun finance_runs :: "((uuid \<times> uuid \<times> uuid) \<times> finance_call) list \<Rightarrow> ledger \<Rightarrow> ledger option" where
  "finance_runs [] L = Some L"
| "finance_runs ((ids, c) # cs) L =
     (if fresh_ids ids L \<and> (\<forall>n \<in> call_amounts c. in_i64 n)
      then (case finance_do ids c L of Inl _ \<Rightarrow> None | Inr L1 \<Rightarrow> finance_runs cs L1) else None)"

lemma finance_runs_steps: "finance_runs cs L = Some L' \<Longrightarrow> finance_step\<^sup>*\<^sup>* L L'"
proof (induction cs arbitrary: L)
  case Nil
  then show ?case by simp
next
  case (Cons ic cs)
  obtain ids c where ic: "ic = (ids, c)" by fastforce
  with Cons.prems obtain L1 where "finance_step L L1" "finance_runs cs L1 = Some L'"
    by (auto split: if_splits sum.splits intro: finance_step)
  then show ?case using Cons.IH by (blast intro: converse_rtranclp_into_rtranclp)
qed

definition first_sale :: "((uuid \<times> uuid \<times> uuid) \<times> finance_call) list" where
  "first_sale = [((1, 2, 1001), CallPaymentSettlement 11 12 ''mid'' 105),
     ((1, 2, 1002), CallBuyerPaymentFee 11 12 5),
     ((1, 2, 1003), CallCoinFunding 11 12 20),
     ((1, 2, 1004), CallOrderRelease 12 7 120 12 108)]"

definition first_withdrawal :: "((uuid \<times> uuid \<times> uuid) \<times> finance_call) list" where
  "first_withdrawal = [((3, 4, 1005), CallWithdrawalRequest 7 50 0 31), ((3, 4, 1006), CallWithdrawalCommit 7 50 0 31)]"

definition sale_books :: ledger where
  "sale_books = the (finance_runs first_sale opening_books)"

definition withdrawal_books :: ledger where
  "withdrawal_books = the (finance_runs first_withdrawal sale_books)"

lemma first_sale_runs: "finance_runs first_sale opening_books = Some sale_books"
proof -
  have "case finance_runs first_sale opening_books of None \<Rightarrow> False | Some _ \<Rightarrow> True" by code_simp
  then show ?thesis by (simp add: sale_books_def split: option.splits)
qed

lemma first_withdrawal_runs: "finance_runs first_withdrawal sale_books = Some withdrawal_books"
proof -
  have "case finance_runs first_withdrawal sale_books of None \<Rightarrow> False | Some _ \<Rightarrow> True" by code_simp
  then show ?thesis by (simp add: withdrawal_books_def split: option.splits)
qed

lemma sale_books_reached: "finance_step\<^sup>*\<^sup>* opening_books sale_books"
  by (rule finance_runs_steps [OF first_sale_runs])

lemma withdrawal_books_reached: "finance_step\<^sup>*\<^sup>* opening_books withdrawal_books"
  by (rule rtranclp_trans [OF sale_books_reached finance_runs_steps [OF first_withdrawal_runs]])

section \<open>Properties\<close>

text \<open>
  C1. From the bootstrap of the system accounts on, whatever finance
  operations run, the books balance: every balance stays within 0 and the
  64-bit maximum, what debits increase (assets and absorbed benefits) equals
  what credits increase (liabilities and revenue), and the money invariant
  checker never reports a mismatch.
\<close>

theorem books_stay_balanced:
  assumes "finance_step\<^sup>*\<^sup>* opening_books L"
  shows "(\<forall>a \<in> set (lg_Accounts L). 0 \<le> ac_Balance a \<and> ac_Balance a \<le> i64_max)
    \<and> (\<Sum>a\<leftarrow>filter debit_normal (lg_Accounts L). ac_Balance a)
      = (\<Sum>a\<leftarrow>filter (\<lambda>a. \<not> debit_normal a) (lg_Accounts L). ac_Balance a)
    \<and> \<not> CheckTotalMoneyInvariant L"
proof -
  have l: "ledger_ok L" using finance_books.run_keeps [OF assms opening_books_ok] .
  have "(\<Sum>a\<leftarrow>as. if True then signed_balance a else 0) = (\<Sum>a\<leftarrow>filter debit_normal as. ac_Balance a)
      - (\<Sum>a\<leftarrow>filter (\<lambda>a. \<not> debit_normal a) as. ac_Balance a)" for as
    by (induction as) (simp_all add: signed_balance_def)
  then have "(\<Sum>a\<leftarrow>filter debit_normal (lg_Accounts L). ac_Balance a)
      = (\<Sum>a\<leftarrow>filter (\<lambda>a. \<not> debit_normal a) (lg_Accounts L). ac_Balance a)"
    using l by (simp add: ledger_ok_def signed_where_def)
  moreover have "\<forall>a \<in> set (lg_Accounts L). 0 \<le> ac_Balance a \<and> ac_Balance a \<le> i64_max"
    "checker_getBalanceMismatches L = []"
    using l unfolding ledger_ok_def rows_ok_def checker_getBalanceMismatches_def filter_empty_conv by blast+
  ultimately show ?thesis by (simp add: CheckTotalMoneyInvariant_def)
qed

text \<open>
  C9. Every finance operation is replay-safe: if it succeeded once, calling it
  again with the same arguments (a redelivered webhook, a retried worker)
  succeeds and leaves the ledger as it is.
\<close>

theorem finance_replay_is_noop:
  assumes "finance_step\<^sup>*\<^sup>* opening_books L" "fresh_ids ids L" "finance_do ids c L = Inr L'"
  shows "finance_do ids' c L' = Inr L'"
  using finance_do_again [OF assms(3,2)] finance_keys.run_keeps [OF assms(1) opening_reversal_keys] .

text \<open>
  C2. The money of an order adds up. When a payment of \<open>gross\<close> settles, its
  fee \<open>f\<close> is realised, \<open>k\<close> coins are funded by the platform and the order is
  later released for what is left in clearing, then clearing is back where it
  was, the bank reserve is down by the gross amount, the platform has absorbed
  exactly \<open>k\<close> and earned exactly the fee and the commission, the seller is owed
  exactly the net amount, and no other account has changed.
\<close>

theorem order_money_adds_up:
  assumes "finance_step\<^sup>*\<^sup>* opening_books L"
    and "RecordGatewayPaymentSettlement x1 p o' tid gross L = Inr L1"
    and "RecordBuyerPaymentFeeRevenue x2 p o' f L1 = Inr L2"
    and "RecordCoinFunding x3 p o' k L2 = Inr L3"
    and "RecordOrderRelease a x4 o' s (gross - f + k) c n L3 = Inr L4"
    and "\<forall>m \<in> {gross, f, k, gross - f + k, c, n}. in_i64 m" "a \<notin> account_ids L3"
    and "recorded_keys L \<inter> {KeyText ''payment_settlement_'' tid, KeyUuid ''payment_fee_revenue_'' p,
           KeyUuid ''coin_funding_'' p, KeyUuid ''order_release_'' o'} = {}"
  shows "held None AccountGatewayClearing L4 = held None AccountGatewayClearing L
    \<and> held None AccountBankSettlement L4 = held None AccountBankSettlement L - gross
    \<and> held None AccountPlatformCoinBenefit L4 = held None AccountPlatformCoinBenefit L + k
    \<and> held None AccountPlatformRevenue L4 = held None AccountPlatformRevenue L + f + c
    \<and> held (Some s) AccountSellerPayable L4 = held (Some s) AccountSellerPayable L + n
    \<and> n + c = gross - f + k
    \<and> (\<forall>u t. (u, t) \<notin> {(None, AccountGatewayClearing), (None, AccountBankSettlement),
          (None, AccountPlatformCoinBenefit), (None, AccountPlatformRevenue), (Some s, AccountSellerPayable)}
        \<longrightarrow> held u t L4 = held u t L)"
proof -
  have "rows_ok L"
    using finance_books.run_keeps [OF assms(1) opening_books_ok] by (simp add: ledger_ok_def)
  have i: "in_i64 gross" "in_i64 f" "in_i64 k" "in_i64 (gross - f + k)" "in_i64 c" "in_i64 n"
    using assms(6) by simp_all
  let ?t = "KeyText ''payment_settlement_'' tid"
  let ?f = "KeyUuid ''payment_fee_revenue_'' p"
  let ?k = "KeyUuid ''coin_funding_'' p"
  let ?o = "KeyUuid ''order_release_'' o'"
  have n0: "?t \<notin> recorded_keys L" "?f \<notin> recorded_keys L" "?k \<notin> recorded_keys L" "?o \<notin> recorded_keys L"
    using assms(8) by blast+
  note e1 = settlement_effect [OF assms(2) \<open>rows_ok L\<close> i(1) n0(1)]
  have n1: "?f \<notin> recorded_keys L1" "?k \<notin> recorded_keys L1" "?o \<notin> recorded_keys L1"
    using e1 n0 by auto
  note e2 = buyer_fee_effect [OF assms(3) _ i(2) n1(1)]
  have n2: "?k \<notin> recorded_keys L2" "?o \<notin> recorded_keys L2"
    using e1 e2 n1 by auto
  note e3 = coin_funding_effect [OF assms(4) _ i(3) n2(1)]
  have n3: "?o \<notin> recorded_keys L3" using e1 e2 e3 n2 by auto
  note e4 = release_effect [OF assms(5) _ i(4-6) n3 assms(7)]
  have r1: "rows_ok L1" "\<And>P. signed_where P L1 = signed_where P L
      + (if P None AccountGatewayClearing then - gross else 0) + (if P None AccountBankSettlement then gross else 0)"
    using e1 by blast+
  have r2: "rows_ok L2" "\<And>P. signed_where P L2 = signed_where P L1
      + (if P None AccountGatewayClearing then f else 0) + (if P None AccountPlatformRevenue then - f else 0)"
    using e2 [OF r1(1)] by blast+
  have r3: "rows_ok L3" "\<And>P. signed_where P L3 = signed_where P L2
      + (if P None AccountPlatformCoinBenefit then k else 0) + (if P None AccountGatewayClearing then - k else 0)"
    using e3 [OF r2(1)] by blast+
  have r4: "n + c = gross - f + k" "\<And>P. signed_where P L4 = signed_where P L3
      + (if P None AccountGatewayClearing then gross - f + k else 0)
      + (if P (Some s) AccountSellerPayable then - n else 0) + (if P None AccountPlatformRevenue then - c else 0)"
    using e4 [OF r3(1)] by blast+
  then show ?thesis
    unfolding held_signed r4(2) r3(2) r2(2) r1(2)
    by (auto simp: class_DebitIncreasesBalance_def)
qed

theorem books_stay_balanced_witness:
  "\<not> CheckTotalMoneyInvariant withdrawal_books
    \<and> (\<Sum>a\<leftarrow>filter debit_normal (lg_Accounts withdrawal_books). ac_Balance a)
      = (\<Sum>a\<leftarrow>filter (\<lambda>a. \<not> debit_normal a) (lg_Accounts withdrawal_books). ac_Balance a)"
  using books_stay_balanced [OF withdrawal_books_reached] by simp

theorem finance_replay_is_noop_witness:
  "\<exists>L'. finance_do (1, 2, 1001) (CallPaymentSettlement 11 12 ''mid'' 105) opening_books = Inr L'
     \<and> finance_do (8, 9, 1010) (CallPaymentSettlement 11 12 ''mid'' 105) L' = Inr L'"
proof -
  obtain L' where L': "fresh_ids (1, 2, 1001) opening_books"
    "finance_do (1, 2, 1001) (CallPaymentSettlement 11 12 ''mid'' 105) opening_books = Inr L'"
    using first_sale_runs by (auto simp: first_sale_def split: if_splits sum.splits)
  show ?thesis
    using finance_replay_is_noop [OF rtranclp.rtrancl_refl L'(1,2), of "(8, 9, 1010)"] L'(2) by blast
qed

lemma no_keys_at_opening: "recorded_keys opening_books = {}"
  by (simp add: recorded_keys_def opening_transactions)

theorem order_money_adds_up_witness:
  "held None AccountPlatformRevenue sale_books = held None AccountPlatformRevenue opening_books + 5 + 12
    \<and> held (Some 7) AccountSellerPayable sale_books = held (Some 7) AccountSellerPayable opening_books + 108"
proof -
  obtain L1 L2 L3 where r: "RecordGatewayPaymentSettlement 1001 11 12 ''mid'' 105 opening_books = Inr L1"
    "RecordBuyerPaymentFeeRevenue 1002 11 12 5 L1 = Inr L2" "RecordCoinFunding 1003 11 12 20 L2 = Inr L3"
    "RecordOrderRelease 1 1004 12 7 (105 - 5 + 20) 12 108 L3 = Inr sale_books" "1 \<notin> account_ids L3"
    using first_sale_runs by (auto simp: first_sale_def fresh_ids_def split: if_splits sum.splits)
  show ?thesis
    using order_money_adds_up [OF rtranclp.rtrancl_refl r(1-4) _ r(5)] no_keys_at_opening
    by (simp add: i64_defs)
qed

lemma post_entries_zero:
  "e \<in> set es \<Longrightarrow> en_Amount e = 0 \<Longrightarrow> post_entries x es L \<noteq> Inr L'"
proof (induction es arbitrary: L)
  case Nil
  then show ?case by simp
next
  case (Cons d es)
  show ?case
  proof (cases "d = e")
    case True
    then show ?thesis using Cons.prems(2)
      by (auto simp: post_entry_def Let_def money_defs split: option.splits sum.splits if_splits)
  next
    case False
    then show ?thesis using Cons by (auto split: sum.splits)
  qed
qed

lemma transact_zero:
  assumes "ledger_CreateTransaction x k rt r oid pid es L = Inr L'"
  shows "k \<in> recorded_keys L \<or> list_all (\<lambda>e. en_Amount e \<noteq> 0) es"
proof (cases "k \<in> recorded_keys L")
  case False
  then obtain M where "post_entries x es M = Inr L'"
    using assms by (auto simp: ledger_CreateTransaction_def Let_def recorded_keys_iff
        split: sum.splits if_splits prod.splits)
  then show ?thesis using post_entries_zero by (auto simp: list_all_iff)
qed simp

lemma opened_recorded_keys [simp]:
  "recorded_keys (snd (ledger_GetOrCreateUserAccount a t u L)) = recorded_keys L"
  by (simp add: recorded_keys_def)

lemma not_Inr_Inl: "(\<And>y. m \<noteq> Inr y) \<Longrightarrow> \<exists>e. m = Inl e"
  by (cases m) auto

text \<open>
  A movement with a zero component can never be booked: the ledger posts
  the zero entry as well, and the table refuses entries that are not positive.
  So a withdrawal with a fee of zero (a value the configuration allows) can
  never be completed, and neither an order release, nor a partial refund's
  remainder, nor a refund after release whose commission or seller share is
  zero can ever be recorded.
\<close>

theorem zero_component_never_posts:
  assumes "recorded_keys L \<inter> {KeyUuid ''withdrawal_complete_'' w, KeyUuid ''order_release_'' o',
      KeyUuid ''partial_release_'' (pr_RefundID pinp), KeyUuid ''refund_reversal_'' (rv_RefundID rinp)} = {}"
    and "c = 0 \<or> n = 0" "pr_SellerNet pinp = 0 \<or> pr_Commission pinp = 0"
    and "rv_AfterRelease rinp" "rv_SellerComponent rinp = 0 \<or> rv_CommissionComponent rinp = 0"
  shows "(\<exists>e. RecordWithdrawalComplete x s m 0 w L = Inl e)
    \<and> (\<exists>e. RecordOrderRelease a x o' s g c n L = Inl e)
    \<and> (\<exists>e. RecordPartialRefundRelease a x pinp L = Inl e)
    \<and> (\<exists>e. RecordRefundReversal a b x rinp L = Inl e)"
proof -
  have w0: "wrap64 0 = 0" by simp
  have k: "KeyUuid ''withdrawal_complete_'' w \<notin> recorded_keys L" "KeyUuid ''order_release_'' o' \<notin> recorded_keys L"
    "KeyUuid ''partial_release_'' (pr_RefundID pinp) \<notin> recorded_keys L"
    "KeyUuid ''refund_reversal_'' (rv_RefundID rinp) \<notin> recorded_keys L"
    using assms(1) by simp_all
  have "RecordWithdrawalComplete x s m 0 w L \<noteq> Inr L'" for L'
    using k(1) by (auto simp: RecordWithdrawalComplete_def sum_bind_Inr Let_def dest!: transact_zero)
  moreover have "RecordOrderRelease a x o' s g c n L \<noteq> Inr L'" for L'
    using k(2) assms(2) by (auto simp: RecordOrderRelease_def sum_bind_Inr Let_def case_prod_unfold w0
        dest!: transact_zero)
  moreover have "RecordPartialRefundRelease a x pinp L \<noteq> Inr L'" for L'
    using k(3) assms(3) by (auto simp: RecordPartialRefundRelease_def sum_bind_Inr Let_def case_prod_unfold w0
        dest!: transact_zero)
  moreover have "RecordRefundReversal a b x rinp L \<noteq> Inr L'" for L'
    using k(4) assms(4,5) by (auto simp: RecordRefundReversal_def sum_bind_Inr Let_def case_prod_unfold w0
        dest!: transact_zero split: if_splits)
  ultimately show ?thesis by (intro conjI not_Inr_Inl)
qed

definition free_partial_release :: RecordPartialRefundReleaseInput where
  "free_partial_release = \<lparr>pr_RefundID = 41, pr_OrderID = 12, pr_SellerID = 7, pr_Remainder = 5,
     pr_SellerNet = 5, pr_Commission = 0\<rparr>"

definition free_refund_reversal :: RecordRefundReversalInput where
  "free_refund_reversal = \<lparr>rv_RefundID = 41, rv_OrderID = 12, rv_BuyerID = 6, rv_SellerID = 7,
     rv_RefundAmount = 5, rv_SellerComponent = 5, rv_CommissionComponent = 0, rv_OrderGross = 105,
     rv_CumulativeRefunded = 5, rv_AfterRelease = True\<rparr>"

lemma withdrawal_books_keys:
  "recorded_keys withdrawal_books \<inter> {KeyUuid ''withdrawal_complete_'' 31, KeyUuid ''order_release_'' 99,
     KeyUuid ''partial_release_'' (pr_RefundID free_partial_release),
     KeyUuid ''refund_reversal_'' (rv_RefundID free_refund_reversal)} = {}"
proof -
  have "list_all (\<lambda>y. lt_Key y \<noteq> KeyUuid ''withdrawal_complete_'' 31 \<and> lt_Key y \<noteq> KeyUuid ''order_release_'' 99
      \<and> lt_Key y \<noteq> KeyUuid ''partial_release_'' 41 \<and> lt_Key y \<noteq> KeyUuid ''refund_reversal_'' 41)
      (lg_Transactions withdrawal_books)" by code_simp
  then show ?thesis
    by (auto simp: recorded_keys_def list_all_iff free_partial_release_def free_refund_reversal_def)
qed

lemma withdrawal_with_fee_completes:
  "case RecordWithdrawalComplete 1007 7 50 1 31 withdrawal_books of Inl _ \<Rightarrow> False | Inr _ \<Rightarrow> True"
  by code_simp

theorem zero_component_never_posts_witness:
  "(\<exists>e. RecordWithdrawalComplete 1007 7 50 0 31 withdrawal_books = Inl e)
    \<and> (\<exists>L'. RecordWithdrawalComplete 1007 7 50 1 31 withdrawal_books = Inr L')"
  using zero_component_never_posts [OF withdrawal_books_keys, of 0 1 1007 7 50 1 5 2]
    withdrawal_with_fee_completes
  by (auto simp: free_partial_release_def free_refund_reversal_def split: sum.splits)

definition total_credited :: "uuid \<Rightarrow> ledger \<Rightarrow> int" where
  "total_credited i L = (\<Sum>e\<leftarrow>filter (\<lambda>e. le_AccountID e = i) (lg_Entries L).
     if le_EntryType e = EntryCredit then le_Amount e else 0)"

text \<open>
  What a seller is shown as total earnings is not what was credited to the
  payable account: the query adds up the debits, so the figure is what has left
  the account (withdrawals and reversals). It is short of the true total by
  exactly the current balance, and so zero for a seller who has never
  withdrawn.
\<close>

theorem earnings_count_what_left:
  assumes "finance_step\<^sup>*\<^sup>* opening_books L"
    and "ledger_GetUserAccountID AccountSellerPayable s L = Inr i" "find_account i L = Some a"
    and "GetSellerTotalEarnings s L = Inr n"
  shows "n = total_credited i L - ac_Balance a"
proof -
  have l: "rows_ok L" using finance_books.run_keeps [OF assms(1) opening_books_ok] by (simp add: ledger_ok_def)
  note a = find_account_Some [OF assms(3)]
  have "owner_of L i = Some (Some s, AccountSellerPayable)" by (rule GetUserAccountID_owner [OF l assms(2)])
  then have t: "ac_Type a = AccountSellerPayable" using assms(3) by (simp add: owner_of_find)
  let ?es = "filter (\<lambda>e. le_AccountID e = i) (lg_Entries L)"
  have "ac_Balance a = checker_expected L a" using l a(1) by (simp add: rows_ok_def)
  then have "ac_Balance a = (\<Sum>e\<leftarrow>?es. if le_EntryType e = EntryCredit then le_Amount e else - le_Amount e)"
    using a(2) t by (simp add: checker_expected_def checker_computed_def checker_credit_normal_def
        del: checker_credit_normal_iff)
  also have "\<dots> = total_credited i L - (\<Sum>e\<leftarrow>?es. if le_EntryType e = EntryDebit then le_Amount e else 0)"
  proof -
    have "(\<Sum>e\<leftarrow>es. if le_EntryType e = EntryCredit then le_Amount e else - le_Amount e)
      = (\<Sum>e\<leftarrow>es. if le_EntryType e = EntryCredit then le_Amount e else 0)
      - (\<Sum>e\<leftarrow>es. if le_EntryType e = EntryDebit then le_Amount e else 0)" for es
    proof (induction es)
      case (Cons e es)
      then show ?case by (cases "le_EntryType e") simp_all
    qed simp
    then show ?thesis by (simp only: total_credited_def)
  qed
  finally show ?thesis
    using assms(2,4) by (auto simp: GetSellerTotalEarnings_def ledger_GetTotalCreditToUserAccount_def Let_def
        split: if_splits)
qed

theorem earnings_count_what_left_witness:
  "GetSellerTotalEarnings 7 withdrawal_books = Inr 50 \<and> total_credited 1 withdrawal_books = 108"
proof -
  have f: "ledger_GetUserAccountID AccountSellerPayable 7 withdrawal_books = Inr 1"
    "map_option ac_Balance (find_account 1 withdrawal_books) = Some 58"
    "GetSellerTotalEarnings 7 withdrawal_books = Inr 50"
    by code_simp+
  then obtain a where "find_account 1 withdrawal_books = Some a" "ac_Balance a = 58" by auto
  with earnings_count_what_left [OF withdrawal_books_reached f(1) _ f(3)] f(3) show ?thesis by simp
qed

end
