(* ===== verification/WithdrawStore.thy ===== *)
theory WithdrawStore
  imports FinanceService
begin

text \<open>
  \<open>finance/infrastructure/repository/withdraw_repository.go\<close>: a withdrawal row,
  its statuses and the queries on the table. The table is a list of rows in
  insertion order; \<open>ORDER BY\<close> is a stable sort. A query that can fail for a
  reason of its own (a missing row, a constraint) returns a sum; the others
  only fail when the database does, which is left out. The external reference
  \<open>WD_<id>_<seconds>\<close> is the pair of its parts and the empty text is \<open>None\<close>.
  The user and shop names that the list queries join in are left out.
\<close>

datatype WithdrawalStatus =
  WithdrawalRequested | WithdrawalProcessing | WithdrawalSubmitted | WithdrawalSettling
  | WithdrawalSettled | WithdrawalCompleted | WithdrawalFailed | WithdrawalFailedRetryable
  | WithdrawalFailedFinal | WithdrawalPilotBlocked

definition withdrawalStatus_IsFinal :: "WithdrawalStatus \<Rightarrow> bool" where
  "withdrawalStatus_IsFinal s \<longleftrightarrow> s = WithdrawalSettled \<or> s = WithdrawalCompleted \<or> s = WithdrawalFailed
     \<or> s = WithdrawalFailedFinal"

definition withdrawalStatus_IsRetryable :: "WithdrawalStatus \<Rightarrow> bool" where
  "withdrawalStatus_IsRetryable s \<longleftrightarrow> s = WithdrawalFailedRetryable"

fun withdrawal_validTransitions :: "WithdrawalStatus \<Rightarrow> WithdrawalStatus list" where
  "withdrawal_validTransitions WithdrawalRequested = [WithdrawalProcessing, WithdrawalFailed]"
| "withdrawal_validTransitions WithdrawalProcessing =
     [WithdrawalSubmitted, WithdrawalCompleted, WithdrawalFailed, WithdrawalPilotBlocked]"
| "withdrawal_validTransitions WithdrawalPilotBlocked = [WithdrawalProcessing, WithdrawalFailed]"
| "withdrawal_validTransitions WithdrawalSubmitted =
     [WithdrawalSettling, WithdrawalSettled, WithdrawalFailedRetryable, WithdrawalFailedFinal]"
| "withdrawal_validTransitions WithdrawalSettling =
     [WithdrawalSettled, WithdrawalFailedRetryable, WithdrawalFailedFinal]"
| "withdrawal_validTransitions WithdrawalFailedRetryable = [WithdrawalSubmitted, WithdrawalFailed]"
| "withdrawal_validTransitions WithdrawalSettled = []"
| "withdrawal_validTransitions WithdrawalCompleted = []"
| "withdrawal_validTransitions WithdrawalFailed = []"
| "withdrawal_validTransitions WithdrawalFailedFinal = []"

definition withdrawalStatus_CanTransitionTo :: "WithdrawalStatus \<Rightarrow> WithdrawalStatus \<Rightarrow> bool" where
  "withdrawalStatus_CanTransitionTo s newStatus \<longleftrightarrow> newStatus \<in> set (withdrawal_validTransitions s)"

type_synonym ext_ref = "(uuid \<times> int) option"

datatype withdrawal_key = NoKey | RequestKey uuid

record bank_snapshot =
  bk_BankName :: string
  bk_BankCode :: string
  bk_AccountNumber :: string
  bk_AccountHolder :: string

record withdrawal =
  wd_ID :: uuid
  wd_SellerID :: uuid
  wd_Amount :: i64
  wd_FeeAmount :: i64
  wd_Status :: WithdrawalStatus
  wd_IdempotencyKey :: withdrawal_key
  wd_Bank :: bank_snapshot
  wd_ExternalReferenceID :: ext_ref
  wd_GatewayReferenceNo :: string
  wd_GatewayResponse :: string
  wd_FailureReason :: string
  wd_SubmittedAt :: int
  wd_SettledAt :: int
  wd_RetryCount :: int
  wd_CreatedAt :: time
  wd_UpdatedAt :: time

definition unix :: "time \<Rightarrow> int" where
  "unix t = t div second"

section \<open>Inserting and finding rows\<close>

datatype withdraw_error =
  WdSellerRequired
  | WdAmountOutOfRange i64 i64 i64
  | WdSellerNotActive
  | WdSellerNotVerified uuid
  | WdFinance finance_error
  | WdLedger ledger_error
  | WdMoneyPanic money_panic
  | WdPendingExists uuid uuid WithdrawalStatus
  | WdNoDefaultBankAccount uuid
  | WdBankAccountNotReviewed uuid uuid
  | WdCreateFailed
  | WdNotFound
  | WdInvalidCaller
  | WdForbidden
  | WdWrongStatus WithdrawalStatus
  | WdAlreadySubmitted ext_ref
  | WdTransitionRace
  | WdMarkFailedInvalidState uuid
  | WdInvalidStateTransition WithdrawalStatus WithdrawalStatus
  | WdDuplicateCallback
  | WdPayoutConfigInvalid
  | WdGatewayQueryFailed
  | WdQueryFailed

definition wdrepo_CreateWithIdempotency ::
    "time \<Rightarrow> uuid \<Rightarrow> uuid \<Rightarrow> i64 \<Rightarrow> i64 \<Rightarrow> WithdrawalStatus \<Rightarrow> withdrawal_key \<Rightarrow> bank_snapshot
      \<Rightarrow> withdrawal list \<Rightarrow> withdraw_error + withdrawal list" where
  "wdrepo_CreateWithIdempotency now i sellerID amount feeAmount status key bank rows =
    (if i \<in> wd_ID ` set rows \<or> key \<noteq> NoKey \<and> key \<in> wd_IdempotencyKey ` set rows \<or> \<not> amount > 0
     then Inl WdCreateFailed
     else Inr (rows @ [\<lparr>wd_ID = i, wd_SellerID = sellerID, wd_Amount = amount, wd_FeeAmount = feeAmount,
       wd_Status = status, wd_IdempotencyKey = key, wd_Bank = bank, wd_ExternalReferenceID = None,
       wd_GatewayReferenceNo = '''', wd_GatewayResponse = '''', wd_FailureReason = '''',
       wd_SubmittedAt = 0, wd_SettledAt = 0, wd_RetryCount = 0, wd_CreatedAt = now, wd_UpdatedAt = now\<rparr>]))"

definition wdrepo_Create ::
    "time \<Rightarrow> uuid \<Rightarrow> uuid \<Rightarrow> i64 \<Rightarrow> i64 \<Rightarrow> WithdrawalStatus \<Rightarrow> withdrawal list
      \<Rightarrow> withdraw_error + withdrawal list" where
  "wdrepo_Create now i sellerID amount feeAmount status rows =
    wdrepo_CreateWithIdempotency now i sellerID amount feeAmount status NoKey
      \<lparr>bk_BankName = '''', bk_BankCode = '''', bk_AccountNumber = '''', bk_AccountHolder = ''''\<rparr> rows"

definition wdrepo_GetByID :: "uuid \<Rightarrow> withdrawal list \<Rightarrow> withdraw_error + withdrawal" where
  "wdrepo_GetByID i rows = (case find (\<lambda>w. wd_ID w = i) rows of None \<Rightarrow> Inl WdNotFound | Some w \<Rightarrow> Inr w)"

definition wdrepo_LockForUpdate :: "uuid \<Rightarrow> withdrawal list \<Rightarrow> withdraw_error + withdrawal" where
  "wdrepo_LockForUpdate i rows = wdrepo_GetByID i rows"

definition wdrepo_GetByExternalReference :: "ext_ref \<Rightarrow> withdrawal list \<Rightarrow> withdraw_error + withdrawal" where
  "wdrepo_GetByExternalReference ref rows =
    (case find (\<lambda>w. wd_ExternalReferenceID w = ref) rows of None \<Rightarrow> Inl WdNotFound | Some w \<Rightarrow> Inr w)"

definition wdrepo_GetBySellerID :: "uuid \<Rightarrow> withdrawal list \<Rightarrow> withdrawal list" where
  "wdrepo_GetBySellerID sellerID rows =
    sort_key (\<lambda>w. - wd_CreatedAt w) (filter (\<lambda>w. wd_SellerID w = sellerID) rows)"

definition in_flight :: "WithdrawalStatus \<Rightarrow> bool" where
  "in_flight s \<longleftrightarrow> s \<in> set [WithdrawalRequested, WithdrawalProcessing, WithdrawalSubmitted, WithdrawalSettling,
     WithdrawalFailedRetryable, WithdrawalPilotBlocked]"

definition wdrepo_GetActiveBySellerID :: "uuid \<Rightarrow> withdrawal list \<Rightarrow> withdrawal option" where
  "wdrepo_GetActiveBySellerID sellerID rows =
    (case sort_key (\<lambda>w. - wd_CreatedAt w)
            (filter (\<lambda>w. wd_SellerID w = sellerID \<and> in_flight (wd_Status w)) rows) of
       [] \<Rightarrow> None | w # _ \<Rightarrow> Some w)"

definition wdrepo_GetWithdrawnTotal :: "uuid \<Rightarrow> withdrawal list \<Rightarrow> int" where
  "wdrepo_GetWithdrawnTotal sellerID rows =
    (\<Sum>w\<leftarrow>filter (\<lambda>w. wd_SellerID w = sellerID
        \<and> (wd_Status w = WithdrawalSettled \<or> wd_Status w = WithdrawalCompleted)) rows. wd_Amount w)"

definition wdrepo_GetDailyWithdrawnTotal :: "time \<Rightarrow> uuid \<Rightarrow> withdrawal list \<Rightarrow> int" where
  "wdrepo_GetDailyWithdrawnTotal now sellerID rows =
    (let todayStart = now - now mod (24 * hour)
     in (\<Sum>w\<leftarrow>filter (\<lambda>w. wd_SellerID w = sellerID \<and> wd_CreatedAt w \<ge> todayStart) rows. wd_Amount w))"

section \<open>Updating rows\<close>

text \<open>
  \<open>UPDATE ... SET f WHERE P\<close>: every row that satisfies the condition is changed;
  the number of such rows is what \<open>RowsAffected\<close> returns.
\<close>

definition update_where :: "(withdrawal \<Rightarrow> bool) \<Rightarrow> (withdrawal \<Rightarrow> withdrawal) \<Rightarrow> withdrawal list \<Rightarrow> nat \<times> withdrawal list" where
  "update_where P f rows = (length (filter P rows), map (\<lambda>w. if P w then f w else w) rows)"

definition wdrepo_UpdateStatus :: "time \<Rightarrow> uuid \<Rightarrow> WithdrawalStatus \<Rightarrow> withdrawal list \<Rightarrow> nat \<times> withdrawal list" where
  "wdrepo_UpdateStatus now i newStatus =
    update_where (\<lambda>w. wd_ID w = i) (\<lambda>w. w\<lparr>wd_Status := newStatus, wd_UpdatedAt := now\<rparr>)"

definition wdrepo_UpdateStatusWithCheck ::
    "time \<Rightarrow> uuid \<Rightarrow> WithdrawalStatus \<Rightarrow> WithdrawalStatus \<Rightarrow> withdrawal list \<Rightarrow> nat \<times> withdrawal list" where
  "wdrepo_UpdateStatusWithCheck now i expectedStatus newStatus =
    update_where (\<lambda>w. wd_ID w = i \<and> wd_Status w = expectedStatus)
      (\<lambda>w. w\<lparr>wd_Status := newStatus, wd_UpdatedAt := now\<rparr>)"

definition wdrepo_UpdateForSubmission ::
    "time \<Rightarrow> uuid \<Rightarrow> ext_ref \<Rightarrow> string \<Rightarrow> string \<Rightarrow> withdrawal list \<Rightarrow> withdrawal list" where
  "wdrepo_UpdateForSubmission now i externalReferenceID gatewayReferenceNo gatewayResponse rows =
    snd (update_where (\<lambda>w. wd_ID w = i \<and> wd_Status w = WithdrawalProcessing)
      (\<lambda>w. w\<lparr>wd_Status := WithdrawalSubmitted, wd_ExternalReferenceID := externalReferenceID,
             wd_GatewayReferenceNo := gatewayReferenceNo, wd_GatewayResponse := gatewayResponse,
             wd_SubmittedAt := unix now, wd_UpdatedAt := now\<rparr>) rows)"

definition wdrepo_EnsureExternalReference ::
    "time \<Rightarrow> uuid \<Rightarrow> withdrawal list \<Rightarrow> ext_ref \<times> withdrawal list" where
  "wdrepo_EnsureExternalReference now i rows =
    (case find (\<lambda>w. wd_ID w = i \<and> wd_ExternalReferenceID w \<noteq> None) rows of
       Some w \<Rightarrow> (wd_ExternalReferenceID w, rows)
     | None \<Rightarrow>
         let newRef = Some (i, unix now)
         in (newRef, snd (update_where (\<lambda>w. wd_ID w = i \<and> wd_ExternalReferenceID w = None)
              (\<lambda>w. w\<lparr>wd_ExternalReferenceID := newRef, wd_UpdatedAt := now\<rparr>) rows)))"

definition wdrepo_MarkFailed ::
    "time \<Rightarrow> uuid \<Rightarrow> WithdrawalStatus \<Rightarrow> string \<Rightarrow> string \<Rightarrow> withdrawal list \<Rightarrow> withdraw_error + withdrawal list" where
  "wdrepo_MarkFailed now i newStatus failureReason gatewayResponse rows =
    (let (n, rows') = update_where
           (\<lambda>w. wd_ID w = i \<and> wd_Status w \<in> set [WithdrawalProcessing, WithdrawalSubmitted, WithdrawalSettling,
              WithdrawalFailedRetryable])
           (\<lambda>w. w\<lparr>wd_Status := newStatus, wd_FailureReason := failureReason,
                  wd_GatewayResponse := gatewayResponse, wd_UpdatedAt := now\<rparr>) rows
     in if n = 0 then Inl (WdMarkFailedInvalidState i) else Inr rows')"

definition wdrepo_MarkSettling :: "time \<Rightarrow> uuid \<Rightarrow> string \<Rightarrow> withdrawal list \<Rightarrow> withdrawal list" where
  "wdrepo_MarkSettling now i gatewayResponse rows =
    snd (update_where (\<lambda>w. wd_ID w = i \<and> wd_Status w = WithdrawalSubmitted)
      (\<lambda>w. w\<lparr>wd_Status := WithdrawalSettling, wd_GatewayResponse := gatewayResponse, wd_UpdatedAt := now\<rparr>) rows)"

definition wdrepo_MarkSettled :: "time \<Rightarrow> uuid \<Rightarrow> string \<Rightarrow> withdrawal list \<Rightarrow> withdrawal list" where
  "wdrepo_MarkSettled now i gatewayResponse rows =
    snd (update_where (\<lambda>w. wd_ID w = i \<and> wd_Status w \<in> set [WithdrawalSubmitted, WithdrawalSettling])
      (\<lambda>w. w\<lparr>wd_Status := WithdrawalSettled, wd_GatewayResponse := gatewayResponse,
             wd_SettledAt := unix now, wd_UpdatedAt := now\<rparr>) rows)"

definition wdrepo_MarkPilotBlocked :: "time \<Rightarrow> uuid \<Rightarrow> withdrawal list \<Rightarrow> withdrawal list" where
  "wdrepo_MarkPilotBlocked now i rows =
    snd (update_where (\<lambda>w. wd_ID w = i \<and> wd_Status w = WithdrawalProcessing)
      (\<lambda>w. w\<lparr>wd_Status := WithdrawalPilotBlocked, wd_FailureReason := ''Seller not in pilot whitelist'',
             wd_UpdatedAt := now\<rparr>) rows)"

text \<open>No code calls this one.\<close>

definition wdrepo_UnblockPilotBlocked :: "time \<Rightarrow> uuid \<Rightarrow> withdrawal list \<Rightarrow> withdrawal list" where
  "wdrepo_UnblockPilotBlocked now i rows =
    snd (update_where (\<lambda>w. wd_ID w = i \<and> wd_Status w = WithdrawalPilotBlocked)
      (\<lambda>w. w\<lparr>wd_Status := WithdrawalProcessing, wd_FailureReason := '''', wd_UpdatedAt := now\<rparr>) rows)"

definition wdrepo_IncrementRetryCount :: "time \<Rightarrow> uuid \<Rightarrow> withdrawal list \<Rightarrow> withdrawal list" where
  "wdrepo_IncrementRetryCount now i rows =
    snd (update_where (\<lambda>w. wd_ID w = i)
      (\<lambda>w. w\<lparr>wd_RetryCount := wd_RetryCount w + 1, wd_UpdatedAt := now\<rparr>) rows)"

definition wdrepo_ResetRetryCount :: "time \<Rightarrow> uuid \<Rightarrow> withdrawal list \<Rightarrow> withdrawal list" where
  "wdrepo_ResetRetryCount now i rows =
    snd (update_where (\<lambda>w. wd_ID w = i) (\<lambda>w. w\<lparr>wd_RetryCount := 0, wd_UpdatedAt := now\<rparr>) rows)"

section \<open>The queues of the workers\<close>

definition wdrepo_GetEligibleForSubmission :: "nat \<Rightarrow> withdrawal list \<Rightarrow> withdrawal list" where
  "wdrepo_GetEligibleForSubmission limit rows =
    take limit (sort_key wd_CreatedAt (filter (\<lambda>w. wd_Status w = WithdrawalProcessing) rows))"

definition awaiting_settlement :: "withdrawal \<Rightarrow> bool" where
  "awaiting_settlement w \<longleftrightarrow> wd_Status w = WithdrawalSubmitted \<or> wd_Status w = WithdrawalSettling"

definition wdrepo_GetPendingSettlement :: "nat \<Rightarrow> withdrawal list \<Rightarrow> withdrawal list" where
  "wdrepo_GetPendingSettlement limit rows =
    take limit (sort_key wd_SubmittedAt (filter awaiting_settlement rows))"

definition MaxRetries :: int where
  "MaxRetries = 5"

definition retry_backoff :: "int \<Rightarrow> int" where
  "retry_backoff n = (if n = 0 then 0 else if n = 1 then 2 else if n = 2 then 4 else if n = 3 then 8
     else if n = 4 then 16 else 32)"

definition wdrepo_GetRetryableWithdrawals :: "time \<Rightarrow> nat \<Rightarrow> withdrawal list \<Rightarrow> withdrawal list" where
  "wdrepo_GetRetryableWithdrawals now limit rows =
    take limit (sort_key wd_RetryCount (sort_key wd_CreatedAt
      (filter (\<lambda>w. wd_Status w = WithdrawalFailedRetryable \<and> wd_RetryCount w < MaxRetries
         \<and> now - wd_UpdatedAt w > retry_backoff (wd_RetryCount w) * second) rows)))"

definition wdrepo_GetStuckPayouts :: "time \<Rightarrow> nat \<Rightarrow> withdrawal list \<Rightarrow> withdrawal list" where
  "wdrepo_GetStuckPayouts cutoff limit rows =
    take limit (sort_key wd_UpdatedAt
      (filter (\<lambda>w. awaiting_settlement w \<and> wd_UpdatedAt w < cutoff) rows))"

definition wdrepo_GetReconciliationCandidates :: "int \<Rightarrow> nat \<Rightarrow> withdrawal list \<Rightarrow> withdrawal list" where
  "wdrepo_GetReconciliationCandidates maxSubmittedAt limit rows =
    take limit (sort_key wd_SubmittedAt
      (filter (\<lambda>w. awaiting_settlement w \<and> wd_SubmittedAt w > 0 \<and> wd_GatewayReferenceNo w \<noteq> ''''
         \<and> wd_SubmittedAt w \<le> maxSubmittedAt) rows))"

definition all_withdrawal_statuses :: "WithdrawalStatus list" where
  "all_withdrawal_statuses = [WithdrawalRequested, WithdrawalProcessing, WithdrawalSubmitted, WithdrawalSettling,
     WithdrawalSettled, WithdrawalFailedRetryable, WithdrawalFailedFinal, WithdrawalPilotBlocked,
     WithdrawalCompleted, WithdrawalFailed]"

definition wdrepo_GetStatusCounts :: "withdrawal list \<Rightarrow> (WithdrawalStatus \<times> nat) list" where
  "wdrepo_GetStatusCounts rows =
    filter (\<lambda>(s, n). n > 0)
      (map (\<lambda>s. (s, length (filter (\<lambda>w. wd_Status w = s) rows))) all_withdrawal_statuses)"

section \<open>Listing\<close>

datatype withdrawal_sort =
  SortNone | SortCreatedAt | SortUpdatedAt | SortAmount | SortStatus | SortSubmittedAt | SortSettledAt

record WithdrawalListFilters =
  wf_Status :: "WithdrawalStatus option"
  wf_SellerID :: "uuid option"
  wf_SortBy :: withdrawal_sort
  wf_SortDesc :: bool
  wf_Page :: int
  wf_PageSize :: int

definition listed :: "WithdrawalListFilters \<Rightarrow> withdrawal \<Rightarrow> bool" where
  "listed f w \<longleftrightarrow> (case wf_Status f of None \<Rightarrow> True | Some s \<Rightarrow> wd_Status w = s)
     \<and> (case wf_SellerID f of None \<Rightarrow> True | Some i \<Rightarrow> wd_SellerID w = i)"

text \<open>A status sorts by its place in the database's enumeration, \<open>all_withdrawal_statuses\<close>.\<close>

fun list_key :: "withdrawal_sort \<Rightarrow> withdrawal \<Rightarrow> int" where
  "list_key SortNone w = wd_CreatedAt w"
| "list_key SortCreatedAt w = wd_CreatedAt w"
| "list_key SortUpdatedAt w = wd_UpdatedAt w"
| "list_key SortAmount w = wd_Amount w"
| "list_key SortStatus w = int (length (takeWhile (\<lambda>s. s \<noteq> wd_Status w) all_withdrawal_statuses))"
| "list_key SortSubmittedAt w = wd_SubmittedAt w"
| "list_key SortSettledAt w = wd_SettledAt w"

definition wdrepo_ListWithFilters :: "WithdrawalListFilters \<Rightarrow> withdrawal list \<Rightarrow> withdraw_error + withdrawal list" where
  "wdrepo_ListWithFilters f rows =
    (let descending = (wf_SortBy f = SortNone \<or> wf_SortDesc f);
         key = (\<lambda>w. if descending then - list_key (wf_SortBy f) w else list_key (wf_SortBy f) w);
         limit = wf_PageSize f;
         offset = (wf_Page f - 1) * wf_PageSize f
     in if limit < 0 \<or> offset < 0 then Inl WdQueryFailed
        else Inr (take (nat limit) (drop (nat offset) (sort_key key (filter (listed f) rows)))))"

definition wdrepo_CountWithFilters :: "WithdrawalListFilters \<Rightarrow> withdrawal list \<Rightarrow> nat" where
  "wdrepo_CountWithFilters f rows = length (filter (listed f) rows)"

end
