(* ===== verification/Withdrawals.thy ===== *)
theory Withdrawals
  imports WithdrawStore
begin

text \<open>
  Withdrawals end to end: \<open>finance/application/withdraw_service.go\<close> (request,
  approve, reject, manual completion), \<open>finance/worker/payout_worker.go\<close> (the
  submission to the payment gateway), \<open>webhook_handler.go\<close> (what the gateway
  reports back) and \<open>payout_reconciliation.go\<close> (asking it). The state is the
  table of withdrawals, the ledger, and the requests the gateway has been sent.
  Each service call is one database transaction: an error leaves the state as
  it was. The worker calls the gateway between two transactions, so its sending
  and its bookkeeping are separate steps. The gateway's answers, the account
  checks of other domains and the configured fee are arguments. Audit records,
  notifications, metrics and logs are left out.
\<close>

datatype PayoutResponseStatus =
  PayoutSuccess | PayoutPending | PayoutFailed | PayoutRejected | PayoutUnknown

datatype PayoutErrorType = ErrorTypeRetryable | ErrorTypePermanent | ErrorTypeNone

record PayoutGatewayRequest =
  rq_ExternalReferenceID :: "uuid \<times> int"
  rq_Amount :: i64
  rq_Currency :: string
  rq_BankName :: string
  rq_AccountNumber :: string
  rq_AccountHolder :: string
  rq_WithdrawalID :: uuid
  rq_SellerID :: uuid

record PayoutGatewayResponse =
  rs_Status :: PayoutResponseStatus
  rs_GatewayReferenceID :: string
  rs_Message :: string
  rs_RawResponse :: string
  rs_ErrorType :: PayoutErrorType

definition response_IsSuccess :: "PayoutGatewayResponse \<Rightarrow> bool" where
  "response_IsSuccess p \<longleftrightarrow> rs_Status p = PayoutSuccess \<or> rs_Status p = PayoutPending"

definition response_IsRetryable :: "PayoutGatewayResponse \<Rightarrow> bool" where
  "response_IsRetryable p \<longleftrightarrow> rs_Status p = PayoutFailed \<and> rs_ErrorType p = ErrorTypeRetryable"

record withdraw_state =
  ws_Rows :: "withdrawal list"
  ws_Ledger :: ledger
  ws_Sent :: "PayoutGatewayRequest list"

text \<open>What the other domains answer during one request.\<close>

record withdraw_reads =
  re_Active :: bool
  re_Verified :: bool
  re_DefaultBank :: "(uuid \<times> bank_snapshot) option"
  re_Reviewed :: bool
  re_Fee :: i64

definition wfin :: "finance_error + 'a \<Rightarrow> withdraw_error + 'a" where
  "wfin = map_sum WdFinance id"

definition wled :: "ledger_error + 'a \<Rightarrow> withdraw_error + 'a" where
  "wled = map_sum WdLedger id"

definition wmoney :: "money_panic + 'a \<Rightarrow> withdraw_error + 'a" where
  "wmoney = map_sum WdMoneyPanic id"

definition wcheck :: "bool \<Rightarrow> withdraw_error \<Rightarrow> withdraw_error + unit" where
  "wcheck b e = (if b then Inr () else Inl e)"

lemma wsum_Inr [simp]:
  "wfin m = Inr y \<longleftrightarrow> m = Inr y" "wled m' = Inr y \<longleftrightarrow> m' = Inr y" "wmoney m'' = Inr y \<longleftrightarrow> m'' = Inr y"
  "wcheck b e = Inr u \<longleftrightarrow> b"
  by (cases m; cases m'; cases m''; simp add: wfin_def wled_def wmoney_def wcheck_def)+

section \<open>The service\<close>

definition MaxWithdrawalAmount :: i64 where
  "MaxWithdrawalAmount = 50000000"

definition MinWithdrawalAmount :: i64 where
  "MinWithdrawalAmount = 10000"

type_synonym new_ids = "uuid \<times> uuid \<times> uuid"

definition RequestWithdrawal ::
    "time \<Rightarrow> new_ids \<Rightarrow> uuid \<Rightarrow> withdraw_reads \<Rightarrow> uuid \<Rightarrow> i64 \<Rightarrow> withdraw_state \<Rightarrow> withdraw_error + withdraw_state" where
  "RequestWithdrawal now ids withdrawalID env sellerID amount st =
    (case ids of (newID, newID2, txID) \<Rightarrow>
    sum_bind (wcheck (sellerID \<noteq> uuid_nil) WdSellerRequired) (\<lambda>_.
    sum_bind (wcheck (\<not> (amount < MinWithdrawalAmount \<or> amount > MaxWithdrawalAmount))
      (WdAmountOutOfRange amount MinWithdrawalAmount MaxWithdrawalAmount)) (\<lambda>_.
    sum_bind (wcheck (re_Active env) WdSellerNotActive) (\<lambda>_.
    sum_bind (wcheck (re_Verified env) (WdSellerNotVerified sellerID)) (\<lambda>_.
    sum_bind (wfin (AssertSellerWithdrawalAllowed newID sellerID amount (ws_Ledger st))) (\<lambda>(summary, L1).
    case wdrepo_GetActiveBySellerID sellerID (ws_Rows st) of
      Some active \<Rightarrow> Inl (WdPendingExists sellerID (wd_ID active) (wd_Status active))
    | None \<Rightarrow>
    (case re_DefaultBank env of None \<Rightarrow> Inl (WdNoDefaultBankAccount sellerID)
    | Some (bankID, bank) \<Rightarrow>
    sum_bind (wcheck (re_Reviewed env) (WdBankAccountNotReviewed sellerID bankID)) (\<lambda>_.
    sum_bind (wdrepo_CreateWithIdempotency now withdrawalID sellerID amount (re_Fee env) WithdrawalRequested
      (RequestKey withdrawalID) bank (ws_Rows st)) (\<lambda>rows1.
    sum_bind (wfin (RecordWithdrawalRequest newID2 txID sellerID amount (re_Fee env) withdrawalID L1)) (\<lambda>L2.
    Inr (st\<lparr>ws_Rows := rows1, ws_Ledger := L2\<rparr>)))))))))))"

definition may_review :: "uuid \<Rightarrow> bool \<Rightarrow> withdraw_error + unit" where
  "may_review callerID hasCapability =
    sum_bind (wcheck (ValidateCaller callerID) WdInvalidCaller) (\<lambda>_.
    wcheck (IsSystemCaller callerID \<or> hasCapability) WdForbidden)"

definition ApproveWithdraw ::
    "time \<Rightarrow> new_ids \<Rightarrow> uuid \<Rightarrow> bool \<Rightarrow> bool \<Rightarrow> uuid \<Rightarrow> withdraw_state \<Rightarrow> withdraw_error + withdraw_state" where
  "ApproveWithdraw now ids callerID hasCapability sellerVerified withdrawID st =
    (case ids of (newID, newID2, txID) \<Rightarrow>
    sum_bind (may_review callerID hasCapability) (\<lambda>_.
    sum_bind (wdrepo_LockForUpdate withdrawID (ws_Rows st)) (\<lambda>w.
    sum_bind (wcheck (wd_Status w = WithdrawalRequested) (WdWrongStatus (wd_Status w))) (\<lambda>_.
    sum_bind (wcheck sellerVerified (WdSellerNotVerified (wd_SellerID w))) (\<lambda>_.
    sum_bind (wfin (RecordWithdrawalCommit txID (wd_SellerID w) (wd_Amount w) (wd_FeeAmount w) withdrawID
      (ws_Ledger st))) (\<lambda>L1.
    let (n, rows1) = wdrepo_UpdateStatusWithCheck now withdrawID WithdrawalRequested WithdrawalProcessing (ws_Rows st)
    in if n = 0 then Inl WdTransitionRace
       else Inr (st\<lparr>ws_Rows := rows1, ws_Ledger := L1\<rparr>)))))))"

definition RejectWithdraw ::
    "time \<Rightarrow> new_ids \<Rightarrow> uuid \<Rightarrow> bool \<Rightarrow> uuid \<Rightarrow> withdraw_state \<Rightarrow> withdraw_error + withdraw_state" where
  "RejectWithdraw now ids callerID hasCapability withdrawID st =
    (case ids of (newID, newID2, txID) \<Rightarrow>
    sum_bind (may_review callerID hasCapability) (\<lambda>_.
    sum_bind (wdrepo_LockForUpdate withdrawID (ws_Rows st)) (\<lambda>w.
    sum_bind (if wd_Status w = WithdrawalRequested
      then wfin (RecordWithdrawalReject newID txID (wd_SellerID w) (wd_Amount w) (wd_FeeAmount w) withdrawID (ws_Ledger st))
      else if wd_Status w = WithdrawalProcessing
      then wfin (RecordWithdrawalRestore newID txID (wd_SellerID w) (wd_Amount w) (wd_FeeAmount w) withdrawID (ws_Ledger st))
      else Inl (WdWrongStatus (wd_Status w))) (\<lambda>L1.
    let (n, rows1) = wdrepo_UpdateStatus now withdrawID WithdrawalFailed (ws_Rows st)
    in if n = 0 then Inl WdTransitionRace
       else Inr (st\<lparr>ws_Rows := rows1, ws_Ledger := L1\<rparr>)))))"

definition MarkProcessed ::
    "time \<Rightarrow> new_ids \<Rightarrow> uuid \<Rightarrow> bool \<Rightarrow> uuid \<Rightarrow> withdraw_state \<Rightarrow> withdraw_error + withdraw_state" where
  "MarkProcessed now ids callerID hasCapability withdrawID st =
    (case ids of (newID, newID2, txID) \<Rightarrow>
    sum_bind (may_review callerID hasCapability) (\<lambda>_.
    sum_bind (wdrepo_LockForUpdate withdrawID (ws_Rows st)) (\<lambda>w.
    sum_bind (wcheck (wd_Status w = WithdrawalProcessing) (WdWrongStatus (wd_Status w))) (\<lambda>_.
    sum_bind (wcheck (wd_ExternalReferenceID w = None) (WdAlreadySubmitted (wd_ExternalReferenceID w))) (\<lambda>_.
    sum_bind (wfin (RecordWithdrawalComplete txID (wd_SellerID w) (wd_Amount w) (wd_FeeAmount w) withdrawID
      (ws_Ledger st))) (\<lambda>L1.
    let (n, rows1) = wdrepo_UpdateStatusWithCheck now withdrawID WithdrawalProcessing WithdrawalCompleted (ws_Rows st)
    in if n = 0 then Inl WdTransitionRace
       else Inr (st\<lparr>ws_Rows := rows1, ws_Ledger := L1\<rparr>)))))))"

definition GetWithdrawal :: "uuid \<Rightarrow> withdraw_state \<Rightarrow> withdraw_error + withdrawal" where
  "GetWithdrawal withdrawID st = wdrepo_GetByID withdrawID (ws_Rows st)"

definition ListWithdrawalsBySeller ::
    "uuid \<Rightarrow> int \<Rightarrow> int \<Rightarrow> withdraw_state \<Rightarrow> withdraw_error + withdrawal list \<times> nat" where
  "ListWithdrawalsBySeller sellerID limit offset st =
    (let limit1 = (if limit \<le> 0 then 20 else limit);
         limit2 = (if limit1 > 100 then 100 else limit1);
         page = (if offset > 0 then offset div limit2 + 1 else 1);
         filters = \<lparr>wf_Status = None, wf_SellerID = Some sellerID, wf_SortBy = SortNone, wf_SortDesc = False,
           wf_Page = page, wf_PageSize = limit2\<rparr>
     in sum_bind (wdrepo_ListWithFilters filters (ws_Rows st)) (\<lambda>withdrawals.
        Inr (withdrawals, wdrepo_CountWithFilters filters (ws_Rows st))))"

section \<open>The payout worker\<close>

record payout_config =
  cf_EnablePilotMode :: bool
  cf_PilotWhitelist :: "uuid list"
  cf_BatchSize :: nat
  cf_RetryBatchSize :: nat

definition DefaultPayoutWorkerConfig :: payout_config where
  "DefaultPayoutWorkerConfig = \<lparr>cf_EnablePilotMode = True, cf_PilotWhitelist = [], cf_BatchSize = 10,
     cf_RetryBatchSize = 5\<rparr>"

definition ValidatePayoutWorkerConfig :: "payout_config \<Rightarrow> withdraw_error option" where
  "ValidatePayoutWorkerConfig cfg =
    (if cf_EnablePilotMode cfg \<and> length (cf_PilotWhitelist cfg) = 0 then Some WdPayoutConfigInvalid else None)"

fun ensure_references :: "time \<Rightarrow> withdrawal list \<Rightarrow> withdrawal list \<Rightarrow> withdrawal list \<times> withdrawal list" where
  "ensure_references now [] rows = ([], rows)"
| "ensure_references now (w # ws) rows =
     (let (w1, rows1) =
            (if wd_ExternalReferenceID w = None
             then (case wdrepo_EnsureExternalReference now (wd_ID w) rows of
                     (extRef, rows1) \<Rightarrow> (w\<lparr>wd_ExternalReferenceID := extRef\<rparr>, rows1))
             else (w, rows));
          (ws1, rows2) = ensure_references now ws rows1
      in (w1 # ws1, rows2))"

definition findEligibleWithdrawals :: "time \<Rightarrow> nat \<Rightarrow> withdraw_state \<Rightarrow> withdrawal list \<times> withdraw_state" where
  "findEligibleWithdrawals now limit st =
    (case ensure_references now (wdrepo_GetEligibleForSubmission limit (ws_Rows st)) (ws_Rows st) of
       (ws, rows1) \<Rightarrow> (ws, st\<lparr>ws_Rows := rows1\<rparr>))"

definition findRetryableWithdrawals :: "time \<Rightarrow> nat \<Rightarrow> withdraw_state \<Rightarrow> withdrawal list" where
  "findRetryableWithdrawals now limit st = wdrepo_GetRetryableWithdrawals now limit (ws_Rows st)"

definition markSubmissionSuccess ::
    "time \<Rightarrow> uuid \<Rightarrow> ext_ref \<Rightarrow> string \<Rightarrow> string \<Rightarrow> withdraw_state \<Rightarrow> withdraw_state" where
  "markSubmissionSuccess now withdrawalID externalRef gatewayRefNo gatewayResponse st =
    st\<lparr>ws_Rows := wdrepo_ResetRetryCount now withdrawalID
         (wdrepo_UpdateForSubmission now withdrawalID externalRef gatewayRefNo gatewayResponse (ws_Rows st))\<rparr>"

text \<open>The worker and the webhook return a failed payout to the seller under the same key.\<close>

definition gateway_restore :: "new_ids \<Rightarrow> withdrawal \<Rightarrow> ledger \<Rightarrow> withdraw_error + ledger" where
  "gateway_restore ids w L =
    (case ids of (newID, newID2, txID) \<Rightarrow>
    let amountMoney = money_New (wd_Amount w) in
    sum_bind (wled (ledger_GetSystemAccountID AccountWithdrawalCommitted L)) (\<lambda>withdrawalCommittedID.
    let (sellerPayableID, L1) = ledger_GetOrCreateUserAccount newID AccountSellerPayable (wd_SellerID w) L
    in sum_bind (wmoney (money_Neg amountMoney)) (\<lambda>neg.
       wled (ledger_CreateTransaction txID (KeyUuid ''withdrawal_gateway_restore_'' (wd_ID w))
         ''WITHDRAWAL_FAIL_RETURN'' (wd_ID w) None None
         [\<lparr>en_AccountID = withdrawalCommittedID, en_Amount = amountMoney\<rparr>,
          \<lparr>en_AccountID = sellerPayableID, en_Amount = neg\<rparr>] L1))))"

definition markSubmissionFailed ::
    "time \<Rightarrow> new_ids \<Rightarrow> uuid \<Rightarrow> PayoutErrorType \<Rightarrow> string \<Rightarrow> withdraw_state \<Rightarrow> withdraw_error + withdraw_state" where
  "markSubmissionFailed now ids withdrawalID errorType reason st =
    (let retryable = (errorType = ErrorTypeRetryable);
         newStatus = (if retryable then WithdrawalFailedRetryable else WithdrawalFailedFinal);
         rows1 = (if retryable then wdrepo_IncrementRetryCount now withdrawalID (ws_Rows st) else ws_Rows st) in
     sum_bind (wdrepo_LockForUpdate withdrawalID rows1) (\<lambda>w.
     if withdrawalStatus_IsFinal (wd_Status w) then Inr (st\<lparr>ws_Rows := rows1\<rparr>)
     else
       sum_bind (if errorType = ErrorTypePermanent then gateway_restore ids w (ws_Ledger st)
                 else Inr (ws_Ledger st)) (\<lambda>L1.
       sum_bind (wdrepo_MarkFailed now withdrawalID newStatus reason '''' rows1) (\<lambda>rows2.
       Inr (st\<lparr>ws_Rows := rows2, ws_Ledger := L1\<rparr>)))))"

definition markPilotBlocked :: "time \<Rightarrow> uuid \<Rightarrow> withdraw_state \<Rightarrow> withdraw_state" where
  "markPilotBlocked now withdrawalID st =
    st\<lparr>ws_Rows := wdrepo_MarkPilotBlocked now withdrawalID (ws_Rows st)\<rparr>"

definition pilot_blocks :: "payout_config \<Rightarrow> withdrawal \<Rightarrow> bool" where
  "pilot_blocks cfg w \<longleftrightarrow> cf_EnablePilotMode cfg \<and> wd_SellerID w \<notin> set (cf_PilotWhitelist cfg)"

definition payout_request :: "time \<Rightarrow> withdrawal \<Rightarrow> PayoutGatewayRequest" where
  "payout_request now w =
    \<lparr>rq_ExternalReferenceID = (case wd_ExternalReferenceID w of None \<Rightarrow> (wd_ID w, unix now) | Some r \<Rightarrow> r),
     rq_Amount = wrap64 (wd_Amount w - wd_FeeAmount w), rq_Currency = ''IDR'',
     rq_BankName = bk_BankName (wd_Bank w), rq_AccountNumber = bk_AccountNumber (wd_Bank w),
     rq_AccountHolder = bk_AccountHolder (wd_Bank w), rq_WithdrawalID = wd_ID w, rq_SellerID = wd_SellerID w\<rparr>"

text \<open>What happens once the gateway has answered; an error of the call itself is \<open>Inl\<close>.\<close>

definition record_response ::
    "time \<Rightarrow> new_ids \<Rightarrow> PayoutGatewayRequest \<Rightarrow> string + PayoutGatewayResponse \<Rightarrow> withdraw_state
      \<Rightarrow> withdraw_error + withdraw_state" where
  "record_response now ids req answer st =
    (case answer of
       Inl err \<Rightarrow> markSubmissionFailed now ids (rq_WithdrawalID req) ErrorTypeRetryable err st
     | Inr resp \<Rightarrow>
         if response_IsSuccess resp
         then Inr (markSubmissionSuccess now (rq_WithdrawalID req) (Some (rq_ExternalReferenceID req))
           (rs_GatewayReferenceID resp) (rs_RawResponse resp) st)
         else if response_IsRetryable resp
         then markSubmissionFailed now ids (rq_WithdrawalID req) ErrorTypeRetryable (rs_Message resp) st
         else markSubmissionFailed now ids (rq_WithdrawalID req) ErrorTypePermanent (rs_Message resp) st)"

text \<open>An error of the bookkeeping is logged; the request has been sent all the same.\<close>

definition commit :: "withdraw_error + withdraw_state \<Rightarrow> withdraw_state \<Rightarrow> withdraw_state" where
  "commit m st = (case m of Inl _ \<Rightarrow> st | Inr st1 \<Rightarrow> st1)"

definition send_request :: "PayoutGatewayRequest \<Rightarrow> withdraw_state \<Rightarrow> withdraw_state" where
  "send_request req st = st\<lparr>ws_Sent := ws_Sent st @ [req]\<rparr>"

definition submitWithdrawal ::
    "payout_config \<Rightarrow> time \<Rightarrow> new_ids \<Rightarrow> (PayoutGatewayRequest \<Rightarrow> string + PayoutGatewayResponse) \<Rightarrow> withdrawal
      \<Rightarrow> withdraw_state \<Rightarrow> withdraw_state" where
  "submitWithdrawal cfg now ids gateway w st =
    (if pilot_blocks cfg w then markPilotBlocked now (wd_ID w) st
     else
       let req = payout_request now w;
           st1 = send_request req st
       in commit (record_response now ids req (gateway req) st1) st1)"

definition processPendingWithdrawals ::
    "payout_config \<Rightarrow> time \<Rightarrow> (uuid \<Rightarrow> new_ids) \<Rightarrow> (PayoutGatewayRequest \<Rightarrow> string + PayoutGatewayResponse)
      \<Rightarrow> withdraw_state \<Rightarrow> withdraw_state" where
  "processPendingWithdrawals cfg now ids gateway st =
    (case findEligibleWithdrawals now (cf_BatchSize cfg) st of
       (withdrawals, st1) \<Rightarrow>
         fold (\<lambda>w. submitWithdrawal cfg now (ids (wd_ID w)) gateway w) withdrawals st1)"

definition processRetryableWithdrawals ::
    "payout_config \<Rightarrow> time \<Rightarrow> (uuid \<Rightarrow> new_ids) \<Rightarrow> (PayoutGatewayRequest \<Rightarrow> string + PayoutGatewayResponse)
      \<Rightarrow> withdraw_state \<Rightarrow> withdraw_state" where
  "processRetryableWithdrawals cfg now ids gateway st =
    fold (\<lambda>w. submitWithdrawal cfg now (ids (wd_ID w)) gateway w)
      (findRetryableWithdrawals now (cf_RetryBatchSize cfg) st) st"

section \<open>What the gateway reports\<close>

datatype WebhookStatus =
  WebhookSuccess | WebhookPending | WebhookFailed | WebhookRejected | WebhookUnknown

record WebhookCallback =
  cb_ExternalReferenceID :: ext_ref
  cb_GatewayReferenceID :: string
  cb_Status :: WebhookStatus
  cb_Message :: string
  cb_RawPayload :: string

definition handleSuccessCallback ::
    "time \<Rightarrow> new_ids \<Rightarrow> withdrawal \<Rightarrow> WebhookCallback \<Rightarrow> withdraw_state \<Rightarrow> withdraw_error + withdraw_state" where
  "handleSuccessCallback now ids w callback st =
    (case ids of (newID, newID2, txID) \<Rightarrow>
    sum_bind (wcheck (awaiting_settlement w) (WdInvalidStateTransition (wd_Status w) WithdrawalSettled)) (\<lambda>_.
    let amountMoney = money_New (wd_Amount w); feeMoney = money_New (wd_FeeAmount w); L = ws_Ledger st in
    sum_bind (wmoney (money_Sub amountMoney feeMoney)) (\<lambda>netPayoutMoney.
    sum_bind (wled (ledger_GetSystemAccountID AccountWithdrawalCommitted L)) (\<lambda>withdrawalCommittedID.
    sum_bind (wled (ledger_GetSystemAccountID AccountPlatformBank L)) (\<lambda>platformBankID.
    sum_bind (wled (ledger_GetSystemAccountID AccountPlatformRevenue L)) (\<lambda>platformRevenueID.
    sum_bind (wmoney (money_Neg netPayoutMoney)) (\<lambda>negNet.
    sum_bind (wmoney (money_Neg feeMoney)) (\<lambda>negFee.
    sum_bind (wled (ledger_CreateTransaction txID (KeyUuid ''withdraw_settle_'' (wd_ID w)) ''WITHDRAWAL_SETTLE''
      (wd_ID w) None None
      [\<lparr>en_AccountID = withdrawalCommittedID, en_Amount = amountMoney\<rparr>,
       \<lparr>en_AccountID = platformBankID, en_Amount = negNet\<rparr>,
       \<lparr>en_AccountID = platformRevenueID, en_Amount = negFee\<rparr>] L)) (\<lambda>L1.
    Inr (st\<lparr>ws_Rows := wdrepo_MarkSettled now (wd_ID w) (cb_RawPayload callback) (ws_Rows st),
           ws_Ledger := L1\<rparr>))))))))))"

definition handlePendingCallback ::
    "time \<Rightarrow> withdrawal \<Rightarrow> WebhookCallback \<Rightarrow> withdraw_state \<Rightarrow> withdraw_error + withdraw_state" where
  "handlePendingCallback now w callback st =
    (if wd_Status w = WithdrawalSettling then Inl WdDuplicateCallback
     else if wd_Status w \<noteq> WithdrawalSubmitted
     then Inl (WdInvalidStateTransition (wd_Status w) WithdrawalSettling)
     else Inr (st\<lparr>ws_Rows := wdrepo_MarkSettling now (wd_ID w) (cb_RawPayload callback) (ws_Rows st)\<rparr>))"

definition handleFailedCallback ::
    "time \<Rightarrow> new_ids \<Rightarrow> withdrawal \<Rightarrow> WebhookCallback \<Rightarrow> withdraw_state \<Rightarrow> withdraw_error + withdraw_state" where
  "handleFailedCallback now ids w callback st =
    sum_bind (wcheck (awaiting_settlement w) (WdInvalidStateTransition (wd_Status w) WithdrawalFailedFinal)) (\<lambda>_.
    sum_bind (gateway_restore ids w (ws_Ledger st)) (\<lambda>L1.
    let reason = (if cb_Message callback = '''' then ''Gateway reported failure via webhook'' else cb_Message callback) in
    sum_bind (wdrepo_MarkFailed now (wd_ID w) WithdrawalFailedFinal reason (cb_RawPayload callback) (ws_Rows st))
      (\<lambda>rows1. Inr (st\<lparr>ws_Rows := rows1, ws_Ledger := L1\<rparr>))))"

definition HandleCallback ::
    "time \<Rightarrow> new_ids \<Rightarrow> WebhookCallback \<Rightarrow> withdraw_state \<Rightarrow> withdraw_error + withdraw_state" where
  "HandleCallback now ids callback st =
    sum_bind (wdrepo_GetByExternalReference (cb_ExternalReferenceID callback) (ws_Rows st)) (\<lambda>w.
    if withdrawalStatus_IsFinal (wd_Status w) then Inl WdDuplicateCallback
    else case cb_Status callback of
      WebhookSuccess \<Rightarrow> handleSuccessCallback now ids w callback st
    | WebhookPending \<Rightarrow> handlePendingCallback now w callback st
    | WebhookFailed \<Rightarrow> handleFailedCallback now ids w callback st
    | WebhookRejected \<Rightarrow> handleFailedCallback now ids w callback st
    | WebhookUnknown \<Rightarrow> Inr st)"

section \<open>Reconciliation with the gateway\<close>

definition IrisTimingBuffer :: time where
  "IrisTimingBuffer = 10 * minute"

definition MaxReconciliationBatchSize :: nat where
  "MaxReconciliationBatchSize = 50"

definition GetReconciliationCandidates :: "time \<Rightarrow> withdraw_state \<Rightarrow> withdrawal list" where
  "GetReconciliationCandidates now st =
    wdrepo_GetReconciliationCandidates (unix (now - IrisTimingBuffer)) MaxReconciliationBatchSize (ws_Rows st)"

definition MapGatewayStatusToCallback :: "ext_ref \<Rightarrow> string \<Rightarrow> string \<Rightarrow> string \<Rightarrow> WebhookCallback" where
  "MapGatewayStatusToCallback externalReferenceID gatewayReferenceNo gatewayStatus errorMessage =
    \<lparr>cb_ExternalReferenceID = externalReferenceID, cb_GatewayReferenceID = gatewayReferenceNo,
     cb_Status = (if gatewayStatus = ''completed'' then WebhookSuccess
       else if gatewayStatus = ''processed'' then WebhookPending
       else if gatewayStatus = ''queued'' then WebhookPending
       else if gatewayStatus = ''failed'' then WebhookFailed
       else WebhookUnknown),
     cb_Message = errorMessage, cb_RawPayload = ''''\<rparr>"

text \<open>The gateway's answer is its status and raw text, or an error.\<close>

definition ReconcilePayout ::
    "time \<Rightarrow> new_ids \<Rightarrow> withdrawal \<Rightarrow> unit + string \<times> string \<Rightarrow> withdraw_state
      \<Rightarrow> (string \<times> withdraw_error option) \<times> withdraw_state" where
  "ReconcilePayout now ids w answer st =
    (case answer of
       Inl _ \<Rightarrow> ((''query_failed'', Some WdGatewayQueryFailed), st)
     | Inr (status, raw) \<Rightarrow>
         let callback = MapGatewayStatusToCallback (wd_ExternalReferenceID w) (wd_GatewayReferenceNo w) status raw
         in if cb_Status callback = WebhookUnknown then ((''unknown_status'', None), st)
            else case HandleCallback now ids callback st of
              Inl e \<Rightarrow> if e = WdDuplicateCallback then ((''terminal_skipped'', None), st)
                        else ((''transition_failed'', Some e), st)
            | Inr st1 \<Rightarrow> ((''transition_applied'', None), st1))"

definition performReconciliation ::
    "time \<Rightarrow> (uuid \<Rightarrow> new_ids) \<Rightarrow> (string \<Rightarrow> unit + string \<times> string) \<Rightarrow> withdraw_state \<Rightarrow> withdraw_state" where
  "performReconciliation now ids gateway st =
    fold (\<lambda>w. snd \<circ> ReconcilePayout now (ids (wd_ID w)) w (gateway (wd_GatewayReferenceNo w)))
      (GetReconciliationCandidates now st) st"

definition classifyRetrySeverity :: "int \<Rightarrow> string" where
  "classifyRetrySeverity retryCount =
    (if retryCount \<ge> 5 then ''HIGH'' else if retryCount \<ge> 3 then ''MEDIUM'' else ''LOW'')"

end
