(* ===== verification/WithdrawalBooks.thy ===== *)
theory WithdrawalBooks
  imports Withdrawals
begin

text \<open>
  The withdrawals and the ledger together: every event of the life of a
  withdrawal, interleaved with every other operation of the finance service,
  keeps the reserves of the ledger equal to what the rows say is reserved.
\<close>

section \<open>What a transaction moves\<close>

definition withdrawal_reserves :: "AccountType set" where
  "withdrawal_reserves = {AccountWithdrawalPending, AccountWithdrawalCommitted, AccountPlatformBank}"

definition withdrawal_prefixes :: "string set" where
  "withdrawal_prefixes = {''withdrawal_request_'', ''withdrawal_commit_'', ''withdrawal_reject_'',
     ''withdrawal_restore_'', ''withdrawal_complete_'', ''withdraw_settle_'', ''withdrawal_gateway_restore_''}"

lemma entry_effect_only:
  "entry_effect ow (\<lambda>u t. u = None \<and> t = T) n = (if ow = Some (None, T) then n else 0)"
  by (auto simp: entry_effect_def split: option.splits)

lemma transact_held:
  assumes "ledger_CreateTransaction x k rt r oid pid es L = Inr L'" "rows_ok L"
    and "\<forall>e \<in> set es. in_i64 (en_Amount e)" "k \<notin> recorded_keys L"
  shows "held None T L' = held None T L + (if class_DebitIncreasesBalance (AccountClassOf T) then 1 else - 1)
    * (\<Sum>e\<leftarrow>es. if owner_of L (en_AccountID e) = Some (None, T) then en_Amount e else 0)"
  using lg.transact_moves [OF assms(2,3,1), of "\<lambda>u t. u = None \<and> t = T"] assms(4)
  by (simp add: held_signed recorded_keys_iff entry_effect_only distrib_left)

lemma opened_held:
  assumes "rows_ok L" "a \<notin> account_ids L" "t \<noteq> AccountBankSettlement" "t \<noteq> AccountPlatformBank"
  shows "rows_ok (snd (ledger_GetOrCreateUserAccount a t u L))
    \<and> held v T (snd (ledger_GetOrCreateUserAccount a t u L)) = held v T L
    \<and> owner_of (snd (ledger_GetOrCreateUserAccount a t u L)) (fst (ledger_GetOrCreateUserAccount a t u L))
        = Some (Some u, t)
    \<and> recorded_keys (snd (ledger_GetOrCreateUserAccount a t u L)) = recorded_keys L"
  using GetOrCreateUserAccount_keeps [OF assms prod.collapse [symmetric]]
  by (simp add: held_signed recorded_keys_def)

lemma opened_holder_held:
  assumes "rows_ok L" "a \<notin> account_ids L" "t \<noteq> AccountBankSettlement" "t \<noteq> AccountPlatformBank"
  shows "rows_ok (snd (ledger_GetOrCreateHolderAccount a t u h L))
    \<and> held v T (snd (ledger_GetOrCreateHolderAccount a t u h L)) = held v T L
    \<and> owner_of (snd (ledger_GetOrCreateHolderAccount a t u h L)) (fst (ledger_GetOrCreateHolderAccount a t u h L))
        = Some (Some u, t)
    \<and> recorded_keys (snd (ledger_GetOrCreateHolderAccount a t u h L)) = recorded_keys L"
  using GetOrCreateHolderAccount_keeps [OF assms prod.collapse [symmetric]]
  by (simp add: held_signed recorded_keys_def)

lemma opened_owner:
  assumes "rows_ok L" "a \<notin> account_ids L" "t \<noteq> AccountBankSettlement" "t \<noteq> AccountPlatformBank"
    and "owner_of L j = Some ow"
  shows "owner_of (snd (ledger_GetOrCreateUserAccount a t u L)) j = Some ow"
  using GetOrCreateUserAccount_keeps [OF assms(1-4) prod.collapse [symmetric]] assms(5) by auto

lemma opened_holder_owner:
  assumes "rows_ok L" "a \<notin> account_ids L" "t \<noteq> AccountBankSettlement" "t \<noteq> AccountPlatformBank"
    and "owner_of L j = Some ow"
  shows "owner_of (snd (ledger_GetOrCreateHolderAccount a t u h L)) j = Some ow"
  using GetOrCreateHolderAccount_keeps [OF assms(1-4) prod.collapse [symmetric]] assms(5) by auto

section \<open>The other operations leave the reserves alone\<close>

fun withdrawal_call :: "finance_call \<Rightarrow> bool" where
  "withdrawal_call (CallWithdrawalRequest _ _ _ _) = True"
| "withdrawal_call (CallWithdrawalCommit _ _ _ _) = True"
| "withdrawal_call (CallWithdrawalReject _ _ _ _) = True"
| "withdrawal_call (CallWithdrawalRestore _ _ _ _) = True"
| "withdrawal_call (CallWithdrawalComplete _ _ _ _) = True"
| "withdrawal_call _ = False"

definition keeps_reserves :: "ledger \<Rightarrow> ledger \<Rightarrow> bool" where
  "keeps_reserves L L' \<longleftrightarrow> (\<forall>T \<in> withdrawal_reserves. held None T L' = held None T L)
     \<and> (\<forall>p \<in> withdrawal_prefixes. \<forall>i. KeyUuid p i \<in> recorded_keys L' \<longrightarrow> KeyUuid p i \<in> recorded_keys L)"

lemma keeps_reserves_refl [simp]: "keeps_reserves L L"
  by (simp add: keeps_reserves_def)

lemma keeps_reserves_trans: "keeps_reserves L M \<Longrightarrow> keeps_reserves M N \<Longrightarrow> keeps_reserves L N"
  by (auto simp: keeps_reserves_def)

lemma opened_keeps_reserves:
  assumes "rows_ok L" "a \<notin> account_ids L" "t \<noteq> AccountBankSettlement" "t \<noteq> AccountPlatformBank"
  shows "keeps_reserves L (snd (ledger_GetOrCreateUserAccount a t u L))"
    "keeps_reserves L (snd (ledger_GetOrCreateHolderAccount a t u h L))"
  using opened_held [OF assms] opened_holder_held [OF assms] by (simp_all add: keeps_reserves_def)

text \<open>An account that is not one of the reserves.\<close>

definition other_account :: "ledger \<Rightarrow> uuid \<Rightarrow> bool" where
  "other_account L i \<longleftrightarrow> (\<exists>u t. owner_of L i = Some (u, t) \<and> (u = None \<longrightarrow> t \<notin> withdrawal_reserves))"

lemma transact_keeps_reserves:
  assumes "ledger_CreateTransaction x k rt r oid pid es L = Inr L'" "rows_ok L"
    and "\<forall>e \<in> set es. in_i64 (en_Amount e)" "\<forall>e \<in> set es. other_account L (en_AccountID e)"
    and "\<forall>p \<in> withdrawal_prefixes. \<forall>i. k \<noteq> KeyUuid p i"
  shows "keeps_reserves L L'"
proof (cases "k \<in> recorded_keys L")
  case True
  then show ?thesis using lg.transact_law [OF assms(2,3,1)] by (simp add: recorded_keys_iff)
next
  case False
  have "(\<Sum>e\<leftarrow>fs. if owner_of L (en_AccountID e) = Some (None, T) then en_Amount e else 0) = 0"
    if "T \<in> withdrawal_reserves" "\<forall>e \<in> set fs. other_account L (en_AccountID e)" for T fs
    using that by (induction fs) (auto simp: other_account_def)
  then have "held None T L' = held None T L" if "T \<in> withdrawal_reserves" for T
    using transact_held [OF assms(1-3) False, of T] that assms(4) by simp
  moreover have "KeyUuid p i \<in> recorded_keys L"
    if "p \<in> withdrawal_prefixes" "KeyUuid p i \<in> recorded_keys L'" for p i
    using transact_keys [OF assms(1)] assms(5) that by blast
  ultimately show ?thesis unfolding keeps_reserves_def by blast
qed

lemma system_other:
  "ledger_GetSystemAccountID t L = Inr i \<Longrightarrow> rows_ok L \<Longrightarrow> t \<notin> withdrawal_reserves \<Longrightarrow> other_account L i"
  using GetSystemAccountID_owner by (fastforce simp: other_account_def)

lemma holder_other:
  "ledger_GetHolderAccountID t u h L = Inr i \<Longrightarrow> rows_ok L \<Longrightarrow> other_account L i"
  using GetHolderAccountID_owner by (fastforce simp: other_account_def)

lemma opened_other:
  assumes "rows_ok L" "a \<notin> account_ids L" "t \<noteq> AccountBankSettlement" "t \<noteq> AccountPlatformBank"
  shows "other_account (snd (ledger_GetOrCreateUserAccount a t u L)) (fst (ledger_GetOrCreateUserAccount a t u L))"
    "other_account (snd (ledger_GetOrCreateHolderAccount a t u h L)) (fst (ledger_GetOrCreateHolderAccount a t u h L))"
    "other_account L i \<Longrightarrow> other_account (snd (ledger_GetOrCreateUserAccount a t u L)) i"
    "other_account L i \<Longrightarrow> other_account (snd (ledger_GetOrCreateHolderAccount a t u h L)) i"
  using opened_held [OF assms] opened_holder_held [OF assms] opened_owner [OF assms] opened_holder_owner [OF assms]
  by (fastforce simp: other_account_def)+

lemmas opened_rows = conjunct1 [OF opened_held] conjunct1 [OF opened_holder_held]

text \<open>The accounts an operation can see once it has opened its own.\<close>

definition own_type :: "AccountType \<Rightarrow> bool" where
  "own_type t \<longleftrightarrow> t \<noteq> AccountBankSettlement \<and> t \<noteq> AccountPlatformBank"

lemma opened_good:
  assumes "rows_ok M" "a \<notin> account_ids M" "keeps_reserves L M" "own_type t"
  shows "rows_ok (snd (ledger_GetOrCreateUserAccount a t u M))"
    "keeps_reserves L (snd (ledger_GetOrCreateUserAccount a t u M))"
    "other_account (snd (ledger_GetOrCreateUserAccount a t u M)) (fst (ledger_GetOrCreateUserAccount a t u M))"
    "other_account M i \<Longrightarrow> other_account (snd (ledger_GetOrCreateUserAccount a t u M)) i"
    "b \<notin> account_ids M \<Longrightarrow> a \<noteq> b \<Longrightarrow> b \<notin> account_ids (snd (ledger_GetOrCreateUserAccount a t u M))"
proof -
  have t: "t \<noteq> AccountBankSettlement" "t \<noteq> AccountPlatformBank" using assms(4) by (simp_all add: own_type_def)
  note o = assms(1,2) t
  show "rows_ok (snd (ledger_GetOrCreateUserAccount a t u M))"
    "keeps_reserves L (snd (ledger_GetOrCreateUserAccount a t u M))"
    "other_account (snd (ledger_GetOrCreateUserAccount a t u M)) (fst (ledger_GetOrCreateUserAccount a t u M))"
    "other_account M i \<Longrightarrow> other_account (snd (ledger_GetOrCreateUserAccount a t u M)) i"
    using opened_held [OF o] opened_other [OF o] opened_keeps_reserves [OF o] keeps_reserves_trans [OF assms(3)]
    by simp_all
  show "b \<notin> account_ids M \<Longrightarrow> a \<noteq> b \<Longrightarrow> b \<notin> account_ids (snd (ledger_GetOrCreateUserAccount a t u M))"
    using GetOrCreateUserAccount_keeps [OF o prod.collapse [symmetric], of u] by blast
qed

lemma opened_holder_good:
  assumes "rows_ok M" "a \<notin> account_ids M" "keeps_reserves L M" "own_type t"
  shows "rows_ok (snd (ledger_GetOrCreateHolderAccount a t u h M))"
    "keeps_reserves L (snd (ledger_GetOrCreateHolderAccount a t u h M))"
    "other_account (snd (ledger_GetOrCreateHolderAccount a t u h M)) (fst (ledger_GetOrCreateHolderAccount a t u h M))"
    "other_account M i \<Longrightarrow> other_account (snd (ledger_GetOrCreateHolderAccount a t u h M)) i"
  using opened_holder_held [of M a t] opened_other [of M a t] opened_keeps_reserves [of M a t] assms
    keeps_reserves_trans [OF assms(3)]
  by (auto simp: own_type_def)

definition withdrawal_key_of :: "idem_key \<Rightarrow> bool" where
  "withdrawal_key_of k \<longleftrightarrow> (\<exists>p \<in> withdrawal_prefixes. \<exists>i. k = KeyUuid p i)"

lemma harmless:
  assumes "ledger_CreateTransaction x k rt r oid pid es M = Inr L'" "keeps_reserves L M" "rows_ok M"
    and "list_all (\<lambda>e. in_i64 (en_Amount e) \<and> other_account M (en_AccountID e)) es" "\<not> withdrawal_key_of k"
  shows "keeps_reserves L L'"
  using transact_keeps_reserves [OF assms(1,3)] assms(2,4,5) keeps_reserves_trans
  unfolding withdrawal_key_of_def list_all_iff by blast

lemma finance_do_keeps_reserves:
  assumes "finance_do ids c L = Inr L'" "fresh_ids ids L" "\<forall>n \<in> call_amounts c. in_i64 n" "rows_ok L"
    and "\<not> withdrawal_call c"
  shows "keeps_reserves L L'"
proof -
  obtain a b x where ids: "ids = (a, b, x)" using prod_cases3 by blast
  have ab: "a \<notin> account_ids L" "b \<notin> account_ids L" "a \<noteq> b" using assms(2) by (simp_all add: ids fresh_ids_def)
  note run = assms(1) [unfolded ids]
  have [simp]: "in_i64 0" by simp
  note L1 = opened_good [OF assms(4) ab(1) keeps_reserves_refl]
  note L2 = opened_good [OF L1(1) L1(5) [OF _ ab(2,3)] L1(2)]
  note H2 = opened_holder_good [OF L1(1) L1(5) [OF _ ab(2,3)] L1(2)]
  have sys: "other_account L i" if "ledger_GetSystemAccountID AccountGatewayClearing L = Inr i
      \<or> ledger_GetSystemAccountID AccountPlatformRevenue L = Inr i
      \<or> ledger_GetSystemAccountID AccountBankSettlement L = Inr i
      \<or> ledger_GetSystemAccountID AccountPlatformCoinBenefit L = Inr i
      \<or> (\<exists>t u h. ledger_GetHolderAccountID t u h L = Inr i)" for i
    using that system_other [OF _ assms(4)] holder_other [OF _ assms(4)] by (auto simp: withdrawal_reserves_def)
  note keys = withdrawal_key_of_def withdrawal_prefixes_def withdrawal_reserves_def own_type_def
  note simps = finance_defs sum_bind_Inr Let_def map_sum_Inr case_prod_unfold
  show ?thesis
    by (cases c) (use run assms(3,5) in \<open>auto simp: simps own_type_def split: if_splits intro!: L1(2)\<close>,
      (erule harmless; auto simp: L1(1,2,3) L2(1,2,3) H2(1,2,3) assms(4) keys
        intro: L1(4) L2(4) [OF _ _ _ _ L1(3)] L2(4) [OF _ _ _ _ L1(4)] H2(4) [OF _ _ _ _ L1(3)]
        intro!: sys)+)
qed

section \<open>What the withdrawal movements do\<close>

text \<open>The net change of the three reserves, and the one key that may be new.\<close>

definition moves :: "string \<Rightarrow> uuid \<Rightarrow> int \<Rightarrow> int \<Rightarrow> int \<Rightarrow> ledger \<Rightarrow> ledger \<Rightarrow> bool" where
  "moves p i pending committed bank L L' \<longleftrightarrow> ledger_ok L'
     \<and> held None AccountWithdrawalPending L' = held None AccountWithdrawalPending L + pending
     \<and> held None AccountWithdrawalCommitted L' = held None AccountWithdrawalCommitted L + committed
     \<and> held None AccountPlatformBank L' = held None AccountPlatformBank L + bank
     \<and> recorded_keys L' \<subseteq> insert (KeyUuid p i) (recorded_keys L)"

lemma moves_refl: "ledger_ok L \<Longrightarrow> moves p i 0 0 0 L L"
  by (auto simp: moves_def)

lemma transact_moves_reserves:
  assumes "ledger_CreateTransaction x (KeyUuid p i) rt r oid pid es L = Inr L'" "ledger_ok L"
    and "\<forall>e \<in> set es. in_i64 (en_Amount e)" "KeyUuid p i \<notin> recorded_keys L"
    and "\<And>T. amount_on T = (\<Sum>e\<leftarrow>es. if owner_of L (en_AccountID e) = Some (None, T) then en_Amount e else 0)"
  shows "moves p i (- amount_on AccountWithdrawalPending) (- amount_on AccountWithdrawalCommitted)
    (amount_on AccountPlatformBank) L L'"
  using transact_held [OF assms(1) _ assms(3,4)] assms(2) transact_ledger_ok [OF assms(1-3)]
    transact_keys [OF assms(1)]
  by (simp add: moves_def ledger_ok_def assms(5) class_DebitIncreasesBalance_def)

lemma commit_moves:
  assumes "RecordWithdrawalCommit x s n f w L = Inr L'" "ledger_ok L" "in_i64 n"
    and "KeyUuid ''withdrawal_commit_'' w \<notin> recorded_keys L"
  shows "moves ''withdrawal_commit_'' w (- n) n 0 L L'"
proof -
  have r: "rows_ok L" using assms(2) by (simp add: ledger_ok_def)
  obtain i j where a: "ledger_GetSystemAccountID AccountWithdrawalPending L = Inr i"
    "ledger_GetSystemAccountID AccountWithdrawalCommitted L = Inr j" "0 < n"
    "ledger_CreateTransaction x (KeyUuid ''withdrawal_commit_'' w) ''withdrawal_commit'' w None None
      [leg i n, leg j (neg64 n)] L = Inr L'"
    using assms(1) by (auto simp: RecordWithdrawalCommit_def sum_bind_Inr withdrawal_valid_def)
  have "neg64 n = - n" using a(3) assms(3) neg64_nonneg by simp
  then show ?thesis
    using transact_moves_reserves [OF a(4) assms(2) _ assms(4) refl] assms(3) in_i64_wrap64 [of "- n"]
      GetSystemAccountID_owner [OF r a(1)] GetSystemAccountID_owner [OF r a(2)] by simp
qed

text \<open>The movements that return the reserved amount to the seller.\<close>

lemma opened_reserves:
  assumes "ledger_GetOrCreateUserAccount a AccountSellerPayable s L = (i, M)" "ledger_ok L" "a \<notin> account_ids L"
  shows "ledger_ok M" "owner_of M i = Some (Some s, AccountSellerPayable)"
    "\<And>T j. ledger_GetSystemAccountID T L = Inr j \<Longrightarrow> owner_of M j = Some (None, T)"
    "\<And>T. held None T M = held None T L" "recorded_keys M = recorded_keys L"
proof -
  have r: "rows_ok L" using assms(2) by (simp add: ledger_ok_def)
  show "ledger_ok M" using open_ledger_ok [OF assms] by simp
  note h = opened_held [OF r assms(3), of AccountSellerPayable s, unfolded assms(1)]
  show "owner_of M i = Some (Some s, AccountSellerPayable)" "\<And>T. held None T M = held None T L"
    "recorded_keys M = recorded_keys L" using h by simp_all
  show "owner_of M j = Some (None, T)" if "ledger_GetSystemAccountID T L = Inr j" for T j
    using opened_owner [OF r assms(3), of AccountSellerPayable j "(None, T)" s, unfolded assms(1)]
      GetSystemAccountID_owner [OF r that] by simp
qed

lemma return_moves:
  assumes "ledger_CreateTransaction x (KeyUuid p w) rt r oid pid
      [\<lparr>en_AccountID = j, en_Amount = n\<rparr>, \<lparr>en_AccountID = i, en_Amount = - n\<rparr>] M = Inr L'"
    and "ledger_GetOrCreateUserAccount a AccountSellerPayable s L = (i, M)" "ledger_ok L" "a \<notin> account_ids L"
    and "ledger_GetSystemAccountID T L = Inr j" "0 < n" "in_i64 n" "KeyUuid p w \<notin> recorded_keys L"
  shows "moves p w (if T = AccountWithdrawalPending then - n else 0)
    (if T = AccountWithdrawalCommitted then - n else 0) (if T = AccountPlatformBank then n else 0) L L'"
proof -
  note o = opened_reserves [OF assms(2-4)]
  have "in_i64 (- n)" using assms(6,7) by (auto simp: i64_defs)
  then have "moves p w (- (if T = AccountWithdrawalPending then n else 0))
      (- (if T = AccountWithdrawalCommitted then n else 0)) (if T = AccountPlatformBank then n else 0) M L'"
    using transact_moves_reserves [OF assms(1) o(1) _ _ refl] assms(7,8) o(2,5) o(3) [OF assms(5)] by auto
  then show ?thesis using o(4,5) by (auto simp: moves_def)
qed

lemma reject_moves:
  assumes "RecordWithdrawalReject a x s n f w L = Inr L'" "ledger_ok L" "in_i64 n" "a \<notin> account_ids L"
    and "KeyUuid ''withdrawal_reject_'' w \<notin> recorded_keys L"
  shows "moves ''withdrawal_reject_'' w (- n) 0 0 L L'"
proof -
  obtain i M where o: "ledger_GetOrCreateUserAccount a AccountSellerPayable s L = (i, M)" by fastforce
  obtain j where j: "ledger_GetSystemAccountID AccountWithdrawalPending L = Inr j" "0 < n"
    "ledger_CreateTransaction x (KeyUuid ''withdrawal_reject_'' w) ''withdrawal_reject'' w None None
      [leg j n, leg i (neg64 n)] M = Inr L'"
    using assms(1) by (auto simp: RecordWithdrawalReject_def sum_bind_Inr withdrawal_valid_def o)
  then show ?thesis
    using return_moves [OF _ o assms(2,4) j(1) j(2) assms(3,5)] neg64_nonneg [of n] assms(3)
    by (simp add: leg_def money_defs)
qed

lemma restore_moves:
  assumes "RecordWithdrawalRestore a x s n f w L = Inr L'" "ledger_ok L" "in_i64 n" "a \<notin> account_ids L"
    and "KeyUuid ''withdrawal_restore_'' w \<notin> recorded_keys L"
  shows "moves ''withdrawal_restore_'' w 0 (- n) 0 L L'"
proof -
  obtain i M where o: "ledger_GetOrCreateUserAccount a AccountSellerPayable s L = (i, M)" by fastforce
  obtain j where j: "ledger_GetSystemAccountID AccountWithdrawalCommitted L = Inr j" "0 < n"
    "ledger_CreateTransaction x (KeyUuid ''withdrawal_restore_'' w) ''withdrawal_restore'' w None None
      [leg j n, leg i (neg64 n)] M = Inr L'"
    using assms(1) by (auto simp: RecordWithdrawalRestore_def sum_bind_Inr withdrawal_valid_def o)
  then show ?thesis
    using return_moves [OF _ o assms(2,4) j(1) j(2) assms(3,5)] neg64_nonneg [of n] assms(3)
    by (simp add: leg_def money_defs)
qed

lemma gateway_restore_moves:
  assumes "gateway_restore (a, b, x) w L = Inr L'" "ledger_ok L" "in_i64 (wd_Amount w)" "0 < wd_Amount w"
    and "a \<notin> account_ids L" "KeyUuid ''withdrawal_gateway_restore_'' (wd_ID w) \<notin> recorded_keys L"
  shows "moves ''withdrawal_gateway_restore_'' (wd_ID w) 0 (- wd_Amount w) 0 L L'"
proof -
  obtain i M where o: "ledger_GetOrCreateUserAccount a AccountSellerPayable (wd_SellerID w) L = (i, M)" by fastforce
  have n: "in_i64 (- wd_Amount w)" using assms(3,4) by (auto simp: i64_defs)
  obtain j where j: "ledger_GetSystemAccountID AccountWithdrawalCommitted L = Inr j"
    "ledger_CreateTransaction x (KeyUuid ''withdrawal_gateway_restore_'' (wd_ID w)) ''WITHDRAWAL_FAIL_RETURN''
      (wd_ID w) None None [\<lparr>en_AccountID = j, en_Amount = wd_Amount w\<rparr>,
        \<lparr>en_AccountID = i, en_Amount = - wd_Amount w\<rparr>] M = Inr L'"
    using assms(1,3) n by (auto simp: gateway_restore_def sum_bind_Inr o money_Neg_exact money_New_def Let_def)
  then show ?thesis using return_moves [OF j(2) o assms(2,5) j(1) assms(4,3,6)] by simp
qed

lemma payout_moves:
  assumes "ledger_CreateTransaction x (KeyUuid p w) rt r oid pid
      [\<lparr>en_AccountID = j, en_Amount = n\<rparr>, \<lparr>en_AccountID = b, en_Amount = - (n - f)\<rparr>,
       \<lparr>en_AccountID = v, en_Amount = - f\<rparr>] L = Inr L'" "ledger_ok L"
    and "ledger_GetSystemAccountID AccountWithdrawalCommitted L = Inr j"
    and "ledger_GetSystemAccountID AccountPlatformBank L = Inr b"
    and "ledger_GetSystemAccountID AccountPlatformRevenue L = Inr v"
    and "0 < n" "in_i64 n" "0 \<le> f" "in_i64 f" "KeyUuid p w \<notin> recorded_keys L"
  shows "moves p w 0 (- n) (- (n - f)) L L'"
proof -
  have r: "rows_ok L" using assms(2) by (simp add: ledger_ok_def)
  note o = GetSystemAccountID_owner [OF r assms(3)] GetSystemAccountID_owner [OF r assms(4)]
    GetSystemAccountID_owner [OF r assms(5)]
  have "in_i64 (- (n - f))" "in_i64 (- f)" using assms(6-9) by (auto simp: i64_defs)
  then show ?thesis
    using transact_moves_reserves [OF assms(1,2) _ assms(10) refl] assms(7) o by simp
qed

lemma complete_moves:
  assumes "RecordWithdrawalComplete x s n f w L = Inr L'" "ledger_ok L" "in_i64 n" "in_i64 f"
    and "KeyUuid ''withdrawal_complete_'' w \<notin> recorded_keys L"
  shows "moves ''withdrawal_complete_'' w 0 (- n) (- (n - f)) L L'"
proof -
  obtain j b v where a: "ledger_GetSystemAccountID AccountWithdrawalCommitted L = Inr j"
    "ledger_GetSystemAccountID AccountPlatformBank L = Inr b"
    "ledger_GetSystemAccountID AccountPlatformRevenue L = Inr v" "0 < n" "0 \<le> f" "f < n"
    "ledger_CreateTransaction x (KeyUuid ''withdrawal_complete_'' w) ''withdrawal_complete'' w None None
      [leg j n, leg b (neg64 (wrap64 (n - f))), leg v (neg64 f)] L = Inr L'"
    using assms(1) by (auto simp: RecordWithdrawalComplete_def sum_bind_Inr withdrawal_valid_def)
  have "in_i64 (n - f)" "in_i64 (f - n)" using a(4-6) assms(3,4) by (auto simp: i64_defs)
  then have "neg64 (wrap64 (n - f)) = - (n - f)" "neg64 f = - f"
    using a(5,6) assms(4) neg64_nonneg by (simp_all add: wrap64_id)
  then show ?thesis
    using payout_moves [OF _ assms(2) a(1-4) assms(3) a(5) assms(4,5)] a(7) by (simp add: leg_def money_New_def)
qed

lemma request_moves:
  assumes "AssertSellerWithdrawalAllowed a s n L = Inr (sm, L1)"
    and "RecordWithdrawalRequest b x s n f w L1 = Inr L'" "ledger_ok L" "in_i64 n"
    and "fresh_ids (a, b, x) L" "KeyUuid ''withdrawal_request_'' w \<notin> recorded_keys L"
  shows "moves ''withdrawal_request_'' w n 0 0 L L'" "w \<noteq> uuid_nil" "0 \<le> f"
proof -
  have ab: "a \<notin> account_ids L" "b \<notin> account_ids L" "a \<noteq> b" using assms(5) by (simp_all add: fresh_ids_def)
  obtain i where o: "ledger_GetOrCreateUserAccount a AccountSellerPayable s L = (i, L1)"
    using assms(1) by (auto simp: AssertSellerWithdrawalAllowed_def sum_bind_Inr case_prod_unfold Let_def
        prod_eq_iff split: if_splits)
  note o1 = opened_reserves [OF o assms(3) ab(1)]
  have b: "b \<notin> account_ids L1" using open_first [OF o assms(3,5)] by simp
  obtain i2 M where oM: "ledger_GetOrCreateUserAccount b AccountSellerPayable s L1 = (i2, M)" by fastforce
  note o2 = opened_reserves [OF oM o1(1) b]
  obtain j where j: "ledger_GetSystemAccountID AccountWithdrawalPending M = Inr j" "0 < n" "w \<noteq> uuid_nil" "0 \<le> f"
    "ledger_CreateTransaction x (KeyUuid ''withdrawal_request_'' w) ''withdrawal_request'' w None None
      [leg i2 n, leg j (neg64 n)] M = Inr L'"
    using assms(2) by (auto simp: RecordWithdrawalRequest_def sum_bind_Inr withdrawal_valid_def oM)
  have "rows_ok M" using o2(1) by (simp add: ledger_ok_def)
  note jo = GetSystemAccountID_owner [OF this j(1)]
  have n: "neg64 n = - n" "in_i64 (- n)" using neg64_nonneg [of n] j(2) assms(4) by (auto simp: i64_defs)
  have "moves ''withdrawal_request_'' w n 0 0 M L'"
    using transact_moves_reserves [OF j(5) o2(1) _ _ refl] n assms(4,6) jo o2(2,5) o1(5) by simp
  then show "moves ''withdrawal_request_'' w n 0 0 L L'" using o1(4,5) o2(4,5) by (auto simp: moves_def)
  show "w \<noteq> uuid_nil" "0 \<le> f" by fact+
qed

section \<open>Rows\<close>

definition replace_row :: "withdrawal \<Rightarrow> withdrawal list \<Rightarrow> withdrawal list" where
  "replace_row w' rows = map (\<lambda>x. if wd_ID x = wd_ID w' then w' else x) rows"

lemma same_row:
  "distinct (map wd_ID rows) \<Longrightarrow> w \<in> set rows \<Longrightarrow> x \<in> set rows \<Longrightarrow> wd_ID x = wd_ID w \<Longrightarrow> x = w"
  by (auto simp: distinct_map dest: inj_onD)

lemma update_one:
  assumes "distinct (map wd_ID rows)" "w \<in> set rows" "\<And>x. P x \<Longrightarrow> wd_ID x = wd_ID w" "wd_ID (f w) = wd_ID w"
  shows "update_where P f rows = (if P w then (1, replace_row (f w) rows) else (0, rows))"
proof (cases "P w")
  case True
  have "set (filter P rows) = {w}" using assms(1-3) True same_row by auto
  moreover have "distinct (filter P rows)" using assms(1) by (simp add: distinct_map)
  ultimately have "length (filter P rows) = 1" using distinct_card by fastforce
  moreover have "(if P x then f x else x) = (if wd_ID x = wd_ID (f w) then f w else x)" if "x \<in> set rows" for x
  proof (cases "x = w")
    case False
    then have "wd_ID x \<noteq> wd_ID w" using same_row [OF assms(1,2) that] by blast
    then show ?thesis using assms(3) [of x] assms(4) by auto
  qed (simp add: True assms(4))
  then have "map (\<lambda>w. if P w then f w else w) rows = replace_row (f w) rows"
    by (simp add: replace_row_def)
  ultimately show ?thesis using True by (simp add: update_where_def)
next
  case False
  then have "\<forall>x \<in> set rows. \<not> P x" using assms(3) same_row [OF assms(1,2)] by blast
  then show ?thesis using False by (simp add: update_where_def map_idI filter_empty_conv)
qed

lemma update_none:
  "(\<And>x. P x \<Longrightarrow> wd_ID x = i) \<Longrightarrow> i \<notin> wd_ID ` set rows \<Longrightarrow> update_where P f rows = (0, rows)"
proof -
  assume a: "\<And>x. P x \<Longrightarrow> wd_ID x = i" "i \<notin> wd_ID ` set rows"
  have "\<not> P x" if "x \<in> set rows" for x using a(1) [of x] a(2) imageI [OF that, of wd_ID] by auto
  then show ?thesis by (simp add: update_where_def filter_empty_conv map_idI)
qed

lemma sum_replace:
  fixes h :: "withdrawal \<Rightarrow> int"
  assumes "distinct (map wd_ID rows)" "w \<in> set rows" "wd_ID w' = wd_ID w"
  shows "(\<Sum>x\<leftarrow>replace_row w' rows. h x) = (\<Sum>x\<leftarrow>rows. h x) - h w + h w'"
  using assms
proof (induction rows)
  case Nil
  then show ?case by simp
next
  case (Cons y ys)
  show ?case
  proof (cases "y = w")
    case True
    then have "wd_ID w' \<notin> wd_ID ` set ys" using Cons.prems by simp
    then have "\<forall>x \<in> set ys. wd_ID x \<noteq> wd_ID w'" by (metis imageI)
    then have "replace_row w' ys = ys" by (auto simp: replace_row_def intro: map_idI)
    with True Cons.prems(3) show ?thesis by (simp add: replace_row_def)
  next
    case False
    then have "w \<in> set ys" "wd_ID y \<noteq> wd_ID w'" using Cons.prems by auto
    with Cons show ?thesis by (simp add: replace_row_def)
  qed
qed

lemma replace_ids: "map wd_ID (replace_row w' rows) = map wd_ID rows"
  by (simp add: replace_row_def)

lemma GetByID_row: "wdrepo_GetByID i rows = Inr w \<Longrightarrow> w \<in> set rows \<and> wd_ID w = i"
  by (auto simp: wdrepo_GetByID_def find_Some_iff split: option.splits)

lemma GetByExternalReference_row: "wdrepo_GetByExternalReference r rows = Inr w \<Longrightarrow> w \<in> set rows"
  by (auto simp: wdrepo_GetByExternalReference_def find_Some_iff split: option.splits)

section \<open>The reserves\<close>

definition is_requested :: "WithdrawalStatus \<Rightarrow> bool" where
  "is_requested s \<longleftrightarrow> s = WithdrawalRequested"

definition is_committed :: "WithdrawalStatus \<Rightarrow> bool" where
  "is_committed s \<longleftrightarrow> in_flight s \<and> s \<noteq> WithdrawalRequested"

definition is_paid :: "WithdrawalStatus \<Rightarrow> bool" where
  "is_paid s \<longleftrightarrow> s = WithdrawalSettled \<or> s = WithdrawalCompleted"

definition amounts_in :: "(WithdrawalStatus \<Rightarrow> bool) \<Rightarrow> withdrawal list \<Rightarrow> int" where
  "amounts_in Q rows = (\<Sum>w\<leftarrow>rows. if Q (wd_Status w) then wd_Amount w else 0)"

definition payouts_in :: "withdrawal list \<Rightarrow> int" where
  "payouts_in rows = (\<Sum>w\<leftarrow>rows. if is_paid (wd_Status w) then wd_Amount w - wd_FeeAmount w else 0)"

text \<open>The movements a withdrawal can still cause: none of their keys is recorded yet.\<close>

definition open_keys :: "WithdrawalStatus \<Rightarrow> string set" where
  "open_keys s = (if s = WithdrawalRequested
     then {''withdrawal_commit_'', ''withdrawal_reject_'', ''withdrawal_restore_'', ''withdrawal_complete_'',
       ''withdraw_settle_'', ''withdrawal_gateway_restore_''}
     else if in_flight s
     then {''withdrawal_restore_'', ''withdrawal_complete_'', ''withdraw_settle_'', ''withdrawal_gateway_restore_''}
     else {})"

definition row_wf :: "withdrawal \<Rightarrow> bool" where
  "row_wf w \<longleftrightarrow> 10000 \<le> wd_Amount w \<and> wd_Amount w \<le> 50000000 \<and> 0 \<le> wd_FeeAmount w \<and> in_i64 (wd_FeeAmount w)"

definition withdrawals_ok :: "withdraw_state \<Rightarrow> bool" where
  "withdrawals_ok st \<longleftrightarrow> ledger_ok (ws_Ledger st) \<and> distinct (map wd_ID (ws_Rows st))
     \<and> (\<forall>w \<in> set (ws_Rows st). row_wf w)
     \<and> held None AccountWithdrawalPending (ws_Ledger st) = amounts_in is_requested (ws_Rows st)
     \<and> held None AccountWithdrawalCommitted (ws_Ledger st) = amounts_in is_committed (ws_Rows st)
     \<and> held None AccountPlatformBank (ws_Ledger st) = 9000000000000000 - payouts_in (ws_Rows st)
     \<and> (\<forall>w \<in> set (ws_Rows st). \<forall>p \<in> open_keys (wd_Status w). KeyUuid p (wd_ID w) \<notin> recorded_keys (ws_Ledger st))
     \<and> (\<forall>i. i \<notin> wd_ID ` set (ws_Rows st) \<longrightarrow> (\<forall>p \<in> withdrawal_prefixes. KeyUuid p i \<notin> recorded_keys (ws_Ledger st)))
     \<and> (\<forall>v \<in> set (ws_Rows st). \<forall>w \<in> set (ws_Rows st). wd_SellerID v = wd_SellerID w
          \<and> in_flight (wd_Status v) \<and> in_flight (wd_Status w) \<longrightarrow> v = w)"

lemma row_wf_amount: "row_wf w \<Longrightarrow> 0 < wd_Amount w \<and> in_i64 (wd_Amount w) \<and> 0 \<le> wd_FeeAmount w \<and> in_i64 (wd_FeeAmount w)"
  by (auto simp: row_wf_def i64_defs)

text \<open>
  Replacing one row by a later version of it, with the movement that goes with
  the change of its status, keeps everything in order.
\<close>

definition same_withdrawal :: "withdrawal \<Rightarrow> withdrawal \<Rightarrow> bool" where
  "same_withdrawal w w' \<longleftrightarrow> wd_ID w' = wd_ID w \<and> wd_SellerID w' = wd_SellerID w \<and> wd_Amount w' = wd_Amount w
     \<and> wd_FeeAmount w' = wd_FeeAmount w"

definition share :: "(WithdrawalStatus \<Rightarrow> bool) \<Rightarrow> WithdrawalStatus \<Rightarrow> int \<Rightarrow> int" where
  "share Q s n = (if Q s then n else 0)"

lemma row_moves:
  assumes ok: "withdrawals_ok st" and w: "w \<in> set (ws_Rows st)" "same_withdrawal w w'"
    and m: "moves p (wd_ID w) (share is_requested (wd_Status w') (wd_Amount w) - share is_requested (wd_Status w) (wd_Amount w))
      (share is_committed (wd_Status w') (wd_Amount w) - share is_committed (wd_Status w) (wd_Amount w))
      (share is_paid (wd_Status w) (wd_Amount w - wd_FeeAmount w) - share is_paid (wd_Status w') (wd_Amount w - wd_FeeAmount w))
      (ws_Ledger st) L'"
    and k: "open_keys (wd_Status w') \<subseteq> open_keys (wd_Status w) - {p}"
    and f: "in_flight (wd_Status w') \<Longrightarrow> in_flight (wd_Status w)"
  shows "withdrawals_ok (st\<lparr>ws_Rows := replace_row w' (ws_Rows st), ws_Ledger := L'\<rparr>)"
proof -
  let ?rows = "ws_Rows st"
  have d: "distinct (map wd_ID ?rows)" and i: "wd_ID w' = wd_ID w"
    using ok w(2) by (simp_all add: withdrawals_ok_def same_withdrawal_def)
  have set: "set (replace_row w' ?rows) = insert w' (set ?rows - {w})"
    using w(1) same_row [OF d w(1)] i by (auto simp: replace_row_def)
  note sums = sum_replace [OF d w(1) i]
  have "amounts_in Q (replace_row w' ?rows) = amounts_in Q ?rows - share Q (wd_Status w) (wd_Amount w)
      + share Q (wd_Status w') (wd_Amount w)" for Q
    using sums [of "\<lambda>w. if Q (wd_Status w) then wd_Amount w else 0"] w(2)
    by (simp add: amounts_in_def share_def same_withdrawal_def)
  moreover have "payouts_in (replace_row w' ?rows) = payouts_in ?rows
      - share is_paid (wd_Status w) (wd_Amount w - wd_FeeAmount w) + share is_paid (wd_Status w') (wd_Amount w - wd_FeeAmount w)"
    using sums [of "\<lambda>w. if is_paid (wd_Status w) then wd_Amount w - wd_FeeAmount w else 0"] w(2)
    by (simp add: payouts_in_def share_def same_withdrawal_def)
  ultimately have books: "ledger_ok L'" "held None AccountWithdrawalPending L' = amounts_in is_requested (replace_row w' ?rows)"
    "held None AccountWithdrawalCommitted L' = amounts_in is_committed (replace_row w' ?rows)"
    "held None AccountPlatformBank L' = 9000000000000000 - payouts_in (replace_row w' ?rows)"
    and keys: "recorded_keys L' \<subseteq> insert (KeyUuid p (wd_ID w)) (recorded_keys (ws_Ledger st))"
    using ok m by (simp_all add: withdrawals_ok_def moves_def)
  have wf: "\<forall>v \<in> set (replace_row w' ?rows). row_wf v"
    using ok w unfolding set withdrawals_ok_def same_withdrawal_def row_wf_def by auto
  have old: "KeyUuid q (wd_ID v) \<notin> recorded_keys (ws_Ledger st)" if "v \<in> set ?rows" "q \<in> open_keys (wd_Status v)" for v q
    using ok that by (simp add: withdrawals_ok_def)
  have op: "\<forall>v \<in> set (replace_row w' ?rows). \<forall>q \<in> open_keys (wd_Status v). KeyUuid q (wd_ID v) \<notin> recorded_keys L'"
    unfolding set
  proof (intro ballI)
    fix v q assume v: "v \<in> insert w' (set ?rows - {w})" "q \<in> open_keys (wd_Status v)"
    show "KeyUuid q (wd_ID v) \<notin> recorded_keys L'"
    proof (cases "v = w'")
      case True
      then show ?thesis using v(2) k i keys old [OF w(1), of q] by auto
    next
      case False
      then have "v \<in> set ?rows" "wd_ID v \<noteq> wd_ID w" using v(1) same_row [OF d w(1)] by auto
      then show ?thesis using old v(2) keys by auto
    qed
  qed
  have no: "\<forall>i. i \<notin> wd_ID ` set (replace_row w' ?rows) \<longrightarrow> (\<forall>q \<in> withdrawal_prefixes. KeyUuid q i \<notin> recorded_keys L')"
  proof (intro allI impI ballI)
    fix j q assume j: "j \<notin> wd_ID ` set (replace_row w' ?rows)" "q \<in> withdrawal_prefixes"
    have "wd_ID ` set (replace_row w' ?rows) = wd_ID ` set ?rows"
      using replace_ids [of w' ?rows] by (metis list.set_map)
    with j w(1) have "j \<notin> wd_ID ` set ?rows" "j \<noteq> wd_ID w" by auto
    then show "KeyUuid q j \<notin> recorded_keys L'" using ok keys j(2) unfolding withdrawals_ok_def by auto
  qed
  have one: "\<forall>u \<in> set (replace_row w' ?rows). \<forall>v \<in> set (replace_row w' ?rows). wd_SellerID u = wd_SellerID v
      \<and> in_flight (wd_Status u) \<and> in_flight (wd_Status v) \<longrightarrow> u = v"
    using ok w f unfolding set withdrawals_ok_def same_withdrawal_def by auto
  have "distinct (map wd_ID (replace_row w' ?rows))" using d by (simp only: replace_ids)
  moreover have sel: "ws_Rows (st\<lparr>ws_Rows := rs, ws_Ledger := L'\<rparr>) = rs"
    "ws_Ledger (st\<lparr>ws_Rows := rs, ws_Ledger := L'\<rparr>) = L'" for rs
    by simp_all
  ultimately show ?thesis
    unfolding withdrawals_ok_def sel by (intro conjI wf books op no one)
qed

lemma row_changes:
  assumes "withdrawals_ok st" "w \<in> set (ws_Rows st)" "same_withdrawal w w'"
    and "is_requested (wd_Status w') = is_requested (wd_Status w)"
    and "is_committed (wd_Status w') = is_committed (wd_Status w)" "is_paid (wd_Status w') = is_paid (wd_Status w)"
  shows "withdrawals_ok (st\<lparr>ws_Rows := replace_row w' (ws_Rows st)\<rparr>)"
proof -
  have fl: "in_flight (wd_Status w') = in_flight (wd_Status w)"
    using assms(4,5) by (auto simp: is_requested_def is_committed_def in_flight_def)
  moreover have "open_keys (wd_Status w') = open_keys (wd_Status w)" "''withdrawal_request_'' \<notin> open_keys (wd_Status w)"
    using assms(4) fl by (simp_all add: is_requested_def open_keys_def)
  moreover have "moves ''withdrawal_request_'' (wd_ID w) 0 0 0 (ws_Ledger st) (ws_Ledger st)"
    using assms(1) by (simp add: withdrawals_ok_def moves_refl)
  ultimately have "withdrawals_ok (st\<lparr>ws_Rows := replace_row w' (ws_Rows st), ws_Ledger := ws_Ledger st\<rparr>)"
    using row_moves [OF assms(1-3), of "''withdrawal_request_''" "ws_Ledger st"] assms(4-6) by (simp add: share_def)
  then show ?thesis by simp
qed

end
