(* ===== verification/WithdrawalSteps.thy ===== *)
theory WithdrawalSteps
  imports WithdrawalBooks
begin

text \<open>
  Every event in the life of the withdrawals, in any order: the calls of the
  service, the worker's poll, its sending of a request and its bookkeeping of
  the answer (which may come at any later time), the gateway's callbacks, and
  any other operation of the finance service in between. Each keeps the
  reserves of the ledger backed by the rows, and moves a row along
  \<open>next_statuses\<close>.
\<close>

section \<open>The statuses a row really moves to\<close>

fun next_statuses :: "WithdrawalStatus \<Rightarrow> WithdrawalStatus list" where
  "next_statuses WithdrawalRequested = [WithdrawalProcessing, WithdrawalFailed]"
| "next_statuses WithdrawalProcessing =
     [WithdrawalSubmitted, WithdrawalCompleted, WithdrawalFailed, WithdrawalPilotBlocked,
      WithdrawalFailedRetryable, WithdrawalFailedFinal]"
| "next_statuses WithdrawalSubmitted =
     [WithdrawalSettling, WithdrawalSettled, WithdrawalFailedRetryable, WithdrawalFailedFinal]"
| "next_statuses WithdrawalSettling = [WithdrawalSettled, WithdrawalFailedRetryable, WithdrawalFailedFinal]"
| "next_statuses WithdrawalFailedRetryable = [WithdrawalFailedFinal]"
| "next_statuses _ = []"

definition same_or_next :: "WithdrawalStatus \<Rightarrow> WithdrawalStatus \<Rightarrow> bool" where
  "same_or_next s s' \<longleftrightarrow> s' = s \<or> s' \<in> set (next_statuses s)"

section \<open>One row, one movement\<close>

definition row_step :: "withdrawal \<Rightarrow> withdrawal \<Rightarrow> withdraw_state \<Rightarrow> withdraw_state \<Rightarrow> bool" where
  "row_step w w' st st' \<longleftrightarrow> w \<in> set (ws_Rows st) \<and> same_withdrawal w w'
     \<and> same_or_next (wd_Status w) (wd_Status w') \<and> ws_Rows st' = replace_row w' (ws_Rows st)
     \<and> ws_Sent st' = ws_Sent st \<and> withdrawals_ok st'"

lemma row_stepI:
  assumes "withdrawals_ok st" "w \<in> set (ws_Rows st)" "same_withdrawal w w'"
    and "moves p (wd_ID w) (share is_requested (wd_Status w') (wd_Amount w) - share is_requested (wd_Status w) (wd_Amount w))
      (share is_committed (wd_Status w') (wd_Amount w) - share is_committed (wd_Status w) (wd_Amount w))
      (share is_paid (wd_Status w) (wd_Amount w - wd_FeeAmount w) - share is_paid (wd_Status w') (wd_Amount w - wd_FeeAmount w))
      (ws_Ledger st) L'"
    and "open_keys (wd_Status w') \<subseteq> open_keys (wd_Status w) - {p}"
    and "in_flight (wd_Status w') \<Longrightarrow> in_flight (wd_Status w)"
    and "wd_Status w' \<in> set (next_statuses (wd_Status w))"
  shows "row_step w w' st (st\<lparr>ws_Rows := replace_row w' (ws_Rows st), ws_Ledger := L'\<rparr>)"
  using row_moves [OF assms(1-6)] assms(2,3,7) by (simp add: row_step_def same_or_next_def)

lemma row_step_same_ledgerI:
  assumes "withdrawals_ok st" "w \<in> set (ws_Rows st)" "same_withdrawal w w'"
    and "is_requested (wd_Status w') = is_requested (wd_Status w)"
    and "is_committed (wd_Status w') = is_committed (wd_Status w)" "is_paid (wd_Status w') = is_paid (wd_Status w)"
    and "same_or_next (wd_Status w) (wd_Status w')"
  shows "row_step w w' st (st\<lparr>ws_Rows := replace_row w' (ws_Rows st)\<rparr>)"
  using row_changes [OF assms(1-6)] assms(2,3,7) by (simp add: row_step_def)

lemmas status_class = is_requested_def is_committed_def is_paid_def in_flight_def open_keys_def share_def

lemma ok_facts:
  assumes "withdrawals_ok st"
  shows "ledger_ok (ws_Ledger st)" "distinct (map wd_ID (ws_Rows st))"
    "w \<in> set (ws_Rows st) \<Longrightarrow> 0 < wd_Amount w \<and> in_i64 (wd_Amount w) \<and> 0 \<le> wd_FeeAmount w \<and> in_i64 (wd_FeeAmount w)"
    "w \<in> set (ws_Rows st) \<Longrightarrow> p \<in> open_keys (wd_Status w) \<Longrightarrow> KeyUuid p (wd_ID w) \<notin> recorded_keys (ws_Ledger st)"
  using assms row_wf_amount [of w] by (simp_all add: withdrawals_ok_def)

lemma update_row:
  assumes "withdrawals_ok st" "w \<in> set (ws_Rows st)" "\<And>x. P x \<Longrightarrow> wd_ID x = wd_ID w" "wd_ID (f w) = wd_ID w"
  shows "update_where P f (ws_Rows st) = (if P w then (1, replace_row (f w) (ws_Rows st)) else (0, ws_Rows st))"
  using update_one ok_facts(2) assms by blast

section \<open>The service\<close>

lemma ApproveWithdraw_step:
  assumes "ApproveWithdraw now ids c cap sv i st = Inr st'" "withdrawals_ok st"
  shows "\<exists>w w'. row_step w w' st st' \<and> wd_ID w = i \<and> wd_Status w = WithdrawalRequested
    \<and> wd_Status w' = WithdrawalProcessing"
proof -
  obtain a b x where ids: "ids = (a, b, x)" using prod_cases3 by blast
  obtain w L1 where w: "wdrepo_GetByID i (ws_Rows st) = Inr w" "wd_Status w = WithdrawalRequested"
    "RecordWithdrawalCommit x (wd_SellerID w) (wd_Amount w) (wd_FeeAmount w) i (ws_Ledger st) = Inr L1"
    and st': "(let (n, rows1) = wdrepo_UpdateStatusWithCheck now i WithdrawalRequested WithdrawalProcessing (ws_Rows st)
      in if n = 0 then Inl WdTransitionRace else Inr (st\<lparr>ws_Rows := rows1, ws_Ledger := L1\<rparr>)) = Inr st'"
    using assms(1) by (auto simp: ApproveWithdraw_def ids sum_bind_Inr wdrepo_LockForUpdate_def)
  note r = GetByID_row [OF w(1)]
  let ?w' = "w\<lparr>wd_Status := WithdrawalProcessing, wd_UpdatedAt := now\<rparr>"
  have "wdrepo_UpdateStatusWithCheck now i WithdrawalRequested WithdrawalProcessing (ws_Rows st)
      = (1, replace_row ?w' (ws_Rows st))"
    unfolding wdrepo_UpdateStatusWithCheck_def using r w(2) by (subst update_row [OF assms(2), of w]) simp_all
  then have "st' = st\<lparr>ws_Rows := replace_row ?w' (ws_Rows st), ws_Ledger := L1\<rparr>" using st' by simp
  moreover have "moves ''withdrawal_commit_'' (wd_ID w) (- wd_Amount w) (wd_Amount w) 0 (ws_Ledger st) L1"
    using commit_moves [OF w(3) ok_facts(1) [OF assms(2)]] ok_facts(3,4) [OF assms(2), of w] r w(2)
    by (simp add: open_keys_def)
  then have "row_step w ?w' st (st\<lparr>ws_Rows := replace_row ?w' (ws_Rows st), ws_Ledger := L1\<rparr>)"
    using r w(2) by (intro row_stepI [OF assms(2)]) (auto simp: same_withdrawal_def status_class)
  ultimately show ?thesis using r w(2) by fastforce
qed

lemma RejectWithdraw_step:
  assumes "RejectWithdraw now ids c cap i st = Inr st'" "withdrawals_ok st" "fst ids \<notin> account_ids (ws_Ledger st)"
  shows "\<exists>w w'. row_step w w' st st' \<and> wd_ID w = i
    \<and> (wd_Status w = WithdrawalRequested \<or> wd_Status w = WithdrawalProcessing) \<and> wd_Status w' = WithdrawalFailed"
proof -
  obtain a b x where ids: "ids = (a, b, x)" using prod_cases3 by blast
  have a: "a \<notin> account_ids (ws_Ledger st)" using assms(3) ids by simp
  obtain w L1 where w: "wdrepo_GetByID i (ws_Rows st) = Inr w"
    "wd_Status w = WithdrawalRequested
        \<and> RecordWithdrawalReject a x (wd_SellerID w) (wd_Amount w) (wd_FeeAmount w) i (ws_Ledger st) = Inr L1
      \<or> wd_Status w = WithdrawalProcessing
        \<and> RecordWithdrawalRestore a x (wd_SellerID w) (wd_Amount w) (wd_FeeAmount w) i (ws_Ledger st) = Inr L1"
    and st': "(let (n, rows1) = wdrepo_UpdateStatus now i WithdrawalFailed (ws_Rows st)
      in if n = 0 then Inl WdTransitionRace else Inr (st\<lparr>ws_Rows := rows1, ws_Ledger := L1\<rparr>)) = Inr st'"
    using assms(1) by (auto simp: RejectWithdraw_def ids sum_bind_Inr wdrepo_LockForUpdate_def split: if_splits)
  note r = GetByID_row [OF w(1)]
  let ?w' = "w\<lparr>wd_Status := WithdrawalFailed, wd_UpdatedAt := now\<rparr>"
  have "wdrepo_UpdateStatus now i WithdrawalFailed (ws_Rows st) = (1, replace_row ?w' (ws_Rows st))"
    unfolding wdrepo_UpdateStatus_def using r by (subst update_row [OF assms(2), of w]) simp_all
  then have st'': "st' = st\<lparr>ws_Rows := replace_row ?w' (ws_Rows st), ws_Ledger := L1\<rparr>" using st' by simp
  note ok = ok_facts(1) [OF assms(2)] ok_facts(3,4) [OF assms(2), of w]
  from w(2) have "row_step w ?w' st st'"
  proof (elim disjE conjE)
    assume s: "wd_Status w = WithdrawalRequested"
      and m: "RecordWithdrawalReject a x (wd_SellerID w) (wd_Amount w) (wd_FeeAmount w) i (ws_Ledger st) = Inr L1"
    have "moves ''withdrawal_reject_'' (wd_ID w) (- wd_Amount w) 0 0 (ws_Ledger st) L1"
      using reject_moves [OF m ok(1) _ a] ok(2,3) r s by (simp add: open_keys_def)
    then show ?thesis unfolding st'' using r s
      by (intro row_stepI [OF assms(2)]) (auto simp: same_withdrawal_def status_class)
  next
    assume s: "wd_Status w = WithdrawalProcessing"
      and m: "RecordWithdrawalRestore a x (wd_SellerID w) (wd_Amount w) (wd_FeeAmount w) i (ws_Ledger st) = Inr L1"
    have "moves ''withdrawal_restore_'' (wd_ID w) 0 (- wd_Amount w) 0 (ws_Ledger st) L1"
      using restore_moves [OF m ok(1) _ a] ok(2,3) r s by (simp add: open_keys_def in_flight_def)
    then show ?thesis unfolding st'' using r s
      by (intro row_stepI [OF assms(2)]) (auto simp: same_withdrawal_def status_class)
  qed
  then show ?thesis using r w(2) by fastforce
qed

lemma MarkProcessed_step:
  assumes "MarkProcessed now ids c cap i st = Inr st'" "withdrawals_ok st"
  shows "\<exists>w w'. row_step w w' st st' \<and> wd_ID w = i \<and> wd_Status w = WithdrawalProcessing
    \<and> wd_Status w' = WithdrawalCompleted"
proof -
  obtain a b x where ids: "ids = (a, b, x)" using prod_cases3 by blast
  obtain w L1 where w: "wdrepo_GetByID i (ws_Rows st) = Inr w" "wd_Status w = WithdrawalProcessing"
    "RecordWithdrawalComplete x (wd_SellerID w) (wd_Amount w) (wd_FeeAmount w) i (ws_Ledger st) = Inr L1"
    and st': "(let (n, rows1) = wdrepo_UpdateStatusWithCheck now i WithdrawalProcessing WithdrawalCompleted (ws_Rows st)
      in if n = 0 then Inl WdTransitionRace else Inr (st\<lparr>ws_Rows := rows1, ws_Ledger := L1\<rparr>)) = Inr st'"
    using assms(1) by (auto simp: MarkProcessed_def ids sum_bind_Inr wdrepo_LockForUpdate_def)
  note r = GetByID_row [OF w(1)]
  let ?w' = "w\<lparr>wd_Status := WithdrawalCompleted, wd_UpdatedAt := now\<rparr>"
  have "wdrepo_UpdateStatusWithCheck now i WithdrawalProcessing WithdrawalCompleted (ws_Rows st)
      = (1, replace_row ?w' (ws_Rows st))"
    unfolding wdrepo_UpdateStatusWithCheck_def using r w(2) by (subst update_row [OF assms(2), of w]) simp_all
  then have "st' = st\<lparr>ws_Rows := replace_row ?w' (ws_Rows st), ws_Ledger := L1\<rparr>" using st' by simp
  moreover have "moves ''withdrawal_complete_'' (wd_ID w) 0 (- wd_Amount w) (- (wd_Amount w - wd_FeeAmount w))
      (ws_Ledger st) L1"
    using complete_moves [OF w(3) ok_facts(1) [OF assms(2)]] ok_facts(3,4) [OF assms(2), of w] r w(2)
    by (simp add: open_keys_def in_flight_def)
  then have "row_step w ?w' st (st\<lparr>ws_Rows := replace_row ?w' (ws_Rows st), ws_Ledger := L1\<rparr>)"
    using r w(2) by (intro row_stepI [OF assms(2)]) (auto simp: same_withdrawal_def status_class)
  ultimately show ?thesis using r w(2) by fastforce
qed

section \<open>The gateway's answers\<close>

lemma replace_twice: "wd_ID v = wd_ID w \<Longrightarrow> replace_row w (replace_row v rows) = replace_row w rows"
  by (simp add: replace_row_def)

lemma replace_self:
  assumes "distinct (map wd_ID rows)" "w \<in> set rows"
  shows "replace_row w rows = rows"
  unfolding replace_row_def using same_row [OF assms] by (intro map_idI) metis

lemma update_missing:
  assumes "i \<notin> wd_ID ` set rows"
  shows "update_where (\<lambda>w. wd_ID w = i) f rows = (0, rows)"
    "update_where (\<lambda>w. wd_ID w = i \<and> Q w) f rows = (0, rows)"
  using assms by (auto intro!: update_none [of _ i])

lemma same_state: "st\<lparr>ws_Rows := ws_Rows st\<rparr> = st" "st\<lparr>ws_Ledger := ws_Ledger st\<rparr> = st"
  by simp_all

lemma replaced:
  assumes "distinct (map wd_ID rows)" "w \<in> set rows" "wd_ID v = wd_ID w"
  shows "distinct (map wd_ID (replace_row v rows))" "v \<in> set (replace_row v rows)"
  using assms by (auto simp: replace_ids) (auto simp: replace_row_def)

lemma markSubmissionSuccess_step:
  assumes "withdrawals_ok st"
  shows "markSubmissionSuccess now i ref g raw st = st
    \<or> (\<exists>w w'. row_step w w' st (markSubmissionSuccess now i ref g raw st) \<and> wd_ID w = i
        \<and> wd_Status w' = (if wd_Status w = WithdrawalProcessing then WithdrawalSubmitted else wd_Status w))"
proof (cases "i \<in> wd_ID ` set (ws_Rows st)")
  case False
  then show ?thesis
    by (simp add: markSubmissionSuccess_def wdrepo_UpdateForSubmission_def wdrepo_ResetRetryCount_def update_missing)
next
  case True
  then obtain w where w: "w \<in> set (ws_Rows st)" "wd_ID w = i" by auto
  define w1 where "w1 = (if wd_Status w = WithdrawalProcessing
    then w\<lparr>wd_Status := WithdrawalSubmitted, wd_ExternalReferenceID := ref, wd_GatewayReferenceNo := g,
      wd_GatewayResponse := raw, wd_SubmittedAt := unix now, wd_UpdatedAt := now\<rparr> else w)"
  define w2 where "w2 = w1\<lparr>wd_RetryCount := 0, wd_UpdatedAt := now\<rparr>"
  have i: "wd_ID w1 = wd_ID w" "wd_ID w2 = wd_ID w1" "same_withdrawal w w2"
    by (simp_all add: w1_def w2_def same_withdrawal_def)
  have "wdrepo_UpdateForSubmission now i ref g raw (ws_Rows st) = replace_row w1 (ws_Rows st)"
    unfolding wdrepo_UpdateForSubmission_def using w replace_self [OF ok_facts(2) [OF assms] w(1)]
    by (subst update_row [OF assms w(1)]) (simp_all add: w1_def)
  moreover have "wdrepo_ResetRetryCount now i (replace_row w1 (ws_Rows st)) = replace_row w2 (replace_row w1 (ws_Rows st))"
    unfolding wdrepo_ResetRetryCount_def using w i replaced [OF ok_facts(2) [OF assms] w(1) i(1)]
    by (subst update_one [of _ w1]) (simp_all add: w2_def)
  ultimately have "markSubmissionSuccess now i ref g raw st = st\<lparr>ws_Rows := replace_row w2 (ws_Rows st)\<rparr>"
    by (simp add: markSubmissionSuccess_def replace_twice [OF i(2) [symmetric]])
  moreover have "row_step w w2 st (st\<lparr>ws_Rows := replace_row w2 (ws_Rows st)\<rparr>)"
    by (rule row_step_same_ledgerI [OF assms w(1) i(3)])
      (auto simp: w1_def w2_def status_class same_or_next_def)
  ultimately show ?thesis using w(2) by (intro disjI2 exI [of _ w] exI [of _ w2]) (simp add: w1_def w2_def)
qed

lemma MarkFailed_row:
  assumes "wdrepo_MarkFailed now i s reason raw rows = Inr rows'" "distinct (map wd_ID rows)" "w \<in> set rows" "wd_ID w = i"
  shows "rows' = replace_row (w\<lparr>wd_Status := s, wd_FailureReason := reason, wd_GatewayResponse := raw,
      wd_UpdatedAt := now\<rparr>) rows"
    "wd_Status w \<in> {WithdrawalProcessing, WithdrawalSubmitted, WithdrawalSettling, WithdrawalFailedRetryable}"
  using assms(1) assms(4) unfolding wdrepo_MarkFailed_def
  by (subst (asm) update_one [OF assms(2,3)]; auto split: if_splits)+

lemma markPilotBlocked_step:
  assumes "withdrawals_ok st"
  shows "markPilotBlocked now i st = st
    \<or> (\<exists>w w'. row_step w w' st (markPilotBlocked now i st) \<and> wd_ID w = i
        \<and> wd_Status w = WithdrawalProcessing \<and> wd_Status w' = WithdrawalPilotBlocked)"
proof (cases "\<exists>w \<in> set (ws_Rows st). wd_ID w = i \<and> wd_Status w = WithdrawalProcessing")
  case False
  then have "wdrepo_MarkPilotBlocked now i (ws_Rows st) = ws_Rows st"
    by (auto simp: wdrepo_MarkPilotBlocked_def update_where_def intro!: map_idI)
  then show ?thesis by (simp add: markPilotBlocked_def)
next
  case True
  then obtain w where w: "w \<in> set (ws_Rows st)" "wd_ID w = i" "wd_Status w = WithdrawalProcessing" by auto
  let ?w' = "w\<lparr>wd_Status := WithdrawalPilotBlocked, wd_FailureReason := ''Seller not in pilot whitelist'', wd_UpdatedAt := now\<rparr>"
  have "markPilotBlocked now i st = st\<lparr>ws_Rows := replace_row ?w' (ws_Rows st)\<rparr>"
    unfolding markPilotBlocked_def wdrepo_MarkPilotBlocked_def using w
    by (subst update_row [OF assms w(1)]) simp_all
  moreover have "row_step w ?w' st (st\<lparr>ws_Rows := replace_row ?w' (ws_Rows st)\<rparr>)"
    using w by (intro row_step_same_ledgerI [OF assms]) (auto simp: status_class same_withdrawal_def same_or_next_def)
  ultimately show ?thesis using w by fastforce
qed

lemma gateway_restore_step:
  assumes "gateway_restore ids w (ws_Ledger st) = Inr L1" "withdrawals_ok st" "w \<in> set (ws_Rows st)"
    and "fst ids \<notin> account_ids (ws_Ledger st)" "same_withdrawal w w'" "wd_Status w' = WithdrawalFailedFinal"
    and "wd_Status w \<in> {WithdrawalProcessing, WithdrawalSubmitted, WithdrawalSettling, WithdrawalFailedRetryable}"
  shows "row_step w w' st (st\<lparr>ws_Rows := replace_row w' (ws_Rows st), ws_Ledger := L1\<rparr>)"
proof -
  obtain a b x where ids: "ids = (a, b, x)" using prod_cases3 by blast
  have "moves ''withdrawal_gateway_restore_'' (wd_ID w) 0 (- wd_Amount w) 0 (ws_Ledger st) L1"
    using ok_facts(1) [OF assms(2)] ok_facts(3,4) [OF assms(2,3)] assms(1,4,7) ids
    by (intro gateway_restore_moves) (auto simp: open_keys_def in_flight_def)
  then show ?thesis using assms(6,7) by (intro row_stepI [OF assms(2,3,5)]) (auto simp: status_class)
qed

lemma markSubmissionFailed_step:
  assumes run: "markSubmissionFailed now ids i et reason st = Inr st'" and ok: "withdrawals_ok st"
    and a: "fst ids \<notin> account_ids (ws_Ledger st)" and et: "et = ErrorTypeRetryable \<or> et = ErrorTypePermanent"
  shows "\<exists>w w'. row_step w w' st st' \<and> wd_ID w = i
    \<and> (if withdrawalStatus_IsFinal (wd_Status w) then wd_Status w' = wd_Status w
       else wd_Status w' = (if et = ErrorTypeRetryable then WithdrawalFailedRetryable else WithdrawalFailedFinal))"
proof -
  note d = ok_facts(2) [OF ok]
  define rows1 where "rows1 = (if et = ErrorTypeRetryable then wdrepo_IncrementRetryCount now i (ws_Rows st) else ws_Rows st)"
  have "\<exists>w \<in> set (ws_Rows st). wd_ID w = i"
  proof (rule ccontr)
    assume "\<not> ?thesis"
    then have m: "i \<notin> wd_ID ` set (ws_Rows st)" by auto
    then have "rows1 = ws_Rows st" by (simp add: rows1_def wdrepo_IncrementRetryCount_def update_missing)
    with run obtain v where "wdrepo_GetByID i (ws_Rows st) = Inr v"
      by (auto simp: markSubmissionFailed_def wdrepo_LockForUpdate_def rows1_def [symmetric] Let_def sum_bind_Inr)
    with m GetByID_row [of i "ws_Rows st" v] show False by auto
  qed
  then obtain w where w: "w \<in> set (ws_Rows st)" "wd_ID w = i" by blast
  define w1 where "w1 = (if et = ErrorTypeRetryable then w\<lparr>wd_RetryCount := wd_RetryCount w + 1, wd_UpdatedAt := now\<rparr> else w)"
  have i1: "wd_ID w1 = wd_ID w" "same_withdrawal w w1" "wd_Status w1 = wd_Status w"
    by (simp_all add: w1_def same_withdrawal_def)
  have rows1: "rows1 = replace_row w1 (ws_Rows st)"
    using w replace_self [OF d w(1)] update_row [OF ok w(1), of "\<lambda>w. wd_ID w = i"]
    by (simp add: rows1_def w1_def wdrepo_IncrementRetryCount_def)
  note r1 = replaced [OF d w(1) i1(1), folded rows1]
  have get: "v = w1" if "wdrepo_GetByID i rows1 = Inr v" for v
    using GetByID_row [OF that] same_row [OF r1] i1(1) w(2) by simp
  define s where "s = (if et = ErrorTypeRetryable then WithdrawalFailedRetryable else WithdrawalFailedFinal)"
  consider "withdrawalStatus_IsFinal (wd_Status w)" "st' = st\<lparr>ws_Rows := rows1\<rparr>"
    | L1 rows2 where "\<not> withdrawalStatus_IsFinal (wd_Status w)" "wdrepo_MarkFailed now i s reason '''' rows1 = Inr rows2"
      "if et = ErrorTypePermanent then gateway_restore ids w1 (ws_Ledger st) = Inr L1 else L1 = ws_Ledger st"
      "st' = st\<lparr>ws_Rows := rows2, ws_Ledger := L1\<rparr>"
    using run [unfolded markSubmissionFailed_def Let_def wdrepo_LockForUpdate_def, folded rows1_def s_def]
      i1(3) et by (cases "withdrawalStatus_IsFinal (wd_Status w)") (auto simp: sum_bind_Inr dest!: get split: if_splits)
  then show ?thesis
  proof cases
    case 1
    then have "row_step w w1 st st'" unfolding 1(2) rows1
      by (intro row_step_same_ledgerI [OF ok w(1) i1(2)]) (simp_all add: i1(3) same_or_next_def)
    with 1(1) w(2) i1(3) show ?thesis by (intro exI [of _ w] exI [of _ w1]) simp
  next
    case 2
    define w2 where "w2 = w1\<lparr>wd_Status := s, wd_FailureReason := reason, wd_GatewayResponse := '''', wd_UpdatedAt := now\<rparr>"
    have i2: "wd_ID w2 = wd_ID w1" "same_withdrawal w w2" "wd_Status w2 = s"
      using i1 by (simp_all add: w2_def same_withdrawal_def)
    note f = MarkFailed_row [OF 2(2) r1, unfolded i1 w(2) w2_def [symmetric], OF refl]
    have st': "st' = st\<lparr>ws_Rows := replace_row w2 (ws_Rows st), ws_Ledger := L1\<rparr>"
      using 2(4) f(1) by (simp add: rows1 replace_twice [OF i2(1) [symmetric]])
    have "row_step w w2 st st'"
    proof (cases "et = ErrorTypeRetryable")
      case True
      then have "st' = st\<lparr>ws_Rows := replace_row w2 (ws_Rows st)\<rparr>" using st' 2(3) et by simp
      then show ?thesis using f(2) True i2
        by (auto simp: s_def status_class same_or_next_def intro!: row_step_same_ledgerI [OF ok w(1)])
    next
      case False
      have "gateway_restore ids w (ws_Ledger st) = Inr L1" using 2(3) False et by (simp add: w1_def)
      then show ?thesis unfolding st' using f(2) False i2 a
        by (intro gateway_restore_step [OF _ ok w(1)]) (simp_all add: s_def)
    qed
    with 2(1) w(2) i2(3) show ?thesis by (intro exI [of _ w] exI [of _ w2]) (simp add: s_def)
  qed
qed

section \<open>The callbacks\<close>

lemma handleSuccessCallback_step:
  assumes "handleSuccessCallback now ids w cb st = Inr st'" "withdrawals_ok st" "w \<in> set (ws_Rows st)"
  shows "\<exists>w'. row_step w w' st st' \<and> awaiting_settlement w \<and> wd_Status w' = WithdrawalSettled
    \<and> wd_ExternalReferenceID w' = wd_ExternalReferenceID w"
proof -
  obtain a b x where ids: "ids = (a, b, x)" using prod_cases3 by blast
  note f = ok_facts(3,4) [OF assms(2,3)]
  have n: "in_i64 (wd_Amount w - wd_FeeAmount w)" "in_i64 (- (wd_Amount w - wd_FeeAmount w))" "in_i64 (- wd_FeeAmount w)"
    using f(1) by (auto simp: i64_defs)
  obtain j b v L1 where r: "awaiting_settlement w"
    "ledger_GetSystemAccountID AccountWithdrawalCommitted (ws_Ledger st) = Inr j"
    "ledger_GetSystemAccountID AccountPlatformBank (ws_Ledger st) = Inr b"
    "ledger_GetSystemAccountID AccountPlatformRevenue (ws_Ledger st) = Inr v"
    "ledger_CreateTransaction x (KeyUuid ''withdraw_settle_'' (wd_ID w)) ''WITHDRAWAL_SETTLE'' (wd_ID w) None None
      [\<lparr>en_AccountID = j, en_Amount = wd_Amount w\<rparr>, \<lparr>en_AccountID = b, en_Amount = - (wd_Amount w - wd_FeeAmount w)\<rparr>,
       \<lparr>en_AccountID = v, en_Amount = - wd_FeeAmount w\<rparr>] (ws_Ledger st) = Inr L1"
    "st' = st\<lparr>ws_Rows := wdrepo_MarkSettled now (wd_ID w) (cb_RawPayload cb) (ws_Rows st), ws_Ledger := L1\<rparr>"
    using assms(1) f(1) n
    by (auto simp: handleSuccessCallback_def ids sum_bind_Inr Let_def money_New_def money_Sub_exact money_Neg_exact)
  let ?w' = "w\<lparr>wd_Status := WithdrawalSettled, wd_GatewayResponse := cb_RawPayload cb, wd_SettledAt := unix now,
    wd_UpdatedAt := now\<rparr>"
  have "wdrepo_MarkSettled now (wd_ID w) (cb_RawPayload cb) (ws_Rows st) = replace_row ?w' (ws_Rows st)"
    unfolding wdrepo_MarkSettled_def using r(1)
    by (subst update_row [OF assms(2,3)]) (simp_all add: awaiting_settlement_def)
  moreover have "moves ''withdraw_settle_'' (wd_ID w) 0 (- wd_Amount w) (- (wd_Amount w - wd_FeeAmount w)) (ws_Ledger st) L1"
    using payout_moves [OF r(5) ok_facts(1) [OF assms(2)] r(2-4)] f r(1)
    by (auto simp: awaiting_settlement_def open_keys_def in_flight_def)
  then have "row_step w ?w' st (st\<lparr>ws_Rows := replace_row ?w' (ws_Rows st), ws_Ledger := L1\<rparr>)"
    using r(1) by (intro row_stepI [OF assms(2,3)]) (auto simp: same_withdrawal_def status_class awaiting_settlement_def)
  ultimately show ?thesis using r(1,6) by (intro exI [of _ ?w']) simp
qed

lemma handlePendingCallback_step:
  assumes "handlePendingCallback now w cb st = Inr st'" "withdrawals_ok st" "w \<in> set (ws_Rows st)"
  shows "\<exists>w'. row_step w w' st st' \<and> awaiting_settlement w \<and> wd_Status w' = WithdrawalSettling
    \<and> wd_ExternalReferenceID w' = wd_ExternalReferenceID w"
proof -
  have r: "wd_Status w = WithdrawalSubmitted"
    "st' = st\<lparr>ws_Rows := wdrepo_MarkSettling now (wd_ID w) (cb_RawPayload cb) (ws_Rows st)\<rparr>"
    using assms(1) by (auto simp: handlePendingCallback_def split: if_splits)
  let ?w' = "w\<lparr>wd_Status := WithdrawalSettling, wd_GatewayResponse := cb_RawPayload cb, wd_UpdatedAt := now\<rparr>"
  have "wdrepo_MarkSettling now (wd_ID w) (cb_RawPayload cb) (ws_Rows st) = replace_row ?w' (ws_Rows st)"
    unfolding wdrepo_MarkSettling_def using r(1) by (subst update_row [OF assms(2,3)]) simp_all
  moreover have "row_step w ?w' st (st\<lparr>ws_Rows := replace_row ?w' (ws_Rows st)\<rparr>)"
    using r(1) by (intro row_step_same_ledgerI [OF assms(2,3)]) (auto simp: same_withdrawal_def status_class same_or_next_def)
  ultimately show ?thesis using r by (intro exI [of _ ?w']) (simp add: awaiting_settlement_def)
qed

lemma handleFailedCallback_step:
  assumes "handleFailedCallback now ids w cb st = Inr st'" "withdrawals_ok st" "w \<in> set (ws_Rows st)"
    and "fst ids \<notin> account_ids (ws_Ledger st)"
  shows "\<exists>w'. row_step w w' st st' \<and> awaiting_settlement w \<and> wd_Status w' = WithdrawalFailedFinal
    \<and> wd_ExternalReferenceID w' = wd_ExternalReferenceID w"
proof -
  define reason where "reason = (if cb_Message cb = '''' then ''Gateway reported failure via webhook'' else cb_Message cb)"
  obtain L1 rows1 where r: "awaiting_settlement w" "gateway_restore ids w (ws_Ledger st) = Inr L1"
    "wdrepo_MarkFailed now (wd_ID w) WithdrawalFailedFinal reason (cb_RawPayload cb) (ws_Rows st) = Inr rows1"
    "st' = st\<lparr>ws_Rows := rows1, ws_Ledger := L1\<rparr>"
    using assms(1) unfolding handleFailedCallback_def Let_def reason_def [symmetric] by (auto simp: sum_bind_Inr)
  note f = MarkFailed_row [OF r(3) ok_facts(2) [OF assms(2)] assms(3) refl]
  show ?thesis unfolding r(4) f(1)
    by (intro exI [of _ "w\<lparr>wd_Status := WithdrawalFailedFinal, wd_FailureReason := reason,
        wd_GatewayResponse := cb_RawPayload cb, wd_UpdatedAt := now\<rparr>"] conjI, rule gateway_restore_step [OF r(2) assms(2-4)])
      (use r(1) in \<open>auto simp: same_withdrawal_def awaiting_settlement_def\<close>)
qed

lemma HandleCallback_step:
  assumes "HandleCallback now ids cb st = Inr st'" "withdrawals_ok st" "fst ids \<notin> account_ids (ws_Ledger st)"
  shows "st' = st \<or> (\<exists>w w'. row_step w w' st st' \<and> awaiting_settlement w)"
proof -
  obtain w where w: "wdrepo_GetByExternalReference (cb_ExternalReferenceID cb) (ws_Rows st) = Inr w"
    and run: "(case cb_Status cb of
      WebhookSuccess \<Rightarrow> handleSuccessCallback now ids w cb st
    | WebhookPending \<Rightarrow> handlePendingCallback now w cb st
    | WebhookFailed \<Rightarrow> handleFailedCallback now ids w cb st
    | WebhookRejected \<Rightarrow> handleFailedCallback now ids w cb st
    | WebhookUnknown \<Rightarrow> Inr st) = Inr st'"
    using assms(1) by (auto simp: HandleCallback_def sum_bind_Inr split: if_splits)
  note w = GetByExternalReference_row [OF w]
  show ?thesis
    using run handleSuccessCallback_step [OF _ assms(2) w, of now ids cb st']
      handlePendingCallback_step [OF _ assms(2) w, of now cb st']
      handleFailedCallback_step [OF _ assms(2) w assms(3), of now cb st']
    by (cases "cb_Status cb") auto
qed

section \<open>The table from one state to the next\<close>

definition carried :: "(WithdrawalStatus \<Rightarrow> WithdrawalStatus \<Rightarrow> bool) \<Rightarrow> withdrawal list \<Rightarrow> withdrawal list \<Rightarrow> bool" where
  "carried R rows rows' \<longleftrightarrow> list_all2 (\<lambda>w w'. same_withdrawal w w' \<and> R (wd_Status w) (wd_Status w'))
     rows (take (length rows) rows')"

lemma same_withdrawal_refl [simp]: "same_withdrawal w w"
  by (simp add: same_withdrawal_def)

lemma carried_refl: "(\<And>s. R s s) \<Longrightarrow> carried R rows (rows @ vs)"
  by (simp add: carried_def list_all2_same)

lemma carried_row:
  assumes "carried R rows rows'" "w \<in> set rows"
  shows "\<exists>w' \<in> set rows'. same_withdrawal w w' \<and> R (wd_Status w) (wd_Status w')"
proof -
  let ?Q = "\<lambda>w w'. same_withdrawal w w' \<and> R (wd_Status w) (wd_Status w')"
  obtain n where "n < length rows" "rows ! n = w" using assms(2) by (auto simp: in_set_conv_nth)
  then have "n < length (take (length rows) rows')" "?Q w (take (length rows) rows' ! n)"
    using assms(1) by (auto simp: carried_def dest: list_all2_lengthD list_all2_nthD)
  then show ?thesis by (meson in_set_takeD nth_mem)
qed

lemma carried_replace:
  assumes "distinct (map wd_ID rows)" "w \<in> set rows" "same_withdrawal w w'" "R (wd_Status w) (wd_Status w')"
    and "\<And>s. R s s"
  shows "carried R rows (replace_row w' rows)"
  using assms same_row [OF assms(1,2)]
  by (auto simp: carried_def replace_row_def list_all2_conv_all_nth same_withdrawal_def) (metis nth_mem)+

lemma same_or_next_refl [simp]: "same_or_next s s"
  by (simp add: same_or_next_def)

lemma row_step_carried:
  "row_step w w' st st' \<Longrightarrow> withdrawals_ok st \<Longrightarrow> withdrawals_ok st' \<and> carried same_or_next (ws_Rows st) (ws_Rows st')"
  using carried_replace [OF ok_facts(2), of st w w' same_or_next] by (auto simp: row_step_def)

lemma EnsureExternalReference_keeps:
  assumes "withdrawals_ok st"
  shows "withdrawals_ok (st\<lparr>ws_Rows := snd (wdrepo_EnsureExternalReference now i (ws_Rows st))\<rparr>)"
    "carried (=) (ws_Rows st) (snd (wdrepo_EnsureExternalReference now i (ws_Rows st)))"
    "length (snd (wdrepo_EnsureExternalReference now i (ws_Rows st))) = length (ws_Rows st)"
proof -
  let ?rows' = "snd (wdrepo_EnsureExternalReference now i (ws_Rows st))"
  let ?f = "\<lambda>w. w\<lparr>wd_ExternalReferenceID := Some (i, unix now), wd_UpdatedAt := now\<rparr>"
  have "?rows' = ws_Rows st \<or> (\<exists>w \<in> set (ws_Rows st). ?rows' = replace_row (?f w) (ws_Rows st))"
  proof (cases "\<exists>w \<in> set (ws_Rows st). wd_ID w = i \<and> wd_ExternalReferenceID w = None")
    case True
    then obtain w where w: "w \<in> set (ws_Rows st)" "wd_ID w = i" "wd_ExternalReferenceID w = None" by auto
    then show ?thesis using update_row [OF assms w(1), of "\<lambda>w. wd_ID w = i \<and> wd_ExternalReferenceID w = None" ?f]
      by (auto simp: wdrepo_EnsureExternalReference_def Let_def split: option.splits)
  next
    case False
    then show ?thesis
      by (auto simp: wdrepo_EnsureExternalReference_def Let_def update_where_def split: option.splits intro!: map_idI)
  qed
  then show "withdrawals_ok (st\<lparr>ws_Rows := ?rows'\<rparr>)" "carried (=) (ws_Rows st) ?rows'" "length ?rows' = length (ws_Rows st)"
    using assms row_changes [OF assms] carried_replace [OF ok_facts(2) [OF assms], where R = "(=)"]
      carried_refl [of "(=)" "ws_Rows st" "[]"]
    by (auto simp: same_withdrawal_def) (simp_all add: replace_row_def)
qed

lemma carried_trans:
  assumes "carried (=) rows rows1" "length rows1 = length rows" "carried R rows1 rows2"
  shows "carried R rows rows2"
  using assms by (auto simp: carried_def list_all2_conv_all_nth same_withdrawal_def)

lemma ensure_references_keeps:
  assumes "withdrawals_ok st"
  shows "withdrawals_ok (st\<lparr>ws_Rows := snd (ensure_references now ws (ws_Rows st))\<rparr>)
    \<and> carried (=) (ws_Rows st) (snd (ensure_references now ws (ws_Rows st)))
    \<and> length (snd (ensure_references now ws (ws_Rows st))) = length (ws_Rows st)"
  using assms
proof (induction ws arbitrary: st)
  case Nil
  then show ?case using carried_refl [of "(=)" "ws_Rows st" "[]"] by simp
next
  case (Cons w ws)
  note e = EnsureExternalReference_keeps [OF Cons.prems, of now "wd_ID w"]
  show ?case
    using Cons.IH [OF Cons.prems] Cons.IH [OF e(1)] e(3) carried_trans [OF e(2,3)]
    by (simp add: case_prod_unfold Let_def)
qed

lemma finance_keeps_withdrawals:
  assumes "finance_do ids c (ws_Ledger st) = Inr L'" "fresh_ids ids (ws_Ledger st)" "\<forall>n \<in> call_amounts c. in_i64 n"
    and "\<not> withdrawal_call c" "withdrawals_ok st"
  shows "withdrawals_ok (st\<lparr>ws_Ledger := L'\<rparr>)"
proof -
  note ok = ok_facts(1) [OF assms(5)]
  then have "rows_ok (ws_Ledger st)" by (simp add: ledger_ok_def)
  note k = finance_do_keeps_reserves [OF assms(1-3) this assms(4)]
  have "ledger_ok L'" using finance_do_keeps [OF assms(1-3) ok] .
  moreover have "held None t L' = held None t (ws_Ledger st)" if "t \<in> withdrawal_reserves" for t
    using k that by (simp add: keeps_reserves_def)
  moreover have "KeyUuid p i \<notin> recorded_keys L'" if "p \<in> withdrawal_prefixes" "KeyUuid p i \<notin> recorded_keys (ws_Ledger st)" for p i
    using k that by (auto simp: keeps_reserves_def)
  moreover have "p \<in> withdrawal_prefixes" if "p \<in> open_keys s" for p s
    using that by (auto simp: open_keys_def withdrawal_prefixes_def split: if_splits)
  ultimately show ?thesis
    using assms(5) by (auto simp: withdrawals_ok_def withdrawal_reserves_def)
qed

section \<open>A new request\<close>

lemma amounts_in_new: "amounts_in Q (rows @ [w]) = amounts_in Q rows + (if Q (wd_Status w) then wd_Amount w else 0)"
  by (simp add: amounts_in_def)

lemma payouts_in_new:
  "payouts_in (rows @ [w]) = payouts_in rows + (if is_paid (wd_Status w) then wd_Amount w - wd_FeeAmount w else 0)"
  by (simp add: payouts_in_def)

lemma new_row_ok:
  assumes "withdrawals_ok st" "wd_ID w \<notin> wd_ID ` set (ws_Rows st)" "row_wf w" "wd_Status w = WithdrawalRequested"
    and "moves ''withdrawal_request_'' (wd_ID w) (wd_Amount w) 0 0 (ws_Ledger st) L'"
    and "\<forall>v \<in> set (ws_Rows st). wd_SellerID v = wd_SellerID w \<longrightarrow> \<not> in_flight (wd_Status v)"
  shows "withdrawals_ok (st\<lparr>ws_Rows := ws_Rows st @ [w], ws_Ledger := L'\<rparr>)"
proof -
  have s: "open_keys WithdrawalRequested = withdrawal_prefixes - {''withdrawal_request_''}"
    "\<not> is_committed WithdrawalRequested" "\<not> is_paid WithdrawalRequested" "is_requested WithdrawalRequested"
    by (auto simp: open_keys_def withdrawal_prefixes_def is_committed_def is_paid_def is_requested_def)
  have k: "KeyUuid p i \<notin> recorded_keys L'"
    if "KeyUuid p i \<notin> recorded_keys (ws_Ledger st)" "p \<noteq> ''withdrawal_request_'' \<or> i \<noteq> wd_ID w" for p i
    using assms(5) that by (auto simp: moves_def)
  have no: "KeyUuid p i \<notin> recorded_keys (ws_Ledger st)"
    if "i \<notin> wd_ID ` set (ws_Rows st)" "p \<in> withdrawal_prefixes" for p i
    using assms(1) that by (simp add: withdrawals_ok_def)
  have v: "KeyUuid p (wd_ID v) \<notin> recorded_keys L'" if "v \<in> set (ws_Rows st)" "p \<in> open_keys (wd_Status v)" for v p
  proof -
    have "wd_ID v \<noteq> wd_ID w" using that(1) assms(2) by (metis imageI)
    then show ?thesis using k ok_facts(4) [OF assms(1) that] by blast
  qed
  show ?thesis
    using assms v k no unfolding withdrawals_ok_def
    by (auto simp: moves_def amounts_in_new payouts_in_new s)
qed

lemma RequestWithdrawal_step:
  assumes "RequestWithdrawal now ids i env s n st = Inr st'" "withdrawals_ok st" "fresh_ids ids (ws_Ledger st)"
    and "in_i64 (re_Fee env)"
  shows "withdrawals_ok st' \<and> (\<exists>w. ws_Rows st' = ws_Rows st @ [w] \<and> wd_ID w = i \<and> wd_SellerID w = s
    \<and> wd_Amount w = n \<and> wd_FeeAmount w = re_Fee env \<and> wd_Status w = WithdrawalRequested) \<and> ws_Sent st' = ws_Sent st"
proof -
  obtain a b x where ids: "ids = (a, b, x)" using prod_cases3 by blast
  obtain sm L1 bid bank rows1 L2 where r: "AssertSellerWithdrawalAllowed a s n (ws_Ledger st) = Inr (sm, L1)"
    "MinWithdrawalAmount \<le> n" "n \<le> MaxWithdrawalAmount" "wdrepo_GetActiveBySellerID s (ws_Rows st) = None"
    "wdrepo_CreateWithIdempotency now i s n (re_Fee env) WithdrawalRequested (RequestKey i) bank (ws_Rows st) = Inr rows1"
    "RecordWithdrawalRequest b x s n (re_Fee env) i L1 = Inr L2"
    "st' = st\<lparr>ws_Rows := rows1, ws_Ledger := L2\<rparr>"
    using assms(1) by (auto simp: RequestWithdrawal_def ids sum_bind_Inr split: option.splits)
  have n: "10000 \<le> n" "n \<le> 50000000" "in_i64 n"
    using r(2,3) by (auto simp: MinWithdrawalAmount_def MaxWithdrawalAmount_def i64_defs)
  obtain w where w: "rows1 = ws_Rows st @ [w]" "wd_ID w = i" "wd_SellerID w = s" "wd_Amount w = n"
    "wd_FeeAmount w = re_Fee env" "wd_Status w = WithdrawalRequested" "i \<notin> wd_ID ` set (ws_Rows st)"
    using r(5) by (auto simp: wdrepo_CreateWithIdempotency_def split: if_splits)
  have k: "KeyUuid ''withdrawal_request_'' i \<notin> recorded_keys (ws_Ledger st)"
    using assms(2) w(7) by (simp add: withdrawals_ok_def withdrawal_prefixes_def)
  note m = request_moves [OF r(1,6) ok_facts(1) [OF assms(2)] n(3) assms(3) [unfolded ids] k]
  have "set (sort_key (\<lambda>w. - wd_CreatedAt w) (filter (\<lambda>w. wd_SellerID w = s \<and> in_flight (wd_Status w)) (ws_Rows st))) = {}"
    using r(4) by (auto simp: wdrepo_GetActiveBySellerID_def split: list.splits simp del: set_sort)
  then have "\<forall>v \<in> set (ws_Rows st). wd_SellerID v = wd_SellerID w \<longrightarrow> \<not> in_flight (wd_Status v)"
    using w(3) by (auto simp: filter_empty_conv)
  then have "withdrawals_ok (st\<lparr>ws_Rows := ws_Rows st @ [w], ws_Ledger := L2\<rparr>)"
    using m w n assms(4) by (intro new_row_ok [OF assms(2)]) (simp_all add: row_wf_def)
  then show ?thesis using r(7) w(1-6) by auto
qed

section \<open>The events\<close>

inductive withdraw_step :: "withdraw_state \<Rightarrow> withdraw_state \<Rightarrow> bool" where
  step_request: "RequestWithdrawal now ids i env s n st = Inr st' \<Longrightarrow> fresh_ids ids (ws_Ledger st)
    \<Longrightarrow> in_i64 (re_Fee env) \<Longrightarrow> withdraw_step st st'"
| step_approve: "ApproveWithdraw now ids c cap verified i st = Inr st' \<Longrightarrow> withdraw_step st st'"
| step_reject: "RejectWithdraw now ids c cap i st = Inr st' \<Longrightarrow> fresh_ids ids (ws_Ledger st) \<Longrightarrow> withdraw_step st st'"
| step_processed: "MarkProcessed now ids c cap i st = Inr st' \<Longrightarrow> withdraw_step st st'"
| step_poll: "findEligibleWithdrawals now limit st = (ws, st') \<Longrightarrow> withdraw_step st st'"
| step_block: "markPilotBlocked now i st = st' \<Longrightarrow> withdraw_step st st'"
| step_send: "send_request req st = st' \<Longrightarrow> withdraw_step st st'"
| step_answer: "record_response now ids req answer st = Inr st' \<Longrightarrow> fresh_ids ids (ws_Ledger st) \<Longrightarrow> withdraw_step st st'"
| step_callback: "HandleCallback now ids cb st = Inr st' \<Longrightarrow> fresh_ids ids (ws_Ledger st) \<Longrightarrow> withdraw_step st st'"
| step_finance: "finance_do ids c (ws_Ledger st) = Inr L' \<Longrightarrow> fresh_ids ids (ws_Ledger st)
    \<Longrightarrow> \<forall>n \<in> call_amounts c. in_i64 n \<Longrightarrow> \<not> withdrawal_call c \<Longrightarrow> st' = st\<lparr>ws_Ledger := L'\<rparr>
    \<Longrightarrow> withdraw_step st st'"

lemma record_response_step:
  assumes "record_response now ids req answer st = Inr st'" "withdrawals_ok st" "fst ids \<notin> account_ids (ws_Ledger st)"
  shows "st' = st \<or> (\<exists>w w'. row_step w w' st st' \<and> wd_ID w = rq_WithdrawalID req)"
proof -
  consider et reason where "markSubmissionFailed now ids (rq_WithdrawalID req) et reason st = Inr st'"
      "et = ErrorTypeRetryable \<or> et = ErrorTypePermanent"
    | ref g raw where "st' = markSubmissionSuccess now (rq_WithdrawalID req) ref g raw st"
    using assms(1) by (auto simp: record_response_def split: sum.splits if_splits)
  then show ?thesis
    using markSubmissionFailed_step [OF _ assms(2,3)] markSubmissionSuccess_step [OF assms(2)] by cases metis+
qed

lemma withdraw_step_keeps:
  assumes "withdraw_step st st'" "withdrawals_ok st"
  shows "withdrawals_ok st' \<and> carried same_or_next (ws_Rows st) (ws_Rows st')"
  using assms(1)
proof cases
  case (step_request now ids i env s n)
  then show ?thesis using RequestWithdrawal_step [OF step_request(1) assms(2)] carried_refl [of same_or_next] by fastforce
next
  case (step_approve now ids c cap verified i)
  then show ?thesis using ApproveWithdraw_step [OF step_approve(1) assms(2)] row_step_carried assms(2) by blast
next
  case (step_reject now ids c cap i)
  then show ?thesis using RejectWithdraw_step [OF step_reject(1) assms(2)] row_step_carried assms(2) by (auto simp: fresh_ids_def)
next
  case (step_processed now ids c cap i)
  then show ?thesis using MarkProcessed_step [OF step_processed(1) assms(2)] row_step_carried assms(2) by blast
next
  case (step_poll now limit ws)
  then show ?thesis
    using ensure_references_keeps [OF assms(2), of now "wdrepo_GetEligibleForSubmission limit (ws_Rows st)"]
    by (auto simp: findEligibleWithdrawals_def carried_def list_all2_conv_all_nth split: prod.splits)
next
  case (step_block now i)
  then show ?thesis using markPilotBlocked_step [OF assms(2), of now i] row_step_carried assms(2)
      carried_refl [of same_or_next "ws_Rows st" "[]"] by auto
next
  case (step_send req)
  then show ?thesis using assms(2) carried_refl [of same_or_next "ws_Rows st" "[]"]
    by (auto simp: send_request_def withdrawals_ok_def)
next
  case (step_answer now ids req answer)
  then show ?thesis using record_response_step [OF step_answer(1) assms(2)] row_step_carried assms(2)
      carried_refl [of same_or_next "ws_Rows st" "[]"] by (auto simp: fresh_ids_def)
next
  case (step_callback now ids cb)
  then show ?thesis using HandleCallback_step [OF step_callback(1) assms(2)] row_step_carried assms(2)
      carried_refl [of same_or_next "ws_Rows st" "[]"] by (auto simp: fresh_ids_def)
next
  case (step_finance ids c L')
  then show ?thesis using finance_keeps_withdrawals [OF step_finance(1-4) assms(2)]
      carried_refl [of same_or_next "ws_Rows st" "[]"] by simp
qed

interpretation withdraw_books: kept_fact withdraw_step withdrawals_ok
  by unfold_locales (auto dest: withdraw_step_keeps)

end
