(* ===== verification/WithdrawalLife.thy ===== *)
theory WithdrawalLife
  imports WithdrawalSteps
begin

text \<open>
  What holds of every withdrawal from the opening of the books on, whatever the
  order of the events: the reserves are backed, a status only moves forward,
  and where a withdrawal can get stuck or be paid twice.
\<close>

section \<open>The states that are reached\<close>

definition opening_withdrawals :: withdraw_state where
  "opening_withdrawals = \<lparr>ws_Rows = [], ws_Ledger = opening_books, ws_Sent = []\<rparr>"

lemma opening_held:
  "held None AccountWithdrawalPending opening_books = 0" "held None AccountWithdrawalCommitted opening_books = 0"
  "held None AccountPlatformBank opening_books = 9000000000000000"
  by code_simp+

lemma opening_withdrawals_ok: "withdrawals_ok opening_withdrawals"
  using opening_books_ok opening_held opening_transactions
  by (simp add: withdrawals_ok_def opening_withdrawals_def amounts_in_def payouts_in_def recorded_keys_def)

definition reached :: "withdraw_state \<Rightarrow> bool" where
  "reached st \<longleftrightarrow> withdraw_step\<^sup>*\<^sup>* opening_withdrawals st"

lemma reached_ok: "reached st \<Longrightarrow> withdrawals_ok st"
  using withdraw_books.run_keeps [OF _ opening_withdrawals_ok] by (simp add: reached_def)

lemma reached_step: "reached st \<Longrightarrow> withdraw_step st st' \<Longrightarrow> reached st'"
  by (simp add: reached_def)

text \<open>The row of one withdrawal keeps a status of a set that is closed under the moves.\<close>

definition has_row :: "uuid \<Rightarrow> uuid \<Rightarrow> WithdrawalStatus set \<Rightarrow> withdraw_state \<Rightarrow> bool" where
  "has_row i seller S st \<longleftrightarrow> withdrawals_ok st
     \<and> (\<exists>w \<in> set (ws_Rows st). wd_ID w = i \<and> wd_SellerID w = seller \<and> wd_Status w \<in> S)"

lemma has_row_keeps:
  assumes "withdraw_step st st'" "has_row i seller S st" "\<forall>s \<in> S. set (next_statuses s) \<subseteq> S"
  shows "has_row i seller S st'"
proof -
  obtain w where w: "w \<in> set (ws_Rows st)" "wd_ID w = i" "wd_SellerID w = seller" "wd_Status w \<in> S"
    using assms(2) by (auto simp: has_row_def)
  note k = withdraw_step_keeps [OF assms(1)] assms(2)
  then obtain w' where "w' \<in> set (ws_Rows st')" "same_withdrawal w w'" "same_or_next (wd_Status w) (wd_Status w')"
    using carried_row [OF _ w(1)] by (auto simp: has_row_def)
  then show ?thesis using k w assms(3) by (auto simp: has_row_def same_withdrawal_def same_or_next_def)
qed

interpretation retried: kept_fact withdraw_step "has_row i seller {WithdrawalFailedRetryable, WithdrawalFailedFinal}"
  for i seller
  by unfold_locales (auto elim: has_row_keeps)

interpretation blocked: kept_fact withdraw_step "has_row i seller {WithdrawalPilotBlocked}" for i seller
  by unfold_locales (auto elim: has_row_keeps)

section \<open>Running events\<close>

datatype withdraw_event =
  EvRequest time new_ids uuid withdraw_reads uuid i64
  | EvApprove time new_ids uuid bool bool uuid
  | EvReject time new_ids uuid bool uuid
  | EvProcessed time new_ids uuid bool uuid
  | EvPoll time nat
  | EvBlock time uuid
  | EvSend PayoutGatewayRequest
  | EvAnswer time new_ids PayoutGatewayRequest "string + PayoutGatewayResponse"
  | EvCallback time new_ids WebhookCallback
  | EvFinance new_ids finance_call

fun withdraw_do :: "withdraw_event \<Rightarrow> withdraw_state \<Rightarrow> withdraw_error + withdraw_state" where
  "withdraw_do (EvRequest now ids i env s n) st = RequestWithdrawal now ids i env s n st"
| "withdraw_do (EvApprove now ids c cap verified i) st = ApproveWithdraw now ids c cap verified i st"
| "withdraw_do (EvReject now ids c cap i) st = RejectWithdraw now ids c cap i st"
| "withdraw_do (EvProcessed now ids c cap i) st = MarkProcessed now ids c cap i st"
| "withdraw_do (EvPoll now limit) st = Inr (snd (findEligibleWithdrawals now limit st))"
| "withdraw_do (EvBlock now i) st = Inr (markPilotBlocked now i st)"
| "withdraw_do (EvSend req) st = Inr (send_request req st)"
| "withdraw_do (EvAnswer now ids req answer) st = record_response now ids req answer st"
| "withdraw_do (EvCallback now ids cb) st = HandleCallback now ids cb st"
| "withdraw_do (EvFinance ids c) st =
     sum_bind (wfin (finance_do ids c (ws_Ledger st))) (\<lambda>L'. Inr (st\<lparr>ws_Ledger := L'\<rparr>))"

fun event_ok :: "withdraw_event \<Rightarrow> withdraw_state \<Rightarrow> bool" where
  "event_ok (EvRequest now ids i env s n) st \<longleftrightarrow> fresh_ids ids (ws_Ledger st) \<and> in_i64 (re_Fee env)"
| "event_ok (EvReject now ids c cap i) st \<longleftrightarrow> fresh_ids ids (ws_Ledger st)"
| "event_ok (EvAnswer now ids req answer) st \<longleftrightarrow> fresh_ids ids (ws_Ledger st)"
| "event_ok (EvCallback now ids cb) st \<longleftrightarrow> fresh_ids ids (ws_Ledger st)"
| "event_ok (EvFinance ids c) st \<longleftrightarrow> fresh_ids ids (ws_Ledger st) \<and> (\<forall>n \<in> call_amounts c. in_i64 n)
     \<and> \<not> withdrawal_call c"
| "event_ok _ st \<longleftrightarrow> True"

lemma withdraw_do_step:
  assumes "withdraw_do e st = Inr st'" "event_ok e st"
  shows "withdraw_step st st'"
  using assms by (cases e) (auto simp: sum_bind_Inr prod_eq_iff intro: withdraw_step.intros)

fun withdraw_runs :: "withdraw_event list \<Rightarrow> withdraw_state \<Rightarrow> withdraw_state option" where
  "withdraw_runs [] st = Some st"
| "withdraw_runs (e # es) st =
     (if event_ok e st then (case withdraw_do e st of Inl _ \<Rightarrow> None | Inr st1 \<Rightarrow> withdraw_runs es st1) else None)"

lemma withdraw_runs_reached:
  "withdraw_runs es st = Some st' \<Longrightarrow> reached st \<Longrightarrow> reached st'"
  by (induction es arbitrary: st) (auto split: if_splits sum.splits dest: withdraw_do_step reached_step)

text \<open>
  A concrete run: a sale leaves a seller 1 080 000, who asks for 100 000 with a
  fee of 2 500; the request is approved and polled.
\<close>

definition sample_reads :: withdraw_reads where
  "sample_reads = \<lparr>re_Active = True, re_Verified = True, re_DefaultBank = Some (70, \<lparr>bk_BankName = ''BCA'',
     bk_BankCode = ''014'', bk_AccountNumber = ''1234567890'', bk_AccountHolder = ''Siti''\<rparr>),
     re_Reviewed = True, re_Fee = 2500\<rparr>"

definition sample_events :: "withdraw_event list" where
  "sample_events = [EvFinance (1, 2, 1001) (CallPaymentSettlement 11 12 ''mid'' 1200000),
     EvFinance (1, 2, 1002) (CallOrderRelease 12 7 1200000 120000 1080000),
     EvRequest 5000000000 (3, 4, 1003) 31 sample_reads 7 100000,
     EvApprove 6000000000 (5, 6, 1004) SystemCallerID True True 31]"

lemma runs_the: "(case m of None \<Rightarrow> False | Some _ \<Rightarrow> True) \<Longrightarrow> m = Some (the m)"
  by (simp split: option.splits)

definition sample_polled :: withdraw_state where
  "sample_polled = the (withdraw_runs (sample_events @ [EvPoll 7000000000 10]) opening_withdrawals)"

definition sample_row :: withdrawal where
  "sample_row = \<lparr>wd_ID = 31, wd_SellerID = 7, wd_Amount = 100000, wd_FeeAmount = 2500,
     wd_Status = WithdrawalProcessing, wd_IdempotencyKey = RequestKey 31,
     wd_Bank = \<lparr>bk_BankName = ''BCA'', bk_BankCode = ''014'', bk_AccountNumber = ''1234567890'',
       bk_AccountHolder = ''Siti''\<rparr>, wd_ExternalReferenceID = Some (31, 7), wd_GatewayReferenceNo = '''',
     wd_GatewayResponse = '''', wd_FailureReason = '''', wd_SubmittedAt = 0, wd_SettledAt = 0, wd_RetryCount = 0,
     wd_CreatedAt = 5000000000, wd_UpdatedAt = 7000000000\<rparr>"

definition sample_request :: PayoutGatewayRequest where
  "sample_request = payout_request 8000000000 sample_row"

definition sample_accepted :: PayoutGatewayResponse where
  "sample_accepted = \<lparr>rs_Status = PayoutSuccess, rs_GatewayReferenceID = ''iris-1'', rs_Message = '''',
     rs_RawResponse = ''queued'', rs_ErrorType = ErrorTypeNone\<rparr>"

lemma sample_polled_runs:
  "withdraw_runs (sample_events @ [EvPoll 7000000000 10]) opening_withdrawals = Some sample_polled"
  unfolding sample_polled_def by (rule runs_the) code_simp

lemma sample_polled_reached: "reached sample_polled"
  using withdraw_runs_reached [OF sample_polled_runs] by (simp add: reached_def)

lemma sample_polled_rows: "ws_Rows sample_polled = [sample_row]" "fresh_ids (7, 8, 1005) (ws_Ledger sample_polled)"
  by code_simp+

lemmas sample_simps = sample_row_def sample_request_def payout_request_def sample_accepted_def response_IsSuccess_def

text \<open>The state after the gateway has answered that the payout cannot be made now.\<close>

definition sample_retry_row :: withdrawal where
  "sample_retry_row = sample_row\<lparr>wd_Status := WithdrawalFailedRetryable, wd_RetryCount := 1,
     wd_FailureReason := ''timeout'', wd_UpdatedAt := 9000000000\<rparr>"

definition sample_retry :: withdraw_state where
  "sample_retry = sample_polled\<lparr>ws_Rows := [sample_retry_row], ws_Sent := ws_Sent sample_polled @ [sample_request]\<rparr>"

lemma sample_retry_reached: "reached sample_retry"
proof -
  have "record_response 9000000000 (7, 8, 1005) sample_request (Inl ''timeout'')
      (send_request sample_request sample_polled) = Inr sample_retry"
    by (simp add: record_response_def markSubmissionFailed_def send_request_def sample_polled_rows
        wdrepo_IncrementRetryCount_def wdrepo_LockForUpdate_def wdrepo_GetByID_def wdrepo_MarkFailed_def
        update_where_def withdrawalStatus_IsFinal_def sample_simps sample_retry_def sample_retry_row_def)
  then have "withdraw_step (send_request sample_request sample_polled) sample_retry"
    using sample_polled_rows(2) by (intro step_answer) (simp_all add: send_request_def)
  then show ?thesis using reached_step sample_polled_reached step_send by blast
qed

section \<open>Properties\<close>

text \<open>
  C10. At every moment the reserves of the ledger are backed by the rows: what
  is held as pending is the sum of the requested withdrawals, what is held as
  committed the sum of those in flight after approval, the payout account is
  down by exactly the net amount of every settled or completed withdrawal, and
  a seller has at most one withdrawal in flight. The calls of the service, the
  polls, sendings and late answers of the worker, the callbacks and all other
  finance operations may come in any order.
\<close>

theorem reserves_are_backed:
  assumes "withdraw_step\<^sup>*\<^sup>* opening_withdrawals st"
  shows "held None AccountWithdrawalPending (ws_Ledger st)
      = (\<Sum>w\<leftarrow>ws_Rows st. if wd_Status w = WithdrawalRequested then wd_Amount w else 0)
    \<and> held None AccountWithdrawalCommitted (ws_Ledger st)
      = (\<Sum>w\<leftarrow>ws_Rows st. if in_flight (wd_Status w) \<and> wd_Status w \<noteq> WithdrawalRequested then wd_Amount w else 0)
    \<and> held None AccountPlatformBank (ws_Ledger st)
      = platformBankReserveFloat - (\<Sum>w\<leftarrow>ws_Rows st. if wd_Status w = WithdrawalSettled \<or> wd_Status w = WithdrawalCompleted
          then wd_Amount w - wd_FeeAmount w else 0)
    \<and> (\<forall>v \<in> set (ws_Rows st). \<forall>w \<in> set (ws_Rows st). wd_SellerID v = wd_SellerID w
        \<and> in_flight (wd_Status v) \<and> in_flight (wd_Status w) \<longrightarrow> v = w)"
  using reached_ok [unfolded reached_def, OF assms]
  by (simp add: withdrawals_ok_def amounts_in_def payouts_in_def is_requested_def is_committed_def is_paid_def
      platformBankReserveFloat_def)

theorem reserves_are_backed_witness:
  "held None AccountWithdrawalCommitted (ws_Ledger sample_polled) = 100000"
  using reserves_are_backed [OF sample_polled_reached [unfolded reached_def]]
  by (simp add: sample_polled_rows sample_row_def in_flight_def)

text \<open>
  C11. No event changes whose a withdrawal is, its amount or its fee, and a
  status only moves as the table \<open>CanTransitionTo\<close> allows, with three
  exceptions that no code checks against it: a submission that fails goes from
  processing straight to failed (for a retry or for good), and a failed retry
  goes to failed for good. A final status never changes.
\<close>

theorem withdrawal_status_moves:
  assumes "withdraw_step\<^sup>*\<^sup>* opening_withdrawals st" "withdraw_step st st'" "w \<in> set (ws_Rows st)"
  shows "\<exists>w' \<in> set (ws_Rows st'). wd_ID w' = wd_ID w \<and> wd_SellerID w' = wd_SellerID w \<and> wd_Amount w' = wd_Amount w
    \<and> wd_FeeAmount w' = wd_FeeAmount w
    \<and> (wd_Status w' = wd_Status w
      \<or> \<not> withdrawalStatus_IsFinal (wd_Status w) \<and> (withdrawalStatus_CanTransitionTo (wd_Status w) (wd_Status w')
        \<or> (wd_Status w, wd_Status w') \<in> {(WithdrawalProcessing, WithdrawalFailedRetryable),
            (WithdrawalProcessing, WithdrawalFailedFinal), (WithdrawalFailedRetryable, WithdrawalFailedFinal)}))"
proof -
  have "carried same_or_next (ws_Rows st) (ws_Rows st')"
    using withdraw_step_keeps [OF assms(2)] reached_ok [unfolded reached_def, OF assms(1)] by blast
  from carried_row [OF this assms(3)] obtain w' where w': "w' \<in> set (ws_Rows st')" "same_withdrawal w w'"
    "same_or_next (wd_Status w) (wd_Status w')"
    by auto
  then show ?thesis
    by (intro bexI [OF _ w'(1)], cases "wd_Status w") (auto simp: same_withdrawal_def same_or_next_def
        withdrawalStatus_IsFinal_def withdrawalStatus_CanTransitionTo_def)
qed

theorem withdrawal_status_moves_witness:
  "\<exists>w' \<in> set (ws_Rows (markPilotBlocked 8000000000 31 sample_polled)). wd_ID w' = 31 \<and> wd_Amount w' = 100000"
  using withdrawal_status_moves [OF sample_polled_reached [unfolded reached_def] step_block [OF refl], of sample_row]
  by (auto simp: sample_polled_rows sample_row_def)

text \<open>
  A withdrawal that once failed for a retry is never paid in the books,
  whatever happens afterwards: its row stays as it is or fails for good. The
  submission only records a success for a row in processing.
\<close>

theorem retried_payout_never_settles:
  assumes "withdraw_step\<^sup>*\<^sup>* opening_withdrawals st" "w \<in> set (ws_Rows st)" "wd_Status w = WithdrawalFailedRetryable"
    and "withdraw_step\<^sup>*\<^sup>* st st'"
  shows "\<exists>w' \<in> set (ws_Rows st'). wd_ID w' = wd_ID w
    \<and> (wd_Status w' = WithdrawalFailedRetryable \<or> wd_Status w' = WithdrawalFailedFinal)"
proof -
  have "has_row (wd_ID w) (wd_SellerID w) {WithdrawalFailedRetryable, WithdrawalFailedFinal} st"
    using reached_ok [unfolded reached_def, OF assms(1)] assms(2,3) by (auto simp: has_row_def)
  from retried.run_keeps [OF assms(4) this] show ?thesis by (auto simp: has_row_def)
qed

lemma sample_retry_in:
  "sample_retry_row \<in> set (ws_Rows sample_retry)" "wd_ID sample_retry_row = 31"
  "wd_Status sample_retry_row = WithdrawalFailedRetryable"
  by (simp_all add: sample_retry_def sample_retry_row_def sample_row_def)

theorem retried_payout_never_settles_witness:
  "\<exists>w' \<in> set (ws_Rows (markSubmissionSuccess 10000000000 31 (Some (31, 7)) ''iris-1'' ''queued'' sample_retry)).
    wd_ID w' = 31 \<and> (wd_Status w' = WithdrawalFailedRetryable \<or> wd_Status w' = WithdrawalFailedFinal)"
proof -
  have "record_response 10000000000 (7, 8, 1005) (sample_request\<lparr>rq_WithdrawalID := 31, rq_ExternalReferenceID := (31, 7)\<rparr>)
      (Inr sample_accepted) sample_retry
    = Inr (markSubmissionSuccess 10000000000 31 (Some (31, 7)) ''iris-1'' ''queued'' sample_retry)"
    by (simp add: record_response_def sample_accepted_def response_IsSuccess_def)
  moreover have "fresh_ids (7, 8, 1005) (ws_Ledger sample_retry)" by (simp add: sample_retry_def sample_polled_rows)
  ultimately have "withdraw_step sample_retry (markSubmissionSuccess 10000000000 31 (Some (31, 7)) ''iris-1'' ''queued'' sample_retry)"
    by (rule step_answer)
  from retried_payout_never_settles [OF sample_retry_reached [unfolded reached_def] sample_retry_in(1,3)
      r_into_rtranclp [of withdraw_step, OF this]]
  show ?thesis by (simp add: sample_retry_in)
qed

text \<open>
  C38. A retry that the gateway accepts is not recorded: the row stays failed
  for a retry with its count back at zero, so as soon as the clock has moved on
  it is in the retry queue again and the same payout is sent once more.
\<close>

theorem accepted_retry_is_sent_again:
  assumes "withdraw_step\<^sup>*\<^sup>* opening_withdrawals st" "w \<in> set (ws_Rows st)" "wd_Status w = WithdrawalFailedRetryable"
    and "\<not> pilot_blocks cfg w" "gateway (payout_request now w) = Inr resp" "response_IsSuccess resp"
    and "now < later" "length (ws_Rows st) \<le> limit"
  shows "ws_Sent (submitWithdrawal cfg now ids gateway w st) = ws_Sent st @ [payout_request now w]
    \<and> ws_Ledger (submitWithdrawal cfg now ids gateway w st) = ws_Ledger st
    \<and> w\<lparr>wd_RetryCount := 0, wd_UpdatedAt := now\<rparr>
      \<in> set (findRetryableWithdrawals later limit (submitWithdrawal cfg now ids gateway w st))"
proof -
  have ok: "withdrawals_ok st" using reached_ok [unfolded reached_def, OF assms(1)] .
  let ?w' = "w\<lparr>wd_RetryCount := 0, wd_UpdatedAt := now\<rparr>"
  have "submitWithdrawal cfg now ids gateway w st
      = (send_request (payout_request now w) st)\<lparr>ws_Rows := replace_row ?w' (ws_Rows st)\<rparr>"
    using assms(3-6) update_row [OF ok assms(2), of "\<lambda>v. wd_ID v = wd_ID w" "\<lambda>w. w\<lparr>wd_RetryCount := 0, wd_UpdatedAt := now\<rparr>"]
      update_row [OF ok assms(2), of "\<lambda>v. wd_ID v = wd_ID w \<and> wd_Status v = WithdrawalProcessing"]
    by (simp add: submitWithdrawal_def record_response_def commit_def markSubmissionSuccess_def send_request_def
        wdrepo_UpdateForSubmission_def wdrepo_ResetRetryCount_def payout_request_def Let_def)
  moreover have "?w' \<in> set (replace_row ?w' (ws_Rows st))"
    using replaced(2) [OF ok_facts(2) [OF ok] assms(2), of ?w'] by simp
  moreover have "length (replace_row ?w' (ws_Rows st)) = length (ws_Rows st)" by (simp add: replace_row_def)
  then have "length (filter P (replace_row ?w' (ws_Rows st))) \<le> limit" for P
    using length_filter_le [of P "replace_row ?w' (ws_Rows st)"] assms(8) by linarith
  ultimately show ?thesis using assms(3,7)
    by (simp add: send_request_def findRetryableWithdrawals_def wdrepo_GetRetryableWithdrawals_def MaxRetries_def
        retry_backoff_def)
qed

theorem accepted_retry_is_sent_again_witness:
  "sample_retry_row\<lparr>wd_RetryCount := 0, wd_UpdatedAt := 20000000000\<rparr>
    \<in> set (findRetryableWithdrawals 30000000000 5 (submitWithdrawal \<lparr>cf_EnablePilotMode = False, cf_PilotWhitelist = [],
        cf_BatchSize = 10, cf_RetryBatchSize = 5\<rparr> 20000000000 (7, 8, 1005) (\<lambda>_. Inr sample_accepted) sample_retry_row
        sample_retry))"
  using accepted_retry_is_sent_again [OF sample_retry_reached [unfolded reached_def] sample_retry_in(1,3), of
      "\<lparr>cf_EnablePilotMode = False, cf_PilotWhitelist = [], cf_BatchSize = 10, cf_RetryBatchSize = 5\<rparr>"
      "\<lambda>_. Inr sample_accepted" 20000000000 sample_accepted 30000000000 5 "(7, 8, 1005)"]
  by (simp add: pilot_blocks_def sample_accepted_def response_IsSuccess_def sample_retry_def)

lemma pending_refuses_request:
  assumes "withdrawals_ok st" "w \<in> set (ws_Rows st)" "in_flight (wd_Status w)"
  shows "RequestWithdrawal now ids j env (wd_SellerID w) n st \<noteq> Inr st'"
proof
  assume "RequestWithdrawal now ids j env (wd_SellerID w) n st = Inr st'"
  then have "wdrepo_GetActiveBySellerID (wd_SellerID w) (ws_Rows st) = None"
    by (cases ids) (auto simp: RequestWithdrawal_def sum_bind_Inr split: option.splits)
  then have "set (sort_key (\<lambda>v. - wd_CreatedAt v)
      (filter (\<lambda>v. wd_SellerID v = wd_SellerID w \<and> in_flight (wd_Status v)) (ws_Rows st))) = {}"
    by (auto simp: wdrepo_GetActiveBySellerID_def split: list.splits simp del: set_sort)
  then show False using assms(2,3) by (auto simp: filter_empty_conv)
qed

text \<open>
  A withdrawal blocked by the pilot is stuck: nothing moves its row any
  more, no caller can reject it, and every later request of its seller is
  refused because one is pending.
\<close>

theorem blocked_withdrawal_locks_its_seller:
  assumes "withdraw_step\<^sup>*\<^sup>* opening_withdrawals st" "w \<in> set (ws_Rows st)" "wd_Status w = WithdrawalPilotBlocked"
    and "withdraw_step\<^sup>*\<^sup>* st st'"
  shows "(\<exists>w' \<in> set (ws_Rows st'). wd_ID w' = wd_ID w \<and> wd_Status w' = WithdrawalPilotBlocked)
    \<and> RejectWithdraw now ids callerID hasCapability (wd_ID w) st' \<noteq> Inr rejected
    \<and> RequestWithdrawal now ids withdrawalID env (wd_SellerID w) amount st' \<noteq> Inr requested"
proof -
  have "has_row (wd_ID w) (wd_SellerID w) {WithdrawalPilotBlocked} st"
    using reached_ok [unfolded reached_def, OF assms(1)] assms(2,3) by (auto simp: has_row_def)
  from blocked.run_keeps [OF assms(4) this] obtain w' where ok: "withdrawals_ok st'"
    and w': "w' \<in> set (ws_Rows st')" "wd_ID w' = wd_ID w" "wd_SellerID w' = wd_SellerID w"
      "wd_Status w' = WithdrawalPilotBlocked"
    by (auto simp: has_row_def)
  have "v = w'" if "wdrepo_GetByID (wd_ID w) (ws_Rows st') = Inr v" for v
    using GetByID_row [OF that] same_row [OF ok_facts(2) [OF ok] w'(1)] w'(2) by simp
  then have "RejectWithdraw now ids callerID hasCapability (wd_ID w) st' \<noteq> Inr rejected"
    using w'(4) by (cases ids) (auto simp: RejectWithdraw_def sum_bind_Inr wdrepo_LockForUpdate_def split: if_splits)
  moreover have "in_flight (wd_Status w')" using w'(4) by (simp add: in_flight_def)
  ultimately show ?thesis using w' pending_refuses_request [OF ok w'(1)] by auto
qed

theorem blocked_withdrawal_locks_its_seller_witness:
  "\<nexists>requested. RequestWithdrawal 9000000000 (7, 8, 1005) 32 sample_reads 7 50000
    (markPilotBlocked 8000000000 31 sample_polled) = Inr requested"
proof -
  let ?st = "markPilotBlocked 8000000000 31 sample_polled"
  have "withdraw_step sample_polled ?st" by (rule step_block) simp
  then have r: "withdraw_step\<^sup>*\<^sup>* opening_withdrawals ?st" using sample_polled_reached by (simp add: reached_def)
  let ?w = "sample_row\<lparr>wd_Status := WithdrawalPilotBlocked, wd_FailureReason := ''Seller not in pilot whitelist'',
    wd_UpdatedAt := 8000000000\<rparr>"
  have "?w \<in> set (ws_Rows ?st)"
    by (simp add: markPilotBlocked_def wdrepo_MarkPilotBlocked_def update_where_def sample_polled_rows sample_row_def)
  from blocked_withdrawal_locks_its_seller [OF r this _ rtranclp.rtrancl_refl]
  show ?thesis by (simp add: sample_row_def)
qed

lemma committed_returned:
  assumes "withdrawals_ok st" "row_step w w' st st'" "is_committed (wd_Status w)" "\<not> is_committed (wd_Status w')"
  shows "held None AccountWithdrawalCommitted (ws_Ledger st') = held None AccountWithdrawalCommitted (ws_Ledger st) - wd_Amount w"
proof -
  have "withdrawals_ok st'" "w \<in> set (ws_Rows st)" "wd_ID w' = wd_ID w" "ws_Rows st' = replace_row w' (ws_Rows st)"
    using assms(2) by (simp_all add: row_step_def same_withdrawal_def)
  then show ?thesis
    using assms(1,3,4) sum_replace [OF ok_facts(2) [OF assms(1)], of w w' "\<lambda>w. if is_committed (wd_Status w) then wd_Amount w else 0"]
    by (simp add: withdrawals_ok_def amounts_in_def)
qed

lemma final_row_kept:
  assumes "withdrawals_ok st" "v \<in> set (ws_Rows st)" "wd_ID v = i" "wd_Status v \<noteq> WithdrawalProcessing"
  shows "\<exists>v' \<in> set (ws_Rows (markSubmissionSuccess now i ref g raw st)). wd_ID v' = i \<and> wd_Status v' = wd_Status v"
  using markSubmissionSuccess_step [OF assms(1), of now i ref g raw] assms(2-4)
proof (elim disjE exE conjE)
  fix w w' assume s: "row_step w w' st (markSubmissionSuccess now i ref g raw st)" "wd_ID w = i"
    "wd_Status w' = (if wd_Status w = WithdrawalProcessing then WithdrawalSubmitted else wd_Status w)"
  then have w: "w \<in> set (ws_Rows st)" "wd_ID w' = wd_ID w"
    "ws_Rows (markSubmissionSuccess now i ref g raw st) = replace_row w' (ws_Rows st)"
    by (simp_all add: row_step_def same_withdrawal_def)
  have "w = v" using same_row [OF ok_facts(2) [OF assms(1)] assms(2) w(1)] assms(3) s(2) by simp
  then show ?thesis
    using replaced(2) [OF ok_facts(2) [OF assms(1)] w(1,2)] w s assms(4) by (auto intro!: bexI [of _ w'])
qed auto

text \<open>
  A rejection between the worker's poll and the gateway's answer pays
  twice: the amount has left the reserve and gone back to the seller, the
  gateway has accepted the payout of the row as it was polled, and the
  bookkeeping of its answer reports no error and leaves the row as failed.
\<close>

theorem rejected_while_sending:
  assumes "withdraw_step\<^sup>*\<^sup>* opening_withdrawals st" "w \<in> set (ws_Rows st)" "wd_Status w = WithdrawalProcessing"
    and "RejectWithdraw t ids callerID hasCapability (wd_ID w) st = Inr rejected" "fresh_ids ids (ws_Ledger st)"
    and "\<not> pilot_blocks cfg w" "gateway (payout_request now w) = Inr resp" "response_IsSuccess resp"
  shows "payout_request now w \<in> set (ws_Sent (submitWithdrawal cfg now ids' gateway w rejected))
    \<and> held None AccountWithdrawalCommitted (ws_Ledger (submitWithdrawal cfg now ids' gateway w rejected))
      = held None AccountWithdrawalCommitted (ws_Ledger st) - wd_Amount w
    \<and> (\<exists>w' \<in> set (ws_Rows (submitWithdrawal cfg now ids' gateway w rejected)).
        wd_ID w' = wd_ID w \<and> wd_Status w' = WithdrawalFailed)
    \<and> (\<exists>st'. record_response now ids' (payout_request now w) (Inr resp) (send_request (payout_request now w) rejected)
        = Inr st')"
proof -
  have ok: "withdrawals_ok st" using reached_ok [unfolded reached_def, OF assms(1)] .
  have "fst ids \<notin> account_ids (ws_Ledger st)" using assms(5) by (simp add: fresh_ids_def)
  from RejectWithdraw_step [OF assms(4) ok this] obtain v v' where v: "row_step v v' st rejected" "wd_ID v = wd_ID w"
    "wd_Status v' = WithdrawalFailed"
    by blast
  have "v \<in> set (ws_Rows st)" using v(1) by (simp add: row_step_def)
  then have "v = w" using same_row [OF ok_facts(2) [OF ok] assms(2)] v(2) by simp
  note v = v [unfolded this]
  have r: "withdrawals_ok rejected" "v' \<in> set (ws_Rows rejected)" "wd_ID v' = wd_ID w"
    using v(1) replaced(2) [OF ok_facts(2) [OF ok] assms(2), of v'] by (simp_all add: row_step_def same_withdrawal_def)
  let ?sent = "send_request (payout_request now w) rejected"
  have s: "submitWithdrawal cfg now ids' gateway w rejected
      = markSubmissionSuccess now (wd_ID w) (Some (rq_ExternalReferenceID (payout_request now w)))
        (rs_GatewayReferenceID resp) (rs_RawResponse resp) ?sent"
    using assms(6-8) by (simp add: submitWithdrawal_def Let_def record_response_def commit_def payout_request_def)
  have "withdrawals_ok ?sent" "v' \<in> set (ws_Rows ?sent)"
    using r by (simp_all add: send_request_def withdrawals_ok_def)
  from final_row_kept [OF this r(3)] v(3) have "\<exists>w' \<in> set (ws_Rows (submitWithdrawal cfg now ids' gateway w rejected)).
      wd_ID w' = wd_ID w \<and> wd_Status w' = WithdrawalFailed"
    by (simp add: s)
  moreover have "held None AccountWithdrawalCommitted (ws_Ledger rejected)
      = held None AccountWithdrawalCommitted (ws_Ledger st) - wd_Amount w"
    using committed_returned [OF ok v(1)] assms(3) v(3) by (simp add: is_committed_def in_flight_def)
  ultimately show ?thesis
    using assms(8) by (simp add: s markSubmissionSuccess_def send_request_def record_response_def)
qed

theorem rejected_while_sending_witness:
  "\<exists>st :: withdraw_state. (\<exists>w' \<in> set (ws_Rows st). wd_ID w' = 31 \<and> wd_Status w' = WithdrawalFailed)
    \<and> sample_request \<in> set (ws_Sent st)"
proof -
  let ?m = "RejectWithdraw 7500000000 (7, 8, 1005) SystemCallerID True 31 sample_polled"
  have "(case ?m of Inl _ \<Rightarrow> False | Inr _ \<Rightarrow> True)" by code_simp
  then obtain rejected where r: "?m = Inr rejected" by (auto split: sum.splits)
  have w: "sample_row \<in> set (ws_Rows sample_polled)" "wd_Status sample_row = WithdrawalProcessing" "wd_ID sample_row = 31"
    by (simp_all add: sample_polled_rows sample_row_def)
  have p: "\<not> pilot_blocks (DefaultPayoutWorkerConfig\<lparr>cf_PilotWhitelist := [7]\<rparr>) sample_row"
    "response_IsSuccess sample_accepted"
    by (simp_all add: pilot_blocks_def sample_row_def sample_accepted_def response_IsSuccess_def)
  note f = rejected_while_sending [OF sample_polled_reached [unfolded reached_def] w(1,2) r [folded w(3)]
      sample_polled_rows(2) p(1) refl p(2), of 8000000000 "(7, 8, 1005)", unfolded w(3), folded sample_request_def]
  show ?thesis by (intro exI conjI) (rule conjunct1 [OF conjunct2 [OF conjunct2 [OF f]]], rule conjunct1 [OF f])
qed

lemma post_entries_nonzero: "post_entries x es L = Inr L' \<Longrightarrow> e \<in> set es \<Longrightarrow> en_Amount e \<noteq> 0"
  by (induction es arbitrary: L) (auto simp: post_entry_def Let_def money_Int64_def split: option.splits if_splits sum.splits)

lemma transact_nonzero:
  assumes "ledger_CreateTransaction x k rt r oid pid es L = Inr L'" "k \<notin> recorded_keys L" "e \<in> set es"
  shows "en_Amount e \<noteq> 0"
  using assms post_entries_nonzero
  by (fastforce simp: ledger_CreateTransaction_def recorded_keys_iff Let_def split: sum.splits if_splits prod.splits)

lemma transact_zero_entry:
  "ledger_CreateTransaction x k rt r oid pid [e1, e2, \<lparr>en_AccountID = v, en_Amount = 0\<rparr>] L = Inr L' \<Longrightarrow> k \<in> recorded_keys L"
  using transact_nonzero [of x k rt r oid pid "[e1, e2, \<lparr>en_AccountID = v, en_Amount = 0\<rparr>]" L L'
    "\<lparr>en_AccountID = v, en_Amount = 0\<rparr>"] by auto

text \<open>
  A withdrawal with a fee of zero, which the configuration allows, can
  never be paid in the books: neither the gateway's success callback nor the
  manual completion goes through, because the ledger refuses the entry of
  zero for the fee.
\<close>

theorem free_withdrawal_never_settles:
  assumes "withdraw_step\<^sup>*\<^sup>* opening_withdrawals st" "w \<in> set (ws_Rows st)" "wd_FeeAmount w = 0"
  shows "handleSuccessCallback now ids w callback st \<noteq> Inr settled
    \<and> MarkProcessed now ids callerID hasCapability (wd_ID w) st \<noteq> Inr processed"
proof (intro conjI notI)
  have ok: "withdrawals_ok st" using reached_ok [unfolded reached_def, OF assms(1)] .
  note a = ok_facts(3) [OF ok assms(2)] and k = ok_facts(4) [OF ok assms(2)]
  obtain a b x where ids: "ids = (a, b, x)" using prod_cases3 by blast
  {
    assume "handleSuccessCallback now ids w callback st = Inr settled"
    then have "awaiting_settlement w" "KeyUuid ''withdraw_settle_'' (wd_ID w) \<in> recorded_keys (ws_Ledger st)"
      using assms(3) a by (auto simp: handleSuccessCallback_def ids sum_bind_Inr Let_def money_New_def money_Sub_exact
          money_Neg_exact dest!: transact_zero_entry)
    then show False using k by (auto simp: awaiting_settlement_def open_keys_def in_flight_def)
  }
  {
    assume m: "MarkProcessed now ids callerID hasCapability (wd_ID w) st = Inr processed"
    have "v = w" if "wdrepo_GetByID (wd_ID w) (ws_Rows st) = Inr v" for v
      using GetByID_row [OF that] same_row [OF ok_facts(2) [OF ok] assms(2)] by simp
    then obtain L1 where r: "wd_Status w = WithdrawalProcessing"
      "RecordWithdrawalComplete x (wd_SellerID w) (wd_Amount w) 0 (wd_ID w) (ws_Ledger st) = Inr L1"
      using m assms(3) by (auto simp: MarkProcessed_def ids sum_bind_Inr wdrepo_LockForUpdate_def)
    then have "KeyUuid ''withdrawal_complete_'' (wd_ID w) \<in> recorded_keys (ws_Ledger st)"
      by (auto simp: RecordWithdrawalComplete_def sum_bind_Inr leg_def money_New_def neg64_nonneg
          dest!: transact_zero_entry)
    then show False using k r(1) by (auto simp: open_keys_def in_flight_def)
  }
qed

theorem free_withdrawal_never_settles_witness:
  "\<exists>st. \<exists>w \<in> set (ws_Rows st). wd_Status w = WithdrawalProcessing
    \<and> (\<nexists>processed. MarkProcessed 7000000000 (7, 8, 1005) SystemCallerID True (wd_ID w) st = Inr processed)"
proof -
  define events where "events = [EvFinance (1, 2, 1001) (CallPaymentSettlement 11 12 ''mid'' 1200000),
     EvFinance (1, 2, 1002) (CallOrderRelease 12 7 1200000 120000 1080000),
     EvRequest 5000000000 (3, 4, 1003) 31 (sample_reads\<lparr>re_Fee := 0\<rparr>) 7 100000,
     EvApprove 6000000000 (5, 6, 1004) SystemCallerID True True 31]"
  have "case withdraw_runs events opening_withdrawals of None \<Rightarrow> False | Some st \<Rightarrow>
      map wd_FeeAmount (ws_Rows st) = [0] \<and> map wd_Status (ws_Rows st) = [WithdrawalProcessing]"
    unfolding events_def by code_simp
  then obtain st where st: "withdraw_runs events opening_withdrawals = Some st" "map wd_FeeAmount (ws_Rows st) = [0]"
    "map wd_Status (ws_Rows st) = [WithdrawalProcessing]"
    by (auto split: option.splits)
  then obtain w where w: "w \<in> set (ws_Rows st)" "wd_FeeAmount w = 0" "wd_Status w = WithdrawalProcessing"
    by (auto simp: map_eq_Cons_conv)
  have "withdraw_step\<^sup>*\<^sup>* opening_withdrawals st"
    using withdraw_runs_reached [OF st(1)] by (simp add: reached_def)
  from free_withdrawal_never_settles [OF this w(1,2)] w(1,3) show ?thesis by blast
qed

lemma find_replaced:
  assumes "distinct (map wd_ID rows)" "find P rows = Some w" "wd_ID w' = wd_ID w" "P w'"
  shows "find P (replace_row w' rows) = Some w'"
  using assms
proof (induction rows)
  case (Cons y ys)
  show ?case
  proof (cases "P y")
    case True
    then show ?thesis using Cons.prems by (auto simp: replace_row_def)
  next
    case False
    then have f: "find P ys = Some w" using Cons.prems(2) by simp
    then have "w \<in> set ys" by (auto simp: find_Some_iff)
    then have "wd_ID y \<noteq> wd_ID w" using Cons.prems(1) by auto
    then show ?thesis using Cons.IH [OF _ f] Cons.prems False by (simp add: replace_row_def)
  qed
qed simp



end
