(* ===== verification/PromotionCpm.thy ===== *)
theory PromotionCpm
  imports FinanceService
begin

text \<open>
  \<open>finance/promotion_cpm.go\<close>: the whole-Rupiah arithmetic of promotions. The
  price is given per thousand impressions; the charge of one impression is the
  difference of two cumulative sums, each rounded down.
\<close>

datatype cpm_error =
  CpmNegativeImpressions i64
  | CpmNegative i64
  | CpmNegativeBudget i64
  | CpmOverflow i64 i64

definition promotionProduct :: "i64 \<Rightarrow> i64 \<Rightarrow> cpm_error + i64" where
  "promotionProduct n cpm =
    (if n < 0 then Inl (CpmNegativeImpressions n)
     else if cpm < 0 then Inl (CpmNegative cpm)
     else if n = 0 \<or> cpm = 0 then Inr 0
     else if n > (i64_max sdiv cpm) then Inl (CpmOverflow n cpm)
     else Inr (wrap64 (n * cpm)))"

definition PromotionCumulativeSpend :: "i64 \<Rightarrow> i64 \<Rightarrow> cpm_error + i64" where
  "PromotionCumulativeSpend impressions cpm =
    sum_bind (promotionProduct impressions cpm) (\<lambda>product. Inr (product sdiv 1000))"

definition PromotionCharge :: "i64 \<Rightarrow> i64 \<Rightarrow> cpm_error + i64" where
  "PromotionCharge impressions cpm =
    (if impressions \<le> 0 then Inr 0
     else sum_bind (PromotionCumulativeSpend impressions cpm) (\<lambda>sn.
          sum_bind (PromotionCumulativeSpend (wrap64 (impressions - 1)) cpm) (\<lambda>snMinus1.
          Inr (wrap64 (sn - snMinus1)))))"

definition PromotionEstimatedImpressions :: "i64 \<Rightarrow> i64 \<Rightarrow> cpm_error + i64" where
  "PromotionEstimatedImpressions budget cpm =
    (if budget < 0 then Inl (CpmNegativeBudget budget)
     else if cpm < 0 then Inl (CpmNegative cpm)
     else if cpm = 0 then Inr 0
     else if budget > (i64_max sdiv 1000) then Inl (CpmOverflow budget 1000)
     else Inr (wrap64 (budget * 1000) sdiv cpm))"

section \<open>The arithmetic is exact\<close>

lemma le_div_iff: "0 < (c::int) \<Longrightarrow> n \<le> m div c \<longleftrightarrow> n * c \<le> m"
proof
  assume c: "0 < c" and "n \<le> m div c"
  then have "n * c \<le> (m div c) * c" by (intro mult_right_mono) simp_all
  also have "\<dots> \<le> m" using c pos_mod_sign [of c m] by (simp add: minus_mod_eq_div_mult [symmetric])
  finally show "n * c \<le> m" .
next
  assume "0 < c" "n * c \<le> m"
  then show "n \<le> m div c" using zdiv_mono1 [of "n * c" m c] by simp
qed

lemma product_exact:
  assumes "in_i64 n" "in_i64 cpm" "0 \<le> n" "0 \<le> cpm"
  shows "promotionProduct n cpm = (if n * cpm \<le> i64_max then Inr (n * cpm) else Inl (CpmOverflow n cpm))"
proof (cases "n = 0 \<or> cpm = 0")
  case True
  then show ?thesis using assms(3,4) by (auto simp: promotionProduct_def i64_defs)
next
  case False
  then have c: "0 < cpm" "0 \<le> n * cpm" using assms(3,4) by auto
  have "n > i64_max sdiv cpm \<longleftrightarrow> \<not> n * cpm \<le> i64_max"
    using le_div_iff [OF c(1), of n i64_max] c(1) by (simp add: sdiv_nonneg i64_max_def flip: not_le)
  moreover have "n * cpm \<le> i64_max \<Longrightarrow> wrap64 (n * cpm) = n * cpm"
    using c(2) by (intro wrap64_id) (simp add: in_i64_def i64_min_def)
  ultimately show ?thesis using False assms(3,4) by (simp add: promotionProduct_def)
qed

lemma cumulative_exact:
  assumes "in_i64 n" "in_i64 cpm" "0 \<le> n" "0 \<le> cpm"
  shows "PromotionCumulativeSpend n cpm
    = (if n * cpm \<le> i64_max then Inr (n * cpm div 1000) else Inl (CpmOverflow n cpm))"
  using assms by (simp add: PromotionCumulativeSpend_def product_exact sdiv_nonneg)

lemma charge_exact:
  assumes "in_i64 n" "in_i64 cpm" "0 < n" "0 \<le> cpm"
  shows "PromotionCharge n cpm
    = (if n * cpm \<le> i64_max then Inr (n * cpm div 1000 - (n - 1) * cpm div 1000) else Inl (CpmOverflow n cpm))"
proof -
  have n: "wrap64 (n - 1) = n - 1" "in_i64 (n - 1)" using assms(1,3) by (auto simp: i64_defs intro!: wrap64_id)
  have m: "(n - 1) * cpm \<le> n * cpm" "0 \<le> (n - 1) * cpm" using assms(3,4) by (simp_all add: mult_right_mono)
  have "wrap64 (n * cpm div 1000 - (n - 1) * cpm div 1000) = n * cpm div 1000 - (n - 1) * cpm div 1000"
    if "n * cpm \<le> i64_max"
    using m that by (intro wrap64_id) (simp add: i64_defs zdiv_mono1, linarith?)
  then show ?thesis
    using assms m n by (simp add: PromotionCharge_def cumulative_exact)
qed

section \<open>Properties\<close>

lemma charge_step: "(n::int) * c div 1000 - (n - 1) * c div 1000 \<in> {c div 1000, c div 1000 + 1}"
proof -
  have "r div 1000 = 0 \<or> r div 1000 = 1" if "0 \<le> r" "r < 2000" for r :: int
  proof (cases "r < 1000")
    case False
    then have "r div 1000 = 1" using that by (intro int_div_pos_eq [of r 1000 1 "r - 1000"]) simp_all
    then show ?thesis by simp
  qed (use that in \<open>simp add: div_pos_pos_trivial\<close>)
  then have "(a mod 1000 + c mod 1000) div 1000 = 0 \<or> (a mod 1000 + c mod 1000) div 1000 = 1" for a
    using pos_mod_bound [of 1000 a] pos_mod_bound [of 1000 c] by simp
  then have "(a + c) div 1000 - a div 1000 = c div 1000 \<or> (a + c) div 1000 - a div 1000 = c div 1000 + 1" for a
    unfolding div_add1_eq [of a c 1000] by auto
  moreover have "n * c = (n - 1) * c + c" by (simp add: left_diff_distrib)
  ultimately show ?thesis by simp
qed

text \<open>
  The charges of a promotion add up exactly: however many impressions are
  billed one by one, the sum of their charges is the cumulative spend, rounded
  down once, and each single charge is the price of an impression rounded down
  or one Rupiah more.
\<close>

theorem promotion_charges_add_up:
  assumes "in_i64 n" "in_i64 cpm" "0 \<le> n" "0 \<le> cpm" "PromotionCumulativeSpend n cpm = Inr spend"
  shows "spend = n * cpm div 1000 \<and> (\<Sum>i\<leftarrow>[1..n]. projr (PromotionCharge i cpm)) = spend
    \<and> (\<forall>i. 1 \<le> i \<and> i \<le> n \<longrightarrow> PromotionCharge i cpm \<in> {Inr (cpm div 1000), Inr (cpm div 1000 + 1)})"
proof -
  have m: "n * cpm \<le> i64_max" "spend = n * cpm div 1000"
    using assms(5) cumulative_exact [OF assms(1-4)] by (auto split: if_splits)
  have c: "PromotionCharge i cpm = Inr (i * cpm div 1000 - (i - 1) * cpm div 1000)" if "1 \<le> i" "i \<le> n" for i
  proof -
    have "i * cpm \<le> n * cpm" using that assms(4) by (simp add: mult_right_mono)
    then show ?thesis using charge_exact [of i cpm] that m(1) assms(1,2,4) by (simp add: i64_defs)
  qed
  have "(\<Sum>i\<leftarrow>[1..k]. projr (PromotionCharge i cpm)) = k * cpm div 1000" if "0 \<le> k" "k \<le> n" for k
    using that
  proof (induction k rule: int_ge_induct)
    case (step k)
    have "[1..k + 1] = [1..k] @ [k + 1]" using upto_rec2 [of 1 "k + 1"] step.hyps by simp
    then show ?case using step c [of "k + 1"] by simp
  qed simp
  then show ?thesis using m c charge_step assms(3) by fastforce
qed

theorem promotion_charges_add_up_witness:
  "(\<Sum>i\<leftarrow>[1..3]. projr (PromotionCharge i 7500)) = 22 \<and> PromotionCumulativeSpend 3 7500 = Inr 22"
proof -
  have p: "PromotionCumulativeSpend 3 7500 = Inr 22" by code_simp
  from promotion_charges_add_up [OF _ _ _ _ this] p show ?thesis by (simp add: i64_defs)
qed

text \<open>
  The estimate of a budget's impressions never overspends, but it is not
  the largest such number, as its comment says: with the rounding down, as many
  impressions as \<open>(1000 budget + 999) div cpm\<close> still cost no more than the
  budget.
\<close>

theorem estimate_is_safe_but_low:
  assumes "in_i64 budget" "in_i64 cpm" "0 < cpm" "PromotionEstimatedImpressions budget cpm = Inr n"
  shows "n = 1000 * budget div cpm \<and> PromotionCumulativeSpend n cpm \<in> Inr ` {0..budget}
    \<and> (\<forall>m spend. in_i64 m \<and> 0 \<le> m \<and> PromotionCumulativeSpend m cpm = Inr spend
        \<longrightarrow> (spend \<le> budget \<longleftrightarrow> m \<le> (1000 * budget + 999) div cpm))"
proof -
  have b: "0 \<le> budget" "budget * 1000 \<le> i64_max" "n = 1000 * budget div cpm"
    using assms by (auto simp: PromotionEstimatedImpressions_def sdiv_nonneg i64_defs wrap64_id mult.commute
        split: if_splits)
  have n: "n * cpm \<le> 1000 * budget" "0 \<le> n" "n \<le> 1000 * budget"
    using le_div_iff [OF assms(3), of n "1000 * budget"] b assms(3) zdiv_mono2 [of "1000 * budget" 1 cpm]
    by (auto simp: pos_imp_zdiv_nonneg_iff)
  then have "in_i64 n" using b by (simp add: i64_defs)
  then have "PromotionCumulativeSpend n cpm = Inr (n * cpm div 1000)" "n * cpm div 1000 \<le> budget" "0 \<le> n * cpm div 1000"
    using cumulative_exact [of n cpm] n b assms(2,3) zdiv_mono1 [OF n(1), of 1000]
    by (simp_all add: pos_imp_zdiv_nonneg_iff)
  moreover have "spend \<le> budget \<longleftrightarrow> m \<le> (1000 * budget + 999) div cpm"
    if "in_i64 m" "0 \<le> m" "PromotionCumulativeSpend m cpm = Inr spend" for m spend
  proof -
    have "spend = m * cpm div 1000" using cumulative_exact [of m cpm] that assms(2,3) by (auto split: if_splits)
    moreover have "m * cpm div 1000 \<le> budget \<longleftrightarrow> m * cpm \<le> 1000 * budget + 999"
      using le_div_iff [of 1000 "budget + 1" "m * cpm"] by linarith
    ultimately show ?thesis using le_div_iff [OF assms(3), of m "1000 * budget + 999"] by simp
  qed
  ultimately show ?thesis using b(3) by (auto intro!: image_eqI)
qed

theorem estimate_is_safe_but_low_witness:
  "PromotionEstimatedImpressions 7 7500 = Inr 0 \<and> PromotionCumulativeSpend 1 7500 = Inr 7
    \<and> (1::int) \<le> (1000 * 7 + 999) div 7500"
proof -
  have p: "PromotionEstimatedImpressions 7 7500 = Inr 0" "PromotionCumulativeSpend 1 7500 = Inr 7" by code_simp+
  have "(\<forall>m spend. in_i64 m \<and> 0 \<le> m \<and> PromotionCumulativeSpend m 7500 = Inr spend
        \<longrightarrow> (spend \<le> 7 \<longleftrightarrow> m \<le> (1000 * 7 + 999) div 7500))"
    using estimate_is_safe_but_low [OF _ _ _ p(1)] by (simp add: i64_defs)
  from this [rule_format, of 1 7] p show ?thesis by (simp add: i64_defs)
qed

end
