(* ===== verification/ProviderState.thy ===== *)
theory ProviderState
  imports Prelude
begin

text \<open>
  \<open>pkg/midtrans/provider_state.go\<close>: what the gateway's raw texts mean. A text is
  a list of ASCII characters, so blanks, letter case and digits are those of
  ASCII. The HTTP inquiry itself is not modelled, only the mapping of its
  answer; \<open>Sscanf\<close> with \<open>%d\<close> reads an optional sign and the longest run of digits,
  and fails without a digit or beyond 64 bits.
\<close>

section \<open>Texts\<close>

definition is_space :: "char \<Rightarrow> bool" where
  "is_space c \<longleftrightarrow> c = CHR '' '' \<or> (9 :: nat) \<le> of_char c \<and> of_char c \<le> (13 :: nat)"

definition is_digit :: "char \<Rightarrow> bool" where
  "is_digit c \<longleftrightarrow> (48 :: nat) \<le> of_char c \<and> of_char c \<le> (57 :: nat)"

definition TrimSpace :: "string \<Rightarrow> string" where
  "TrimSpace s = rev (dropWhile is_space (rev (dropWhile is_space s)))"

definition lower_char :: "char \<Rightarrow> char" where
  "lower_char c = (if (65 :: nat) \<le> of_char c \<and> of_char c \<le> (90 :: nat) then char_of (of_char c + 32 :: nat) else c)"

definition ToLower :: "string \<Rightarrow> string" where
  "ToLower s = map lower_char s"

definition EqualFold :: "string \<Rightarrow> string \<Rightarrow> bool" where
  "EqualFold s t \<longleftrightarrow> ToLower s = ToLower t"

section \<open>The state of a transaction\<close>

datatype provider_state =
  ProviderStateSettled | ProviderStatePending | ProviderStateNotPresent | ProviderStateFailed | ProviderStateUnknown

definition ClassifyProviderState :: "string \<Rightarrow> string \<Rightarrow> provider_state" where
  "ClassifyProviderState transactionStatus fraudStatus =
    (let s = ToLower (TrimSpace transactionStatus)
     in if s = ''settlement'' then ProviderStateSettled
        else if s = ''capture''
        then (if EqualFold (TrimSpace fraudStatus) ''accept'' then ProviderStateSettled else ProviderStatePending)
        else if s = ''pending'' then ProviderStatePending
        else if s = ''deny'' \<or> s = ''cancel'' \<or> s = ''expire'' then ProviderStateFailed
        else ProviderStateUnknown)"

text \<open>The answer of an inquiry: no record, or the two texts of a record.\<close>

definition notification_ProviderState :: "(string \<times> string) option \<Rightarrow> provider_state" where
  "notification_ProviderState n =
    (case n of None \<Rightarrow> ProviderStateUnknown | Some (transactionStatus, fraudStatus) \<Rightarrow>
       ClassifyProviderState transactionStatus fraudStatus)"

section \<open>Amounts\<close>

fun digits_value :: "string \<Rightarrow> int \<Rightarrow> int" where
  "digits_value [] a = a"
| "digits_value (c # cs) a = digits_value cs (10 * a + (of_char c - 48))"

definition scan_int :: "string \<Rightarrow> i64 option" where
  "scan_int s =
    (let (negative, rest) = (case s of
           c # cs \<Rightarrow> if c = CHR ''-'' then (True, cs) else if c = CHR ''+'' then (False, cs) else (False, s)
         | [] \<Rightarrow> (False, s));
         digits = takeWhile is_digit rest;
         n = digits_value digits 0;
         value = (if negative then - n else n)
     in if digits = '''' \<or> \<not> in_i64 value then None else Some value)"

definition ParseGrossAmount :: "string \<Rightarrow> i64" where
  "ParseGrossAmount amountStr =
    (let trimmed = TrimSpace amountStr
     in if trimmed = '''' then 0
        else let whole = takeWhile (\<lambda>c. c \<noteq> CHR ''.'') trimmed
             in case scan_int whole of None \<Rightarrow> 0 | Some amount \<Rightarrow> amount)"

section \<open>Printing and parsing\<close>

fun decimal :: "nat \<Rightarrow> string" where
  "decimal n = (if n < 10 then [char_of (n + 48)] else decimal (n div 10) @ [char_of (n mod 10 + 48)])"

declare decimal.simps [simp del]

lemma digit_char: "d < 10 \<Longrightarrow> of_char (char_of (d + 48 :: nat)) = d + 48"
  by (simp add: of_char_of)

lemma digits_value_append: "digits_value (xs @ ys) a = digits_value ys (digits_value xs a)"
  by (induction xs arbitrary: a) simp_all

lemma digit_is_digit [simp]: "d < 10 \<Longrightarrow> is_digit (char_of (d + 48 :: nat))"
  by (simp add: is_digit_def digit_char)

lemma decimal_digits: "list_all is_digit (decimal n)"
  by (induction n rule: decimal.induct) (subst decimal.simps, simp)

lemma decimal_not_empty: "decimal n \<noteq> []"
  by (subst decimal.simps) simp

lemma decimal_value: "digits_value (decimal n) 0 = int n"
proof (induction n rule: decimal.induct)
  case (1 n)
  have d: "(of_char (char_of (d + 48 :: nat)) :: int) = int d + 48" if "d < 10" for d
    using digit_char [OF that] by (metis of_nat_add of_nat_of_char of_nat_numeral)
  show ?case
  proof (cases "n < 10")
    case True
    then show ?thesis by (subst decimal.simps) (simp add: d)
  next
    case False
    then have "digits_value (decimal n) 0 = 10 * int (n div 10) + int (n mod 10)"
      using 1 by (subst decimal.simps) (simp add: digits_value_append d)
    then show ?thesis by (simp add: zmod_int zdiv_int)
  qed
qed

lemma digit_not_special: "is_digit c \<Longrightarrow> \<not> is_space c \<and> c \<noteq> CHR ''.'' \<and> c \<noteq> CHR ''-'' \<and> c \<noteq> CHR ''+''"
  by (auto simp: is_digit_def is_space_def)

lemma decimal_split: "\<exists>c cs. decimal n = c # cs \<and> is_digit c"
  using decimal_digits [of n] decimal_not_empty [of n] by (cases "decimal n") auto

lemma scan_decimal:
  assumes "int n \<le> i64_max" "case rest of [] \<Rightarrow> True | c # _ \<Rightarrow> \<not> is_digit c"
  shows "scan_int (decimal n @ rest) = Some (int n)"
proof -
  obtain c cs where c: "decimal n = c # cs" "is_digit c" using decimal_split by blast
  have "takeWhile is_digit (decimal n @ rest) = decimal n"
    using decimal_digits [of n] assms(2) by (simp add: takeWhile_append list_all_iff split: list.splits)
  moreover have "in_i64 (int n)" using assms(1) by (simp add: i64_defs)
  ultimately show ?thesis
    using c digit_not_special [OF c(2)] decimal_value [of n] by (simp add: scan_int_def)
qed

lemma trim_around:
  assumes "list_all is_space ws" "\<not> is_space x" "\<not> is_space y"
  shows "TrimSpace (ws @ x # xs @ y # zs) = x # xs @ y # rev (dropWhile is_space (rev zs))"
proof -
  have "dropWhile is_space (us @ v # vs) = dropWhile is_space us @ v # vs" if "\<not> is_space v" for us v vs
    using that by (induction us) auto
  from this [OF assms(3), of "rev zs"] this [OF assms(2), of ws] show ?thesis
    using assms(1) by (simp add: TrimSpace_def list_all_iff)
qed

section \<open>Properties\<close>

text \<open>
  C40. Every amount that the gateway prints in decimals is read back exactly:
  blanks around the text and everything after the decimal point are ignored,
  and there is no scaling to cents.
\<close>

theorem gross_amount_roundtrip:
  assumes "int n \<le> i64_max" "list_all is_space blanks"
  shows "ParseGrossAmount (blanks @ decimal n @ ''.'' @ cents) = int n"
proof -
  obtain c cs where c: "decimal n = c # cs" "is_digit c" using decimal_split by blast
  note s = digit_not_special [OF c(2)]
  have "\<not> is_space (CHR ''.'')" by (simp add: is_space_def)
  then obtain r where t: "TrimSpace (blanks @ decimal n @ ''.'' @ cents) = decimal n @ CHR ''.'' # r"
    using trim_around [OF assms(2), of c "CHR ''.''" cs cents] s c(1) by simp
  have "takeWhile (\<lambda>c. c \<noteq> CHR ''.'') (decimal n @ CHR ''.'' # r) = decimal n"
    using decimal_digits [of n] digit_not_special by (auto simp: takeWhile_append list_all_iff)
  then show ?thesis
    using t scan_decimal [OF assms(1), of "[]"] by (simp add: ParseGrossAmount_def)
qed

theorem gross_amount_roundtrip_witness:
  "ParseGrossAmount ''  91350.00'' = 91350"
proof -
  have "decimal 91350 = ''91350''" by (simp add: decimal.simps char_of_def bit_Suc_0_iff)
  then show ?thesis using gross_amount_roundtrip [of 91350 "''  ''" "''00''"] by (simp add: i64_defs is_space_def)
qed

end
