(* ===== verification/Recon.thy ===== *)
theory Recon
  imports ProviderState "HOL-Library.List_Lexorder" "HOL-Library.Multiset"
begin

text \<open>
  \<open>integration/payment/application/recon\<close>: the pure classifier that compares
  what the payment gateway says of an order with the local rows. The snapshot
  is assembled by its callers. The human-readable texts of a finding (the
  suggested action and the notes) are left out. An idempotency key is kept as
  its parts, which its text \<open>recon|class|scope|d=YYYYMMDD\<close> spells out; a Go map
  is an association list with distinct keys, or a predicate where only its
  lookups matter.
\<close>

section \<open>The snapshot\<close>

datatype DriftClass =
  DriftD1GatewaySettledLocalUnpaid | DriftD2LocalPaidGatewayTerminalFailure
  | DriftD3GatewayRefundedLocalHolding | DriftD4PartialRefundMismatch | DriftD5DuplicateSettlement
  | DriftD6MissingWebhookDelivery | DriftD7WebhookProcessedLedgerAbsent | DriftD9RefundFullCoinsNotRefunded
  | DriftD10OrderCompletedReleaseAbsent | DriftD11StuckPendingRefund | DriftD12PendingPaymentPastExpiry
  | DriftD14LedgerEntryOutboxMissing | DriftD15EscrowWithoutSettledPayment

datatype Severity =
  SeverityCritical | SeverityCriticalSecurity | SeverityHigh | SeverityMedium | SeverityLow | SeverityInfo

record GatewayRefundEntry =
  ge_RefundKey :: string
  ge_RefundID :: string
  ge_Amount :: i64
  ge_Status :: string

record GatewaySnapshot =
  gw_MidtransOrderID :: string
  gw_Available :: bool
  gw_TransactionStatus :: string
  gw_GrossAmount :: i64
  gw_RefundChargebackHistory :: "GatewayRefundEntry list"

record PaymentRow =
  py_MidtransOrderID :: string
  py_GrossAmount :: i64
  py_Status :: string
  py_PaidAt :: "time option"
  py_ExpiredAt :: time
  py_CreatedAt :: time

record OrderRow =
  ow_ID :: uuid
  ow_Status :: string
  ow_GrossAmount :: i64

record EscrowRow =
  ew_Status :: string
  ew_Amount :: i64

record RefundRow =
  rr_ID :: uuid
  rr_RequestedAmount :: i64
  rr_GatewayStatus :: string
  rr_GatewayRefundID :: string
  rr_GatewayIdempotencyKey :: string
  rr_GatewayRequestedAt :: "time option"
  rr_GatewayAcknowledgedAt :: "time option"

record WebhookEventRef =
  we_NotificationKey :: string
  we_Status :: string
  we_TransactionStatus :: string
  we_TransactionID :: string

record LedgerLookup =
  ll_BuyerSettlementExists :: bool
  ll_OrderReleaseExists :: bool
  ll_OrderReleaseAmount :: i64
  ll_RefundReversalExistsByRefundID :: "(uuid \<times> bool) list"

record OutboxLookup =
  ol_MoneyReleasedAliveByOrderID :: "uuid \<Rightarrow> bool"
  ol_MoneyRefundSucceededAliveByRefundID :: "uuid \<Rightarrow> bool"
  ol_CoinsRefundRequiredAliveByOrderID :: "uuid \<Rightarrow> bool"

record Thresholds =
  th_PendingPaymentGrace :: duration
  th_StuckRefundGrace :: duration
  th_PendingPaymentExpiryGrace :: duration

record Snapshot =
  sn_Now :: time
  sn_Gateway :: GatewaySnapshot
  sn_Payment :: "PaymentRow option"
  sn_Order :: "OrderRow option"
  sn_Escrow :: "EscrowRow option"
  sn_Refunds :: "RefundRow list"
  sn_Webhooks :: "WebhookEventRef list"
  sn_Ledger :: LedgerLookup
  sn_Outbox :: OutboxLookup
  sn_Thresholds :: Thresholds

datatype recon_scope =
  ScopeOrderRefund uuid uuid | ScopeRefund uuid | ScopeOrder uuid | ScopeMidtrans string

record recon_key =
  rk_Class :: DriftClass
  rk_Scope :: recon_scope
  rk_Day :: int

record Finding =
  fd_DriftClass :: DriftClass
  fd_Severity :: Severity
  fd_OrderID :: "uuid option"
  fd_MidtransOrderID :: string
  fd_RefundID :: "uuid option"
  fd_DetectedAt :: time
  fd_IdempotencyKey :: recon_key
  fd_GatewayObservedAmount :: i64
  fd_LocalObservedAmount :: i64

section \<open>Helpers\<close>

definition gatewayIsSettled :: "string \<Rightarrow> bool" where
  "gatewayIsSettled status \<longleftrightarrow> status = ''settlement'' \<or> status = ''capture''"

definition gatewayIsTerminalFailure :: "string \<Rightarrow> bool" where
  "gatewayIsTerminalFailure status \<longleftrightarrow> status = ''expire'' \<or> status = ''deny'' \<or> status = ''cancel''"

definition gatewayIsTerminal :: "string \<Rightarrow> bool" where
  "gatewayIsTerminal status \<longleftrightarrow> gatewayIsSettled status \<or> gatewayIsTerminalFailure status"

definition isLocalPaymentSettled :: "string \<Rightarrow> bool" where
  "isLocalPaymentSettled status \<longleftrightarrow> status = ''paid'' \<or> status = ''settlement'' \<or> status = ''capture''"

definition sumGatewaySuccessfulRefunds :: "GatewayRefundEntry list \<Rightarrow> i64" where
  "sumGatewaySuccessfulRefunds entries =
    foldl (\<lambda>total e. if ge_Status e = ''success'' then wrap64 (total + ge_Amount e) else total) 0 entries"

definition sumLocalSuccessfulRefunds :: "RefundRow list \<Rightarrow> i64" where
  "sumLocalSuccessfulRefunds refunds =
    foldl (\<lambda>total r. if rr_GatewayStatus r = ''succeeded'' then wrap64 (total + rr_RequestedAmount r) else total) 0 refunds"

definition findGatewayRefundEntry :: "GatewayRefundEntry list \<Rightarrow> RefundRow \<Rightarrow> GatewayRefundEntry option" where
  "findGatewayRefundEntry entries r =
    (if rr_GatewayIdempotencyKey r = '''' \<and> rr_GatewayRefundID r = '''' then None
     else find (\<lambda>e. rr_GatewayIdempotencyKey r \<noteq> '''' \<and> ge_RefundKey e = rr_GatewayIdempotencyKey r
         \<or> rr_GatewayRefundID r \<noteq> '''' \<and> ge_RefundID e = rr_GatewayRefundID r) entries)"

definition hasNonFailedWebhook :: "WebhookEventRef list \<Rightarrow> bool" where
  "hasNonFailedWebhook webhooks \<longleftrightarrow> list_ex (\<lambda>w. we_Status w \<in> set [''succeeded'', ''processing'', ''pending'',
     ''manual_review'', ''quarantined'', ''terminal_review'']) webhooks"

definition hasSucceededWebhook :: "WebhookEventRef list \<Rightarrow> bool" where
  "hasSucceededWebhook webhooks \<longleftrightarrow> list_ex (\<lambda>w. we_Status w = ''succeeded'') webhooks"

text \<open>The text of a uuid has a fixed width, so its order is the order of the number.\<close>

definition sortedRefundIDsWithReversal :: "(uuid \<times> bool) list \<Rightarrow> uuid list" where
  "sortedRefundIDsWithReversal m = sort (map fst (filter snd m))"

definition buildIdempotencyKey ::
    "DriftClass \<Rightarrow> time \<Rightarrow> uuid option \<Rightarrow> uuid option \<Rightarrow> string \<Rightarrow> recon_key" where
  "buildIdempotencyKey cls now orderID refundID midtransOrderID =
    \<lparr>rk_Class = cls,
     rk_Scope = (case (refundID, orderID) of
         (Some r, Some i) \<Rightarrow> ScopeOrderRefund i r
       | (Some r, None) \<Rightarrow> ScopeRefund r
       | (None, Some i) \<Rightarrow> ScopeOrder i
       | (None, None) \<Rightarrow> ScopeMidtrans midtransOrderID),
     rk_Day = now div (24 * hour)\<rparr>"

definition buildFinding ::
    "Snapshot \<Rightarrow> DriftClass \<Rightarrow> Severity \<Rightarrow> i64 \<Rightarrow> i64 \<Rightarrow> uuid option \<Rightarrow> Finding" where
  "buildFinding s cls severity gatewayAmount localAmount refundID =
    (let orderID = map_option ow_ID (sn_Order s);
         mtID = (case sn_Payment s of
             Some p \<Rightarrow> if gw_MidtransOrderID (sn_Gateway s) = '''' then py_MidtransOrderID p else gw_MidtransOrderID (sn_Gateway s)
           | None \<Rightarrow> gw_MidtransOrderID (sn_Gateway s))
     in \<lparr>fd_DriftClass = cls, fd_Severity = severity, fd_OrderID = orderID, fd_MidtransOrderID = mtID,
         fd_RefundID = refundID, fd_DetectedAt = sn_Now s,
         fd_IdempotencyKey = buildIdempotencyKey cls (sn_Now s) orderID refundID mtID,
         fd_GatewayObservedAmount = gatewayAmount, fd_LocalObservedAmount = localAmount\<rparr>)"

section \<open>The detectors\<close>

definition detectD1 :: "Snapshot \<Rightarrow> Finding list" where
  "detectD1 s =
    (if \<not> gw_Available (sn_Gateway s) then []
     else case sn_Payment s of None \<Rightarrow> [] | Some p \<Rightarrow>
       if py_Status p \<noteq> ''pending'' then []
       else if \<not> gatewayIsSettled (gw_TransactionStatus (sn_Gateway s)) then []
       else if time_add (py_CreatedAt p) (th_PendingPaymentGrace (sn_Thresholds s)) > sn_Now s then []
       else [buildFinding s DriftD1GatewaySettledLocalUnpaid SeverityCritical
         (gw_GrossAmount (sn_Gateway s)) (py_GrossAmount p) None])"

definition detectD2 :: "Snapshot \<Rightarrow> Finding list" where
  "detectD2 s =
    (if \<not> gw_Available (sn_Gateway s) then []
     else case sn_Payment s of None \<Rightarrow> [] | Some p \<Rightarrow>
       if py_Status p \<noteq> ''paid'' \<or> py_PaidAt p = None then []
       else if \<not> gatewayIsTerminalFailure (gw_TransactionStatus (sn_Gateway s)) then []
       else [buildFinding s DriftD2LocalPaidGatewayTerminalFailure SeverityCriticalSecurity
         (gw_GrossAmount (sn_Gateway s)) (py_GrossAmount p) None])"

definition detectD3 :: "Snapshot \<Rightarrow> Finding list" where
  "detectD3 s =
    (if \<not> gw_Available (sn_Gateway s) then []
     else case sn_Escrow s of None \<Rightarrow> [] | Some e \<Rightarrow>
       if ew_Status e \<noteq> ''holding'' then []
       else case sn_Order s of None \<Rightarrow> [] | Some o1 \<Rightarrow>
         let gatewaySuccessTotal = sumGatewaySuccessfulRefunds (gw_RefundChargebackHistory (sn_Gateway s))
         in if gatewaySuccessTotal \<le> 0 then []
            else if gatewaySuccessTotal < ow_GrossAmount o1 then []
            else [buildFinding s DriftD3GatewayRefundedLocalHolding SeverityCritical
              gatewaySuccessTotal (ew_Amount e) None])"

definition detectD4 :: "Snapshot \<Rightarrow> Finding list" where
  "detectD4 s =
    (if \<not> gw_Available (sn_Gateway s) then []
     else
       let gatewaySuccessTotal = sumGatewaySuccessfulRefunds (gw_RefundChargebackHistory (sn_Gateway s));
           localSuccessTotal = sumLocalSuccessfulRefunds (sn_Refunds s)
       in if gatewaySuccessTotal = localSuccessTotal then []
          else if gatewaySuccessTotal = 0 \<and> localSuccessTotal = 0 then []
          else [buildFinding s DriftD4PartialRefundMismatch SeverityHigh gatewaySuccessTotal localSuccessTotal None])"

text \<open>The key \<open>Inr\<close> stands for \<open>event:\<close> followed by the notification key.\<close>

definition settlement_claims :: "WebhookEventRef list \<Rightarrow> (string + string) list" where
  "settlement_claims webhooks =
    map (\<lambda>w. if we_TransactionID w = '''' then Inr (we_NotificationKey w) else Inl (we_TransactionID w))
      (filter (\<lambda>w. we_Status w \<notin> set [''failed'', ''orphaned'', ''manual_review'', ''quarantined'', ''terminal_review'']
        \<and> gatewayIsSettled (we_TransactionStatus w)) webhooks)"

definition detectD5 :: "Snapshot \<Rightarrow> Finding list" where
  "detectD5 s =
    (if length (sn_Webhooks s) < 2 then []
     else
       let distinctTxIDs = remdups (settlement_claims (sn_Webhooks s))
       in if length distinctTxIDs < 2 then []
          else [buildFinding s DriftD5DuplicateSettlement SeverityHigh 0 0 None])"

definition detectD6 :: "Snapshot \<Rightarrow> Finding list" where
  "detectD6 s =
    (if \<not> gw_Available (sn_Gateway s) then []
     else if \<not> gatewayIsTerminal (gw_TransactionStatus (sn_Gateway s)) then []
     else if hasNonFailedWebhook (sn_Webhooks s) then []
     else [buildFinding s DriftD6MissingWebhookDelivery SeverityHigh (gw_GrossAmount (sn_Gateway s)) 0 None])"

definition detectD7 :: "Snapshot \<Rightarrow> Finding list" where
  "detectD7 s =
    (case (sn_Payment s, sn_Order s) of
       (Some p, Some _) \<Rightarrow>
         if \<not> hasSucceededWebhook (sn_Webhooks s) then []
         else if \<not> isLocalPaymentSettled (py_Status p) then []
         else if ll_BuyerSettlementExists (sn_Ledger s) then []
         else [buildFinding s DriftD7WebhookProcessedLedgerAbsent SeverityCritical 0 (py_GrossAmount p) None]
     | _ \<Rightarrow> [])"

definition detectD9 :: "Snapshot \<Rightarrow> Finding list" where
  "detectD9 s =
    (case sn_Order s of None \<Rightarrow> [] | Some o1 \<Rightarrow>
       let localSuccessTotal = sumLocalSuccessfulRefunds (sn_Refunds s)
       in if localSuccessTotal < ow_GrossAmount o1 \<or> localSuccessTotal = 0 then []
          else if ol_CoinsRefundRequiredAliveByOrderID (sn_Outbox s) (ow_ID o1) then []
          else [buildFinding s DriftD9RefundFullCoinsNotRefunded SeverityHigh 0 localSuccessTotal None])"

definition detectD10 :: "Snapshot \<Rightarrow> Finding list" where
  "detectD10 s =
    (case sn_Order s of None \<Rightarrow> [] | Some o1 \<Rightarrow>
       if ow_Status o1 \<noteq> ''completed'' then []
       else if ll_OrderReleaseExists (sn_Ledger s) then []
       else [buildFinding s DriftD10OrderCompletedReleaseAbsent SeverityCritical 0 (ow_GrossAmount o1) None])"

definition stuck_refund :: "Snapshot \<Rightarrow> RefundRow \<Rightarrow> bool" where
  "stuck_refund s r \<longleftrightarrow>
    (if rr_GatewayStatus r \<noteq> ''pending'' then False
     else if rr_GatewayAcknowledgedAt r \<noteq> None then False
     else case rr_GatewayRequestedAt r of None \<Rightarrow> False | Some requestedAt \<Rightarrow>
       if time_add requestedAt (th_StuckRefundGrace (sn_Thresholds s)) > sn_Now s then False
       else \<not> (rr_GatewayIdempotencyKey r = '''' \<and> rr_GatewayRefundID r = ''''))"

definition detectD11 :: "Snapshot \<Rightarrow> Finding list" where
  "detectD11 s =
    (if \<not> gw_Available (sn_Gateway s) then []
     else map (\<lambda>r. let gwAmount = (case findGatewayRefundEntry (gw_RefundChargebackHistory (sn_Gateway s)) r of
             None \<Rightarrow> 0 | Some gatewayHit \<Rightarrow> ge_Amount gatewayHit)
         in buildFinding s DriftD11StuckPendingRefund SeverityHigh gwAmount (rr_RequestedAmount r) (Some (rr_ID r)))
       (filter (stuck_refund s) (sn_Refunds s)))"

definition detectD12 :: "Snapshot \<Rightarrow> Finding list" where
  "detectD12 s =
    (case sn_Payment s of None \<Rightarrow> [] | Some p \<Rightarrow>
       if py_Status p \<noteq> ''pending'' then []
       else if time_add (py_ExpiredAt p) (th_PendingPaymentExpiryGrace (sn_Thresholds s)) > sn_Now s then []
       else if hasNonFailedWebhook (sn_Webhooks s) then []
       else [buildFinding s DriftD12PendingPaymentPastExpiry SeverityMedium 0 (py_GrossAmount p) None])"

definition detectD14 :: "Snapshot \<Rightarrow> Finding list" where
  "detectD14 s =
    (case sn_Order s of
       Some o1 \<Rightarrow>
         if ll_OrderReleaseExists (sn_Ledger s) \<and> \<not> ol_MoneyReleasedAliveByOrderID (sn_Outbox s) (ow_ID o1)
         then [buildFinding s DriftD14LedgerEntryOutboxMissing SeverityHigh 0 (ll_OrderReleaseAmount (sn_Ledger s)) None]
         else []
     | None \<Rightarrow> [])
    @ map (\<lambda>rid. buildFinding s DriftD14LedgerEntryOutboxMissing SeverityHigh 0 0 (Some rid))
        (filter (\<lambda>rid. \<not> ol_MoneyRefundSucceededAliveByRefundID (sn_Outbox s) rid)
          (sortedRefundIDsWithReversal (ll_RefundReversalExistsByRefundID (sn_Ledger s))))"

definition detectD15 :: "Snapshot \<Rightarrow> Finding list" where
  "detectD15 s =
    (case sn_Escrow s of None \<Rightarrow> [] | Some e \<Rightarrow>
       (case sn_Payment s of
          None \<Rightarrow> [buildFinding s DriftD15EscrowWithoutSettledPayment SeverityCritical 0 (ew_Amount e) None]
        | Some p \<Rightarrow>
            if \<not> isLocalPaymentSettled (py_Status p)
            then [buildFinding s DriftD15EscrowWithoutSettledPayment SeverityCritical 0 (ew_Amount e) None]
            else []))"

section \<open>The classifier\<close>

text \<open>
  The texts of the classes and of the keys are compared character by character.
  In a class text \<open>D10_...\<close> comes before \<open>D1_...\<close>, and in a key \<open>mt=\<close> before
  \<open>order=\<close> before \<open>refund=\<close>, and after an order its \<open>d=\<close> before \<open>refund=\<close>.
\<close>

fun class_rank :: "DriftClass \<Rightarrow> nat" where
  "class_rank DriftD10OrderCompletedReleaseAbsent = 0"
| "class_rank DriftD11StuckPendingRefund = 1"
| "class_rank DriftD12PendingPaymentPastExpiry = 2"
| "class_rank DriftD14LedgerEntryOutboxMissing = 3"
| "class_rank DriftD15EscrowWithoutSettledPayment = 4"
| "class_rank DriftD1GatewaySettledLocalUnpaid = 5"
| "class_rank DriftD2LocalPaidGatewayTerminalFailure = 6"
| "class_rank DriftD3GatewayRefundedLocalHolding = 7"
| "class_rank DriftD4PartialRefundMismatch = 8"
| "class_rank DriftD5DuplicateSettlement = 9"
| "class_rank DriftD6MissingWebhookDelivery = 10"
| "class_rank DriftD7WebhookProcessedLedgerAbsent = 11"
| "class_rank DriftD9RefundFullCoinsNotRefunded = 12"

fun scope_rank :: "recon_scope \<Rightarrow> int \<Rightarrow> int list" where
  "scope_rank (ScopeMidtrans t) d = 0 # map of_char t @ [124, d]"
| "scope_rank (ScopeOrder i) d = [1, int i, 0, d]"
| "scope_rank (ScopeOrderRefund i r) d = [1, int i, 1, int r, d]"
| "scope_rank (ScopeRefund r) d = [2, int r, d]"

definition finding_rank :: "Finding \<Rightarrow> int list" where
  "finding_rank f = int (class_rank (fd_DriftClass f))
     # scope_rank (rk_Scope (fd_IdempotencyKey f)) (rk_Day (fd_IdempotencyKey f))"

definition Classify :: "Snapshot \<Rightarrow> Finding list" where
  "Classify s = sort_key finding_rank
    (detectD1 s @ detectD2 s @ detectD3 s @ detectD4 s @ detectD5 s @ detectD6 s @ detectD7 s @ detectD9 s
     @ detectD10 s @ detectD11 s @ detectD12 s @ detectD14 s @ detectD15 s)"

section \<open>What the detectors return\<close>

definition all_findings :: "Snapshot \<Rightarrow> Finding list" where
  "all_findings s = detectD1 s @ detectD2 s @ detectD3 s @ detectD4 s @ detectD5 s @ detectD6 s @ detectD7 s @ detectD9 s
     @ detectD10 s @ detectD11 s @ detectD12 s @ detectD14 s @ detectD15 s"

lemma Classify_sorts: "Classify s = sort_key finding_rank (all_findings s)"
  by (simp add: Classify_def all_findings_def)

lemmas detector_defs = detectD1_def detectD2_def detectD3_def detectD4_def detectD5_def detectD6_def detectD7_def
  detectD9_def detectD10_def detectD11_def detectD12_def detectD14_def detectD15_def

lemma buildFinding_simps [simp]:
  "fd_DriftClass (buildFinding s c v g l r) = c" "fd_RefundID (buildFinding s c v g l r) = r"
  by (simp_all add: buildFinding_def Let_def)

text \<open>A finding is known by its class and its refund.\<close>

definition finding_id :: "Finding \<Rightarrow> DriftClass \<times> uuid option" where
  "finding_id f = (fd_DriftClass f, fd_RefundID f)"

lemma built_id [simp]: "finding_id (buildFinding s c v g l r) = (c, r)"
  by (simp add: finding_id_def)

definition id_rank :: "Snapshot \<Rightarrow> DriftClass \<times> uuid option \<Rightarrow> int list" where
  "id_rank s = (\<lambda>(c, r). finding_rank (buildFinding s c SeverityInfo 0 0 r))"

lemma rank_built: "finding_rank (buildFinding s c v g l r) = id_rank s (c, r)"
  by (simp add: id_rank_def finding_rank_def buildFinding_def Let_def)

lemma class_rank_inj: "class_rank c = class_rank c' \<longleftrightarrow> c = c'"
  by (cases c; cases c'; simp)

lemma id_rank_inj: "id_rank s x = id_rank s y \<longleftrightarrow> x = y"
  by (cases x; cases y; cases "snd x"; cases "snd y"; cases "sn_Order s")
    (auto simp: id_rank_def finding_rank_def buildFinding_def buildIdempotencyKey_def Let_def class_rank_inj)

definition built :: "Snapshot \<Rightarrow> Finding \<Rightarrow> bool" where
  "built s f \<longleftrightarrow> (\<exists>c v g l r. f = buildFinding s c v g l r)"

lemma built_self [simp]: "built s (buildFinding s c v g l r)"
  unfolding built_def by (intro exI) (rule refl)

lemma detectors_build:
  "list_all (built s) (detectD1 s)"
  "list_all (built s) (detectD2 s)"
  "list_all (built s) (detectD3 s)"
  "list_all (built s) (detectD4 s)"
  "list_all (built s) (detectD5 s)"
  "list_all (built s) (detectD6 s)"
  "list_all (built s) (detectD7 s)"
  "list_all (built s) (detectD9 s)"
  "list_all (built s) (detectD10 s)"
  "list_all (built s) (detectD12 s)"
  "list_all (built s) (detectD15 s)"
  "list_all (built s) (detectD11 s)"
  "list_all (built s) (detectD14 s)"
  unfolding detector_defs Let_def by (simp_all add: list.pred_map comp_def list.pred_True split: option.splits)

lemma all_built: "f \<in> set (all_findings s) \<Longrightarrow> built s f"
  using detectors_build [of s] unfolding all_findings_def list_all_iff set_append by blast

lemma all_rank: "f \<in> set (all_findings s) \<Longrightarrow> finding_rank f = id_rank s (finding_id f)"
  using all_built [of f s] by (auto simp: built_def rank_built)

lemma one_finding:
  "distinct (map finding_id (detectD1 s))"
  "distinct (map finding_id (detectD2 s))"
  "distinct (map finding_id (detectD3 s))"
  "distinct (map finding_id (detectD4 s))"
  "distinct (map finding_id (detectD5 s))"
  "distinct (map finding_id (detectD6 s))"
  "distinct (map finding_id (detectD7 s))"
  "distinct (map finding_id (detectD9 s))"
  "distinct (map finding_id (detectD10 s))"
  "distinct (map finding_id (detectD12 s))"
  "distinct (map finding_id (detectD15 s))"
  unfolding detector_defs Let_def by (simp_all split: option.splits)

lemma finding_classes:
  "f \<in> set (detectD1 s) \<Longrightarrow> fst (finding_id f) = DriftD1GatewaySettledLocalUnpaid"
  "f \<in> set (detectD2 s) \<Longrightarrow> fst (finding_id f) = DriftD2LocalPaidGatewayTerminalFailure"
  "f \<in> set (detectD3 s) \<Longrightarrow> fst (finding_id f) = DriftD3GatewayRefundedLocalHolding"
  "f \<in> set (detectD4 s) \<Longrightarrow> fst (finding_id f) = DriftD4PartialRefundMismatch"
  "f \<in> set (detectD5 s) \<Longrightarrow> fst (finding_id f) = DriftD5DuplicateSettlement"
  "f \<in> set (detectD6 s) \<Longrightarrow> fst (finding_id f) = DriftD6MissingWebhookDelivery"
  "f \<in> set (detectD7 s) \<Longrightarrow> fst (finding_id f) = DriftD7WebhookProcessedLedgerAbsent"
  "f \<in> set (detectD9 s) \<Longrightarrow> fst (finding_id f) = DriftD9RefundFullCoinsNotRefunded"
  "f \<in> set (detectD10 s) \<Longrightarrow> fst (finding_id f) = DriftD10OrderCompletedReleaseAbsent"
  "f \<in> set (detectD11 s) \<Longrightarrow> fst (finding_id f) = DriftD11StuckPendingRefund"
  "f \<in> set (detectD12 s) \<Longrightarrow> fst (finding_id f) = DriftD12PendingPaymentPastExpiry"
  "f \<in> set (detectD14 s) \<Longrightarrow> fst (finding_id f) = DriftD14LedgerEntryOutboxMissing"
  "f \<in> set (detectD15 s) \<Longrightarrow> fst (finding_id f) = DriftD15EscrowWithoutSettledPayment"
  unfolding detector_defs Let_def by (auto split: if_splits option.splits)

definition snapshot_ok :: "Snapshot \<Rightarrow> bool" where
  "snapshot_ok s \<longleftrightarrow> distinct (map rr_ID (sn_Refunds s))
     \<and> distinct (map fst (ll_RefundReversalExistsByRefundID (sn_Ledger s)))"

lemma map_id_refund: "map finding_id (detectD11 s) =
    (if gw_Available (sn_Gateway s)
     then map (\<lambda>r. (DriftD11StuckPendingRefund, Some (rr_ID r))) (filter (stuck_refund s) (sn_Refunds s)) else [])"
  by (simp add: detectD11_def Let_def)

lemma distinct_tagged: "distinct (map h xs) \<Longrightarrow> distinct (map (\<lambda>x. (c, Some (h x))) (filter P xs))"
  by (auto simp: distinct_map inj_on_def)

lemma many_findings:
  assumes "snapshot_ok s"
  shows "distinct (map finding_id (detectD11 s))" "distinct (map finding_id (detectD14 s))"
proof -
  show "distinct (map finding_id (detectD11 s))"
    using assms by (auto simp: map_id_refund snapshot_ok_def intro!: distinct_tagged)
  have "distinct (map fst (filter snd (ll_RefundReversalExistsByRefundID (sn_Ledger s))))"
    using assms by (auto simp: snapshot_ok_def distinct_map inj_on_def)
  then show "distinct (map finding_id (detectD14 s))"
    by (auto simp: detectD14_def sortedRefundIDsWithReversal_def distinct_map inj_on_def split: option.splits)
qed

lemma ids_distinct:
  assumes "snapshot_ok s"
  shows "distinct (map finding_id (all_findings s))"
proof -
  have apart: "A \<inter> B = {}" if "\<And>x y. x \<in> A \<Longrightarrow> y \<in> B \<Longrightarrow> fst x \<noteq> fst y" for A B :: "(DriftClass \<times> uuid option) set"
    using that by blast
  note d = one_finding [of s] many_findings [OF assms]
  show ?thesis
    unfolding all_findings_def map_append distinct_append
    by (intro conjI) (simp_all only: d, (rule apart, auto dest!: finding_classes)+)
qed

section \<open>The order of the rows does not matter\<close>

lemma wrap64_add_left: "wrap64 (wrap64 a + b) = wrap64 (a + b)"
  by (simp add: wrap64_def mod_simps algebra_simps)

lemma wrapped_sum:
  "foldl (\<lambda>t x. if P x then wrap64 (t + h x) else t) (wrap64 a) xs = wrap64 (a + (\<Sum>x\<leftarrow>filter P xs. h x))"
  by (induction xs arbitrary: a) (simp_all add: wrap64_add_left add.assoc)

lemma sumLocal_wraps:
  "sumLocalSuccessfulRefunds rs = wrap64 (\<Sum>r\<in>#filter_mset (\<lambda>r. rr_GatewayStatus r = ''succeeded'') (mset rs). rr_RequestedAmount r)"
  using wrapped_sum [of "\<lambda>r. rr_GatewayStatus r = ''succeeded''" rr_RequestedAmount 0 rs]
  by (simp add: sumLocalSuccessfulRefunds_def flip: sum_mset_sum_list mset_filter mset_map)

definition reordered :: "RefundRow list \<Rightarrow> WebhookEventRef list \<Rightarrow> (uuid \<times> bool) list \<Rightarrow> Snapshot \<Rightarrow> Snapshot" where
  "reordered rs ws m s = s\<lparr>sn_Refunds := rs, sn_Webhooks := ws,
     sn_Ledger := (sn_Ledger s)\<lparr>ll_RefundReversalExistsByRefundID := m\<rparr>\<rparr>"

lemma reordered_simps:
  "sn_Now (reordered rs ws m s) = sn_Now s" "sn_Gateway (reordered rs ws m s) = sn_Gateway s"
  "sn_Payment (reordered rs ws m s) = sn_Payment s" "sn_Order (reordered rs ws m s) = sn_Order s"
  "sn_Escrow (reordered rs ws m s) = sn_Escrow s" "sn_Refunds (reordered rs ws m s) = rs"
  "sn_Webhooks (reordered rs ws m s) = ws" "sn_Outbox (reordered rs ws m s) = sn_Outbox s"
  "sn_Thresholds (reordered rs ws m s) = sn_Thresholds s"
  "ll_BuyerSettlementExists (sn_Ledger (reordered rs ws m s)) = ll_BuyerSettlementExists (sn_Ledger s)"
  "ll_OrderReleaseExists (sn_Ledger (reordered rs ws m s)) = ll_OrderReleaseExists (sn_Ledger s)"
  "ll_OrderReleaseAmount (sn_Ledger (reordered rs ws m s)) = ll_OrderReleaseAmount (sn_Ledger s)"
  "ll_RefundReversalExistsByRefundID (sn_Ledger (reordered rs ws m s)) = m"
  by (simp_all add: reordered_def)

lemma reordered_findings:
  assumes "mset rs = mset (sn_Refunds s)" "mset ws = mset (sn_Webhooks s)"
    and "mset m = mset (ll_RefundReversalExistsByRefundID (sn_Ledger s))"
  shows "mset (all_findings (reordered rs ws m s)) = mset (all_findings s)"
proof -
  have b: "buildFinding (reordered rs ws m s) = buildFinding s"
    unfolding buildFinding_def reordered_simps ..
  have r: "sumLocalSuccessfulRefunds rs = sumLocalSuccessfulRefunds (sn_Refunds s)"
    by (simp add: sumLocal_wraps assms(1))
  have w: "set ws = set (sn_Webhooks s)" "length ws = length (sn_Webhooks s)"
    using assms(2) by (metis set_mset_mset, metis size_mset)
  have h: "hasNonFailedWebhook ws = hasNonFailedWebhook (sn_Webhooks s)"
    "hasSucceededWebhook ws = hasSucceededWebhook (sn_Webhooks s)"
    using w by (simp_all add: hasNonFailedWebhook_def hasSucceededWebhook_def list_ex_iff)
  have "set (settlement_claims ws) = set (settlement_claims (sn_Webhooks s))" using w by (simp add: settlement_claims_def)
  then have c: "length (remdups (settlement_claims ws)) = length (remdups (settlement_claims (sn_Webhooks s)))"
    by (simp add: length_remdups_card_conv)
  have m: "sortedRefundIDsWithReversal m = sortedRefundIDsWithReversal (ll_RefundReversalExistsByRefundID (sn_Ledger s))"
    using assms(3) by (auto simp: sortedRefundIDsWithReversal_def intro!: properties_for_sort)
  have "stuck_refund (reordered rs ws m s) = stuck_refund s" unfolding stuck_refund_def reordered_simps ..
  then have "mset (detectD11 (reordered rs ws m s)) = mset (detectD11 s)"
    using assms(1) by (simp add: detectD11_def b reordered_simps)
  moreover have "detectD1 (reordered rs ws m s) = detectD1 s" "detectD2 (reordered rs ws m s) = detectD2 s"
    "detectD3 (reordered rs ws m s) = detectD3 s" "detectD4 (reordered rs ws m s) = detectD4 s"
    "detectD5 (reordered rs ws m s) = detectD5 s" "detectD6 (reordered rs ws m s) = detectD6 s"
    "detectD7 (reordered rs ws m s) = detectD7 s" "detectD9 (reordered rs ws m s) = detectD9 s"
    "detectD10 (reordered rs ws m s) = detectD10 s" "detectD12 (reordered rs ws m s) = detectD12 s"
    "detectD14 (reordered rs ws m s) = detectD14 s" "detectD15 (reordered rs ws m s) = detectD15 s"
    unfolding detector_defs b reordered_simps r w h c m Let_def by (rule refl)+
  ultimately show ?thesis by (simp add: all_findings_def)
qed

lemma key_of_id:
  assumes "f \<in> set (all_findings s)" "g \<in> set (all_findings s)" "fd_IdempotencyKey f = fd_IdempotencyKey g"
  shows "finding_id f = finding_id g"
proof -
  have "rk_Class (fd_IdempotencyKey h) = fd_DriftClass h" if "h \<in> set (all_findings s)" for h
    using all_built [OF that] by (auto simp: built_def buildFinding_def buildIdempotencyKey_def Let_def)
  then have "finding_rank f = finding_rank g" using assms by (simp add: finding_rank_def) metis
  then show ?thesis using all_rank [OF assms(1)] all_rank [OF assms(2)] id_rank_inj by simp
qed

section \<open>Looking again later\<close>

definition seen_at :: "time \<Rightarrow> Finding \<Rightarrow> Finding" where
  "seen_at now f = f\<lparr>fd_DetectedAt := now, fd_IdempotencyKey := (fd_IdempotencyKey f)\<lparr>rk_Day := now div (24 * hour)\<rparr>\<rparr>"

lemma later_simps:
  "sn_Gateway (s\<lparr>sn_Now := t\<rparr>) = sn_Gateway s" "sn_Payment (s\<lparr>sn_Now := t\<rparr>) = sn_Payment s"
  "sn_Order (s\<lparr>sn_Now := t\<rparr>) = sn_Order s" "sn_Escrow (s\<lparr>sn_Now := t\<rparr>) = sn_Escrow s"
  "sn_Refunds (s\<lparr>sn_Now := t\<rparr>) = sn_Refunds s" "sn_Webhooks (s\<lparr>sn_Now := t\<rparr>) = sn_Webhooks s"
  "sn_Ledger (s\<lparr>sn_Now := t\<rparr>) = sn_Ledger s" "sn_Outbox (s\<lparr>sn_Now := t\<rparr>) = sn_Outbox s"
  "sn_Thresholds (s\<lparr>sn_Now := t\<rparr>) = sn_Thresholds s" "sn_Now (s\<lparr>sn_Now := t\<rparr>) = t"
  by simp_all

lemma built_later: "buildFinding (s\<lparr>sn_Now := t\<rparr>) c v g l r = seen_at t (buildFinding s c v g l r)"
  unfolding buildFinding_def buildIdempotencyKey_def seen_at_def later_simps Let_def by simp

lemma grace_persists:
  assumes "sn_Now s \<le> t"
  shows "seen_at t ` set (detectD1 s) \<subseteq> set (detectD1 (s\<lparr>sn_Now := t\<rparr>))"
    "seen_at t ` set (detectD12 s) \<subseteq> set (detectD12 (s\<lparr>sn_Now := t\<rparr>))"
  unfolding detector_defs later_simps Let_def built_later
  using assms by (cases "sn_Payment s"; auto)+

lemma detectors_persist:
  "seen_at t ` set (detectD2 s) \<subseteq> set (detectD2 (s\<lparr>sn_Now := t\<rparr>))"
    "seen_at t ` set (detectD3 s) \<subseteq> set (detectD3 (s\<lparr>sn_Now := t\<rparr>))"
    "seen_at t ` set (detectD4 s) \<subseteq> set (detectD4 (s\<lparr>sn_Now := t\<rparr>))"
    "seen_at t ` set (detectD5 s) \<subseteq> set (detectD5 (s\<lparr>sn_Now := t\<rparr>))"
    "seen_at t ` set (detectD6 s) \<subseteq> set (detectD6 (s\<lparr>sn_Now := t\<rparr>))"
    "seen_at t ` set (detectD7 s) \<subseteq> set (detectD7 (s\<lparr>sn_Now := t\<rparr>))"
    "seen_at t ` set (detectD9 s) \<subseteq> set (detectD9 (s\<lparr>sn_Now := t\<rparr>))"
    "seen_at t ` set (detectD10 s) \<subseteq> set (detectD10 (s\<lparr>sn_Now := t\<rparr>))"
    "seen_at t ` set (detectD14 s) \<subseteq> set (detectD14 (s\<lparr>sn_Now := t\<rparr>))"
    "seen_at t ` set (detectD15 s) \<subseteq> set (detectD15 (s\<lparr>sn_Now := t\<rparr>))"
  unfolding detector_defs later_simps Let_def built_later
  by (auto split: option.splits)

lemma stuck_persists: "sn_Now s \<le> t \<Longrightarrow> stuck_refund s r \<Longrightarrow> stuck_refund (s\<lparr>sn_Now := t\<rparr>) r"
  unfolding stuck_refund_def later_simps by (auto split: if_splits option.splits)

lemma findings_persist:
  assumes "sn_Now s \<le> t"
  shows "seen_at t ` set (all_findings s) \<subseteq> set (all_findings (s\<lparr>sn_Now := t\<rparr>))"
proof -
  have "seen_at t ` set (detectD11 s) \<subseteq> set (detectD11 (s\<lparr>sn_Now := t\<rparr>))"
    using stuck_persists [OF assms] unfolding detectD11_def later_simps Let_def built_later by auto
  then show ?thesis unfolding all_findings_def set_append image_Un
    by (intro Un_mono detectors_persist grace_persists assms)
qed

section \<open>Properties\<close>

text \<open>
  C39. The classifier depends on the facts, not on the order in which the
  queries return them: with the refunds, the webhooks and the map of reversals
  in another order it returns the same findings in the same order, and no two
  findings share an idempotency key.
\<close>

theorem findings_are_canonical:
  assumes "distinct (map rr_ID (sn_Refunds s))" "distinct (map fst (ll_RefundReversalExistsByRefundID (sn_Ledger s)))"
    and "mset rs = mset (sn_Refunds s)" "mset ws = mset (sn_Webhooks s)"
    and "mset m = mset (ll_RefundReversalExistsByRefundID (sn_Ledger s))"
  shows "Classify (s\<lparr>sn_Refunds := rs, sn_Webhooks := ws,
      sn_Ledger := (sn_Ledger s)\<lparr>ll_RefundReversalExistsByRefundID := m\<rparr>\<rparr>) = Classify s
    \<and> distinct (map fd_IdempotencyKey (Classify s))"
proof -
  have ids: "distinct (map finding_id (all_findings s))" using assms(1,2) by (simp add: ids_distinct snapshot_ok_def)
  have inj: "inj_on finding_rank (set (all_findings s))"
    using ids all_rank id_rank_inj by (auto simp: distinct_map inj_on_def)
  have "mset (all_findings (reordered rs ws m s)) = mset (Classify s)"
    using reordered_findings [OF assms(3-5)] by (simp add: Classify_sorts)
  moreover have "inj_on finding_rank (set (all_findings (reordered rs ws m s)))"
    using inj mset_eq_setD [OF reordered_findings [OF assms(3-5)]] by simp
  moreover have "sorted (map finding_rank (Classify s))" by (simp add: Classify_sorts)
  ultimately have "Classify (reordered rs ws m s) = Classify s"
    unfolding Classify_sorts [of "reordered rs ws m s"] by (rule sort_key_inj_key_eq)
  note same = this
  have "inj_on fd_IdempotencyKey (set (all_findings s))"
    using ids key_of_id [of _ s] unfolding distinct_map inj_on_def by blast
  then have "distinct (map fd_IdempotencyKey (all_findings s))" using ids by (simp add: distinct_map)
  moreover have "mset (map fd_IdempotencyKey (Classify s)) = mset (map fd_IdempotencyKey (all_findings s))"
    by (simp add: Classify_sorts)
  ultimately have "distinct (map fd_IdempotencyKey (Classify s))" using mset_eq_imp_distinct_iff by metis
  then show ?thesis using same by (simp add: reordered_def)
qed

definition refund_row :: "uuid \<Rightarrow> RefundRow" where
  "refund_row i = \<lparr>rr_ID = i, rr_RequestedAmount = 1000 * int i, rr_GatewayStatus = ''pending'', rr_GatewayRefundID = ''g'',
     rr_GatewayIdempotencyKey = '''', rr_GatewayRequestedAt = Some 0, rr_GatewayAcknowledgedAt = None\<rparr>"

definition webhook_row :: "string \<Rightarrow> WebhookEventRef" where
  "webhook_row t = \<lparr>we_NotificationKey = t, we_Status = ''succeeded'', we_TransactionStatus = ''settlement'', we_TransactionID = t\<rparr>"

definition sample_snapshot :: Snapshot where
  "sample_snapshot = \<lparr>sn_Now = 100 * hour,
     sn_Gateway = \<lparr>gw_MidtransOrderID = ''ORD-1'', gw_Available = True, gw_TransactionStatus = ''settlement'',
       gw_GrossAmount = 50000, gw_RefundChargebackHistory = []\<rparr>,
     sn_Payment = Some \<lparr>py_MidtransOrderID = ''ORD-1'', py_GrossAmount = 50000, py_Status = ''settlement'',
       py_PaidAt = Some 0, py_ExpiredAt = hour, py_CreatedAt = 0\<rparr>,
     sn_Order = Some \<lparr>ow_ID = 9, ow_Status = ''completed'', ow_GrossAmount = 50000\<rparr>,
     sn_Escrow = Some \<lparr>ew_Status = ''holding'', ew_Amount = 50000\<rparr>,
     sn_Refunds = [refund_row 2, refund_row 1], sn_Webhooks = [webhook_row ''b'', webhook_row ''a''],
     sn_Ledger = \<lparr>ll_BuyerSettlementExists = True, ll_OrderReleaseExists = True, ll_OrderReleaseAmount = 45000,
       ll_RefundReversalExistsByRefundID = []\<rparr>,
     sn_Outbox = \<lparr>ol_MoneyReleasedAliveByOrderID = (\<lambda>_. True), ol_MoneyRefundSucceededAliveByRefundID = (\<lambda>_. True),
       ol_CoinsRefundRequiredAliveByOrderID = (\<lambda>_. True)\<rparr>,
     sn_Thresholds = \<lparr>th_PendingPaymentGrace = hour, th_StuckRefundGrace = hour, th_PendingPaymentExpiryGrace = hour\<rparr>\<rparr>"

theorem findings_are_canonical_witness:
  "map finding_id (Classify (sample_snapshot\<lparr>sn_Refunds := [refund_row 1, refund_row 2], sn_Webhooks := [webhook_row ''a'', webhook_row ''b'']\<rparr>))
    = [(DriftD11StuckPendingRefund, Some 1), (DriftD11StuckPendingRefund, Some 2), (DriftD5DuplicateSettlement, None)]"
proof -
  have "map finding_id (Classify sample_snapshot)
      = [(DriftD11StuckPendingRefund, Some 1), (DriftD11StuckPendingRefund, Some 2), (DriftD5DuplicateSettlement, None)]"
    by code_simp
  then show ?thesis
    using findings_are_canonical [of sample_snapshot "[refund_row 1, refund_row 2]" "[webhook_row ''a'', webhook_row ''b'']" "[]"]
    by (simp add: sample_snapshot_def refund_row_def add_mset_commute)
qed

text \<open>
  A finding does not go away by waiting: if nothing but the clock has
  moved, every finding is found again with the same class, order, refund and
  amounts, and on the same day under the same idempotency key.
\<close>

theorem findings_do_not_go_away:
  assumes "sn_Now s \<le> later" "f \<in> set (Classify s)"
  shows "\<exists>f' \<in> set (Classify (s\<lparr>sn_Now := later\<rparr>)). fd_DriftClass f' = fd_DriftClass f \<and> fd_OrderID f' = fd_OrderID f
    \<and> fd_RefundID f' = fd_RefundID f \<and> fd_GatewayObservedAmount f' = fd_GatewayObservedAmount f
    \<and> fd_LocalObservedAmount f' = fd_LocalObservedAmount f
    \<and> (later div (24 * hour) = sn_Now s div (24 * hour) \<longrightarrow> fd_IdempotencyKey f' = fd_IdempotencyKey f)"
proof (rule bexI)
  have f: "f \<in> set (all_findings s)" using assms(2) by (simp add: Classify_sorts)
  then show "seen_at later f \<in> set (Classify (s\<lparr>sn_Now := later\<rparr>))"
    using findings_persist [OF assms(1)] by (auto simp: Classify_sorts)
  show "fd_DriftClass (seen_at later f) = fd_DriftClass f \<and> fd_OrderID (seen_at later f) = fd_OrderID f
    \<and> fd_RefundID (seen_at later f) = fd_RefundID f \<and> fd_GatewayObservedAmount (seen_at later f) = fd_GatewayObservedAmount f
    \<and> fd_LocalObservedAmount (seen_at later f) = fd_LocalObservedAmount f
    \<and> (later div (24 * hour) = sn_Now s div (24 * hour) \<longrightarrow> fd_IdempotencyKey (seen_at later f) = fd_IdempotencyKey f)"
    using all_built [OF f] by (auto simp: built_def seen_at_def buildFinding_def buildIdempotencyKey_def Let_def)
qed

theorem findings_do_not_go_away_witness:
  "\<exists>f' \<in> set (Classify (sample_snapshot\<lparr>sn_Now := 110 * hour\<rparr>)). fd_DriftClass f' = DriftD5DuplicateSettlement"
proof -
  have "\<exists>f \<in> set (Classify sample_snapshot). fd_DriftClass f = DriftD5DuplicateSettlement" by code_simp
  then obtain f where "f \<in> set (Classify sample_snapshot)" "fd_DriftClass f = DriftD5DuplicateSettlement" by blast
  moreover have "sn_Now sample_snapshot \<le> 110 * hour" by code_simp
  ultimately show ?thesis using findings_do_not_go_away by metis
qed

definition payment_status_enum :: "string list" where
  "payment_status_enum = [''pending'', ''settlement'', ''capture'', ''deny'', ''cancel'', ''expire'', ''challenge'']"

definition drifts :: "Snapshot \<Rightarrow> DriftClass set" where
  "drifts s = fd_DriftClass ` set (Classify s)"

text \<open>
  Two classes do not fit the rest of the program. A payment row never has
  the status \<open>paid\<close> that a phantom settlement must have, so that finding is
  never made. And a card payment that is captured but still held by the fraud
  check counts as settled here, although the provider contract calls it
  pending: an order that waits for the check raises a critical finding.
\<close>

theorem phantom_missed_and_held_capture_alarmed:
  assumes "sn_Payment s = Some p" "py_Status p \<in> set payment_status_enum"
  shows "DriftD2LocalPaidGatewayTerminalFailure \<notin> drifts s
    \<and> (gw_Available (sn_Gateway s) \<and> gw_TransactionStatus (sn_Gateway s) = ''capture'' \<and> py_Status p = ''pending''
        \<and> time_add (py_CreatedAt p) (th_PendingPaymentGrace (sn_Thresholds s)) \<le> sn_Now s
      \<longrightarrow> DriftD1GatewaySettledLocalUnpaid \<in> drifts s
        \<and> ClassifyProviderState (gw_TransactionStatus (sn_Gateway s)) ''challenge'' = ProviderStatePending)"
proof (intro conjI impI)
  have "py_Status p \<noteq> ''paid''" using assms(2) by (auto simp: payment_status_enum_def)
  then have "detectD2 s = []" using assms(1) by (simp add: detectD2_def)
  then show "DriftD2LocalPaidGatewayTerminalFailure \<notin> drifts s"
    using finding_classes [of _ s] by (auto simp: drifts_def Classify_sorts all_findings_def finding_id_def)
next
  assume g: "gw_Available (sn_Gateway s) \<and> gw_TransactionStatus (sn_Gateway s) = ''capture'' \<and> py_Status p = ''pending''
    \<and> time_add (py_CreatedAt p) (th_PendingPaymentGrace (sn_Thresholds s)) \<le> sn_Now s"
  have "\<exists>f. f \<in> set (detectD1 s) \<and> fd_DriftClass f = DriftD1GatewaySettledLocalUnpaid"
    using g assms(1) by (simp add: detectD1_def gatewayIsSettled_def)
  then show "DriftD1GatewaySettledLocalUnpaid \<in> drifts s"
    by (force simp: drifts_def Classify_sorts all_findings_def)
  have "ClassifyProviderState ''capture'' ''challenge'' = ProviderStatePending" by code_simp
  then show "ClassifyProviderState (gw_TransactionStatus (sn_Gateway s)) ''challenge'' = ProviderStatePending" using g by simp
qed

theorem phantom_missed_and_held_capture_alarmed_witness:
  "DriftD1GatewaySettledLocalUnpaid \<in> drifts (sample_snapshot\<lparr>
      sn_Gateway := (sn_Gateway sample_snapshot)\<lparr>gw_TransactionStatus := ''capture''\<rparr>,
      sn_Payment := Some \<lparr>py_MidtransOrderID = ''ORD-1'', py_GrossAmount = 50000, py_Status = ''pending'',
        py_PaidAt = None, py_ExpiredAt = hour, py_CreatedAt = 0\<rparr>\<rparr>)"
  using phantom_missed_and_held_capture_alarmed [of "sample_snapshot\<lparr>
      sn_Gateway := (sn_Gateway sample_snapshot)\<lparr>gw_TransactionStatus := ''capture''\<rparr>,
      sn_Payment := Some \<lparr>py_MidtransOrderID = ''ORD-1'', py_GrossAmount = 50000, py_Status = ''pending'',
        py_PaidAt = None, py_ExpiredAt = hour, py_CreatedAt = 0\<rparr>\<rparr>"]
  by (simp add: sample_snapshot_def payment_status_enum_def time_add_def hour_def minute_def second_def)

end
