(* ===== verification/Billing.thy ===== *)
theory Billing
  imports Money
begin

text \<open>
  \<open>finance/billing/entity/billing_transaction.go\<close>: a payment that is not for an
  order. The only type is the top-up of a seller's Promote Balance.
\<close>

definition TypePromoteBalanceTopUp :: string where
  "TypePromoteBalanceTopUp = ''promote_balance_top_up''"

datatype BillingStatus = BillingPending | BillingPaid | BillingFailed

record billing_transaction =
  bt_ID :: uuid
  bt_PayerID :: uuid
  bt_TargetID :: uuid
  bt_Type :: string
  bt_GrossAmount :: money
  bt_PlatformFeePercent :: i64
  bt_PlatformFeeAmount :: money
  bt_NetAmount :: money
  bt_Status :: BillingStatus
  bt_CreatedAt :: time
  bt_UpdatedAt :: time

datatype billing_error = BillingInvalidTransition BillingStatus BillingStatus | InvalidBillingType string | BillingPanic money_panic

definition billing_IsValidType :: "string \<Rightarrow> bool" where
  "billing_IsValidType t \<longleftrightarrow> t = TypePromoteBalanceTopUp"

fun billing_canTransition :: "BillingStatus \<Rightarrow> BillingStatus \<Rightarrow> bool" where
  "billing_canTransition BillingPending t = (t = BillingPaid \<or> t = BillingFailed)"
| "billing_canTransition BillingPaid t = False"
| "billing_canTransition BillingFailed t = False"

definition billing_MarkPaid :: "time \<Rightarrow> billing_transaction \<Rightarrow> (billing_error, billing_transaction) mutation" where
  [mutation]: "billing_MarkPaid now b =
    (if \<not> billing_canTransition (bt_Status b) BillingPaid
     then fail (BillingInvalidTransition (bt_Status b) BillingPaid) b
     else ok (b\<lparr>bt_Status := BillingPaid, bt_UpdatedAt := now\<rparr>))"

definition billing_MarkFailed :: "time \<Rightarrow> billing_transaction \<Rightarrow> (billing_error, billing_transaction) mutation" where
  [mutation]: "billing_MarkFailed now b =
    (if \<not> billing_canTransition (bt_Status b) BillingFailed
     then fail (BillingInvalidTransition (bt_Status b) BillingFailed) b
     else ok (b\<lparr>bt_Status := BillingFailed, bt_UpdatedAt := now\<rparr>))"

definition NewBillingTransaction ::
    "uuid \<Rightarrow> time \<Rightarrow> uuid \<Rightarrow> uuid \<Rightarrow> string \<Rightarrow> money \<Rightarrow> i64 \<Rightarrow> billing_error + billing_transaction" where
  "NewBillingTransaction new_id now payerID targetID billingType grossAmount platformFeePercent =
    (if \<not> billing_IsValidType billingType then Inl (InvalidBillingType billingType)
     else let platformFeeAmount = money_New (wrap64 (money_Int64 grossAmount * platformFeePercent) sdiv 100)
       in case money_Sub grossAmount platformFeeAmount of
            Inl p \<Rightarrow> Inl (BillingPanic p)
          | Inr netAmount \<Rightarrow> Inr \<lparr>bt_ID = new_id, bt_PayerID = payerID, bt_TargetID = targetID, bt_Type = billingType,
              bt_GrossAmount = grossAmount, bt_PlatformFeePercent = platformFeePercent,
              bt_PlatformFeeAmount = platformFeeAmount, bt_NetAmount = netAmount, bt_Status = BillingPending,
              bt_CreatedAt = now, bt_UpdatedAt = now\<rparr>)"

end
