(* ===== verification/Subscription.thy ===== *)
theory Subscription
  imports Money
begin

text \<open>
  \<open>commerce/subscription/entity/subscription.go\<close> and its table
  (\<open>infrastructure/repository/subscription_repository_impl.go\<close>): a seller's paid
  periods, each an immutable row. The status column has the enum's values
  active, expired and inactive; the code only writes the first two.
\<close>

section \<open>The entity\<close>

datatype SubscriptionStatus = SubscriptionActive | SubscriptionExpired | SubscriptionInactive

record seller_subscription =
  sb_ID :: uuid
  sb_UserID :: uuid
  sb_Status :: SubscriptionStatus
  sb_StartedAt :: time
  sb_ExpiresAt :: time
  sb_DurationDays :: int
  sb_AmountPaid :: money
  sb_PaymentID :: uuid
  sb_CreatedAt :: time
  sb_UpdatedAt :: time

record subscription_config =
  sc_ID :: uuid
  sc_YearlyFeeRupiah :: i64
  sc_DurationDays :: int
  sc_RenewalReminderDays :: int
  sc_Enabled :: bool
  sc_CreatedAt :: time

text \<open>What onboarding asks of a user: the columns of the users, profile, address and seller tables.\<close>

record onboarding_user =
  us_ID :: uuid
  us_EmailVerified :: bool
  us_PhoneNumber :: "string option"
  us_Username :: "string option"
  us_HasPrimaryAddress :: bool
  us_HasSellerProfile :: bool

datatype subscription_error =
    DuplicateActiveSubscription uuid
  | TransitionGuardFailed uuid SubscriptionStatus SubscriptionStatus SubscriptionStatus
  | SubscriptionNotFound uuid
  | ConfigNotFound uuid
  | StatementFailed
  | OnboardingIncomplete "string list"
  | MissingSettlementTimestamp

definition subscription_IsActive :: "seller_subscription \<Rightarrow> bool" where
  "subscription_IsActive s \<longleftrightarrow> sb_Status s = SubscriptionActive"

definition subscription_IsExpired :: "seller_subscription \<Rightarrow> bool" where
  "subscription_IsExpired s \<longleftrightarrow> sb_Status s = SubscriptionExpired"

definition subscription_IsExpiredByTime :: "time \<Rightarrow> seller_subscription \<Rightarrow> bool" where
  "subscription_IsExpiredByTime now s \<longleftrightarrow> after now (sb_ExpiresAt s)"

section \<open>The table\<close>

definition periods_overlap :: "seller_subscription \<Rightarrow> seller_subscription \<Rightarrow> bool" where
  "periods_overlap s t \<longleftrightarrow> sb_StartedAt s < sb_ExpiresAt t \<and> sb_StartedAt t < sb_ExpiresAt s"

text \<open>
  A payment pays one period (unique); an active period may not overlap another
  active one of the same user (exclusion); the rest are checks. The constraint
  on the payment is reported as a duplicate active subscription.
\<close>

definition subrepo_InsertTx ::
    "seller_subscription \<Rightarrow> seller_subscription list \<Rightarrow> subscription_error + seller_subscription list" where
  "subrepo_InsertTx s rows =
    (if \<not> (sb_StartedAt s < sb_ExpiresAt s \<and> sb_DurationDays s > 0 \<and> sb_AmountPaid s \<ge> 0) then Inl StatementFailed
     else if \<exists>r \<in> set rows. sb_PaymentID r = sb_PaymentID s \<or> sb_ID r = sb_ID s
     then Inl (DuplicateActiveSubscription (sb_UserID s))
     else if sb_Status s = SubscriptionActive
       \<and> (\<exists>r \<in> set rows. sb_UserID r = sb_UserID s \<and> sb_Status r = SubscriptionActive \<and> periods_overlap s r)
     then Inl StatementFailed
     else Inr (rows @ [s]))"

definition subrepo_GetByID :: "uuid \<Rightarrow> seller_subscription list \<Rightarrow> seller_subscription option" where
  "subrepo_GetByID i rows = find (\<lambda>s. sb_ID s = i) rows"

definition subrepo_GetByIDForUpdate :: "uuid \<Rightarrow> seller_subscription list \<Rightarrow> seller_subscription option" where
  "subrepo_GetByIDForUpdate i rows = find (\<lambda>s. sb_ID s = i) rows"

definition subrepo_UpdateStatusTx ::
    "time \<Rightarrow> uuid \<Rightarrow> SubscriptionStatus \<Rightarrow> SubscriptionStatus \<Rightarrow> seller_subscription list
      \<Rightarrow> subscription_error + seller_subscription list" where
  "subrepo_UpdateStatusTx db_now i fromStatus toStatus rows =
    (if \<exists>s \<in> set rows. sb_ID s = i \<and> sb_Status s = fromStatus
     then Inr (map (\<lambda>s. if sb_ID s = i \<and> sb_Status s = fromStatus
       then s\<lparr>sb_Status := toStatus, sb_UpdatedAt := db_now\<rparr> else s) rows)
     else case subrepo_GetByID i rows of
       None \<Rightarrow> Inl (SubscriptionNotFound i)
     | Some s \<Rightarrow> Inl (TransitionGuardFailed i fromStatus (sb_Status s) toStatus))"

text \<open>The period that gives market authority now.\<close>

definition subrepo_GetLatestByUserID :: "time \<Rightarrow> uuid \<Rightarrow> seller_subscription list \<Rightarrow> seller_subscription option" where
  "subrepo_GetLatestByUserID db_now userID rows =
    latest sb_StartedAt (filter (\<lambda>s. sb_UserID s = userID \<and> sb_Status s = SubscriptionActive
      \<and> sb_StartedAt s \<le> db_now \<and> db_now < sb_ExpiresAt s) rows)"

definition subrepo_GetMostRecentByUserID :: "uuid \<Rightarrow> seller_subscription list \<Rightarrow> seller_subscription option" where
  "subrepo_GetMostRecentByUserID userID rows = latest sb_CreatedAt (filter (\<lambda>s. sb_UserID s = userID) rows)"

definition subrepo_GetActiveByUserID :: "uuid \<Rightarrow> seller_subscription list \<Rightarrow> seller_subscription option" where
  "subrepo_GetActiveByUserID userID rows =
    latest sb_CreatedAt (filter (\<lambda>s. sb_UserID s = userID \<and> sb_Status s = SubscriptionActive) rows)"

text \<open>\<open>SELECT MAX(expires_at)\<close> over the active and the expired periods.\<close>

definition subrepo_GetLatestByUserIDForUpdate :: "uuid \<Rightarrow> seller_subscription list \<Rightarrow> time option" where
  "subrepo_GetLatestByUserIDForUpdate userID rows =
    (case filter (\<lambda>s. sb_UserID s = userID \<and> (sb_Status s = SubscriptionActive \<or> sb_Status s = SubscriptionExpired)) rows of
       [] \<Rightarrow> None
     | s # ss \<Rightarrow> Some (foldl max (sb_ExpiresAt s) (map sb_ExpiresAt ss)))"

definition subrepo_FetchActiveExpiredBatchIDs :: "time \<Rightarrow> nat \<Rightarrow> seller_subscription list \<Rightarrow> uuid list" where
  "subrepo_FetchActiveExpiredBatchIDs now limit rows =
    map sb_ID (take limit (filter (\<lambda>s. sb_Status s = SubscriptionActive \<and> sb_ExpiresAt s \<le> now) rows))"

definition subrepo_FetchActiveExpiredBatch :: "time \<Rightarrow> nat \<Rightarrow> seller_subscription list \<Rightarrow> seller_subscription list" where
  "subrepo_FetchActiveExpiredBatch now limit rows =
    take limit (filter (\<lambda>s. sb_Status s = SubscriptionActive \<and> sb_ExpiresAt s \<le> now) rows)"

section \<open>The price list\<close>

definition subrepo_GetActiveConfig :: "subscription_config list \<Rightarrow> subscription_config option" where
  "subrepo_GetActiveConfig cs = latest sc_CreatedAt (filter sc_Enabled cs)"

text \<open>Zero keeps the old value; enabling one price disables all others; the checks of the table hold.\<close>

definition config_checked :: "subscription_config \<Rightarrow> bool" where
  "config_checked c \<longleftrightarrow> sc_YearlyFeeRupiah c > 0 \<and> sc_DurationDays c > 0
     \<and> 0 \<le> sc_RenewalReminderDays c \<and> sc_RenewalReminderDays c < sc_DurationDays c"

definition subrepo_UpdateConfigTx ::
    "uuid \<Rightarrow> i64 \<Rightarrow> int \<Rightarrow> int \<Rightarrow> bool \<Rightarrow> subscription_config list
      \<Rightarrow> subscription_error + subscription_config list" where
  "subrepo_UpdateConfigTx configID yearlyFee durationDays reminderDays enabled cs =
    (let upd = (\<lambda>c. if sc_ID c = configID
        then c\<lparr>sc_YearlyFeeRupiah := (if yearlyFee > 0 then yearlyFee else sc_YearlyFeeRupiah c),
               sc_DurationDays := (if durationDays > 0 then durationDays else sc_DurationDays c),
               sc_RenewalReminderDays := (if reminderDays > 0 then reminderDays else sc_RenewalReminderDays c),
               sc_Enabled := enabled\<rparr>
        else if enabled then c\<lparr>sc_Enabled := False\<rparr> else c);
      cs1 = map upd cs
     in if configID \<notin> sc_ID ` set cs then Inl (ConfigNotFound configID)
        else if \<not> list_all config_checked cs1 then Inl StatementFailed
        else Inr cs1)"

end
