(* ===== verification/ForSale.thy ===== *)
theory ForSale
  imports Lifecycle Money
begin

text \<open>
  \<open>commerce/forsale/entity\<close>: a fixed-price listing with its stock. A listing is
  born active and public; it is sold when its stock runs out, active again when
  an order gives its stock back, withdrawn by its seller and restored by
  moderation. The joined product is not part of the record.
\<close>

section \<open>Status and visibility\<close>

datatype ForSaleStatus = ForSaleActive | ForSaleSold | ForSaleWithdrawn | ForSaleOther string

fun forSale_transitionAllowed :: "ForSaleStatus \<Rightarrow> ForSaleStatus list" where
  "forSale_transitionAllowed ForSaleActive = [ForSaleSold, ForSaleWithdrawn]"
| "forSale_transitionAllowed _ = []"

definition forSale_CanTransition :: "ForSaleStatus \<Rightarrow> ForSaleStatus \<Rightarrow> bool" where
  "forSale_CanTransition s t \<longleftrightarrow> t \<in> set (forSale_transitionAllowed s)"

fun forSaleStatus_IsValid :: "ForSaleStatus \<Rightarrow> bool" where
  "forSaleStatus_IsValid (ForSaleOther _) = False"
| "forSaleStatus_IsValid _ = True"

fun forSaleStatus_String :: "ForSaleStatus \<Rightarrow> string" where
  "forSaleStatus_String ForSaleActive = ''active''"
| "forSaleStatus_String ForSaleSold = ''sold''"
| "forSaleStatus_String ForSaleWithdrawn = ''withdrawn''"
| "forSaleStatus_String (ForSaleOther s) = s"

definition forSaleStatus_IsRepostable :: "ForSaleStatus \<Rightarrow> bool" where
  "forSaleStatus_IsRepostable s \<longleftrightarrow> s = ForSaleActive"

fun forSaleStatus_PublicLifecycle :: "ForSaleStatus \<Rightarrow> string" where
  "forSaleStatus_PublicLifecycle ForSaleActive = ''active''"
| "forSaleStatus_PublicLifecycle ForSaleSold = ''sold''"
| "forSaleStatus_PublicLifecycle _ = ''unavailable''"

datatype ForSaleVisibility = ForSalePublic | ForSalePrivate | ForSaleVisibilityOther string

fun forSaleVisibility_IsValid :: "ForSaleVisibility \<Rightarrow> bool" where
  "forSaleVisibility_IsValid (ForSaleVisibilityOther _) = False"
| "forSaleVisibility_IsValid _ = True"

fun forSaleVisibility_String :: "ForSaleVisibility \<Rightarrow> string" where
  "forSaleVisibility_String ForSalePublic = ''public''"
| "forSaleVisibility_String ForSalePrivate = ''private''"
| "forSaleVisibility_String (ForSaleVisibilityOther s) = s"

definition forSale_DeriveVisibility :: "ForSaleStatus \<Rightarrow> time option \<Rightarrow> ForSaleVisibility" where
  "forSale_DeriveVisibility status publishedAt =
    (if publishedAt \<noteq> None \<and> forSaleStatus_IsValid status then ForSalePublic else ForSalePrivate)"

section \<open>The listing\<close>

record for_sale =
  fs_ID :: uuid
  fs_ProductID :: uuid
  fs_SellerID :: uuid
  fs_PricePerUnit :: money
  fs_QuantityAvailable :: int
  fs_NegotiationEnabled :: bool
  fs_Visibility :: ForSaleVisibility
  fs_Status :: ForSaleStatus
  fs_PublishedAt :: "time option"
  fs_SoldAt :: "time option"
  fs_WithdrawnAt :: "time option"
  fs_CreatedAt :: time
  fs_UpdatedAt :: time

datatype for_sale_error =
    InsufficientQuantity int int | InvalidQuantity int | ForSaleNotActive ForSaleStatus
  | ForSaleInvalidTransition ForSaleStatus ForSaleStatus | ForSaleNegativePrice
  | ForSaleNotRestorable ForSaleStatus uuid

definition forSale_MarkWithdrawn :: "time \<Rightarrow> time \<Rightarrow> for_sale \<Rightarrow> (for_sale_error, for_sale) mutation" where
  [mutation]: "forSale_MarkWithdrawn now now2 l =
    (if \<not> forSale_CanTransition (fs_Status l) ForSaleWithdrawn
     then fail (ForSaleInvalidTransition (fs_Status l) ForSaleWithdrawn) l
     else ok (l\<lparr>fs_Status := ForSaleWithdrawn, fs_WithdrawnAt := Some now, fs_UpdatedAt := now2\<rparr>))"

definition forSale_MarkActiveFromModeration ::
    "time \<Rightarrow> time \<Rightarrow> for_sale \<Rightarrow> (for_sale_error, for_sale) mutation" where
  [mutation]: "forSale_MarkActiveFromModeration now now2 l =
    (case fs_Status l of
       ForSaleActive \<Rightarrow> ok l
     | ForSaleWithdrawn \<Rightarrow>
         ok (l\<lparr>fs_Status := ForSaleActive, fs_Visibility := ForSalePublic, fs_PublishedAt := Some now, fs_UpdatedAt := now2\<rparr>)
     | _ \<Rightarrow> fail (ForSaleNotRestorable (fs_Status l) (fs_ID l)) l)"

text \<open>The last clock reading is the one of the transition to sold.\<close>

definition forSale_ReduceQuantity ::
    "time \<Rightarrow> time \<Rightarrow> time \<Rightarrow> int \<Rightarrow> for_sale \<Rightarrow> (for_sale_error, for_sale) mutation" where
  [mutation]: "forSale_ReduceQuantity now sold_now now3 amount l =
    (if fs_Status l \<noteq> ForSaleActive then fail (ForSaleNotActive (fs_Status l)) l
     else if amount \<le> 0 then fail (InvalidQuantity amount) l
     else if fs_QuantityAvailable l < amount then fail (InsufficientQuantity (fs_QuantityAvailable l) amount) l
     else let l1 = l\<lparr>fs_QuantityAvailable := wrap64 (fs_QuantityAvailable l - amount), fs_UpdatedAt := now\<rparr>
          in ok (if fs_QuantityAvailable l1 = 0
                 then l1\<lparr>fs_Status := ForSaleSold, fs_SoldAt := Some sold_now, fs_UpdatedAt := now3\<rparr> else l1))"

definition forSale_RestoreQuantity ::
    "time \<Rightarrow> time \<Rightarrow> int \<Rightarrow> for_sale \<Rightarrow> (for_sale_error, for_sale) mutation" where
  [mutation]: "forSale_RestoreQuantity now now2 amount l =
    (if amount \<le> 0 then fail (InvalidQuantity amount) l
     else let l1 = l\<lparr>fs_QuantityAvailable := wrap64 (fs_QuantityAvailable l + amount), fs_UpdatedAt := now\<rparr>
          in ok (if fs_Status l1 = ForSaleSold \<and> fs_QuantityAvailable l1 > 0
                 then l1\<lparr>fs_Status := ForSaleActive, fs_SoldAt := None, fs_UpdatedAt := now2\<rparr> else l1))"

definition forSale_IsAvailable :: "for_sale \<Rightarrow> bool" where
  "forSale_IsAvailable l \<longleftrightarrow> fs_Status l = ForSaleActive \<and> fs_QuantityAvailable l > 0"

definition NewForSaleSurface :: "uuid \<Rightarrow> time \<Rightarrow> uuid \<Rightarrow> money \<Rightarrow> int \<Rightarrow> bool \<Rightarrow> for_sale_error + for_sale" where
  "NewForSaleSurface new_id now sellerID pricePerUnit quantityAvailable negotiationEnabled =
    (if quantityAvailable < 1 then Inl (InvalidQuantity quantityAvailable)
     else if money_IsNegative pricePerUnit then Inl ForSaleNegativePrice
     else Inr \<lparr>fs_ID = new_id, fs_ProductID = uuid_nil, fs_SellerID = sellerID, fs_PricePerUnit = pricePerUnit,
            fs_QuantityAvailable = quantityAvailable, fs_NegotiationEnabled = negotiationEnabled,
            fs_Visibility = ForSalePublic, fs_Status = ForSaleActive, fs_PublishedAt = Some now, fs_SoldAt = None,
            fs_WithdrawnAt = None, fs_CreatedAt = now, fs_UpdatedAt = now\<rparr>)"

section \<open>Runs\<close>

text \<open>
  Orders reserve stock and give it back when they are cancelled or expire; the
  seller withdraws, moderation restores. A run carries the stock that orders hold:
  an order gives back only what it took.
\<close>

datatype for_sale_call =
    FReserve time time time int | FGiveBack time time int | FWithdraw time time | FRestore time time

fun for_sale_do :: "for_sale_call \<Rightarrow> for_sale \<Rightarrow> (for_sale_error, for_sale) mutation" where
  "for_sale_do (FReserve t u v n) l = forSale_ReduceQuantity t u v n l"
| "for_sale_do (FGiveBack t u n) l = forSale_RestoreQuantity t u n l"
| "for_sale_do (FWithdraw t u) l = forSale_MarkWithdrawn t u l"
| "for_sale_do (FRestore t u) l = forSale_MarkActiveFromModeration t u l"

fun held_after :: "for_sale_call \<Rightarrow> for_sale_error option \<Rightarrow> int \<Rightarrow> int" where
  "held_after (FReserve t u v n) None h = h + n"
| "held_after (FGiveBack t u n) None h = h - n"
| "held_after c err h = h"

fun gives_back_own :: "for_sale_call \<Rightarrow> int \<Rightarrow> bool" where
  "gives_back_own (FGiveBack t u n) h \<longleftrightarrow> n \<le> h"
| "gives_back_own c h \<longleftrightarrow> True"

inductive stock_step :: "for_sale \<times> int \<Rightarrow> for_sale \<times> int \<Rightarrow> bool" where
  stock_step: "for_sale_do c l = (err, l') \<Longrightarrow> gives_back_own c h \<Longrightarrow> stock_step (l, h) (l', held_after c err h)"

inductive_simps stock_step_simps: "stock_step x y"

text \<open>What every listing keeps: its stock and what orders hold make up the initial stock.\<close>

definition stock_ok :: "int \<Rightarrow> for_sale \<times> int \<Rightarrow> bool" where
  "stock_ok n x \<longleftrightarrow> (case x of (l, h) \<Rightarrow>
     in_i64 n \<and> 0 \<le> h \<and> 0 \<le> fs_QuantityAvailable l \<and> fs_QuantityAvailable l + h = n
   \<and> forSaleStatus_IsValid (fs_Status l)
   \<and> (fs_Status l = ForSaleSold \<longleftrightarrow> fs_QuantityAvailable l = 0)
   \<and> (fs_Status l = ForSaleSold \<longleftrightarrow> fs_SoldAt l \<noteq> None)
   \<and> fs_Visibility l = ForSalePublic \<and> fs_PublishedAt l \<noteq> None)"

lemma stock_do_ok:
  assumes "for_sale_do c l = (err, l')" "gives_back_own c h" "stock_ok n (l, h)"
  shows "stock_ok n (l', held_after c err h)"
proof (cases c)
  case (FReserve t u v m)
  then show ?thesis
    using assms by (auto simp: stock_ok_def mutation Let_def i64_defs split: if_splits)
next
  case (FGiveBack t u m)
  then show ?thesis
    using assms by (auto simp: stock_ok_def mutation Let_def i64_defs split: if_splits)
next
  case (FWithdraw t u)
  then show ?thesis
    using assms by (cases "fs_Status l") (auto simp: stock_ok_def mutation forSale_CanTransition_def split: if_splits)
next
  case (FRestore t u)
  then show ?thesis
    using assms by (cases "fs_Status l") (auto simp: stock_ok_def mutation split: if_splits)
qed

interpretation stock: kept_fact stock_step "stock_ok n" for n
  by unfold_locales (auto simp: stock_step_simps dest: stock_do_ok)


definition sample_listing :: for_sale where
  "sample_listing = \<lparr>fs_ID = 4, fs_ProductID = uuid_nil, fs_SellerID = 3, fs_PricePerUnit = 500, fs_QuantityAvailable = 2,
     fs_NegotiationEnabled = False, fs_Visibility = ForSalePublic, fs_Status = ForSaleActive, fs_PublishedAt = Some 0,
     fs_SoldAt = None, fs_WithdrawnAt = None, fs_CreatedAt = 0, fs_UpdatedAt = 0\<rparr>"


end
