(* ===== verification/CommerceGov.thy ===== *)
theory CommerceGov
  imports Prelude
begin

text \<open>
  \<open>commerce/governance/commercegov\<close>: the append-only history of commerce
  violations and one restriction per user, which every further violation extends.
  Metadata is left out.
\<close>

section \<open>The tables\<close>

datatype ViolationType =
  ViolationBuyerShippingTimeout | ViolationSellerShippingDefault | ViolationBuyerBNR | ViolationTypeOther string

fun violationType_IsValid :: "ViolationType \<Rightarrow> bool" where
  "violationType_IsValid (ViolationTypeOther _) = False"
| "violationType_IsValid _ = True"

datatype SourceType = SourceTypeAuction | SourceTypeForSale

record violation =
  vi_ID :: uuid
  vi_UserID :: uuid
  vi_ViolationType :: ViolationType
  vi_SourceType :: SourceType
  vi_SourceID :: uuid
  vi_Reason :: string
  vi_CreatedAt :: time

record restriction =
  rn_ID :: uuid
  rn_UserID :: uuid
  rn_ViolationCount :: int
  rn_RestrictedUntil :: time
  rn_LastViolationID :: uuid
  rn_CreatedAt :: time
  rn_UpdatedAt :: time

record gov_tables =
  gv_Violations :: "violation list"
  gv_Restrictions :: "restriction list"

definition grepo_InsertViolation :: "violation \<Rightarrow> gov_tables \<Rightarrow> gov_tables" where
  "grepo_InsertViolation v G = G\<lparr>gv_Violations := gv_Violations G @ [v]\<rparr>"

definition grepo_GetRestrictionForUpdate :: "uuid \<Rightarrow> gov_tables \<Rightarrow> restriction option" where
  "grepo_GetRestrictionForUpdate userID G = find (\<lambda>r. rn_UserID r = userID) (gv_Restrictions G)"

text \<open>The user of a restriction is unique; \<open>now\<close> is the clock of the insert.\<close>

definition grepo_UpsertRestriction :: "time \<Rightarrow> restriction \<Rightarrow> gov_tables \<Rightarrow> gov_tables" where
  "grepo_UpsertRestriction now r G =
    (if grepo_GetRestrictionForUpdate (rn_UserID r) G = None
     then G\<lparr>gv_Restrictions := gv_Restrictions G @ [r\<lparr>rn_CreatedAt := now, rn_UpdatedAt := now\<rparr>]\<rparr>
     else G\<lparr>gv_Restrictions := map (\<lambda>row. if rn_UserID row = rn_UserID r
           then row\<lparr>rn_ViolationCount := rn_ViolationCount r, rn_RestrictedUntil := rn_RestrictedUntil r,
                    rn_LastViolationID := rn_LastViolationID r, rn_UpdatedAt := now\<rparr>
           else row) (gv_Restrictions G)\<rparr>)"

section \<open>Violations\<close>

definition RestrictionDuration :: "int \<Rightarrow> duration" where
  "RestrictionDuration violationNumber =
    (if violationNumber \<le> 1 then 7 * 24 * hour else if violationNumber = 2 then 15 * 24 * hour else 30 * 24 * hour)"

record violation_input =
  vn_UserID :: uuid
  vn_ViolationType :: ViolationType
  vn_SourceType :: SourceType
  vn_SourceID :: uuid
  vn_Reason :: string

datatype gov_error = InvalidViolationType ViolationType

text \<open>\<open>clk 0\<close> is the clock of the violation row, \<open>clk 1\<close> the code's, \<open>clk 2\<close> that of the upsert.\<close>

definition RecordViolationAndRestrict ::
    "(nat \<Rightarrow> time) \<Rightarrow> uuid \<Rightarrow> uuid \<Rightarrow> violation_input \<Rightarrow> gov_tables
      \<Rightarrow> gov_error + (violation \<times> restriction) \<times> gov_tables" where
  "RecordViolationAndRestrict clk violation_id restriction_id inp G =
    (if \<not> violationType_IsValid (vn_ViolationType inp) then Inl (InvalidViolationType (vn_ViolationType inp))
     else let v = \<lparr>vi_ID = violation_id, vi_UserID = vn_UserID inp, vi_ViolationType = vn_ViolationType inp,
                vi_SourceType = vn_SourceType inp, vi_SourceID = vn_SourceID inp, vi_Reason = vn_Reason inp,
                vi_CreatedAt = clk 0\<rparr>;
              G1 = grepo_InsertViolation v G;
              now = clk 1;
              r0 = \<lparr>rn_ID = restriction_id, rn_UserID = vn_UserID inp, rn_ViolationCount = 1,
                rn_RestrictedUntil = time_add now (RestrictionDuration 1), rn_LastViolationID = violation_id,
                rn_CreatedAt = 0, rn_UpdatedAt = 0\<rparr>;
              r = (case grepo_GetRestrictionForUpdate (vn_UserID inp) G1 of
                     None \<Rightarrow> r0
                   | Some existing \<Rightarrow>
                       let n = wrap64 (rn_ViolationCount existing + 1)
                       in r0\<lparr>rn_ID := rn_ID existing, rn_CreatedAt := rn_CreatedAt existing, rn_ViolationCount := n,
                            rn_RestrictedUntil := time_add
                              (if after (rn_RestrictedUntil existing) now then rn_RestrictedUntil existing else now)
                              (RestrictionDuration n)\<rparr>)
          in Inr ((v, r), grepo_UpsertRestriction (clk 2) r G1))"

definition IsUserRestricted :: "time \<Rightarrow> uuid \<Rightarrow> gov_tables \<Rightarrow> bool \<times> time option" where
  "IsUserRestricted now userID G =
    (case grepo_GetRestrictionForUpdate userID G of
       None \<Rightarrow> (False, None)
     | Some r \<Rightarrow> if after (rn_RestrictedUntil r) now then (True, Some (rn_RestrictedUntil r)) else (False, None))"

section \<open>A history of violations\<close>

type_synonym violation_event = "(nat \<Rightarrow> time) \<times> uuid \<times> uuid \<times> violation_input"

fun record_all :: "violation_event list \<Rightarrow> gov_tables \<Rightarrow> gov_tables option" where
  "record_all [] G = Some G"
| "record_all ((clk, i, j, inp) # es) G =
    (case RecordViolationAndRestrict clk i j inp G of Inl _ \<Rightarrow> None | Inr (_, G1) \<Rightarrow> record_all es G1)"

definition empty_gov :: gov_tables where
  "empty_gov = \<lparr>gv_Violations = [], gv_Restrictions = []\<rparr>"

text \<open>When the violations of a user were recorded, the latest first, and how long they restrict it.\<close>

definition times_of :: "uuid \<Rightarrow> violation_event list \<Rightarrow> time list" where
  "times_of u es = rev (map (\<lambda>(clk, _). clk 1) (filter (\<lambda>(_, _, _, inp). vn_UserID inp = u) es))"

fun restricted_till :: "time list \<Rightarrow> time" where
  "restricted_till [] = 0"
| "restricted_till [t] = t + RestrictionDuration 1"
| "restricted_till (t # ts) = max (restricted_till ts) t + RestrictionDuration (int (length (t # ts)))"

lemma record_all_append:
  "record_all (es @ fs) G = (case record_all es G of None \<Rightarrow> None | Some G1 \<Rightarrow> record_all fs G1)"
  by (induction es G rule: record_all.induct) (auto split: sum.splits)

definition standing :: "uuid \<Rightarrow> gov_tables \<Rightarrow> (int \<times> time) option" where
  "standing u G = map_option (\<lambda>r. (rn_ViolationCount r, rn_RestrictedUntil r)) (grepo_GetRestrictionForUpdate u G)"

lemma find_upsert:
  "standing u (grepo_UpsertRestriction now r G)
     = (if u = rn_UserID r then Some (rn_ViolationCount r, rn_RestrictedUntil r) else standing u G)"
proof (cases "grepo_GetRestrictionForUpdate (rn_UserID r) G")
  case None
  then show ?thesis
    by (auto simp: standing_def grepo_UpsertRestriction_def grepo_GetRestrictionForUpdate_def find_snoc split: option.splits)
next
  case (Some row)
  let ?f = "\<lambda>row. if rn_UserID row = rn_UserID r then row\<lparr>rn_ViolationCount := rn_ViolationCount r,
    rn_RestrictedUntil := rn_RestrictedUntil r, rn_LastViolationID := rn_LastViolationID r, rn_UpdatedAt := now\<rparr> else row"
  have "find (\<lambda>r. rn_UserID r = u) (map ?f (gv_Restrictions G)) = map_option ?f (find (\<lambda>r. rn_UserID r = u) (gv_Restrictions G))"
    by (rule find_map_keep) simp
  moreover have "gv_Restrictions (grepo_UpsertRestriction now r G) = map ?f (gv_Restrictions G)"
    using Some by (simp add: grepo_UpsertRestriction_def)
  moreover have "rn_UserID x = u" if "find (\<lambda>r. rn_UserID r = u) (gv_Restrictions G) = Some x" for x
    using that by (auto simp: find_Some_iff)
  ultimately show ?thesis
    using Some
    by (cases "find (\<lambda>r. rn_UserID r = u) (gv_Restrictions G)")
      (auto simp: standing_def grepo_GetRestrictionForUpdate_def)
qed

text \<open>One violation: the count goes up by one, the end moves by the next duration from where it was, or from now.\<close>

lemma record_one:
  assumes "RecordViolationAndRestrict clk i j inp G = Inr ((v, r), G')"
  shows "gv_Violations G' = gv_Violations G @ [v] \<and> vi_UserID v = vn_UserID inp \<and> vi_ID v = i
    \<and> standing u G' = (if u = vn_UserID inp then
        Some (case standing u G of
            None \<Rightarrow> (1, clk 1 + RestrictionDuration 1)
          | Some (n, t) \<Rightarrow> (wrap64 (n + 1), max t (clk 1) + RestrictionDuration (wrap64 (n + 1))))
      else standing u G)"
proof -
  have ins: "standing w (grepo_InsertViolation v G) = standing w G" for w
    by (simp add: standing_def grepo_GetRestrictionForUpdate_def grepo_InsertViolation_def)
  have v: "gv_Violations (grepo_UpsertRestriction t q H) = gv_Violations H" for t q H
    by (simp add: grepo_UpsertRestriction_def)
  have r: "G' = grepo_UpsertRestriction (clk 2) r (grepo_InsertViolation v G)" "rn_UserID r = vn_UserID inp"
    "vi_UserID v = vn_UserID inp" "vi_ID v = i"
    "(rn_ViolationCount r, rn_RestrictedUntil r) = (case standing (vn_UserID inp) G of
            None \<Rightarrow> (1, clk 1 + RestrictionDuration 1)
          | Some (n, t) \<Rightarrow> (wrap64 (n + 1), max t (clk 1) + RestrictionDuration (wrap64 (n + 1))))"
    using assms
    by (auto simp: RecordViolationAndRestrict_def Let_def standing_def go_arith max_def
        grepo_GetRestrictionForUpdate_def grepo_InsertViolation_def split: if_splits option.splits)
  then show ?thesis
    unfolding r(1) find_upsert v ins by (auto simp: grepo_InsertViolation_def ins split: option.splits)
qed

text \<open>The violations recorded of a user, in order.\<close>

definition history_of :: "uuid \<Rightarrow> violation_event list \<Rightarrow> uuid list" where
  "history_of u es = map (\<lambda>(_, i, _, _). i) (filter (\<lambda>(_, _, _, inp). vn_UserID inp = u) es)"

lemma times_of_snoc:
  "times_of u (es @ [(clk, i, j, inp)]) = (if vn_UserID inp = u then clk 1 # times_of u es else times_of u es)"
  "history_of u (es @ [(clk, i, j, inp)]) = history_of u es @ (if vn_UserID inp = u then [i] else [])"
  by (simp_all add: times_of_def history_of_def)

lemma recorded_standing:
  assumes "record_all es empty_gov = Some G" "int (length (times_of u es)) \<le> i64_max"
  shows "standing u G = (if times_of u es = [] then None
        else Some (int (length (times_of u es)), restricted_till (times_of u es)))
    \<and> map vi_ID (filter (\<lambda>v. vi_UserID v = u) (gv_Violations G)) = history_of u es"
  using assms
proof (induction es arbitrary: G rule: rev_induct)
  case Nil
  then show ?case by (auto simp: empty_gov_def standing_def grepo_GetRestrictionForUpdate_def times_of_def history_of_def)
next
  case (snoc e es)
  obtain clk i j inp where e: "e = (clk, i, j, inp)" by (cases e)
  obtain G0 v r where r: "record_all es empty_gov = Some G0" "RecordViolationAndRestrict clk i j inp G0 = Inr ((v, r), G)"
    using snoc.prems(1) by (auto simp: e record_all_append split: option.splits sum.splits)
  have len: "int (length (times_of u es)) \<le> i64_max" using snoc.prems(2) by (auto simp: e times_of_snoc split: if_splits)
  note one = record_one [OF r(2)] and IH = snoc.IH [OF r(1) len]
  show ?case
  proof (cases "vn_UserID inp = u")
    case True
    then have "in_i64 (int (length (times_of u es)) + 1)"
      using snoc.prems(2) by (auto simp: e times_of_snoc i64_defs)
    then show ?thesis
      using one IH True by (cases "times_of u es") (auto simp: e times_of_snoc add.commute)
  next
    case False
    then show ?thesis using one IH by (auto simp: e times_of_snoc)
  qed
qed

lemma RestrictionDuration_pos: "0 < RestrictionDuration n"
  by (simp add: RestrictionDuration_def hour_def)

text \<open>
  C35. Restrictions only extend. After any history of violations the count of a user
  is the number of its violations and their history is kept in order; a user is
  restricted exactly until \<open>restricted_till\<close> of its violation times: each violation is
  served in full from when it happened, and one that happens while an earlier
  restriction still runs adds its whole duration to the end of it.
\<close>

theorem restrictions_only_extend:
  assumes "record_all es empty_gov = Some G" "int (length (times_of u es)) \<le> i64_max"
  shows "map vi_ID (filter (\<lambda>v. vi_UserID v = u) (gv_Violations G)) = history_of u es
    \<and> standing u G = (if times_of u es = [] then None
        else Some (int (length (times_of u es)), restricted_till (times_of u es)))
    \<and> (fst (IsUserRestricted now u G) \<longleftrightarrow> times_of u es \<noteq> [] \<and> now < restricted_till (times_of u es))
    \<and> (\<forall>t ts. times_of u es = t # ts \<longrightarrow>
          t + RestrictionDuration (int (length ts) + 1) \<le> restricted_till (t # ts)
        \<and> (ts \<noteq> [] \<longrightarrow> restricted_till ts + RestrictionDuration (int (length ts) + 1) \<le> restricted_till (t # ts)))"
proof -
  note s = recorded_standing [OF assms]
  have "restricted_till (t # ts) = (if ts = [] then t else max (restricted_till ts) t) + RestrictionDuration (int (length ts) + 1)"
    for t ts by (cases ts) (simp_all add: add.commute)
  then have "t + RestrictionDuration (int (length ts) + 1) \<le> restricted_till (t # ts)"
    "ts \<noteq> [] \<longrightarrow> restricted_till ts + RestrictionDuration (int (length ts) + 1) \<le> restricted_till (t # ts)" for t ts
    by auto
  moreover have "fst (IsUserRestricted now u G) \<longleftrightarrow> times_of u es \<noteq> [] \<and> now < restricted_till (times_of u es)"
    using s by (auto simp: IsUserRestricted_def standing_def after_def split: option.splits if_splits)
  ultimately show ?thesis using s by blast
qed

definition sample_violation :: violation_input where
  "sample_violation = \<lparr>vn_UserID = 2, vn_ViolationType = ViolationBuyerBNR, vn_SourceType = SourceTypeAuction,
     vn_SourceID = 6, vn_Reason = ''unpaid''\<rparr>"

theorem restrictions_only_extend_witness:
  "\<exists>G. record_all [(\<lambda>_. 0, 1, 2, sample_violation), (\<lambda>_. 5 * 24 * hour, 3, 4, sample_violation)] empty_gov = Some G
    \<and> standing 2 G = Some (2, 22 * 24 * hour)"
proof -
  let ?es = "[(\<lambda>_. 0, 1, 2, sample_violation), (\<lambda>_. 5 * 24 * hour, 3, 4, sample_violation)] :: violation_event list"
  obtain G where "record_all ?es empty_gov = Some G"
    by (simp add: RecordViolationAndRestrict_def sample_violation_def Let_def)
  moreover have "times_of 2 ?es = [5 * 24 * hour, 0]" by (simp add: times_of_def sample_violation_def)
  ultimately show ?thesis
    using restrictions_only_extend [of ?es G 2 0] by (simp add: i64_defs RestrictionDuration_def hour_def)
qed

end
