(* ===== verification/ShippingQuote.thy ===== *)
theory ShippingQuote
  imports Lifecycle Money
begin

text \<open>
  \<open>commerce/shipping/quote/entity\<close> and \<open>infrastructure/repository\<close>: the price a
  seller offers a buyer in a chat for shipping one product. A quote is used once at
  checkout, or expires, or is invalid when its sale ends; a newer quote of the same
  context supersedes it. The repository is a list of rows in the order of insertion
  with the constraints of the table.
\<close>

section \<open>The quote\<close>

datatype QuoteStatus = QuoteActive | QuoteUsed | QuoteExpired | QuoteInvalid | QuoteOther string

fun quoteStatus_IsValid :: "QuoteStatus \<Rightarrow> bool" where
  "quoteStatus_IsValid (QuoteOther _) = False"
| "quoteStatus_IsValid _ = True"

definition quoteStatus_CanBeUsed :: "QuoteStatus \<Rightarrow> bool" where
  "quoteStatus_CanBeUsed s \<longleftrightarrow> s = QuoteActive"

record shipping_quote =
  qt_ID :: uuid
  qt_ChatID :: uuid
  qt_ProductID :: uuid
  qt_SourceType :: "string option"
  qt_SourceID :: "uuid option"
  qt_SellerID :: uuid
  qt_BuyerID :: uuid
  qt_Cost :: money
  qt_Note :: "string option"
  qt_Status :: QuoteStatus
  qt_SupersededAt :: "time option"
  qt_SupersededByID :: "uuid option"
  qt_DestinationCityID :: "string option"
  qt_DestinationProvinceID :: "string option"
  qt_UsedAt :: "time option"
  qt_ExpiresAt :: "time option"
  qt_CreatedAt :: time
  qt_ReactivationCount :: int
  qt_MaxReuse :: int

datatype quote_error =
    InvalidQuoteStatus QuoteStatus QuoteStatus | QuoteSuperseded uuid | QuoteReuseLimit uuid
  | QuoteInvalidExpiry uuid | DestinationMismatch string string string uuid

definition NewShippingQuote ::
    "uuid \<Rightarrow> time \<Rightarrow> uuid \<Rightarrow> uuid \<Rightarrow> string \<Rightarrow> uuid \<Rightarrow> uuid \<Rightarrow> uuid \<Rightarrow> money \<Rightarrow> string option \<Rightarrow> string option
      \<Rightarrow> string option \<Rightarrow> time \<Rightarrow> shipping_quote" where
  "NewShippingQuote new_id now chatID productID sourceType sourceID sellerID buyerID cost note cityID provinceID expiresAt =
    \<lparr>qt_ID = new_id, qt_ChatID = chatID, qt_ProductID = productID, qt_SourceType = Some sourceType,
     qt_SourceID = Some sourceID, qt_SellerID = sellerID, qt_BuyerID = buyerID, qt_Cost = cost, qt_Note = note,
     qt_Status = QuoteActive, qt_SupersededAt = None, qt_SupersededByID = None, qt_DestinationCityID = cityID,
     qt_DestinationProvinceID = provinceID, qt_UsedAt = None, qt_ExpiresAt = Some expiresAt, qt_CreatedAt = now,
     qt_ReactivationCount = 0, qt_MaxReuse = 0\<rparr>"

definition quote_IsActive :: "shipping_quote \<Rightarrow> bool" where
  "quote_IsActive q \<longleftrightarrow> qt_Status q = QuoteActive"

definition quote_IsSuperseded :: "shipping_quote \<Rightarrow> bool" where
  "quote_IsSuperseded q \<longleftrightarrow> qt_SupersededAt q \<noteq> None"

definition quote_IsCurrent :: "shipping_quote \<Rightarrow> bool" where
  "quote_IsCurrent q \<longleftrightarrow> quote_IsActive q \<and> \<not> quote_IsSuperseded q"

definition quote_IsExpiredAt :: "time \<Rightarrow> shipping_quote \<Rightarrow> bool" where
  "quote_IsExpiredAt now q = (case qt_ExpiresAt q of None \<Rightarrow> True | Some t \<Rightarrow> \<not> before now t)"

definition quote_IsBuyerUsableAt :: "time \<Rightarrow> shipping_quote \<Rightarrow> bool" where
  "quote_IsBuyerUsableAt now q \<longleftrightarrow>
    quote_IsCurrent q \<and> qt_ExpiresAt q \<noteq> None \<and> qt_UsedAt q = None \<and> \<not> quote_IsExpiredAt now q"

definition quote_MarkUsed :: "time \<Rightarrow> shipping_quote \<Rightarrow> (quote_error, shipping_quote) mutation" where
  [mutation]: "quote_MarkUsed now q =
    (if \<not> quote_IsBuyerUsableAt now q then fail (InvalidQuoteStatus (qt_Status q) QuoteActive) q
     else ok (q\<lparr>qt_Status := QuoteUsed, qt_UsedAt := Some now\<rparr>))"

definition quote_MarkExpired :: "shipping_quote \<Rightarrow> (quote_error, shipping_quote) mutation" where
  [mutation]: "quote_MarkExpired q =
    (if qt_Status q = QuoteUsed then fail (InvalidQuoteStatus (qt_Status q) QuoteActive) q
     else ok (q\<lparr>qt_Status := QuoteExpired\<rparr>))"

definition quote_MarkInvalid :: "shipping_quote \<Rightarrow> (quote_error, shipping_quote) mutation" where
  [mutation]: "quote_MarkInvalid q =
    (if qt_Status q = QuoteUsed then fail (InvalidQuoteStatus (qt_Status q) QuoteActive) q
     else ok (q\<lparr>qt_Status := QuoteInvalid\<rparr>))"

definition quote_Reactivate :: "time \<Rightarrow> shipping_quote \<Rightarrow> (quote_error, shipping_quote) mutation" where
  [mutation]: "quote_Reactivate expiresAt q =
    (if qt_Status q \<noteq> QuoteUsed then fail (InvalidQuoteStatus (qt_Status q) QuoteUsed) q
     else if quote_IsSuperseded q then fail (QuoteSuperseded (qt_ID q)) q
     else if qt_ReactivationCount q \<ge> qt_MaxReuse q then fail (QuoteReuseLimit (qt_ID q)) q
     else if expiresAt = zero_time then fail (QuoteInvalidExpiry (qt_ID q)) q
     else ok (q\<lparr>qt_Status := QuoteActive, qt_UsedAt := None, qt_ExpiresAt := Some expiresAt,
              qt_ReactivationCount := wrap64 (qt_ReactivationCount q + 1)\<rparr>))"

definition quote_CanBeReactivated :: "shipping_quote \<Rightarrow> bool" where
  "quote_CanBeReactivated q \<longleftrightarrow>
    qt_Status q = QuoteUsed \<and> \<not> quote_IsSuperseded q \<and> qt_ReactivationCount q < qt_MaxReuse q"

definition quote_IncrementReactivationCount :: "shipping_quote \<Rightarrow> shipping_quote" where
  "quote_IncrementReactivationCount q = q\<lparr>qt_ReactivationCount := wrap64 (qt_ReactivationCount q + 1)\<rparr>"

definition quote_ValidateDestinationAddress :: "string \<Rightarrow> string \<Rightarrow> shipping_quote \<Rightarrow> quote_error option" where
  "quote_ValidateDestinationAddress provinceID cityID q =
    (if qt_DestinationProvinceID q = None \<and> qt_DestinationCityID q = None then None
     else case find (\<lambda>p. p \<noteq> provinceID) (case qt_DestinationProvinceID q of None \<Rightarrow> [] | Some p \<Rightarrow> [p]) of
       Some p \<Rightarrow> Some (DestinationMismatch ''province_id'' p provinceID (qt_ID q))
     | None \<Rightarrow>
         (case find (\<lambda>c. c \<noteq> cityID) (case qt_DestinationCityID q of None \<Rightarrow> [] | Some c \<Rightarrow> [c]) of
            Some c \<Rightarrow> Some (DestinationMismatch ''city_id'' c cityID (qt_ID q))
          | None \<Rightarrow> None))"

definition quote_GetItemReference :: "shipping_quote \<Rightarrow> uuid \<times> bool" where
  "quote_GetItemReference q =
    (case (qt_SourceType q, qt_SourceID q) of
       (Some t, Some i) \<Rightarrow> if i \<noteq> uuid_nil then (i, t = ''auction'') else (uuid_nil, False)
     | _ \<Rightarrow> (uuid_nil, False))"

record checkout_context =
  cc_QuoteID :: uuid
  cc_BuyerID :: uuid
  cc_ProductID :: uuid
  cc_SourceType :: string
  cc_SourceID :: uuid
  cc_SellerID :: uuid
  cc_ChatID :: "uuid option"
  cc_ShippingProvinceID :: string
  cc_ShippingCityID :: string

lemma destination_ok:
  "quote_ValidateDestinationAddress prov city q = None
    \<longleftrightarrow> qt_DestinationProvinceID q \<in> {None, Some prov} \<and> qt_DestinationCityID q \<in> {None, Some city}"
  by (cases "qt_DestinationProvinceID q"; cases "qt_DestinationCityID q")
    (auto simp: quote_ValidateDestinationAddress_def)

section \<open>The table\<close>

type_synonym quotes = "shipping_quote list"

text \<open>Constraints of the table that one row can break.\<close>

definition quote_checked :: "shipping_quote \<Rightarrow> bool" where
  "quote_checked q \<longleftrightarrow> 0 \<le> money_Int64 (qt_Cost q)
    \<and> 0 \<le> qt_ReactivationCount q \<and> 0 \<le> qt_MaxReuse q \<and> qt_ReactivationCount q \<le> qt_MaxReuse q
    \<and> (qt_Status q = QuoteActive \<longrightarrow> qt_UsedAt q = None) \<and> (qt_Status q = QuoteUsed \<longrightarrow> qt_UsedAt q \<noteq> None)"

text \<open>The columns of the type \<open>sale_surface_type_enum\<close> and not null.\<close>

definition sale_surface :: "shipping_quote \<Rightarrow> bool" where
  "sale_surface q \<longleftrightarrow>
    qt_SourceType q \<in> {Some ''for_sale'', Some ''auction'', Some ''negotiation''} \<and> qt_SourceID q \<noteq> None"

definition quote_by_id :: "uuid \<Rightarrow> quotes \<Rightarrow> shipping_quote option" where
  "quote_by_id i Q = find (\<lambda>q. qt_ID q = i) Q"

definition qrepo_Create :: "shipping_quote \<Rightarrow> quotes \<Rightarrow> quotes option" where
  "qrepo_Create q Q =
    (let row = q\<lparr>qt_SupersededAt := None, qt_SupersededByID := None, qt_UsedAt := None\<rparr>
     in if qt_ExpiresAt q = None \<or> quote_by_id (qt_ID q) Q \<noteq> None \<or> \<not> quote_checked row \<or> \<not> sale_surface row
        then None else Some (Q @ [row]))"

text \<open>The commercial context of a quote.\<close>

type_synonym quote_context = "uuid \<times> uuid \<times> string \<times> uuid \<times> uuid \<times> uuid"

definition in_context :: "quote_context \<Rightarrow> shipping_quote \<Rightarrow> bool" where
  "in_context c q = (case c of (chatID, productID, sourceType, sourceID, sellerID, buyerID) \<Rightarrow>
     qt_ChatID q = chatID \<and> qt_ProductID q = productID \<and> qt_SourceType q = Some sourceType
   \<and> qt_SourceID q = Some sourceID \<and> qt_SellerID q = sellerID \<and> qt_BuyerID q = buyerID)"

definition qrepo_GetLatestByChatAndSource :: "time \<Rightarrow> quote_context \<Rightarrow> quotes \<Rightarrow> shipping_quote option" where
  "qrepo_GetLatestByChatAndSource now c Q =
    latest qt_CreatedAt (filter (\<lambda>q. in_context c q \<and> quote_IsCurrent q \<and> qt_UsedAt q = None
      \<and> (case qt_ExpiresAt q of None \<Rightarrow> False | Some t \<Rightarrow> after t now)) Q)"

definition qrepo_GetLatestRevisionByChatAndSource :: "quote_context \<Rightarrow> quotes \<Rightarrow> shipping_quote option" where
  "qrepo_GetLatestRevisionByChatAndSource c Q = latest qt_CreatedAt (filter (in_context c) Q)"

definition qrepo_GetCurrentActiveByChatAndSource :: "quote_context \<Rightarrow> quotes \<Rightarrow> shipping_quote option" where
  "qrepo_GetCurrentActiveByChatAndSource c Q = latest qt_CreatedAt (filter (\<lambda>q. in_context c q \<and> quote_IsCurrent q) Q)"

definition qrepo_GetByID :: "uuid \<Rightarrow> quotes \<Rightarrow> shipping_quote option" where
  "qrepo_GetByID i Q = quote_by_id i Q"

definition qrepo_GetByIDs :: "uuid list \<Rightarrow> quotes \<Rightarrow> shipping_quote list" where
  "qrepo_GetByIDs is Q = filter (\<lambda>q. qt_ID q \<in> set is) Q"

definition qrepo_GetByIDForUpdate :: "uuid \<Rightarrow> quotes \<Rightarrow> shipping_quote option" where
  "qrepo_GetByIDForUpdate i Q = quote_by_id i Q"

definition set_quote :: "uuid \<Rightarrow> (shipping_quote \<Rightarrow> shipping_quote) \<Rightarrow> quotes \<Rightarrow> quotes" where
  "set_quote i f Q = map (\<lambda>row. if qt_ID row = i then f row else row) Q"

text \<open>\<open>stamp\<close> tells whether a used time was passed; the one written is the clock of the repository.\<close>

definition qrepo_UpdateStatus :: "time \<Rightarrow> uuid \<Rightarrow> QuoteStatus \<Rightarrow> bool \<Rightarrow> quotes \<Rightarrow> quotes option" where
  "qrepo_UpdateStatus now i s stamp Q =
    (let f = (\<lambda>row. row\<lparr>qt_Status := s, qt_UsedAt := (if stamp then Some now else qt_UsedAt row)\<rparr>)
     in case quote_by_id i Q of
          None \<Rightarrow> None
        | Some row \<Rightarrow> if quote_checked (f row) then Some (set_quote i f Q) else None)"

definition qrepo_ReactivateQuote :: "time \<Rightarrow> uuid \<Rightarrow> quotes \<Rightarrow> quotes option" where
  "qrepo_ReactivateQuote now i Q =
    (case quote_by_id i Q of
       None \<Rightarrow> None
     | Some row \<Rightarrow>
         if quote_CanBeReactivated row
         then Some (set_quote i (\<lambda>row. row\<lparr>qt_Status := QuoteActive, qt_UsedAt := None,
             qt_ExpiresAt := Some (time_add now (24 * hour)), qt_ReactivationCount := qt_ReactivationCount row + 1\<rparr>) Q)
         else None)"

definition qrepo_SupersedeCurrentQuotes :: "time \<Rightarrow> quote_context \<Rightarrow> uuid \<Rightarrow> quotes \<Rightarrow> quotes" where
  "qrepo_SupersedeCurrentQuotes now c new_id Q =
    map (\<lambda>q. if in_context c q \<and> qt_SupersededAt q = None \<and> qt_ID q \<noteq> new_id
             then q\<lparr>qt_SupersededAt := Some now, qt_SupersededByID := Some new_id\<rparr> else q) Q"

definition qrepo_InvalidateQuotesByProduct :: "uuid \<Rightarrow> quotes \<Rightarrow> quotes" where
  "qrepo_InvalidateQuotesByProduct productID Q =
    map (\<lambda>q. if qt_ProductID q = productID \<and> quote_IsCurrent q then q\<lparr>qt_Status := QuoteInvalid\<rparr> else q) Q"

section \<open>One quote through the table\<close>

lemma quote_by_id_map:
  "(\<And>q. qt_ID (f q) = qt_ID q) \<Longrightarrow> quote_by_id i (map f Q) = map_option f (quote_by_id i Q)"
  unfolding quote_by_id_def by (rule find_map_keep)

lemma quote_by_id_ID: "quote_by_id i Q = Some q \<Longrightarrow> qt_ID q = i"
  by (auto simp: quote_by_id_def find_Some_iff)

lemma quote_by_id_set:
  "(\<And>q. qt_ID (f q) = qt_ID q) \<Longrightarrow>
    quote_by_id i (set_quote j f Q) = (if i = j then map_option f (quote_by_id i Q) else quote_by_id i Q)"
  unfolding set_quote_def
  by (subst quote_by_id_map) (auto simp: option.map_id dest: quote_by_id_ID split: option.splits simp: map_option_case)

end
