(* ===== verification/Market.thy ===== *)
theory Market
  imports FinanceService CoinsService Order Escrow Refund Dispute Auction Billing Subscription
    ForSale CommerceGov ShippingQuote
begin

text \<open>
  The tables that the order, payment, escrow and refund services share, as one
  state, and the repositories through which they read and write it. A service
  call runs in one database transaction: it takes the state and returns the
  state it leaves, or an error, upon which the caller rolls back
  (\<open>pkg/db\<close>, \<open>WithTx\<close>). A table is a list of rows in the order of insertion; a
  query for one row takes the first that matches. A message to the payment
  gateway is not undone by a rollback; the requests that belong to committed
  transactions are kept in \<open>mk_Requests\<close>. Row locks are not modelled: a call is
  one step. Where a call reads the clock or draws a uuid more than once, the
  readings are numbered.
\<close>

section \<open>Identifiers as text\<close>

definition hex_char :: "nat \<Rightarrow> char" where
  "hex_char d = (if d < 10 then char_of (48 + d) else char_of (87 + d))"

fun hex_digits :: "nat \<Rightarrow> nat \<Rightarrow> string" where
  "hex_digits 0 n = []"
| "hex_digits (Suc k) n = hex_digits k (n div 16) @ [hex_char (n mod 16)]"

text \<open>\<open>uuid.UUID.String\<close>: 32 lower-case hexadecimal digits in five groups.\<close>

definition uuid_text :: "uuid \<Rightarrow> string" where
  "uuid_text i = (let h = hex_digits 32 i in
     take 8 h @ ''-'' @ take 4 (drop 8 h) @ ''-'' @ take 4 (drop 12 h) @ ''-''
       @ take 4 (drop 16 h) @ ''-'' @ drop 20 h)"

lemma length_hex_digits [simp]: "length (hex_digits k n) = k"
  by (induction k arbitrary: n) simp_all

lemma set_hex_digits: "set (hex_digits k n) \<subseteq> hex_char ` {..<16}"
  by (induction k arbitrary: n) auto

lemma uuid_text_starts: "\<exists>c t. uuid_text i = c # t \<and> c \<in> hex_char ` {..<16}"
proof -
  have "hex_digits 32 i \<noteq> []" using length_hex_digits [of 32 i] by fastforce
  then obtain c t where h: "hex_digits 32 i = c # t" by (meson neq_Nil_conv)
  then have "c \<in> hex_char ` {..<16}" using set_hex_digits [of 32 i] by auto
  with h show ?thesis by (simp add: uuid_text_def Let_def)
qed

section \<open>Payments\<close>

record payment =
  pm_ID :: uuid
  pm_UserID :: uuid
  pm_PaymentNumber :: string
  pm_MidtransOrderID :: string
  pm_GrossAmount :: money
  pm_ServiceFeeAmount :: money
  pm_CoinsToUse :: int
  pm_CoinDiscountAmount :: money
  pm_Status :: string
  pm_ReferenceType :: string
  pm_ReferenceID :: "uuid option"
  pm_PaymentMethodCode :: "string option"
  pm_SubscriptionDurationDays :: "int option"
  pm_TransactionID :: "string option"
  pm_PaymentType :: "string option"
  pm_PaidAt :: "time option"
  pm_ExpiredAt :: time
  pm_CreatedAt :: time
  pm_UpdatedAt :: time

record webhook_event =
  wh_NotificationKey :: string
  wh_EventID :: string
  wh_MidtransOrderID :: string
  wh_PaymentID :: "uuid option"
  wh_Status :: string

record payment_attempt =
  pa_ID :: uuid
  pa_OrderID :: uuid
  pa_Status :: string
  pa_FailureReason :: "string option"
  pa_AttemptAt :: time

section \<open>Requests to the gateway\<close>

record GatewayRefundRequest =
  gq_OrderID :: string
  gq_RefundKey :: string
  gq_Amount :: i64
  gq_Reason :: string

record GatewayRefundResponse =
  gp_RefundChargeID :: string
  gp_TransactionID :: string

text \<open>\<open>RefundWithKey\<close> of the gateway client: an error message, or a response.\<close>

type_synonym refund_gateway = "GatewayRefundRequest \<Rightarrow> string + GatewayRefundResponse"

section \<open>The state\<close>

text \<open>\<open>mk_ActiveTickets\<close> holds the order that each open support ticket is linked to.\<close>

record market =
  mk_Orders :: "order list"
  mk_Payments :: "payment list"
  mk_Attempts :: "payment_attempt list"
  mk_Events :: "webhook_event list"
  mk_Escrows :: "escrow list"
  mk_Refunds :: "refund list"
  mk_Disputes :: "dispute list"
  mk_Auctions :: "auction list"
  mk_Ledger :: ledger
  mk_Coins :: coins_db
  mk_Idempotency :: "string list"
  mk_Outbox :: "(string \<times> uuid) list"
  mk_InvalidRatings :: "uuid list"
  mk_Requests :: "GatewayRefundRequest list"
  mk_Billings :: "billing_transaction list"
  mk_Subscriptions :: "seller_subscription list"
  mk_Users :: "onboarding_user list"
  mk_Items :: "order_item list"
  mk_ForSales :: "for_sale list"
  mk_Gov :: gov_tables
  mk_Quotes :: quotes
  mk_ActiveTickets :: "uuid list"

datatype market_error =
    NotFound string | Refused string | Panicked string | TxAborted
  | OrderFault order_error | EscrowFault escrow_error | RefundFault refund_error
  | FinanceFault finance_error | CoinsFault coins_error | AuctionFault auction_error
  | BillingFault billing_error | SubscriptionFault subscription_error
  | ForSaleFault for_sale_error | GovFault gov_error | QuoteFault quote_error | DisputeFault dispute_error
  | GatewayFault string

type_synonym step_result = "market_error + market"

definition guard :: "bool \<Rightarrow> market_error \<Rightarrow> market_error + unit" where
  "guard b e = (if b then Inr () else Inl e)"

lemma guard_Inr [simp]: "guard b e = Inr u \<longleftrightarrow> b"
  by (simp add: guard_def)

lemma guard_bind [simp]: "sum_bind (guard b e) f = (if b then f () else Inl e)"
  by (simp add: guard_def)

definition found :: "string \<Rightarrow> 'a option \<Rightarrow> market_error + 'a" where
  "found what x = (case x of None \<Rightarrow> Inl (NotFound what) | Some y \<Rightarrow> Inr y)"

lemma found_Inr [simp]: "found what x = Inr y \<longleftrightarrow> x = Some y"
  by (auto simp: found_def split: option.splits)

text \<open>The error of a method, or the receiver it leaves.\<close>

definition moved :: "('e \<Rightarrow> market_error) \<Rightarrow> ('e, 's) mutation \<Rightarrow> market_error + 's" where
  "moved f m = (case m of (None, s) \<Rightarrow> Inr s | (Some e, _) \<Rightarrow> Inl (f e))"

lemma moved_Inr: "moved f m = Inr s \<longleftrightarrow> m = (None, s)"
  by (auto simp: moved_def split: option.splits prod.splits)

definition exact :: "money_panic + 'a \<Rightarrow> market_error + 'a" where
  "exact m = (case m of Inl _ \<Rightarrow> Inl (Panicked ''money'') | Inr x \<Rightarrow> Inr x)"

lemma exact_Inr [simp]: "exact m = Inr x \<longleftrightarrow> m = Inr x"
  by (auto simp: exact_def split: sum.splits)

section \<open>The other books\<close>

definition with_ledger :: "(ledger \<Rightarrow> finance_error + ledger) \<Rightarrow> market \<Rightarrow> step_result" where
  "with_ledger f M = (case f (mk_Ledger M) of Inl e \<Rightarrow> Inl (FinanceFault e) | Inr L \<Rightarrow> Inr (M\<lparr>mk_Ledger := L\<rparr>))"

lemma with_ledger_Inr: "with_ledger f M = Inr M' \<longleftrightarrow> (\<exists>L. f (mk_Ledger M) = Inr L \<and> M' = M\<lparr>mk_Ledger := L\<rparr>)"
  by (auto simp: with_ledger_def split: sum.splits)

definition with_coins :: "'a coins_op \<Rightarrow> market \<Rightarrow> step_result" where
  "with_coins f M = (case f (mk_Coins M) of (Inl e, _) \<Rightarrow> Inl (CoinsFault e) | (Inr _, db) \<Rightarrow> Inr (M\<lparr>mk_Coins := db\<rparr>))"

lemma with_coins_Inr: "with_coins f M = Inr M' \<longleftrightarrow> (\<exists>x db. f (mk_Coins M) = (Inr x, db) \<and> M' = M\<lparr>mk_Coins := db\<rparr>)"
  by (auto simp: with_coins_def split: sum.splits prod.splits)

text \<open>
  The caller logs the error and goes on; but a statement that failed in the
  database has aborted the transaction, and the next statement then fails too.
\<close>

definition logged_coins :: "'a coins_op \<Rightarrow> market \<Rightarrow> step_result" where
  "logged_coins f M = (let db = snd (f (mk_Coins M)) in if cd_Aborted db then Inl TxAborted else Inr (M\<lparr>mk_Coins := db\<rparr>))"

text \<open>\<open>platform/outbox\<close> \<open>InsertEvent\<close>: one row per event type and entity.\<close>

definition InsertEvent :: "string \<Rightarrow> uuid \<Rightarrow> market \<Rightarrow> market" where
  "InsertEvent eventType entityID M =
    (if (eventType, entityID) \<in> set (mk_Outbox M) then M else M\<lparr>mk_Outbox := mk_Outbox M @ [(eventType, entityID)]\<rparr>)"

text \<open>\<open>platform/idempotency\<close> \<open>TryInsert\<close>: \<open>None\<close> is \<open>ErrAlreadyExists\<close>.\<close>

definition TryInsert :: "string \<Rightarrow> market \<Rightarrow> market option" where
  "TryInsert idempotencyKey M =
    (if idempotencyKey \<in> set (mk_Idempotency M) then None
     else Some (M\<lparr>mk_Idempotency := mk_Idempotency M @ [idempotencyKey]\<rparr>))"

section \<open>The orders table\<close>

definition orepo_GetForUpdate :: "uuid \<Rightarrow> market \<Rightarrow> market_error + order" where
  "orepo_GetForUpdate i M = found ''order'' (find (\<lambda>o1. or_ID o1 = i) (mk_Orders M))"

fun shipping_proof_frozen :: "OrderStatus \<Rightarrow> bool" where
  "shipping_proof_frozen OrderShipped = True"
| "shipping_proof_frozen OrderDelivered = True"
| "shipping_proof_frozen OrderCompleted = True"
| "shipping_proof_frozen OrderDisputeOpen = True"
| "shipping_proof_frozen OrderPartiallyRefunded = True"
| "shipping_proof_frozen _ = False"

text \<open>\<open>UpdateStatusTx\<close> writes these columns and no other; \<open>row\<close> is the stored row.\<close>

definition written_order :: "order \<Rightarrow> order \<Rightarrow> order" where
  "written_order o1 row = row
    \<lparr>or_Status := or_Status o1, or_AutoReleaseAt := or_AutoReleaseAt o1, or_HasDispute := or_HasDispute o1,
     or_ConfirmationExtensionUsed := or_ConfirmationExtensionUsed o1,
     or_ConfirmationExtendedAt := or_ConfirmationExtendedAt o1,
     or_ProofType := (if shipping_proof_frozen (or_Status row) then or_ProofType row else or_ProofType o1),
     or_TrackingNumber := (if shipping_proof_frozen (or_Status row) then or_TrackingNumber row else or_TrackingNumber o1),
     or_ShippingProofMedia :=
       (if shipping_proof_frozen (or_Status row) then or_ShippingProofMedia row else or_ShippingProofMedia o1),
     or_ShippingNote := or_ShippingNote o1, or_CompletedAt := or_CompletedAt o1, or_UpdatedAt := or_UpdatedAt o1\<rparr>"

definition orepo_UpdateStatusTx :: "order \<Rightarrow> market \<Rightarrow> market" where
  "orepo_UpdateStatusTx o1 M =
    M\<lparr>mk_Orders := map (\<lambda>row. if or_ID row = or_ID o1 then written_order o1 row else row) (mk_Orders M)\<rparr>"

section \<open>The escrows table\<close>

definition escrow_of :: "uuid \<Rightarrow> market \<Rightarrow> escrow option" where
  "escrow_of orderID M = find (\<lambda>e. es_OrderID e = orderID) (mk_Escrows M)"

text \<open>The order of an escrow is unique; \<open>payment_id\<close> is not among the inserted columns.\<close>

definition esrepo_Create :: "escrow \<Rightarrow> market \<Rightarrow> step_result" where
  "esrepo_Create e M =
    (if escrow_of (es_OrderID e) M \<noteq> None then Inl TxAborted
     else Inr (M\<lparr>mk_Escrows := mk_Escrows M @ [e\<lparr>es_PaymentID := None\<rparr>]\<rparr>))"

definition esrepo_Update :: "escrow \<Rightarrow> market \<Rightarrow> market" where
  "esrepo_Update e M =
    M\<lparr>mk_Escrows := map (\<lambda>row. if es_ID row = es_ID e
        then row\<lparr>es_Status := es_Status e, es_ReleasedAt := es_ReleasedAt e, es_RefundedAt := es_RefundedAt e\<rparr>
        else row) (mk_Escrows M)\<rparr>"

definition dispute_of :: "uuid \<Rightarrow> market \<Rightarrow> dispute option" where
  "dispute_of orderID M = find (\<lambda>d. di_OrderID d = orderID) (mk_Disputes M)"

text \<open>An empty database.\<close>

definition blank_market :: market where
  "blank_market = \<lparr>mk_Orders = [], mk_Payments = [], mk_Attempts = [], mk_Events = [], mk_Escrows = [], mk_Refunds = [],
     mk_Disputes = [], mk_Auctions = [], mk_Ledger = \<lparr>lg_Accounts = [], lg_Transactions = [], lg_Entries = []\<rparr>,
     mk_Coins = \<lparr>cd_Transactions = [], cd_Balances = Map.empty, cd_Reservations = [], cd_Aborted = False\<rparr>,
     mk_Idempotency = [], mk_Outbox = [], mk_InvalidRatings = [], mk_Requests = [],
     mk_Billings = [], mk_Subscriptions = [], mk_Users = [], mk_Items = [], mk_ForSales = [],
     mk_Gov = empty_gov, mk_Quotes = [], mk_ActiveTickets = []\<rparr>"

end
