(* ===== verification/EscrowService.thy ===== *)
theory EscrowService
  imports Market
begin

text \<open>
  \<open>core/escrow/application/escrow_service.go\<close>: creating the escrow of an order
  when its payment settles, and settling it once: released to the seller,
  refunded to the buyer, or split. The dispute repository is wired (production
  always does) and does not fail. Each call is refined to a book that says of
  every order whether its money is held, paid out or given back.
\<close>

section \<open>The service\<close>

definition checkActiveDispute :: "uuid \<Rightarrow> market \<Rightarrow> market_error + unit" where
  "checkActiveDispute orderID M =
    (case dispute_of orderID M of
       None \<Rightarrow> Inr ()
     | Some d \<Rightarrow> if dispute_IsUnderReview d then Inl (Refused ''escrow locked by dispute'') else Inr ())"

definition CreateEscrowFromGatewaySettlement ::
    "uuid \<Rightarrow> time \<Rightarrow> uuid \<Rightarrow> uuid \<Rightarrow> uuid \<Rightarrow> i64 \<Rightarrow> market \<Rightarrow> market_error + escrow \<times> market" where
  "CreateEscrowFromGatewaySettlement new_id now orderID buyerID sellerID amount M =
    (if orderID = uuid_nil then Inl (Refused ''order_id'')
     else if buyerID = uuid_nil then Inl (Refused ''buyer_id'')
     else if sellerID = uuid_nil then Inl (Refused ''seller_id'')
     else if amount \<le> 0 then Inl (Refused ''amount'')
     else case escrow_of orderID M of
       Some existing \<Rightarrow> Inr (existing, M)
     | None \<Rightarrow>
         (case NewEscrow new_id now orderID amount of
            Inl e \<Rightarrow> Inl (EscrowFault e)
          | Inr e \<Rightarrow> sum_bind (esrepo_Create e M) (\<lambda>M1. Inr (e, M1))))"

definition GetEscrowForOrder :: "uuid \<Rightarrow> market \<Rightarrow> market_error + escrow option" where
  "GetEscrowForOrder orderID M = (if orderID = uuid_nil then Inl (Refused ''order_id'') else Inr (escrow_of orderID M))"

text \<open>The boolean tells whether this call made the transition.\<close>

definition ReleaseGatewayEscrow :: "time \<Rightarrow> uuid \<Rightarrow> i64 \<Rightarrow> market \<Rightarrow> market_error + bool \<times> market" where
  "ReleaseGatewayEscrow now orderID expectedGross M =
    (if orderID = uuid_nil then Inl (Refused ''order_id'')
     else case escrow_of orderID M of
       None \<Rightarrow> Inl (NotFound ''escrow'')
     | Some e \<Rightarrow>
         if es_Status e = EscrowReleased then Inr (False, M)
         else if es_Status e = EscrowRefunded then Inl (Refused ''already refunded'')
         else if es_Status e \<noteq> EscrowHolding then Inl (Refused ''invalid status'')
         else if es_Amount e \<noteq> expectedGross then Inl (Refused ''amount mismatch'')
         else sum_bind (checkActiveDispute orderID M) (\<lambda>_.
              sum_bind (moved EscrowFault (escrow_Release now e)) (\<lambda>e1.
              Inr (True, esrepo_Update e1 M))))"

definition RefundGatewayEscrow :: "time \<Rightarrow> uuid \<Rightarrow> market \<Rightarrow> market_error + bool \<times> market" where
  "RefundGatewayEscrow now orderID M =
    (if orderID = uuid_nil then Inl (Refused ''order_id'')
     else case escrow_of orderID M of
       None \<Rightarrow> Inl (NotFound ''escrow'')
     | Some e \<Rightarrow>
         if es_Status e = EscrowRefunded then Inr (False, M)
         else if es_Status e = EscrowReleased then Inl (Refused ''already released'')
         else if es_Status e \<noteq> EscrowHolding then Inl (Refused ''invalid status'')
         else sum_bind (checkActiveDispute orderID M) (\<lambda>_.
              sum_bind (moved EscrowFault (escrow_Refund now e)) (\<lambda>e1.
              Inr (True, esrepo_Update e1 M))))"

definition PartialRefundGatewayEscrow :: "time \<Rightarrow> uuid \<Rightarrow> i64 \<Rightarrow> market \<Rightarrow> market_error + bool \<times> market" where
  "PartialRefundGatewayEscrow now orderID refundAmount M =
    (if orderID = uuid_nil then Inl (Refused ''order_id'')
     else if refundAmount \<le> 0 then Inl (Refused ''amount'')
     else case escrow_of orderID M of
       None \<Rightarrow> Inl (NotFound ''escrow'')
     | Some e \<Rightarrow>
         if es_Status e = EscrowReleased then Inr (False, M)
         else if es_Status e = EscrowRefunded then Inl (Refused ''already refunded'')
         else if es_Status e \<noteq> EscrowHolding then Inl (Refused ''invalid status'')
         else if refundAmount \<ge> es_Amount e then Inl (Refused ''not partial'')
         else sum_bind (checkActiveDispute orderID M) (\<lambda>_.
              sum_bind (moved EscrowFault (escrow_Release now e)) (\<lambda>e1.
              Inr (True, esrepo_Update e1 M))))"

section \<open>The specification: a book of holdings\<close>

datatype holding = Held i64 | PaidOut i64 | GivenBack i64

type_synonym book = "uuid \<Rightarrow> holding option"

text \<open>\<open>blocked\<close> says that the order is under review; \<open>None\<close> is a refusal.\<close>

definition spec_hold :: "uuid \<Rightarrow> i64 \<Rightarrow> book \<Rightarrow> book option" where
  "spec_hold i n b = (if i = uuid_nil \<or> n \<le> 0 then None else if b i = None then Some (b(i \<mapsto> Held n)) else Some b)"

definition spec_pay_out :: "bool \<Rightarrow> uuid \<Rightarrow> (i64 \<Rightarrow> bool) \<Rightarrow> book \<Rightarrow> (bool \<times> book) option" where
  "spec_pay_out blocked i fits b =
    (case b i of
       Some (Held n) \<Rightarrow> if fits n \<and> \<not> blocked then Some (True, b(i \<mapsto> PaidOut n)) else None
     | Some (PaidOut n) \<Rightarrow> Some (False, b)
     | _ \<Rightarrow> None)"

definition spec_give_back :: "bool \<Rightarrow> uuid \<Rightarrow> book \<Rightarrow> (bool \<times> book) option" where
  "spec_give_back blocked i b =
    (case b i of
       Some (Held n) \<Rightarrow> if \<not> blocked then Some (True, b(i \<mapsto> GivenBack n)) else None
     | Some (GivenBack n) \<Rightarrow> Some (False, b)
     | _ \<Rightarrow> None)"

fun holding_of :: "escrow \<Rightarrow> holding" where
  "holding_of e =
    (if es_Status e = EscrowReleased then PaidOut (es_Amount e)
     else if es_Status e = EscrowRefunded then GivenBack (es_Amount e) else Held (es_Amount e))"

definition escrow_book :: "market \<Rightarrow> book" where
  "escrow_book M i = map_option holding_of (escrow_of i M)"

definition under_review :: "uuid \<Rightarrow> market \<Rightarrow> bool" where
  "under_review i M \<longleftrightarrow> (case dispute_of i M of None \<Rightarrow> False | Some d \<Rightarrow> dispute_IsUnderReview d)"

text \<open>What the table guarantees: unique ids and orders, valid states.\<close>

definition escrows_ok :: "market \<Rightarrow> bool" where
  "escrows_ok M \<longleftrightarrow> distinct (map es_ID (mk_Escrows M)) \<and> distinct (map es_OrderID (mk_Escrows M))
     \<and> (\<forall>e \<in> set (mk_Escrows M). escrowStatus_IsValid (es_Status e) \<and> es_OrderID e \<noteq> uuid_nil)"

definition refines :: "market_error + bool \<times> market \<Rightarrow> (bool \<times> book) option \<Rightarrow> bool" where
  "refines r spec \<longleftrightarrow>
    (case r of Inl _ \<Rightarrow> spec = None
     | Inr (newly, M') \<Rightarrow> spec = Some (newly, escrow_book M') \<and> escrows_ok M')"

section \<open>The refinement\<close>

lemma escrow_of_Some: "escrow_of i M = Some e \<Longrightarrow> e \<in> set (mk_Escrows M) \<and> es_OrderID e = i"
  by (auto simp: escrow_of_def find_Some_iff)

lemma escrow_row_unique:
  assumes "escrows_ok M" "x \<in> set (mk_Escrows M)" "y \<in> set (mk_Escrows M)" "es_ID x = es_ID y"
  shows "x = y"
  using assms by (auto simp: escrows_ok_def distinct_map inj_on_def)

definition with_state :: "escrow \<Rightarrow> escrow \<Rightarrow> escrow" where
  "with_state e row = (if es_ID row = es_ID e
     then row\<lparr>es_Status := es_Status e, es_ReleasedAt := es_ReleasedAt e, es_RefundedAt := es_RefundedAt e\<rparr> else row)"

lemma with_state_keeps [simp]:
  "es_ID (with_state e row) = es_ID row" "es_OrderID (with_state e row) = es_OrderID row"
  "es_Amount (with_state e row) = es_Amount row"
  by (simp_all add: with_state_def)

lemma update_rows: "mk_Escrows (esrepo_Update e M) = map (with_state e) (mk_Escrows M)"
  by (simp add: esrepo_Update_def with_state_def)

lemma escrow_of_update: "escrow_of j (esrepo_Update e M) = map_option (with_state e) (escrow_of j M)"
  unfolding escrow_of_def update_rows by (rule find_map_keep) simp

lemma update_refines:
  assumes ok: "escrows_ok M" and e: "escrow_of i M = Some e"
    and e1: "es_ID e1 = es_ID e" "escrowStatus_IsValid (es_Status e1)"
  shows "escrow_book (esrepo_Update e1 M) = (escrow_book M)(i \<mapsto> holding_of (with_state e1 e))
    \<and> escrows_ok (esrepo_Update e1 M)"
proof
  have other: "with_state e1 x = x" if "escrow_of j M = Some x" "j \<noteq> i" for j x
    using escrow_row_unique [OF ok, of x e] escrow_of_Some [OF that(1)] escrow_of_Some [OF e] that(2) e1(1)
    by (auto simp: with_state_def)
  show "escrow_book (esrepo_Update e1 M) = (escrow_book M)(i \<mapsto> holding_of (with_state e1 e))"
  proof
    fix j
    show "escrow_book (esrepo_Update e1 M) j = ((escrow_book M)(i \<mapsto> holding_of (with_state e1 e))) j"
      using other [of j] e by (cases "escrow_of j M") (auto simp: escrow_book_def escrow_of_update)
  qed
  show "escrows_ok (esrepo_Update e1 M)"
    proof -
    have "map es_ID (map (with_state e1) (mk_Escrows M)) = map es_ID (mk_Escrows M)"
      "map es_OrderID (map (with_state e1) (mk_Escrows M)) = map es_OrderID (mk_Escrows M)" by (simp_all add: comp_def)
    moreover have "escrowStatus_IsValid (es_Status (with_state e1 x))" if "escrowStatus_IsValid (es_Status x)" for x
      using that e1(2) by (simp add: with_state_def)
    ultimately show ?thesis using ok unfolding escrows_ok_def update_rows by (simp only: set_map ball_simps with_state_keeps) blast
  qed
qed

lemma checkActiveDispute_iff:
  "checkActiveDispute i M = (if under_review i M then Inl (Refused ''escrow locked by dispute'') else Inr ())"
  by (auto simp: checkActiveDispute_def under_review_def split: option.splits)

lemma valid_state_cases:
  "escrows_ok M \<Longrightarrow> escrow_of i M = Some e \<Longrightarrow> es_Status e = EscrowHolding \<or> es_Status e = EscrowReleased \<or> es_Status e = EscrowRefunded"
  by (cases "es_Status e") (auto dest!: escrow_of_Some simp: escrows_ok_def)

lemma nil_has_no_escrow: "escrows_ok M \<Longrightarrow> escrow_of uuid_nil M = None"
  by (cases "escrow_of uuid_nil M") (auto dest!: escrow_of_Some simp: escrows_ok_def)

lemma release_refines:
  assumes ok: "escrows_ok M"
  shows "refines (ReleaseGatewayEscrow now i gross M) (spec_pay_out (under_review i M) i (\<lambda>n. n = gross) (escrow_book M))"
proof (cases "escrow_of i M")
  case None
  then show ?thesis by (simp add: refines_def ReleaseGatewayEscrow_def spec_pay_out_def escrow_book_def)
next
  case (Some e)
  then have i: "i \<noteq> uuid_nil" using nil_has_no_escrow [OF ok] by (cases "i = uuid_nil") auto
  let ?e1 = "e\<lparr>es_Status := EscrowReleased, es_ReleasedAt := Some now\<rparr>"
  have "escrow_book (esrepo_Update ?e1 M) = (escrow_book M)(i \<mapsto> PaidOut (es_Amount e)) \<and> escrows_ok (esrepo_Update ?e1 M)"
    using update_refines [OF ok Some, of ?e1] by (simp add: with_state_def)
  with valid_state_cases [OF ok Some] Some i ok show ?thesis
    by (auto simp: refines_def ReleaseGatewayEscrow_def spec_pay_out_def escrow_book_def checkActiveDispute_iff
        escrow_Release_def escrowStatus_IsFinal_def moved_def)
qed

lemma refund_refines:
  assumes ok: "escrows_ok M"
  shows "refines (RefundGatewayEscrow now i M) (spec_give_back (under_review i M) i (escrow_book M))"
proof (cases "escrow_of i M")
  case None
  then show ?thesis by (simp add: refines_def RefundGatewayEscrow_def spec_give_back_def escrow_book_def)
next
  case (Some e)
  then have i: "i \<noteq> uuid_nil" using nil_has_no_escrow [OF ok] by (cases "i = uuid_nil") auto
  let ?e1 = "e\<lparr>es_Status := EscrowRefunded, es_RefundedAt := Some now\<rparr>"
  have "escrow_book (esrepo_Update ?e1 M) = (escrow_book M)(i \<mapsto> GivenBack (es_Amount e)) \<and> escrows_ok (esrepo_Update ?e1 M)"
    using update_refines [OF ok Some, of ?e1] by (simp add: with_state_def)
  with valid_state_cases [OF ok Some] Some i ok show ?thesis
    by (auto simp: refines_def RefundGatewayEscrow_def spec_give_back_def escrow_book_def checkActiveDispute_iff
        escrow_Refund_def escrowStatus_IsFinal_def moved_def)
qed

lemma split_refines:
  assumes ok: "escrows_ok M"
  shows "refines (PartialRefundGatewayEscrow now i amount M)
    (if amount \<le> 0 then None else spec_pay_out (under_review i M) i (\<lambda>n. amount < n) (escrow_book M))"
proof (cases "escrow_of i M")
  case None
  then show ?thesis by (auto simp: refines_def PartialRefundGatewayEscrow_def spec_pay_out_def escrow_book_def)
next
  case (Some e)
  then have i: "i \<noteq> uuid_nil" using nil_has_no_escrow [OF ok] by (cases "i = uuid_nil") auto
  let ?e1 = "e\<lparr>es_Status := EscrowReleased, es_ReleasedAt := Some now\<rparr>"
  have "escrow_book (esrepo_Update ?e1 M) = (escrow_book M)(i \<mapsto> PaidOut (es_Amount e)) \<and> escrows_ok (esrepo_Update ?e1 M)"
    using update_refines [OF ok Some, of ?e1] by (simp add: with_state_def)
  with valid_state_cases [OF ok Some] Some i ok show ?thesis
    by (auto simp: refines_def PartialRefundGatewayEscrow_def spec_pay_out_def escrow_book_def checkActiveDispute_iff
        escrow_Release_def escrowStatus_IsFinal_def moved_def)
qed

lemma create_refines:
  assumes ok: "escrows_ok M" and fresh: "new_id \<notin> es_ID ` set (mk_Escrows M)"
    and "buyerID \<noteq> uuid_nil" "sellerID \<noteq> uuid_nil"
  shows "case CreateEscrowFromGatewaySettlement new_id now i buyerID sellerID n M of
      Inl _ \<Rightarrow> spec_hold i n (escrow_book M) = None
    | Inr (e, M') \<Rightarrow> spec_hold i n (escrow_book M) = Some (escrow_book M') \<and> escrows_ok M' \<and> escrow_of i M' = Some e"
proof (cases "i = uuid_nil \<or> n \<le> 0")
  case True
  then show ?thesis using assms(3,4) by (auto simp: CreateEscrowFromGatewaySettlement_def spec_hold_def)
next
  case False
  then have valid: "i \<noteq> uuid_nil" "0 < n" by auto
  show ?thesis
  proof (cases "escrow_of i M")
    case (Some e)
    then show ?thesis using valid assms
      by (simp add: CreateEscrowFromGatewaySettlement_def spec_hold_def escrow_book_def)
  next
    case None
    then have free: "\<forall>e \<in> set (mk_Escrows M). es_OrderID e \<noteq> i" by (auto simp: escrow_of_def find_None_iff)
    define e where "e = \<lparr>es_ID = new_id, es_OrderID = i, es_Amount = n, es_Status = EscrowHolding,
        es_PaymentID = None, es_CreatedAt = now, es_ReleasedAt = None, es_RefundedAt = None\<rparr>"
    define M' where "M' = M\<lparr>mk_Escrows := mk_Escrows M @ [e]\<rparr>"
    have r: "CreateEscrowFromGatewaySettlement new_id now i buyerID sellerID n M = Inr (e, M')"
      using valid assms None
      by (simp add: CreateEscrowFromGatewaySettlement_def NewEscrow_def esrepo_Create_def e_def M'_def)
    have l: "escrow_of j M' = (if j = i then Some e else escrow_of j M)" for j
      using None by (cases "escrow_of j M") (auto simp: escrow_of_def M'_def find_snoc e_def)
    have "escrows_ok M'" using ok fresh free valid by (auto simp: escrows_ok_def M'_def e_def)
    moreover have "escrow_book M' = (escrow_book M)(i \<mapsto> Held n)"
      by (rule ext) (simp add: escrow_book_def l, simp add: e_def)
    ultimately show ?thesis using r None valid l by (simp add: spec_hold_def escrow_book_def)
  qed
qed

section \<open>Property\<close>

text \<open>
  C18. The escrow service implements a simple book: on any table with unique
  orders, each call succeeds exactly when the book allows the move, then leaves
  exactly the book the move gives, and reports truthfully whether it made the
  move or found it made. Money is held at most once per order, goes out once
  and whole, to one side, and never while the order's dispute is under review.
\<close>

theorem escrow_service_refines_the_book:
  assumes "escrows_ok M"
  shows "refines (ReleaseGatewayEscrow now i gross M) (spec_pay_out (under_review i M) i (\<lambda>n. n = gross) (escrow_book M))
    \<and> refines (RefundGatewayEscrow now i M) (spec_give_back (under_review i M) i (escrow_book M))
    \<and> refines (PartialRefundGatewayEscrow now i amount M)
        (if amount \<le> 0 then None else spec_pay_out (under_review i M) i (\<lambda>n. amount < n) (escrow_book M))
    \<and> (new_id \<notin> es_ID ` set (mk_Escrows M) \<and> buyer \<noteq> uuid_nil \<and> seller \<noteq> uuid_nil \<longrightarrow>
        refines (map_sum id (Pair True \<circ> snd) (CreateEscrowFromGatewaySettlement new_id now i buyer seller amount M))
          (map_option (Pair True) (spec_hold i amount (escrow_book M))))"
  using release_refines [OF assms] refund_refines [OF assms] split_refines [OF assms]
    create_refines [OF assms, where new_id = new_id and buyerID = buyer and sellerID = seller and now = now and i = i and n = amount]
  by (cases "CreateEscrowFromGatewaySettlement new_id now i buyer seller amount M") (auto simp: refines_def)

theorem escrow_service_refines_the_book_witness:
  "\<exists>M. escrow_book M 7 = Some (Held 500) \<and> refines (ReleaseGatewayEscrow 3 7 500 M) (Some (True, (escrow_book M)(7 \<mapsto> PaidOut 500)))"
proof -
  define M where "M = blank_market\<lparr>mk_Escrows := [\<lparr>es_ID = 1, es_OrderID = 7, es_Amount = 500, es_Status = EscrowHolding,
    es_PaymentID = None, es_CreatedAt = 0, es_ReleasedAt = None, es_RefundedAt = None\<rparr>]\<rparr>"
  have "escrows_ok M" "escrow_book M 7 = Some (Held 500)" "\<not> under_review 7 M"
    by (simp_all add: M_def escrows_ok_def escrow_book_def escrow_of_def under_review_def dispute_of_def blank_market_def)
  then show ?thesis
    using escrow_service_refines_the_book [of M 3 7 500] by (auto simp: spec_pay_out_def)
qed

end
