(* ===== verification/PaymentService.thy ===== *)
theory PaymentService
  imports Market
begin

text \<open>
  \<open>integration/payment/infrastructure/repository\<close>: the payment entity
  (\<open>entity.go\<close>), the payments and webhook event tables
  (\<open>payment_repository.go\<close>), the payment attempts that the webhook updates
  (\<open>payment_attempt_repository.go\<close>), and the settlement service
  (\<open>payment_settlement_service.go\<close>). Statuses are the stored texts. The audit
  records, the payment URL and the price snapshot are left out.
\<close>

section \<open>The entity\<close>

definition IsSettledStatus :: "string \<Rightarrow> bool" where
  "IsSettledStatus status \<longleftrightarrow> status = ''settlement'' \<or> status = ''capture''"

definition payment_IsPending :: "payment \<Rightarrow> bool" where
  "payment_IsPending p \<longleftrightarrow> pm_Status p = ''pending''"

definition payment_IsSettled :: "payment \<Rightarrow> bool" where
  "payment_IsSettled p \<longleftrightarrow> IsSettledStatus (pm_Status p)"

definition IsFailedStatus :: "string \<Rightarrow> bool" where
  "IsFailedStatus status \<longleftrightarrow> status = ''deny'' \<or> status = ''cancel'' \<or> status = ''expire''"

definition payment_IsFailed :: "payment \<Rightarrow> bool" where
  "payment_IsFailed p \<longleftrightarrow> IsFailedStatus (pm_Status p)"

definition payment_IsExpired :: "payment \<Rightarrow> bool" where
  "payment_IsExpired p \<longleftrightarrow> pm_Status p = ''expire''"

definition canonicalWireStatus :: "string \<Rightarrow> string \<times> bool" where
  "canonicalWireStatus raw =
    (if raw = ''pending'' then (''pending'', True)
     else if IsSettledStatus raw then (''paid'', True)
     else if raw = ''deny'' then (''failed'', True)
     else if raw = ''cancel'' then ('''', False)
     else if raw = ''expire'' then (''expired'', True)
     else ('''', False))"

definition CanonicalWireStatus :: "string \<Rightarrow> string" where
  "CanonicalWireStatus raw = (case canonicalWireStatus raw of (canonical, ok1) \<Rightarrow> if ok1 then canonical else '''')"

definition CanonicalWireStatusPtr :: "string option \<Rightarrow> string option" where
  "CanonicalWireStatusPtr raw =
    (case raw of None \<Rightarrow> None
     | Some r \<Rightarrow> (case canonicalWireStatus r of (canonical, ok1) \<Rightarrow> if ok1 then Some canonical else None))"

definition attempt_IsPending :: "payment_attempt \<Rightarrow> bool" where
  "attempt_IsPending a \<longleftrightarrow> pa_Status a = ''initiated'' \<or> pa_Status a = ''pending''"

definition attempt_IsCompleted :: "payment_attempt \<Rightarrow> bool" where
  "attempt_IsCompleted a \<longleftrightarrow> pa_Status a \<in> set [''success'', ''failed'', ''cancelled'', ''timeout'']"

section \<open>The payments table\<close>

definition payment_by_id :: "uuid \<Rightarrow> market \<Rightarrow> payment option" where
  "payment_by_id i M = find (\<lambda>p. pm_ID p = i) (mk_Payments M)"

definition set_payment :: "uuid \<Rightarrow> (payment \<Rightarrow> payment) \<Rightarrow> market \<Rightarrow> market" where
  "set_payment i f M = M\<lparr>mk_Payments := map (\<lambda>p. if pm_ID p = i then f p else p) (mk_Payments M)\<rparr>"

definition prepo_GetByID :: "uuid \<Rightarrow> market \<Rightarrow> market_error + payment" where
  "prepo_GetByID i M = found ''payment'' (payment_by_id i M)"

definition prepo_GetByIDForUpdate :: "uuid \<Rightarrow> market \<Rightarrow> market_error + payment" where
  "prepo_GetByIDForUpdate i M = found ''payment'' (payment_by_id i M)"

definition prepo_GetByMidtransOrderID :: "string \<Rightarrow> market \<Rightarrow> market_error + payment" where
  "prepo_GetByMidtransOrderID o1 M = found ''payment'' (find (\<lambda>p. pm_MidtransOrderID p = o1) (mk_Payments M))"

definition prepo_GetForUpdate :: "string \<Rightarrow> market \<Rightarrow> market_error + payment" where
  "prepo_GetForUpdate o1 M = found ''payment'' (find (\<lambda>p. pm_MidtransOrderID p = o1) (mk_Payments M))"

text \<open>No status and no order is asked for: any payment of the reference may come first.\<close>

definition prepo_GetPaymentByReference :: "string \<Rightarrow> uuid \<Rightarrow> market \<Rightarrow> market_error + payment" where
  "prepo_GetPaymentByReference t i M =
    found ''payment'' (find (\<lambda>p. pm_ReferenceType p = t \<and> pm_ReferenceID p = Some i) (mk_Payments M))"

definition prepo_FindExistingPaymentForOrder :: "uuid \<Rightarrow> market \<Rightarrow> payment option" where
  "prepo_FindExistingPaymentForOrder orderID M =
    find (\<lambda>p. pm_ReferenceType p = ''order'' \<and> pm_ReferenceID p = Some orderID
      \<and> (payment_IsPending p \<or> payment_IsSettled p)) (mk_Payments M)"

definition prepo_FindPendingSubscriptionPayment :: "time \<Rightarrow> uuid \<Rightarrow> market \<Rightarrow> payment option" where
  "prepo_FindPendingSubscriptionPayment db_now userID M =
    latest pm_CreatedAt (filter (\<lambda>p. pm_ReferenceType p = ''subscription'' \<and> pm_UserID p = userID
      \<and> payment_IsPending p \<and> pm_ExpiredAt p > db_now) (mk_Payments M))"

definition prepo_FindPendingBillingPayment :: "time \<Rightarrow> uuid \<Rightarrow> market \<Rightarrow> payment option" where
  "prepo_FindPendingBillingPayment db_now billingID M =
    latest pm_CreatedAt (filter (\<lambda>p. pm_ReferenceType p = ''billing'' \<and> pm_ReferenceID p = Some billingID
      \<and> payment_IsPending p \<and> pm_ExpiredAt p > db_now) (mk_Payments M))"

record CreatePaymentInput =
  ci_UserID :: uuid
  ci_PaymentNumber :: string
  ci_MidtransOrderID :: string
  ci_GrossAmount :: money
  ci_ServiceFeeAmount :: money
  ci_CoinsToUse :: int
  ci_ReferenceType :: string
  ci_ReferenceID :: "uuid option"
  ci_ExpiredAt :: time
  ci_PaymentMethodCode :: "string option"
  ci_SubscriptionDurationDays :: "int option"

text \<open>The unique indexes of the table: numbers, gateway ids, one active payment per order or billing.\<close>

definition payment_conflicts :: "payment \<Rightarrow> payment \<Rightarrow> bool" where
  "payment_conflicts p q \<longleftrightarrow> pm_MidtransOrderID p = pm_MidtransOrderID q \<or> pm_PaymentNumber p = pm_PaymentNumber q
    \<or> pm_ReferenceType p = pm_ReferenceType q \<and> pm_ReferenceID p = pm_ReferenceID q
      \<and> (pm_ReferenceType p = ''order'' \<or> pm_ReferenceType p = ''billing'')
      \<and> pm_Status q \<in> set [''pending'', ''capture'', ''challenge'']"

definition prepo_CreatePayment :: "uuid \<Rightarrow> time \<Rightarrow> CreatePaymentInput \<Rightarrow> market \<Rightarrow> market_error + payment \<times> market" where
  "prepo_CreatePayment new_id db_now inp M =
    (if ci_ReferenceType inp \<notin> set [''order'', ''billing'', ''subscription''] then Inl (Refused ''reference_type'')
     else if ci_ReferenceID inp = None then Inl (Refused ''reference_id'')
     else let p = \<lparr>pm_ID = new_id, pm_UserID = ci_UserID inp, pm_PaymentNumber = ci_PaymentNumber inp,
         pm_MidtransOrderID = ci_MidtransOrderID inp, pm_GrossAmount = ci_GrossAmount inp,
         pm_ServiceFeeAmount = ci_ServiceFeeAmount inp, pm_CoinsToUse = ci_CoinsToUse inp,
         pm_CoinDiscountAmount = money_New (ci_CoinsToUse inp), pm_Status = ''pending'',
         pm_ReferenceType = ci_ReferenceType inp, pm_ReferenceID = ci_ReferenceID inp,
         pm_PaymentMethodCode = ci_PaymentMethodCode inp,
         pm_SubscriptionDurationDays = ci_SubscriptionDurationDays inp, pm_TransactionID = None,
         pm_PaymentType = None, pm_PaidAt = None, pm_ExpiredAt = ci_ExpiredAt inp,
         pm_CreatedAt = db_now, pm_UpdatedAt = db_now\<rparr>
       in if list_ex (payment_conflicts p) (mk_Payments M) then Inl TxAborted
          else Inr (p, M\<lparr>mk_Payments := mk_Payments M @ [p]\<rparr>))"

definition prepo_GetOrCreateForOrder ::
    "uuid \<Rightarrow> time \<Rightarrow> CreatePaymentInput \<Rightarrow> market \<Rightarrow> market_error + (payment \<times> bool) \<times> market" where
  "prepo_GetOrCreateForOrder new_id db_now inp M =
    (if ci_ReferenceType inp \<noteq> ''order'' then Inl (Refused ''reference_type'')
     else case ci_ReferenceID inp of
       None \<Rightarrow> Inl (Refused ''reference_id'')
     | Some orderID \<Rightarrow>
         (case prepo_FindExistingPaymentForOrder orderID M of
            Some existing \<Rightarrow> Inr ((existing, False), M)
          | None \<Rightarrow> sum_bind (prepo_CreatePayment new_id db_now inp M) (\<lambda>(p, M1). Inr ((p, True), M1))))"

text \<open>\<open>UPDATE ... WHERE id = $5 AND status = 'pending'\<close>, and an error when no row was changed.\<close>

definition prepo_MarkAsSettlement :: "time \<Rightarrow> time \<Rightarrow> uuid \<Rightarrow> string \<Rightarrow> string \<Rightarrow> market \<Rightarrow> step_result" where
  "prepo_MarkAsSettlement now db_now paymentID transactionID paymentType M =
    (case payment_by_id paymentID M of
       None \<Rightarrow> Inl (NotFound ''payment'')
     | Some p \<Rightarrow>
         if \<not> payment_IsPending p then Inl (Refused ''payment not pending'')
         else Inr (set_payment paymentID (\<lambda>p. p\<lparr>pm_Status := ''settlement'', pm_TransactionID := Some transactionID,
           pm_PaymentType := Some paymentType, pm_PaidAt := Some now, pm_UpdatedAt := db_now\<rparr>) M))"

definition prepo_MarkAsCapture :: "time \<Rightarrow> time \<Rightarrow> uuid \<Rightarrow> string \<Rightarrow> string \<Rightarrow> market \<Rightarrow> step_result" where
  "prepo_MarkAsCapture now db_now paymentID transactionID paymentType M =
    (case payment_by_id paymentID M of
       None \<Rightarrow> Inl (NotFound ''payment'')
     | Some p \<Rightarrow> Inr (set_payment paymentID (\<lambda>p. p\<lparr>pm_Status := ''capture'', pm_TransactionID := Some transactionID,
         pm_PaymentType := Some paymentType, pm_PaidAt := Some now, pm_UpdatedAt := db_now\<rparr>) M))"

definition prepo_MarkAsFailed :: "time \<Rightarrow> uuid \<Rightarrow> string \<Rightarrow> market \<Rightarrow> step_result" where
  "prepo_MarkAsFailed db_now paymentID status M =
    (if \<not> IsFailedStatus status then Inl (Refused ''failed status'')
     else case payment_by_id paymentID M of
       None \<Rightarrow> Inl (NotFound ''payment'')
     | Some p \<Rightarrow>
         if \<not> payment_IsPending p then Inl (Refused ''payment not pending'')
         else Inr (set_payment paymentID (\<lambda>p. p\<lparr>pm_Status := status, pm_UpdatedAt := db_now\<rparr>) M))"

definition prepo_UpdateStatusWithCheck :: "time \<Rightarrow> uuid \<Rightarrow> string \<Rightarrow> string \<Rightarrow> market \<Rightarrow> nat \<times> market" where
  "prepo_UpdateStatusWithCheck db_now paymentID newStatus expectedStatus M =
    (case payment_by_id paymentID M of
       None \<Rightarrow> (0, M)
     | Some p \<Rightarrow>
         if pm_Status p \<noteq> expectedStatus then (0, M)
         else (1, set_payment paymentID (\<lambda>p. p\<lparr>pm_Status := newStatus, pm_UpdatedAt := db_now\<rparr>) M))"

definition prepo_UpdateStatus :: "time \<Rightarrow> uuid \<Rightarrow> string \<Rightarrow> string \<Rightarrow> market \<Rightarrow> step_result" where
  "prepo_UpdateStatus db_now paymentID fromStatus toStatus M =
    (case prepo_UpdateStatusWithCheck db_now paymentID toStatus fromStatus M of
       (rows, M1) \<Rightarrow> if rows = 0 then Inl (Refused ''invalid status transition'') else Inr M1)"

definition prepo_GetStatus :: "uuid \<Rightarrow> market \<Rightarrow> market_error + string" where
  "prepo_GetStatus paymentID M = sum_bind (prepo_GetByID paymentID M) (\<lambda>p. Inr (pm_Status p))"

section \<open>The attempts\<close>

definition arepo_GetLatestPaymentAttemptByOrderID :: "uuid \<Rightarrow> market \<Rightarrow> payment_attempt option" where
  "arepo_GetLatestPaymentAttemptByOrderID orderID M =
    latest pa_AttemptAt (filter (\<lambda>a. pa_OrderID a = orderID) (mk_Attempts M))"

definition set_attempt :: "uuid \<Rightarrow> (payment_attempt \<Rightarrow> payment_attempt) \<Rightarrow> market \<Rightarrow> market" where
  "set_attempt i f M = M\<lparr>mk_Attempts := map (\<lambda>a. if pa_ID a = i then f a else a) (mk_Attempts M)\<rparr>"

definition arepo_MarkSuccess :: "uuid \<Rightarrow> market \<Rightarrow> market" where
  "arepo_MarkSuccess i = set_attempt i (\<lambda>a. a\<lparr>pa_Status := ''success''\<rparr>)"

definition arepo_MarkFailed :: "uuid \<Rightarrow> string \<Rightarrow> market \<Rightarrow> market" where
  "arepo_MarkFailed i reason = set_attempt i (\<lambda>a. a\<lparr>pa_Status := ''failed'', pa_FailureReason := Some reason\<rparr>)"

section \<open>The settlement service\<close>

text \<open>The order of a payment is locked first, and an expired order is refused.\<close>

definition lock_order_of :: "time \<Rightarrow> payment \<Rightarrow> market \<Rightarrow> market_error + unit" where
  "lock_order_of now p M =
    (if pm_ReferenceType p = ''order'' then
       (case pm_ReferenceID p of
          None \<Rightarrow> Inr ()
        | Some orderID \<Rightarrow> sum_bind (orepo_GetForUpdate orderID M) (\<lambda>o1.
            guard (\<not> order_IsExpired now o1) (Refused ''order expired'')))
     else Inr ())"

definition settle_locked :: "time \<Rightarrow> time \<Rightarrow> string \<Rightarrow> string \<Rightarrow> payment \<Rightarrow> market \<Rightarrow> step_result" where
  "settle_locked now db_now transactionID paymentType p M =
    (if payment_IsSettled p then Inr M
     else if \<not> payment_IsPending p then Inl (Refused ''payment not pending'')
     else prepo_MarkAsSettlement now db_now (pm_ID p) transactionID paymentType M)"

definition SettlePayment :: "time \<Rightarrow> time \<Rightarrow> time \<Rightarrow> string \<Rightarrow> string \<Rightarrow> string \<Rightarrow> market \<Rightarrow> step_result" where
  "SettlePayment expiry_now now db_now midtransOrderID transactionID paymentType M =
    sum_bind (prepo_GetByMidtransOrderID midtransOrderID M) (\<lambda>p.
    sum_bind (lock_order_of expiry_now p M) (\<lambda>_.
    sum_bind (prepo_GetForUpdate midtransOrderID M) (\<lambda>p.
    settle_locked now db_now transactionID paymentType p M)))"

definition SettlePaymentByID :: "time \<Rightarrow> time \<Rightarrow> time \<Rightarrow> uuid \<Rightarrow> string \<Rightarrow> string \<Rightarrow> market \<Rightarrow> step_result" where
  "SettlePaymentByID expiry_now now db_now paymentID transactionID paymentType M =
    sum_bind (prepo_GetByID paymentID M) (\<lambda>p.
    sum_bind (lock_order_of expiry_now p M) (\<lambda>_.
    sum_bind (prepo_GetByIDForUpdate paymentID M) (\<lambda>p.
    settle_locked now db_now transactionID paymentType p M)))"

definition SettlePaymentWithOutbox :: "time \<Rightarrow> time \<Rightarrow> string \<Rightarrow> string \<Rightarrow> string \<Rightarrow> market \<Rightarrow> market_error + payment \<times> market" where
  "SettlePaymentWithOutbox now db_now midtransOrderID transactionID paymentType M =
    sum_bind (prepo_GetForUpdate midtransOrderID M) (\<lambda>p.
    sum_bind (settle_locked now db_now transactionID paymentType p M) (\<lambda>M1. Inr (p, M1)))"

definition IsPaymentSettled :: "uuid \<Rightarrow> market \<Rightarrow> market_error + bool" where
  "IsPaymentSettled paymentID M = sum_bind (prepo_GetStatus paymentID M) (\<lambda>s. Inr (IsSettledStatus s))"

definition FailPayment :: "time \<Rightarrow> time \<Rightarrow> string \<Rightarrow> string \<Rightarrow> market \<Rightarrow> step_result" where
  "FailPayment db_now now midtransOrderID failedStatus M =
    (if \<not> IsFailedStatus failedStatus then Inl (Refused ''failed status'')
     else sum_bind (prepo_GetForUpdate midtransOrderID M) (\<lambda>p.
       if payment_IsFailed p \<or> payment_IsSettled p then Inr M
       else sum_bind (prepo_MarkAsFailed db_now (pm_ID p) failedStatus M) (\<lambda>M1.
         if pm_CoinsToUse p > 0 then with_coins (repo_ReleaseReservation now (pm_ID p)) M1 else Inr M1)))"

definition ValidatePaymentAmount :: "string \<Rightarrow> money \<Rightarrow> market \<Rightarrow> market_error + unit" where
  "ValidatePaymentAmount midtransOrderID webhookAmount M =
    sum_bind (prepo_GetByMidtransOrderID midtransOrderID M) (\<lambda>p.
    guard (money_Equal (pm_GrossAmount p) webhookAmount) (Refused ''amount mismatch''))"

section \<open>What settling and failing do\<close>

lemma payment_by_id_keeps: "(\<And>p. pm_ID (f p) = pm_ID p) \<Longrightarrow>
    payment_by_id j (set_payment i f M) = map_option (\<lambda>p. if pm_ID p = i then f p else p) (payment_by_id j M)"
proof -
  assume f: "\<And>p. pm_ID (f p) = pm_ID p"
  have "find (\<lambda>p. pm_ID p = j) (map (\<lambda>p. if pm_ID p = i then f p else p) ps)
      = map_option (\<lambda>p. if pm_ID p = i then f p else p) (find (\<lambda>p. pm_ID p = j) ps)" for ps
    by (induction ps) (use f in auto)
  then show ?thesis by (simp add: payment_by_id_def set_payment_def)
qed

lemma payment_by_id_ID: "payment_by_id i M = Some p \<Longrightarrow> pm_ID p = i"
  by (auto simp: payment_by_id_def find_Some_iff)

lemma payment_by_id_set:
  "(\<And>p. pm_ID (f p) = pm_ID p) \<Longrightarrow> payment_by_id j (set_payment i f M)
    = (if j = i then map_option f (payment_by_id i M) else payment_by_id j M)"
  by (cases "payment_by_id j M") (auto simp: payment_by_id_keeps dest: payment_by_id_ID)

lemmas payment_defs = prepo_MarkAsSettlement_def prepo_MarkAsCapture_def prepo_MarkAsFailed_def settle_locked_def

text \<open>The statuses of all payments, and how one may move.\<close>

definition payment_moves :: "string \<Rightarrow> string \<Rightarrow> bool" where
  "payment_moves s t \<longleftrightarrow> s = ''pending'' \<and> (IsSettledStatus t \<or> IsFailedStatus t)"

definition payments_advance :: "market \<Rightarrow> market \<Rightarrow> bool" where
  "payments_advance M M' \<longleftrightarrow> map pm_ID (mk_Payments M') = map pm_ID (mk_Payments M)
    \<and> list_all2 (\<lambda>p q. pm_Status q = pm_Status p \<or> payment_moves (pm_Status p) (pm_Status q)) (mk_Payments M) (mk_Payments M')"

lemma payments_advance_refl: "mk_Payments M' = mk_Payments M \<Longrightarrow> payments_advance M M'"
  by (simp add: payments_advance_def list_all2_refl)

lemma set_payment_advances:
  assumes "payment_by_id i M = Some p" "payment_IsPending p" "distinct (map pm_ID (mk_Payments M))"
    and "\<And>p. pm_ID (f p) = pm_ID p" "\<And>p. IsSettledStatus (pm_Status (f p)) \<or> IsFailedStatus (pm_Status (f p))"
  shows "payments_advance M (set_payment i f M)"
proof -
  have "pm_Status q = ''pending''" if "q \<in> set (mk_Payments M)" "pm_ID q = i" for q
    using assms(1-3) that by (auto simp: payment_by_id_def find_Some_iff payment_IsPending_def distinct_map inj_on_def)
  then have "list_all2 (\<lambda>p q. pm_Status q = pm_Status p \<or> payment_moves (pm_Status p) (pm_Status q)) (mk_Payments M)
      (map (\<lambda>p. if pm_ID p = i then f p else p) (mk_Payments M))"
    using assms(5) by (auto simp: list_all2_map2 payment_moves_def intro!: list.rel_refl_strong)
  then show ?thesis using assms(4) by (auto simp: payments_advance_def set_payment_def)
qed

end
