(* ===== verification/Settlement.thy ===== *)
theory Settlement
  imports PaymentService EscrowService
begin

text \<open>
  \<open>integration/payment/application/canonical_finalization_service.go\<close>: what
  happens, in one transaction, when the payment of an order settles, with
  \<open>MarkPaid\<close> of the order services (\<open>order_completion_service.go\<close>) and the
  auctions table. \<open>clk\<close> and \<open>ids\<close> number the clock readings and the new ids
  of a call; all services are wired.
\<close>

section \<open>The auctions table\<close>

definition aurepo_GetForUpdate :: "uuid \<Rightarrow> market \<Rightarrow> market_error + auction" where
  "aurepo_GetForUpdate i M = found ''auction'' (find (\<lambda>a. au_ID a = i) (mk_Auctions M))"

text \<open>The extension is stored in whole seconds.\<close>

definition written_auction :: "auction \<Rightarrow> auction \<Rightarrow> auction" where
  "written_auction a row = row
    \<lparr>au_OrderID := au_OrderID a, au_StartPrice := au_StartPrice a, au_BidIncrement := au_BidIncrement a,
     au_BuyNowPrice := au_BuyNowPrice a, au_StartAt := au_StartAt a, au_EndAt := au_EndAt a,
     au_CurrentBid := au_CurrentBid a, au_CurrentWinnerID := au_CurrentWinnerID a,
     au_ShippingResolvedAt := au_ShippingResolvedAt a, au_SellerActionRequired := au_SellerActionRequired a,
     au_SellerQuoteProvided := au_SellerQuoteProvided a, au_Status := au_Status a, au_UpdatedAt := au_UpdatedAt a,
     au_AntiSnipeExtensionTotal := (au_AntiSnipeExtensionTotal a sdiv second) * second\<rparr>"

definition aurepo_UpdateTx :: "auction \<Rightarrow> market \<Rightarrow> market" where
  "aurepo_UpdateTx a M =
    M\<lparr>mk_Auctions := map (\<lambda>row. if au_ID row = au_ID a then written_auction a row else row) (mk_Auctions M)\<rparr>"

section \<open>Marking the order paid\<close>

definition settleAuctionOnPaymentSuccess :: "time \<Rightarrow> order \<Rightarrow> market \<Rightarrow> step_result" where
  "settleAuctionOnPaymentSuccess now o1 M =
    sum_bind (aurepo_GetForUpdate (or_SourceID o1) M) (\<lambda>a.
    if au_Status a \<noteq> AuctionWaitingSettlement then Inr M
    else sum_bind (moved AuctionFault (auction_Settle now a)) (\<lambda>a1. Inr (aurepo_UpdateTx a1 M)))"

definition ocs_MarkPaid :: "(nat \<Rightarrow> time) \<Rightarrow> uuid \<Rightarrow> market \<Rightarrow> step_result" where
  "ocs_MarkPaid clk orderID M =
    sum_bind (orepo_GetForUpdate orderID M) (\<lambda>o1.
    if order_IsExpired (clk 0) o1 then Inl (Refused ''cannot mark paid - order expired'')
    else if or_Status o1 = OrderPaid then Inr M
    else sum_bind (GetEscrowForOrder orderID M) (\<lambda>escrowRow.
      case escrowRow of
        None \<Rightarrow> Inl (Refused ''settled order has no escrow row'')
      | Some _ \<Rightarrow>
          sum_bind (moved OrderFault (order_MarkPaid (clk 1) (clk 2) o1)) (\<lambda>o2.
          let M1 = orepo_UpdateStatusTx o2 M in
          sum_bind (if or_SourceType o2 = SourceAuction then settleAuctionOnPaymentSuccess (clk 3) o2 M1 else Inr M1)
            (\<lambda>M2. Inr (InsertEvent ''order.paid'' (or_ID o2) M2)))))"

section \<open>Finalization\<close>

definition FinalizeOrderPayment ::
    "(nat \<Rightarrow> time) \<Rightarrow> (nat \<Rightarrow> uuid) \<Rightarrow> payment \<Rightarrow> string \<Rightarrow> string \<Rightarrow> market \<Rightarrow> step_result" where
  "FinalizeOrderPayment clk ids p transactionID paymentType M =
    (if pm_ReferenceType p \<noteq> ''order'' then Inl (Refused ''only order payments'')
     else case pm_ReferenceID p of
       None \<Rightarrow> Inl (Refused ''reference_id'')
     | Some orderID \<Rightarrow>
         if orderID = uuid_nil then Inl (Refused ''reference_id'')
         else
           sum_bind (SettlePaymentByID (clk 10) (clk 11) (clk 12) (pm_ID p) transactionID paymentType M) (\<lambda>M1.
           sum_bind (if pm_CoinsToUse p > 0
             then with_coins (ConsumeAndSpendForOrder (clk 13) (ids 0) (clk 14) (clk 15) (pm_UserID p) orderID
               (pm_ID p) (pm_CoinsToUse p)) M1
             else Inr M1) (\<lambda>M2.
           sum_bind (orepo_GetForUpdate orderID M2) (\<lambda>o1.
           sum_bind (with_ledger (RecordGatewayPaymentSettlement (ids 1) (pm_ID p) orderID transactionID
             (pm_GrossAmount p)) M2) (\<lambda>M3.
           sum_bind (with_ledger (RecordBuyerPaymentFeeRevenue (ids 2) (pm_ID p) orderID (pm_ServiceFeeAmount p)) M3) (\<lambda>M4.
           sum_bind (if pm_CoinsToUse p > 0
             then with_ledger (RecordCoinFunding (ids 3) (pm_ID p) orderID (pm_CoinsToUse p)) M4
             else Inr M4) (\<lambda>M5.
           sum_bind (CreateEscrowFromGatewaySettlement (ids 4) (clk 16) orderID (or_BuyerID o1) (or_SellerID o1)
             (op_TotalBeforeCoinsAmount (or_Pricing o1)) M5) (\<lambda>(e, M6).
           ocs_MarkPaid clk orderID M6))))))))"

section \<open>What a step leaves alone\<close>

lemma InsertEvent_frame [simp]:
  "mk_Orders (InsertEvent t i M) = mk_Orders M" "mk_Payments (InsertEvent t i M) = mk_Payments M"
  "mk_Escrows (InsertEvent t i M) = mk_Escrows M" "mk_Ledger (InsertEvent t i M) = mk_Ledger M"
  "mk_Coins (InsertEvent t i M) = mk_Coins M" "mk_Refunds (InsertEvent t i M) = mk_Refunds M"
  "mk_Disputes (InsertEvent t i M) = mk_Disputes M" "mk_Requests (InsertEvent t i M) = mk_Requests M"
  "mk_Auctions (InsertEvent t i M) = mk_Auctions M" "mk_Events (InsertEvent t i M) = mk_Events M"
  "mk_Attempts (InsertEvent t i M) = mk_Attempts M"
  by (simp_all add: InsertEvent_def)

lemma UpdateStatusTx_frame [simp]:
  "mk_Payments (orepo_UpdateStatusTx o1 M) = mk_Payments M"
  "mk_Escrows (orepo_UpdateStatusTx o1 M) = mk_Escrows M" "mk_Ledger (orepo_UpdateStatusTx o1 M) = mk_Ledger M"
  "mk_Coins (orepo_UpdateStatusTx o1 M) = mk_Coins M" "mk_Refunds (orepo_UpdateStatusTx o1 M) = mk_Refunds M"
  "mk_Disputes (orepo_UpdateStatusTx o1 M) = mk_Disputes M" "mk_Requests (orepo_UpdateStatusTx o1 M) = mk_Requests M"
  "mk_Auctions (orepo_UpdateStatusTx o1 M) = mk_Auctions M" "mk_Events (orepo_UpdateStatusTx o1 M) = mk_Events M"
  "mk_Attempts (orepo_UpdateStatusTx o1 M) = mk_Attempts M"
  by (simp_all add: orepo_UpdateStatusTx_def)

lemma settleAuction_frame:
  "settleAuctionOnPaymentSuccess now o1 M = Inr M' \<Longrightarrow> \<exists>as. M' = M\<lparr>mk_Auctions := as\<rparr>"
  by (cases M) (auto simp: settleAuctionOnPaymentSuccess_def aurepo_UpdateTx_def sum_bind_Inr split: if_splits)

section \<open>The pieces of a finalization\<close>

definition order_by_id :: "uuid \<Rightarrow> market \<Rightarrow> order option" where
  "order_by_id i M = find (\<lambda>o1. or_ID o1 = i) (mk_Orders M)"

lemma GetForUpdate_Inr [simp]: "orepo_GetForUpdate i M = Inr o1 \<longleftrightarrow> order_by_id i M = Some o1"
  by (simp add: orepo_GetForUpdate_def order_by_id_def)

lemma order_by_id_ID: "order_by_id i M = Some o1 \<Longrightarrow> or_ID o1 = i"
  by (auto simp: order_by_id_def find_Some_iff)

lemma order_by_id_update:
  "order_by_id i M = Some row \<Longrightarrow> or_ID o1 = i \<Longrightarrow> order_by_id i (orepo_UpdateStatusTx o1 M) = Some (written_order o1 row)"
proof -
  assume "order_by_id i M = Some row" "or_ID o1 = i"
  moreover have "find (\<lambda>x. or_ID x = i) (map (\<lambda>row. if or_ID row = or_ID o1 then written_order o1 row else row) (mk_Orders M))
     = map_option (\<lambda>row. if or_ID row = or_ID o1 then written_order o1 row else row) (find (\<lambda>x. or_ID x = i) (mk_Orders M))"
    by (rule find_map_keep) (simp add: written_order_def)
  ultimately show ?thesis
    using order_by_id_ID [of i M row] by (simp add: order_by_id_def orepo_UpdateStatusTx_def)
qed

lemma SettlePaymentByID_pending:
  assumes "payment_by_id i M = Some p" "payment_IsPending p" "SettlePaymentByID a b c i tid pt M = Inr M'"
  shows "M' = set_payment i (\<lambda>p. p\<lparr>pm_Status := ''settlement'', pm_TransactionID := Some tid,
           pm_PaymentType := Some pt, pm_PaidAt := Some b, pm_UpdatedAt := c\<rparr>) M"
  using assms payment_by_id_ID [OF assms(1)]
  by (auto simp: SettlePaymentByID_def prepo_GetByID_def prepo_GetByIDForUpdate_def settle_locked_def sum_bind_Inr
      payment_IsPending_def payment_IsSettled_def IsSettledStatus_def prepo_MarkAsSettlement_def split: if_splits)

lemma MarkPaid_pending:
  assumes "ocs_MarkPaid clk i M = Inr M'" "order_by_id i M = Some o1" "or_Status o1 \<noteq> OrderPaid"
  shows "(\<exists>o2. order_by_id i M' = Some o2 \<and> or_Status o2 = OrderPaid) \<and> or_Status o1 = OrderPending
    \<and> \<not> order_IsExpired (clk 0) o1 \<and> mk_Payments M' = mk_Payments M \<and> mk_Escrows M' = mk_Escrows M
    \<and> mk_Ledger M' = mk_Ledger M \<and> mk_Coins M' = mk_Coins M"
proof -
  have ne: "\<not> order_IsExpired (clk 0) o1" using assms(1,2) by (auto simp: ocs_MarkPaid_def sum_bind_Inr)
  obtain o2 M2 where s: "moved OrderFault (order_MarkPaid (clk 1) (clk 2) o1) = Inr o2"
    "(if or_SourceType o2 = SourceAuction then settleAuctionOnPaymentSuccess (clk 3) o2 (orepo_UpdateStatusTx o2 M)
      else Inr (orepo_UpdateStatusTx o2 M)) = Inr M2" "M' = InsertEvent ''order.paid'' (or_ID o2) M2"
    using assms ne by (auto simp: ocs_MarkPaid_def sum_bind_Inr Let_def split: option.splits split del: if_split)
  have "\<exists>as. M2 = (orepo_UpdateStatusTx o2 M)\<lparr>mk_Auctions := as\<rparr>"
  proof (cases "or_SourceType o2 = SourceAuction")
    case True
    then show ?thesis using s(2) settleAuction_frame by simp
  next
    case False
    then have "M2 = (orepo_UpdateStatusTx o2 M)\<lparr>mk_Auctions := mk_Auctions (orepo_UpdateStatusTx o2 M)\<rparr>"
      using s(2) by simp
    then show ?thesis ..
  qed
  then obtain as where M2: "M2 = (orepo_UpdateStatusTx o2 M)\<lparr>mk_Auctions := as\<rparr>" ..
  have o2: "or_ID o2 = i" "or_Status o2 = OrderPaid" "or_Status o1 = OrderPending"
    using s(1) order_by_id_ID [OF assms(2)] assms(3)
    by (auto simp: moved_Inr mutation order_canTransition_def Let_def split: if_splits option.splits)
      (cases "or_Status o1"; simp)+
  show ?thesis
    using order_by_id_update [OF assms(2) o2(1)] o2(2,3) ne
    by (auto simp: s(3) M2 order_by_id_def written_order_def)
qed

lemma set_payment_frame [simp]:
  "mk_Orders (set_payment i f M) = mk_Orders M" "mk_Escrows (set_payment i f M) = mk_Escrows M"
  "mk_Ledger (set_payment i f M) = mk_Ledger M" "mk_Coins (set_payment i f M) = mk_Coins M"
  "mk_Disputes (set_payment i f M) = mk_Disputes M" "mk_Auctions (set_payment i f M) = mk_Auctions M"
  by (simp_all add: set_payment_def)

lemma created_escrow:
  assumes "CreateEscrowFromGatewaySettlement x t i b s n M = Inr (e, M')" "escrow_of i M = None"
  shows "M' = M\<lparr>mk_Escrows := mk_Escrows M @ [e]\<rparr> \<and> es_OrderID e = i \<and> holding_of e = Held n \<and> 0 < n"
proof -
  have "i \<noteq> uuid_nil" "b \<noteq> uuid_nil" "s \<noteq> uuid_nil" "\<not> n \<le> 0"
    using assms by (auto simp: CreateEscrowFromGatewaySettlement_def split: if_splits)
  then show ?thesis
    using assms by (auto simp: CreateEscrowFromGatewaySettlement_def NewEscrow_def esrepo_Create_def)
qed

lemma created_book:
  assumes "escrow_of i M = None" "es_OrderID e = i"
  shows "escrow_book (M\<lparr>mk_Escrows := mk_Escrows M @ [e]\<rparr>) = (escrow_book M)(i \<mapsto> holding_of e)"
proof
  fix j
  show "escrow_book (M\<lparr>mk_Escrows := mk_Escrows M @ [e]\<rparr>) j = ((escrow_book M)(i \<mapsto> holding_of e)) j"
    using assms by (cases "escrow_of j M") (auto simp: escrow_book_def escrow_of_def find_snoc)
qed

text \<open>All keys that the finalization of a payment uses in the ledger.\<close>

definition payment_keys :: "string \<Rightarrow> uuid \<Rightarrow> idem_key set" where
  "payment_keys tid i = {KeyText ''payment_settlement_'' tid, KeyUuid ''payment_fee_revenue_'' i, KeyUuid ''coin_funding_'' i}"

lemma funding_effect:
  assumes "RecordGatewayPaymentSettlement x1 p o' tid gross L = Inr L1"
    and "RecordBuyerPaymentFeeRevenue x2 p o' f L1 = Inr L2"
    and "if k > 0 then RecordCoinFunding x3 p o' k L2 = Inr L3 else L3 = L2"
    and "rows_ok L" "in_i64 gross" "in_i64 f" "in_i64 k" "recorded_keys L \<inter> payment_keys tid p = {}"
  shows "rows_ok L3 \<and> recorded_keys L3 \<subseteq> recorded_keys L \<union> payment_keys tid p
    \<and> held None AccountGatewayClearing L3 = held None AccountGatewayClearing L + gross - f + max k 0
    \<and> held None AccountBankSettlement L3 = held None AccountBankSettlement L - gross
    \<and> held None AccountPlatformRevenue L3 = held None AccountPlatformRevenue L + f
    \<and> held None AccountPlatformCoinBenefit L3 = held None AccountPlatformCoinBenefit L + max k 0
    \<and> (\<forall>u t. (u, t) \<notin> {(None, AccountGatewayClearing), (None, AccountBankSettlement),
          (None, AccountPlatformCoinBenefit), (None, AccountPlatformRevenue)} \<longrightarrow> held u t L3 = held u t L)"
proof -
  have n0: "KeyText ''payment_settlement_'' tid \<notin> recorded_keys L" "KeyUuid ''payment_fee_revenue_'' p \<notin> recorded_keys L"
    "KeyUuid ''coin_funding_'' p \<notin> recorded_keys L"
    using assms(8) by (auto simp: payment_keys_def)
  note e1 = settlement_effect [OF assms(1,4,5) n0(1)]
  have n1: "KeyUuid ''payment_fee_revenue_'' p \<notin> recorded_keys L1" "KeyUuid ''coin_funding_'' p \<notin> recorded_keys L1"
    using e1 n0 by auto
  note e2 = buyer_fee_effect [OF assms(2) _ assms(6) n1(1)]
  have n2: "KeyUuid ''coin_funding_'' p \<notin> recorded_keys L2" using e1 e2 n1 by auto
  have r1: "rows_ok L1" "\<And>P. signed_where P L1 = signed_where P L
      + (if P None AccountGatewayClearing then - gross else 0) + (if P None AccountBankSettlement then gross else 0)"
    using e1 by blast+
  have r2: "rows_ok L2" "\<And>P. signed_where P L2 = signed_where P L1
      + (if P None AccountGatewayClearing then f else 0) + (if P None AccountPlatformRevenue then - f else 0)"
    using e2 [OF r1(1)] by blast+
  have "rows_ok L3 \<and> recorded_keys L3 \<subseteq> insert (KeyUuid ''coin_funding_'' p) (recorded_keys L2)
    \<and> (\<forall>P. signed_where P L3 = signed_where P L2 + (if P None AccountPlatformCoinBenefit then max k 0 else 0)
      + (if P None AccountGatewayClearing then - max k 0 else 0))"
  proof (cases "k > 0")
    case True
    then have "RecordCoinFunding x3 p o' k L2 = Inr L3" and m: "max k 0 = k" using assms(3) by simp_all
    from coin_funding_effect [OF this(1) r2(1) assms(7) n2] show ?thesis unfolding m by blast
  next
    case False
    then have "L3 = L2" "max k 0 = 0" using assms(3) by simp_all
    then show ?thesis using r2(1) by (simp add: subset_insertI)
  qed
  then have r3: "rows_ok L3" "recorded_keys L3 \<subseteq> insert (KeyUuid ''coin_funding_'' p) (recorded_keys L2)"
    "\<And>P. signed_where P L3 = signed_where P L2 + (if P None AccountPlatformCoinBenefit then max k 0 else 0)
      + (if P None AccountGatewayClearing then - max k 0 else 0)"
    by blast+
  have "recorded_keys L3 \<subseteq> recorded_keys L \<union> payment_keys tid p"
    using r3(2) e2 [OF r1(1)] e1 by (auto simp: payment_keys_def)
  then show ?thesis
    unfolding held_signed r3(3) r2(2) r1(2) using r3(1)
    by (auto simp: class_DebitIncreasesBalance_def)
qed

text \<open>The steps of a finalization that succeeded, one by one.\<close>

lemma finalization_steps:
  assumes "FinalizeOrderPayment clk ids p tid pt M = Inr M'" "pm_ReferenceID p = Some i"
  obtains M1 M2 M3 M4 M5 M6 o1 e where
    "pm_ReferenceType p = ''order''" "i \<noteq> uuid_nil"
    "SettlePaymentByID (clk 10) (clk 11) (clk 12) (pm_ID p) tid pt M = Inr M1"
    "(if pm_CoinsToUse p > 0
      then with_coins (ConsumeAndSpendForOrder (clk 13) (ids 0) (clk 14) (clk 15) (pm_UserID p) i (pm_ID p) (pm_CoinsToUse p)) M1
      else Inr M1) = Inr M2"
    "order_by_id i M2 = Some o1"
    "with_ledger (RecordGatewayPaymentSettlement (ids 1) (pm_ID p) i tid (pm_GrossAmount p)) M2 = Inr M3"
    "with_ledger (RecordBuyerPaymentFeeRevenue (ids 2) (pm_ID p) i (pm_ServiceFeeAmount p)) M3 = Inr M4"
    "(if pm_CoinsToUse p > 0 then with_ledger (RecordCoinFunding (ids 3) (pm_ID p) i (pm_CoinsToUse p)) M4 else Inr M4) = Inr M5"
    "CreateEscrowFromGatewaySettlement (ids 4) (clk 16) i (or_BuyerID o1) (or_SellerID o1)
       (op_TotalBeforeCoinsAmount (or_Pricing o1)) M5 = Inr (e, M6)"
    "ocs_MarkPaid clk i M6 = Inr M'"
proof -
  have "pm_ReferenceType p = ''order''" "i \<noteq> uuid_nil"
    using assms by (auto simp: FinalizeOrderPayment_def split: if_splits)
  then show ?thesis
    using assms by (simp add: FinalizeOrderPayment_def sum_bind_Inr split_paired_Ex del: One_nat_def neq0_conv split del: if_split)
      (elim exE conjE, rule that, assumption+)
qed

lemma with_coins_frame: "with_coins f M = Inr M' \<Longrightarrow> \<exists>db. M' = M\<lparr>mk_Coins := db\<rparr>"
  by (auto simp: with_coins_Inr)

lemma coin_step:
  assumes "(if b then with_coins f M else Inr M) = Inr M'"
  shows "\<exists>db. M' = M\<lparr>mk_Coins := db\<rparr> \<and> (if b then \<exists>x. f (mk_Coins M) = (Inr x, db) else db = mk_Coins M)"
  using assms by (cases b) (auto simp: with_coins_Inr intro: exI [of _ "mk_Coins M"])

lemma ledger_step:
  assumes "(if b then with_ledger f M else Inr M) = Inr M'"
  shows "\<exists>L. M' = M\<lparr>mk_Ledger := L\<rparr> \<and> (if b then f (mk_Ledger M) = Inr L else L = mk_Ledger M)"
  using assms by (cases b) (auto simp: with_ledger_Inr intro: exI [of _ "mk_Ledger M"])

text \<open>Coins reserved for a payment are taken once when it consumes them.\<close>

definition reserved_for :: "payment \<Rightarrow> uuid \<Rightarrow> coins_db \<Rightarrow> bool" where
  "reserved_for p i db \<longleftrightarrow> coins_ok db \<and> (\<exists>r. find_reservation db (pm_ID p) = Some r \<and> rs_Status r = ReservationReserved
     \<and> rs_UserID r = pm_UserID p \<and> rs_Amount r = pm_CoinsToUse p)
   \<and> (\<forall>s \<in> set (cd_Transactions db). \<not> (ct_UserID s = pm_UserID p \<and> ct_ReferenceType s = RefOrderSpend \<and> ct_ReferenceID s = Some i))"

lemma consumed_balance:
  assumes "ConsumeAndSpendForOrder t j c n (pm_UserID p) i (pm_ID p) (pm_CoinsToUse p) db = (Inr x, db')" "reserved_for p i db"
  shows "ledger_balance db' (pm_UserID p) = ledger_balance db (pm_UserID p) - pm_CoinsToUse p"
proof -
  obtain r where r: "coins_ok db" "find_reservation db (pm_ID p) = Some r" "rs_Status r = ReservationReserved"
    "rs_UserID r = pm_UserID p" "rs_Amount r = pm_CoinsToUse p"
    "\<forall>s \<in> set (cd_Transactions db). \<not> (ct_UserID s = rs_UserID r \<and> ct_ReferenceType s = RefOrderSpend \<and> ct_ReferenceID s = Some i)"
    using assms(2) by (auto simp: reserved_for_def)
  show ?thesis
    using Consume_commits [OF r(1-3,6), of t j c n] assms(1) by (auto simp: r(4,5) ledger_balance_def signed_amount_def)
qed

section \<open>A settled sale\<close>

text \<open>A concrete payment of 1065 with a fee of 5 and 40 coins, for an order of 1100.\<close>

definition sample_payment :: payment where
  "sample_payment = \<lparr>pm_ID = 70, pm_UserID = 2, pm_PaymentNumber = ''PAY-1'', pm_MidtransOrderID = ''LAB-1'',
     pm_GrossAmount = 1065, pm_ServiceFeeAmount = 5, pm_CoinsToUse = 40, pm_CoinDiscountAmount = 40,
     pm_Status = ''pending'', pm_ReferenceType = ''order'', pm_ReferenceID = Some 1, pm_PaymentMethodCode = None,
     pm_SubscriptionDurationDays = None, pm_TransactionID = None, pm_PaymentType = None, pm_PaidAt = None,
     pm_ExpiredAt = 1000, pm_CreatedAt = 0, pm_UpdatedAt = 0\<rparr>"

definition ground_market :: market where
  "ground_market = blank_market\<lparr>mk_Orders := [sample_order], mk_Payments := [sample_payment],
     mk_Ledger := opening_books, mk_Coins := coins_reserved\<rparr>"

definition sample_clock :: "nat \<Rightarrow> time" where
  "sample_clock n = 500"

definition sample_ids :: "nat \<Rightarrow> uuid" where
  "sample_ids n = 2000 + n"

definition paid_market :: market where
  "paid_market = (case FinalizeOrderPayment sample_clock sample_ids sample_payment ''mid'' ''qris'' ground_market of
     Inl _ \<Rightarrow> blank_market | Inr M \<Rightarrow> M)"

lemma ground_market_settles:
  "FinalizeOrderPayment sample_clock sample_ids sample_payment ''mid'' ''qris'' ground_market = Inr paid_market"
proof -
  have "case FinalizeOrderPayment sample_clock sample_ids sample_payment ''mid'' ''qris'' ground_market of
      Inl _ \<Rightarrow> False | Inr M \<Rightarrow> True" by code_simp
  then show ?thesis by (simp add: paid_market_def split: sum.splits)
qed

section \<open>Property\<close>

text \<open>
  C3. When the payment of an order is finalized it is settled and stamped, the
  order was pending and unexpired and is now paid, exactly one escrow more holds
  exactly the buyer base of the order, and no other escrow moves; clearing gains
  the gross amount less the buyer's fee plus the coins the platform funds, the
  bank, the revenue and the coin benefit accounts carry exactly their part and
  no other account changes; and coins reserved for this payment leave the
  buyer's balance exactly once.
\<close>

theorem order_payment_settles_exactly:
  assumes fin: "FinalizeOrderPayment clk ids p tid pt M = Inr M'" and ref: "pm_ReferenceID p = Some i"
    and pay: "payment_by_id (pm_ID p) M = Some p" "payment_IsPending p"
    and ord: "order_by_id i M = Some o1" "or_Status o1 \<noteq> OrderPaid" and esc: "escrow_of i M = None"
    and led: "rows_ok (mk_Ledger M)" "recorded_keys (mk_Ledger M) \<inter> payment_keys tid (pm_ID p) = {}"
    and range: "in_i64 (pm_GrossAmount p)" "in_i64 (pm_ServiceFeeAmount p)" "in_i64 (pm_CoinsToUse p)"
  shows "(\<exists>q. payment_by_id (pm_ID p) M' = Some q \<and> pm_Status q = ''settlement'' \<and> pm_PaidAt q = Some (clk 11))
    \<and> or_Status o1 = OrderPending \<and> \<not> order_IsExpired (clk 0) o1
    \<and> (\<exists>o2. order_by_id i M' = Some o2 \<and> or_Status o2 = OrderPaid)
    \<and> escrow_book M' = (escrow_book M)(i \<mapsto> Held (op_TotalBeforeCoinsAmount (or_Pricing o1)))
    \<and> held None AccountGatewayClearing (mk_Ledger M') = held None AccountGatewayClearing (mk_Ledger M)
        + pm_GrossAmount p - pm_ServiceFeeAmount p + max (pm_CoinsToUse p) 0
    \<and> held None AccountBankSettlement (mk_Ledger M') = held None AccountBankSettlement (mk_Ledger M) - pm_GrossAmount p
    \<and> held None AccountPlatformRevenue (mk_Ledger M') = held None AccountPlatformRevenue (mk_Ledger M) + pm_ServiceFeeAmount p
    \<and> held None AccountPlatformCoinBenefit (mk_Ledger M')
        = held None AccountPlatformCoinBenefit (mk_Ledger M) + max (pm_CoinsToUse p) 0
    \<and> (\<forall>u t. (u, t) \<notin> {(None, AccountGatewayClearing), (None, AccountBankSettlement),
          (None, AccountPlatformCoinBenefit), (None, AccountPlatformRevenue)}
        \<longrightarrow> held u t (mk_Ledger M') = held u t (mk_Ledger M))
    \<and> (pm_CoinsToUse p > 0 \<and> reserved_for p i (mk_Coins M) \<longrightarrow>
        ledger_balance (mk_Coins M') (pm_UserID p) = ledger_balance (mk_Coins M) (pm_UserID p) - pm_CoinsToUse p)"
proof -
  obtain M1 M2 M3 M4 M5 M6 o' e where s:
    "SettlePaymentByID (clk 10) (clk 11) (clk 12) (pm_ID p) tid pt M = Inr M1"
    "(if pm_CoinsToUse p > 0
      then with_coins (ConsumeAndSpendForOrder (clk 13) (ids 0) (clk 14) (clk 15) (pm_UserID p) i (pm_ID p) (pm_CoinsToUse p)) M1
      else Inr M1) = Inr M2"
    "order_by_id i M2 = Some o'"
    "with_ledger (RecordGatewayPaymentSettlement (ids 1) (pm_ID p) i tid (pm_GrossAmount p)) M2 = Inr M3"
    "with_ledger (RecordBuyerPaymentFeeRevenue (ids 2) (pm_ID p) i (pm_ServiceFeeAmount p)) M3 = Inr M4"
    "(if pm_CoinsToUse p > 0 then with_ledger (RecordCoinFunding (ids 3) (pm_ID p) i (pm_CoinsToUse p)) M4 else Inr M4) = Inr M5"
    "CreateEscrowFromGatewaySettlement (ids 4) (clk 16) i (or_BuyerID o') (or_SellerID o')
       (op_TotalBeforeCoinsAmount (or_Pricing o')) M5 = Inr (e, M6)"
    "ocs_MarkPaid clk i M6 = Inr M'"
    by (rule finalization_steps [OF fin ref])
  define M1' where "M1' = set_payment (pm_ID p) (\<lambda>p. p\<lparr>pm_Status := ''settlement'', pm_TransactionID := Some tid,
           pm_PaymentType := Some pt, pm_PaidAt := Some (clk 11), pm_UpdatedAt := clk 12\<rparr>) M"
  have M1: "M1 = M1'" unfolding M1'_def by (rule SettlePaymentByID_pending [OF pay s(1)])
  obtain db where db0: "M2 = M1\<lparr>mk_Coins := db\<rparr> \<and> (if pm_CoinsToUse p > 0 then \<exists>x.
      ConsumeAndSpendForOrder (clk 13) (ids 0) (clk 14) (clk 15) (pm_UserID p) i (pm_ID p) (pm_CoinsToUse p) (mk_Coins M1) = (Inr x, db)
      else db = mk_Coins M1)"
    using coin_step [OF s(2)] by blast
  then have M2: "M2 = M1\<lparr>mk_Coins := db\<rparr>" and db: "pm_CoinsToUse p > 0 \<Longrightarrow> \<exists>x.
      ConsumeAndSpendForOrder (clk 13) (ids 0) (clk 14) (clk 15) (pm_UserID p) i (pm_ID p) (pm_CoinsToUse p) (mk_Coins M1) = (Inr x, db)"
    by simp_all
  obtain L1 L2 where L: "M3 = M2\<lparr>mk_Ledger := L1\<rparr>" "M4 = M3\<lparr>mk_Ledger := L2\<rparr>"
    "RecordGatewayPaymentSettlement (ids 1) (pm_ID p) i tid (pm_GrossAmount p) (mk_Ledger M) = Inr L1"
    "RecordBuyerPaymentFeeRevenue (ids 2) (pm_ID p) i (pm_ServiceFeeAmount p) L1 = Inr L2"
    using s(4,5) by (auto simp: with_ledger_Inr M1 M1'_def M2)
  obtain L3 where L3: "M5 = M4\<lparr>mk_Ledger := L3\<rparr>"
    "if pm_CoinsToUse p > 0 then RecordCoinFunding (ids 3) (pm_ID p) i (pm_CoinsToUse p) L2 = Inr L3 else L3 = L2"
    using ledger_step [OF s(6)] unfolding L(2)
    by (cases "0 < pm_CoinsToUse p") auto
  have o': "o' = o1" using s(3) ord(1) by (simp add: M2 M1 M1'_def order_by_id_def)
  have "escrow_of i M5 = None" using esc by (simp add: L3 L M2 M1 M1'_def escrow_of_def)
  note c = created_escrow [OF s(7) this]
  note book = created_book [OF \<open>escrow_of i M5 = None\<close>, of e]
  have o6: "order_by_id i M6 = Some o1" using ord(1) c by (simp add: L3 L M2 M1 M1'_def order_by_id_def)
  note m = MarkPaid_pending [OF s(8) o6 ord(2)]
  have "payment_by_id (pm_ID p) M' = payment_by_id (pm_ID p) M1'"
    using m c by (simp add: payment_by_id_def L3 L M2 M1)
  moreover have "escrow_book M' = (escrow_book M)(i \<mapsto> Held (op_TotalBeforeCoinsAmount (or_Pricing o1)))"
    using m c book by (simp add: escrow_book_def escrow_of_def fun_eq_iff L3 L M2 M1 M1'_def o')
  moreover have "mk_Ledger M' = L3" using m c by (simp add: L3)
  moreover have "\<exists>q. payment_by_id (pm_ID p) M1' = Some q \<and> pm_Status q = ''settlement'' \<and> pm_PaidAt q = Some (clk 11)"
    unfolding M1'_def using pay(1) by (simp add: payment_by_id_set)
  moreover have "mk_Coins M' = db" using m c by (simp add: L3 L M2)
  moreover have "pm_CoinsToUse p > 0 \<and> reserved_for p i (mk_Coins M) \<longrightarrow>
      ledger_balance db (pm_UserID p) = ledger_balance (mk_Coins M) (pm_UserID p) - pm_CoinsToUse p"
    using db consumed_balance by (fastforce simp: M1 M1'_def)
  ultimately show ?thesis
    using m funding_effect [OF L(3,4) L3(2) led(1) range led(2)] by simp
qed

theorem order_payment_settles_exactly_witness:
  "escrow_book paid_market 1 = Some (Held 1100)
    \<and> held None AccountGatewayClearing (mk_Ledger paid_market) = held None AccountGatewayClearing opening_books + 1100
    \<and> ledger_balance (mk_Coins paid_market) 2 = 60"
proof -
  have g: "payment_by_id (pm_ID sample_payment) ground_market = Some sample_payment"
    "order_by_id 1 ground_market = Some sample_order" "escrow_of 1 ground_market = None"
    "mk_Ledger ground_market = opening_books" "mk_Coins ground_market = coins_reserved"
    by (simp_all add: ground_market_def payment_by_id_def order_by_id_def escrow_of_def blank_market_def
        sample_order_defs)
  have o: "or_Status sample_order \<noteq> OrderPaid" "op_TotalBeforeCoinsAmount (or_Pricing sample_order) = 1100"
    by (simp_all add: sample_order_defs)
  have "rows_ok opening_books" using opening_books_ok by (simp add: ledger_ok_def)
  moreover have "reserved_for sample_payment 1 coins_reserved" "ledger_balance coins_reserved 2 = 100"
    using coins_run.run_keeps [OF coins_reserved_run empty_coins_ok]
    by (simp_all add: reserved_for_def coins_reserved_eq coins_with_100_eq find_reservation_def reserve_40_def
        sample_payment_def ledger_balance_def signed_amount_def)
  ultimately show ?thesis
    using order_payment_settles_exactly [OF ground_market_settles _ g(1) _ g(2) o(1) g(3)] no_keys_at_opening g(4,5) o(2)
    by (simp add: sample_payment_def payment_IsPending_def i64_defs)
qed

end
