(* ===== verification/BillingService.thy ===== *)
theory BillingService
  imports Market
begin

text \<open>
  \<open>finance/billing/application/billing_service.go\<close> and the repository: creating
  a billing transaction, booking a settled one, and failing one. \<open>isActive\<close> stands
  for the account status checker.
\<close>

section \<open>The table\<close>

definition billing_by_id :: "uuid \<Rightarrow> market \<Rightarrow> billing_transaction option" where
  "billing_by_id i M = find (\<lambda>b. bt_ID b = i) (mk_Billings M)"

definition brepo_GetForUpdate :: "uuid \<Rightarrow> market \<Rightarrow> market_error + billing_transaction" where
  "brepo_GetForUpdate i M = found ''billing'' (billing_by_id i M)"

definition brepo_CreateBillingTransaction :: "billing_transaction \<Rightarrow> market \<Rightarrow> step_result" where
  "brepo_CreateBillingTransaction b M =
    (if billing_by_id (bt_ID b) M \<noteq> None then Inl TxAborted else Inr (M\<lparr>mk_Billings := mk_Billings M @ [b]\<rparr>))"

definition brepo_UpdateStatus :: "time \<Rightarrow> billing_transaction \<Rightarrow> market \<Rightarrow> market" where
  "brepo_UpdateStatus now b M = M\<lparr>mk_Billings := map (\<lambda>row. if bt_ID row = bt_ID b
     then row\<lparr>bt_Status := bt_Status b, bt_UpdatedAt := now\<rparr> else row) (mk_Billings M)\<rparr>"

definition brepo_GetStatus :: "uuid \<Rightarrow> market \<Rightarrow> market_error + BillingStatus" where
  "brepo_GetStatus i M = sum_bind (found ''billing'' (billing_by_id i M)) (\<lambda>b. Inr (bt_Status b))"

definition brepo_GetByPayerID :: "uuid \<Rightarrow> nat \<Rightarrow> market \<Rightarrow> billing_transaction list" where
  "brepo_GetByPayerID payerID limit M =
    (let rows = rev (sort_key bt_CreatedAt (filter (\<lambda>b. bt_PayerID b = payerID) (mk_Billings M)))
     in if limit > 0 then take limit rows else rows)"

definition brepo_GetByTargetID :: "uuid \<Rightarrow> market \<Rightarrow> billing_transaction list" where
  "brepo_GetByTargetID targetID M =
    rev (sort_key bt_CreatedAt (filter (\<lambda>b. bt_TargetID b = targetID) (mk_Billings M)))"

section \<open>The service\<close>

definition CreateBillingTransaction ::
    "(uuid \<Rightarrow> bool) \<Rightarrow> uuid \<Rightarrow> time \<Rightarrow> uuid \<Rightarrow> uuid \<Rightarrow> uuid \<Rightarrow> string \<Rightarrow> money \<Rightarrow> i64 \<Rightarrow> market
      \<Rightarrow> market_error + billing_transaction \<times> market" where
  "CreateBillingTransaction isActive new_id now callerID payerID targetID billingType grossAmount platformFeePercent M =
    (if \<not> ValidateCaller callerID then Inl (Refused ''caller'')
     else if \<not> IsSystemCaller callerID \<and> \<not> isActive callerID then Inl (Refused ''account status'')
     else if \<not> IsSystemCaller callerID \<and> callerID \<noteq> payerID then Inl (Refused ''owner required'')
     else case NewBillingTransaction new_id now payerID targetID billingType grossAmount platformFeePercent of
       Inl e \<Rightarrow> Inl (BillingFault e)
     | Inr b \<Rightarrow> sum_bind (brepo_CreateBillingTransaction b M) (\<lambda>M1. Inr (b, M1)))"

definition processPromoteBalanceTopUp ::
    "(nat \<Rightarrow> uuid) \<Rightarrow> billing_transaction \<Rightarrow> uuid option \<Rightarrow> i64 \<Rightarrow> market \<Rightarrow> step_result" where
  "processPromoteBalanceTopUp ids b paymentID serviceFeeAmount M =
    (if bt_GrossAmount b \<le> 0 then Inl (Refused ''gross amount must be positive'')
     else if bt_PlatformFeePercent b \<noteq> 0 \<or> bt_PlatformFeeAmount b \<noteq> 0 then Inl (Refused ''must not carry a platform fee'')
     else sum_bind (with_ledger (RecordPromoteBalanceFunding (ids 0) (ids 1) (bt_ID b) (bt_PayerID b) (bt_GrossAmount b)) M) (\<lambda>M1.
       case paymentID of
         None \<Rightarrow> Inr M1
       | Some p \<Rightarrow> if serviceFeeAmount > 0
           then with_ledger (RecordBillingPaymentFeeRevenue (ids 2) p (bt_ID b) serviceFeeAmount) M1
           else Inr M1))"

text \<open>The boolean tells whether this call made the billing paid.\<close>

definition MarkPaidWithPayment ::
    "(nat \<Rightarrow> time) \<Rightarrow> (nat \<Rightarrow> uuid) \<Rightarrow> uuid \<Rightarrow> uuid option \<Rightarrow> i64 \<Rightarrow> market \<Rightarrow> market_error + bool \<times> market" where
  "MarkPaidWithPayment clk ids billingID paymentID serviceFeeAmount M =
    sum_bind (brepo_GetForUpdate billingID M) (\<lambda>b.
    if bt_Status b = BillingPaid then Inr (False, M)
    else sum_bind (moved BillingFault (billing_MarkPaid (clk 0) b)) (\<lambda>b1.
      if bt_Type b1 = TypePromoteBalanceTopUp
      then sum_bind (processPromoteBalanceTopUp ids b1 paymentID serviceFeeAmount M) (\<lambda>M1.
        Inr (True, brepo_UpdateStatus (clk 1) b1 M1))
      else Inl (Refused ''unsupported billing type'')))"

definition billing_service_MarkPaid :: "(nat \<Rightarrow> time) \<Rightarrow> (nat \<Rightarrow> uuid) \<Rightarrow> uuid \<Rightarrow> market \<Rightarrow> market_error + bool \<times> market" where
  "billing_service_MarkPaid clk ids billingID M = MarkPaidWithPayment clk ids billingID None 0 M"

definition billing_service_MarkFailed :: "(nat \<Rightarrow> time) \<Rightarrow> uuid \<Rightarrow> market \<Rightarrow> step_result" where
  "billing_service_MarkFailed clk billingID M =
    sum_bind (brepo_GetForUpdate billingID M) (\<lambda>b.
    if bt_Status b = BillingFailed then Inr M
    else sum_bind (moved BillingFault (billing_MarkFailed (clk 0) b)) (\<lambda>b1. Inr (brepo_UpdateStatus (clk 1) b1 M)))"

section \<open>What booking a top-up does\<close>

lemma billing_update:
  assumes "billing_by_id i M = Some row" "bt_ID b = i"
  shows "billing_by_id i (brepo_UpdateStatus now b M) = Some (row\<lparr>bt_Status := bt_Status b, bt_UpdatedAt := now\<rparr>)"
proof -
  have "bt_ID row = i" using assms(1) by (auto simp: billing_by_id_def find_Some_iff)
  moreover have "billing_by_id i (brepo_UpdateStatus now b M) = map_option (\<lambda>row. if bt_ID row = bt_ID b
      then row\<lparr>bt_Status := bt_Status b, bt_UpdatedAt := now\<rparr> else row) (billing_by_id i M)"
    unfolding billing_by_id_def brepo_UpdateStatus_def by (simp add: find_map_keep)
  ultimately show ?thesis using assms by simp
qed

lemma funding_held:
  assumes "RecordPromoteBalanceFunding a x i s n L = Inr L'" "rows_ok L" "in_i64 n" "a \<notin> account_ids L"
    and "KeyUuid ''promote_balance_funding_'' i \<notin> recorded_keys L"
  shows "0 < n \<and> rows_ok L' \<and> recorded_keys L' \<subseteq> insert (KeyUuid ''promote_balance_funding_'' i) (recorded_keys L)
    \<and> (\<forall>P. signed_where P L' = signed_where P L + (if P None AccountBankSettlement then n else 0)
         + (if P (Some s) AccountPromoteBalance then - n else 0))"
proof -
  obtain j L1 where o1: "ledger_GetOrCreateUserAccount a AccountPromoteBalance s L = (j, L1)" by fastforce
  obtain bs where g: "0 < n" "ledger_GetSystemAccountID AccountBankSettlement L = Inr bs"
    "ledger_CreateTransaction x (KeyUuid ''promote_balance_funding_'' i) ''promote_balance_funding'' i None None
       [leg bs n, leg j (neg64 n)] L1 = Inr L'"
    using assms(1,5) o1 by (auto simp: RecordPromoteBalanceFunding_def sum_bind_Inr recorded_keys_iff)
  note L1 = GetOrCreateUserAccount_keeps [OF assms(2,4) _ _ o1]
  have r: "rows_ok L1" "owner_of L1 j = Some (Some s, AccountPromoteBalance)"
    "owner_of L1 bs = Some (None, AccountBankSettlement)"
    "\<forall>k. ledger_TransactionExistsByKey k L1 = ledger_TransactionExistsByKey k L" "\<And>P. signed_where P L1 = signed_where P L"
    using L1 GetSystemAccountID_owner [OF assms(2) g(2)] by auto
  have keys: "recorded_keys L1 = recorded_keys L" using r(4) by (auto simp: recorded_keys_iff set_eq_iff)
  have new: "\<not> ledger_TransactionExistsByKey (KeyUuid ''promote_balance_funding_'' i) L1"
    using assms(5) r(4) by (simp add: recorded_keys_iff)
  have neg: "neg64 n = - n" "in_i64 (- n)" using neg64_nonneg [of n] assms(3) g(1) by (auto simp: i64_defs)
  have "signed_where P L' = signed_where P L + (if P None AccountBankSettlement then n else 0)
         + (if P (Some s) AccountPromoteBalance then - n else 0)" for P
    using lg.transact_moves [OF r(1) _ g(3) new, of P] assms(3) r neg by simp
  moreover have "rows_ok L'" using transact_rows [OF g(3) r(1)] assms(3) neg by simp
  ultimately show ?thesis using g(1) transact_keys [OF g(3)] keys by auto
qed

lemma billing_fee_held:
  assumes "RecordBillingPaymentFeeRevenue x p i f L = Inr L'" "rows_ok L" "in_i64 f"
    and "KeyUuid ''billing_fee_revenue_'' p \<notin> recorded_keys L"
  shows "0 \<le> f \<and> rows_ok L' \<and> (\<forall>P. signed_where P L' = signed_where P L + (if P None AccountBankSettlement then f else 0)
         + (if P None AccountPlatformRevenue then - f else 0))"
proof -
  have "f = 0 \<and> L' = L \<or> (\<exists>i j rt r oid pid.
      ledger_CreateTransaction x (KeyUuid ''billing_fee_revenue_'' p) rt r oid pid [leg i f, leg j (neg64 f)] L = Inr L'
      \<and> ledger_GetSystemAccountID AccountBankSettlement L = Inr i \<and> ledger_GetSystemAccountID AccountPlatformRevenue L = Inr j)"
    using assms(1) by (fastforce simp: RecordBillingPaymentFeeRevenue_def sum_bind_Inr split: if_splits)
  moreover have "0 \<le> f"
    using assms(1) by (auto simp: RecordBillingPaymentFeeRevenue_def sum_bind_Inr split: if_splits)
  ultimately show ?thesis
    using two_legs [OF _ _ _ assms(2) _ _ assms(4)] neg64_nonneg [of f] in_i64_wrap64 [of "- f"] assms(2,3)
    by fastforce
qed

section \<open>Property\<close>

text \<open>
  C22. When a settled payment books a top-up for the first time, the billing was
  pending, is paid afterwards, and the seller's Promote Balance grows by exactly
  the amount of the billing and the platform's revenue by exactly the payment
  fee, both out of the bank reserve, and no other account changes; booking the
  same billing again reports that it was paid already and changes nothing.
\<close>

theorem top_up_books_once:
  assumes "MarkPaidWithPayment clk ids i (Some p) f M = Inr (True, M')"
    and "billing_by_id i M = Some b" "rows_ok (mk_Ledger M)" "in_i64 (bt_GrossAmount b)" "in_i64 f" "0 \<le> f"
    and "ids 0 \<notin> account_ids (mk_Ledger M)"
    and "recorded_keys (mk_Ledger M) \<inter> {KeyUuid ''promote_balance_funding_'' i, KeyUuid ''billing_fee_revenue_'' p} = {}"
  shows "bt_Status b = BillingPending
    \<and> (\<exists>b'. billing_by_id i M' = Some b' \<and> bt_Status b' = BillingPaid)
    \<and> held (Some (bt_PayerID b)) AccountPromoteBalance (mk_Ledger M')
        = held (Some (bt_PayerID b)) AccountPromoteBalance (mk_Ledger M) + bt_GrossAmount b
    \<and> held None AccountPlatformRevenue (mk_Ledger M') = held None AccountPlatformRevenue (mk_Ledger M) + f
    \<and> held None AccountBankSettlement (mk_Ledger M') = held None AccountBankSettlement (mk_Ledger M) - bt_GrossAmount b - f
    \<and> (\<forall>u t. (u, t) \<notin> {(Some (bt_PayerID b), AccountPromoteBalance), (None, AccountPlatformRevenue), (None, AccountBankSettlement)}
        \<longrightarrow> held u t (mk_Ledger M') = held u t (mk_Ledger M))
    \<and> MarkPaidWithPayment clk' ids' i q f' M' = Inr (False, M')"
proof -
  have bi: "bt_ID b = i" using assms(2) by (auto simp: billing_by_id_def find_Some_iff)
  obtain b1 M1 where s: "moved BillingFault (billing_MarkPaid (clk 0) b) = Inr b1"
    "processPromoteBalanceTopUp ids b1 (Some p) f M = Inr M1" "M' = brepo_UpdateStatus (clk 1) b1 M1"
    using assms(1,2) by (auto simp: MarkPaidWithPayment_def brepo_GetForUpdate_def sum_bind_Inr split: if_splits)
  have b1: "bt_Status b = BillingPending" "b1 = b\<lparr>bt_Status := BillingPaid, bt_UpdatedAt := clk 0\<rparr>"
    using s(1) by (cases "bt_Status b"; simp add: moved_Inr mutation)+
  obtain L1 L2 where l: "RecordPromoteBalanceFunding (ids 0) (ids 1) i (bt_PayerID b) (bt_GrossAmount b) (mk_Ledger M) = Inr L1"
    "if f > 0 then RecordBillingPaymentFeeRevenue (ids 2) p i f L1 = Inr L2 else L2 = L1" "M1 = M\<lparr>mk_Ledger := L2\<rparr>"
    using s(2) by (cases "f > 0") (auto simp: processPromoteBalanceTopUp_def b1(2) bi sum_bind_Inr with_ledger_Inr split: if_splits)
  have keys: "KeyUuid ''promote_balance_funding_'' i \<notin> recorded_keys (mk_Ledger M)"
    "KeyUuid ''billing_fee_revenue_'' p \<notin> recorded_keys (mk_Ledger M)" using assms(8) by auto
  note e1 = funding_held [OF l(1) assms(3,4,7) keys(1)]
  then have r1: "rows_ok L1" "KeyUuid ''billing_fee_revenue_'' p \<notin> recorded_keys L1"
    "\<And>P. signed_where P L1 = signed_where P (mk_Ledger M) + (if P None AccountBankSettlement then bt_GrossAmount b else 0)
         + (if P (Some (bt_PayerID b)) AccountPromoteBalance then - bt_GrossAmount b else 0)"
    using keys(2) by auto
  have r2: "signed_where P L2 = signed_where P L1 + (if P None AccountBankSettlement then f else 0)
         + (if P None AccountPlatformRevenue then - f else 0)" for P
  proof (cases "f > 0")
    case True
    then show ?thesis using billing_fee_held [OF _ r1(1) assms(5) r1(2), of "ids 2" i L2] l(2) by simp
  next
    case False
    then show ?thesis using l(2) assms(6) by simp
  qed
  have paid: "\<exists>b'. billing_by_id i M' = Some b' \<and> bt_Status b' = BillingPaid"
    using billing_update [of i M1 b b1 "clk 1"] assms(2) bi by (simp add: s(3) b1(2) l(3) billing_by_id_def)
  then have again: "MarkPaidWithPayment clk' ids' i q f' M' = Inr (False, M')"
    by (auto simp: MarkPaidWithPayment_def brepo_GetForUpdate_def sum_bind_Inr found_def)
  have "mk_Ledger M' = L2" by (simp add: s(3) brepo_UpdateStatus_def l(3))
  then show ?thesis
    using b1(1) paid again unfolding held_signed \<open>mk_Ledger M' = L2\<close> r2 r1(3)
    by (auto simp: class_DebitIncreasesBalance_def)
qed

definition sample_billing :: billing_transaction where
  "sample_billing = \<lparr>bt_ID = 51, bt_PayerID = 3, bt_TargetID = 3, bt_Type = ''promote_balance_top_up'', bt_GrossAmount = 50000,
     bt_PlatformFeePercent = 0, bt_PlatformFeeAmount = 0, bt_NetAmount = 50000, bt_Status = BillingPending,
     bt_CreatedAt = 0, bt_UpdatedAt = 0\<rparr>"

definition billing_market :: market where
  "billing_market = blank_market\<lparr>mk_Ledger := opening_books, mk_Billings := [sample_billing]\<rparr>"

theorem top_up_books_once_witness:
  "\<exists>M'. MarkPaidWithPayment (\<lambda>n. 9) (\<lambda>n. 3000 + n) 51 (Some 71) 700 billing_market = Inr (True, M')
    \<and> held (Some 3) AccountPromoteBalance (mk_Ledger M') = held (Some 3) AccountPromoteBalance opening_books + 50000"
proof -
  have "case MarkPaidWithPayment (\<lambda>n. 9) (\<lambda>n. 3000 + n) 51 (Some 71) 700 billing_market of Inl _ \<Rightarrow> False | Inr (n, M) \<Rightarrow> n"
    by code_simp
  then obtain M' where M': "MarkPaidWithPayment (\<lambda>n. 9) (\<lambda>n. 3000 + n) 51 (Some 71) 700 billing_market = Inr (True, M')"
    by (auto split: sum.splits prod.splits)
  have "3000 \<notin> account_ids opening_books" by code_simp
  moreover have "rows_ok opening_books" using opening_books_ok by (simp add: ledger_ok_def)
  moreover have "billing_by_id 51 billing_market = Some sample_billing" "mk_Ledger billing_market = opening_books"
    by (simp_all add: billing_by_id_def billing_market_def sample_billing_def)
  ultimately show ?thesis
    using top_up_books_once [OF M', of sample_billing] M' no_keys_at_opening by (auto simp: sample_billing_def i64_defs)
qed

end
