(* ===== verification/SubscriptionService.thy ===== *)
theory SubscriptionService
  imports PaymentService
begin

text \<open>
  \<open>commerce/subscription/application\<close>: activating the subscription that a
  settled payment bought (\<open>subscription_payment_service.go\<close>), the onboarding it
  requires (\<open>seller_onboarding_service.go\<close>) and the read services; and the
  worker that reminds of and expires periods
  (\<open>worker/seller_subscription_expiry_worker.go\<close>). Each transaction is one step.
\<close>

section \<open>Onboarding\<close>

definition user_by_id :: "uuid \<Rightarrow> market \<Rightarrow> onboarding_user option" where
  "user_by_id i M = find (\<lambda>u. us_ID u = i) (mk_Users M)"

definition absent_text :: "string option \<Rightarrow> bool" where
  "absent_text t \<longleftrightarrow> t = None \<or> t = Some ''''"

definition missing_without_profile :: "onboarding_user \<Rightarrow> string list" where
  "missing_without_profile u =
    (if us_EmailVerified u then [] else [''email_verified'']) @ (if absent_text (us_PhoneNumber u) then [''phone_number''] else [])
    @ (if absent_text (us_Username u) then [''username''] else []) @ (if us_HasPrimaryAddress u then [] else [''primary_address''])"

definition ValidateOnboarding :: "uuid \<Rightarrow> market \<Rightarrow> market_error + unit" where
  "ValidateOnboarding userID M =
    sum_bind (found ''user'' (user_by_id userID M)) (\<lambda>u.
    let missing = missing_without_profile u @ (if us_HasSellerProfile u then [] else [''seller_profile''])
    in guard (missing = []) (SubscriptionFault (OnboardingIncomplete missing)))"

text \<open>An unknown user misses nothing here: the caller handles it.\<close>

definition ValidateOnboardingWithoutProfile :: "uuid \<Rightarrow> market \<Rightarrow> string list" where
  "ValidateOnboardingWithoutProfile userID M =
    (case user_by_id userID M of None \<Rightarrow> [] | Some u \<Rightarrow> missing_without_profile u)"

section \<open>Activation\<close>

definition with_subscriptions ::
    "(seller_subscription list \<Rightarrow> subscription_error + seller_subscription list) \<Rightarrow> market \<Rightarrow> step_result" where
  "with_subscriptions f M =
    (case f (mk_Subscriptions M) of Inl e \<Rightarrow> Inl (SubscriptionFault e) | Inr rows \<Rightarrow> Inr (M\<lparr>mk_Subscriptions := rows\<rparr>))"

lemma with_subscriptions_Inr:
  "with_subscriptions f M = Inr M' \<longleftrightarrow> (\<exists>rows. f (mk_Subscriptions M) = Inr rows \<and> M' = M\<lparr>mk_Subscriptions := rows\<rparr>)"
  by (auto simp: with_subscriptions_def split: sum.splits)

definition period_start :: "time \<Rightarrow> time option \<Rightarrow> time" where
  "period_start activationAt chainEnd =
    (case chainEnd of None \<Rightarrow> activationAt | Some chainEndAt \<Rightarrow> if after chainEndAt activationAt then chainEndAt else activationAt)"

definition ProcessSuccessfulPaymentTx ::
    "(nat \<Rightarrow> time) \<Rightarrow> (nat \<Rightarrow> uuid) \<Rightarrow> uuid \<Rightarrow> uuid \<Rightarrow> market \<Rightarrow> step_result" where
  "ProcessSuccessfulPaymentTx clk ids paymentID userID M =
    sum_bind (prepo_GetByIDForUpdate paymentID M) (\<lambda>_.
    if list_ex (\<lambda>s. sb_PaymentID s = paymentID) (mk_Subscriptions M) then Inr M
    else sum_bind (ValidateOnboarding userID M) (\<lambda>_.
      sum_bind (found ''seller profile'' (find (\<lambda>u. us_ID u = userID \<and> us_HasSellerProfile u) (mk_Users M))) (\<lambda>_.
      sum_bind (prepo_GetByIDForUpdate paymentID M) (\<lambda>p.
      if \<not> payment_IsSettled p then Inl (Refused ''payment is not settled'')
      else case pm_PaidAt p of
        None \<Rightarrow> Inl (SubscriptionFault MissingSettlementTimestamp)
      | Some activationAt \<Rightarrow>
          (case pm_SubscriptionDurationDays p of
             None \<Rightarrow> Inl (Refused ''missing the duration snapshot'')
           | Some durationDays \<Rightarrow>
               if durationDays \<le> 0 then Inl (Refused ''missing the duration snapshot'')
               else let duration = wrap64 (wrap64 (durationDays * 24) * hour);
                   newStartedAt = period_start activationAt (subrepo_GetLatestByUserIDForUpdate userID (mk_Subscriptions M));
                   principal = wrap64 (pm_GrossAmount p - pm_ServiceFeeAmount p);
                   s = \<lparr>sb_ID = ids 2, sb_UserID = userID, sb_Status = SubscriptionActive, sb_StartedAt = newStartedAt,
                     sb_ExpiresAt = time_add newStartedAt duration, sb_DurationDays = durationDays,
                     sb_AmountPaid = money_New principal, sb_PaymentID = paymentID, sb_CreatedAt = clk 0, sb_UpdatedAt = clk 0\<rparr>
                 in sum_bind (with_ledger (RecordSubscriptionRevenue (ids 0) paymentID principal) M) (\<lambda>M1.
                    sum_bind (with_ledger (RecordSubscriptionPaymentFeeRevenue (ids 1) paymentID paymentID (pm_ServiceFeeAmount p)) M1) (\<lambda>M2.
                    sum_bind (with_subscriptions (subrepo_InsertTx s) M2) (\<lambda>M3.
                    Inr (InsertEvent ''seller.subscription.activated'' (sb_ID s) M3)))))))))"

text \<open>\<open>WithTx\<close>: an error leaves nothing behind.\<close>

definition committed :: "step_result \<Rightarrow> market \<Rightarrow> market" where
  "committed r M = (case r of Inl _ \<Rightarrow> M | Inr M' \<Rightarrow> M')"

definition ProcessSuccessfulPayment :: "(nat \<Rightarrow> time) \<Rightarrow> (nat \<Rightarrow> uuid) \<Rightarrow> uuid \<Rightarrow> uuid \<Rightarrow> market \<Rightarrow> market" where
  "ProcessSuccessfulPayment clk ids paymentID userID M = committed (ProcessSuccessfulPaymentTx clk ids paymentID userID M) M"

definition GetActiveSubscription :: "uuid \<Rightarrow> market \<Rightarrow> seller_subscription option" where
  "GetActiveSubscription userID M = subrepo_GetActiveByUserID userID (mk_Subscriptions M)"

definition HasActiveSellerProfile :: "uuid \<Rightarrow> market \<Rightarrow> bool" where
  "HasActiveSellerProfile userID M = is_set (GetActiveSubscription userID M)"

section \<open>The expiry worker\<close>

definition processActiveToExpiredOne :: "time \<Rightarrow> uuid \<Rightarrow> market \<Rightarrow> step_result" where
  "processActiveToExpiredOne db_now subID M =
    (case subrepo_GetByIDForUpdate subID (mk_Subscriptions M) of
       None \<Rightarrow> Inr M
     | Some s \<Rightarrow>
         if sb_Status s \<noteq> SubscriptionActive then Inl (Refused ''expected status active'')
         else sum_bind (with_subscriptions (subrepo_UpdateStatusTx db_now subID SubscriptionActive SubscriptionExpired) M)
           (\<lambda>M1. Inr (InsertEvent ''seller.subscription.expired'' subID M1)))"

definition ProcessActiveToExpired :: "time \<Rightarrow> time \<Rightarrow> nat \<Rightarrow> market \<Rightarrow> market" where
  "ProcessActiveToExpired now db_now batchSize M =
    fold (\<lambda>subID M. committed (processActiveToExpiredOne db_now subID M) M)
      (subrepo_FetchActiveExpiredBatchIDs now batchSize (mk_Subscriptions M)) M"

definition processExpiringForThreshold :: "time \<Rightarrow> nat \<Rightarrow> duration \<Rightarrow> market \<Rightarrow> market" where
  "processExpiringForThreshold now batchSize threshold M =
    fold (\<lambda>s M. InsertEvent ''seller.subscription.expiring'' (sb_ID s) M)
      (take batchSize (filter (\<lambda>s. sb_Status s = SubscriptionActive \<and> now < sb_ExpiresAt s
         \<and> sb_ExpiresAt s \<le> time_add now threshold) (mk_Subscriptions M))) M"

definition ProcessExpiringReminders :: "time \<Rightarrow> nat \<Rightarrow> market \<Rightarrow> market" where
  "ProcessExpiringReminders now batchSize M = processExpiringForThreshold now batchSize (7 * 24 * hour) M"

definition expiry_runOnce :: "time \<Rightarrow> time \<Rightarrow> time \<Rightarrow> nat \<Rightarrow> market \<Rightarrow> market" where
  "expiry_runOnce now now2 db_now batchSize M =
    ProcessActiveToExpired now2 db_now batchSize (ProcessExpiringReminders now batchSize M)"

section \<open>What the steps keep\<close>

text \<open>A later row of the same user starts when all earlier ones have ended.\<close>

definition chained :: "seller_subscription list \<Rightarrow> bool" where
  "chained = sorted_wrt (\<lambda>s t. sb_UserID s = sb_UserID t \<longrightarrow> sb_ExpiresAt s \<le> sb_StartedAt t)"

definition row_ok :: "seller_subscription \<Rightarrow> bool" where
  "row_ok s \<longleftrightarrow> sb_StartedAt s < sb_ExpiresAt s \<and> sb_Status s \<noteq> SubscriptionInactive
     \<and> (sb_DurationDays s \<le> 106751 \<longrightarrow> sb_ExpiresAt s = sb_StartedAt s + sb_DurationDays s * 24 * hour)"

definition subscriptions_ok :: "market \<Rightarrow> bool" where
  "subscriptions_ok M \<longleftrightarrow> chained (mk_Subscriptions M) \<and> list_all row_ok (mk_Subscriptions M)
     \<and> distinct (map sb_PaymentID (mk_Subscriptions M)) \<and> distinct (map sb_ID (mk_Subscriptions M))"

lemma chain_end_bounds:
  assumes "list_all row_ok rows" "s \<in> set rows" "sb_UserID s = u"
  shows "\<exists>e. subrepo_GetLatestByUserIDForUpdate u rows = Some e \<and> sb_ExpiresAt s \<le> e"
proof -
  let ?p = "\<lambda>s. sb_UserID s = u \<and> (sb_Status s = SubscriptionActive \<or> sb_Status s = SubscriptionExpired)"
  have le: "x \<le> foldl max x xs \<and> (\<forall>y \<in> set xs. y \<le> foldl max x xs)" for x :: int and xs
  proof (induction xs arbitrary: x)
    case (Cons y ys)
    from Cons.IH [of "max x y"] have "max x y \<le> foldl max (max x y) ys" "\<forall>z \<in> set ys. z \<le> foldl max (max x y) ys" by blast+
    then show ?case by simp
  qed simp
  have "?p s" using assms by (cases "sb_Status s") (auto simp: list_all_iff row_ok_def)
  then have "s \<in> set (filter ?p rows)" using assms by simp
  then show ?thesis
    unfolding subrepo_GetLatestByUserIDForUpdate_def
  proof (cases "filter ?p rows")
    case (Cons a ss)
    then show "\<exists>e. (case filter ?p rows of [] \<Rightarrow> None | s # ss \<Rightarrow> Some (foldl max (sb_ExpiresAt s) (map sb_ExpiresAt ss))) = Some e
        \<and> sb_ExpiresAt s \<le> e"
      using \<open>s \<in> set (filter ?p rows)\<close> le [of "sb_ExpiresAt a" "map sb_ExpiresAt ss"] by auto
  qed simp
qed

lemma period_start_late: "activationAt \<le> period_start activationAt e \<and> (\<forall>x. e = Some x \<longrightarrow> x \<le> period_start activationAt e)"
  by (auto simp: period_start_def after_def split: option.splits)

lemma duration_exact: "0 < n \<Longrightarrow> n \<le> 106751 \<Longrightarrow> wrap64 (wrap64 (n * 24) * hour) = n * 24 * hour"
proof -
  assume n: "0 < n" "n \<le> 106751"
  then have "in_i64 (n * 24)" "in_i64 (n * 24 * hour)" by (auto simp: i64_defs hour_def minute_def second_def)
  then show ?thesis by (simp add: wrap64_id)
qed

text \<open>What an activation that adds a period adds.\<close>

definition bought_period :: "uuid \<Rightarrow> uuid \<Rightarrow> market \<Rightarrow> seller_subscription \<Rightarrow> bool" where
  "bought_period p u M s \<longleftrightarrow> sb_UserID s = u \<and> sb_Status s = SubscriptionActive \<and> sb_PaymentID s = p
    \<and> p \<notin> sb_PaymentID ` set (mk_Subscriptions M) \<and> sb_ID s \<notin> sb_ID ` set (mk_Subscriptions M)
    \<and> 0 < sb_DurationDays s \<and> sb_StartedAt s < sb_ExpiresAt s
    \<and> sb_ExpiresAt s = sb_StartedAt s + wrap64 (wrap64 (sb_DurationDays s * 24) * hour)
    \<and> (\<exists>q t. payment_by_id p M = Some q \<and> payment_IsSettled q \<and> pm_PaidAt q = Some t
        \<and> pm_SubscriptionDurationDays q = Some (sb_DurationDays s)
        \<and> sb_StartedAt s = period_start t (subrepo_GetLatestByUserIDForUpdate u (mk_Subscriptions M)))"

lemma activation_adds:
  assumes "ProcessSuccessfulPaymentTx clk ids p u M = Inr M'"
  shows "mk_Subscriptions M' = mk_Subscriptions M
    \<or> (\<exists>s. mk_Subscriptions M' = mk_Subscriptions M @ [s] \<and> bought_period p u M s)"
proof (cases "list_ex (\<lambda>s. sb_PaymentID s = p) (mk_Subscriptions M)")
  case True
  then show ?thesis using assms by (auto simp: ProcessSuccessfulPaymentTx_def sum_bind_Inr)
next
  case False
  obtain q where q: "payment_by_id p M = Some q"
    using assms by (auto simp: ProcessSuccessfulPaymentTx_def prepo_GetByIDForUpdate_def sum_bind_Inr)
  obtain t n where d: "payment_IsSettled q" "pm_PaidAt q = Some t" "pm_SubscriptionDurationDays q = Some n" "0 < n"
    using assms False q by (fastforce simp: ProcessSuccessfulPaymentTx_def prepo_GetByIDForUpdate_def sum_bind_Inr Let_def
        split: if_splits option.splits)
  define s where "s = \<lparr>sb_ID = ids 2, sb_UserID = u, sb_Status = SubscriptionActive,
      sb_StartedAt = period_start t (subrepo_GetLatestByUserIDForUpdate u (mk_Subscriptions M)),
      sb_ExpiresAt = time_add (period_start t (subrepo_GetLatestByUserIDForUpdate u (mk_Subscriptions M))) (wrap64 (wrap64 (n * 24) * hour)),
      sb_DurationDays = n, sb_AmountPaid = money_New (wrap64 (pm_GrossAmount q - pm_ServiceFeeAmount q)), sb_PaymentID = p,
      sb_CreatedAt = clk 0, sb_UpdatedAt = clk 0\<rparr>"
  have "\<exists>La M3. with_subscriptions (subrepo_InsertTx s) (M\<lparr>mk_Ledger := La\<rparr>) = Inr M3
      \<and> M' = InsertEvent ''seller.subscription.activated'' (sb_ID s) M3"
    using assms False q d
    by (auto simp: ProcessSuccessfulPaymentTx_def prepo_GetByIDForUpdate_def sum_bind_Inr Let_def s_def with_ledger_Inr found_def
        split: if_splits option.splits)
      (intro exI conjI, assumption, rule refl)
  then have "subrepo_InsertTx s (mk_Subscriptions M) = Inr (mk_Subscriptions M')"
    by (auto simp: with_subscriptions_Inr InsertEvent_def)
  then have "mk_Subscriptions M' = mk_Subscriptions M @ [s]" "sb_StartedAt s < sb_ExpiresAt s"
    "sb_PaymentID s \<notin> sb_PaymentID ` set (mk_Subscriptions M)" "sb_ID s \<notin> sb_ID ` set (mk_Subscriptions M)"
    by (auto simp: subrepo_InsertTx_def split: if_splits)
  then show ?thesis using q d by (intro disjI2 exI [of _ s]) (simp add: s_def go_arith bought_period_def)
qed

lemma activation_ok:
  assumes "ProcessSuccessfulPaymentTx clk ids p u M = Inr M'" "subscriptions_ok M"
  shows "subscriptions_ok M'"
  using activation_adds [OF assms(1)]
proof (elim disjE exE conjE)
  assume "mk_Subscriptions M' = mk_Subscriptions M"
  then show ?thesis using assms(2) by (simp add: subscriptions_ok_def)
next
  fix s
  assume s: "mk_Subscriptions M' = mk_Subscriptions M @ [s]" "bought_period p u M s"
  then obtain t where t: "sb_StartedAt s = period_start t (subrepo_GetLatestByUserIDForUpdate u (mk_Subscriptions M))"
    by (auto simp: bought_period_def)
  have "sb_ExpiresAt r \<le> sb_StartedAt s" if "r \<in> set (mk_Subscriptions M)" "sb_UserID r = u" for r
  proof -
    have "list_all row_ok (mk_Subscriptions M)" using assms(2) by (simp add: subscriptions_ok_def)
    from chain_end_bounds [OF this that] obtain e
      where e: "subrepo_GetLatestByUserIDForUpdate u (mk_Subscriptions M) = Some e" "sb_ExpiresAt r \<le> e" by blast
    then show ?thesis using period_start_late [of t "Some e"] t by simp
  qed
  moreover have "row_ok s" using s(2) duration_exact [of "sb_DurationDays s"] by (auto simp: row_ok_def bought_period_def)
  ultimately show ?thesis
    using s assms(2) by (auto simp: subscriptions_ok_def chained_def sorted_wrt_append bought_period_def)
qed

text \<open>A sweep of the worker only moves active rows that have ended to expired.\<close>

definition expire_rows :: "time \<Rightarrow> (seller_subscription \<Rightarrow> bool) \<Rightarrow> seller_subscription list \<Rightarrow> seller_subscription list" where
  "expire_rows db_now P = map (\<lambda>s. if P s then s\<lparr>sb_Status := SubscriptionExpired, sb_UpdatedAt := db_now\<rparr> else s)"

lemma expire_one:
  assumes "distinct (map sb_ID (mk_Subscriptions M))"
  shows "mk_Subscriptions (committed (processActiveToExpiredOne db_now i M) M)
    = expire_rows db_now (\<lambda>s. sb_ID s = i \<and> sb_Status s = SubscriptionActive) (mk_Subscriptions M)"
proof (cases "find (\<lambda>s. sb_ID s = i) (mk_Subscriptions M)")
  case None
  then have "\<forall>r \<in> set (mk_Subscriptions M). sb_ID r \<noteq> i" by (auto simp: find_None_iff)
  then show ?thesis
    using None by (auto simp: processActiveToExpiredOne_def committed_def subrepo_GetByIDForUpdate_def expire_rows_def
        intro!: map_idI [symmetric])
next
  case (Some s)
  then have s: "s \<in> set (mk_Subscriptions M)" "sb_ID s = i" by (auto simp: find_Some_iff)
  show ?thesis
  proof (cases "sb_Status s = SubscriptionActive")
    case True
    then show ?thesis
      using s Some by (auto simp: processActiveToExpiredOne_def committed_def subrepo_GetByIDForUpdate_def
          subrepo_UpdateStatusTx_def with_subscriptions_def expire_rows_def InsertEvent_def)
  next
    case False
    then have "\<forall>r \<in> set (mk_Subscriptions M). sb_ID r = i \<longrightarrow> sb_Status r \<noteq> SubscriptionActive"
      using s assms by (auto simp: distinct_map inj_on_def)
    then show ?thesis
      using Some False by (auto simp: processActiveToExpiredOne_def committed_def subrepo_GetByIDForUpdate_def expire_rows_def
          intro!: map_idI [symmetric])
  qed
qed

lemma expire_rows_ids [simp]: "map sb_ID (expire_rows t P rows) = map sb_ID rows"
  by (simp add: expire_rows_def comp_def if_distrib cong: if_cong)

lemma expire_rows_twice: "expire_rows t Q (expire_rows t P rows)
    = expire_rows t (\<lambda>s. P s \<or> Q (if P s then s\<lparr>sb_Status := SubscriptionExpired, sb_UpdatedAt := t\<rparr> else s)) rows"
  by (auto simp: expire_rows_def)

lemma sweep_rows:
  assumes "distinct (map sb_ID (mk_Subscriptions M))"
  shows "mk_Subscriptions (fold (\<lambda>i M. committed (processActiveToExpiredOne t i M) M) is M)
    = expire_rows t (\<lambda>s. sb_ID s \<in> set is \<and> sb_Status s = SubscriptionActive) (mk_Subscriptions M)"
  using assms
proof (induction "is" arbitrary: M)
  case Nil
  then show ?case by (simp add: expire_rows_def)
next
  case (Cons i "is")
  let ?M = "committed (processActiveToExpiredOne t i M) M"
  note one = expire_one [OF Cons.prems, of t i]
  have "distinct (map sb_ID (mk_Subscriptions ?M))" using Cons.prems unfolding one by simp
  from Cons.IH [OF this] show ?case
    unfolding fold_simps one comp_def
    by (auto simp: expire_rows_def)
qed

lemma reminders_keep: "mk_Subscriptions (ProcessExpiringReminders now n M) = mk_Subscriptions M"
proof -
  have "mk_Subscriptions (fold (\<lambda>s M. InsertEvent t (sb_ID s) M) ss M) = mk_Subscriptions M" for t ss M
    by (induction ss arbitrary: M) (simp_all add: InsertEvent_def)
  then show ?thesis by (simp add: ProcessExpiringReminders_def processExpiringForThreshold_def)
qed

lemma sweep_eq:
  assumes "distinct (map sb_ID (mk_Subscriptions M))"
  shows "mk_Subscriptions (expiry_runOnce now now2 t n M)
    = expire_rows t (\<lambda>s. sb_ID s \<in> set (subrepo_FetchActiveExpiredBatchIDs now2 n (mk_Subscriptions M))
        \<and> sb_Status s = SubscriptionActive) (mk_Subscriptions M)"
proof -
  let ?R = "ProcessExpiringReminders now n M"
  have d: "distinct (map sb_ID (mk_Subscriptions ?R))" using assms by (simp only: reminders_keep)
  show ?thesis
    unfolding expiry_runOnce_def ProcessActiveToExpired_def sweep_rows [OF d] by (simp only: reminders_keep)
qed

lemma fetched_ended:
  assumes "distinct (map sb_ID rows)" "s \<in> set rows" "sb_ID s \<in> set (subrepo_FetchActiveExpiredBatchIDs now n rows)"
  shows "sb_ExpiresAt s \<le> now"
proof -
  obtain r where "r \<in> set (take n (filter (\<lambda>s. sb_Status s = SubscriptionActive \<and> sb_ExpiresAt s \<le> now) rows))" "sb_ID r = sb_ID s"
    using assms(3) by (auto simp: subrepo_FetchActiveExpiredBatchIDs_def)
  then have r: "r \<in> set rows" "sb_ExpiresAt r \<le> now" "sb_ID r = sb_ID s" by (auto dest!: in_set_takeD)
  then have "r = s" using assms(1,2) by (simp add: distinct_map inj_on_def)
  with r(2) show ?thesis by simp
qed

lemma expire_rows_fields [simp]:
  "sorted_wrt (\<lambda>s t. sb_UserID s = sb_UserID t \<longrightarrow> sb_ExpiresAt s \<le> sb_StartedAt t) (expire_rows u P rows)
    \<longleftrightarrow> sorted_wrt (\<lambda>s t. sb_UserID s = sb_UserID t \<longrightarrow> sb_ExpiresAt s \<le> sb_StartedAt t) rows"
  "map sb_PaymentID (expire_rows u P rows) = map sb_PaymentID rows"
  proof -
  have "sb_UserID (if P s then s\<lparr>sb_Status := SubscriptionExpired, sb_UpdatedAt := u\<rparr> else s) = sb_UserID s"
    "sb_ExpiresAt (if P s then s\<lparr>sb_Status := SubscriptionExpired, sb_UpdatedAt := u\<rparr> else s) = sb_ExpiresAt s"
    "sb_StartedAt (if P s then s\<lparr>sb_Status := SubscriptionExpired, sb_UpdatedAt := u\<rparr> else s) = sb_StartedAt s"
    "sb_PaymentID (if P s then s\<lparr>sb_Status := SubscriptionExpired, sb_UpdatedAt := u\<rparr> else s) = sb_PaymentID s" for s
    by simp_all
  then show "sorted_wrt (\<lambda>s t. sb_UserID s = sb_UserID t \<longrightarrow> sb_ExpiresAt s \<le> sb_StartedAt t) (expire_rows u P rows)
      \<longleftrightarrow> sorted_wrt (\<lambda>s t. sb_UserID s = sb_UserID t \<longrightarrow> sb_ExpiresAt s \<le> sb_StartedAt t) rows"
    "map sb_PaymentID (expire_rows u P rows) = map sb_PaymentID rows"
    by (simp_all add: expire_rows_def sorted_wrt_map)
qed

lemma expire_rows_ok: "list_all row_ok rows \<Longrightarrow> list_all row_ok (expire_rows u P rows)"
  by (auto simp: expire_rows_def list_all_iff row_ok_def)

lemma sweep_ok: "subscriptions_ok M \<Longrightarrow> subscriptions_ok (expiry_runOnce now now2 t n M)"
  using sweep_eq [of M now now2 t n] expire_rows_ok by (simp add: subscriptions_ok_def chained_def)

lemma expire_filter:
  assumes "\<And>s. s \<in> set rows \<Longrightarrow> P s \<Longrightarrow> \<not> Q s \<and> \<not> Q (s\<lparr>sb_Status := SubscriptionExpired, sb_UpdatedAt := t\<rparr>)"
  shows "filter Q (expire_rows t P rows) = filter Q rows"
  using assms by (induction rows) (auto simp: expire_rows_def)

section \<open>Runs\<close>

inductive subscription_step :: "market \<Rightarrow> market \<Rightarrow> bool" where
  activation: "subscription_step M (ProcessSuccessfulPayment clk ids p u M)"
| sweep: "subscription_step M (expiry_runOnce now now2 db_now n M)"
| other: "mk_Subscriptions M' = mk_Subscriptions M \<Longrightarrow> subscription_step M M'"

lemma activation_commit_ok: "subscriptions_ok M \<Longrightarrow> subscriptions_ok (ProcessSuccessfulPayment clk ids p u M)"
  by (cases "ProcessSuccessfulPaymentTx clk ids p u M")
    (auto simp: ProcessSuccessfulPayment_def committed_def intro: activation_ok)

lemma same_subscriptions_ok: "mk_Subscriptions M' = mk_Subscriptions M \<Longrightarrow> subscriptions_ok M \<Longrightarrow> subscriptions_ok M'"
  by (simp add: subscriptions_ok_def)

interpretation subscription_run: kept_fact subscription_step subscriptions_ok
  by unfold_locales
    (auto elim!: subscription_step.cases intro: activation_commit_ok sweep_ok same_subscriptions_ok)

section \<open>Properties\<close>


text \<open>
  C23. The expiry worker takes no paid time away: at any time from the sweep on,
  every seller has market authority from the same period as if the sweep had not
  run, except for the status of rows that had ended; and when the batch is large
  enough, no ended period stays active.
\<close>

theorem expiry_takes_no_paid_time:
  assumes "subscriptions_ok M" "now2 \<le> t"
  shows "subrepo_GetLatestByUserID t u (mk_Subscriptions (expiry_runOnce now now2 db_now n M))
      = subrepo_GetLatestByUserID t u (mk_Subscriptions M)
    \<and> (length (filter (\<lambda>s. sb_Status s = SubscriptionActive \<and> sb_ExpiresAt s \<le> now2) (mk_Subscriptions M)) \<le> n
        \<longrightarrow> (\<forall>s \<in> set (mk_Subscriptions (expiry_runOnce now now2 db_now n M)). sb_Status s = SubscriptionActive \<longrightarrow> now2 < sb_ExpiresAt s))"
proof -
  define P :: "seller_subscription \<Rightarrow> bool" where "P s \<longleftrightarrow> sb_ID s \<in> set (subrepo_FetchActiveExpiredBatchIDs now2 n (mk_Subscriptions M))
    \<and> sb_Status s = SubscriptionActive" for s
  have d: "distinct (map sb_ID (mk_Subscriptions M))" using assms(1) by (simp add: subscriptions_ok_def)
  have rows: "mk_Subscriptions (expiry_runOnce now now2 db_now n M) = expire_rows db_now P (mk_Subscriptions M)"
    using sweep_eq [OF d] unfolding P_def by simp
  have ended: "sb_ExpiresAt s \<le> now2" if "s \<in> set (mk_Subscriptions M)" "P s" for s
    using fetched_ended [OF d that(1)] that(2) unfolding P_def by blast
  let ?Q = "\<lambda>s :: seller_subscription. sb_UserID s = u \<and> sb_Status s = SubscriptionActive \<and> sb_StartedAt s \<le> t \<and> t < sb_ExpiresAt s"
  have "\<not> ?Q s" if "s \<in> set (mk_Subscriptions M)" "P s" for s
    using ended [OF that] assms(2) by simp
  then have "filter ?Q (expire_rows db_now P (mk_Subscriptions M)) = filter ?Q (mk_Subscriptions M)"
    by (intro expire_filter) auto
  then have "subrepo_GetLatestByUserID t u (expire_rows db_now P (mk_Subscriptions M)) = subrepo_GetLatestByUserID t u (mk_Subscriptions M)"
    by (simp add: subrepo_GetLatestByUserID_def)
  moreover have "now2 < sb_ExpiresAt s"
    if le: "length (filter (\<lambda>s. sb_Status s = SubscriptionActive \<and> sb_ExpiresAt s \<le> now2) (mk_Subscriptions M)) \<le> n"
      and s: "s \<in> set (expire_rows db_now P (mk_Subscriptions M))" "sb_Status s = SubscriptionActive" for s
  proof (rule ccontr)
    assume "\<not> now2 < sb_ExpiresAt s"
    moreover have "s \<in> set (mk_Subscriptions M)" "\<not> P s" using s by (auto simp: expire_rows_def split: if_splits)
    ultimately show False using le s(2) by (auto simp: P_def subrepo_FetchActiveExpiredBatchIDs_def)
  qed
  ultimately show ?thesis unfolding rows by blast
qed

text \<open>A seller who pays two years, the second before the first has ended.\<close>

definition sample_seller :: onboarding_user where
  "sample_seller = \<lparr>us_ID = 3, us_EmailVerified = True, us_PhoneNumber = Some ''0812'', us_Username = Some ''toko'',
     us_HasPrimaryAddress = True, us_HasSellerProfile = True\<rparr>"

definition year_payment :: "uuid \<Rightarrow> time \<Rightarrow> payment" where
  "year_payment i paidAt = \<lparr>pm_ID = i, pm_UserID = 3, pm_PaymentNumber = ''SUB'', pm_MidtransOrderID = ''LAB-SUB'',
     pm_GrossAmount = 74000, pm_ServiceFeeAmount = 4000, pm_CoinsToUse = 0, pm_CoinDiscountAmount = 0,
     pm_Status = ''settlement'', pm_ReferenceType = ''subscription'', pm_ReferenceID = Some 3, pm_PaymentMethodCode = None,
     pm_SubscriptionDurationDays = Some 365, pm_TransactionID = None, pm_PaymentType = None, pm_PaidAt = Some paidAt,
     pm_ExpiredAt = 1000, pm_CreatedAt = 0, pm_UpdatedAt = 0\<rparr>"

definition unsubscribed :: market where
  "unsubscribed = blank_market\<lparr>mk_Ledger := opening_books, mk_Users := [sample_seller],
     mk_Payments := [year_payment 81 100, year_payment 82 200]\<rparr>"

definition subscribed :: market where
  "subscribed = ProcessSuccessfulPayment (\<lambda>n. 300) (\<lambda>n. 50 + n) 82 3
     (ProcessSuccessfulPayment (\<lambda>n. 150) (\<lambda>n. 40 + n) 81 3 unsubscribed)"

lemma subscribed_run: "subscription_step\<^sup>*\<^sup>* unsubscribed subscribed"
proof -
  let ?M = "ProcessSuccessfulPayment (\<lambda>n. 150) (\<lambda>n. 40 + n) 81 3 unsubscribed"
  have "subscription_step unsubscribed ?M" "subscription_step ?M subscribed"
    unfolding subscribed_def by (rule activation)+
  then show ?thesis by (meson rtranclp.rtrancl_refl rtranclp.rtrancl_into_rtrancl)
qed


theorem expiry_takes_no_paid_time_witness:
  "subrepo_GetLatestByUserID (366 * 24 * hour) 3 (mk_Subscriptions (expiry_runOnce 0 (366 * 24 * hour) 7 10 subscribed))
    = subrepo_GetLatestByUserID (366 * 24 * hour) 3 (mk_Subscriptions subscribed)
    \<and> subrepo_GetLatestByUserID (366 * 24 * hour) 3 (mk_Subscriptions subscribed) \<noteq> None"
proof -
  have "mk_Subscriptions unsubscribed = []" by (simp add: unsubscribed_def blank_market_def)
  then have "subscriptions_ok unsubscribed" by (simp add: subscriptions_ok_def chained_def)
  then have "subscriptions_ok subscribed" by (rule subscription_run.run_keeps [OF subscribed_run])
  from expiry_takes_no_paid_time [OF this order_refl, of "366 * 24 * hour" 3 0 7 10]
  have "subrepo_GetLatestByUserID (366 * 24 * hour) 3 (mk_Subscriptions (expiry_runOnce 0 (366 * 24 * hour) 7 10 subscribed))
    = subrepo_GetLatestByUserID (366 * 24 * hour) 3 (mk_Subscriptions subscribed)" by blast
  moreover have "subrepo_GetLatestByUserID (366 * 24 * hour) 3 (mk_Subscriptions subscribed) \<noteq> None" by code_simp
  ultimately show ?thesis by blast
qed

end
