(* ===== verification/RefundStore.thy ===== *)
theory RefundStore
  imports Market ProviderState
begin

text \<open>
  The refunds table (\<open>finance/refund/infrastructure/repository/refund_repository_impl.go\<close>)
  with its checks, the texts of reasons, the notification of the gateway
  (\<open>pkg/midtrans/midtrans.go\<close>) and the parser of its refund amount. The evidence
  of a refund is kept in its row; foreign keys are left out.
\<close>

section \<open>Texts\<close>

fun reason_text :: "RefundReason \<Rightarrow> string" where
  "reason_text ReasonItemNotReceived = ''item_not_received''"
| "reason_text ReasonItemNotAsDescribed = ''item_not_as_described''"
| "reason_text ReasonItemDamaged = ''item_damaged''"
| "reason_text ReasonDefectiveItem = ''defective_item''"
| "reason_text ReasonWrongItem = ''wrong_item''"
| "reason_text ReasonChangeOfMind = ''change_of_mind''"
| "reason_text ReasonDeliveryDelay = ''delivery_delay''"
| "reason_text ReasonOther = ''other''"
| "reason_text ReasonGatewayCapturedAfterOrderInvalid = ''gateway_captured_after_order_invalid''"
| "reason_text (ReasonUnknown s) = s"

definition reasons :: "RefundReason list" where
  "reasons = [ReasonItemNotReceived, ReasonItemNotAsDescribed, ReasonItemDamaged, ReasonDefectiveItem,
     ReasonWrongItem, ReasonChangeOfMind, ReasonDeliveryDelay, ReasonOther, ReasonGatewayCapturedAfterOrderInvalid]"

definition reason_of :: "string \<Rightarrow> RefundReason" where
  "reason_of s = (case find (\<lambda>r. reason_text r = s) reasons of Some r \<Rightarrow> r | None \<Rightarrow> ReasonUnknown s)"

lemma reason_text_of [simp]: "reason_text (reason_of s) = s"
  by (auto simp: reason_of_def find_Some_iff split: option.splits)

section \<open>Rows\<close>

fun stored_gateway_status :: "GatewayRefundStatus \<Rightarrow> GatewayRefundStatus" where
  "stored_gateway_status (GatewayRefundOther s) = (if s = '''' then GatewayRefundUnsubmitted else GatewayRefundOther s)"
| "stored_gateway_status s = s"

definition in_bounds :: "int \<Rightarrow> int \<Rightarrow> int option \<Rightarrow> bool" where
  "in_bounds lo hi x = (case x of None \<Rightarrow> True | Some n \<Rightarrow> lo \<le> n \<and> n \<le> hi)"

definition bounded_below :: "int \<Rightarrow> int option \<Rightarrow> bool" where
  "bounded_below lo x = (case x of None \<Rightarrow> True | Some n \<Rightarrow> lo \<le> n)"

text \<open>The enums and the checks of the table.\<close>

definition refund_checked :: "refund \<Rightarrow> bool" where
  "refund_checked r \<longleftrightarrow> rf_RequestedAmount r > 0
     \<and> in_bounds 0 100 (rf_SellerApprovedPercent r) \<and> in_bounds 0 100 (rf_AdminApprovedPercent r)
     \<and> bounded_below 0 (rf_SellerApprovedAmount r) \<and> bounded_below 0 (rf_AdminApprovedAmount r)
     \<and> bounded_below 0 (rf_FinalRefundAmount r) \<and> rf_GatewayAttempts r \<ge> 0
     \<and> gatewayRefund_IsValid (rf_GatewayStatus r) \<and> \<not> IsSystemCaller (rf_ReviewedBy r)
     \<and> (case rf_Status r of RefundOther _ \<Rightarrow> False | _ \<Rightarrow> True)
     \<and> (case rf_Reason r of ReasonUnknown _ \<Rightarrow> False | _ \<Rightarrow> True)"

definition refund_by_id :: "uuid \<Rightarrow> market \<Rightarrow> refund option" where
  "refund_by_id i M = find (\<lambda>r. rf_ID r = i) (mk_Refunds M)"

text \<open>A gateway idempotency key belongs to one row.\<close>

definition key_taken :: "refund \<Rightarrow> refund list \<Rightarrow> bool" where
  "key_taken r rows \<longleftrightarrow> rf_GatewayIdempotencyKey r \<noteq> None
     \<and> list_ex (\<lambda>q. rf_ID q \<noteq> rf_ID r \<and> rf_GatewayIdempotencyKey q = rf_GatewayIdempotencyKey r) rows"

definition rrepo_Create :: "refund \<Rightarrow> market \<Rightarrow> step_result" where
  "rrepo_Create r M =
    (let row = r\<lparr>rf_GatewayStatus := stored_gateway_status (rf_GatewayStatus r), rf_EvidenceURLs := []\<rparr>
     in if \<not> refund_checked row \<or> refund_by_id (rf_ID row) M \<noteq> None \<or> key_taken row (mk_Refunds M) then Inl TxAborted
        else Inr (M\<lparr>mk_Refunds := mk_Refunds M @ [row]\<rparr>))"

definition rrepo_GetByID :: "uuid \<Rightarrow> market \<Rightarrow> refund option" where
  "rrepo_GetByID i M = refund_by_id i M"

definition rrepo_GetForUpdate :: "uuid \<Rightarrow> market \<Rightarrow> market_error + refund" where
  "rrepo_GetForUpdate i M = found ''refund'' (refund_by_id i M)"

definition rrepo_GetByOrderID :: "uuid \<Rightarrow> market \<Rightarrow> refund option" where
  "rrepo_GetByOrderID orderID M = latest rf_CreatedAt (filter (\<lambda>r. rf_OrderID r = orderID) (mk_Refunds M))"

definition without_evidence :: "refund \<Rightarrow> refund" where
  "without_evidence r = r\<lparr>rf_EvidenceURLs := []\<rparr>"

definition rrepo_GetByGatewayIdempotencyKey :: "string \<Rightarrow> market \<Rightarrow> refund option" where
  "rrepo_GetByGatewayIdempotencyKey key M =
    map_option without_evidence (find (\<lambda>r. rf_GatewayIdempotencyKey r = Some key) (mk_Refunds M))"

definition rrepo_GetByGatewayRefundID :: "string \<Rightarrow> market \<Rightarrow> refund option" where
  "rrepo_GetByGatewayRefundID gatewayRefundID M =
    map_option without_evidence (find (\<lambda>r. rf_GatewayRefundID r = Some gatewayRefundID) (mk_Refunds M))"

text \<open>What the settled refunds of an order, apart from one, sum up to.\<close>

definition settled_sum :: "(refund \<Rightarrow> int) \<Rightarrow> uuid \<Rightarrow> uuid option \<Rightarrow> market \<Rightarrow> int" where
  "settled_sum f orderID excluded M =
    sum_list (map f (filter (\<lambda>r. rf_OrderID r = orderID \<and> rf_GatewayStatus r = GatewayRefundSucceeded
      \<and> (excluded = None \<or> excluded \<noteq> Some (rf_ID r))) (mk_Refunds M)))"

definition or_zero :: "int option \<Rightarrow> int" where
  "or_zero x = (case x of None \<Rightarrow> 0 | Some n \<Rightarrow> n)"

definition GetCumulativeProductRefundByOrder :: "uuid \<Rightarrow> uuid option \<Rightarrow> market \<Rightarrow> int" where
  "GetCumulativeProductRefundByOrder = settled_sum (\<lambda>r. case rf_RefundedProductAmount r of
     Some n \<Rightarrow> n | None \<Rightarrow> or_zero (rf_FinalRefundAmount r))"

definition GetCumulativeShippingRefundByOrder :: "uuid \<Rightarrow> uuid option \<Rightarrow> market \<Rightarrow> int" where
  "GetCumulativeShippingRefundByOrder = settled_sum (\<lambda>r. or_zero (rf_RefundedShippingAmount r))"

definition GetCumulativeCoinsRefundedByOrder :: "uuid \<Rightarrow> uuid option \<Rightarrow> market \<Rightarrow> int" where
  "GetCumulativeCoinsRefundedByOrder = settled_sum (\<lambda>r. or_zero (rf_CoinsRefundedAmount r))"

text \<open>\<open>Update\<close> writes these columns and no other.\<close>

definition written_refund :: "refund \<Rightarrow> refund \<Rightarrow> refund" where
  "written_refund r row = row
    \<lparr>rf_Status := rf_Status r, rf_SellerApprovedPercent := rf_SellerApprovedPercent r,
     rf_SellerApprovedAmount := rf_SellerApprovedAmount r, rf_SellerNotes := rf_SellerNotes r,
     rf_SellerReviewedAt := rf_SellerReviewedAt r, rf_AdminApprovedPercent := rf_AdminApprovedPercent r,
     rf_AdminApprovedAmount := rf_AdminApprovedAmount r, rf_AdminNotes := rf_AdminNotes r,
     rf_ReviewedBy := rf_ReviewedBy r, rf_AdminReviewedAt := rf_AdminReviewedAt r,
     rf_FinalRefundAmount := rf_FinalRefundAmount r, rf_ApprovedAt := rf_ApprovedAt r,
     rf_RejectedAt := rf_RejectedAt r, rf_RefundedAt := rf_RefundedAt r, rf_UpdatedAt := rf_UpdatedAt r,
     rf_GatewayRefundID := rf_GatewayRefundID r,
     rf_GatewayStatus := stored_gateway_status (rf_GatewayStatus r), rf_GatewayAttempts := rf_GatewayAttempts r,
     rf_LastGatewayError := rf_LastGatewayError r, rf_GatewayIdempotencyKey := rf_GatewayIdempotencyKey r,
     rf_GatewayRequestedAt := rf_GatewayRequestedAt r, rf_GatewayAcknowledgedAt := rf_GatewayAcknowledgedAt r,
     rf_RefundedProductAmount := rf_RefundedProductAmount r,
     rf_RefundedShippingAmount := rf_RefundedShippingAmount r, rf_CoinsRefundedAmount := rf_CoinsRefundedAmount r\<rparr>"

definition rrepo_Update :: "refund \<Rightarrow> market \<Rightarrow> step_result" where
  "rrepo_Update r M =
    (case refund_by_id (rf_ID r) M of
       None \<Rightarrow> Inr M
     | Some row \<Rightarrow>
         if \<not> refund_checked (written_refund r row) \<or> key_taken (written_refund r row) (mk_Refunds M) then Inl TxAborted
         else Inr (M\<lparr>mk_Refunds := map (\<lambda>q. if rf_ID q = rf_ID r then written_refund r q else q) (mk_Refunds M)\<rparr>))"

definition HasRefundBlockingRelease :: "uuid \<Rightarrow> bool \<Rightarrow> market \<Rightarrow> bool" where
  "HasRefundBlockingRelease orderID refundWindowOpen M =
    list_ex (\<lambda>r. rf_OrderID r = orderID
      \<and> (rf_Status r \<in> set [RefundSellerApproved, RefundAdminRefunded, RefundSystemRefunded]
           \<and> rf_GatewayStatus r \<noteq> GatewayRefundSucceeded
         \<or> rf_Status r \<in> set [RefundPendingSellerReview, RefundSellerRejected, RefundEscalatedToAdmin]
           \<and> refundWindowOpen)) (mk_Refunds M)"

definition CreateEvidence :: "uuid \<Rightarrow> string \<Rightarrow> market \<Rightarrow> market" where
  "CreateEvidence refundID mediaURL M =
    M\<lparr>mk_Refunds := map (\<lambda>q. if rf_ID q = refundID then q\<lparr>rf_EvidenceURLs := rf_EvidenceURLs q @ [mediaURL]\<rparr> else q)
      (mk_Refunds M)\<rparr>"

definition ListEvidence :: "uuid \<Rightarrow> market \<Rightarrow> string list" where
  "ListEvidence refundID M = (case refund_by_id refundID M of None \<Rightarrow> [] | Some r \<Rightarrow> rf_EvidenceURLs r)"

text \<open>The newest first, strictly after the cursor.\<close>

definition refund_key :: "refund \<Rightarrow> time \<times> uuid" where
  "refund_key r = (rf_CreatedAt r, rf_ID r)"

definition key_before :: "time \<times> uuid \<Rightarrow> time \<times> uuid \<Rightarrow> bool" where
  "key_before a b \<longleftrightarrow> fst a < fst b \<or> fst a = fst b \<and> snd a < snd b"

definition rrepo_ListByOrderID :: "uuid \<Rightarrow> nat \<Rightarrow> (time \<times> uuid) option \<Rightarrow> market \<Rightarrow> refund list" where
  "rrepo_ListByOrderID orderID limit cursor M =
    take limit (map without_evidence (rev (sort_key rf_CreatedAt (sort_key rf_ID
      (filter (\<lambda>r. rf_OrderID r = orderID \<and> (case cursor of None \<Rightarrow> True | Some k \<Rightarrow> key_before (refund_key r) k))
        (mk_Refunds M))))))"

section \<open>Notifications of the gateway\<close>

record notification =
  nt_TransactionStatus :: string
  nt_TransactionID :: string
  nt_StatusMessage :: string
  nt_StatusCode :: string
  nt_SignatureKey :: string
  nt_PaymentType :: string
  nt_OrderID :: string
  nt_GrossAmount :: string
  nt_FraudStatus :: string
  nt_RefundKey :: string
  nt_RefundAmount :: string
  nt_RefundChargeID :: string

definition isWebhookRefundSuccess :: "notification \<Rightarrow> bool" where
  "isWebhookRefundSuccess n =
    (if nt_TransactionStatus n \<noteq> ''refund'' \<and> nt_TransactionStatus n \<noteq> ''partial_refund'' then False
     else nt_StatusCode n = '''' \<or> nt_StatusCode n = ''200'')"

text \<open>
  \<open>Sscanf("%f")\<close> reads a decimal from the front of the text. Only plain decimals
  are read here (no exponent, hexadecimal, infinity), and the value is exact: a
  \<open>float64\<close> agrees with it after truncation up to \<open>2 ^ 53\<close> with two decimals.
\<close>

definition scan_decimal_text :: "string \<Rightarrow> (bool \<times> int \<times> string) option" where
  "scan_decimal_text s =
    (let t = dropWhile (\<lambda>c. c = CHR '' '') s;
         (negative, rest) = (case t of
            c # cs \<Rightarrow> if c = CHR ''-'' then (True, cs) else if c = CHR ''+'' then (False, cs) else (False, t)
          | [] \<Rightarrow> (False, t));
         whole = takeWhile is_digit rest;
         rest2 = dropWhile is_digit rest;
         fraction = (case rest2 of c # cs \<Rightarrow> if c = CHR ''.'' then takeWhile is_digit cs else [] | [] \<Rightarrow> [])
     in if whole = [] \<and> fraction = [] then None else Some (negative, digits_value whole 0, fraction))"

definition parseMidtransRefundAmount :: "string \<Rightarrow> i64 option" where
  "parseMidtransRefundAmount raw =
    (if raw = '''' then None
     else case scan_decimal_text raw of
       None \<Rightarrow> None
     | Some (negative, whole, fraction) \<Rightarrow>
         if negative \<and> (whole \<noteq> 0 \<or> digits_value fraction 0 \<noteq> 0) then None else Some whole)"

end
