(* ===== verification/RefundDesk.thy ===== *)
theory RefundDesk
  imports RefundStore EscrowService RefundMath
begin

text \<open>
  \<open>finance/refund/application\<close>: asking for a refund, the decisions of seller and
  admin (\<open>refund_service.go\<close>), sending it to the gateway and settling it when the
  gateway confirms (\<open>refund_gateway.go\<close>), with the order service's
  \<open>SyncRefundSettlementFromGatewayAck\<close>. All services are wired. A statement that
  fails aborts the transaction, also where the code drops its error.
\<close>

section \<open>The books\<close>

text \<open>A failed statement of the ledger, as opposed to a refusal of the code.\<close>

definition ledger_statement_failed :: "finance_error \<Rightarrow> bool" where
  "ledger_statement_failed e \<longleftrightarrow> (case e of
     FinLedger LedgerInsertTransactionFailed \<Rightarrow> True | FinLedger (LedgerUpdateBalanceFailed _) \<Rightarrow> True
   | FinLedger LedgerInsertEntryFailed \<Rightarrow> True | _ \<Rightarrow> False)"

text \<open>A posting whose error is dropped: a failed statement has still aborted the transaction.\<close>

definition dropped_ledger :: "(ledger \<Rightarrow> finance_error + ledger) \<Rightarrow> market \<Rightarrow> step_result" where
  "dropped_ledger f M =
    (case f (mk_Ledger M) of
       Inr L \<Rightarrow> Inr (M\<lparr>mk_Ledger := L\<rparr>)
     | Inl e \<Rightarrow> if ledger_statement_failed e then Inl TxAborted
                else (case e of FinLedger (LedgerPanic _) \<Rightarrow> Inl (Panicked ''money'') | _ \<Rightarrow> Inr M))"

definition coinsSpendForOrder :: "uuid \<Rightarrow> uuid \<Rightarrow> market \<Rightarrow> market_error + i64" where
  "coinsSpendForOrder userID orderID M =
    (case fst (repo_FindSpendByReference userID orderID (mk_Coins M)) of
       Inl e \<Rightarrow> Inl (CoinsFault e)
     | Inr spend \<Rightarrow> Inr (case spend of None \<Rightarrow> 0 | Some t \<Rightarrow> ct_Amount t))"

section \<open>Sending a refund to the gateway\<close>

datatype GatewayRefundCallerType = CallerTypeAdmin | CallerTypeSystem | CallerTypeOther

record InitiateGatewayRefundInput =
  ig_RefundID :: uuid
  ig_Amount :: i64
  ig_Reason :: string
  ig_IdempotencyKey :: string
  ig_CallerID :: uuid
  ig_CallerType :: GatewayRefundCallerType

definition caller_provenance :: "uuid \<Rightarrow> GatewayRefundCallerType \<Rightarrow> bool" where
  "caller_provenance callerID callerType \<longleftrightarrow> callerID \<noteq> uuid_nil \<and>
    (case callerType of CallerTypeAdmin \<Rightarrow> \<not> IsSystemCaller callerID | CallerTypeSystem \<Rightarrow> IsSystemCaller callerID
     | CallerTypeOther \<Rightarrow> False)"

definition in_flight_status :: "GatewayRefundStatus \<Rightarrow> bool" where
  "in_flight_status s \<longleftrightarrow> s = GatewayRefundPending \<or> s = GatewayRefundSucceeded"

definition response_reference :: "GatewayRefundResponse \<Rightarrow> string option" where
  "response_reference resp =
    (if gp_RefundChargeID resp \<noteq> '''' then Some (gp_RefundChargeID resp)
     else if gp_TransactionID resp \<noteq> '''' then Some (gp_TransactionID resp) else None)"

text \<open>
  When the gateway refuses, the row is marked failed and the error returned: every
  caller returns it too, so the mark is rolled back with the transaction.
\<close>

definition InitiateGatewayRefund ::
    "refund_gateway \<Rightarrow> time \<Rightarrow> InitiateGatewayRefundInput \<Rightarrow> market \<Rightarrow> market_error + refund \<times> market" where
  "InitiateGatewayRefund gw now inp M =
    (if \<not> caller_provenance (ig_CallerID inp) (ig_CallerType inp) then Inl (Refused ''caller provenance'')
     else if ig_IdempotencyKey inp = '''' then Inl (Refused ''idempotency key'')
     else if ig_Amount inp \<le> 0 then Inl (Refused ''amount must be positive'')
     else case find (\<lambda>r. rf_ID r = ig_RefundID inp \<and> in_flight_status (rf_GatewayStatus r))
         (case rrepo_GetByGatewayIdempotencyKey (ig_IdempotencyKey inp) M of None \<Rightarrow> [] | Some r \<Rightarrow> [r]) of
       Some existing \<Rightarrow> Inr (existing, M)
     | None \<Rightarrow>
         sum_bind (found ''refund'' (rrepo_GetByID (ig_RefundID inp) M)) (\<lambda>refundSnapshot.
         sum_bind (orepo_GetForUpdate (rf_OrderID refundSnapshot) M) (\<lambda>o1.
         sum_bind (rrepo_GetForUpdate (ig_RefundID inp) M) (\<lambda>r.
         sum_bind (guard (rf_GatewayStatus r \<noteq> GatewayRefundSucceeded) (Refused ''already settled by gateway'')) (\<lambda>_.
         sum_bind (GetEscrowForOrder (rf_OrderID r) M) (\<lambda>esc.
         sum_bind (found ''escrow'' esc) (\<lambda>e.
         sum_bind (guard (es_Status e = EscrowHolding) (Refused ''escrow not holding'')) (\<lambda>_.
         sum_bind (exact (order_HasCanonicalMoneyBase o1)) (\<lambda>base.
         sum_bind (guard base (Refused ''canonical base invalid'')) (\<lambda>_.
         sum_bind (guard (ig_Amount inp \<le> money_Int64 (op_TotalBeforeCoinsAmount (or_Pricing o1)))
           (Refused ''amount exceeds PD+S'')) (\<lambda>_.
         let req = \<lparr>gq_OrderID = uuid_text (rf_OrderID r), gq_RefundKey = ig_IdempotencyKey inp,
               gq_Amount = ig_Amount inp, gq_Reason = ig_Reason inp\<rparr>
         in case gw req of
              Inl msg \<Rightarrow> Inl (GatewayFault msg)
            | Inr resp \<Rightarrow>
                let r1 = snd (refund_MarkGatewayDispatched (ig_IdempotencyKey inp) (response_reference resp) now r)
                in sum_bind (rrepo_Update r1 (M\<lparr>mk_Requests := mk_Requests M @ [req]\<rparr>)) (\<lambda>M1.
                   Inr (r1, InsertEvent ''money.refund_pending'' (rf_ID r1) M1)))))))))))))"

record SystemRefundInput =
  si_OrderID :: uuid
  si_BuyerID :: uuid
  si_SellerID :: uuid
  si_AdminID :: uuid
  si_ProductAmount :: i64
  si_ShippingAmount :: i64
  si_PD :: i64
  si_S :: i64
  si_C :: i64
  si_K :: i64
  si_Reason :: RefundReason
  si_Description :: "string option"
  si_IdempotencyKey :: string

definition system_refund_cash :: "SystemRefundInput \<Rightarrow> i64" where
  "system_refund_cash inp =
    (let coinDelta = wrap64 (proportionalFloor (si_ProductAmount inp) (si_K inp) (si_PD inp)
           - proportionalFloor 0 (si_K inp) (si_PD inp))
     in wrap64 (wrap64 (si_ProductAmount inp + si_ShippingAmount inp) - coinDelta))"

definition CreateAndDispatchSystemRefund ::
    "refund_gateway \<Rightarrow> (nat \<Rightarrow> time) \<Rightarrow> uuid \<Rightarrow> SystemRefundInput \<Rightarrow> market \<Rightarrow> market_error + refund \<times> market" where
  "CreateAndDispatchSystemRefund gw clk new_id inp M =
    (if si_OrderID inp = uuid_nil then Inl (Refused ''order_id'')
     else if si_ProductAmount inp < 0 \<or> si_ProductAmount inp > si_PD inp then Inl (Refused ''Rpd out of range'')
     else if si_ShippingAmount inp < 0 \<or> si_ShippingAmount inp > si_S inp then Inl (Refused ''Rs out of range'')
     else if si_PD inp \<le> 0 then Inl (Refused ''PD must be positive'')
     else if si_IdempotencyKey inp = '''' then Inl (Refused ''idempotency key'')
     else let cashRefund = system_refund_cash inp
     in if cashRefund \<le> 0 then Inl (Refused ''cashRefund must be positive'')
     else if cashRefund > wrap64 (wrap64 (si_PD inp + si_S inp) - si_K inp) then Inl (Refused ''cashRefund exceeds cap'')
     else case rrepo_GetByGatewayIdempotencyKey (si_IdempotencyKey inp) M of
       Some existing \<Rightarrow>
         if in_flight_status (rf_GatewayStatus existing) then Inr (existing, M)
         else sum_bind (InitiateGatewayRefund gw (clk 1) \<lparr>ig_RefundID = rf_ID existing, ig_Amount = cashRefund,
             ig_Reason = reason_text (si_Reason inp), ig_IdempotencyKey = si_IdempotencyKey inp,
             ig_CallerID = SystemCallerID, ig_CallerType = CallerTypeSystem\<rparr> M) (\<lambda>(_, M2).
           Inr (case rrepo_GetByID (rf_ID existing) M2 of None \<Rightarrow> existing | Some r \<Rightarrow> r, M2))
     | None \<Rightarrow>
         let r = NewSystemRefund new_id (clk 0) (si_OrderID inp) (si_BuyerID inp) (si_SellerID inp) (si_AdminID inp)
               (si_Reason inp) (si_ProductAmount inp) (si_ShippingAmount inp) (si_Description inp)
         in sum_bind (rrepo_Create r M) (\<lambda>M1.
            sum_bind (InitiateGatewayRefund gw (clk 1) \<lparr>ig_RefundID = rf_ID r, ig_Amount = cashRefund,
              ig_Reason = reason_text (si_Reason inp), ig_IdempotencyKey = si_IdempotencyKey inp,
              ig_CallerID = SystemCallerID, ig_CallerType = CallerTypeSystem\<rparr> M1) (\<lambda>(_, M2).
            Inr (case rrepo_GetByID (rf_ID r) M2 of None \<Rightarrow> r | Some r1 \<Rightarrow> r1, M2))))"

section \<open>Requests and decisions\<close>

record CreateRefundInput =
  cr_Reason :: string
  cr_Description :: "string option"
  cr_EvidenceURLs :: "string list"
  cr_RequestedAmount :: i64

fun isValidRefundReason :: "RefundReason \<Rightarrow> bool" where
  "isValidRefundReason ReasonGatewayCapturedAfterOrderInvalid = False"
| "isValidRefundReason (ReasonUnknown _) = False"
| "isValidRefundReason _ = True"

definition CreateRefund ::
    "time \<Rightarrow> uuid \<Rightarrow> uuid \<Rightarrow> uuid \<Rightarrow> CreateRefundInput \<Rightarrow> market \<Rightarrow> market_error + refund \<times> market" where
  "CreateRefund now new_id orderID buyerID inp M =
    sum_bind (orepo_GetForUpdate orderID M) (\<lambda>o1.
    sum_bind (guard (or_BuyerID o1 = buyerID) (Refused ''only buyer'')) (\<lambda>_.
    sum_bind (guard (or_Status o1 = OrderShipped) (Refused ''order must be shipped'')) (\<lambda>_.
    sum_bind (guard (\<not> or_HasDispute o1) (Refused ''active dispute'')) (\<lambda>_.
    sum_bind (GetEscrowForOrder orderID M) (\<lambda>esc.
    sum_bind (guard (map_option es_Status esc = Some EscrowHolding) (Refused ''escrow not holding'')) (\<lambda>_.
    case find (\<lambda>r. refund_AwaitsDecision r \<or> refund_IsSettlementPending r)
        (case rrepo_GetByOrderID orderID M of None \<Rightarrow> [] | Some r \<Rightarrow> [r]) of
      Some existing \<Rightarrow>
        if rf_BuyerID existing = buyerID then Inr (existing, M) else Inl (Refused ''active refund request'')
    | None \<Rightarrow>
        let reason = reason_of (cr_Reason inp) in
        sum_bind (guard (isValidRefundReason reason) (Refused ''invalid refund reason'')) (\<lambda>_.
        sum_bind (exact (order_HasCanonicalMoneyBase o1)) (\<lambda>base.
        sum_bind (guard base (Refused ''canonical base invalid'')) (\<lambda>_.
        sum_bind (guard (cr_RequestedAmount inp > 0) (Refused ''amount must be positive'')) (\<lambda>_.
        sum_bind (guard (cr_RequestedAmount inp \<le> money_Int64 (op_TotalBeforeCoinsAmount (or_Pricing o1)))
          (Refused ''amount exceeds escrow'')) (\<lambda>_.
        let r = NewRefund new_id now orderID (or_BuyerID o1) (or_SellerID o1) reason (cr_Description inp)
              (cr_RequestedAmount inp)
        in sum_bind (rrepo_Create r M) (\<lambda>M1.
           Inr (r, InsertEvent ''refund.opened'' (rf_ID r)
             (fold (CreateEvidence (rf_ID r)) (cr_EvidenceURLs inp) M1))))))))))))))"

definition EscalateToDispute :: "time \<Rightarrow> uuid \<Rightarrow> uuid \<Rightarrow> market \<Rightarrow> market_error + refund \<times> market" where
  "EscalateToDispute now refundID callerID M =
    sum_bind (rrepo_GetForUpdate refundID M) (\<lambda>r.
    sum_bind (guard (rf_BuyerID r = callerID) (Refused ''only the buyer'')) (\<lambda>_.
    sum_bind (moved RefundFault (refund_EscalateToAdmin now r)) (\<lambda>r1.
    sum_bind (rrepo_Update r1 M) (\<lambda>M1.
    Inr (r1\<lparr>rf_EvidenceURLs := ListEvidence (rf_ID r1) M1\<rparr>, InsertEvent ''refund.escalated'' (rf_ID r1) M1)))))"

text \<open>The boolean tells whether the order has a refund process.\<close>

definition AdminResolveRefundDecision ::
    "refund_gateway \<Rightarrow> (nat \<Rightarrow> time) \<Rightarrow> uuid \<Rightarrow> uuid \<Rightarrow> bool \<Rightarrow> i64 \<Rightarrow> string option \<Rightarrow> market
      \<Rightarrow> market_error + bool \<times> market" where
  "AdminResolveRefundDecision gw clk orderID adminID buyerWins amount notes M =
    (case rrepo_GetByOrderID orderID M of
       None \<Rightarrow> Inr (False, M)
     | Some existing \<Rightarrow>
         if refund_IsDecisionFinal existing then Inr (True, M)
         else sum_bind (rrepo_GetForUpdate (rf_ID existing) M) (\<lambda>r.
           if refund_IsDecisionFinal r then Inr (True, M)
           else if rf_Status r \<noteq> RefundEscalatedToAdmin then Inl (Refused ''must be escalated_to_admin'')
           else sum_bind (moved RefundFault (if buyerWins then refund_AdminRefund adminID amount notes (clk 0) r
                                             else refund_AdminRelease adminID notes (clk 0) r)) (\<lambda>r1.
             sum_bind (rrepo_Update r1 M) (\<lambda>M1.
             let M2 = InsertEvent (if rf_Status r1 = RefundAdminRefunded then ''refund.admin_refunded''
                                   else ''refund.admin_released'') (rf_ID r1) M1
             in if \<not> buyerWins then Inr (True, M2)
                else sum_bind (InitiateGatewayRefund gw (clk 1) \<lparr>ig_RefundID = rf_ID r1, ig_Amount = amount,
                    ig_Reason = reason_text (rf_Reason r1),
                    ig_IdempotencyKey = ''admin_decision_'' @ uuid_text (rf_ID r1), ig_CallerID = adminID,
                    ig_CallerType = (if IsSystemCaller adminID then CallerTypeSystem else CallerTypeAdmin)\<rparr> M2)
                  (\<lambda>(_, M3). Inr (True, M3))))))"

definition HasFinalRefundDecisionOwedToBuyer :: "uuid \<Rightarrow> market \<Rightarrow> bool" where
  "HasFinalRefundDecisionOwedToBuyer orderID M =
    (case rrepo_GetByOrderID orderID M of
       None \<Rightarrow> False
     | Some existing \<Rightarrow> refund_IsDecisionFinal existing \<and> refund_OwesBuyerRefund existing)"

definition CreateAndDispatchSystemRefundFromApproval ::
    "refund_gateway \<Rightarrow> time \<Rightarrow> refund \<Rightarrow> string \<Rightarrow> market \<Rightarrow> market_error + refund \<times> market" where
  "CreateAndDispatchSystemRefundFromApproval gw now r idempotencyKey M =
    InitiateGatewayRefund gw now \<lparr>ig_RefundID = rf_ID r,
      ig_Amount = (case rf_SellerApprovedAmount r of None \<Rightarrow> rf_RequestedAmount r | Some n \<Rightarrow> n),
      ig_Reason = reason_text (rf_Reason r), ig_IdempotencyKey = idempotencyKey,
      ig_CallerID = SystemCallerID, ig_CallerType = CallerTypeSystem\<rparr> M"

definition ApproveRefund ::
    "refund_gateway \<Rightarrow> (nat \<Rightarrow> time) \<Rightarrow> uuid \<Rightarrow> uuid \<Rightarrow> string option \<Rightarrow> market \<Rightarrow> market_error + refund \<times> market" where
  "ApproveRefund gw clk refundID sellerID notes M =
    sum_bind (found ''refund'' (rrepo_GetByID refundID M)) (\<lambda>refundRead.
    sum_bind (guard (rf_SellerID refundRead = sellerID) (Refused ''only the seller'')) (\<lambda>_.
    sum_bind (orepo_GetForUpdate (rf_OrderID refundRead) M) (\<lambda>o1.
    sum_bind (rrepo_GetForUpdate refundID M) (\<lambda>r.
    sum_bind (exact (order_HasCanonicalMoneyBase o1)) (\<lambda>base.
    sum_bind (guard base (Refused ''canonical base invalid'')) (\<lambda>_.
    sum_bind (exact (order_DiscountedProductAmount o1)) (\<lambda>pd.
    let policy = ResolveRefundPolicy (rf_Reason r) \<lparr>sn_DiscountedProduct = money_Int64 pd,
          sn_ShippingTotal = money_Int64 (op_ShippingTotal (or_Pricing o1)),
          sn_CommissionAmount = money_Int64 (op_CommissionAmount (or_Pricing o1))\<rparr>
    in sum_bind (guard (policy_IsSellerApprovable policy) (Refused ''admin review required'')) (\<lambda>_.
       sum_bind (moved RefundFault (refund_SellerApprove (po_CashRefund policy) notes (clk 0) r)) (\<lambda>r1.
       let r2 = r1\<lparr>rf_RefundedProductAmount := Some (po_ProductAmount policy),
             rf_RefundedShippingAmount := Some (po_ShippingAmount policy)\<rparr>
       in sum_bind (rrepo_Update r2 M) (\<lambda>M1.
          sum_bind (CreateAndDispatchSystemRefundFromApproval gw (clk 1) r2 (''seller_approve_'' @ uuid_text (rf_ID r2))
            (InsertEvent ''refund.approved'' (rf_ID r2) M1)) (\<lambda>(_, M2).
          Inr (case rrepo_GetByID (rf_ID r2) M2 of None \<Rightarrow> r2 | Some r3 \<Rightarrow> r3, M2))))))))))))"

definition RejectRefund ::
    "time \<Rightarrow> uuid \<Rightarrow> uuid \<Rightarrow> string option \<Rightarrow> market \<Rightarrow> market_error + refund \<times> market" where
  "RejectRefund now refundID sellerID notes M =
    sum_bind (rrepo_GetForUpdate refundID M) (\<lambda>r.
    sum_bind (guard (rf_SellerID r = sellerID) (Refused ''only the seller'')) (\<lambda>_.
    sum_bind (moved RefundFault (refund_SellerReject notes now r)) (\<lambda>r1.
    sum_bind (rrepo_Update r1 M) (\<lambda>M1.
    Inr (r1, InsertEvent ''refund.rejected'' (rf_ID r1) M1)))))"

text \<open>One page of the history: the rows, the next cursor, whether there are more.\<close>

definition ListRefundHistoryByOrderID ::
    "uuid \<Rightarrow> int \<Rightarrow> (time \<times> uuid) option \<Rightarrow> market \<Rightarrow> refund list \<times> (time \<times> uuid) option \<times> bool" where
  "ListRefundHistoryByOrderID orderID limit cursor M =
    (let n = (if limit \<le> 0 then 20 else nat limit);
         rows = rrepo_ListByOrderID orderID (n + 1) cursor M;
         hasMore = n < length rows;
         page = (if hasMore then take n rows else rows)
     in (page, if hasMore \<and> page \<noteq> [] then Some (refund_key (last page)) else None, hasMore))"

section \<open>The confirmation of the gateway\<close>

definition SyncRefundSettlementFromGatewayAck :: "time \<Rightarrow> uuid \<Rightarrow> bool \<Rightarrow> time \<Rightarrow> market \<Rightarrow> step_result" where
  "SyncRefundSettlementFromGatewayAck now orderID fullyRefunded occurredAt M =
    sum_bind (orepo_GetForUpdate orderID M) (\<lambda>o1.
    let targetStatus = (if fullyRefunded then OrderRefunded else OrderPartiallyRefunded)
    in if or_Status o1 = targetStatus then Inr M
       else sum_bind (if fullyRefunded then Inr (o1\<lparr>or_Status := OrderRefunded, or_UpdatedAt := occurredAt\<rparr>)
                      else moved OrderFault (order_MarkPartiallyRefunded now o1)) (\<lambda>o2.
         Inr (orepo_UpdateStatusTx (o2\<lparr>or_UpdatedAt := occurredAt\<rparr>) M)))"

text \<open>The product and shipping parts: as the row has them, else split from the cash, product first.\<close>

definition refund_parts :: "i64 \<Rightarrow> i64 \<Rightarrow> i64 \<Rightarrow> refund \<Rightarrow> i64 \<times> i64" where
  "refund_parts pd s gatewayCash r =
    (let rpd = or_zero (rf_RefundedProductAmount r); rs = or_zero (rf_RefundedShippingAmount r)
     in if rpd = 0 \<and> rs = 0 \<and> gatewayCash > 0
        then let rpd = (if gatewayCash > pd then pd else gatewayCash);
                 rs = wrap64 (gatewayCash - rpd);
                 rs = (if rs > s then s else rs)
             in (rpd, if rs < 0 then 0 else rs)
        else (rpd, rs))"

text \<open>The seller keeps what is not refunded of PD+S, less its share of the commission.\<close>

definition partial_release_of :: "i64 \<Rightarrow> i64 \<Rightarrow> i64 \<Rightarrow> breakdown \<Rightarrow> refund \<Rightarrow> RecordPartialRefundReleaseInput option" where
  "partial_release_of pd s c b r =
    (let remainder = wrap64 (wrap64 (pd + s) - wrap64 (bd_CumProductRefundAfter b + bd_CumShippingRefundAfter b))
     in if remainder > 0
        then let remProduct = wrap64 (pd - bd_CumProductRefundAfter b);
                 remCommission = (if pd > 0 \<and> c > 0 \<and> remProduct > 0 then proportionalFloor remProduct c pd else 0)
             in Some \<lparr>pr_RefundID = rf_ID r, pr_OrderID = rf_OrderID r, pr_SellerID = rf_SellerID r,
                  pr_Remainder = remainder, pr_SellerNet = wrap64 (remainder - remCommission),
                  pr_Commission = remCommission\<rparr>
        else None)"

definition cumulative_cash :: "breakdown \<Rightarrow> i64" where
  "cumulative_cash b =
    wrap64 (wrap64 (bd_CumProductRefundAfter b + bd_CumShippingRefundAfter b) - bd_CumCoinsRestoredAfter b)"

text \<open>What this event refunds: its product and shipping parts and the breakdown, which keeps PD, S, C and K.\<close>

definition refund_breakdown :: "string \<Rightarrow> order \<Rightarrow> refund \<Rightarrow> market \<Rightarrow> market_error + breakdown" where
  "refund_breakdown refundAmount o1 r M =
    sum_bind (found ''refund_amount'' (parseMidtransRefundAmount refundAmount)) (\<lambda>gatewayCash.
    sum_bind (exact (order_HasCanonicalMoneyBase o1)) (\<lambda>base.
    sum_bind (guard base (Refused ''canonical base invalid'')) (\<lambda>_.
    sum_bind (exact (order_DiscountedProductAmount o1)) (\<lambda>pdMoney.
    sum_bind (coinsSpendForOrder (rf_BuyerID r) (rf_OrderID r) M) (\<lambda>k.
    let pd = money_Int64 pdMoney;
        s = money_Int64 (op_ShippingTotal (or_Pricing o1));
        c = money_Int64 (op_CommissionAmount (or_Pricing o1));
        (rpd, rs) = refund_parts pd s gatewayCash r;
        cumProductBefore = GetCumulativeProductRefundByOrder (rf_OrderID r) (Some (rf_ID r)) M;
        cumShippingBefore = GetCumulativeShippingRefundByOrder (rf_OrderID r) (Some (rf_ID r)) M;
        cumCoinsBefore = GetCumulativeCoinsRefundedByOrder (rf_OrderID r) (Some (rf_ID r)) M
    in case CalculateProportionalRefundBreakdown pd s c k rpd rs cumProductBefore cumShippingBefore cumCoinsBefore
           (proportionalFloor cumProductBefore c pd) of
         Inl _ \<Rightarrow> Inl (Refused ''compute breakdown'')
       | Inr b \<Rightarrow> Inr b)))))"

definition reversal_of :: "refund \<Rightarrow> breakdown \<Rightarrow> RecordRefundReversalInput" where
  "reversal_of r b =
    \<lparr>rv_RefundID = rf_ID r, rv_OrderID = rf_OrderID r, rv_BuyerID = rf_BuyerID r, rv_SellerID = rf_SellerID r,
     rv_RefundAmount = bd_CashRefund b, rv_SellerComponent = bd_SellerComponent b,
     rv_CommissionComponent = bd_CommissionDelta b, rv_OrderGross = wrap64 (bd_PD b + bd_S b),
     rv_CumulativeRefunded = cumulative_cash b, rv_AfterRelease = False\<rparr>"

text \<open>The escrow: given back when all cash is, else released with the seller's remainder.\<close>

definition flip_refunded_escrow ::
    "(nat \<Rightarrow> time) \<Rightarrow> (nat \<Rightarrow> uuid) \<Rightarrow> bool \<Rightarrow> refund \<Rightarrow> breakdown \<Rightarrow> market \<Rightarrow> step_result" where
  "flip_refunded_escrow clk ids fullyRefunded r b M =
    (if fullyRefunded
     then sum_bind (RefundGatewayEscrow (clk 1) (rf_OrderID r) M) (\<lambda>(_, M1). Inr M1)
     else sum_bind (PartialRefundGatewayEscrow (clk 1) (rf_OrderID r) (bd_CashRefund b) M) (\<lambda>(_, M1).
       case partial_release_of (bd_PD b) (bd_S b) (bd_C b) b r of
         None \<Rightarrow> Inr M1
       | Some inp \<Rightarrow> dropped_ledger (RecordPartialRefundRelease (ids 4) (ids 5) inp) M1))"

text \<open>
  The reversal of a confirmed refund: the ledger, the platform's coin funding,
  the row, the escrow, the seller's remainder and the order. \<open>now\<close> is \<open>clk 0\<close>.
\<close>

definition reverse_settled_refund ::
    "(nat \<Rightarrow> time) \<Rightarrow> (nat \<Rightarrow> uuid) \<Rightarrow> string \<Rightarrow> order \<Rightarrow> refund \<Rightarrow> market \<Rightarrow> market_error + refund \<times> market" where
  "reverse_settled_refund clk ids refundAmount o1 r M =
    sum_bind (GetEscrowForOrder (rf_OrderID r) M) (\<lambda>esc.
    sum_bind (found ''escrow'' esc) (\<lambda>e.
    sum_bind (refund_breakdown refundAmount o1 r M) (\<lambda>b.
    sum_bind (guard (es_Status e \<noteq> EscrowReleased) (Refused ''post-release acknowledgements are disabled'')) (\<lambda>_.
    let duplicate = ledger_CountTransactionsByEntityID (rf_ID r) (mk_Ledger M) > 0;
        r1 = r\<lparr>rf_FinalRefundAmount := Some (bd_CashRefund b), rf_RefundedProductAmount := Some (bd_Rpd b),
          rf_RefundedShippingAmount := Some (bd_Rs b), rf_CoinsRefundedAmount := Some (bd_CoinDelta b)\<rparr>;
        r2 = (if \<not> duplicate \<and> rf_RefundedAt r1 = None
              then r1\<lparr>rf_RefundedAt := Some (clk 0), rf_UpdatedAt := clk 0\<rparr> else r1);
        open_now = (\<not> duplicate \<and> es_Status e = EscrowHolding);
        cap = wrap64 (wrap64 (bd_PD b + bd_S b) - bd_K b);
        fullyRefunded = (open_now \<and> cumulative_cash b \<ge> cap);
        partiallyRefunded = (open_now \<and> cumulative_cash b > 0 \<and> cumulative_cash b < cap)
    in sum_bind (with_ledger (RecordRefundReversal (ids 0) (ids 1) (ids 2) (reversal_of r b)) M) (\<lambda>M1.
       sum_bind (if bd_CoinDelta b > 0
         then with_ledger (RecordCoinFundingReversal (ids 3) (rf_ID r) (rf_OrderID r) (bd_CoinDelta b)) M1
         else Inr M1) (\<lambda>M2.
       sum_bind (if fullyRefunded \<or> partiallyRefunded
         then sum_bind (flip_refunded_escrow clk ids fullyRefunded r b M2)
           (SyncRefundSettlementFromGatewayAck (clk 2) (rf_OrderID r) fullyRefunded (clk 0))
         else Inr M2) (\<lambda>M3.
       Inr (r2, InsertEvent ''coins.refund_required'' (rf_OrderID r) M3))))))))"

definition ack_lookup :: "notification \<Rightarrow> market \<Rightarrow> refund option" where
  "ack_lookup n M =
    (case (if nt_RefundChargeID n \<noteq> '''' then rrepo_GetByGatewayRefundID (nt_RefundChargeID n) M else None) of
       Some r \<Rightarrow> Some r
     | None \<Rightarrow> if nt_RefundKey n \<noteq> '''' then rrepo_GetByGatewayIdempotencyKey (nt_RefundKey n) M else None)"

definition already_acknowledged :: "bool \<Rightarrow> refund \<Rightarrow> bool" where
  "already_acknowledged succeeded r \<longleftrightarrow>
     succeeded \<and> rf_GatewayStatus r = GatewayRefundSucceeded \<or> \<not> succeeded \<and> rf_GatewayStatus r = GatewayRefundFailed"

text \<open>A notification of no known refund is accepted and changes nothing.\<close>

definition HandleGatewayRefundAck ::
    "(nat \<Rightarrow> time) \<Rightarrow> (nat \<Rightarrow> uuid) \<Rightarrow> notification \<Rightarrow> market \<Rightarrow> step_result" where
  "HandleGatewayRefundAck clk ids n M =
    (case ack_lookup n M of
       None \<Rightarrow> Inr M
     | Some seen \<Rightarrow>
         let succeeded = isWebhookRefundSuccess n in
         if already_acknowledged succeeded seen then Inr M
         else sum_bind (orepo_GetForUpdate (rf_OrderID seen) M) (\<lambda>o1.
           sum_bind (rrepo_GetForUpdate (rf_ID seen) M) (\<lambda>r.
           if already_acknowledged succeeded r then Inr M
           else if succeeded
           then let r1 = snd (refund_MarkGatewayAckSucceeded (nt_RefundChargeID n) (clk 0) r)
             in sum_bind (if rf_Reason r1 = ReasonGatewayCapturedAfterOrderInvalid then Inr (r1, M)
                          else reverse_settled_refund clk ids (nt_RefundAmount n) o1 r1 M) (\<lambda>(r2, M1).
                sum_bind (rrepo_Update r2 M1) (\<lambda>M2.
                Inr (InsertEvent ''money.refund_succeeded'' (rf_ID r2) M2)))
           else let errMsg = ''gateway refund failed: status_code='' @ nt_StatusCode n @ '' message='' @ nt_StatusMessage n;
                    r1 = snd (refund_MarkGatewayAckFailed errMsg (clk 0) r)
             in sum_bind (rrepo_Update r1 M) (\<lambda>M1.
                Inr (InsertEvent ''money.refund_failed'' (rf_ID r1) M1)))))"

end
