(* ===== verification/RefundOutcome.thy ===== *)
theory RefundOutcome
  imports RefundDesk Settlement
begin

text \<open>
  What a confirmed refund does, and which refunds can never be confirmed: the
  effect of its ledger movements, and the steps of \<open>HandleGatewayRefundAck\<close> on a
  refund that waits for its confirmation.
\<close>

section \<open>The movements\<close>

lemma account_ids_dom: "account_ids L = dom (owner_of L)"
proof -
  have "owner_of L = map_of (owners L)" by (simp add: fun_eq_iff owner_of_def)
  then show ?thesis by (simp add: account_ids_def ids_of_owners dom_map_of_conv_image_fst)
qed

lemma find_account_ids: "find_account i L \<noteq> None \<longleftrightarrow> i \<in> account_ids L"
  by (auto simp: find_account_def account_ids_def find_None_iff)

lemma post_entry_ids:
  assumes "post_entry x e L = Inr L'"
  shows "account_ids L' = account_ids L"
proof -
  have "map ac_ID (lg_Accounts (set_balance i b L)) = map ac_ID (lg_Accounts L)" for i b
    by (simp add: set_balance_def)
  then have "account_ids (set_balance i b L) = account_ids L" for i b by (simp only: account_ids_def)
  moreover have "account_ids (M\<lparr>lg_Entries := es\<rparr>) = account_ids M" for M es by (simp add: account_ids_def)
  ultimately show ?thesis using assms by (auto simp: post_entry_def Let_def split: option.splits if_splits)
qed

lemma reversal_effect:
  assumes "RecordRefundReversal a b x inp L = Inr L'" "rows_ok L" "in_i64 (rv_RefundAmount inp)"
    and "a \<notin> account_ids L" "\<not> rv_AfterRelease inp"
    and "KeyUuid ''refund_reversal_'' (rv_RefundID inp) \<notin> recorded_keys L"
  shows "refund_reversal_valid inp \<and> rows_ok L' \<and> account_ids L' \<subseteq> insert a (account_ids L)
    \<and> recorded_keys L' \<subseteq> insert (KeyUuid ''refund_reversal_'' (rv_RefundID inp)) (recorded_keys L)
    \<and> (\<forall>P. signed_where P L' = signed_where P L
         + (if P (Some (rv_BuyerID inp)) AccountBuyerRefundable then - rv_RefundAmount inp else 0)
         + (if P None AccountGatewayClearing then rv_RefundAmount inp else 0))"
proof -
  let ?k = "KeyUuid ''refund_reversal_'' (rv_RefundID inp)" and ?n = "rv_RefundAmount inp"
  obtain j L1 where o1: "ledger_GetOrCreateUserAccount a AccountBuyerRefundable (rv_BuyerID inp) L = (j, L1)" by fastforce
  obtain gc where g: "refund_reversal_valid inp" "ledger_GetSystemAccountID AccountGatewayClearing L = Inr gc"
    "ledger_CreateTransaction x ?k ''refund_reversal'' (rv_RefundID inp) (Some (rv_OrderID inp)) None
       [leg j (neg64 ?n), leg gc ?n] L1 = Inr L'"
    using assms(1,5) o1 by (auto simp: RecordRefundReversal_def sum_bind_Inr Let_def)
  note L1 = GetOrCreateUserAccount_keeps [OF assms(2,4) _ _ o1]
  have r: "rows_ok L1" "owner_of L1 j = Some (Some (rv_BuyerID inp), AccountBuyerRefundable)"
    "owner_of L1 gc = Some (None, AccountGatewayClearing)" "account_ids L1 \<subseteq> insert a (account_ids L)"
    "\<forall>k. ledger_TransactionExistsByKey k L1 = ledger_TransactionExistsByKey k L" "\<And>P. signed_where P L1 = signed_where P L"
    using L1 GetSystemAccountID_owner [OF assms(2) g(2)] by auto
  have keys: "recorded_keys L1 = recorded_keys L" using r(5) by (auto simp: recorded_keys_iff set_eq_iff)
  have new: "\<not> ledger_TransactionExistsByKey ?k L1" using assms(6) r(5) by (simp add: recorded_keys_iff)
  have "0 < ?n" using g(1) by (simp add: refund_reversal_valid_def)
  then have neg: "neg64 ?n = - ?n" "in_i64 (- ?n)" using neg64_nonneg [of ?n] assms(3) by (auto simp: i64_defs)
  have "signed_where P L' = signed_where P L
         + (if P (Some (rv_BuyerID inp)) AccountBuyerRefundable then - ?n else 0)
         + (if P None AccountGatewayClearing then ?n else 0)" for P
    using lg.transact_moves [OF r(1) _ g(3) new, of P] assms(3) r neg by simp
  moreover have "rows_ok L'" using transact_rows [OF g(3) r(1)] assms(3) neg by simp
  moreover have "account_ids L' = account_ids L1"
    using CreateTransaction_Inr [OF r(1) _ g(3)] assms(3) neg new by (simp add: account_ids_dom)
  ultimately show ?thesis using g(1) transact_keys [OF g(3)] keys r(4) by auto
qed

text \<open>
  The seller's remainder: it is booked with a positive commission, or not at all;
  and a zero commission aborts the transaction.
\<close>

lemma post_entries_Inl:
  assumes "post_entries x es L = Inl err" "en_AccountID ` set es \<subseteq> account_ids L"
  shows "ledger_statement_failed (FinLedger err)"
  using assms
proof (induction es arbitrary: L)
  case Nil
  then show ?case by simp
next
  case (Cons e es)
  show ?case
  proof (cases "post_entry x e L")
    case (Inl err')
    then show ?thesis
      using Cons.prems find_account_ids [of "en_AccountID e" L]
      by (auto simp: post_entry_def Let_def ledger_statement_failed_def split: option.splits if_splits)
  next
    case (Inr L1)
    then show ?thesis using Cons.IH [of L1] Cons.prems post_entry_ids [OF Inr] by auto
  qed
qed

lemma transact_Inl:
  assumes "ledger_CreateTransaction x k rt r oid pid es L = Inl err" "es \<noteq> []"
    and "\<forall>e \<in> set es. in_i64 (en_Amount e)" "(\<Sum>e\<leftarrow>es. en_Amount e) = 0" "en_AccountID ` set es \<subseteq> account_ids L"
  shows "ledger_statement_failed (FinLedger err) \<or> (\<exists>p. err = LedgerPanic p)"
proof (cases "sum_amounts money_Zero es")
  case (Inl p)
  then show ?thesis using assms(1,2) by (auto simp: ledger_CreateTransaction_def)
next
  case (Inr t)
  then have t: "money_IsZero t"
    using sum_amounts_exact [OF _ assms(3) Inr] assms(4) by (simp add: money_defs)
  have new: "\<not> ledger_TransactionExistsByKey k L" using assms(1,2) Inr t by (auto simp: ledger_CreateTransaction_def)
  have all: "filter (\<lambda>i. is_set (find_account i L)) (remdups (map en_AccountID es)) = remdups (map en_AccountID es)"
    using assms(5) find_account_ids by (auto simp: filter_id_conv is_set_def)
  obtain d c where dc: "debit_credit_totals es (0, 0) = (d, c)" by fastforce
  show ?thesis
  proof (cases "d \<noteq> c \<or> d < 0")
    case True
    then have "err = LedgerInsertTransactionFailed"
      using assms(1,2) Inr t new dc by (auto simp: ledger_CreateTransaction_def Let_def)
    then show ?thesis by (simp add: ledger_statement_failed_def)
  next
    case False
    then obtain row where "post_entries x es (L\<lparr>lg_Transactions := lg_Transactions L @ [row]\<rparr>) = Inl err"
      using assms(1,2) Inr t new dc all by (auto simp: ledger_CreateTransaction_def Let_def)
    then show ?thesis using post_entries_Inl assms(5) by (fastforce simp: account_ids_def)
  qed
qed

lemma partial_release_outcome:
  assumes "dropped_ledger (RecordPartialRefundRelease a x inp) M = Inr M'"
    and rows: "rows_ok (mk_Ledger M)" "a \<notin> account_ids (mk_Ledger M)"
      "KeyUuid ''partial_release_'' (pr_RefundID inp) \<notin> recorded_keys (mk_Ledger M)"
    and valid: "pr_RefundID inp \<noteq> uuid_nil" "pr_OrderID inp \<noteq> uuid_nil" "pr_SellerID inp \<noteq> uuid_nil"
      "0 < pr_Remainder inp" "in_i64 (pr_Remainder inp)" "0 \<le> pr_SellerNet inp" "0 \<le> pr_Commission inp"
      "pr_SellerNet inp + pr_Commission inp = pr_Remainder inp"
    and sys: "ledger_GetSystemAccountID AccountGatewayClearing (mk_Ledger M) = Inr gc"
      "ledger_GetSystemAccountID AccountPlatformRevenue (mk_Ledger M) = Inr pv"
  shows "0 < pr_SellerNet inp \<and> 0 < pr_Commission inp \<and> (\<exists>L'. M' = M\<lparr>mk_Ledger := L'\<rparr> \<and>
    (\<forall>P. signed_where P L' = signed_where P (mk_Ledger M) + (if P None AccountGatewayClearing then pr_Remainder inp else 0)
       + (if P (Some (pr_SellerID inp)) AccountSellerPayable then - pr_SellerNet inp else 0)
       + (if P None AccountPlatformRevenue then - pr_Commission inp else 0)))"
proof -
  let ?L = "mk_Ledger M" and ?k = "KeyUuid ''partial_release_'' (pr_RefundID inp)"
  obtain i L1 where o1: "ledger_GetOrCreateUserAccount a AccountSellerPayable (pr_SellerID inp) ?L = (i, L1)" by fastforce
  let ?es = "[leg gc (pr_Remainder inp), leg i (neg64 (pr_SellerNet inp)), leg pv (neg64 (pr_Commission inp))]"
  have ranges: "in_i64 (pr_SellerNet inp)" "in_i64 (pr_Commission inp)" "in_i64 (- pr_SellerNet inp)" "in_i64 (- pr_Commission inp)"
    using valid by (auto simp: i64_defs)
  then have neg: "neg64 (pr_SellerNet inp) = - pr_SellerNet inp" "neg64 (pr_Commission inp) = - pr_Commission inp"
    by simp_all
  have "ledger_GetSystemAccountID AccountPlatformRevenue L1 = Inr pv"
    using sys(2) opened_system_account [of AccountPlatformRevenue a AccountSellerPayable "pr_SellerID inp" ?L] o1 by simp
  then have rec: "RecordPartialRefundRelease a x inp ?L = led (ledger_CreateTransaction x ?k ''partial_refund_release''
      (pr_RefundID inp) (Some (pr_OrderID inp)) None ?es L1)"
    using valid ranges sys(1) o1 by (simp add: RecordPartialRefundRelease_def check_def led_def)
  note L1 = GetOrCreateUserAccount_keeps [OF rows(1,2) _ _ o1]
  have r: "rows_ok L1" "owner_of L1 i = Some (Some (pr_SellerID inp), AccountSellerPayable)"
    "owner_of L1 gc = Some (None, AccountGatewayClearing)" "owner_of L1 pv = Some (None, AccountPlatformRevenue)"
    "\<not> ledger_TransactionExistsByKey ?k L1" "\<And>P. signed_where P L1 = signed_where P ?L"
    using L1 GetSystemAccountID_owner [OF rows(1) sys(1)] GetSystemAccountID_owner [OF rows(1) sys(2)] rows(3)
    by (auto simp: recorded_keys_iff)
  have amounts: "\<forall>e \<in> set ?es. in_i64 (en_Amount e)" using ranges valid(5) neg by simp
  show ?thesis
  proof (cases "ledger_CreateTransaction x ?k ''partial_refund_release'' (pr_RefundID inp) (Some (pr_OrderID inp)) None ?es L1")
    case (Inl err)
    have "ledger_statement_failed (FinLedger err) \<or> (\<exists>p. err = LedgerPanic p)"
      by (rule transact_Inl [OF Inl _ amounts]) (use r neg valid in \<open>auto simp: account_ids_dom\<close>)
    then show ?thesis using assms(1) rec Inl by (auto simp: dropped_ledger_def led_def split: if_splits)
  next
    case (Inr L')
    have "list_all (\<lambda>e. en_Amount e \<noteq> 0) ?es" using transact_zero [OF Inr] r(5) by (simp add: recorded_keys_iff)
    then have pos: "0 < pr_SellerNet inp" "0 < pr_Commission inp" using valid neg by auto
    have "M' = M\<lparr>mk_Ledger := L'\<rparr>" using assms(1) rec Inr by (simp add: dropped_ledger_def led_def)
    moreover have "signed_where P L' = signed_where P ?L + (if P None AccountGatewayClearing then pr_Remainder inp else 0)
       + (if P (Some (pr_SellerID inp)) AccountSellerPayable then - pr_SellerNet inp else 0)
       + (if P None AccountPlatformRevenue then - pr_Commission inp else 0)" for P
      using lg.transact_moves [OF r(1) amounts Inr r(5), of P] r neg by simp
    ultimately show ?thesis using pos by blast
  qed
qed

section \<open>A refund that waits for its confirmation\<close>

definition product_base :: "order \<Rightarrow> int" where
  "product_base o1 = op_TotalBeforeCoinsAmount (or_Pricing o1) - op_ShippingTotal (or_Pricing o1)"

text \<open>
  The notification names the pending refund \<open>r\<close> of a shipped order whose escrow
  holds; no other refund of the order has settled and the books know none of it.
\<close>

definition awaits_ack :: "notification \<Rightarrow> refund \<Rightarrow> order \<Rightarrow> int \<Rightarrow> int \<Rightarrow> market \<Rightarrow> bool" where
  "awaits_ack n r o1 rpd rs M \<longleftrightarrow>
     isWebhookRefundSuccess n \<and> ack_lookup n M = Some (without_evidence r) \<and> refund_by_id (rf_ID r) M = Some r
   \<and> rf_GatewayStatus r = GatewayRefundPending \<and> rf_Reason r \<noteq> ReasonGatewayCapturedAfterOrderInvalid
   \<and> rf_RefundedAt r = None \<and> rf_RefundedProductAmount r = Some rpd \<and> rf_RefundedShippingAmount r = Some rs
   \<and> (rpd \<noteq> 0 \<or> rs \<noteq> 0) \<and> order_by_id (rf_OrderID r) M = Some o1 \<and> or_Status o1 = OrderShipped
   \<and> escrows_ok M \<and> (\<exists>n. escrow_book M (rf_OrderID r) = Some (Held n))
   \<and> (\<forall>q \<in> set (mk_Refunds M). rf_OrderID q = rf_OrderID r \<longrightarrow> rf_GatewayStatus q \<noteq> GatewayRefundSucceeded)
   \<and> (\<forall>t \<in> set (lg_Transactions (mk_Ledger M)). lt_ReferenceID t \<noteq> rf_ID r)"

lemma canonical_base:
  assumes "in_i64 (op_TotalBeforeCoinsAmount (or_Pricing o1))" "in_i64 (op_ShippingTotal (or_Pricing o1))"
  shows "order_DiscountedProductAmount o1 = Inr pd \<Longrightarrow> pd = product_base o1"
    "order_HasCanonicalMoneyBase o1 = Inr True \<Longrightarrow> order_DiscountedProductAmount o1 = Inr (product_base o1) \<and> 0 < product_base o1"
  using money_Sub_exact [OF assms]
  by (auto simp: order_DiscountedProductAmount_def order_HasCanonicalMoneyBase_def product_base_def money_defs
      split: sum.splits if_splits)

lemma nothing_settled:
  assumes "\<forall>q \<in> set (mk_Refunds M). rf_OrderID q = i \<longrightarrow> rf_GatewayStatus q \<noteq> GatewayRefundSucceeded"
  shows "settled_sum f i x M = 0"
proof -
  have "filter (\<lambda>r. rf_OrderID r = i \<and> rf_GatewayStatus r = GatewayRefundSucceeded \<and> (x = None \<or> x \<noteq> Some (rf_ID r))) (mk_Refunds M) = []"
    using assms by (auto simp: filter_empty_conv)
  then show ?thesis unfolding settled_sum_def by simp
qed

definition remainder_event :: "order \<Rightarrow> int \<Rightarrow> int \<Rightarrow> refund \<Rightarrow> RecordPartialRefundReleaseInput" where
  "remainder_event o1 rpd rs r =
    (let rest = product_base o1 + op_ShippingTotal (or_Pricing o1) - (rpd + rs);
         commission = (product_base o1 - rpd) * op_CommissionAmount (or_Pricing o1) div product_base o1
     in \<lparr>pr_RefundID = rf_ID r, pr_OrderID = rf_OrderID r, pr_SellerID = rf_SellerID r, pr_Remainder = rest,
         pr_SellerNet = rest - commission, pr_Commission = commission\<rparr>)"

lemma split_first:
  assumes "refund_terms pd s c k" "pd + rpd \<le> i64_max" "s + rs \<le> i64_max"
    and "CalculateProportionalRefundBreakdown pd s c k rpd rs 0 0 0 (proportionalFloor 0 c pd) = Inr b"
  shows "refundable pd s 0 0 rpd rs \<and> b = split_spec pd s c k 0 0 rpd rs"
proof -
  have z: "coins_at pd k 0 = 0" "coins_at pd c 0 = 0" "proportionalFloor 0 c pd = 0"
    by (simp_all add: coins_at_def proportionalFloor_def)
  have "0 \<le> pd" "0 \<le> s" using assms(1) by (simp_all add: refund_terms_def share_terms_def)
  then show ?thesis
    using split_refused [OF assms(1), of 0 0 rpd rs] split_accepted [OF assms(1), of 0 0 rpd rs] assms(2-4) z
    by (cases "refundable pd s 0 0 rpd rs") auto
qed

text \<open>The amounts stay within 64 bits.\<close>

lemma event_bounds:
  assumes "refund_terms pd s c k" "refundable pd s 0 0 rpd rs"
  shows "0 \<le> rpd" "0 \<le> rs" "0 < rpd + rs" "rpd \<le> pd" "rs \<le> s" "0 < pd" "0 \<le> s" "0 \<le> k" "k \<le> pd" "0 \<le> c" "c \<le> pd"
    "pd + s \<le> i64_max" "0 \<le> rpd * k div pd" "rpd * k div pd \<le> rpd" "0 \<le> rpd * c div pd" "rpd * c div pd \<le> rpd"
    "0 \<le> (pd - rpd) * c div pd" "(pd - rpd) * c div pd \<le> pd - rpd" "k - rpd * k div pd \<le> pd - rpd"
    "proportionalFloor (pd - rpd) c pd = (pd - rpd) * c div pd"
proof -
  have st: "share_terms (pd, c)" "share_terms (pd, k)" "0 \<le> s" "pd + s \<le> i64_max" using assms(1) by (simp_all add: refund_terms_def)
  have r: "0 \<le> rpd" "0 \<le> rs" "rpd \<noteq> 0 \<or> rs \<noteq> 0" "rpd \<le> pd" "rs \<le> s" using assms(2) by (simp_all add: refundable_def)
  show "0 \<le> rpd" "0 \<le> rs" "0 < rpd + rs" "rpd \<le> pd" "rs \<le> s" "0 \<le> s" "pd + s \<le> i64_max" using r st by auto
  show "0 < pd" "0 \<le> k" "k \<le> pd" "0 \<le> c" "c \<le> pd" using st by (simp_all add: share_terms_def)
  show "0 \<le> rpd * k div pd" "rpd * k div pd \<le> rpd" "0 \<le> rpd * c div pd" "rpd * c div pd \<le> rpd"
    "k - rpd * k div pd \<le> pd - rpd"
    using coins_at_facts [OF st(2), of 0 rpd] coins_at_facts [OF st(1), of 0 rpd] coins_at_facts [OF st(2), of rpd pd] r
    by (simp_all add: coins_at_def)
  show "0 \<le> (pd - rpd) * c div pd" "(pd - rpd) * c div pd \<le> pd - rpd"
    "proportionalFloor (pd - rpd) c pd = (pd - rpd) * c div pd"
    using coins_at_facts [OF st(1), of 0 "pd - rpd"] r proportionalFloor_exact [OF st(1), of "pd - rpd"]
    by (simp_all add: coins_at_def)
qed

lemma remainder_eq:
  assumes pd: "pd = product_base o1" "s = op_ShippingTotal (or_Pricing o1)" "c = op_CommissionAmount (or_Pricing o1)"
    and terms: "refund_terms pd s c k" "refundable pd s 0 0 rpd rs" and rest: "rpd + rs < pd + s"
  shows "partial_release_of pd s c (split_spec pd s c k 0 0 rpd rs) r = Some (remainder_event o1 rpd rs r)"
proof -
  note bounds = event_bounds [OF terms]
  have w: "in_i64 (pd + s)" "in_i64 (rpd + rs)" "in_i64 (pd + s - (rpd + rs))" "in_i64 (pd - rpd)"
    "in_i64 (pd + s - (rpd + rs) - (pd - rpd) * c div pd)"
    by (rule in_i64_between [OF _ _ bounds(12)]; use bounds rest in linarith)+
  show ?thesis
  proof (cases "c > 0 \<and> pd > rpd")
    case True
    then show ?thesis
      using rest w bounds(6,20) unfolding partial_release_of_def remainder_event_def split_spec_def Let_def pd [symmetric] by simp
  next
    case False
    then have "c = 0 \<or> pd = rpd" using bounds(4,10) by auto
    then show ?thesis
      using rest w False unfolding partial_release_of_def remainder_event_def split_spec_def Let_def pd [symmetric] by auto
  qed
qed

lemma split_spec_fields:
  assumes "refund_terms pd s c k" "refundable pd s 0 0 rpd rs"
  defines "b \<equiv> split_spec pd s c k 0 0 rpd rs"
  shows "bd_CashRefund b = rpd + rs - rpd * k div pd" "bd_CoinDelta b = rpd * k div pd"
    "bd_CommissionDelta b = rpd * c div pd" "bd_SellerComponent b = rpd + rs - rpd * c div pd"
    "cumulative_cash b = rpd + rs - rpd * k div pd" "bd_PD b = pd" "bd_S b = s" "bd_C b = c" "bd_K b = k"
    "bd_Rpd b = rpd" "bd_Rs b = rs"
proof -
  note bounds = event_bounds [OF assms(1,2)]
  have w: "in_i64 (rpd + rs)" "in_i64 (rpd + rs - rpd * k div pd)"
    by (rule in_i64_between [OF _ _ bounds(12)]; use bounds in linarith)+
  show "bd_CashRefund b = rpd + rs - rpd * k div pd" "bd_CoinDelta b = rpd * k div pd"
    "bd_CommissionDelta b = rpd * c div pd" "bd_SellerComponent b = rpd + rs - rpd * c div pd"
    "cumulative_cash b = rpd + rs - rpd * k div pd" "bd_PD b = pd" "bd_S b = s" "bd_C b = c" "bd_K b = k"
    "bd_Rpd b = rpd" "bd_Rs b = rs"
    using w by (simp_all add: b_def split_spec_def coins_at_def cumulative_cash_def Let_def)
qed

lemma breakdown_step:
  assumes "refund_breakdown amt o1 r M = Inr b"
    and parts: "rf_RefundedProductAmount r = Some rpd" "rf_RefundedShippingAmount r = Some rs" "rpd \<noteq> 0 \<or> rs \<noteq> 0"
    and pd: "pd = product_base o1" "s = op_ShippingTotal (or_Pricing o1)" "c = op_CommissionAmount (or_Pricing o1)"
    and range: "in_i64 (op_TotalBeforeCoinsAmount (or_Pricing o1))" "in_i64 s"
    and terms: "refund_terms pd s c k" "pd + rpd \<le> i64_max" "s + rs \<le> i64_max"
    and coins: "coinsSpendForOrder (rf_BuyerID r) (rf_OrderID r) M = Inr k"
    and fresh: "\<forall>q \<in> set (mk_Refunds M). rf_OrderID q = rf_OrderID r \<longrightarrow> rf_GatewayStatus q \<noteq> GatewayRefundSucceeded"
  shows "refundable pd s 0 0 rpd rs \<and> b = split_spec pd s c k 0 0 rpd rs"
proof -
  have cum: "GetCumulativeProductRefundByOrder (rf_OrderID r) (Some (rf_ID r)) M = 0"
    "GetCumulativeShippingRefundByOrder (rf_OrderID r) (Some (rf_ID r)) M = 0"
    "GetCumulativeCoinsRefundedByOrder (rf_OrderID r) (Some (rf_ID r)) M = 0"
    using nothing_settled [OF fresh]
    by (simp_all add: GetCumulativeProductRefundByOrder_def GetCumulativeShippingRefundByOrder_def
        GetCumulativeCoinsRefundedByOrder_def)
  have split: "refund_parts x y n r = (rpd, rs)" for x y n
    using parts by (auto simp: refund_parts_def or_zero_def)
  obtain p where p: "order_DiscountedProductAmount o1 = Inr p"
    using assms(1) by (auto simp: refund_breakdown_def sum_bind_Inr split: if_splits)
  have "p = pd" using canonical_base(1) [OF range(1)] range(2) pd p by simp
  then have "CalculateProportionalRefundBreakdown pd s c k rpd rs 0 0 0 (proportionalFloor 0 c pd) = Inr b"
    using assms(1) coins p cum split
    by (auto simp: refund_breakdown_def sum_bind_Inr money_defs pd(2,3) [symmetric] split: sum.splits if_splits)
  from split_first [OF terms this] show ?thesis .
qed

text \<open>A reversal that succeeded restores no coins: the ledger refuses an event that does.\<close>

lemma reversal_steps:
  assumes rev: "reverse_settled_refund clk ids amt o1 r M = Inr (r2, M')"
    and book: "escrow_of (rf_OrderID r) M = Some e" "es_Status e = EscrowHolding"
    and parts: "rf_RefundedProductAmount r = Some rpd" "rf_RefundedShippingAmount r = Some rs" "rpd \<noteq> 0 \<or> rs \<noteq> 0"
      "rf_RefundedAt r = None"
    and pd: "pd = product_base o1" "s = op_ShippingTotal (or_Pricing o1)" "c = op_CommissionAmount (or_Pricing o1)"
    and range: "in_i64 (op_TotalBeforeCoinsAmount (or_Pricing o1))" "in_i64 s"
    and terms: "refund_terms pd s c k" "pd + rpd \<le> i64_max" "s + rs \<le> i64_max"
    and coins: "coinsSpendForOrder (rf_BuyerID r) (rf_OrderID r) M = Inr k"
    and fresh: "\<forall>q \<in> set (mk_Refunds M). rf_OrderID q = rf_OrderID r \<longrightarrow> rf_GatewayStatus q \<noteq> GatewayRefundSucceeded"
      "\<forall>t \<in> set (lg_Transactions (mk_Ledger M)). lt_ReferenceID t \<noteq> rf_ID r"
  obtains b L1 M2 M3 where "refundable pd s 0 0 rpd rs" "b = split_spec pd s c k 0 0 rpd rs" "rpd * k div pd = 0"
    "RecordRefundReversal (ids 0) (ids 1) (ids 2) (reversal_of r b) (mk_Ledger M) = Inr L1"
    "flip_refunded_escrow clk ids (rpd + rs \<ge> pd + s - k) r b (M\<lparr>mk_Ledger := L1\<rparr>) = Inr M2"
    "SyncRefundSettlementFromGatewayAck (clk 2) (rf_OrderID r) (rpd + rs \<ge> pd + s - k) (clk 0) M2 = Inr M3"
    "M' = InsertEvent ''coins.refund_required'' (rf_OrderID r) M3"
    "r2 = r\<lparr>rf_FinalRefundAmount := Some (rpd + rs), rf_CoinsRefundedAmount := Some 0, rf_RefundedAt := Some (clk 0),
         rf_UpdatedAt := clk 0\<rparr>"
proof -
  have new: "ledger_CountTransactionsByEntityID (rf_ID r) (mk_Ledger M) = 0"
    using fresh(2) by (simp add: ledger_CountTransactionsByEntityID_def)
  obtain b where "refund_breakdown amt o1 r M = Inr b"
    using rev book by (auto simp: reverse_settled_refund_def sum_bind_Inr GetEscrowForOrder_def split: if_splits)
  then have e: "refundable pd s 0 0 rpd rs" and b: "b = split_spec pd s c k 0 0 rpd rs"
    using breakdown_step [OF _ parts(1-3) pd range terms coins fresh(1)] by blast+
  note f = split_spec_fields [OF terms(1) e] and bounds = event_bounds [OF terms(1) e]
  obtain L1 where L1: "RecordRefundReversal (ids 0) (ids 1) (ids 2) (reversal_of r b) (mk_Ledger M) = Inr L1"
    using rev book \<open>refund_breakdown amt o1 r M = Inr b\<close>
    by (auto simp: reverse_settled_refund_def sum_bind_Inr GetEscrowForOrder_def with_ledger_Inr Let_def split: if_splits)
  have "refund_reversal_valid (reversal_of r b)" using L1 by (auto simp: RecordRefundReversal_def sum_bind_Inr)
  moreover have "in_i64 (rpd + rs)" by (rule in_i64_between [OF _ _ bounds(12)]; use bounds in linarith)
  ultimately have z: "rpd * k div pd = 0"
    by (simp add: refund_reversal_valid_def reversal_of_def b f)
  have w: "in_i64 (pd + s)" "in_i64 (pd + s - k)"
    by (rule in_i64_between [OF _ _ bounds(12)]; use bounds in linarith)+
  show ?thesis
    using rev book \<open>refund_breakdown amt o1 r M = Inr b\<close> new L1 z w bounds(3) parts(1,2,4)
    by (auto simp: reverse_settled_refund_def sum_bind_Inr GetEscrowForOrder_def with_ledger_def Let_def b f split: if_splits
        intro!: that [OF e b z L1])
qed

lemma holds_when_held:
  assumes "escrows_ok M" "escrow_book M i = Some (Held n)"
  shows "\<exists>e. escrow_of i M = Some e \<and> es_Status e = EscrowHolding"
proof -
  obtain e where e: "escrow_of i M = Some e" "holding_of e = Held n" using assms(2) by (auto simp: escrow_book_def)
  then have "e \<in> set (mk_Escrows M)" by (auto simp: escrow_of_def find_Some_iff)
  then have "escrowStatus_IsValid (es_Status e)" using assms(1) by (simp add: escrows_ok_def)
  then show ?thesis using e by (cases "es_Status e") (auto split: if_splits)
qed

lemma given_back:
  assumes "RefundGatewayEscrow t i M = Inr (x, M')" "escrows_ok M" "escrow_book M i = Some (Held n)"
  shows "(\<exists>es. M' = M\<lparr>mk_Escrows := es\<rparr>) \<and> escrow_book M' = (escrow_book M)(i \<mapsto> GivenBack n)"
proof -
  have "\<exists>es. M' = M\<lparr>mk_Escrows := es\<rparr>"
    using assms(1) by (cases M) (auto simp: RefundGatewayEscrow_def sum_bind_Inr esrepo_Update_def split: option.splits if_splits)
  moreover have "escrow_book M' = (escrow_book M)(i \<mapsto> GivenBack n)"
    using refund_refines [OF assms(2), of t i] assms(1,3) by (auto simp: refines_def spec_give_back_def split: if_splits)
  ultimately show ?thesis by blast
qed

lemma paid_out:
  assumes "PartialRefundGatewayEscrow t i m M = Inr (x, M')" "escrows_ok M" "escrow_book M i = Some (Held n)"
  shows "(\<exists>es. M' = M\<lparr>mk_Escrows := es\<rparr>) \<and> escrow_book M' = (escrow_book M)(i \<mapsto> PaidOut n)"
proof -
  have "\<exists>es. M' = M\<lparr>mk_Escrows := es\<rparr>"
    using assms(1) by (cases M) (auto simp: PartialRefundGatewayEscrow_def sum_bind_Inr esrepo_Update_def split: option.splits if_splits)
  moreover have "escrow_book M' = (escrow_book M)(i \<mapsto> PaidOut n)"
    using split_refines [OF assms(2), of t i m] assms(1,3) by (auto simp: refines_def spec_pay_out_def split: if_splits)
  ultimately show ?thesis by blast
qed

lemma order_synced:
  assumes "SyncRefundSettlementFromGatewayAck t i full u M = Inr M'" "order_by_id i M = Some o1" "or_Status o1 = OrderShipped"
  shows "(\<exists>os. M' = M\<lparr>mk_Orders := os\<rparr>)
    \<and> (\<exists>o2. order_by_id i M' = Some o2 \<and> or_Status o2 = (if full then OrderRefunded else OrderPartiallyRefunded))"
proof -
  obtain o2 where o2: "M' = orepo_UpdateStatusTx o2 M" "or_ID o2 = or_ID o1"
    "or_Status o2 = (if full then OrderRefunded else OrderPartiallyRefunded)"
    using assms by (auto simp: SyncRefundSettlementFromGatewayAck_def sum_bind_Inr moved_Inr mutation Let_def split: if_splits)
  then show ?thesis
    using order_by_id_update [OF assms(2), of o2] order_by_id_ID [OF assms(2)]
    by (auto simp: written_order_def) (auto simp: orepo_UpdateStatusTx_def)
qed

lemma refund_updated:
  assumes "rrepo_Update r M = Inr M'" "refund_by_id (rf_ID r) M = Some row"
  shows "(\<exists>rs. M' = M\<lparr>mk_Refunds := rs\<rparr>) \<and> refund_by_id (rf_ID r) M' = Some (written_refund r row)"
proof -
  have "M' = M\<lparr>mk_Refunds := map (\<lambda>q. if rf_ID q = rf_ID r then written_refund r q else q) (mk_Refunds M)\<rparr>"
    using assms by (auto simp: rrepo_Update_def split: if_splits)
  moreover have "find (\<lambda>q. rf_ID q = rf_ID r) (map (\<lambda>q. if rf_ID q = rf_ID r then written_refund r q else q) (mk_Refunds M))
      = map_option (\<lambda>q. if rf_ID q = rf_ID r then written_refund r q else q) (find (\<lambda>q. rf_ID q = rf_ID r) (mk_Refunds M))"
    by (rule find_map_keep) (simp add: written_refund_def)
  moreover have "rf_ID row = rf_ID r" using assms(2) by (auto simp: refund_by_id_def find_Some_iff)
  ultimately show ?thesis using assms(2) by (auto simp: refund_by_id_def)
qed

section \<open>What the books show\<close>

definition refund_keys :: "uuid \<Rightarrow> idem_key set" where
  "refund_keys i = {KeyUuid ''refund_reversal_'' i, KeyUuid ''partial_release_'' i}"

text \<open>The accounts a confirmed refund moves, and by how much; \<open>whole\<close> says that nothing is left for the seller.\<close>

definition refund_booked :: "bool \<Rightarrow> refund \<Rightarrow> int \<Rightarrow> RecordPartialRefundReleaseInput \<Rightarrow> ledger \<Rightarrow> ledger \<Rightarrow> bool" where
  "refund_booked whole r cash rest L L' \<longleftrightarrow>
     held (Some (rf_BuyerID r)) AccountBuyerRefundable L' = held (Some (rf_BuyerID r)) AccountBuyerRefundable L + cash
   \<and> held None AccountGatewayClearing L' = held None AccountGatewayClearing L - cash - (if whole then 0 else pr_Remainder rest)
   \<and> held (Some (rf_SellerID r)) AccountSellerPayable L'
       = held (Some (rf_SellerID r)) AccountSellerPayable L + (if whole then 0 else pr_SellerNet rest)
   \<and> held None AccountPlatformRevenue L' = held None AccountPlatformRevenue L + (if whole then 0 else pr_Commission rest)
   \<and> (\<forall>u t. (u, t) \<notin> {(Some (rf_BuyerID r), AccountBuyerRefundable), (None, AccountGatewayClearing),
          (Some (rf_SellerID r), AccountSellerPayable), (None, AccountPlatformRevenue)} \<longrightarrow> held u t L' = held u t L)"

lemma refund_books:
  assumes "RecordRefundReversal (ids 0) (ids 1) (ids 2) (reversal_of r b) (mk_Ledger M) = Inr L1"
    and flip: "flip_refunded_escrow clk ids whole r b (M\<lparr>mk_Ledger := L1\<rparr>) = Inr M2"
    and b: "b = split_spec pd s c k 0 0 rpd rs" "refund_terms pd s c k" "refundable pd s 0 0 rpd rs" "rpd * k div pd = 0"
      "whole \<longleftrightarrow> rpd + rs \<ge> pd + s - k"
      "pd = product_base o1" "s = op_ShippingTotal (or_Pricing o1)" "c = op_CommissionAmount (or_Pricing o1)"
    and esc: "escrows_ok M" "escrow_book M (rf_OrderID r) = Some (Held n)"
    and led: "rows_ok (mk_Ledger M)" "ids 0 \<notin> account_ids (mk_Ledger M)" "ids 4 \<notin> insert (ids 0) (account_ids (mk_Ledger M))"
      "recorded_keys (mk_Ledger M) \<inter> refund_keys (rf_ID r) = {}" "(None, AccountPlatformRevenue, h) \<in> kinds (mk_Ledger M)"
  shows "refund_booked whole r (rpd + rs) (remainder_event o1 rpd rs r) (mk_Ledger M) (mk_Ledger M2)
    \<and> (\<not> whole \<longrightarrow> 0 < pr_Commission (remainder_event o1 rpd rs r))
    \<and> escrow_book M2 = (escrow_book M)(rf_OrderID r \<mapsto> (if whole then GivenBack n else PaidOut n))
    \<and> (\<exists>es L. M2 = M\<lparr>mk_Escrows := es, mk_Ledger := L\<rparr>)"
proof -
  let ?L = "mk_Ledger M" and ?M1 = "M\<lparr>mk_Ledger := L1\<rparr>" and ?rest = "remainder_event o1 rpd rs r"
  note f = split_spec_fields [OF b(2,3)] and bounds = event_bounds [OF b(2,3)]
  have n: "in_i64 (rpd + rs)" by (rule in_i64_between [OF _ _ bounds(12)]; use bounds in linarith)
  have keys: "KeyUuid ''refund_reversal_'' (rf_ID r) \<notin> recorded_keys ?L" "KeyUuid ''partial_release_'' (rf_ID r) \<notin> recorded_keys ?L"
    using led(4) by (auto simp: refund_keys_def)
  have rv: "rv_RefundID (reversal_of r b) = rf_ID r" "rv_BuyerID (reversal_of r b) = rf_BuyerID r"
    "rv_RefundAmount (reversal_of r b) = rpd + rs" "\<not> rv_AfterRelease (reversal_of r b)"
    using f b(4) by (simp_all add: reversal_of_def b(1))
  have e1: "refund_reversal_valid (reversal_of r b)" "rows_ok L1" "account_ids L1 \<subseteq> insert (ids 0) (account_ids ?L)"
    "recorded_keys L1 \<subseteq> insert (KeyUuid ''refund_reversal_'' (rf_ID r)) (recorded_keys ?L)"
    "\<And>P. signed_where P L1 = signed_where P ?L
       + (if P (Some (rf_BuyerID r)) AccountBuyerRefundable then - (rpd + rs) else 0)
       + (if P None AccountGatewayClearing then rpd + rs else 0)"
    using reversal_effect [OF assms(1) led(1) _ led(2)] n keys(1) unfolding rv by (simp_all add: rv)
  have book1: "escrows_ok ?M1" "escrow_book ?M1 = escrow_book M"
    using esc(1) by (simp_all add: escrows_ok_def escrow_book_def escrow_of_def fun_eq_iff)
  show ?thesis
  proof (cases whole)
    case True
    then obtain x where "RefundGatewayEscrow (clk 1) (rf_OrderID r) ?M1 = Inr (x, M2)"
      using flip by (auto simp: flip_refunded_escrow_def sum_bind_Inr)
    from given_back [OF this book1(1)] esc(2) have g: "\<exists>es. M2 = ?M1\<lparr>mk_Escrows := es\<rparr>"
      "escrow_book M2 = (escrow_book M)(rf_OrderID r \<mapsto> GivenBack n)" unfolding book1(2) by blast+
    then obtain es where es: "M2 = M\<lparr>mk_Escrows := es, mk_Ledger := L1\<rparr>" by (cases M) auto
    then have "mk_Ledger M2 = L1" by simp
    moreover have "refund_booked whole r (rpd + rs) ?rest ?L L1"
      using True by (auto simp: refund_booked_def held_signed e1(5) class_DebitIncreasesBalance_def)
    ultimately show ?thesis using g(2) True es by auto
  next
    case False
    then have less: "rpd + rs < pd + s" using b(5) bounds by linarith
    obtain x M3 where s: "PartialRefundGatewayEscrow (clk 1) (rf_OrderID r) (rpd + rs) ?M1 = Inr (x, M3)"
      "dropped_ledger (RecordPartialRefundRelease (ids 4) (ids 5) ?rest) M3 = Inr M2"
      using flip False remainder_eq [OF b(6-8,2,3) less] f b(4)
      by (auto simp: flip_refunded_escrow_def sum_bind_Inr b(1))
    from paid_out [OF s(1) book1(1)] esc(2) have g: "\<exists>es. M3 = ?M1\<lparr>mk_Escrows := es\<rparr>"
      "escrow_book M3 = (escrow_book M)(rf_OrderID r \<mapsto> PaidOut n)" unfolding book1(2) by blast+
    then have L3: "mk_Ledger M3 = L1" by auto
    have sys: "kinds ?L \<subseteq> kinds L1" using finance_do_kinds [of "(ids 0, ids 1, ids 2)" "CallRefundReversal (reversal_of r b)"] assms(1) by simp
    obtain gc where "ledger_GetSystemAccountID AccountGatewayClearing ?L = Inr gc"
      using assms(1) by (auto simp: RecordRefundReversal_def sum_bind_Inr)
    then obtain gc' pv where acc: "ledger_GetSystemAccountID AccountGatewayClearing (mk_Ledger M3) = Inr gc'"
      "ledger_GetSystemAccountID AccountPlatformRevenue (mk_Ledger M3) = Inr pv"
      using system_account_again [OF _ sys] has_system_account [of AccountPlatformRevenue L1] led(5) sys L3 by blast
    have rest: "pr_RefundID ?rest = rf_ID r" "pr_SellerID ?rest = rf_SellerID r" "pr_OrderID ?rest = rf_OrderID r"
      "pr_Remainder ?rest = pd + s - (rpd + rs)" "pr_Commission ?rest = (pd - rpd) * c div pd"
      "pr_SellerNet ?rest = pd + s - (rpd + rs) - (pd - rpd) * c div pd"
      by (simp_all add: remainder_event_def Let_def b(6-8))
    have n: "in_i64 (pd + s - (rpd + rs))" by (rule in_i64_between [OF _ _ bounds(12)]; use bounds less in linarith)
    have fr: "rows_ok (mk_Ledger M3)" "ids 4 \<notin> account_ids (mk_Ledger M3)"
      "KeyUuid ''partial_release_'' (pr_RefundID ?rest) \<notin> recorded_keys (mk_Ledger M3)"
      using e1(2-4) led(3) keys(2) unfolding L3 rest by auto
    have ids: "pr_RefundID ?rest \<noteq> uuid_nil" "pr_OrderID ?rest \<noteq> uuid_nil" "pr_SellerID ?rest \<noteq> uuid_nil"
      using e1(1) unfolding rest by (simp_all add: refund_reversal_valid_def reversal_of_def)
    have amounts: "0 < pr_Remainder ?rest" "in_i64 (pr_Remainder ?rest)" "0 \<le> pr_SellerNet ?rest" "0 \<le> pr_Commission ?rest"
      "pr_SellerNet ?rest + pr_Commission ?rest = pr_Remainder ?rest"
      using n bounds less unfolding rest by simp_all
    note out = partial_release_outcome [OF s(2) fr ids amounts acc, unfolded L3]
    have e2: "0 < pr_Commission ?rest" using out by blast
    obtain L' where L': "M2 = M3\<lparr>mk_Ledger := L'\<rparr>" "\<And>P. signed_where P L' = signed_where P L1
        + (if P None AccountGatewayClearing then pr_Remainder ?rest else 0)
        + (if P (Some (rf_SellerID r)) AccountSellerPayable then - pr_SellerNet ?rest else 0)
        + (if P None AccountPlatformRevenue then - pr_Commission ?rest else 0)" using out unfolding rest(2) by blast
    have "escrow_book M2 = escrow_book M3" by (simp add: L'(1) escrow_book_def escrow_of_def fun_eq_iff)
    moreover have "refund_booked whole r (rpd + rs) ?rest ?L L'"
      using False by (auto simp: refund_booked_def held_signed L'(2) e1(5) class_DebitIncreasesBalance_def)
    moreover obtain es where "M2 = M\<lparr>mk_Escrows := es, mk_Ledger := L'\<rparr>" using g(1) L'(1) by (cases M) auto
    moreover have "mk_Ledger M2 = L'" using L'(1) by simp
    ultimately show ?thesis using g(2) False e2 by auto
  qed
qed

section \<open>A confirmed refund\<close>

definition books_ready :: "(nat \<Rightarrow> uuid) \<Rightarrow> refund \<Rightarrow> market \<Rightarrow> bool" where
  "books_ready ids r M \<longleftrightarrow>
     rows_ok (mk_Ledger M) \<and> ids 0 \<notin> account_ids (mk_Ledger M) \<and> ids 4 \<notin> insert (ids 0) (account_ids (mk_Ledger M))
   \<and> recorded_keys (mk_Ledger M) \<inter> refund_keys (rf_ID r) = {}
   \<and> (\<exists>h. (None, AccountPlatformRevenue, h) \<in> kinds (mk_Ledger M))"

lemma ack_steps:
  assumes "HandleGatewayRefundAck clk ids n M = Inr M'" "awaits_ack n r o1 rpd rs M"
  obtains r1 r2 M1 M2 where "r1 = snd (refund_MarkGatewayAckSucceeded (nt_RefundChargeID n) (clk 0) r)"
    "reverse_settled_refund clk ids (nt_RefundAmount n) o1 r1 M = Inr (r2, M1)" "rrepo_Update r2 M1 = Inr M2"
    "M' = InsertEvent ''money.refund_succeeded'' (rf_ID r2) M2"
    "r1 = r\<lparr>rf_GatewayStatus := GatewayRefundSucceeded, rf_GatewayRefundID := rf_GatewayRefundID r1,
       rf_GatewayAcknowledgedAt := Some (clk 0), rf_LastGatewayError := None, rf_UpdatedAt := clk 0\<rparr>"
proof -
  let ?r1 = "snd (refund_MarkGatewayAckSucceeded (nt_RefundChargeID n) (clk 0) r)"
  have w: "isWebhookRefundSuccess n" "ack_lookup n M = Some (without_evidence r)" "refund_by_id (rf_ID r) M = Some r"
    "rf_GatewayStatus r = GatewayRefundPending" "rf_Reason r \<noteq> ReasonGatewayCapturedAfterOrderInvalid"
    "order_by_id (rf_OrderID r) M = Some o1"
    using assms(2) by (simp_all add: awaits_ack_def)
  have "?r1 = r\<lparr>rf_GatewayStatus := GatewayRefundSucceeded, rf_GatewayRefundID := rf_GatewayRefundID ?r1,
       rf_GatewayAcknowledgedAt := Some (clk 0), rf_LastGatewayError := None, rf_UpdatedAt := clk 0\<rparr>"
    using w(4) by (simp add: mutation)
  moreover have "orepo_GetForUpdate (rf_OrderID r) M = Inr o1" "rrepo_GetForUpdate (rf_ID r) M = Inr r"
    using w(3,6) by (simp_all add: rrepo_GetForUpdate_def found_def)
  moreover have "rf_Reason ?r1 \<noteq> ReasonGatewayCapturedAfterOrderInvalid" using w(4,5) by (simp add: mutation)
  ultimately show ?thesis
    using assms(1) w(1,2,4)
    by (auto simp: HandleGatewayRefundAck_def without_evidence_def already_acknowledged_def sum_bind_Inr Let_def
        intro!: that [OF refl])
qed

lemma refund_confirmation:
  assumes ack: "HandleGatewayRefundAck clk ids n M = Inr M'" "awaits_ack n r o1 rpd rs M" "books_ready ids r M"
    and order: "pd = product_base o1" "s = op_ShippingTotal (or_Pricing o1)" "c = op_CommissionAmount (or_Pricing o1)"
      "coinsSpendForOrder (rf_BuyerID r) (rf_OrderID r) M = Inr k" "refund_terms pd s c k"
    and range: "in_i64 (op_TotalBeforeCoinsAmount (or_Pricing o1))" "pd + rpd \<le> i64_max" "s + rs \<le> i64_max"
  shows "refundable pd s 0 0 rpd rs \<and> rpd * k div pd = 0
    \<and> (\<exists>row. refund_by_id (rf_ID r) M' = Some row \<and> rf_GatewayStatus row = GatewayRefundSucceeded
        \<and> rf_FinalRefundAmount row = Some (rpd + rs) \<and> rf_RefundedAt row = Some (clk 0))
    \<and> refund_booked (rpd + rs \<ge> pd + s - k) r (rpd + rs) (remainder_event o1 rpd rs r) (mk_Ledger M) (mk_Ledger M')
    \<and> (\<exists>n. escrow_book M (rf_OrderID r) = Some (Held n)
        \<and> escrow_book M' = (escrow_book M)(rf_OrderID r \<mapsto> (if rpd + rs \<ge> pd + s - k then GivenBack n else PaidOut n)))
    \<and> (\<exists>o2. order_by_id (rf_OrderID r) M' = Some o2
        \<and> or_Status o2 = (if rpd + rs \<ge> pd + s - k then OrderRefunded else OrderPartiallyRefunded))
    \<and> (rpd + rs < pd + s - k \<longrightarrow> 0 < pr_Commission (remainder_event o1 rpd rs r))"
proof -
  let ?i = "rf_OrderID r" and ?whole = "rpd + rs \<ge> pd + s - k"
  obtain r1 r2 M1 M2 where s: "r1 = snd (refund_MarkGatewayAckSucceeded (nt_RefundChargeID n) (clk 0) r)"
    "reverse_settled_refund clk ids (nt_RefundAmount n) o1 r1 M = Inr (r2, M1)" "rrepo_Update r2 M1 = Inr M2"
    "M' = InsertEvent ''money.refund_succeeded'' (rf_ID r2) M2"
    and r1: "r1 = r\<lparr>rf_GatewayStatus := GatewayRefundSucceeded, rf_GatewayRefundID := rf_GatewayRefundID r1,
       rf_GatewayAcknowledgedAt := Some (clk 0), rf_LastGatewayError := None, rf_UpdatedAt := clk 0\<rparr>"
    using ack_steps [OF ack(1,2)] by blast
  have r1f: "rf_ID r1 = rf_ID r" "rf_OrderID r1 = ?i" "rf_BuyerID r1 = rf_BuyerID r" "rf_SellerID r1 = rf_SellerID r"
    "rf_RefundedProductAmount r1 = rf_RefundedProductAmount r" "rf_RefundedShippingAmount r1 = rf_RefundedShippingAmount r"
    "rf_RefundedAt r1 = rf_RefundedAt r" "rf_GatewayStatus r1 = GatewayRefundSucceeded"
    by (subst r1; simp)+
  have w: "escrows_ok M" "rf_RefundedProductAmount r = Some rpd" "rf_RefundedShippingAmount r = Some rs" "rpd \<noteq> 0 \<or> rs \<noteq> 0"
    "rf_RefundedAt r = None" "order_by_id ?i M = Some o1" "or_Status o1 = OrderShipped" "refund_by_id (rf_ID r) M = Some r"
    and fresh: "\<forall>q \<in> set (mk_Refunds M). rf_OrderID q = ?i \<longrightarrow> rf_GatewayStatus q \<noteq> GatewayRefundSucceeded"
      "\<forall>t \<in> set (lg_Transactions (mk_Ledger M)). lt_ReferenceID t \<noteq> rf_ID r"
    using ack(2) by (simp_all add: awaits_ack_def)
  obtain h0 where h0: "escrow_book M ?i = Some (Held h0)" using ack(2) by (auto simp: awaits_ack_def)
  then obtain e where e: "escrow_of ?i M = Some e" "es_Status e = EscrowHolding"
    using holds_when_held w(1) by blast
  obtain h where led: "rows_ok (mk_Ledger M)" "ids 0 \<notin> account_ids (mk_Ledger M)"
    "ids 4 \<notin> insert (ids 0) (account_ids (mk_Ledger M))" "recorded_keys (mk_Ledger M) \<inter> refund_keys (rf_ID r1) = {}"
    "(None, AccountPlatformRevenue, h) \<in> kinds (mk_Ledger M)"
    using ack(3) by (auto simp: books_ready_def r1f)
  have "in_i64 s" using order(5) by (auto simp: refund_terms_def share_terms_def i64_defs)
  obtain b L1 N2 N3 where v: "refundable pd s 0 0 rpd rs" "b = split_spec pd s c k 0 0 rpd rs" "rpd * k div pd = 0"
    "RecordRefundReversal (ids 0) (ids 1) (ids 2) (reversal_of r1 b) (mk_Ledger M) = Inr L1"
    "flip_refunded_escrow clk ids ?whole r1 b (M\<lparr>mk_Ledger := L1\<rparr>) = Inr N2"
    "SyncRefundSettlementFromGatewayAck (clk 2) ?i ?whole (clk 0) N2 = Inr N3"
    "M1 = InsertEvent ''coins.refund_required'' ?i N3"
    "r2 = r1\<lparr>rf_FinalRefundAmount := Some (rpd + rs), rf_CoinsRefundedAmount := Some 0, rf_RefundedAt := Some (clk 0),
         rf_UpdatedAt := clk 0\<rparr>"
    by (rule reversal_steps [OF s(2), unfolded r1f]; use e w order(1-5) range \<open>in_i64 s\<close> fresh in fast)
  have books: "refund_booked ?whole r1 (rpd + rs) (remainder_event o1 rpd rs r1) (mk_Ledger M) (mk_Ledger N2)"
    "\<not> ?whole \<Longrightarrow> 0 < pr_Commission (remainder_event o1 rpd rs r1)"
    "escrow_book N2 = (escrow_book M)(?i \<mapsto> (if ?whole then GivenBack h0 else PaidOut h0))"
    "\<exists>es L. N2 = M\<lparr>mk_Escrows := es, mk_Ledger := L\<rparr>"
    using refund_books [OF v(4,5,2) order(5) v(1,3) refl order(1-3) w(1) _ led] h0 unfolding r1f by blast+
  from books(4) obtain es L where N2: "N2 = M\<lparr>mk_Escrows := es, mk_Ledger := L\<rparr>" by blast
  obtain os o2 where o2: "N3 = N2\<lparr>mk_Orders := os\<rparr>" "order_by_id ?i N3 = Some o2"
    "or_Status o2 = (if ?whole then OrderRefunded else OrderPartiallyRefunded)"
    using order_synced [OF v(6), of o1] w(6,7) by (auto simp: N2 order_by_id_def)
  have row: "refund_by_id (rf_ID r2) M1 = Some r" using w(8) r1f(1) by (simp add: v(7,8) o2(1) N2 refund_by_id_def InsertEvent_def)
  obtain rows where rows: "M2 = M1\<lparr>mk_Refunds := rows\<rparr>" "refund_by_id (rf_ID r2) M2 = Some (written_refund r2 r)"
    using refund_updated [OF s(3) row] by blast
  have M': "M' = InsertEvent ''money.refund_succeeded'' (rf_ID r2) (InsertEvent ''coins.refund_required'' ?i N3\<lparr>mk_Refunds := rows\<rparr>)"
    by (simp add: s(4) rows(1) v(7))
  have "refund_by_id (rf_ID r) M' = Some (written_refund r2 r)"
    using rows(2) by (simp add: s(4) refund_by_id_def InsertEvent_def v(8) r1f)
  moreover have "rf_GatewayStatus (written_refund r2 r) = GatewayRefundSucceeded"
    "rf_FinalRefundAmount (written_refund r2 r) = Some (rpd + rs)" "rf_RefundedAt (written_refund r2 r) = Some (clk 0)"
    by (simp_all add: written_refund_def v(8) r1f)
  moreover have "order_by_id ?i M' = Some o2" using o2(2) by (simp add: M' order_by_id_def InsertEvent_def)
  moreover have "escrow_book M' = escrow_book N2" by (simp add: M' o2(1) escrow_book_def escrow_of_def InsertEvent_def fun_eq_iff)
  moreover have "mk_Ledger M' = mk_Ledger N2" by (simp add: M' o2(1) InsertEvent_def)
  moreover have "remainder_event o1 rpd rs r1 = remainder_event o1 rpd rs r"
    by (simp add: remainder_event_def r1f)
  moreover have "refund_booked ?whole r1 = refund_booked ?whole r" by (simp add: refund_booked_def r1f fun_eq_iff)
  ultimately show ?thesis using books v(1,3) h0 o2(3) by auto
qed

text \<open>
  C4. What a confirmed refund does. When the confirmation of a pending refund of a
  shipped order is processed (its product part \<open>rpd\<close> and shipping part \<open>rs\<close> are on the
  row and no refund of the order settled before), the event is within what the order
  can refund and takes no coins back; the row is settled once with final amount
  \<open>rpd + rs\<close> at the processing time; the ledger credits the buyer with exactly that
  cash out of gateway clearing and, when something is left, pays the seller's remainder
  and the platform's commission on it, and moves no other account; the escrow is given
  back when the whole cash is refunded and paid out otherwise; and the order becomes
  refunded or partially refunded accordingly. A partial refund settles only with a
  positive commission on the remainder.
\<close>

theorem confirmed_refund_settles_exactly:
  assumes ack: "HandleGatewayRefundAck clk ids n M = Inr M'" "awaits_ack n r o1 rpd rs M" "books_ready ids r M"
    and order: "pd = product_base o1" "s = op_ShippingTotal (or_Pricing o1)" "c = op_CommissionAmount (or_Pricing o1)"
      "coinsSpendForOrder (rf_BuyerID r) (rf_OrderID r) M = Inr k" "refund_terms pd s c k"
    and range: "in_i64 (op_TotalBeforeCoinsAmount (or_Pricing o1))" "pd + rpd \<le> i64_max" "s + rs \<le> i64_max"
  shows "refundable pd s 0 0 rpd rs \<and> rpd * k div pd = 0
    \<and> (\<exists>row. refund_by_id (rf_ID r) M' = Some row \<and> rf_GatewayStatus row = GatewayRefundSucceeded
        \<and> rf_FinalRefundAmount row = Some (rpd + rs) \<and> rf_RefundedAt row = Some (clk 0))
    \<and> refund_booked (rpd + rs \<ge> pd + s - k) r (rpd + rs) (remainder_event o1 rpd rs r) (mk_Ledger M) (mk_Ledger M')
    \<and> (\<exists>n. escrow_book M (rf_OrderID r) = Some (Held n)
        \<and> escrow_book M' = (escrow_book M)(rf_OrderID r \<mapsto> (if rpd + rs \<ge> pd + s - k then GivenBack n else PaidOut n)))
    \<and> (\<exists>o2. order_by_id (rf_OrderID r) M' = Some o2
        \<and> or_Status o2 = (if rpd + rs \<ge> pd + s - k then OrderRefunded else OrderPartiallyRefunded))
    \<and> (rpd + rs < pd + s - k \<longrightarrow> 0 < pr_Commission (remainder_event o1 rpd rs r))"
  using refund_confirmation [OF assms] .

text \<open>A concrete refund of part of the 1000 the product cost, of an order of 1100.\<close>

definition sent_refund :: "i64 \<Rightarrow> refund" where
  "sent_refund p = (snd (refund_MarkGatewayDispatched ''k'' (Some ''rc'') 1200
     (NewSystemRefund 8 1100 1 2 3 9 ReasonItemNotAsDescribed p 0 None)))"

definition funding_calls :: "((uuid \<times> uuid \<times> uuid) \<times> finance_call) list" where
  "funding_calls = [((1, 2, 901), CallPaymentSettlement 70 1 ''LAB-1'' 1105), ((1, 2, 902), CallBuyerPaymentFee 70 1 5)]"

definition funded_books :: ledger where
  "funded_books = the (finance_runs funding_calls opening_books)"

lemma funded_books_ok: "rows_ok funded_books"
proof -
  have "case finance_runs funding_calls opening_books of None \<Rightarrow> False | Some _ \<Rightarrow> True" by code_simp
  then have "finance_runs funding_calls opening_books = Some funded_books"
    by (simp add: funded_books_def split: option.splits)
  then have "ledger_ok funded_books" using finance_books.run_keeps [OF finance_runs_steps opening_books_ok] by blast
  then show ?thesis by (simp add: ledger_ok_def)
qed

definition refunding_market :: "i64 \<Rightarrow> market" where
  "refunding_market p = blank_market\<lparr>mk_Orders := [sample_shipped], mk_Refunds := [sent_refund p],
     mk_Escrows := [\<lparr>es_ID = 5, es_OrderID = 1, es_Amount = 1100, es_Status = EscrowHolding, es_PaymentID = None,
       es_CreatedAt = 500, es_ReleasedAt = None, es_RefundedAt = None\<rparr>],
     mk_Ledger := funded_books\<rparr>"

definition sample_ack :: notification where
  "sample_ack = \<lparr>nt_TransactionStatus = ''partial_refund'', nt_TransactionID = ''t'', nt_StatusMessage = '''',
     nt_StatusCode = ''200'', nt_SignatureKey = '''', nt_PaymentType = '''', nt_OrderID = ''LAB-1'', nt_GrossAmount = '''',
     nt_FraudStatus = '''', nt_RefundKey = ''k'', nt_RefundAmount = ''400.00'', nt_RefundChargeID = ''rc''\<rparr>"

definition sample_ids8 :: "nat \<Rightarrow> uuid" where
  "sample_ids8 n = 20 + n"

lemma sample_fields:
  "rf_ID (sent_refund p) = 8" "rf_OrderID (sent_refund p) = 1" "rf_BuyerID (sent_refund p) = 2"
  "rf_GatewayStatus (sent_refund p) = GatewayRefundPending" "rf_Reason (sent_refund p) = ReasonItemNotAsDescribed"
  "rf_RefundedAt (sent_refund p) = None" "rf_RefundedProductAmount (sent_refund p) = Some p"
  "rf_RefundedShippingAmount (sent_refund p) = Some 0" "rf_GatewayRefundID (sent_refund p) = Some ''rc''"
  by (simp_all add: sent_refund_def mutation NewSystemRefund_def NewRefund_def Let_def missing_string_def)

lemma sample_order_terms:
  "product_base sample_shipped = 1000" "op_ShippingTotal (or_Pricing sample_shipped) = 100"
  "op_CommissionAmount (or_Pricing sample_shipped) = 50" "in_i64 (op_TotalBeforeCoinsAmount (or_Pricing sample_shipped))"
  "refund_terms 1000 100 50 0"
  by (simp_all add: product_base_def sample_order_defs i64_defs refund_terms_def share_terms_def)

lemma sample_market:
  "mk_Ledger (refunding_market p) = funded_books" "mk_Refunds (refunding_market p) = [sent_refund p]"
  "order_by_id 1 (refunding_market p) = Some sample_shipped" "escrow_book (refunding_market p) 1 = Some (Held 1100)"
  "coinsSpendForOrder 2 1 (refunding_market p) = Inr 0"
proof -
  show "mk_Ledger (refunding_market p) = funded_books" "mk_Refunds (refunding_market p) = [sent_refund p]"
    by (simp_all add: refunding_market_def)
  show "order_by_id 1 (refunding_market p) = Some sample_shipped"
    by (simp add: order_by_id_def refunding_market_def sample_order_defs)
  show "escrow_book (refunding_market p) 1 = Some (Held 1100)"
    by (simp add: escrow_book_def escrow_of_def refunding_market_def)
  have "mk_Coins (refunding_market p) = mk_Coins blank_market" by (simp add: refunding_market_def)
  moreover have "coinsSpendForOrder 2 1 blank_market = Inr 0" by code_simp
  ultimately show "coinsSpendForOrder 2 1 (refunding_market p) = Inr 0" by (simp only: coinsSpendForOrder_def)
qed

lemma sample_awaits:
  assumes "p \<noteq> 0"
  shows "awaits_ack sample_ack (sent_refund p) sample_shipped p 0 (refunding_market p)"
proof -
  have "isWebhookRefundSuccess sample_ack" "or_Status sample_shipped = OrderShipped"
    "list_all (\<lambda>t. lt_ReferenceID t \<noteq> 8) (lg_Transactions funded_books)"
    by code_simp+
  moreover have "ack_lookup sample_ack (refunding_market p) = Some (without_evidence (sent_refund p))"
    by (simp add: ack_lookup_def sample_ack_def rrepo_GetByGatewayRefundID_def sample_market sample_fields)
  moreover have "escrows_ok (refunding_market p)" by (simp add: escrows_ok_def refunding_market_def)
  ultimately show ?thesis
    using assms by (simp add: awaits_ack_def list_all_iff sample_market sample_fields refund_by_id_def del: One_nat_def)
qed

lemma sample_books: "books_ready sample_ids8 (sent_refund p) (refunding_market p)"
proof -
  have "sample_ids8 0 \<notin> account_ids funded_books" "sample_ids8 4 \<notin> insert (sample_ids8 0) (account_ids funded_books)"
    "list_all (\<lambda>t. lt_Key t \<notin> refund_keys 8) (lg_Transactions funded_books)"
    "case ledger_GetSystemAccountID AccountPlatformRevenue funded_books of Inl _ \<Rightarrow> False | Inr _ \<Rightarrow> True"
    by code_simp+
  then show ?thesis
    using funded_books_ok has_system_account [of AccountPlatformRevenue funded_books]
    by (auto simp: books_ready_def sample_market sample_fields list_all_iff recorded_keys_def split: sum.splits)
qed

definition refunded_market :: market where
  "refunded_market = (case HandleGatewayRefundAck (\<lambda>_. 1300) sample_ids8 sample_ack (refunding_market 400) of
     Inl _ \<Rightarrow> blank_market | Inr M \<Rightarrow> M)"

lemma refunding_market_settles:
  "HandleGatewayRefundAck (\<lambda>_. 1300) sample_ids8 sample_ack (refunding_market 400) = Inr refunded_market"
proof -
  have "case HandleGatewayRefundAck (\<lambda>_. 1300) sample_ids8 sample_ack (refunding_market 400) of
      Inl _ \<Rightarrow> False | Inr M \<Rightarrow> True" by code_simp
  then show ?thesis by (simp add: refunded_market_def split: sum.splits)
qed

theorem confirmed_refund_settles_exactly_witness:
  "refund_booked False (sent_refund 400) 400 (remainder_event sample_shipped 400 0 (sent_refund 400)) funded_books
      (mk_Ledger refunded_market)
    \<and> escrow_book refunded_market 1 = Some (PaidOut 1100)
    \<and> (\<exists>o2. order_by_id 1 refunded_market = Some o2 \<and> or_Status o2 = OrderPartiallyRefunded)"
  using confirmed_refund_settles_exactly [OF refunding_market_settles sample_awaits sample_books
      sample_order_terms(1-3) [symmetric] _ sample_order_terms(5,4)]
  by (simp add: sample_market sample_fields i64_defs del: One_nat_def)

text \<open>
  C26. Two kinds of refunds can never be confirmed. When a pending refund would restore
  at least one coin (\<open>pd \<le> rpd * k\<close> for an order paid with \<open>k\<close> coins), or when it leaves
  a remainder on which the platform earns no commission (as a refund of the whole
  product without the shipping does), processing its confirmation always fails: the
  ledger refuses the reversal of the one and the zero revenue entry aborts the
  transaction of the other. The gateway has paid the buyer; the books never show it.
\<close>

theorem refunds_that_never_settle:
  assumes ack: "awaits_ack n r o1 rpd rs M" "books_ready ids r M"
    and order: "pd = product_base o1" "s = op_ShippingTotal (or_Pricing o1)" "c = op_CommissionAmount (or_Pricing o1)"
      "coinsSpendForOrder (rf_BuyerID r) (rf_OrderID r) M = Inr k" "refund_terms pd s c k"
    and range: "in_i64 (op_TotalBeforeCoinsAmount (or_Pricing o1))" "pd + rpd \<le> i64_max" "s + rs \<le> i64_max"
    and kind: "pd \<le> rpd * k \<or> rpd + rs < pd + s - k \<and> (pd - rpd) * c < pd"
  shows "\<exists>e. HandleGatewayRefundAck clk ids n M = Inl e"
proof (rule ccontr)
  assume "\<nexists>e. HandleGatewayRefundAck clk ids n M = Inl e"
  then obtain M' where "HandleGatewayRefundAck clk ids n M = Inr M'"
    by (cases "HandleGatewayRefundAck clk ids n M") auto
  from refund_confirmation [OF this assms(1-10)]
  have f: "rpd * k div pd = 0" "rpd + rs < pd + s - k \<longrightarrow> 0 < pr_Commission (remainder_event o1 rpd rs r)" by blast+
  have pos: "0 < pd" using order(5) by (simp add: refund_terms_def share_terms_def)
  have "pr_Commission (remainder_event o1 rpd rs r) = (pd - rpd) * c div pd"
    by (simp add: remainder_event_def Let_def order(1-3))
  then show False
    using kind f pos pos_imp_zdiv_pos_iff [OF pos, of "rpd * k"] pos_imp_zdiv_pos_iff [OF pos, of "(pd - rpd) * c"] by linarith
qed

theorem refunds_that_never_settle_witness:
  "\<exists>e. HandleGatewayRefundAck (\<lambda>_. 1300) sample_ids8 sample_ack (refunding_market 1000) = Inl e"
  by (rule refunds_that_never_settle [OF sample_awaits sample_books
      sample_order_terms(1-3) [symmetric] _ sample_order_terms(5,4)])
    (simp_all add: sample_market sample_fields i64_defs del: One_nat_def)

end
