(* ===== verification/RefundDispatch.thy ===== *)
theory RefundDispatch
  imports RefundDesk
begin

text \<open>
  Sending refunds to the gateway: a request is sent once per idempotency key, and
  the order service is told of every refund that holds a release back.
\<close>

section \<open>The rows\<close>

lemma by_key_updated:
  assumes "find (\<lambda>q. rf_GatewayIdempotencyKey q = Some k) rows = None
      \<or> (\<exists>q. find (\<lambda>q. rf_GatewayIdempotencyKey q = Some k) rows = Some q \<and> rf_ID q = i)"
    and "\<exists>q \<in> set rows. rf_ID q = i" "\<And>q. rf_GatewayIdempotencyKey (f q) = Some k"
  shows "\<exists>q \<in> set rows. rf_ID q = i
    \<and> find (\<lambda>q. rf_GatewayIdempotencyKey q = Some k) (map (\<lambda>q. if rf_ID q = i then f q else q) rows) = Some (f q)"
  using assms(1,2)
proof (induction rows)
  case Nil
  then show ?case by simp
next
  case (Cons q rows)
  show ?case
  proof (cases "rf_ID q = i")
    case True
    then show ?thesis using assms(3) by simp
  next
    case False
    then have "rf_GatewayIdempotencyKey q \<noteq> Some k" using Cons.prems(1) by (auto split: if_splits)
    then show ?thesis using Cons False by auto
  qed
qed

lemma by_key_row:
  assumes "rrepo_GetByGatewayIdempotencyKey k M = Some q"
  shows "\<exists>q' \<in> set (mk_Refunds M). rf_GatewayIdempotencyKey q' = Some k \<and> rf_ID q = rf_ID q'"
proof -
  obtain q' where "find (\<lambda>r. rf_GatewayIdempotencyKey r = Some k) (mk_Refunds M) = Some q'" "q = without_evidence q'"
    using assms by (auto simp: rrepo_GetByGatewayIdempotencyKey_def)
  then show ?thesis by (auto simp: without_evidence_def find_Some_iff)
qed

lemma rows_after_event [simp]:
  "mk_Refunds (InsertEvent e i M) = mk_Refunds M" "mk_Requests (InsertEvent e i M) = mk_Requests M"
  by (simp_all add: InsertEvent_def)

text \<open>What an accepted dispatch leaves: the row is in flight under its key, and at most one request went out.\<close>

lemma dispatched:
  assumes "InitiateGatewayRefund gw t inp M = Inr (r, M1)"
    and own: "\<forall>q. rrepo_GetByGatewayIdempotencyKey (ig_IdempotencyKey inp) M = Some q \<longrightarrow> rf_ID q = ig_RefundID inp"
  shows "0 < ig_Amount inp \<and> ig_IdempotencyKey inp \<noteq> ''''
    \<and> (\<exists>row. rrepo_GetByGatewayIdempotencyKey (ig_IdempotencyKey inp) M1 = Some row \<and> rf_ID row = ig_RefundID inp
        \<and> in_flight_status (rf_GatewayStatus row))
    \<and> (M1 = M \<or> (\<exists>q. mk_Requests M1 = mk_Requests M @ [q] \<and> gq_RefundKey q = ig_IdempotencyKey inp
        \<and> gq_Amount q = ig_Amount inp \<and> (\<exists>resp. gw q = Inr resp)))"
proof (cases "find (\<lambda>r. rf_ID r = ig_RefundID inp \<and> in_flight_status (rf_GatewayStatus r))
    (case rrepo_GetByGatewayIdempotencyKey (ig_IdempotencyKey inp) M of None \<Rightarrow> [] | Some r \<Rightarrow> [r])")
  case (Some q)
  then have "rrepo_GetByGatewayIdempotencyKey (ig_IdempotencyKey inp) M = Some q" "rf_ID q = ig_RefundID inp"
    "in_flight_status (rf_GatewayStatus q)"
    by (auto split: option.splits if_splits)
  then show ?thesis using assms(1) Some by (auto simp: InitiateGatewayRefund_def split: if_splits)
next
  case None
  let ?k = "ig_IdempotencyKey inp" and ?i = "ig_RefundID inp"
  obtain r0 o1 resp M2 where s: "refund_by_id ?i M = Some r0" "rf_GatewayStatus r0 \<noteq> GatewayRefundSucceeded"
    "0 < ig_Amount inp" "?k \<noteq> ''''"
    "gw \<lparr>gq_OrderID = uuid_text o1, gq_RefundKey = ?k, gq_Amount = ig_Amount inp, gq_Reason = ig_Reason inp\<rparr> = Inr resp"
    "rrepo_Update (snd (refund_MarkGatewayDispatched ?k (response_reference resp) t r0))
      (M\<lparr>mk_Requests := mk_Requests M @ [\<lparr>gq_OrderID = uuid_text o1, gq_RefundKey = ?k, gq_Amount = ig_Amount inp,
        gq_Reason = ig_Reason inp\<rparr>]\<rparr>) = Inr M2" "M1 = InsertEvent ''money.refund_pending'' (rf_ID r) M2"
    using assms(1) None
    by (auto simp: InitiateGatewayRefund_def sum_bind_Inr rrepo_GetForUpdate_def Let_def split: if_splits sum.splits)
  define r1 where "r1 = snd (refund_MarkGatewayDispatched ?k (response_reference resp) t r0)"
  have id: "rf_ID r0 = ?i" using s(1) by (auto simp: refund_by_id_def find_Some_iff)
  have r1: "rf_ID r1 = ?i" "rf_GatewayStatus r1 = GatewayRefundPending" "rf_GatewayIdempotencyKey r1 = Some ?k"
    using s(2) id by (simp_all add: r1_def mutation)
  have M2: "M2 = M\<lparr>mk_Requests := mk_Requests M @ [\<lparr>gq_OrderID = uuid_text o1, gq_RefundKey = ?k, gq_Amount = ig_Amount inp,
        gq_Reason = ig_Reason inp\<rparr>], mk_Refunds := map (\<lambda>q. if rf_ID q = ?i then written_refund r1 q else q) (mk_Refunds M)\<rparr>"
    using s(1,6) unfolding r1_def [symmetric] by (auto simp: rrepo_Update_def r1 refund_by_id_def split: if_splits)
  have "find (\<lambda>q. rf_GatewayIdempotencyKey q = Some ?k) (mk_Refunds M) = None
      \<or> (\<exists>q. find (\<lambda>q. rf_GatewayIdempotencyKey q = Some ?k) (mk_Refunds M) = Some q \<and> rf_ID q = ?i)"
    using own by (cases "find (\<lambda>q. rf_GatewayIdempotencyKey q = Some ?k) (mk_Refunds M)")
      (auto simp: rrepo_GetByGatewayIdempotencyKey_def without_evidence_def)
  moreover have "\<exists>q \<in> set (mk_Refunds M). rf_ID q = ?i" using s(1) by (auto simp: refund_by_id_def find_Some_iff intro: nth_mem)
  moreover have "rf_GatewayIdempotencyKey (written_refund r1 q) = Some ?k" for q by (simp add: written_refund_def r1)
  ultimately obtain q where "rf_ID q = ?i" "find (\<lambda>q. rf_GatewayIdempotencyKey q = Some ?k) (mk_Refunds M2) = Some (written_refund r1 q)"
    using by_key_updated [of ?k "mk_Refunds M" ?i "written_refund r1"] by (auto simp: M2)
  then have "rrepo_GetByGatewayIdempotencyKey ?k M1 = Some (without_evidence (written_refund r1 q))"
    "rf_ID (without_evidence (written_refund r1 q)) = ?i"
    "in_flight_status (rf_GatewayStatus (without_evidence (written_refund r1 q)))"
    by (simp_all add: rrepo_GetByGatewayIdempotencyKey_def s(7) InsertEvent_def in_flight_status_def without_evidence_def
        written_refund_def r1)
  moreover have "mk_Requests M1 = mk_Requests M @ [\<lparr>gq_OrderID = uuid_text o1, gq_RefundKey = ?k, gq_Amount = ig_Amount inp,
        gq_Reason = ig_Reason inp\<rparr>]" by (simp add: s(7) InsertEvent_def M2)
  ultimately show ?thesis using s(3-5) by auto
qed

lemma dispatched_requests:
  assumes "InitiateGatewayRefund gw t inp M = Inr (r, M1)" "k = ig_IdempotencyKey inp" "a = ig_Amount inp"
    and "\<forall>q. rrepo_GetByGatewayIdempotencyKey k M = Some q \<longrightarrow> rf_ID q = ig_RefundID inp"
  shows "mk_Requests M1 = mk_Requests M \<or> (\<exists>q. mk_Requests M1 = mk_Requests M @ [q] \<and> gq_Amount q = a \<and> gq_RefundKey q = k)"
  using dispatched [OF assms(1)] assms(2-4) by blast

section \<open>Properties\<close>


definition accepting_gateway :: refund_gateway where
  "accepting_gateway q = Inr \<lparr>gp_RefundChargeID = ''rc'', gp_TransactionID = ''''\<rparr>"

definition sample_system_refund :: SystemRefundInput where
  "sample_system_refund = \<lparr>si_OrderID = 1, si_BuyerID = 2, si_SellerID = 3, si_AdminID = 9, si_ProductAmount = 400,
     si_ShippingAmount = 0, si_PD = 1000, si_S = 100, si_C = 50, si_K = 0, si_Reason = ReasonItemDamaged,
     si_Description = None, si_IdempotencyKey = ''k''\<rparr>"

definition shipped_market :: market where
  "shipped_market = blank_market\<lparr>mk_Orders := [sample_shipped],
     mk_Escrows := [\<lparr>es_ID = 5, es_OrderID = 1, es_Amount = 1100, es_Status = EscrowHolding, es_PaymentID = None,
       es_CreatedAt = 500, es_ReleasedAt = None, es_RefundedAt = None\<rparr>]\<rparr>"

definition dispatched_market :: market where
  "dispatched_market =
    (case CreateAndDispatchSystemRefund accepting_gateway (\<lambda>_. 1200) 8 sample_system_refund shipped_market of
       Inl _ \<Rightarrow> blank_market | Inr (_, M) \<Rightarrow> M)"

lemma shipped_facts:
  "orepo_GetForUpdate 1 shipped_market = Inr sample_shipped" "order_HasCanonicalMoneyBase sample_shipped = Inr True"
  "GetEscrowForOrder 1 shipped_market = Inr (Some \<lparr>es_ID = 5, es_OrderID = 1, es_Amount = 1100, es_Status = EscrowHolding,
    es_PaymentID = None, es_CreatedAt = 500, es_ReleasedAt = None, es_RefundedAt = None\<rparr>)"
  "money_Int64 (op_TotalBeforeCoinsAmount (or_Pricing sample_shipped)) = 1100" "mk_Refunds shipped_market = []"
  "mk_Requests shipped_market = []"
  by (code_simp | simp add: shipped_market_def)+

lemmas dispatch_run = InitiateGatewayRefund_def rrepo_GetByGatewayIdempotencyKey_def NewRefund_def refund_checked_def
  refund_by_id_def key_taken_def in_bounds_def bounded_below_def IsSystemCaller_def SystemCallerID_def Let_def
  caller_provenance_def rrepo_GetByID_def orepo_GetForUpdate_def GetEscrowForOrder_def escrow_of_def rrepo_GetForUpdate_def
  found_def guard_def exact_def accepting_gateway_def mutation response_reference_def rrepo_Update_def written_refund_def
  missing_string_def InsertEvent_def wrap64_def i64_defs

lemma shipped_market_dispatches:
  "case CreateAndDispatchSystemRefund accepting_gateway (\<lambda>_. 1200) 8 sample_system_refund shipped_market of
      Inl _ \<Rightarrow> False
    | Inr (_, M) \<Rightarrow> mk_Requests M \<noteq> [] \<and> list_all refund_checked (mk_Refunds M)
        \<and> list_ex (\<lambda>r. rf_OrderID r = 1 \<and> refund_IsSettlementPending r) (mk_Refunds M)"
  using shipped_facts
  by (simp add: dispatch_run CreateAndDispatchSystemRefund_def sample_system_refund_def system_refund_cash_def
    proportionalFloor_def NewSystemRefund_def rrepo_Create_def refund_IsSettlementPending_def refund_OwesBuyerRefund_def
    del: One_nat_def)


text \<open>
  C28. Whether a refund holds an order's release back is decided alike in the entity
  and in the query of the order service: for rows the table accepts,
  \<open>HasRefundBlockingRelease\<close> finds a row exactly when \<open>BlocksOrderRelease\<close> holds of
  some refund of the order, and it always does while a decided refund waits for the
  gateway.
\<close>

theorem release_blocked_alike:
  assumes "list_all refund_checked (mk_Refunds M)"
  shows "HasRefundBlockingRelease i windowOpen M
      = (\<exists>r \<in> set (mk_Refunds M). rf_OrderID r = i \<and> refund_BlocksOrderRelease windowOpen r)
    \<and> (\<forall>r \<in> set (mk_Refunds M). rf_OrderID r = i \<and> refund_IsSettlementPending r \<longrightarrow> HasRefundBlockingRelease i windowOpen M)"
proof -
  have "(rf_Status r \<in> set [RefundSellerApproved, RefundAdminRefunded, RefundSystemRefunded]
           \<and> rf_GatewayStatus r \<noteq> GatewayRefundSucceeded
         \<or> rf_Status r \<in> set [RefundPendingSellerReview, RefundSellerRejected, RefundEscalatedToAdmin] \<and> windowOpen)
      = refund_BlocksOrderRelease windowOpen r" if "r \<in> set (mk_Refunds M)" for r
  proof -
    have "refund_checked r" using that assms by (simp add: list_all_iff)
    then show ?thesis
      by (cases "rf_Status r")
        (auto simp: refund_BlocksOrderRelease_def refund_IsSettlementPending_def refund_OwesBuyerRefund_def
          refund_AwaitsDecision_def refund_IsDecisionFinal_def refund_checked_def)
  qed
  then have eq: "HasRefundBlockingRelease i windowOpen M
      = (\<exists>r \<in> set (mk_Refunds M). rf_OrderID r = i \<and> refund_BlocksOrderRelease windowOpen r)"
    unfolding HasRefundBlockingRelease_def list_ex_iff by blast
  then show ?thesis by (auto simp: refund_BlocksOrderRelease_def)
qed

theorem release_blocked_alike_witness:
  "HasRefundBlockingRelease 1 False dispatched_market"
proof -
  have "list_all refund_checked (mk_Refunds dispatched_market)"
    "list_ex (\<lambda>r. rf_OrderID r = 1 \<and> refund_IsSettlementPending r) (mk_Refunds dispatched_market)"
    using shipped_market_dispatches by (auto simp: dispatched_market_def split: sum.splits)
  then show ?thesis using release_blocked_alike [of dispatched_market 1 False] by (auto simp: list_ex_iff)
qed

lemma seller_percentage:
  assumes "rrepo_Update r M = Inr M'" "refund_by_id (rf_ID r) M = Some row"
  shows "in_bounds 0 100 (rf_SellerApprovedPercent r)"
  using assms by (auto simp: rrepo_Update_def refund_checked_def written_refund_def split: if_splits)

text \<open>
  C27. A seller approves only what the buyer asked for. When \<open>ApproveRefund\<close> succeeds,
  the caller is the seller, the request waited for review with one of the reasons a
  seller may settle, and the amount the reason's policy fixes (the product, with the
  shipping for a parcel never received or wrong) is less than one percent above the
  amount asked: a smaller request is refused by the table's percentage check. At most
  one request goes to the gateway, for exactly the policy's amount.
\<close>

theorem seller_approval_needs_full_ask:
  assumes "ApproveRefund gw clk i sellerID notes M = Inr (r, M1)"
    and row: "refund_by_id i M = Some r0" "orepo_GetForUpdate (rf_OrderID r0) M = Inr o1" "0 < rf_RequestedAmount r0"
    and own: "\<forall>q \<in> set (mk_Refunds M). rf_GatewayIdempotencyKey q = Some (''seller_approve_'' @ uuid_text i) \<longrightarrow> rf_ID q = i"
    and base: "order_DiscountedProductAmount o1 = Inr pd" "s = op_ShippingTotal (or_Pricing o1)" "0 \<le> pd" "0 \<le> s"
      "100 * (pd + s) \<le> i64_max"
    and policy: "p = (if rf_Reason r0 = ReasonItemDamaged \<or> rf_Reason r0 = ReasonDefectiveItem then pd else pd + s)"
  shows "rf_SellerID r0 = sellerID \<and> rf_Status r0 = RefundPendingSellerReview
    \<and> rf_Reason r0 \<in> {ReasonItemDamaged, ReasonDefectiveItem, ReasonItemNotReceived, ReasonWrongItem}
    \<and> 100 * p < 101 * rf_RequestedAmount r0
    \<and> (mk_Requests M1 = mk_Requests M \<or> (\<exists>q. mk_Requests M1 = mk_Requests M @ [q] \<and> gq_Amount q = p
        \<and> gq_RefundKey q = ''seller_approve_'' @ uuid_text i))"
proof -
  let ?k = "''seller_approve_'' @ uuid_text i"
  define P where "P = ResolveRefundPolicy (rf_Reason r0) \<lparr>sn_DiscountedProduct = money_Int64 pd,
     sn_ShippingTotal = money_Int64 s, sn_CommissionAmount = money_Int64 (op_CommissionAmount (or_Pricing o1))\<rparr>"
  have id: "rf_ID r0 = i" using row(1) by (auto simp: refund_by_id_def find_Some_iff)
  have range: "in_i64 (pd + s)" "in_i64 (p * 100)" "0 \<le> p" using base(3-5) by (auto simp: i64_defs policy)
  obtain r1 Ma r3 where s: "rf_SellerID r0 = sellerID" "policy_IsSellerApprovable P"
    "moved RefundFault (refund_SellerApprove (po_CashRefund P) notes (clk 0) r0) = Inr r1"
    "rrepo_Update (r1\<lparr>rf_RefundedProductAmount := Some (po_ProductAmount P),
       rf_RefundedShippingAmount := Some (po_ShippingAmount P)\<rparr>) M = Inr Ma"
    "CreateAndDispatchSystemRefundFromApproval gw (clk 1) (r1\<lparr>rf_RefundedProductAmount := Some (po_ProductAmount P),
       rf_RefundedShippingAmount := Some (po_ShippingAmount P)\<rparr>) (''seller_approve_'' @ uuid_text (rf_ID r1))
       (InsertEvent ''refund.approved'' (rf_ID r1) Ma) = Inr (r3, M1)"
    using assms(1) row(1,2) base(1)
    by (auto simp: ApproveRefund_def sum_bind_Inr rrepo_GetByID_def rrepo_GetForUpdate_def found_def exact_def Let_def
        base(2) [symmetric] P_def [symmetric] simp del: One_nat_def split: sum.splits if_splits)
  define r2 where "r2 = r1\<lparr>rf_RefundedProductAmount := Some (po_ProductAmount P),
     rf_RefundedShippingAmount := Some (po_ShippingAmount P)\<rparr>"
  have reason: "rf_Reason r0 \<in> {ReasonItemDamaged, ReasonDefectiveItem, ReasonItemNotReceived, ReasonWrongItem}"
    "po_CashRefund P = p"
    using s(2) range(1) by (auto simp: P_def policy_IsSellerApprovable_def ResolveRefundPolicy_def policy money_defs split: if_splits)
  have r1: "rf_Status r0 = RefundPendingSellerReview" "rf_ID r2 = i" "rf_SellerApprovedAmount r2 = Some p"
    "rf_SellerApprovedPercent r2 = Some (wrap64 (p * 100) sdiv rf_RequestedAmount r0)"
    using s(3) row(3) id by (auto simp: moved_Inr mutation reason(2) r2_def split: if_splits)
  have "wrap64 (p * 100) sdiv rf_RequestedAmount r0 = p * 100 div rf_RequestedAmount r0"
    using range row(3) by (simp add: sdiv_nonneg)
  then have "p * 100 div rf_RequestedAmount r0 \<le> 100"
    using seller_percentage [OF s(4) [folded r2_def]] r1(2,4) row(1) by (simp add: in_bounds_def)
  then have ask: "100 * p < 101 * rf_RequestedAmount r0"
    using row(3) zdiv_mono1 [of "101 * rf_RequestedAmount r0" "p * 100" "rf_RequestedAmount r0"] by force
  have Ma: "Ma = M\<lparr>mk_Refunds := map (\<lambda>q. if rf_ID q = i then written_refund r2 q else q) (mk_Refunds M)\<rparr>"
    using s(4) [folded r2_def] row(1) by (auto simp: rrepo_Update_def r1 split: if_splits)
  have "rf_ID q = i" if "rrepo_GetByGatewayIdempotencyKey ?k (InsertEvent ''refund.approved'' i Ma) = Some q" for q
  proof -
    from by_key_row [OF that]
    have "\<exists>q' \<in> set (mk_Refunds Ma). rf_GatewayIdempotencyKey q' = Some ?k \<and> rf_ID q = rf_ID q'" by simp
    then show ?thesis using own by (auto simp: Ma written_refund_def split: if_splits)
  qed
  then have key: "\<forall>q. rrepo_GetByGatewayIdempotencyKey ?k (InsertEvent ''refund.approved'' i Ma) = Some q \<longrightarrow> rf_ID q = i" by blast
  have i1: "rf_ID r1 = i" using r1(2) by (simp add: r2_def)
  define inp where "inp = \<lparr>ig_RefundID = rf_ID r2, ig_Amount = p, ig_Reason = reason_text (rf_Reason r2),
    ig_IdempotencyKey = ?k, ig_CallerID = SystemCallerID, ig_CallerType = CallerTypeSystem\<rparr>"
  have "InitiateGatewayRefund gw (clk 1) inp (InsertEvent ''refund.approved'' i Ma) = Inr (r3, M1)"
    using s(5) [folded r2_def] by (simp add: CreateAndDispatchSystemRefundFromApproval_def r1(3) i1 inp_def)
  then have "mk_Requests M1 = mk_Requests (InsertEvent ''refund.approved'' i Ma)
      \<or> (\<exists>q. mk_Requests M1 = mk_Requests (InsertEvent ''refund.approved'' i Ma) @ [q] \<and> gq_Amount q = p \<and> gq_RefundKey q = ?k)"
    by (rule dispatched_requests) (use key r1(2) in \<open>simp_all add: inp_def\<close>)
  then have "mk_Requests M1 = mk_Requests M \<or> (\<exists>q. mk_Requests M1 = mk_Requests M @ [q] \<and> gq_Amount q = p \<and> gq_RefundKey q = ?k)"
    unfolding rows_after_event by (simp add: Ma)
  then show ?thesis using s(1) r1(1) reason(1) ask by blast
qed

definition asked_refund :: refund where
  "asked_refund = NewRefund 8 1100 1 2 3 ReasonItemDamaged None 1000"

definition asked_market :: market where
  "asked_market = shipped_market\<lparr>mk_Refunds := [asked_refund]\<rparr>"

lemma asked_market_approves:
  "case ApproveRefund accepting_gateway (\<lambda>_. 1200) 8 3 None asked_market of Inl _ \<Rightarrow> False | Inr (_, M) \<Rightarrow> mk_Requests M \<noteq> []"
proof -
  have "order_DiscountedProductAmount sample_shipped = Inr 1000" by code_simp
  then show ?thesis
    using shipped_facts
    by (simp add: dispatch_run asked_market_def asked_refund_def ApproveRefund_def moved_def sdiv_nonneg money_defs
      CreateAndDispatchSystemRefundFromApproval_def ResolveRefundPolicy_def policy_IsSellerApprovable_def del: One_nat_def)
qed

theorem seller_approval_needs_full_ask_witness:
  "\<exists>r M. ApproveRefund accepting_gateway (\<lambda>_. 1200) 8 3 None asked_market = Inr (r, M)
    \<and> mk_Requests M \<noteq> [] \<and> (mk_Requests M = mk_Requests asked_market
      \<or> (\<exists>q. mk_Requests M = mk_Requests asked_market @ [q] \<and> gq_Amount q = 1000
           \<and> gq_RefundKey q = ''seller_approve_'' @ uuid_text 8))"
proof -
  obtain r M where r: "ApproveRefund accepting_gateway (\<lambda>_. 1200) 8 3 None asked_market = Inr (r, M)" "mk_Requests M \<noteq> []"
    using asked_market_approves by (auto split: sum.splits)
  have "refund_by_id 8 asked_market = Some asked_refund" "rf_OrderID asked_refund = 1" "rf_RequestedAmount asked_refund = 1000"
    "rf_Reason asked_refund = ReasonItemDamaged" "mk_Refunds asked_market = [asked_refund]" "rf_ID asked_refund = 8"
    by (simp_all add: asked_market_def asked_refund_def refund_by_id_def NewRefund_def)
  moreover have "orepo_GetForUpdate 1 asked_market = Inr sample_shipped"
    using shipped_facts by (simp add: asked_market_def orepo_GetForUpdate_def)
  moreover have "order_DiscountedProductAmount sample_shipped = Inr 1000" "op_ShippingTotal (or_Pricing sample_shipped) = 100"
    by code_simp+
  ultimately show ?thesis
    using seller_approval_needs_full_ask [OF r(1), of asked_refund sample_shipped 1000 100 1000] r by (simp add: i64_defs)
qed

end
