(* ===== verification/ForSaleStore.thy ===== *)
theory ForSaleStore
  imports Settlement
begin

text \<open>
  The for-sale table (\<open>commerce/forsale/infrastructure/repository\<close>) and the parts of
  \<open>commerce/forsale/application\<close> that change it after a listing exists: withdrawal,
  restoration by moderation, and the seller's edit that no longer has an editable
  state. Listings, search and the creation with its product are not modelled.
\<close>

section \<open>The table\<close>

text \<open>The visibility is no column: every read derives it anew.\<close>

definition derivedVisibility :: "ForSaleStatus \<Rightarrow> time option \<Rightarrow> ForSaleVisibility" where
  "derivedVisibility status publishedAt =
    (if status = ForSaleActive \<and> publishedAt \<noteq> None then ForSalePublic else ForSalePrivate)"

definition scanned_for_sale :: "for_sale \<Rightarrow> for_sale" where
  "scanned_for_sale row = row\<lparr>fs_Visibility := derivedVisibility (fs_Status row) (fs_PublishedAt row)\<rparr>"

definition for_sale_row :: "uuid \<Rightarrow> market \<Rightarrow> for_sale option" where
  "for_sale_row i M = find (\<lambda>l. fs_ID l = i) (mk_ForSales M)"

text \<open>The columns of a row: an integer of 32 bits that is not negative, and a price that is not.\<close>

definition for_sale_checked :: "for_sale \<Rightarrow> bool" where
  "for_sale_checked l \<longleftrightarrow> 0 \<le> fs_QuantityAvailable l \<and> fs_QuantityAvailable l < 2 ^ 31
     \<and> 0 \<le> money_Int64 (fs_PricePerUnit l) \<and> forSaleStatus_IsValid (fs_Status l)"

definition fsrepo_Create :: "uuid \<Rightarrow> for_sale \<Rightarrow> market \<Rightarrow> market_error + for_sale \<times> market" where
  "fsrepo_Create new_id l M =
    (if fs_ProductID l = uuid_nil then Inl (Refused ''product id is required'')
     else let l1 = scanned_for_sale (if fs_ID l = uuid_nil then l\<lparr>fs_ID := new_id\<rparr> else l)
     in if \<not> for_sale_checked l1 \<or> for_sale_row (fs_ID l1) M \<noteq> None
           \<or> (\<exists>row \<in> set (mk_ForSales M). fs_ProductID row = fs_ProductID l1)
        then Inl TxAborted
        else Inr (l1, M\<lparr>mk_ForSales := mk_ForSales M @ [l1]\<rparr>))"

definition fsrepo_GetByID :: "uuid \<Rightarrow> market \<Rightarrow> market_error + for_sale" where
  "fsrepo_GetByID i M = found ''for_sale'' (map_option scanned_for_sale (for_sale_row i M))"

definition fsrepo_GetByProductID :: "uuid \<Rightarrow> market \<Rightarrow> market_error + for_sale" where
  "fsrepo_GetByProductID productID M =
    found ''for_sale'' (map_option scanned_for_sale (find (\<lambda>l. fs_ProductID l = productID) (mk_ForSales M)))"

definition fsrepo_GetForUpdate :: "uuid \<Rightarrow> market \<Rightarrow> market_error + for_sale" where
  "fsrepo_GetForUpdate i M = found ''for_sale'' (map_option scanned_for_sale (for_sale_row i M))"

definition set_for_sale :: "(for_sale \<Rightarrow> for_sale) \<Rightarrow> for_sale \<Rightarrow> market \<Rightarrow> step_result" where
  "set_for_sale f l M =
    (if fs_ProductID l = uuid_nil then Inl (Refused ''product id is required'')
     else if \<not> for_sale_checked l then Inl TxAborted
     else Inr (M\<lparr>mk_ForSales := map (\<lambda>row. if fs_ID row = fs_ID l then f row else row) (mk_ForSales M)\<rparr>))"

definition fsrepo_Update :: "for_sale \<Rightarrow> market \<Rightarrow> step_result" where
  "fsrepo_Update l = set_for_sale (\<lambda>row. row\<lparr>fs_SellerID := fs_SellerID l, fs_PricePerUnit := fs_PricePerUnit l,
     fs_NegotiationEnabled := fs_NegotiationEnabled l, fs_Status := fs_Status l, fs_PublishedAt := fs_PublishedAt l,
     fs_SoldAt := fs_SoldAt l, fs_WithdrawnAt := fs_WithdrawnAt l, fs_QuantityAvailable := fs_QuantityAvailable l,
     fs_UpdatedAt := fs_UpdatedAt l\<rparr>) l"

definition fsrepo_UpdateStock :: "for_sale \<Rightarrow> market \<Rightarrow> step_result" where
  "fsrepo_UpdateStock l = set_for_sale (\<lambda>row. row\<lparr>fs_Status := fs_Status l, fs_SoldAt := fs_SoldAt l,
     fs_QuantityAvailable := fs_QuantityAvailable l, fs_UpdatedAt := fs_UpdatedAt l\<rparr>) l"

definition fsrepo_UpdateStatus :: "for_sale \<Rightarrow> market \<Rightarrow> step_result" where
  "fsrepo_UpdateStatus l = set_for_sale (\<lambda>row. row\<lparr>fs_Status := fs_Status l, fs_PublishedAt := fs_PublishedAt l,
     fs_SoldAt := fs_SoldAt l, fs_WithdrawnAt := fs_WithdrawnAt l, fs_UpdatedAt := fs_UpdatedAt l\<rparr>) l"

section \<open>The service\<close>

definition requireSellerNotRestricted :: "time \<Rightarrow> uuid \<Rightarrow> market \<Rightarrow> market_error + unit" where
  "requireSellerNotRestricted now sellerID M =
    guard (\<not> fst (IsUserRestricted now sellerID (mk_Gov M))) (Refused ''commerce restricted'')"

text \<open>Every stored listing is live, so after the other checks the edit is refused.\<close>

definition UpdateSeller :: "time \<Rightarrow> uuid \<Rightarrow> uuid \<Rightarrow> market \<Rightarrow> step_result" where
  "UpdateSeller now forSaleID sellerID M =
    sum_bind (fsrepo_GetForUpdate forSaleID M) (\<lambda>l.
    sum_bind (guard (fs_SellerID l = sellerID) (Refused ''forbidden'')) (\<lambda>_.
    sum_bind (requireSellerNotRestricted now sellerID M) (\<lambda>_.
    Inl (Refused ''live immutable''))))"

definition for_sale_Withdraw :: "(nat \<Rightarrow> time) \<Rightarrow> uuid \<Rightarrow> market \<Rightarrow> step_result" where
  "for_sale_Withdraw clk forSaleID M =
    sum_bind (fsrepo_GetForUpdate forSaleID M) (\<lambda>l.
    sum_bind (moved ForSaleFault (forSale_MarkWithdrawn (clk 0) (clk 1) l)) (\<lambda>l1.
    sum_bind (fsrepo_UpdateStatus l1 M) (\<lambda>M1.
    Inr (InsertEvent ''for_sale.withdrawn'' (fs_ID l1)
      (M1\<lparr>mk_Quotes := qrepo_InvalidateQuotesByProduct (fs_ProductID l1) (mk_Quotes M1)\<rparr>)))))"

definition RestoreFromModeration :: "(nat \<Rightarrow> time) \<Rightarrow> uuid \<Rightarrow> market \<Rightarrow> step_result" where
  "RestoreFromModeration clk forSaleID M =
    sum_bind (fsrepo_GetForUpdate forSaleID M) (\<lambda>l.
    sum_bind (moved ForSaleFault (forSale_MarkActiveFromModeration (clk 0) (clk 1) l)) (\<lambda>l1.
    fsrepo_UpdateStatus l1 M))"

section \<open>Rows\<close>

lemma for_sale_row_set:
  assumes "set_for_sale f l M = Inr M'" "\<And>row. fs_ID (f row) = fs_ID row"
  shows "for_sale_row i M' = (if i = fs_ID l then map_option f (for_sale_row i M) else for_sale_row i M)"
proof -
  have M': "mk_ForSales M' = map (\<lambda>row. if fs_ID row = fs_ID l then f row else row) (mk_ForSales M)"
    using assms(1) by (auto simp: set_for_sale_def split: if_splits)
  have "for_sale_row i M' = map_option (\<lambda>row. if fs_ID row = fs_ID l then f row else row) (for_sale_row i M)"
    unfolding for_sale_row_def M' by (rule find_map_keep) (simp add: assms(2))
  moreover have "fs_ID row = i" if "for_sale_row i M = Some row" for row
    using that by (auto simp: for_sale_row_def find_Some_iff)
  ultimately show ?thesis by (cases "for_sale_row i M") auto
qed

text \<open>The fields of the state that a stock update leaves alone.\<close>

lemma set_for_sale_frame: "set_for_sale f l M = Inr M' \<Longrightarrow> \<exists>ls. M' = M\<lparr>mk_ForSales := ls\<rparr>"
  by (auto simp: set_for_sale_def split: if_splits)

end
