(* ===== verification/QuoteService.thy ===== *)
theory QuoteService
  imports ForSaleStore
begin

text \<open>
  \<open>commerce/shipping/quote/application/shipping_quote_service.go\<close>: a seller quotes a
  price in a chat, the checkout consumes the quote once, and a failed order may give
  it back. The chat rooms and the message that announces a quote (with the validation
  of its attachment) are the arguments \<open>rooms\<close> and \<open>send\<close>, as they are interfaces in
  the code.
\<close>

section \<open>Chat rooms\<close>

record chat_room =
  cm_ParticipantA :: uuid
  cm_ParticipantB :: uuid

definition chatRoom_HasParticipant :: "uuid \<Rightarrow> chat_room \<Rightarrow> bool" where
  "chatRoom_HasParticipant userID r \<longleftrightarrow> cm_ParticipantA r = userID \<or> cm_ParticipantB r = userID"

definition chatRoom_OtherParticipant :: "uuid \<Rightarrow> chat_room \<Rightarrow> uuid" where
  "chatRoom_OtherParticipant userID r =
    (if cm_ParticipantA r = userID then cm_ParticipantB r
     else if cm_ParticipantB r = userID then cm_ParticipantA r else uuid_nil)"

section \<open>Creating a quote\<close>

definition DefaultShippingQuoteExpiryHours :: int where
  "DefaultShippingQuoteExpiryHours = 24"

definition MaxShippingQuoteExpiryHours :: int where
  "MaxShippingQuoteExpiryHours = 168"

record create_quote_input =
  ci_ChatID :: uuid
  ci_ProductID :: uuid
  ci_SourceType :: string
  ci_SourceID :: uuid
  ci_SellerID :: uuid
  ci_Cost :: money
  ci_Note :: "string option"
  ci_DestinationCityID :: "string option"
  ci_DestinationProvinceID :: "string option"
  ci_ExpiresInHours :: "int option"

definition quote_expiry_hours :: "int option \<Rightarrow> market_error + int" where
  "quote_expiry_hours h =
    (case h of
       None \<Rightarrow> Inr DefaultShippingQuoteExpiryHours
     | Some n \<Rightarrow> if n \<le> 0 then Inl (Refused ''expires_in_hours must be positive'')
                 else if n > MaxShippingQuoteExpiryHours then Inl (Refused ''expires_in_hours must not exceed 168'')
                 else Inr n)"

definition validateAuctionForQuote :: "uuid \<Rightarrow> uuid \<Rightarrow> uuid \<Rightarrow> market \<Rightarrow> market_error + auction" where
  "validateAuctionForQuote auctionID sellerID recipientID M =
    sum_bind (aurepo_GetForUpdate auctionID M) (\<lambda>a.
    sum_bind (guard (au_SellerID a = sellerID) (Refused ''auction does not belong to seller'')) (\<lambda>_.
    sum_bind (guard (au_Status a = AuctionWaitingSettlement) (Refused ''auction is not waiting_settlement'')) (\<lambda>_.
    sum_bind (guard (auction_WinnerID a \<noteq> None) (Refused ''auction winner is not set'')) (\<lambda>_.
    sum_bind (guard (auction_WinnerID a = Some recipientID) (Refused ''recipient is not auction winner'')) (\<lambda>_.
    Inr a)))))"

definition aurepo_MarkSellerQuoteProvided :: "time \<Rightarrow> uuid \<Rightarrow> market \<Rightarrow> market" where
  "aurepo_MarkSellerQuoteProvided now auctionID M =
    M\<lparr>mk_Auctions := map (\<lambda>a. if au_ID a = auctionID \<and> au_Status a = AuctionWaitingSettlement
        then a\<lparr>au_SellerQuoteProvided := True, au_UpdatedAt := now\<rparr> else a) (mk_Auctions M)\<rparr>"

definition quote_source_check :: "create_quote_input \<Rightarrow> uuid \<Rightarrow> market \<Rightarrow> market_error + unit" where
  "quote_source_check inp buyerID M =
    (if ci_SourceType inp = ''auction''
     then sum_bind (validateAuctionForQuote (ci_SourceID inp) (ci_SellerID inp) buyerID M) (\<lambda>_. Inr ())
     else sum_bind (fsrepo_GetByProductID (ci_ProductID inp) M) (\<lambda>l.
          sum_bind (guard (fs_SellerID l = ci_SellerID inp) (Refused ''product does not belong to seller'')) (\<lambda>_.
          guard (fs_Status l = ForSaleActive) (Refused ''product is not available for shipping quotes''))))"

definition CreateShippingQuote ::
    "(uuid \<Rightarrow> chat_room option) \<Rightarrow> (shipping_quote \<Rightarrow> bool) \<Rightarrow> (nat \<Rightarrow> time) \<Rightarrow> uuid \<Rightarrow> create_quote_input \<Rightarrow> market
      \<Rightarrow> market_error + shipping_quote \<times> market" where
  "CreateShippingQuote rooms send clk new_id inp M =
    (if money_IsNegative (ci_Cost inp) then Inl (Refused ''cost cannot be negative'')
     else sum_bind (quote_expiry_hours (ci_ExpiresInHours inp)) (\<lambda>expiryHours.
       let expiresAt = time_add (clk 0) (wrap64 (expiryHours * hour)) in
       sum_bind (found ''chat'' (rooms (ci_ChatID inp))) (\<lambda>room.
       sum_bind (guard (chatRoom_HasParticipant (ci_SellerID inp) room) (Refused ''seller is not a participant'')) (\<lambda>_.
       let buyerID = chatRoom_OtherParticipant (ci_SellerID inp) room in
       sum_bind (guard (buyerID \<noteq> uuid_nil) (Refused ''unable to determine buyer'')) (\<lambda>_.
       sum_bind (quote_source_check inp buyerID M) (\<lambda>_.
       let quote = NewShippingQuote new_id (clk 1) (ci_ChatID inp) (ci_ProductID inp) (ci_SourceType inp)
             (ci_SourceID inp) (ci_SellerID inp) buyerID (ci_Cost inp) (ci_Note inp) (ci_DestinationCityID inp)
             (ci_DestinationProvinceID inp) expiresAt;
           Q1 = qrepo_SupersedeCurrentQuotes (clk 2) (ci_ChatID inp, ci_ProductID inp, ci_SourceType inp,
             ci_SourceID inp, ci_SellerID inp, buyerID) (qt_ID quote) (mk_Quotes M)
       in case qrepo_Create quote Q1 of
            None \<Rightarrow> Inl TxAborted
          | Some Q2 \<Rightarrow>
              let M1 = M\<lparr>mk_Quotes := Q2\<rparr>;
                  M2 = (if ci_SourceType inp = ''auction''
                        then aurepo_MarkSellerQuoteProvided (clk 3) (ci_SourceID inp) M1 else M1)
              in sum_bind (guard (send quote) (Refused ''failed to send chat message'')) (\<lambda>_. Inr (quote, M2))))))))"

section \<open>Reading\<close>

definition service_GetLatestByChatAndSource :: "time \<Rightarrow> quote_context \<Rightarrow> market \<Rightarrow> shipping_quote option" where
  "service_GetLatestByChatAndSource now c M = qrepo_GetLatestByChatAndSource now c (mk_Quotes M)"

record quote_actionability =
  qa_QuoteID :: uuid
  qa_IsCurrent :: bool
  qa_ViewerActionable :: bool

definition EvaluateQuoteActionability :: "shipping_quote option \<Rightarrow> uuid \<Rightarrow> time \<Rightarrow> quote_actionability" where
  "EvaluateQuoteActionability quote viewerID now =
    (case quote of
       None \<Rightarrow> \<lparr>qa_QuoteID = uuid_nil, qa_IsCurrent = False, qa_ViewerActionable = False\<rparr>
     | Some q \<Rightarrow> \<lparr>qa_QuoteID = qt_ID q, qa_IsCurrent = quote_IsCurrent q,
         qa_ViewerActionable = (viewerID \<noteq> uuid_nil \<and> qt_BuyerID q = viewerID \<and> quote_IsBuyerUsableAt now q)\<rparr>)"

definition ProjectForViewer :: "time \<Rightarrow> uuid \<Rightarrow> uuid list \<Rightarrow> market \<Rightarrow> uuid \<Rightarrow> quote_actionability option" where
  "ProjectForViewer now viewerID quoteIDs M =
    map_of (map (\<lambda>q. (qt_ID q, EvaluateQuoteActionability (Some q) viewerID now)) (qrepo_GetByIDs quoteIDs (mk_Quotes M)))"

section \<open>Expiry and checkout\<close>

definition MarkQuoteExpired :: "time \<Rightarrow> uuid \<Rightarrow> market \<Rightarrow> step_result" where
  "MarkQuoteExpired now quoteID M =
    sum_bind (found ''quote'' (qrepo_GetByID quoteID (mk_Quotes M))) (\<lambda>q.
    sum_bind (moved QuoteFault (quote_MarkExpired q)) (\<lambda>q1.
    case qrepo_UpdateStatus now quoteID (qt_Status q1) False (mk_Quotes M) of
      None \<Rightarrow> Inl TxAborted
    | Some Q \<Rightarrow> Inr (M\<lparr>mk_Quotes := Q\<rparr>)))"

definition quote_for_checkout :: "time \<Rightarrow> checkout_context \<Rightarrow> shipping_quote \<Rightarrow> market_error + unit" where
  "quote_for_checkout now inp q =
    (if quote_IsSuperseded q then Inl (Refused ''superseded'')
     else if \<not> quote_IsCurrent q then Inl (Refused ''invalid_status'')
     else if quote_IsExpiredAt now q then Inl (Refused ''expired'')
     else if cc_ChatID inp = None then Inl (Refused ''chat_required'')
     else if Some (qt_ChatID q) \<noteq> cc_ChatID inp then Inl (Refused ''chat_mismatch'')
     else if qt_SellerID q \<noteq> cc_SellerID inp then Inl (Refused ''seller_mismatch'')
     else if qt_ProductID q \<noteq> cc_ProductID inp then Inl (Refused ''product_mismatch'')
     else if cc_SourceType inp = ''auction''
        \<and> (qt_SourceType q \<noteq> Some ''auction'' \<or> qt_SourceID q \<noteq> Some (cc_SourceID inp)) then Inl (Refused ''auction_mismatch'')
     else if cc_SourceType inp \<noteq> ''auction''
        \<and> (qt_SourceType q \<noteq> Some ''for_sale'' \<or> qt_SourceID q \<noteq> Some (cc_SourceID inp)) then Inl (Refused ''source_mismatch'')
     else if qt_BuyerID q \<noteq> cc_BuyerID inp then Inl (Refused ''buyer_mismatch'')
     else if quote_ValidateDestinationAddress (cc_ShippingProvinceID inp) (cc_ShippingCityID inp) q \<noteq> None
       then Inl (Refused ''address_mismatch'')
     else Inr ())"

definition ConsumeQuoteForCheckout ::
    "(nat \<Rightarrow> time) \<Rightarrow> checkout_context \<Rightarrow> market \<Rightarrow> market_error + shipping_quote \<times> market" where
  "ConsumeQuoteForCheckout clk inp M =
    sum_bind (found ''not_found'' (qrepo_GetByIDForUpdate (cc_QuoteID inp) (mk_Quotes M))) (\<lambda>q.
    sum_bind (quote_for_checkout (clk 0) inp q) (\<lambda>_.
    sum_bind (moved QuoteFault (quote_MarkUsed (clk 0) q)) (\<lambda>q1.
    case qrepo_UpdateStatus (clk 1) (cc_QuoteID inp) (qt_Status q1) True (mk_Quotes M) of
      None \<Rightarrow> Inl (Refused ''mark_used_failed'')
    | Some Q \<Rightarrow> Inr (q1, M\<lparr>mk_Quotes := Q\<rparr>))))"

section \<open>Reactivation\<close>

definition quoteBlockingOrderStatuses :: "OrderStatus list" where
  "quoteBlockingOrderStatuses = [OrderPending, OrderPaid, OrderShipped, OrderDelivered, OrderDisputeOpen, OrderCompleted,
     OrderPartiallyRefunded]"

definition order_quote :: "order \<Rightarrow> uuid option" where
  "order_quote o1 = os_ShippingQuoteID (or_ShippingSetup o1)"

definition orepo_GetByShippingQuoteID :: "uuid \<Rightarrow> market \<Rightarrow> order option" where
  "orepo_GetByShippingQuoteID quoteID M = find (\<lambda>o1. order_quote o1 = Some quoteID) (mk_Orders M)"

definition orepo_CountValidOrdersByShippingQuoteID :: "uuid \<Rightarrow> market \<Rightarrow> nat" where
  "orepo_CountValidOrdersByShippingQuoteID quoteID M =
    length (filter (\<lambda>o1. order_quote o1 = Some quoteID \<and> or_Status o1 \<in> set quoteBlockingOrderStatuses) (mk_Orders M))"

definition order_failed :: "OrderStatus \<Rightarrow> bool" where
  "order_failed s \<longleftrightarrow> s \<in> set [OrderRefunded, OrderExpired, OrderCancelled, OrderCancelledTimeout]"

definition ReactivateQuoteIfEligible ::
    "(uuid \<Rightarrow> chat_room option) \<Rightarrow> (nat \<Rightarrow> time) \<Rightarrow> uuid \<Rightarrow> market \<Rightarrow> step_result" where
  "ReactivateQuoteIfEligible rooms clk quoteID M =
    sum_bind (found ''quote'' (qrepo_GetByID quoteID (mk_Quotes M))) (\<lambda>initialQuote.
    sum_bind (found ''chat'' (rooms (qt_ChatID initialQuote))) (\<lambda>_.
    sum_bind (found ''quote'' (qrepo_GetByIDForUpdate quoteID (mk_Quotes M))) (\<lambda>q.
    if qt_Status q \<noteq> QuoteUsed then Inr M
    else if quote_IsSuperseded q then Inl (Refused ''superseded'')
    else if \<not> quote_CanBeReactivated q then Inl (Refused ''quote reuse limit exceeded'')
    else
      sum_bind (found ''quote source id'' (qt_SourceID q)) (\<lambda>sourceID.
      let c = (qt_ChatID q, qt_ProductID q, (case qt_SourceType q of None \<Rightarrow> '''' | Some t \<Rightarrow> t), sourceID,
            qt_SellerID q, qt_BuyerID q);
          other = (\<lambda>r. case r of None \<Rightarrow> False | Some x \<Rightarrow> qt_ID x \<noteq> quoteID)
      in
      sum_bind (guard (\<not> other (qrepo_GetCurrentActiveByChatAndSource c (mk_Quotes M))) (Refused ''newer current quote'')) (\<lambda>_.
      sum_bind (guard (\<not> other (qrepo_GetLatestRevisionByChatAndSource c (mk_Quotes M))) (Refused ''newer revision'')) (\<lambda>_.
      if (case orepo_GetByShippingQuoteID quoteID M of None \<Rightarrow> False | Some o1 \<Rightarrow> \<not> order_failed (or_Status o1)) then Inr M
      else
        sum_bind (guard (orepo_CountValidOrdersByShippingQuoteID quoteID M = 0) (Refused ''valid orders still using quote'')) (\<lambda>_.
        sum_bind (moved QuoteFault (quote_Reactivate (time_add (clk 0) (DefaultShippingQuoteExpiryHours * hour)) q)) (\<lambda>_.
        case qrepo_ReactivateQuote (clk 1) quoteID (mk_Quotes M) of
          None \<Rightarrow> Inl (Refused ''reactivate shipping quote'')
        | Some Q \<Rightarrow> Inr (M\<lparr>mk_Quotes := Q\<rparr>)))))))))"

definition service_InvalidateQuotesByProduct :: "uuid \<Rightarrow> market \<Rightarrow> market" where
  "service_InvalidateQuotesByProduct productID M =
    M\<lparr>mk_Quotes := qrepo_InvalidateQuotesByProduct productID (mk_Quotes M)\<rparr>"

section \<open>The invariant of the table\<close>

definition same_context :: "shipping_quote \<Rightarrow> shipping_quote \<Rightarrow> bool" where
  "same_context q r \<longleftrightarrow> qt_ChatID q = qt_ChatID r \<and> qt_ProductID q = qt_ProductID r \<and> qt_SourceType q = qt_SourceType r
     \<and> qt_SourceID q = qt_SourceID r \<and> qt_SellerID q = qt_SellerID r \<and> qt_BuyerID q = qt_BuyerID r"

definition quotes_ok :: "quotes \<Rightarrow> bool" where
  "quotes_ok Q \<longleftrightarrow> distinct (map qt_ID Q) \<and> (\<forall>q \<in> set Q. qt_MaxReuse q = 0 \<and> qt_ReactivationCount q = 0)
     \<and> (\<forall>q \<in> set Q. \<forall>r \<in> set Q. \<not> quote_IsSuperseded q \<longrightarrow> \<not> quote_IsSuperseded r \<longrightarrow> same_context q r \<longrightarrow> qt_ID q = qt_ID r)"

text \<open>What a rewritten row keeps; and what a new row satisfies.\<close>

definition row_kept :: "shipping_quote \<Rightarrow> shipping_quote \<Rightarrow> bool" where
  "row_kept q r \<longleftrightarrow> qt_ID r = qt_ID q \<and> qt_MaxReuse r = qt_MaxReuse q \<and> qt_ReactivationCount r = qt_ReactivationCount q
     \<and> same_context q r \<and> (quote_IsSuperseded q \<longrightarrow> quote_IsSuperseded r) \<and> (qt_Status q = QuoteUsed \<longrightarrow> qt_Status r = QuoteUsed)"

definition row_fresh :: "shipping_quote \<Rightarrow> quotes \<Rightarrow> bool" where
  "row_fresh q Q \<longleftrightarrow> qt_ID q \<notin> set (map qt_ID Q) \<and> qt_MaxReuse q = 0 \<and> qt_ReactivationCount q = 0
     \<and> (\<forall>r \<in> set Q. same_context r q \<longrightarrow> quote_IsSuperseded r)"

definition rows_evolve :: "quotes \<Rightarrow> quotes \<Rightarrow> bool" where
  "rows_evolve Q Q' \<longleftrightarrow> (\<exists>f new. Q' = map f Q @ new \<and> (\<forall>q \<in> set Q. row_kept q (f q))
     \<and> length new \<le> 1 \<and> (\<forall>q \<in> set new. row_fresh q (map f Q)))"

lemma row_kept_refl [simp]: "row_kept q q"
  by (simp add: row_kept_def same_context_def)

lemma same_context_sym: "same_context q r \<Longrightarrow> same_context r q"
  by (simp add: same_context_def)

lemma same_context_trans: "same_context q r \<Longrightarrow> same_context r s \<Longrightarrow> same_context q s"
  by (simp add: same_context_def)

lemma evolve_map: "(\<And>q. q \<in> set Q \<Longrightarrow> row_kept q (f q)) \<Longrightarrow> rows_evolve Q (map f Q)"
  unfolding rows_evolve_def by (intro exI [of _ f] exI [of _ "[]"]) simp

lemma map_rows_ok:
  assumes ok: "quotes_ok Q" and kept: "\<forall>q \<in> set Q. row_kept q (f q)"
  shows "quotes_ok (map f Q)"
proof -
  have ids: "map qt_ID (map f Q) = map qt_ID Q" using kept by (simp add: row_kept_def)
  have "qt_ID (f q) = qt_ID (f r)"
    if "q \<in> set Q" "r \<in> set Q" "\<not> quote_IsSuperseded (f q)" "\<not> quote_IsSuperseded (f r)" "same_context (f q) (f r)" for q r
  proof -
    have k: "row_kept q (f q)" "row_kept r (f r)" using kept that by auto
    then have "same_context q r"
      using that(5) by (meson row_kept_def same_context_sym same_context_trans)
    moreover have "\<not> quote_IsSuperseded q" "\<not> quote_IsSuperseded r" using k that(3,4) by (auto simp: row_kept_def)
    ultimately have "qt_ID q = qt_ID r" using ok that(1,2) by (auto simp: quotes_ok_def)
    with k show ?thesis by (simp add: row_kept_def)
  qed
  then show ?thesis unfolding quotes_ok_def ids using ok kept by (auto simp: quotes_ok_def row_kept_def)
qed

lemma evolve_ok:
  assumes "rows_evolve Q Q'" "quotes_ok Q"
  shows "quotes_ok Q'"
proof -
  obtain f new where e: "Q' = map f Q @ new" "\<forall>q \<in> set Q. row_kept q (f q)" "length new \<le> 1"
    "\<forall>q \<in> set new. row_fresh q (map f Q)" using assms(1) by (auto simp: rows_evolve_def)
  have m: "quotes_ok (map f Q)" using map_rows_ok [OF assms(2) e(2)] .
  show ?thesis
  proof (cases new)
    case Nil
    then show ?thesis using m e(1) by simp
  next
    case (Cons q rest)
    then have n: "new = [q]" "row_fresh q (map f Q)" using e(3,4) by auto
    show ?thesis
      unfolding quotes_ok_def e(1) n(1)
      using m n(2) by (auto simp: quotes_ok_def row_fresh_def dest: same_context_sym)
  qed
qed

text \<open>A used quote stays used.\<close>

definition quote_used :: "uuid \<Rightarrow> quotes \<Rightarrow> bool" where
  "quote_used i Q \<longleftrightarrow> (\<exists>q. quote_by_id i Q = Some q \<and> qt_Status q = QuoteUsed)"

lemma evolve_used:
  assumes "rows_evolve Q Q'" "quote_used i Q"
  shows "quote_used i Q'"
proof -
  obtain f new where e: "Q' = map f Q @ new" "\<forall>q \<in> set Q. row_kept q (f q)" using assms(1) by (auto simp: rows_evolve_def)
  obtain q where q: "quote_by_id i Q = Some q" "qt_Status q = QuoteUsed" using assms(2) by (auto simp: quote_used_def)
  have "find (\<lambda>x. qt_ID x = i) (map f Q) = map_option f (find (\<lambda>x. qt_ID x = i) Q)"
    using e(2) by (induction Q) (auto simp: row_kept_def)
  moreover have "q \<in> set Q" using q(1) by (auto simp: quote_by_id_def find_Some_iff)
  moreover have "find P (xs @ ys) = (case find P xs of None \<Rightarrow> find P ys | Some y \<Rightarrow> Some y)"
    for P and xs ys :: quotes by (induction xs) auto
  ultimately show ?thesis
    using e q by (auto simp: quote_used_def quote_by_id_def row_kept_def)
qed

section \<open>The operations keep it\<close>

lemma row_of_id:
  assumes "quotes_ok Q" "q \<in> set Q" "quote_by_id (qt_ID q) Q = Some r"
  shows "q = r"
proof -
  have "r \<in> set Q" "qt_ID r = qt_ID q" using assms(3) by (auto simp: quote_by_id_def find_Some_iff)
  then show ?thesis using assms(1,2) by (auto simp: quotes_ok_def distinct_map inj_on_def)
qed

lemma update_evolves:
  assumes "quotes_ok Q" "quote_by_id i Q = Some q" "qt_Status q \<noteq> QuoteUsed"
    and "qrepo_UpdateStatus now i s stamp Q = Some Q'"
  shows "rows_evolve Q Q' \<and> (\<exists>r. quote_by_id i Q' = Some r \<and> qt_Status r = s)"
proof -
  let ?f = "\<lambda>row. row\<lparr>qt_Status := s, qt_UsedAt := (if stamp then Some now else qt_UsedAt row)\<rparr>"
  have Q': "Q' = set_quote i ?f Q"
    using assms(4) by (auto simp: qrepo_UpdateStatus_def Let_def split: option.splits if_splits)
  have "row_kept x (if qt_ID x = i then ?f x else x)" if "x \<in> set Q" for x
    using that row_of_id [OF assms(1) that] assms(2,3)
    by (auto simp: row_kept_def same_context_def quote_IsSuperseded_def)
  then have "rows_evolve Q Q'" unfolding Q' set_quote_def by (rule evolve_map)
  then show ?thesis using assms(2) quote_by_id_set [of ?f i i Q] by (auto simp: Q')
qed

lemma consume_evolves:
  assumes "ConsumeQuoteForCheckout clk inp M = Inr (q, M')" "quotes_ok (mk_Quotes M)"
  shows "rows_evolve (mk_Quotes M) (mk_Quotes M') \<and> quote_used (cc_QuoteID inp) (mk_Quotes M')"
proof -
  obtain q0 q1 Q where c: "quote_by_id (cc_QuoteID inp) (mk_Quotes M) = Some q0"
    "quote_for_checkout (clk 0) inp q0 = Inr ()" "quote_MarkUsed (clk 0) q0 = (None, q1)"
    "qrepo_UpdateStatus (clk 1) (cc_QuoteID inp) (qt_Status q1) True (mk_Quotes M) = Some Q" "M' = M\<lparr>mk_Quotes := Q\<rparr>"
    using assms(1)
    by (auto simp: ConsumeQuoteForCheckout_def sum_bind_Inr qrepo_GetByIDForUpdate_def moved_Inr split: option.splits)
  have "qt_Status q0 \<noteq> QuoteUsed" "qt_Status q1 = QuoteUsed"
    using c(3) by (auto simp: mutation quote_IsBuyerUsableAt_def quote_IsCurrent_def quote_IsActive_def split: if_splits)
  then show ?thesis
    using update_evolves [OF assms(2) c(1) _ c(4)] by (auto simp: c(5) quote_used_def)
qed

lemma expire_evolves:
  assumes "MarkQuoteExpired now i M = Inr M'" "quotes_ok (mk_Quotes M)"
  shows "rows_evolve (mk_Quotes M) (mk_Quotes M')"
proof -
  obtain q q1 Q where c: "quote_by_id i (mk_Quotes M) = Some q" "quote_MarkExpired q = (None, q1)"
    "qrepo_UpdateStatus now i (qt_Status q1) False (mk_Quotes M) = Some Q" "M' = M\<lparr>mk_Quotes := Q\<rparr>"
    using assms(1) by (auto simp: MarkQuoteExpired_def sum_bind_Inr qrepo_GetByID_def moved_Inr split: option.splits)
  have "qt_Status q \<noteq> QuoteUsed" using c(2) by (auto simp: mutation split: if_splits)
  then show ?thesis using update_evolves [OF assms(2) c(1) _ c(3)] by (simp add: c(4))
qed

text \<open>No quote allows any reuse, so reactivation never changes anything.\<close>

lemma reactivate_nothing:
  assumes "ReactivateQuoteIfEligible rooms clk i M = Inr M'" "quotes_ok (mk_Quotes M)"
  shows "M' = M"
proof -
  have "\<not> quote_CanBeReactivated q" if "quote_by_id i (mk_Quotes M) = Some q" for q
    using that assms(2) by (auto simp: quote_by_id_def find_Some_iff quotes_ok_def quote_CanBeReactivated_def)
  then show ?thesis
    using assms(1)
    by (auto simp: ReactivateQuoteIfEligible_def sum_bind_Inr qrepo_GetByID_def qrepo_GetByIDForUpdate_def split: if_splits)
qed

lemma invalidate_evolves: "rows_evolve Q (qrepo_InvalidateQuotesByProduct p Q)"
  unfolding qrepo_InvalidateQuotesByProduct_def
  by (rule evolve_map) (simp add: row_kept_def same_context_def quote_IsSuperseded_def quote_IsCurrent_def quote_IsActive_def)

lemma created_quote:
  assumes "CreateShippingQuote rooms send clk i inp M = Inr (q, M')"
  obtains b t where "q = NewShippingQuote i (clk 1) (ci_ChatID inp) (ci_ProductID inp) (ci_SourceType inp)
      (ci_SourceID inp) (ci_SellerID inp) b (ci_Cost inp) (ci_Note inp) (ci_DestinationCityID inp) (ci_DestinationProvinceID inp) t"
    "qrepo_Create q (qrepo_SupersedeCurrentQuotes (clk 2) (ci_ChatID inp, ci_ProductID inp, ci_SourceType inp, ci_SourceID inp,
       ci_SellerID inp, b) i (mk_Quotes M)) = Some (mk_Quotes M')"
  using assms
  by (auto simp: CreateShippingQuote_def sum_bind_Inr Let_def aurepo_MarkSellerQuoteProvided_def NewShippingQuote_def
      split: if_splits option.splits)

lemma create_evolves:
  assumes "CreateShippingQuote rooms send clk i inp M = Inr (q, M')"
  shows "rows_evolve (mk_Quotes M) (mk_Quotes M') \<and> quote_by_id i (mk_Quotes M') = Some q \<and> quote_IsCurrent q"
proof (rule created_quote [OF assms])
  fix b :: uuid and t
  let ?c = "(ci_ChatID inp, ci_ProductID inp, ci_SourceType inp, ci_SourceID inp, ci_SellerID inp, b)"
  define f where "f q = (if in_context ?c q \<and> qt_SupersededAt q = None \<and> qt_ID q \<noteq> i
    then q\<lparr>qt_SupersededAt := Some (clk 2), qt_SupersededByID := Some i\<rparr> else q)" for q
  assume q: "q = NewShippingQuote i (clk 1) (ci_ChatID inp) (ci_ProductID inp) (ci_SourceType inp)
      (ci_SourceID inp) (ci_SellerID inp) b (ci_Cost inp) (ci_Note inp) (ci_DestinationCityID inp) (ci_DestinationProvinceID inp) t"
    and c: "qrepo_Create q (qrepo_SupersedeCurrentQuotes (clk 2) ?c i (mk_Quotes M)) = Some (mk_Quotes M')"
  have "qrepo_SupersedeCurrentQuotes (clk 2) ?c i (mk_Quotes M) = map f (mk_Quotes M)"
    by (simp add: qrepo_SupersedeCurrentQuotes_def f_def)
  then have n: "quote_by_id i (map f (mk_Quotes M)) = None" "mk_Quotes M' = map f (mk_Quotes M) @ [q]"
    using c by (auto simp: qrepo_Create_def q NewShippingQuote_def Let_def split: if_splits)
  have kept: "row_kept x (f x)" for x
    by (simp add: f_def row_kept_def same_context_def quote_IsSuperseded_def)
  have fresh: "qt_ID x \<noteq> i" if "x \<in> set (mk_Quotes M)" for x
    using n(1) that kept [of x] by (auto simp: quote_by_id_def find_None_iff row_kept_def)
  have sup: "quote_IsSuperseded (f x)" if "qt_ID x \<noteq> i" "same_context (f x) q" for x
  proof -
    have "same_context x q" using that(2) kept [of x] by (meson row_kept_def same_context_trans)
    then have "in_context ?c x" by (simp add: in_context_def same_context_def q NewShippingQuote_def)
    then show ?thesis using that(1) by (simp add: f_def quote_IsSuperseded_def)
  qed
  have id: "qt_ID q = i" "qt_MaxReuse q = 0" "qt_ReactivationCount q = 0" "quote_IsCurrent q"
    by (simp_all add: q NewShippingQuote_def quote_IsCurrent_def quote_IsActive_def quote_IsSuperseded_def)
  have "qt_ID r \<noteq> i \<and> (same_context r q \<longrightarrow> quote_IsSuperseded r)" if r: "r \<in> set (map f (mk_Quotes M))" for r
  proof -
    obtain x where x: "x \<in> set (mk_Quotes M)" "r = f x" using r by auto
    then show ?thesis using fresh [OF x(1)] kept [of x] sup [of x] by (simp add: row_kept_def)
  qed
  then have "row_fresh q (map f (mk_Quotes M))"
    unfolding row_fresh_def using id by fastforce
  then have "rows_evolve (mk_Quotes M) (mk_Quotes M')"
    unfolding rows_evolve_def n(2) using kept by (intro exI [of _ f] exI [of _ "[q]"]) simp
  then show ?thesis
    using n(1) id unfolding n(2) quote_by_id_def by (auto simp: find_snoc)
qed

section \<open>Runs\<close>

text \<open>
  C29. Whatever happens to the quotes: a seller quotes, a checkout consumes, a quote expires, a
  failed order wants its quote back, a product's quotes are invalidated. Between these,
  the other services change the other tables at will.
\<close>

inductive quote_step :: "(uuid \<Rightarrow> chat_room option) \<Rightarrow> (shipping_quote \<Rightarrow> bool) \<Rightarrow> market \<Rightarrow> market \<Rightarrow> bool"
  for rooms send where
  "CreateShippingQuote rooms send clk i inp M = Inr (q, M') \<Longrightarrow> quote_step rooms send M M'"
| "ConsumeQuoteForCheckout clk inp' M = Inr (q, M') \<Longrightarrow> quote_step rooms send M M'"
| "MarkQuoteExpired now i M = Inr M' \<Longrightarrow> quote_step rooms send M M'"
| "ReactivateQuoteIfEligible rooms clk i M = Inr M' \<Longrightarrow> quote_step rooms send M M'"
| "quote_step rooms send M (service_InvalidateQuotesByProduct p M)"
| "mk_Quotes M' = mk_Quotes M \<Longrightarrow> quote_step rooms send M M'"

lemma quote_step_evolves:
  assumes "quote_step rooms send M M'" "quotes_ok (mk_Quotes M)"
  shows "rows_evolve (mk_Quotes M) (mk_Quotes M')"
  using assms
proof (cases rule: quote_step.cases)
  case 4
  then show ?thesis using reactivate_nothing [OF 4 assms(2)] evolve_map [of _ "\<lambda>x. x"] by simp
next
  case 5
  then show ?thesis by (simp add: service_InvalidateQuotesByProduct_def invalidate_evolves)
next
  case 6
  then show ?thesis using evolve_map [of "mk_Quotes M" "\<lambda>x. x"] by simp
qed (use assms(2) in \<open>auto dest: create_evolves consume_evolves expire_evolves\<close>)

interpretation quote_table: kept_fact "quote_step rooms send" "\<lambda>M. quotes_ok (mk_Quotes M)" for rooms send
  by unfold_locales (meson quote_step_evolves evolve_ok)

interpretation used_quote: kept_fact "quote_step rooms send" "\<lambda>M. quotes_ok (mk_Quotes M) \<and> quote_used i (mk_Quotes M)"
  for rooms send i
  by unfold_locales (meson quote_step_evolves evolve_ok evolve_used)

lemma used_not_consumed:
  assumes "quote_used (cc_QuoteID inp) (mk_Quotes M)"
  shows "\<exists>e. ConsumeQuoteForCheckout clk inp M = Inl e"
  using assms
  by (auto simp: quote_used_def ConsumeQuoteForCheckout_def qrepo_GetByIDForUpdate_def found_def quote_for_checkout_def
      quote_IsCurrent_def quote_IsActive_def)

lemma consumed_fits:
  assumes "ConsumeQuoteForCheckout clk inp M = Inr (q, M')"
  obtains q0 where "quote_by_id (cc_QuoteID inp) (mk_Quotes M) = Some q0" "quote_IsCurrent q0" "\<not> quote_IsExpiredAt (clk 0) q0"
    "cc_ChatID inp = Some (qt_ChatID q0)" "qt_BuyerID q0 = cc_BuyerID inp" "qt_SellerID q0 = cc_SellerID inp"
    "qt_ProductID q0 = cc_ProductID inp" "qt_SourceID q0 = Some (cc_SourceID inp)" "qt_Cost q = qt_Cost q0"
    "qt_DestinationProvinceID q0 \<in> {None, Some (cc_ShippingProvinceID inp)}"
    "qt_DestinationCityID q0 \<in> {None, Some (cc_ShippingCityID inp)}"
proof -
  obtain q0 where q: "quote_by_id (cc_QuoteID inp) (mk_Quotes M) = Some q0" "quote_for_checkout (clk 0) inp q0 = Inr ()"
    "quote_MarkUsed (clk 0) q0 = (None, q)"
    using assms
    by (auto simp: ConsumeQuoteForCheckout_def sum_bind_Inr qrepo_GetByIDForUpdate_def moved_Inr split: option.splits)
  have "quote_IsCurrent q0 \<and> \<not> quote_IsExpiredAt (clk 0) q0 \<and> cc_ChatID inp = Some (qt_ChatID q0)
    \<and> qt_BuyerID q0 = cc_BuyerID inp \<and> qt_SellerID q0 = cc_SellerID inp \<and> qt_ProductID q0 = cc_ProductID inp
    \<and> qt_SourceID q0 = Some (cc_SourceID inp)
    \<and> quote_ValidateDestinationAddress (cc_ShippingProvinceID inp) (cc_ShippingCityID inp) q0 = None"
    using q(2) by (auto simp: quote_for_checkout_def split: if_splits)
  moreover have "qt_Cost q = qt_Cost q0" using q(3) by (auto simp: mutation split: if_splits)
  ultimately show ?thesis using that q(1) unfolding destination_ok by blast
qed


definition sample_quote_input :: create_quote_input where
  "sample_quote_input = \<lparr>ci_ChatID = 8, ci_ProductID = 5, ci_SourceType = ''for_sale'', ci_SourceID = 4, ci_SellerID = 3,
     ci_Cost = 10000, ci_Note = None, ci_DestinationCityID = None, ci_DestinationProvinceID = Some ''31'',
     ci_ExpiresInHours = None\<rparr>"

definition sample_checkout :: checkout_context where
  "sample_checkout = \<lparr>cc_QuoteID = 20, cc_BuyerID = 2, cc_ProductID = 5, cc_SourceType = ''for_sale'', cc_SourceID = 4,
     cc_SellerID = 3, cc_ChatID = Some 8, cc_ShippingProvinceID = ''31'', cc_ShippingCityID = ''3171''\<rparr>"

definition sample_rooms :: "uuid \<Rightarrow> chat_room option" where
  "sample_rooms i = (if i = 8 then Some \<lparr>cm_ParticipantA = 2, cm_ParticipantB = 3\<rparr> else None)"

definition listing_market :: market where
  "listing_market = blank_market\<lparr>mk_ForSales := [sample_listing\<lparr>fs_ProductID := 5\<rparr>]\<rparr>"

definition quoted_market :: market where
  "quoted_market = (case CreateShippingQuote sample_rooms (\<lambda>_. True) (\<lambda>_. 0) 20 sample_quote_input listing_market of
     Inr (_, M) \<Rightarrow> M | Inl _ \<Rightarrow> listing_market)"

lemmas quote_run = CreateShippingQuote_def ConsumeQuoteForCheckout_def sample_quote_input_def sample_checkout_def
  sample_rooms_def listing_market_def blank_market_def sample_listing_def quote_expiry_hours_def
  DefaultShippingQuoteExpiryHours_def chatRoom_HasParticipant_def chatRoom_OtherParticipant_def quote_source_check_def
  fsrepo_GetByProductID_def scanned_for_sale_def found_def qrepo_SupersedeCurrentQuotes_def qrepo_Create_def
  NewShippingQuote_def quote_by_id_def quote_checked_def sale_surface_def guard_def money_defs go_arith

lemma sample_quoted:
  "\<exists>q. CreateShippingQuote sample_rooms (\<lambda>_. True) (\<lambda>_. 0) 20 sample_quote_input listing_market = Inr (q, quoted_market)"
  by (simp add: quoted_market_def quote_run Let_def i64_defs)


end
