(* ===== verification/OrderDesk.thy ===== *)
theory OrderDesk
  imports QuoteService RefundDesk
begin

text \<open>
  \<open>commerce/order/application\<close>: \<open>order_payment_service.go\<close>, the money side of an
  order, and \<open>order_completion_service.go\<close>, everything that ends an order: shipping,
  completion, cancellation, expiry, refunds, and the outcome of a dispute. The users
  table is the argument \<open>accounts\<close>, the chat rooms \<open>rooms\<close>, the gateway \<open>gw\<close>; all
  services are wired. \<open>clk\<close> and \<open>ids\<close> number the clock readings and new ids of a call.
\<close>

section \<open>Account status\<close>

record user_account =
  ua_AccountStatus :: string
  ua_DeletedAt :: "time option"

definition EnsureActive :: "(uuid \<Rightarrow> user_account option) \<Rightarrow> uuid \<Rightarrow> market_error + unit" where
  "EnsureActive accounts userID =
    (if IsSystemCaller userID then Inr ()
     else if userID = uuid_nil then Inl (Refused ''invalid caller'')
     else case accounts userID of
       None \<Rightarrow> Inl (Refused ''account removed'')
     | Some a \<Rightarrow>
         if ua_DeletedAt a \<noteq> None then Inl (Refused ''account removed'')
         else if ua_AccountStatus a = ''active'' then Inr ()
         else if ua_AccountStatus a = ''suspended'' then Inl (Refused ''account suspended'')
         else if ua_AccountStatus a = ''banned'' then Inl (Refused ''account banned'')
         else Inl (Refused ''account inactive''))"

definition GetStatus :: "(uuid \<Rightarrow> user_account option) \<Rightarrow> uuid \<Rightarrow> string option" where
  "GetStatus accounts userID =
    map_option (\<lambda>a. if ua_DeletedAt a \<noteq> None then ''removed'' else ua_AccountStatus a) (accounts userID)"

section \<open>The money of an order\<close>

definition order_PD_S :: "order \<Rightarrow> i64" where
  "order_PD_S o1 = money_Int64 (op_TotalBeforeCoinsAmount (or_Pricing o1))"

definition InitiateGatewayRefundForOrder ::
    "refund_gateway \<Rightarrow> (nat \<Rightarrow> time) \<Rightarrow> uuid \<Rightarrow> order \<Rightarrow> uuid \<Rightarrow> i64 \<Rightarrow> string \<Rightarrow> string \<Rightarrow> market \<Rightarrow> step_result" where
  "InitiateGatewayRefundForOrder gw clk new_id o1 reviewerID refundAmount reason idempotencyKey M =
    sum_bind (exact (order_HasCanonicalMoneyBase o1)) (\<lambda>base.
    sum_bind (guard base (Refused ''canonical money base invalid'')) (\<lambda>_.
    sum_bind (exact (order_DiscountedProductAmount o1)) (\<lambda>pd.
    sum_bind (coinsSpendForOrder (or_BuyerID o1) (or_ID o1) M) (\<lambda>kVal.
    sum_bind (CreateAndDispatchSystemRefund gw clk new_id
      \<lparr>si_OrderID = or_ID o1, si_BuyerID = or_BuyerID o1, si_SellerID = or_SellerID o1, si_AdminID = reviewerID,
       si_ProductAmount = refundAmount, si_ShippingAmount = 0, si_PD = money_Int64 pd,
       si_S = money_Int64 (op_ShippingTotal (or_Pricing o1)), si_C = money_Int64 (op_CommissionAmount (or_Pricing o1)),
       si_K = kVal, si_Reason = reason_of reason, si_Description = None, si_IdempotencyKey = idempotencyKey\<rparr> M)
      (\<lambda>(_, M1). Inr M1)))))"

definition RefundToBuyer :: "time \<Rightarrow> order \<Rightarrow> market \<Rightarrow> step_result" where
  "RefundToBuyer now o1 M = sum_bind (RefundGatewayEscrow now (or_ID o1) M) (\<lambda>(_, M1). Inr M1)"

record release_summary =
  rl_OrderID :: uuid
  rl_SellerID :: uuid
  rl_Gross :: i64
  rl_Commission :: i64
  rl_SellerNet :: i64
  rl_NewlyReleased :: bool

definition ReleaseGatewayEscrowToSeller ::
    "time \<Rightarrow> uuid \<Rightarrow> uuid \<Rightarrow> order \<Rightarrow> market \<Rightarrow> market_error + release_summary \<times> market" where
  "ReleaseGatewayEscrowToSeller now newID txID o1 M =
    (let gross = order_PD_S o1;
         commission = money_Int64 (op_CommissionAmount (or_Pricing o1));
         sellerNet = wrap64 (gross - commission)
     in if gross \<le> 0 then Inl (Refused ''canonical buyer-funded base invalid'')
        else if commission > gross then Inl (Refused ''commission exceeds funded gross'')
        else sum_bind (ReleaseGatewayEscrow now (or_ID o1) gross M) (\<lambda>(newly, M1).
             sum_bind (with_ledger (RecordOrderRelease newID txID (or_ID o1) (or_SellerID o1) gross commission sellerNet) M1) (\<lambda>M2.
             Inr (\<lparr>rl_OrderID = or_ID o1, rl_SellerID = or_SellerID o1, rl_Gross = gross, rl_Commission = commission,
               rl_SellerNet = sellerNet, rl_NewlyReleased = newly\<rparr>, M2))))"

section \<open>Giving back what an order holds\<close>

definition orepo_GetOrderItems :: "uuid \<Rightarrow> market \<Rightarrow> order_item list" where
  "orepo_GetOrderItems orderID M = sort_key oi_CreatedAt (filter (\<lambda>it. oi_OrderID it = orderID) (mk_Items M))"

definition total_quantity :: "order_item list \<Rightarrow> int" where
  "total_quantity items = foldl (\<lambda>t it. wrap64 (t + oi_Quantity it)) 0 items"

definition restoreFixedPriceForSaleStock :: "(nat \<Rightarrow> time) \<Rightarrow> order \<Rightarrow> market \<Rightarrow> step_result" where
  "restoreFixedPriceForSaleStock clk o1 M =
    (let items = orepo_GetOrderItems (or_ID o1) M
     in if items = [] then Inr M
        else if or_SourceID o1 = uuid_nil then Inl (Refused ''fixed-price order has no source_id'')
        else sum_bind (fsrepo_GetForUpdate (or_SourceID o1) M) (\<lambda>l.
             sum_bind (moved ForSaleFault (forSale_RestoreQuantity (clk 30) (clk 31) (total_quantity items) l)) (\<lambda>l1.
             fsrepo_UpdateStock l1 M)))"

definition releaseAuctionOrderBinding :: "(nat \<Rightarrow> time) \<Rightarrow> (nat \<Rightarrow> uuid) \<Rightarrow> order \<Rightarrow> market \<Rightarrow> step_result" where
  "releaseAuctionOrderBinding clk ids o1 M =
    sum_bind (aurepo_GetForUpdate (or_SourceID o1) M) (\<lambda>a.
    if au_OrderID a = None then Inr M
    else
      sum_bind (moved AuctionFault (auction_ReleaseUnpaidOrder (clk 30) (or_ID o1) a)) (\<lambda>a1.
      sum_bind (if au_Status a1 = AuctionWaitingSettlement
        then sum_bind (case RecordViolationAndRestrict (\<lambda>n. clk (31 + n)) (ids 30) (ids 31)
                 \<lparr>vn_UserID = or_BuyerID o1, vn_ViolationType = ViolationBuyerBNR, vn_SourceType = SourceTypeAuction,
                  vn_SourceID = au_ID a1,
                  vn_Reason = ''buyer failed to pay after shipping was resolved (payment window elapsed)''\<rparr> (mk_Gov M) of
               Inl e \<Rightarrow> Inl (GovFault e)
             | Inr (_, G) \<Rightarrow> Inr (M\<lparr>mk_Gov := G\<rparr>)) (\<lambda>M1.
             sum_bind (moved AuctionFault (auction_RescheduleAfterSettlementFailure (clk 34) (clk 35) a1)) (\<lambda>a2.
             Inr (a2, service_InvalidateQuotesByProduct (au_ProductID a2) M1)))
        else Inr (a1, M)) (\<lambda>(a2, M2).
      Inr (aurepo_UpdateTx a2 M2))))"

definition restoreForSaleStock :: "(nat \<Rightarrow> time) \<Rightarrow> (nat \<Rightarrow> uuid) \<Rightarrow> order \<Rightarrow> market \<Rightarrow> step_result" where
  "restoreForSaleStock clk ids o1 M =
    (if or_SourceType o1 = SourceAuction then releaseAuctionOrderBinding clk ids o1 M
     else restoreFixedPriceForSaleStock clk o1 M)"

text \<open>An error of the quote service is only logged.\<close>

definition reactivateShippingQuoteIfEligible ::
    "(uuid \<Rightarrow> chat_room option) \<Rightarrow> (nat \<Rightarrow> time) \<Rightarrow> order \<Rightarrow> market \<Rightarrow> market" where
  "reactivateShippingQuoteIfEligible rooms clk o1 M =
    (if or_SourceType o1 = SourceAuction then M
     else case order_quote o1 of
       None \<Rightarrow> M
     | Some q \<Rightarrow>
         if q = uuid_nil then M
         else case ReactivateQuoteIfEligible rooms (\<lambda>n. clk (40 + n)) q M of Inl _ \<Rightarrow> M | Inr M1 \<Rightarrow> M1)"

text \<open>\<open>mk_InvalidRatings\<close>: the orders whose rating has been invalidated.\<close>

definition invalidateRatingForOrder :: "uuid \<Rightarrow> market \<Rightarrow> market" where
  "invalidateRatingForOrder orderID M =
    (if orderID \<in> set (mk_InvalidRatings M) then M else M\<lparr>mk_InvalidRatings := mk_InvalidRatings M @ [orderID]\<rparr>)"

section \<open>Shipping and completion\<close>

text \<open>What an operation with an idempotency key does: nothing when the key was used before.\<close>

definition once :: "string \<Rightarrow> (market \<Rightarrow> step_result) \<Rightarrow> market \<Rightarrow> step_result" where
  "once idempotencyKey f M = (case TryInsert idempotencyKey M of None \<Rightarrow> Inr M | Some M1 \<Rightarrow> f M1)"

definition is_party :: "uuid \<Rightarrow> uuid \<Rightarrow> bool" where
  "is_party callerID owner \<longleftrightarrow> IsSystemCaller callerID \<or> callerID \<noteq> uuid_nil \<and> callerID = owner"

definition ocs_MarkShipped ::
    "(uuid \<Rightarrow> user_account option) \<Rightarrow> (nat \<Rightarrow> time) \<Rightarrow> uuid \<Rightarrow> uuid \<Rightarrow> string \<Rightarrow> string option \<Rightarrow> string option
      \<Rightarrow> string option \<Rightarrow> string option \<Rightarrow> market \<Rightarrow> step_result" where
  "ocs_MarkShipped accounts clk callerID orderID idempotencyKey proofType shippingReference shippingProofMedia note =
    once idempotencyKey (\<lambda>M.
      sum_bind (guard (ValidateCaller callerID) (Refused ''invalid caller'')) (\<lambda>_.
      sum_bind (orepo_GetForUpdate orderID M) (\<lambda>o1.
      sum_bind (guard (is_party callerID (or_SellerID o1)) (Refused ''seller required'')) (\<lambda>_.
      sum_bind (if IsSystemCaller callerID then Inr () else EnsureActive accounts callerID) (\<lambda>_.
      sum_bind (moved OrderFault (order_MarkShipped (clk 0) (clk 1) (clk 2) proofType shippingReference shippingProofMedia note o1)) (\<lambda>o2.
      Inr (InsertEvent ''order.shipped'' (or_ID o2) (orepo_UpdateStatusTx o2 M))))))))"

definition money_is_released :: "order \<Rightarrow> market \<Rightarrow> market" where
  "money_is_released o1 M = InsertEvent ''money.released'' (or_ID o1) (InsertEvent ''order.completed'' (or_ID o1) M)"

definition complete_guards :: "(uuid \<Rightarrow> user_account option) \<Rightarrow> time \<Rightarrow> uuid \<Rightarrow> order \<Rightarrow> market \<Rightarrow> market_error + unit" where
  "complete_guards accounts now callerID o1 M =
    sum_bind (guard (is_party callerID (or_BuyerID o1)) (Refused ''buyer required'')) (\<lambda>_.
    sum_bind (if IsSystemCaller callerID then Inr ()
      else sum_bind (EnsureActive accounts callerID) (\<lambda>_.
           guard (GetStatus accounts (or_SellerID o1) \<noteq> Some ''banned'') (Refused ''seller is banned''))) (\<lambda>_.
    sum_bind (guard (\<not> or_HasDispute o1) (OrderFault (OrderDisputeActive (or_ID o1)))) (\<lambda>_.
    sum_bind (guard (\<not> HasRefundBlockingRelease (or_ID o1) (order_IsRefundWindowOpen now o1) M) (Refused ''refund still blocking release'')) (\<lambda>_.
    sum_bind (guard (or_ID o1 \<notin> set (mk_ActiveTickets M)) (Refused ''active support ticket exists'')) (\<lambda>_.
    sum_bind (prepo_GetPaymentByReference ''order'' (or_ID o1) M) (\<lambda>p.
    sum_bind (guard (pm_Status p \<in> {''settlement'', ''capture''}) (Refused ''payment not confirmed'')) (\<lambda>_.
    case order_ValidateComplete o1 of None \<Rightarrow> Inr () | Some e \<Rightarrow> Inl (OrderFault e))))))))"

definition ocs_Complete ::
    "(uuid \<Rightarrow> user_account option) \<Rightarrow> (nat \<Rightarrow> time) \<Rightarrow> (nat \<Rightarrow> uuid) \<Rightarrow> uuid \<Rightarrow> uuid \<Rightarrow> string \<Rightarrow> market \<Rightarrow> step_result" where
  "ocs_Complete accounts clk ids callerID orderID idempotencyKey =
    (if idempotencyKey = '''' then (\<lambda>f. f) else once idempotencyKey) (\<lambda>M.
      sum_bind (guard (ValidateCaller callerID) (Refused ''invalid caller'')) (\<lambda>_.
      sum_bind (orepo_GetForUpdate orderID M) (\<lambda>o1.
      if or_Status o1 = OrderCompleted then Inr M
      else
        sum_bind (complete_guards accounts (clk 0) callerID o1 M) (\<lambda>_.
        sum_bind (ReleaseGatewayEscrowToSeller (clk 1) (ids 0) (ids 1) o1 M) (\<lambda>(summary, M1).
        let o2 = o1\<lparr>or_Status := OrderCompleted, or_CompletedAt := Some (clk 2), or_UpdatedAt := clk 2\<rparr> in
        sum_bind (logged_coins (EarnPointsForOrderCompletion (clk 3) (ids 2) (clk 4) (or_BuyerID o2) (or_ID o2) (order_PD_S o2)) M1) (\<lambda>M2.
        Inr (money_is_released o2 (orepo_UpdateStatusTx o2 M2))))))))"

definition ocs_ExtendConfirmation ::
    "(uuid \<Rightarrow> user_account option) \<Rightarrow> (nat \<Rightarrow> time) \<Rightarrow> uuid \<Rightarrow> uuid \<Rightarrow> string \<Rightarrow> market \<Rightarrow> step_result" where
  "ocs_ExtendConfirmation accounts clk callerID orderID idempotencyKey =
    once idempotencyKey (\<lambda>M.
      sum_bind (guard (ValidateCaller callerID) (Refused ''invalid caller'')) (\<lambda>_.
      sum_bind (if IsSystemCaller callerID then Inr () else EnsureActive accounts callerID) (\<lambda>_.
      sum_bind (orepo_GetForUpdate orderID M) (\<lambda>o1.
      sum_bind (guard (is_party callerID (or_BuyerID o1)) (Refused ''buyer required'')) (\<lambda>_.
      sum_bind (moved OrderFault (order_ExtendConfirmationPeriod (clk 0) o1)) (\<lambda>o2.
      Inr (InsertEvent ''order.confirmation_extended'' (or_ID o2) (orepo_UpdateStatusTx o2 M))))))))"

section \<open>Cancellation and expiry\<close>

definition ocs_Cancel ::
    "(uuid \<Rightarrow> chat_room option) \<Rightarrow> (nat \<Rightarrow> time) \<Rightarrow> (nat \<Rightarrow> uuid) \<Rightarrow> uuid \<Rightarrow> string \<Rightarrow> uuid \<Rightarrow> market \<Rightarrow> step_result" where
  "ocs_Cancel rooms clk ids orderID idempotencyKey callerID =
    once idempotencyKey (\<lambda>M.
      sum_bind (orepo_GetForUpdate orderID M) (\<lambda>o1.
      sum_bind (guard (is_party callerID (or_BuyerID o1)) (Refused ''buyer required'')) (\<lambda>_.
      sum_bind (guard (or_Status o1 \<noteq> OrderShipped \<and> or_Status o1 \<noteq> OrderDelivered) (Refused ''order already shipped'')) (\<lambda>_.
      sum_bind (moved OrderFault (order_Cancel (clk 0) o1)) (\<lambda>o2.
      sum_bind (restoreForSaleStock clk ids o2 M) (\<lambda>M1.
      Inr (InsertEvent ''order.cancelled'' (or_ID o2)
        (orepo_UpdateStatusTx o2 (reactivateShippingQuoteIfEligible rooms clk o2 M1)))))))))"

text \<open>An order that is not eligible and has no deadline makes the code follow a nil pointer.\<close>

definition ocs_CancelOverdue ::
    "refund_gateway \<Rightarrow> (uuid \<Rightarrow> chat_room option) \<Rightarrow> (nat \<Rightarrow> time) \<Rightarrow> (nat \<Rightarrow> uuid) \<Rightarrow> uuid \<Rightarrow> string \<Rightarrow> uuid \<Rightarrow> market
      \<Rightarrow> step_result" where
  "ocs_CancelOverdue gw rooms clk ids orderID idempotencyKey callerID =
    once idempotencyKey (\<lambda>M.
      sum_bind (orepo_GetForUpdate orderID M) (\<lambda>o1.
      sum_bind (guard (is_party callerID (or_BuyerID o1)) (Refused ''buyer required'')) (\<lambda>_.
      if \<not> order_IsBuyerEligibleForCancel (clk 0) o1
      then Inl (if or_ReadyToShipBy o1 = None then Panicked ''nil pointer'' else Refused ''not eligible for cancel'')
      else
        sum_bind (case order_ValidateCancelTimeout o1 of None \<Rightarrow> Inr () | Some e \<Rightarrow> Inl (OrderFault e)) (\<lambda>_.
        sum_bind (guard (order_PD_S o1 > 0) (Refused ''total_before_coins_amount invalid'')) (\<lambda>_.
        sum_bind (InitiateGatewayRefundForOrder gw (\<lambda>n. clk (1 + n)) (ids 0) o1 uuid_nil (order_PD_S o1) ''other''
          (''system_refund_buyer_overdue_'' @ uuid_text (or_ID o1)) M) (\<lambda>M1.
        sum_bind (RefundToBuyer (clk 3) o1 M1) (\<lambda>M2.
        let o2 = o1\<lparr>or_Status := OrderCancelledTimeout, or_UpdatedAt := clk 4\<rparr> in
        sum_bind (restoreForSaleStock clk ids o2 M2) (\<lambda>M3.
        Inr (InsertEvent ''order.cancelled_timeout'' (or_ID o2)
          (orepo_UpdateStatusTx o2 (reactivateShippingQuoteIfEligible rooms clk o2 M3)))))))))))"

definition ocs_Expire ::
    "refund_gateway \<Rightarrow> (uuid \<Rightarrow> chat_room option) \<Rightarrow> (nat \<Rightarrow> time) \<Rightarrow> (nat \<Rightarrow> uuid) \<Rightarrow> uuid \<Rightarrow> market \<Rightarrow> step_result" where
  "ocs_Expire gw rooms clk ids orderID M =
    sum_bind (orepo_GetForUpdate orderID M) (\<lambda>o1.
    sum_bind (moved OrderFault (order_MarkExpired (clk 0) o1)) (\<lambda>o2.
    sum_bind (restoreForSaleStock clk ids o2 M) (\<lambda>M1.
    sum_bind (GetEscrowForOrder (or_ID o2) M1) (\<lambda>escrowForExpiry.
    sum_bind (case escrowForExpiry of
        None \<Rightarrow> Inr M1
      | Some _ \<Rightarrow>
          sum_bind (guard (order_PD_S o2 > 0) (Refused ''total_before_coins_amount invalid'')) (\<lambda>_.
          sum_bind (InitiateGatewayRefundForOrder gw (\<lambda>n. clk (1 + n)) (ids 0) o2 uuid_nil (order_PD_S o2) ''other''
            (''system_refund_payment_expired_'' @ uuid_text (or_ID o2)) M1) (\<lambda>M2.
          RefundToBuyer (clk 3) o2 M2))) (\<lambda>M3.
    Inr (InsertEvent ''order.expired'' (or_ID o2)
      (orepo_UpdateStatusTx o2 (reactivateShippingQuoteIfEligible rooms clk o2 M3))))))))"

section \<open>Refunds and disputes\<close>

definition ocs_MarkDisputeOpen :: "(nat \<Rightarrow> time) \<Rightarrow> uuid \<Rightarrow> market \<Rightarrow> step_result" where
  "ocs_MarkDisputeOpen clk orderID M =
    sum_bind (orepo_GetForUpdate orderID M) (\<lambda>o1.
    sum_bind (moved OrderFault (order_MarkDisputeOpen (clk 0) o1)) (\<lambda>o2.
    Inr (InsertEvent ''order.dispute_open'' (or_ID o2) (orepo_UpdateStatusTx o2 M))))"

definition order_refunded :: "(uuid \<Rightarrow> chat_room option) \<Rightarrow> (nat \<Rightarrow> time) \<Rightarrow> order \<Rightarrow> market \<Rightarrow> market" where
  "order_refunded rooms clk o1 M =
    (let M1 = reactivateShippingQuoteIfEligible rooms clk o1 (invalidateRatingForOrder (or_ID o1) M);
         o2 = o1\<lparr>or_Status := OrderRefunded, or_UpdatedAt := clk 4\<rparr>
     in InsertEvent ''order.refunded'' (or_ID o2) (orepo_UpdateStatusTx o2 M1))"

definition ocs_RefundOrder ::
    "refund_gateway \<Rightarrow> (uuid \<Rightarrow> chat_room option) \<Rightarrow> (nat \<Rightarrow> time) \<Rightarrow> (nat \<Rightarrow> uuid) \<Rightarrow> uuid \<Rightarrow> market \<Rightarrow> step_result" where
  "ocs_RefundOrder gw rooms clk ids orderID M =
    sum_bind (orepo_GetForUpdate orderID M) (\<lambda>o1.
    sum_bind (guard (or_Status o1 \<noteq> OrderDisputeOpen) (Refused ''active dispute exists'')) (\<lambda>_.
    sum_bind (GetEscrowForOrder (or_ID o1) M) (\<lambda>escrowBefore.
    sum_bind (found ''escrow'' escrowBefore) (\<lambda>e.
    sum_bind (guard (es_Status e = EscrowHolding) (Refused ''escrow not holding'')) (\<lambda>_.
    sum_bind (guard (order_PD_S o1 > 0) (Refused ''total_before_coins_amount invalid'')) (\<lambda>_.
    sum_bind (InitiateGatewayRefundForOrder gw (\<lambda>n. clk (1 + n)) (ids 0) o1 uuid_nil (order_PD_S o1) ''other''
      (''system_refund_manual_'' @ uuid_text (or_ID o1)) M) (\<lambda>M1.
    sum_bind (RefundToBuyer (clk 3) o1 M1) (\<lambda>M2.
    Inr (order_refunded rooms clk o1 M2)))))))))"

definition in_open_dispute :: "order \<Rightarrow> market_error + unit" where
  "in_open_dispute o1 =
    sum_bind (guard (or_HasDispute o1) (Refused ''no active dispute'')) (\<lambda>_.
    guard (or_Status o1 = OrderDisputeOpen) (Refused ''invalid state for dispute resolution''))"

text \<open>The decision goes on the order's refund process, or, without one, a platform refund is sent.\<close>

definition decide_for_buyer ::
    "refund_gateway \<Rightarrow> (nat \<Rightarrow> time) \<Rightarrow> (nat \<Rightarrow> uuid) \<Rightarrow> order \<Rightarrow> uuid \<Rightarrow> i64 \<Rightarrow> string \<Rightarrow> market \<Rightarrow> step_result" where
  "decide_for_buyer gw clk ids o1 adminID amount idempotencyKey M =
    sum_bind (AdminResolveRefundDecision gw (\<lambda>n. clk (1 + n)) (or_ID o1) adminID True amount None M) (\<lambda>(recorded, M1).
    if recorded then Inr M1
    else InitiateGatewayRefundForOrder gw (\<lambda>n. clk (1 + n)) (ids 0) o1 adminID amount ''other'' idempotencyKey M1)"

definition ocs_RefundFromDispute ::
    "refund_gateway \<Rightarrow> (uuid \<Rightarrow> chat_room option) \<Rightarrow> (nat \<Rightarrow> time) \<Rightarrow> (nat \<Rightarrow> uuid) \<Rightarrow> uuid \<Rightarrow> uuid \<Rightarrow> market
      \<Rightarrow> step_result" where
  "ocs_RefundFromDispute gw rooms clk ids orderID adminID M =
    sum_bind (orepo_GetForUpdate orderID M) (\<lambda>o1.
    sum_bind (in_open_dispute o1) (\<lambda>_.
    sum_bind (guard (order_PD_S o1 > 0) (Refused ''total_before_coins_amount invalid'')) (\<lambda>_.
    sum_bind (decide_for_buyer gw clk ids o1 adminID (order_PD_S o1) (''system_refund_dispute_'' @ uuid_text (or_ID o1)) M) (\<lambda>M1.
    sum_bind (RefundGatewayEscrow (clk 3) orderID M1) (\<lambda>(_, M2).
    Inr (order_refunded rooms clk o1 M2))))))"

definition ocs_ReleaseFromDispute ::
    "(nat \<Rightarrow> time) \<Rightarrow> (nat \<Rightarrow> uuid) \<Rightarrow> uuid \<Rightarrow> uuid \<Rightarrow> market \<Rightarrow> step_result" where
  "ocs_ReleaseFromDispute clk ids orderID adminID M =
    sum_bind (orepo_GetForUpdate orderID M) (\<lambda>o1.
    sum_bind (in_open_dispute o1) (\<lambda>_.
    sum_bind (guard (\<not> HasFinalRefundDecisionOwedToBuyer (or_ID o1) M) (Refused ''the refund decision to pay the buyer is final'')) (\<lambda>_.
    sum_bind (AdminResolveRefundDecision (\<lambda>_. Inl '''') (\<lambda>n. clk (1 + n)) (or_ID o1) adminID False 0 None M) (\<lambda>(_, M1).
    sum_bind (ReleaseGatewayEscrowToSeller (clk 3) (ids 0) (ids 1) o1 M1) (\<lambda>(summary, M2).
    let o2 = o1\<lparr>or_Status := OrderCompleted, or_CompletedAt := Some (clk 4), or_UpdatedAt := clk 4\<rparr>
    in Inr (money_is_released o2 (orepo_UpdateStatusTx o2 M2)))))))"

definition ocs_PartialRefundFromDispute ::
    "refund_gateway \<Rightarrow> (nat \<Rightarrow> time) \<Rightarrow> (nat \<Rightarrow> uuid) \<Rightarrow> uuid \<Rightarrow> uuid \<Rightarrow> market \<Rightarrow> step_result" where
  "ocs_PartialRefundFromDispute gw clk ids orderID adminID M =
    sum_bind (orepo_GetForUpdate orderID M) (\<lambda>o1.
    sum_bind (in_open_dispute o1) (\<lambda>_.
    sum_bind (guard (dispute_of orderID M \<noteq> None) (Refused ''no dispute found for order'')) (\<lambda>_.
    sum_bind (guard (map_option di_Status (dispute_of orderID M) = Some DisputeUnderReview) (Refused ''dispute must be under_review'')) (\<lambda>_.
    sum_bind (exact (order_HasCanonicalMoneyBase o1)) (\<lambda>base.
    sum_bind (guard base (Refused ''canonical money base invalid'')) (\<lambda>_.
    sum_bind (exact (order_DiscountedProductAmount o1)) (\<lambda>itemPrice.
    sum_bind (guard (\<not> money_IsNegative itemPrice) (Refused ''discounted product value negative'')) (\<lambda>_.
    sum_bind (exact (money_Add itemPrice (op_ShippingTotal (or_Pricing o1)))) (\<lambda>total.
    sum_bind (guard (total = op_TotalBeforeCoinsAmount (or_Pricing o1)) (Refused ''item_price + shipping_fee'')) (\<lambda>_.
    sum_bind (decide_for_buyer gw clk ids o1 adminID (money_Int64 itemPrice)
      (''system_refund_partial_dispute_'' @ uuid_text (or_ID o1)) M) (\<lambda>M1.
    let M2 = invalidateRatingForOrder (or_ID o1) (InsertEvent ''money.partial_release'' (or_ID o1) M1) in
    sum_bind (moved OrderFault (order_MarkPartiallyRefunded (clk 4) o1)) (\<lambda>o2.
    Inr (InsertEvent ''order.partially_refunded'' (or_ID o2) (orepo_UpdateStatusTx o2 M2))))))))))))))"

section \<open>Resolving a dispute\<close>

text \<open>\<open>governance/dispute/application/dispute_service.go\<close> and the disputes table.\<close>

definition drepo_GetForUpdate :: "uuid \<Rightarrow> market \<Rightarrow> market_error + dispute" where
  "drepo_GetForUpdate i M = found ''dispute'' (find (\<lambda>d. di_ID d = i) (mk_Disputes M))"

definition written_dispute :: "dispute \<Rightarrow> dispute \<Rightarrow> dispute" where
  "written_dispute d row = row
    \<lparr>di_Status := di_Status d, di_ResolvedAt := di_ResolvedAt d, di_ResolvedBy := di_ResolvedBy d,
     di_ResolutionNotes := di_ResolutionNotes d, di_IsOverdue := di_IsOverdue d, di_OverdueMarkedAt := di_OverdueMarkedAt d,
     di_AutoResolvedAt := di_AutoResolvedAt d, di_AutoResolutionType := di_AutoResolutionType d, di_UpdatedAt := di_UpdatedAt d\<rparr>"

definition drepo_Update :: "dispute \<Rightarrow> market \<Rightarrow> market" where
  "drepo_Update d M =
    M\<lparr>mk_Disputes := map (\<lambda>row. if di_ID row = di_ID d then written_dispute d row else row) (mk_Disputes M)\<rparr>"

datatype ResolutionType = ResolutionRefund | ResolutionRelease | ResolutionPartialSplit | ResolutionOther string

definition dispute_outcome ::
    "refund_gateway \<Rightarrow> (uuid \<Rightarrow> chat_room option) \<Rightarrow> (nat \<Rightarrow> time) \<Rightarrow> (nat \<Rightarrow> uuid) \<Rightarrow> ResolutionType \<Rightarrow> uuid
      \<Rightarrow> string option \<Rightarrow> dispute \<Rightarrow> market \<Rightarrow> step_result" where
  "dispute_outcome gw rooms clk ids resolution adminID notes d M =
    (case resolution of
        ResolutionRefund \<Rightarrow>
          sum_bind (moved DisputeFault (dispute_ResolveRefund (clk 0) adminID notes d)) (\<lambda>d1.
          ocs_RefundFromDispute gw rooms clk ids (di_OrderID d) adminID (drepo_Update d1 M))
      | ResolutionRelease \<Rightarrow>
          sum_bind (moved DisputeFault (dispute_ResolveRelease (clk 0) adminID notes d)) (\<lambda>d1.
          ocs_ReleaseFromDispute clk ids (di_OrderID d) adminID (drepo_Update d1 M))
      | ResolutionPartialSplit \<Rightarrow>
          sum_bind (ocs_PartialRefundFromDispute gw clk ids (di_OrderID d) adminID M) (\<lambda>M1.
          sum_bind (moved DisputeFault (dispute_ResolvePartialSplit (clk 0) adminID notes d)) (\<lambda>d1.
          Inr (drepo_Update d1 M1)))
      | ResolutionOther _ \<Rightarrow> Inl (Refused ''invalid resolution type''))"

text \<open>\<open>capable\<close>: the context carries the capability to resolve disputes.\<close>

definition ResolveDispute ::
    "bool \<Rightarrow> refund_gateway \<Rightarrow> (uuid \<Rightarrow> chat_room option) \<Rightarrow> (nat \<Rightarrow> time) \<Rightarrow> (nat \<Rightarrow> uuid) \<Rightarrow> uuid \<Rightarrow> ResolutionType \<Rightarrow> uuid
      \<Rightarrow> string option \<Rightarrow> market \<Rightarrow> step_result" where
  "ResolveDispute capable gw rooms clk ids disputeID resolution adminID notes M =
    sum_bind (guard (IsSystemCaller adminID \<or> capable) (Refused ''capability required'')) (\<lambda>_.
    sum_bind (drepo_GetForUpdate disputeID M) (\<lambda>d.
    sum_bind (guard (dispute_CanResolve d) (Refused ''invalid state'')) (\<lambda>_.
    sum_bind (orepo_GetForUpdate (di_OrderID d) M) (\<lambda>o1.
    sum_bind (guard (or_Status o1 \<noteq> OrderCompleted) (Refused ''after completion'')) (\<lambda>_.
    sum_bind (dispute_outcome gw rooms clk ids resolution adminID notes d M) (\<lambda>M1.
    Inr (InsertEvent ''dispute.resolved'' (di_ID d) M1)))))))"

definition service_MarkOverdue :: "time \<Rightarrow> uuid \<Rightarrow> market \<Rightarrow> step_result" where
  "service_MarkOverdue now disputeID M =
    sum_bind (drepo_GetForUpdate disputeID M) (\<lambda>d.
    sum_bind (moved DisputeFault (dispute_MarkAsOverdue now d)) (\<lambda>d1.
    Inr (drepo_Update d1 M)))"

end
