(* ===== verification/OrderOutcome.thy ===== *)
theory OrderOutcome
  imports OrderDesk RefundOutcome
begin

text \<open>
  How orders end: a completion pays the seller exactly once and exactly, a resolved
  dispute pays who wins it, a cancelled order gives its stock back, and which of the
  operations that promise a refund can never succeed.
\<close>

section \<open>Steps\<close>

lemma once_Inr:
  "once k f M = Inr M' \<longleftrightarrow>
     (if k \<in> set (mk_Idempotency M) then M' = M else f (M\<lparr>mk_Idempotency := mk_Idempotency M @ [k]\<rparr>) = Inr M')"
  by (auto simp: once_def TryInsert_def)

text \<open>A market in which only the used idempotency keys differ.\<close>

definition used_key :: "string \<Rightarrow> market \<Rightarrow> market" where
  "used_key k M = (if k = '''' then M else M\<lparr>mk_Idempotency := mk_Idempotency M @ [k]\<rparr>)"

lemma used_key_frame [simp]:
  "order_by_id i (used_key k M) = order_by_id i M" "escrow_book (used_key k M) = escrow_book M"
  "mk_Ledger (used_key k M) = mk_Ledger M" "escrows_ok (used_key k M) = escrows_ok M"
  "mk_ActiveTickets (used_key k M) = mk_ActiveTickets M" "mk_Orders (used_key k M) = mk_Orders M"
  "mk_Refunds (used_key k M) = mk_Refunds M" "mk_Payments (used_key k M) = mk_Payments M"
  "mk_Escrows (used_key k M) = mk_Escrows M"
  by (simp_all add: used_key_def order_by_id_def escrow_book_def escrow_of_def escrows_ok_def fun_eq_iff)

lemma used_key_reads [simp]:
  "HasRefundBlockingRelease i b (used_key k M) = HasRefundBlockingRelease i b M"
  "prepo_GetPaymentByReference t i (used_key k M) = prepo_GetPaymentByReference t i M"
  by (simp_all add: HasRefundBlockingRelease_def prepo_GetPaymentByReference_def)

lemma money_released_frame [simp]:
  "mk_Ledger (money_is_released o1 M) = mk_Ledger M" "mk_Escrows (money_is_released o1 M) = mk_Escrows M"
  "mk_Orders (money_is_released o1 M) = mk_Orders M"
  by (simp_all add: money_is_released_def)

lemma same_escrows: "mk_Escrows M = mk_Escrows N \<Longrightarrow> escrow_book M = escrow_book N"
  by (simp add: escrow_book_def escrow_of_def fun_eq_iff)

section \<open>Paying the seller\<close>

text \<open>The rows of an order whose money is held and was not booked as released before.\<close>

definition ready_to_release :: "order \<Rightarrow> uuid \<Rightarrow> market \<Rightarrow> bool" where
  "ready_to_release o1 newID M \<longleftrightarrow> escrows_ok M \<and> (\<exists>n. escrow_book M (or_ID o1) = Some (Held n)) \<and> rows_ok (mk_Ledger M)
     \<and> KeyUuid ''order_release_'' (or_ID o1) \<notin> recorded_keys (mk_Ledger M) \<and> newID \<notin> account_ids (mk_Ledger M)
     \<and> in_i64 (order_PD_S o1) \<and> in_i64 (money_Int64 (op_CommissionAmount (or_Pricing o1)))"

text \<open>The books after the seller of an order is paid: gross out of clearing, commission kept, the rest to the seller.\<close>

definition seller_paid :: "order \<Rightarrow> market \<Rightarrow> market \<Rightarrow> bool" where
  "seller_paid o1 M M' \<longleftrightarrow>
    (let gross = order_PD_S o1; commission = money_Int64 (op_CommissionAmount (or_Pricing o1));
         L = mk_Ledger M; L' = mk_Ledger M'
     in 0 < gross \<and> 0 \<le> commission \<and> commission \<le> gross
      \<and> escrow_book M (or_ID o1) = Some (Held gross)
      \<and> escrow_book M' = (escrow_book M)(or_ID o1 \<mapsto> PaidOut gross)
      \<and> held None AccountGatewayClearing L' = held None AccountGatewayClearing L - gross
      \<and> held (Some (or_SellerID o1)) AccountSellerPayable L' = held (Some (or_SellerID o1)) AccountSellerPayable L + gross - commission
      \<and> held None AccountPlatformRevenue L' = held None AccountPlatformRevenue L + commission
      \<and> (\<forall>u t. (u, t) \<notin> {(None, AccountGatewayClearing), (Some (or_SellerID o1), AccountSellerPayable), (None, AccountPlatformRevenue)}
            \<longrightarrow> held u t L' = held u t L))"

lemma seller_paid_frame:
  assumes "seller_paid o1 M M1" "mk_Ledger M2 = mk_Ledger M1" "mk_Escrows M2 = mk_Escrows M1"
  shows "seller_paid o1 M M2"
  using assms same_escrows [OF assms(3)] by (simp add: seller_paid_def Let_def)

lemma release_pays:
  assumes "ReleaseGatewayEscrowToSeller now a x o1 M = Inr (s, M')" "ready_to_release o1 a M"
  shows "seller_paid o1 M M' \<and> mk_Orders M' = mk_Orders M \<and> \<not> under_review (or_ID o1) M"
proof -
  let ?g = "order_PD_S o1" and ?c = "money_Int64 (op_CommissionAmount (or_Pricing o1))" and ?i = "or_ID o1"
  have r: "escrows_ok M" "rows_ok (mk_Ledger M)" "KeyUuid ''order_release_'' ?i \<notin> recorded_keys (mk_Ledger M)"
    "a \<notin> account_ids (mk_Ledger M)" "in_i64 ?g" "in_i64 ?c" using assms(2) by (auto simp: ready_to_release_def)
  obtain n where n: "escrow_book M ?i = Some (Held n)" using assms(2) by (auto simp: ready_to_release_def)
  obtain newly M1 L where s: "0 < ?g" "?c \<le> ?g" "ReleaseGatewayEscrow now ?i ?g M = Inr (newly, M1)"
    "RecordOrderRelease a x ?i (or_SellerID o1) ?g ?c (wrap64 (?g - ?c)) (mk_Ledger M1) = Inr L" "M' = M1\<lparr>mk_Ledger := L\<rparr>"
    using assms(1)
    by (auto simp: ReleaseGatewayEscrowToSeller_def Let_def sum_bind_Inr with_ledger_Inr split: if_splits)
  have b: "n = ?g" "\<not> under_review ?i M" "escrow_book M1 = (escrow_book M)(?i \<mapsto> PaidOut ?g)"
    using release_refines [OF r(1), of now ?i ?g] s(3) n by (auto simp: refines_def spec_pay_out_def split: if_splits)
  have f: "mk_Ledger M1 = mk_Ledger M" "mk_Orders M1 = mk_Orders M"
    using s(3) by (auto simp: ReleaseGatewayEscrow_def sum_bind_Inr esrepo_Update_def split: if_splits option.splits)
  note e = release_effect [OF s(4) _ r(5,6) in_i64_wrap64, unfolded f, OF r(2-4)]
  have "held (Some (or_SellerID o1)) AccountSellerPayable L = held (Some (or_SellerID o1)) AccountSellerPayable (mk_Ledger M) + ?g - ?c"
    "held None AccountGatewayClearing L = held None AccountGatewayClearing (mk_Ledger M) - ?g"
    "held None AccountPlatformRevenue L = held None AccountPlatformRevenue (mk_Ledger M) + ?c"
    "(u, t) \<notin> {(None, AccountGatewayClearing), (Some (or_SellerID o1), AccountSellerPayable), (None, AccountPlatformRevenue)}
       \<longrightarrow> held u t L = held u t (mk_Ledger M)" for u t
    using e unfolding held_signed by (auto simp: class_DebitIncreasesBalance_def)
  moreover have "escrow_book M' = escrow_book M1" unfolding s(5) by (rule same_escrows) simp
  ultimately show ?thesis
    using n b f s(1,2) e by (simp add: seller_paid_def Let_def s(5))
qed

lemma logged_coins_frame: "logged_coins f M = Inr M' \<Longrightarrow> \<exists>db. M' = M\<lparr>mk_Coins := db\<rparr>"
  by (auto simp: logged_coins_def Let_def split: if_splits)

lemma order_completed:
  assumes "order_by_id i M = Some o1" "or_ID o2 = i" "or_Status o2 = OrderCompleted"
  shows "\<exists>o3. order_by_id i (money_is_released o2 (orepo_UpdateStatusTx o2 M)) = Some o3 \<and> or_Status o3 = OrderCompleted
     \<and> or_CompletedAt o3 = or_CompletedAt o2"
  using order_by_id_update [OF assms(1,2)] assms(3)
  by (simp add: order_by_id_def written_order_def)

section \<open>Completion\<close>

lemma Complete_fresh:
  assumes "key = '''' \<or> key \<notin> set (mk_Idempotency M)"
  shows "ocs_Complete accounts clk ids caller i key M = ocs_Complete accounts clk ids caller i '''' (used_key key M)"
  using assms by (auto simp: ocs_Complete_def once_def TryInsert_def used_key_def)

lemma Complete_again:
  assumes run: "ocs_Complete accounts clk ids caller i key M = Inr M'" and o: "order_by_id i M = Some o1" "or_Status o1 = OrderCompleted"
  shows "mk_Ledger M' = mk_Ledger M \<and> mk_Escrows M' = mk_Escrows M \<and> mk_Orders M' = mk_Orders M"
proof (cases "key = '''' \<or> key \<notin> set (mk_Idempotency M)")
  case True
  have "order_by_id i (used_key key M) = Some o1" using o(1) by simp
  then have "M' = used_key key M"
    using run o(2) unfolding Complete_fresh [OF True] by (simp add: ocs_Complete_def sum_bind_Inr split: if_splits)
  then show ?thesis by simp
next
  case False
  then show ?thesis using run by (simp add: ocs_Complete_def once_def TryInsert_def)
qed

lemma Complete_steps:
  assumes "ocs_Complete accounts clk ids caller i '''' M = Inr M'" "order_by_id i M = Some o1" "or_Status o1 \<noteq> OrderCompleted"
  obtains s M1 M2 where "complete_guards accounts (clk 0) caller o1 M = Inr ()"
    "ReleaseGatewayEscrowToSeller (clk 1) (ids 0) (ids 1) o1 M = Inr (s, M1)"
    "mk_Ledger M2 = mk_Ledger M1" "mk_Escrows M2 = mk_Escrows M1" "mk_Orders M2 = mk_Orders M1"
    "M' = (let o2 = o1\<lparr>or_Status := OrderCompleted, or_CompletedAt := Some (clk 2), or_UpdatedAt := clk 2\<rparr>
           in money_is_released o2 (orepo_UpdateStatusTx o2 M2))"
proof -
  obtain s M1 M2 where s: "complete_guards accounts (clk 0) caller o1 M = Inr ()"
    "ReleaseGatewayEscrowToSeller (clk 1) (ids 0) (ids 1) o1 M = Inr (s, M1)"
    "\<exists>db. M2 = M1\<lparr>mk_Coins := db\<rparr>"
    "M' = (let o2 = o1\<lparr>or_Status := OrderCompleted, or_CompletedAt := Some (clk 2), or_UpdatedAt := clk 2\<rparr>
           in money_is_released o2 (orepo_UpdateStatusTx o2 M2))"
    using assms
    by (auto simp: ocs_Complete_def sum_bind_Inr Let_def simp del: One_nat_def neq0_conv split: if_splits dest!: logged_coins_frame)
  then show thesis by (intro that [of s M1 M2]) auto
qed

section \<open>Property\<close>

text \<open>
  C5. An order that completes was Shipped or Delivered, was completed by its buyer or the
  system, had no dispute, no refund that blocks the release, no open support ticket,
  and a settled payment; its escrow held exactly the buyer-funded base, which
  leaves clearing once: the commission to the platform, the rest to the seller,
  and no other account moves. The order is then Completed at the time of the
  call, and whoever completes it again, with whatever key, moves no money.
\<close>

theorem completion_pays_seller_once:
  assumes run: "ocs_Complete accounts clk ids caller i key M = Inr M'"
    and key: "key = '''' \<or> key \<notin> set (mk_Idempotency M)"
    and ord: "order_by_id i M = Some o1" "or_Status o1 \<noteq> OrderCompleted" and ready: "ready_to_release o1 (ids 0) M"
  shows "seller_paid o1 M M'
    \<and> (\<exists>o2. order_by_id i M' = Some o2 \<and> or_Status o2 = OrderCompleted \<and> or_CompletedAt o2 = Some (clk 2))
    \<and> or_Status o1 \<in> {OrderShipped, OrderDelivered} \<and> (IsSystemCaller caller \<or> caller = or_BuyerID o1)
    \<and> \<not> or_HasDispute o1 \<and> \<not> under_review i M \<and> i \<notin> set (mk_ActiveTickets M)
    \<and> \<not> HasRefundBlockingRelease i (order_IsRefundWindowOpen (clk 0) o1) M
    \<and> (\<exists>p. prepo_GetPaymentByReference ''order'' i M = Inr p \<and> pm_Status p \<in> {''settlement'', ''capture''})
    \<and> (\<forall>accounts clk ids caller key M''. ocs_Complete accounts clk ids caller i key M' = Inr M'' \<longrightarrow>
         mk_Ledger M'' = mk_Ledger M' \<and> mk_Escrows M'' = mk_Escrows M' \<and> mk_Orders M'' = mk_Orders M')"
proof -
  let ?N = "used_key key M" and ?o = "o1\<lparr>or_Status := OrderCompleted, or_CompletedAt := Some (clk 2), or_UpdatedAt := clk 2\<rparr>"
  have i: "or_ID o1 = i" by (rule order_by_id_ID [OF ord(1)])
  have run': "ocs_Complete accounts clk ids caller i '''' ?N = Inr M'" using run unfolding Complete_fresh [OF key] .
  have ord': "order_by_id i ?N = Some o1" using ord(1) by simp
  obtain s M1 M2 where s: "complete_guards accounts (clk 0) caller o1 ?N = Inr ()"
    "ReleaseGatewayEscrowToSeller (clk 1) (ids 0) (ids 1) o1 ?N = Inr (s, M1)"
    "mk_Ledger M2 = mk_Ledger M1" "mk_Escrows M2 = mk_Escrows M1" "mk_Orders M2 = mk_Orders M1"
    and M': "M' = money_is_released ?o (orepo_UpdateStatusTx ?o M2)"
    by (rule Complete_steps [OF run' ord' ord(2)]) (simp add: Let_def)
  have "ready_to_release o1 (ids 0) ?N" using ready by (simp add: ready_to_release_def)
  note r = release_pays [OF s(2) this]
  have "seller_paid o1 ?N M'"
    by (rule seller_paid_frame [of o1 ?N M1]) (use r s(3,4) in \<open>simp_all add: M' orepo_UpdateStatusTx_def\<close>)
  then have "seller_paid o1 M M'" by (simp add: seller_paid_def)
  moreover have "order_by_id i M2 = Some o1" using ord(1) r s(5) by (simp add: order_by_id_def)
  then obtain o2 where o2: "order_by_id i M' = Some o2" "or_Status o2 = OrderCompleted" "or_CompletedAt o2 = Some (clk 2)"
    using order_completed [of i M2 o1 ?o] i by (auto simp: M')
  moreover have "under_review i ?N = under_review i M" by (simp add: under_review_def dispute_of_def used_key_def)
  moreover have "or_Status o1 \<in> {OrderShipped, OrderDelivered}" using s(1)
    by (auto simp: complete_guards_def order_ValidateComplete_def sum_bind_Inr split: if_splits)
  moreover have "IsSystemCaller caller \<or> caller = or_BuyerID o1" "\<not> or_HasDispute o1" "i \<notin> set (mk_ActiveTickets M)"
    "\<not> HasRefundBlockingRelease i (order_IsRefundWindowOpen (clk 0) o1) M"
    "\<exists>p. prepo_GetPaymentByReference ''order'' i M = Inr p \<and> pm_Status p \<in> {''settlement'', ''capture''}"
    using s(1) i by (auto simp: complete_guards_def is_party_def sum_bind_Inr split: if_splits)
  moreover have "mk_Ledger M'' = mk_Ledger M' \<and> mk_Escrows M'' = mk_Escrows M' \<and> mk_Orders M'' = mk_Orders M'"
    if "ocs_Complete accounts clk ids caller i key M' = Inr M''" for accounts clk ids caller key M''
    by (rule Complete_again [OF that o2(1,2)])
  ultimately show ?thesis using r i by blast
qed

text \<open>The sample order of 1100, shipped, paid and funded; its buyer completes it.\<close>

definition selling_market :: market where
  "selling_market = refunding_market 400\<lparr>mk_Refunds := [], mk_Payments := [sample_payment\<lparr>pm_Status := ''settlement''\<rparr>]\<rparr>"

definition both_active :: "uuid \<Rightarrow> user_account option" where
  "both_active u = Some \<lparr>ua_AccountStatus = ''active'', ua_DeletedAt = None\<rparr>"

definition completed_market :: market where
  "completed_market = (case ocs_Complete both_active sample_clock sample_ids 2 1 ''key'' selling_market of
     Inl _ \<Rightarrow> blank_market | Inr M \<Rightarrow> M)"

lemma selling_market_completes:
  "ocs_Complete both_active sample_clock sample_ids 2 1 ''key'' selling_market = Inr completed_market"
proof -
  have "case ocs_Complete both_active sample_clock sample_ids 2 1 ''key'' selling_market of
      Inl _ \<Rightarrow> False | Inr M \<Rightarrow> True" by code_simp
  then show ?thesis by (simp add: completed_market_def split: sum.splits)
qed

lemma selling_market_ready: "ready_to_release sample_shipped (sample_ids 0) selling_market"
proof -
  have "or_ID sample_shipped = 1 \<and> order_PD_S sample_shipped = 1100
      \<and> money_Int64 (op_CommissionAmount (or_Pricing sample_shipped)) = 50" "sample_ids 0 \<notin> account_ids funded_books"
    "list_all (\<lambda>t. lt_Key t \<noteq> KeyUuid ''order_release_'' 1) (lg_Transactions funded_books)"
    by code_simp+
  then show ?thesis
    using funded_books_ok
    by (auto simp: ready_to_release_def selling_market_def refunding_market_def escrows_ok_def escrow_book_def escrow_of_def
        i64_defs list_all_iff recorded_keys_def)
qed

theorem completion_pays_seller_once_witness:
  "escrow_book completed_market 1 = Some (PaidOut 1100)
    \<and> held (Some 3) AccountSellerPayable (mk_Ledger completed_market) = held (Some 3) AccountSellerPayable funded_books + 1050
    \<and> held None AccountPlatformRevenue (mk_Ledger completed_market) = held None AccountPlatformRevenue funded_books + 50"
proof -
  have o: "order_by_id 1 selling_market = Some sample_shipped" "mk_Ledger selling_market = funded_books"
    by (simp_all add: order_by_id_def selling_market_def refunding_market_def sample_order_defs)
  have t: "or_ID sample_shipped = 1 \<and> or_SellerID sample_shipped = 3 \<and> or_Status sample_shipped = OrderShipped
      \<and> order_PD_S sample_shipped = 1100 \<and> money_Int64 (op_CommissionAmount (or_Pricing sample_shipped)) = 50" by code_simp
  have "mk_Idempotency selling_market = []" by (simp add: selling_market_def refunding_market_def blank_market_def)
  then have "seller_paid sample_shipped selling_market completed_market"
    using completion_pays_seller_once [OF selling_market_completes _ o(1) _ selling_market_ready] t by simp
  then show ?thesis using t o(2) by (simp add: seller_paid_def Let_def)
qed

end
