(* ===== verification/OrderFlow.thy ===== *)
theory OrderFlow
  imports OrderOutcome
begin

text \<open>
  The life of an order row under the services of \<open>OrderDesk\<close>: which status moves a
  service can write, that every order comes to rest, that the shipping deadline is
  never stored, and which services promise a full refund they can never send.
\<close>

section \<open>What the steps leave alone\<close>

definition same_rows :: "market \<Rightarrow> market \<Rightarrow> bool" where
  "same_rows M M' \<longleftrightarrow> mk_Orders M' = mk_Orders M \<and> mk_Escrows M' = mk_Escrows M
     \<and> mk_Ledger M' = mk_Ledger M \<and> mk_Disputes M' = mk_Disputes M"

lemma same_rows_refl [simp]: "same_rows M M" by (simp add: same_rows_def)

lemma same_rows_trans: "same_rows M N \<Longrightarrow> same_rows N K \<Longrightarrow> same_rows M K" by (simp add: same_rows_def)

lemma same_rows_event [simp]: "same_rows M (InsertEvent t i N) \<longleftrightarrow> same_rows M N"
  "same_rows (InsertEvent t i M) N \<longleftrightarrow> same_rows M N" by (simp_all add: same_rows_def)

lemma rrepo_rows: "rrepo_Update r M = Inr M' \<Longrightarrow> same_rows M M'" "rrepo_Create r M = Inr M' \<Longrightarrow> same_rows M M'"
  by (auto simp: rrepo_Update_def rrepo_Create_def same_rows_def Let_def split: if_splits option.splits)

lemma InitiateGatewayRefund_rows: "InitiateGatewayRefund gw now inp M = Inr (r, M') \<Longrightarrow> same_rows M M'"
  by (auto simp: InitiateGatewayRefund_def sum_bind_Inr Let_def same_rows_def dest!: rrepo_rows
      split: if_splits option.splits sum.splits)

lemma SystemRefund_rows: "CreateAndDispatchSystemRefund gw clk new_id inp M = Inr (r, M') \<Longrightarrow> same_rows M M'"
  by (auto simp: CreateAndDispatchSystemRefund_def sum_bind_Inr Let_def simp del: One_nat_def neq0_conv
      dest!: rrepo_rows InitiateGatewayRefund_rows elim: same_rows_trans split: if_splits option.splits)

lemma RefundForOrder_rows: "InitiateGatewayRefundForOrder gw clk a o1 adm n reason k M = Inr M' \<Longrightarrow> same_rows M M'"
  by (auto simp: InitiateGatewayRefundForOrder_def sum_bind_Inr dest!: SystemRefund_rows split: if_splits)

lemma AdminResolve_rows: "AdminResolveRefundDecision gw clk i adm w n notes M = Inr (b, M') \<Longrightarrow> same_rows M M'"
  by (auto simp: AdminResolveRefundDecision_def sum_bind_Inr Let_def simp del: One_nat_def neq0_conv
      dest!: rrepo_rows InitiateGatewayRefund_rows elim!: same_rows_trans split: if_splits option.splits)

lemma decide_for_buyer_rows: "decide_for_buyer gw clk ids o1 adm n k M = Inr M' \<Longrightarrow> same_rows M M'"
  by (auto simp: decide_for_buyer_def sum_bind_Inr dest!: AdminResolve_rows RefundForOrder_rows
      elim: same_rows_trans split: if_splits)

lemma escrow_step_orders:
  "ReleaseGatewayEscrow now i n M = Inr (b, M') \<Longrightarrow> mk_Orders M' = mk_Orders M"
  "RefundGatewayEscrow now i M = Inr (b, M') \<Longrightarrow> mk_Orders M' = mk_Orders M"
  by (auto simp: ReleaseGatewayEscrow_def RefundGatewayEscrow_def sum_bind_Inr esrepo_Update_def split: if_splits option.splits)

lemma RefundToBuyer_orders: "RefundToBuyer now o1 M = Inr M' \<Longrightarrow> mk_Orders M' = mk_Orders M"
  by (auto simp: RefundToBuyer_def sum_bind_Inr dest: escrow_step_orders)

lemma ReleaseToSeller_orders: "ReleaseGatewayEscrowToSeller now a x o1 M = Inr (s, M') \<Longrightarrow> mk_Orders M' = mk_Orders M"
  by (auto simp: ReleaseGatewayEscrowToSeller_def Let_def sum_bind_Inr with_ledger_Inr dest: escrow_step_orders split: if_splits)

lemma fixed_stock_rows: "restoreFixedPriceForSaleStock clk o1 M = Inr M' \<Longrightarrow> same_rows M M'"
  by (auto simp: restoreFixedPriceForSaleStock_def Let_def sum_bind_Inr fsrepo_UpdateStock_def same_rows_def
      dest!: set_for_sale_frame split: if_splits)

lemma gov_step:
  "(case r of Inl e \<Rightarrow> Inl (GovFault e) | Inr (x, G) \<Rightarrow> Inr (M\<lparr>mk_Gov := G\<rparr>)) = Inr M1 \<Longrightarrow> \<exists>G. M1 = M\<lparr>mk_Gov := G\<rparr>"
  by (cases r) auto

lemma auction_binding_rows: "releaseAuctionOrderBinding clk ids o1 M = Inr M' \<Longrightarrow> same_rows M M'"
  by (auto simp: releaseAuctionOrderBinding_def sum_bind_Inr aurepo_UpdateTx_def service_InvalidateQuotesByProduct_def
      same_rows_def simp del: One_nat_def neq0_conv dest!: gov_step split: if_splits)

lemma restore_rows: "restoreForSaleStock clk ids o1 M = Inr M' \<Longrightarrow> same_rows M M'"
  by (auto simp: restoreForSaleStock_def dest: fixed_stock_rows auction_binding_rows split: if_splits)

lemma reactivate_service_rows: "ReactivateQuoteIfEligible rooms clk q M = Inr M' \<Longrightarrow> same_rows M M'"
  by (auto simp: ReactivateQuoteIfEligible_def sum_bind_Inr same_rows_def Let_def simp del: One_nat_def neq0_conv
      split: if_splits option.splits)

lemma reactivate_rows [simp]: "same_rows M (reactivateShippingQuoteIfEligible rooms clk o1 M)"
  by (auto simp: reactivateShippingQuoteIfEligible_def dest: reactivate_service_rows split: option.splits sum.splits)

section \<open>A service writes at most one order, one move of its status\<close>

definition order_move :: "OrderStatus \<Rightarrow> OrderStatus \<Rightarrow> bool" where
  "order_move s t \<longleftrightarrow> s = t \<or> order_canTransition s t"

definition moved_by :: "(OrderStatus \<Rightarrow> OrderStatus \<Rightarrow> bool) \<Rightarrow> order \<Rightarrow> order \<Rightarrow> bool" where
  "moved_by mv o1 o2 \<longleftrightarrow> or_ID o2 = or_ID o1 \<and> mv (or_Status o1) (or_Status o2)"

definition writes_order :: "(OrderStatus \<Rightarrow> OrderStatus \<Rightarrow> bool) \<Rightarrow> uuid \<Rightarrow> market \<Rightarrow> market \<Rightarrow> bool" where
  "writes_order mv i M M' \<longleftrightarrow> mk_Orders M' = mk_Orders M
     \<or> (\<exists>o1 o2. order_by_id i M = Some o1 \<and> or_ID o2 = i \<and> mv (or_Status o1) (or_Status o2)
          \<and> mk_Orders M' = mk_Orders (orepo_UpdateStatusTx o2 M))"

lemma writesI:
  assumes "order_by_id i M = Some o1" "moved_by mv o1 o2" "mk_Orders N = mk_Orders M"
    and "mk_Orders M' = mk_Orders (orepo_UpdateStatusTx o2 N)"
  shows "writes_order mv i M M'"
  unfolding writes_order_def using assms order_by_id_ID [OF assms(1)] by (auto simp: moved_by_def orepo_UpdateStatusTx_def)

lemma writes_refl [simp]: "writes_order mv i M M" by (simp add: writes_order_def)

lemma writes_once:
  assumes "once k f M = Inr M'" "\<And>N. mk_Orders N = mk_Orders M \<Longrightarrow> f N = Inr M' \<Longrightarrow> writes_order mv i N M'"
  shows "writes_order mv i M M'"
proof (cases "k \<in> set (mk_Idempotency M)")
  case True
  then show ?thesis using assms(1) by (simp add: once_Inr writes_order_def)
next
  case False
  let ?N = "M\<lparr>mk_Idempotency := mk_Idempotency M @ [k]\<rparr>"
  have "writes_order mv i ?N M'" using False assms(1) by (intro assms(2)) (simp_all add: once_Inr)
  then show ?thesis by (simp add: writes_order_def order_by_id_def orepo_UpdateStatusTx_def)
qed

lemma moved_order:
  "moved OrderFault (order_MarkShipped a b c pt sr sm nt o1) = Inr o2 \<Longrightarrow> moved_by order_move o1 o2"
  "moved OrderFault (order_ExtendConfirmationPeriod a o1) = Inr o2 \<Longrightarrow> moved_by order_move o1 o2"
  "moved OrderFault (order_Cancel a o1) = Inr o2 \<Longrightarrow> moved_by order_move o1 o2"
  "moved OrderFault (order_MarkExpired a o1) = Inr o2 \<Longrightarrow> moved_by order_move o1 o2"
  "moved OrderFault (order_MarkDisputeOpen a o1) = Inr o2 \<Longrightarrow> moved_by order_move o1 o2"
  "moved OrderFault (order_MarkPartiallyRefunded a o1) = Inr o2 \<Longrightarrow> moved_by order_move o1 o2"
  "moved OrderFault (order_MarkPaid a b o1) = Inr o2 \<Longrightarrow> moved_by order_move o1 o2"
  by (auto simp: moved_by_def order_move_def moved_Inr mutation Let_def order_canTransition_def split: if_splits option.splits)

lemma MarkPaid_writes: "ocs_MarkPaid clk i M = Inr M' \<Longrightarrow> writes_order order_move i M M'"
  by (auto simp: ocs_MarkPaid_def sum_bind_Inr Let_def dest!: settleAuction_frame
      split: if_splits option.splits dest!: moved_order intro: writesI)

lemma MarkShipped_writes:
  "ocs_MarkShipped accounts clk caller i k pt sr sm nt M = Inr M' \<Longrightarrow> writes_order order_move i M M'"
  unfolding ocs_MarkShipped_def
  by (erule writes_once) (auto simp: sum_bind_Inr simp del: One_nat_def neq0_conv split: if_splits dest!: moved_order intro: writesI)

lemma ExtendConfirmation_writes:
  "ocs_ExtendConfirmation accounts clk caller i k M = Inr M' \<Longrightarrow> writes_order order_move i M M'"
  unfolding ocs_ExtendConfirmation_def
  by (erule writes_once) (auto simp: sum_bind_Inr simp del: One_nat_def neq0_conv split: if_splits dest!: moved_order intro: writesI)

lemma MarkDisputeOpen_writes: "ocs_MarkDisputeOpen clk i M = Inr M' \<Longrightarrow> writes_order order_move i M M'"
  by (auto simp: ocs_MarkDisputeOpen_def sum_bind_Inr dest!: moved_order intro: writesI)

lemma written_directly:
  "moved_by mv o1 (o1\<lparr>or_Status := t, or_CompletedAt := c, or_UpdatedAt := u\<rparr>) \<longleftrightarrow> mv (or_Status o1) t"
  "moved_by mv o1 (o1\<lparr>or_Status := t, or_UpdatedAt := u\<rparr>) \<longleftrightarrow> mv (or_Status o1) t"
  by (simp_all add: moved_by_def)

lemma guards_move: "complete_guards accounts now caller o1 M = Inr () \<Longrightarrow> order_move (or_Status o1) OrderCompleted"
  by (auto simp: complete_guards_def sum_bind_Inr order_ValidateComplete_def order_move_def order_canTransition_def
      split: if_splits)

lemma Complete_writes:
  assumes "ocs_Complete accounts clk ids caller i k M = Inr M'"
  shows "writes_order order_move i M M'"
proof (cases "k = '''' \<or> k \<notin> set (mk_Idempotency M)")
  case True
  have run: "ocs_Complete accounts clk ids caller i '''' (used_key k M) = Inr M'"
    using assms unfolding Complete_fresh [OF True] .
  then obtain o1 where o: "order_by_id i (used_key k M) = Some o1" by (auto simp: ocs_Complete_def sum_bind_Inr split: if_splits)
  show ?thesis
  proof (cases "or_Status o1 = OrderCompleted")
    case True
    then show ?thesis using Complete_again [OF run o] by (simp add: writes_order_def)
  next
    case False
    let ?o = "o1\<lparr>or_Status := OrderCompleted, or_CompletedAt := Some (clk 2), or_UpdatedAt := clk 2\<rparr>"
    obtain s M1 M2 where "complete_guards accounts (clk 0) caller o1 (used_key k M) = Inr ()"
      "ReleaseGatewayEscrowToSeller (clk 1) (ids 0) (ids 1) o1 (used_key k M) = Inr (s, M1)" "mk_Orders M2 = mk_Orders M1"
      "M' = money_is_released ?o (orepo_UpdateStatusTx ?o M2)"
      by (rule Complete_steps [OF run o False]) (simp add: Let_def)
    then show ?thesis
      using o guards_move ReleaseToSeller_orders by (intro writesI [of i M o1 _ ?o M2]) (auto simp: written_directly)
  qed
next
  case False
  then show ?thesis using assms by (simp add: ocs_Complete_def once_def TryInsert_def)
qed

lemma UpdateStatusTx_orders:
  "mk_Orders (orepo_UpdateStatusTx o2 M) = map (\<lambda>row. if or_ID row = or_ID o2 then written_order o2 row else row) (mk_Orders M)"
  by (simp add: orepo_UpdateStatusTx_def)

lemma writes_mapI:
  assumes "order_by_id i M = Some o1" "moved_by mv o1 o2"
    and "mk_Orders M' = map (\<lambda>row. if or_ID row = or_ID o2 then written_order o2 row else row) (mk_Orders M)"
  shows "writes_order mv i M M'"
  using writesI [OF assms(1,2)] assms(3) by (simp add: UpdateStatusTx_orders)

lemma frame_orders [simp]:
  "mk_Orders (reactivateShippingQuoteIfEligible rooms clk o1 M) = mk_Orders M"
  "mk_Orders (invalidateRatingForOrder i M) = mk_Orders M" "mk_Orders (drepo_Update d M) = mk_Orders M"
  using reactivate_rows [of M rooms clk o1] by (simp_all add: same_rows_def invalidateRatingForOrder_def drepo_Update_def)

lemmas step_orders = restore_rows [unfolded same_rows_def, THEN conjunct1]
  RefundForOrder_rows [unfolded same_rows_def, THEN conjunct1] AdminResolve_rows [unfolded same_rows_def, THEN conjunct1]
  decide_for_buyer_rows [unfolded same_rows_def, THEN conjunct1]

lemmas order_steps = step_orders escrow_step_orders RefundToBuyer_orders ReleaseToSeller_orders moved_order

lemma order_refunded_orders: "mk_Orders (order_refunded rooms clk o1 M) = mk_Orders
    (orepo_UpdateStatusTx (o1\<lparr>or_Status := OrderRefunded, or_UpdatedAt := clk 4\<rparr>) M)"
  by (simp add: order_refunded_def Let_def UpdateStatusTx_orders)

lemma Cancel_writes: "ocs_Cancel rooms clk ids i k caller M = Inr M' \<Longrightarrow> writes_order order_move i M M'"
  unfolding ocs_Cancel_def
  by (erule writes_once) (auto simp: sum_bind_Inr UpdateStatusTx_orders simp del: One_nat_def neq0_conv
      dest!: order_steps split: if_splits intro: writes_mapI)

lemma CancelOverdue_writes: "ocs_CancelOverdue gw rooms clk ids i k caller M = Inr M' \<Longrightarrow> writes_order order_move i M M'"
  unfolding ocs_CancelOverdue_def
  by (erule writes_once) (auto simp: sum_bind_Inr Let_def UpdateStatusTx_orders written_directly order_ValidateCancelTimeout_def
      order_move_def simp del: One_nat_def neq0_conv dest!: order_steps split: if_splits intro!: writes_mapI)

lemma Expire_writes: "ocs_Expire gw rooms clk ids i M = Inr M' \<Longrightarrow> writes_order order_move i M M'"
  by (auto simp: ocs_Expire_def sum_bind_Inr UpdateStatusTx_orders simp del: One_nat_def neq0_conv
      dest!: order_steps split: if_splits option.splits intro: writes_mapI)

lemma RefundFromDispute_writes:
  "ocs_RefundFromDispute gw rooms clk ids i adm M = Inr M' \<Longrightarrow> writes_order order_move i M M'"
  by (auto simp: ocs_RefundFromDispute_def in_open_dispute_def sum_bind_Inr order_refunded_orders UpdateStatusTx_orders
      simp del: One_nat_def neq0_conv dest!: order_steps split: if_splits
      intro!: writes_mapI simp: written_directly order_move_def order_canTransition_def)

lemma ReleaseFromDispute_writes: "ocs_ReleaseFromDispute clk ids i adm M = Inr M' \<Longrightarrow> writes_order order_move i M M'"
  by (auto simp: ocs_ReleaseFromDispute_def in_open_dispute_def sum_bind_Inr Let_def money_is_released_def UpdateStatusTx_orders
      simp del: One_nat_def neq0_conv dest!: order_steps split: if_splits
      intro!: writes_mapI simp: written_directly order_move_def order_canTransition_def)

lemma PartialRefund_writes:
  "ocs_PartialRefundFromDispute gw clk ids i adm M = Inr M' \<Longrightarrow> writes_order order_move i M M'"
  by (auto simp: ocs_PartialRefundFromDispute_def in_open_dispute_def sum_bind_Inr Let_def UpdateStatusTx_orders
      simp del: One_nat_def neq0_conv dest!: order_steps split: if_splits intro: writes_mapI)

definition refund_jump :: "OrderStatus \<Rightarrow> OrderStatus \<Rightarrow> bool" where
  "refund_jump s t \<longleftrightarrow> s \<noteq> OrderDisputeOpen \<and> t = OrderRefunded"

lemma RefundOrder_writes: "ocs_RefundOrder gw rooms clk ids i M = Inr M' \<Longrightarrow> writes_order refund_jump i M M'"
  by (auto simp: ocs_RefundOrder_def sum_bind_Inr order_refunded_orders UpdateStatusTx_orders
      simp del: One_nat_def neq0_conv dest!: order_steps split: if_splits
      intro!: writes_mapI simp: written_directly refund_jump_def)

lemma drepo_writes: "writes_order mv i (drepo_Update d M) N \<longleftrightarrow> writes_order mv i M N"
  "writes_order mv i M (drepo_Update d N) \<longleftrightarrow> writes_order mv i M N"
  "writes_order mv i M (InsertEvent t e N) \<longleftrightarrow> writes_order mv i M N"
  by (simp_all add: writes_order_def order_by_id_def UpdateStatusTx_orders)

lemma dispute_outcome_writes:
  "dispute_outcome gw rooms clk ids resolution adm notes d M = Inr M' \<Longrightarrow> writes_order order_move (di_OrderID d) M M'"
  by (cases resolution) (auto simp: dispute_outcome_def sum_bind_Inr drepo_writes simp del: One_nat_def neq0_conv
      dest!: RefundFromDispute_writes ReleaseFromDispute_writes PartialRefund_writes)

lemma ResolveDispute_writes:
  "ResolveDispute capable gw rooms clk ids di resolution adm notes M = Inr M' \<Longrightarrow> \<exists>i. writes_order order_move i M M'"
  by (auto simp: ResolveDispute_def sum_bind_Inr drepo_writes dest!: dispute_outcome_writes split: if_splits)

section \<open>Runs of the services\<close>

inductive desk_step :: "market \<Rightarrow> market \<Rightarrow> bool" where
  pay: "ocs_MarkPaid clk i M = Inr M' \<Longrightarrow> desk_step M M'"
| ship: "ocs_MarkShipped accounts clk caller i k pt sr sm nt M = Inr M' \<Longrightarrow> desk_step M M'"
| extend: "ocs_ExtendConfirmation accounts clk caller i k M = Inr M' \<Longrightarrow> desk_step M M'"
| complete: "ocs_Complete accounts clk ids caller i k M = Inr M' \<Longrightarrow> desk_step M M'"
| cancel: "ocs_Cancel rooms clk ids i k caller M = Inr M' \<Longrightarrow> desk_step M M'"
| overdue: "ocs_CancelOverdue gw rooms clk ids i k caller M = Inr M' \<Longrightarrow> desk_step M M'"
| expire: "ocs_Expire gw rooms clk ids i M = Inr M' \<Longrightarrow> desk_step M M'"
| dispute: "ocs_MarkDisputeOpen clk i M = Inr M' \<Longrightarrow> desk_step M M'"
| resolve: "ResolveDispute capable gw rooms clk ids di resolution adm notes M = Inr M' \<Longrightarrow> desk_step M M'"

text \<open>The refund of the whole order by hand, which is not bound to the status table.\<close>

definition manual_refund :: "market \<Rightarrow> market \<Rightarrow> bool" where
  "manual_refund M M' \<longleftrightarrow> (\<exists>gw rooms clk ids i. ocs_RefundOrder gw rooms clk ids i M = Inr M')"

lemma desk_step_writes: "desk_step M M' \<Longrightarrow> \<exists>i. writes_order order_move i M M'"
  by (induction rule: desk_step.induct)
    (blast intro: MarkPaid_writes MarkShipped_writes ExtendConfirmation_writes Complete_writes Cancel_writes
      CancelOverdue_writes Expire_writes MarkDisputeOpen_writes ResolveDispute_writes)+

lemma manual_refund_writes: "manual_refund M M' \<Longrightarrow> \<exists>i. writes_order refund_jump i M M'"
  using RefundOrder_writes unfolding manual_refund_def by blast

text \<open>What no service ever writes.\<close>

definition row_core :: "order \<Rightarrow> uuid \<times> uuid \<times> order_pricing \<times> OrderSourceType \<times> uuid \<times> time option" where
  "row_core o1 = (or_BuyerID o1, or_SellerID o1, or_Pricing o1, or_SourceType o1, or_SourceID o1, or_ReadyToShipBy o1)"

lemma written_row: "row_core (written_order o2 o1) = row_core o1" "or_ID (written_order o2 o1) = or_ID o1"
  "or_Status (written_order o2 o1) = or_Status o2"
  by (simp_all add: row_core_def written_order_def)

lemma writes_row:
  assumes "writes_order mv i M M'" "order_by_id j M = Some o1"
  obtains o2 where "order_by_id j M' = Some o2" "row_core o2 = row_core o1"
    "or_Status o2 = or_Status o1 \<or> mv (or_Status o1) (or_Status o2)"
proof (cases "mk_Orders M' = mk_Orders M")
  case True
  then show thesis using assms(2) by (intro that [of o1]) (simp_all add: order_by_id_def)
next
  case False
  then obtain p q where p: "order_by_id i M = Some p" "or_ID q = i" "mv (or_Status p) (or_Status q)"
    "mk_Orders M' = mk_Orders (orepo_UpdateStatusTx q M)" using assms(1) by (auto simp: writes_order_def)
  have "order_by_id j M' = map_option (\<lambda>row. if or_ID row = or_ID q then written_order q row else row) (order_by_id j M)"
    unfolding order_by_id_def p(4) UpdateStatusTx_orders by (rule find_map_keep) (simp add: written_row)
  then show thesis
    using assms(2) p order_by_id_ID [OF assms(2)] that written_row by (cases "i = j") auto
qed

definition flow :: "market \<Rightarrow> market \<Rightarrow> bool" where
  "flow M M' \<longleftrightarrow> desk_step M M' \<or> manual_refund M M'"

text \<open>How many moves of its status an order has left.\<close>

fun moves_left :: "OrderStatus \<Rightarrow> nat" where
  "moves_left OrderPending = 6"
| "moves_left OrderPaid = 5"
| "moves_left OrderShipped = 4"
| "moves_left OrderDelivered = 3"
| "moves_left OrderDisputeOpen = 2"
| "moves_left OrderRefunded = 0"
| "moves_left _ = 1"

definition status_at :: "uuid \<Rightarrow> market \<Rightarrow> OrderStatus option" where
  "status_at j M = map_option or_Status (order_by_id j M)"

lemma order_move_left: "order_move s t \<Longrightarrow> s \<noteq> t \<Longrightarrow> moves_left t < moves_left s"
  by (cases s) (auto simp: order_move_def order_canTransition_def)

lemma refund_jump_left: "refund_jump s t \<Longrightarrow> s \<noteq> t \<Longrightarrow> moves_left t < moves_left s"
  by (cases s) (auto simp: refund_jump_def)

lemma flow_row:
  assumes "flow M M'" "order_by_id j M = Some o1"
  obtains o2 where "order_by_id j M' = Some o2" "row_core o2 = row_core o1"
    "or_Status o2 = or_Status o1 \<or> moves_left (or_Status o2) < moves_left (or_Status o1)"
proof -
  obtain i mv where i: "writes_order mv i M M'" "mv = order_move \<or> mv = refund_jump"
    using assms(1) desk_step_writes manual_refund_writes unfolding flow_def by blast
  obtain o2 where o2: "order_by_id j M' = Some o2" "row_core o2 = row_core o1"
    "or_Status o2 = or_Status o1 \<or> mv (or_Status o1) (or_Status o2)" by (rule writes_row [OF i(1) assms(2)])
  then have "or_Status o2 = or_Status o1 \<or> moves_left (or_Status o2) < moves_left (or_Status o1)"
    using i(2) order_move_left refund_jump_left by metis
  then show thesis using o2 by (intro that [of o2])
qed

lemma flow_keeps_core:
  assumes "flow\<^sup>*\<^sup>* M M'" "order_by_id j M = Some o1"
  shows "\<exists>o2. order_by_id j M' = Some o2 \<and> row_core o2 = row_core o1"
  using assms
proof (induction rule: rtranclp_induct)
  case (step N K)
  then obtain o2 where "order_by_id j N = Some o2" "row_core o2 = row_core o1" by blast
  then show ?case using flow_row [OF step.hyps(2)] by metis
qed simp

lemma desk_follows_table:
  assumes "desk_step\<^sup>*\<^sup>* M M'" "order_by_id j M = Some o1"
  shows "\<exists>o2. order_by_id j M' = Some o2 \<and> order_canTransition\<^sup>*\<^sup>* (or_Status o1) (or_Status o2) \<and> row_core o2 = row_core o1"
  using assms
proof (induction rule: rtranclp_induct)
  case (step N K)
  then obtain o2 where o2: "order_by_id j N = Some o2" "order_canTransition\<^sup>*\<^sup>* (or_Status o1) (or_Status o2)"
    "row_core o2 = row_core o1" by blast
  obtain i where "writes_order order_move i N K" using desk_step_writes [OF step.hyps(2)] by blast
  then obtain o3 where o3: "order_by_id j K = Some o3" "row_core o3 = row_core o2"
    "or_Status o3 = or_Status o2 \<or> order_move (or_Status o2) (or_Status o3)" using o2(1) by (rule writes_row)
  then have "order_canTransition\<^sup>*\<^sup>* (or_Status o1) (or_Status o3)"
    using o2(2) by (auto simp: order_move_def intro: rtranclp.rtrancl_into_rtrancl)
  then show ?case using o2(3) o3 by auto
qed auto

section \<open>Sequences that come to rest\<close>

lemma changes_bounded:
  fixes g :: "nat \<Rightarrow> nat"
  assumes "\<And>n. h (Suc n) = h n \<or> g (Suc n) < g n" "\<And>n. h (Suc n) = h n \<Longrightarrow> g (Suc n) = g n"
  shows "card {n. n < N \<and> h (Suc n) \<noteq> h n} + g N \<le> g 0"
proof (induction N)
  case (Suc N)
  have "{n. n < Suc N \<and> h (Suc n) \<noteq> h n}
    = (if h (Suc N) \<noteq> h N then insert N {n. n < N \<and> h (Suc n) \<noteq> h n} else {n. n < N \<and> h (Suc n) \<noteq> h n})"
    by (auto simp: less_Suc_eq)
  moreover have "finite {n. n < N \<and> h (Suc n) \<noteq> h n}" by simp
  ultimately show ?case using Suc assms(1,2) [of N] by (cases "h (Suc N) = h N") auto
qed simp

lemma comes_to_rest:
  fixes g :: "nat \<Rightarrow> nat"
  assumes "\<And>n. h (Suc n) = h n \<or> g (Suc n) < g n" "\<And>n. h (Suc n) = h n \<Longrightarrow> g (Suc n) = g n"
  shows "\<exists>N. \<forall>n\<ge>N. h n = h N"
proof -
  obtain N where N: "\<And>n. g N \<le> g n" using ex_has_least_nat [of "\<lambda>_. True" 0 g] by auto
  have "h n = h N \<and> g n = g N" if "n \<ge> N" for n
    using that
  proof (induction rule: nat_induct_at_least)
    case (Suc n)
    then show ?case using N [of "Suc n"] assms(1,2) [of n] by auto
  qed simp
  then show ?thesis by blast
qed

section \<open>Refunds in full\<close>

definition charges_shipping :: "order \<Rightarrow> bool" where
  "charges_shipping o1 \<longleftrightarrow> 0 < money_Int64 (op_ShippingTotal (or_Pricing o1)) \<and> in_i64 (money_Int64 (op_ShippingTotal (or_Pricing o1)))"

lemma full_refund_refused:
  assumes "charges_shipping o1"
  shows "InitiateGatewayRefundForOrder gw clk a o1 adm (order_PD_S o1) reason k M \<noteq> Inr M'"
proof
  let ?t = "op_TotalBeforeCoinsAmount (or_Pricing o1)" and ?s = "op_ShippingTotal (or_Pricing o1)"
  assume "InitiateGatewayRefundForOrder gw clk a o1 adm (order_PD_S o1) reason k M = Inr M'"
  then obtain pd kv x inp where p: "order_DiscountedProductAmount o1 = Inr pd"
    "CreateAndDispatchSystemRefund gw clk a inp M = Inr x" "si_ProductAmount inp = order_PD_S o1" "si_PD inp = money_Int64 pd"
    by (auto simp: InitiateGatewayRefundForOrder_def sum_bind_Inr split: if_splits)
  have s: "0 < ?s" "?s < 2 ^ 63" using assms by (auto simp: charges_shipping_def money_defs i64_defs)
  have "pd = wrap64 (?t - ?s)" "wrap64 (?t - ?s) \<le> ?t"
    using p(1) s by (auto simp: order_DiscountedProductAmount_def money_Sub_def Let_def split: if_splits)
  moreover obtain k where "wrap64 (?t - ?s) = ?t - ?s + k * 18446744073709551616" using wrap64_diff by blast
  ultimately have "pd < ?t" using s by (cases "k = 0") (auto simp: less_le)
  then have "si_PD inp < si_ProductAmount inp" using p(3,4) by (simp add: order_PD_S_def money_defs)
  then show False using p(2) by (simp add: CreateAndDispatchSystemRefund_def split: if_splits)
qed

lemma expired_frame: "moved OrderFault (order_MarkExpired a o1) = Inr o2 \<Longrightarrow> or_ID o2 = or_ID o1 \<and> or_Pricing o2 = or_Pricing o1"
  by (auto simp: moved_Inr mutation split: if_splits)

section \<open>Properties\<close>


lemma selling_steps: "desk_step selling_market completed_market" "desk_step completed_market completed_market"
proof -
  show "desk_step selling_market completed_market" by (rule desk_step.complete [OF selling_market_completes])
  have "case ocs_Complete both_active sample_clock sample_ids 2 1 ''key'' selling_market of
      Inl _ \<Rightarrow> False | Inr M \<Rightarrow> ''key'' \<in> set (mk_Idempotency M)" by code_simp
  then have "''key'' \<in> set (mk_Idempotency completed_market)" by (simp add: selling_market_completes del: One_nat_def)
  then show "desk_step completed_market completed_market"
    by (intro desk_step.complete [of both_active sample_clock sample_ids 2 1 "''key''"])
      (simp add: ocs_Complete_def once_def TryInsert_def)
qed

lemma selling_order: "order_by_id 1 selling_market = Some sample_shipped"
  by (simp add: order_by_id_def selling_market_def refunding_market_def sample_order_defs)



definition sample_sequence :: "nat \<Rightarrow> market" where
  "sample_sequence n = (if n = 0 then selling_market else completed_market)"


text \<open>
  C31. The shipping deadline never acts. Orders are created without one and no service
  stores the deadline that the entity computes when the order is paid: after any
  calls the stored order still has none, is never overdue, never allows
  a dispute before shipping, and its cancellation as overdue fails for everyone at
  any time, following a nil pointer when its buyer or the system asks.
\<close>

theorem shipping_deadline_never_acts:
  assumes "flow\<^sup>*\<^sup>* M M'" "order_by_id i M = Some o1" "or_ReadyToShipBy o1 = None"
  shows "\<exists>o2. order_by_id i M' = Some o2 \<and> or_ReadyToShipBy o2 = None
    \<and> (\<forall>now. \<not> order_IsShipmentOverdue now o2 \<and> \<not> order_IsBuyerEligibleForPreShipDispute now o2)
    \<and> (\<forall>gw rooms clk ids k caller. k \<notin> set (mk_Idempotency M') \<longrightarrow>
         ocs_CancelOverdue gw rooms clk ids i k caller M'
           = Inl (if is_party caller (or_BuyerID o2) then Panicked ''nil pointer'' else Refused ''buyer required''))"
proof -
  obtain o2 where o2: "order_by_id i M' = Some o2" "row_core o2 = row_core o1"
    using flow_keeps_core [OF assms(1,2)] by blast
  then have none: "or_ReadyToShipBy o2 = None" using assms(3) by (simp add: row_core_def)
  have "ocs_CancelOverdue gw rooms clk ids i k caller M'
      = Inl (if is_party caller (or_BuyerID o2) then Panicked ''nil pointer'' else Refused ''buyer required'')"
    if "k \<notin> set (mk_Idempotency M')" for gw rooms clk ids k caller
  proof -
    let ?N = "M'\<lparr>mk_Idempotency := mk_Idempotency M' @ [k]\<rparr>"
    have g: "orepo_GetForUpdate i ?N = Inr o2" using o2(1) by (simp add: order_by_id_def)
    show ?thesis
      using that none by (simp add: g del: GetForUpdate_Inr add: ocs_CancelOverdue_def once_def TryInsert_def order_IsBuyerEligibleForCancel_def
          order_IsShipmentOverdue_def)
  qed
  then show ?thesis
    using o2(1) none by (auto simp: order_IsShipmentOverdue_def order_IsBuyerEligibleForPreShipDispute_def)
qed

lemma paid_market_order:
  "order_by_id 1 ground_market = Some sample_order" "or_ReadyToShipBy sample_order = None"
  "\<exists>r. or_ReadyToShipBy (snd (order_MarkPaid 500 500 sample_order)) = Some r"
  by (simp_all add: ground_market_def order_by_id_def sample_order_defs)

text \<open>The sample order has its escrow and is paid now.\<close>

definition escrowed_market :: market where
  "escrowed_market = ground_market\<lparr>mk_Escrows := [\<lparr>es_ID = 5, es_OrderID = 1, es_Amount = 1100, es_Status = EscrowHolding,
     es_PaymentID = None, es_CreatedAt = 500, es_ReleasedAt = None, es_RefundedAt = None\<rparr>]\<rparr>"

definition just_paid_market :: market where
  "just_paid_market = (case ocs_MarkPaid sample_clock 1 escrowed_market of Inl _ \<Rightarrow> blank_market | Inr M \<Rightarrow> M)"

lemma escrowed_market_pays: "ocs_MarkPaid sample_clock 1 escrowed_market = Inr just_paid_market"
proof -
  have "case ocs_MarkPaid sample_clock 1 escrowed_market of Inl _ \<Rightarrow> False | Inr M \<Rightarrow> True" by code_simp
  then show ?thesis by (simp add: just_paid_market_def split: sum.splits)
qed

theorem shipping_deadline_never_acts_witness:
  "\<exists>o2. order_by_id 1 just_paid_market = Some o2 \<and> (\<forall>now. \<not> order_IsShipmentOverdue now o2)"
proof -
  have "flow escrowed_market just_paid_market"
    unfolding flow_def using desk_step.pay [OF escrowed_market_pays] by blast
  then have run: "flow\<^sup>*\<^sup>* escrowed_market just_paid_market" by blast
  have "order_by_id 1 escrowed_market = Some sample_order"
    using paid_market_order(1) by (simp add: escrowed_market_def order_by_id_def)
  then show ?thesis
    using shipping_deadline_never_acts [OF run _ paid_market_order(2), of 1] by metis
qed

text \<open>
  C32. An order that charges shipping is never refunded in full: the amount that the
  services pass as the product's part includes the shipping, which the refund
  service refuses. So the refund by hand, the cancellation as overdue, the
  expiry of a paid order and a dispute won by a buyer who never asked for a
  refund all fail, at any time and with any gateway, and change nothing.
\<close>

theorem shipping_is_never_refunded_in_full:
  assumes "order_by_id i M = Some o1" "charges_shipping o1"
  shows "ocs_RefundOrder gw rooms clk ids i M \<noteq> Inr M'
    \<and> (k \<notin> set (mk_Idempotency M) \<longrightarrow> ocs_CancelOverdue gw rooms clk ids i k caller M \<noteq> Inr M')
    \<and> (escrow_of i M \<noteq> None \<longrightarrow> ocs_Expire gw rooms clk ids i M \<noteq> Inr M')
    \<and> (rrepo_GetByOrderID i M = None \<longrightarrow> ocs_RefundFromDispute gw rooms clk ids i adm M \<noteq> Inr M')"
proof -
  have i: "or_ID o1 = i" by (rule order_by_id_ID [OF assms(1)])
  note no = full_refund_refused [OF assms(2)]
  have "ocs_RefundOrder gw rooms clk ids i M \<noteq> Inr M'"
    using assms(1) no by (auto simp: ocs_RefundOrder_def sum_bind_Inr split: if_splits)
  moreover have "ocs_CancelOverdue gw rooms clk ids i k caller M \<noteq> Inr M'" if "k \<notin> set (mk_Idempotency M)"
    using assms(1) no that
    by (auto simp: ocs_CancelOverdue_def once_Inr sum_bind_Inr order_by_id_def simp del: One_nat_def neq0_conv split: if_splits)
  moreover have "ocs_Expire gw rooms clk ids i M \<noteq> Inr M'" if "escrow_of i M \<noteq> None"
  proof
    assume "ocs_Expire gw rooms clk ids i M = Inr M'"
    then obtain o2 M1 e M3 where x: "moved OrderFault (order_MarkExpired (clk 0) o1) = Inr o2"
      "restoreForSaleStock clk ids o2 M = Inr M1" "GetEscrowForOrder (or_ID o2) M1 = Inr e"
      "(case e of None \<Rightarrow> Inr M1
      | Some _ \<Rightarrow>
          sum_bind (guard (order_PD_S o2 > 0) (Refused ''total_before_coins_amount invalid'')) (\<lambda>_.
          sum_bind (InitiateGatewayRefundForOrder gw (\<lambda>n. clk (1 + n)) (ids 0) o2 uuid_nil (order_PD_S o2) ''other''
            (''system_refund_payment_expired_'' @ uuid_text (or_ID o2)) M1) (\<lambda>M2.
          RefundToBuyer (clk 3) o2 M2))) = Inr M3"
      using assms(1) by (auto simp: ocs_Expire_def sum_bind_Inr simp del: One_nat_def neq0_conv)
    have f: "or_ID o2 = i" "charges_shipping o2" using expired_frame [OF x(1)] assms(2) i by (auto simp: charges_shipping_def)
    have "escrow_of i M1 = escrow_of i M" using restore_rows [OF x(2)] by (simp add: same_rows_def escrow_of_def)
    moreover have "e = escrow_of i M1" using x(3) f(1) by (auto simp: GetEscrowForOrder_def split: if_splits)
    ultimately have "e \<noteq> None" using that by simp
    then show False using x(4) full_refund_refused [OF f(2)] by (auto simp: sum_bind_Inr split: if_splits)
  qed
  moreover have "ocs_RefundFromDispute gw rooms clk ids i adm M \<noteq> Inr M'" if "rrepo_GetByOrderID i M = None"
    using assms(1) no that i
    by (auto simp: ocs_RefundFromDispute_def decide_for_buyer_def AdminResolveRefundDecision_def sum_bind_Inr
        simp del: One_nat_def neq0_conv split: if_splits)
  ultimately show ?thesis by blast
qed

theorem shipping_is_never_refunded_in_full_witness:
  "\<forall>M'. ocs_RefundOrder (\<lambda>_. Inl ''down'') (\<lambda>_. None) sample_clock sample_ids 1 selling_market \<noteq> Inr M'"
proof -
  have "charges_shipping sample_shipped"
    by (simp add: charges_shipping_def sample_order_terms money_defs i64_defs)
  then show ?thesis using shipping_is_never_refunded_in_full [OF selling_order] by blast
qed

end
