(* ===== verification/OrderCancel.thy ===== *)
theory OrderCancel
  imports OrderFlow
begin

text \<open>
  What a cancelled order gives back: the stock of its listing, once, and nothing else.
\<close>

section \<open>The stock of a listing\<close>

definition stock_of :: "uuid \<Rightarrow> market \<Rightarrow> int option" where
  "stock_of l M = map_option fs_QuantityAvailable (for_sale_row l M)"

lemma for_sale_row_checked: "\<forall>l \<in> set (mk_ForSales M). for_sale_checked l \<Longrightarrow> for_sale_row i M = Some l \<Longrightarrow> for_sale_checked l"
  by (auto simp: for_sale_row_def find_Some_iff)

lemma total_quantity_i64: "in_i64 (total_quantity items)"
proof (cases items rule: rev_cases)
  case Nil
  then show ?thesis by (simp add: total_quantity_def i64_defs)
next
  case (snoc its it)
  then show ?thesis by (simp add: total_quantity_def)
qed

text \<open>A stock that fits into the column after the addition was not wrapped.\<close>

lemma restored_stock:
  assumes "0 \<le> q" "q < 2 ^ 31" "0 < n" "in_i64 n" "0 \<le> wrap64 (q + n)"
  shows "wrap64 (q + n) = q + n"
proof -
  obtain k where "wrap64 (q + n) = q + n + k * 18446744073709551616" using wrap64_diff by blast
  moreover have "wrap64 (q + n) < 9223372036854775808" using in_i64_wrap64 [of "q + n"] by (simp add: i64_defs)
  ultimately show ?thesis using assms by (simp add: i64_defs)
qed

lemma stock_restored:
  assumes run: "restoreFixedPriceForSaleStock clk o1 M = Inr M'" and some: "orepo_GetOrderItems (or_ID o1) M \<noteq> []"
    and ok: "\<forall>l \<in> set (mk_ForSales M). for_sale_checked l"
  shows "\<exists>l l'. for_sale_row (or_SourceID o1) M = Some l \<and> for_sale_row (or_SourceID o1) M' = Some l'
    \<and> 0 < total_quantity (orepo_GetOrderItems (or_ID o1) M)
    \<and> fs_QuantityAvailable l' = fs_QuantityAvailable l + total_quantity (orepo_GetOrderItems (or_ID o1) M)
    \<and> fs_Status l' = (if fs_Status l = ForSaleSold then ForSaleActive else fs_Status l)
    \<and> (\<forall>j. j \<noteq> or_SourceID o1 \<longrightarrow> for_sale_row j M' = for_sale_row j M)"
proof -
  let ?n = "total_quantity (orepo_GetOrderItems (or_ID o1) M)"
  obtain l l1 where l: "for_sale_row (or_SourceID o1) M = Some l"
    "moved ForSaleFault (forSale_RestoreQuantity (clk 30) (clk 31) ?n (scanned_for_sale l)) = Inr l1" "fsrepo_UpdateStock l1 M = Inr M'"
    using run some by (auto simp: restoreFixedPriceForSaleStock_def Let_def sum_bind_Inr fsrepo_GetForUpdate_def
        split: if_splits)
  have id: "fs_ID l = or_SourceID o1" using l(1) by (auto simp: for_sale_row_def find_Some_iff)
  have c: "0 \<le> fs_QuantityAvailable l" "fs_QuantityAvailable l < 2 ^ 31"
    using for_sale_row_checked [OF ok l(1)] by (simp_all add: for_sale_checked_def)
  have r: "0 < ?n" "fs_ID l1 = or_SourceID o1" "fs_QuantityAvailable l1 = wrap64 (fs_QuantityAvailable l + ?n)"
    "fs_Status l1 = (if fs_Status l = ForSaleSold \<and> fs_QuantityAvailable l1 > 0 then ForSaleActive else fs_Status l)"
    using l(2) id by (auto simp: moved_Inr mutation Let_def scanned_for_sale_def split: if_splits)
  have "0 \<le> fs_QuantityAvailable l1"
    using l(3) by (auto simp: fsrepo_UpdateStock_def set_for_sale_def for_sale_checked_def split: if_splits)
  then have q: "fs_QuantityAvailable l1 = fs_QuantityAvailable l + ?n"
    using restored_stock [OF c r(1) total_quantity_i64] r(3) by simp
  have row: "for_sale_row j M' = (if j = or_SourceID o1
      then map_option (\<lambda>row. row\<lparr>fs_Status := fs_Status l1, fs_SoldAt := fs_SoldAt l1,
        fs_QuantityAvailable := fs_QuantityAvailable l1, fs_UpdatedAt := fs_UpdatedAt l1\<rparr>) (for_sale_row j M)
      else for_sale_row j M)" for j
    using for_sale_row_set [OF l(3) [unfolded fsrepo_UpdateStock_def], of j] r(2) by simp
  show ?thesis using row l(1) r(1,4) q c by auto
qed

section \<open>Cancelling\<close>

lemma reactivate_service_quotes: "ReactivateQuoteIfEligible rooms clk q M = Inr M' \<Longrightarrow> \<exists>Q. M' = M\<lparr>mk_Quotes := Q\<rparr>"
  by (cases M) (auto simp: ReactivateQuoteIfEligible_def sum_bind_Inr Let_def simp del: One_nat_def neq0_conv
      split: if_splits option.splits)

lemma reactivate_for_sales: "mk_ForSales (reactivateShippingQuoteIfEligible rooms clk o1 M) = mk_ForSales M"
  by (auto simp: reactivateShippingQuoteIfEligible_def dest!: reactivate_service_quotes split: option.splits sum.splits)

lemma order_cancelled:
  "moved OrderFault (order_Cancel now o1) = Inr o2 \<longleftrightarrow>
     or_Status o1 = OrderPending \<and> o2 = o1\<lparr>or_Status := OrderCancelled, or_UpdatedAt := now\<rparr>"
  by (cases "or_Status o1") (auto simp: moved_Inr mutation order_canTransition_def)

lemma Cancel_steps:
  assumes "ocs_Cancel rooms clk ids i k caller M = Inr M'" "k \<notin> set (mk_Idempotency M)" "order_by_id i M = Some o1"
  obtains M1 where "or_Status o1 = OrderPending" "is_party caller (or_BuyerID o1)"
    "restoreForSaleStock clk ids (o1\<lparr>or_Status := OrderCancelled, or_UpdatedAt := clk 0\<rparr>)
       (M\<lparr>mk_Idempotency := mk_Idempotency M @ [k]\<rparr>) = Inr M1"
    "M' = (let o2 = o1\<lparr>or_Status := OrderCancelled, or_UpdatedAt := clk 0\<rparr>
       in InsertEvent ''order.cancelled'' i (orepo_UpdateStatusTx o2 (reactivateShippingQuoteIfEligible rooms clk o2 M1)))"
proof -
  have "order_by_id i (M\<lparr>mk_Idempotency := mk_Idempotency M @ [k]\<rparr>) = Some o1" using assms(3) by (simp add: order_by_id_def)
  then show thesis
    using assms(1,2) order_by_id_ID [OF assms(3)] that
    by (auto simp: ocs_Cancel_def once_Inr sum_bind_Inr order_cancelled Let_def simp del: One_nat_def neq0_conv split: if_splits)
qed

section \<open>Property\<close>

text \<open>
  C30. Cancelling an order of a listing needs its buyer or the system and an order that
  is still pending. The listing gets back exactly the quantity of the order's
  items and, if it was sold out, is for sale again; no other listing, no escrow
  and no ledger row changes; and no second cancellation with a new key succeeds,
  so that the stock comes back once.
\<close>

theorem cancellation_returns_stock_once:
  assumes run: "ocs_Cancel rooms clk ids i k caller M = Inr M'" and key: "k \<notin> set (mk_Idempotency M)"
    and o1: "order_by_id i M = Some o1" "or_SourceType o1 \<noteq> SourceAuction" "orepo_GetOrderItems i M \<noteq> []"
    and rows: "\<forall>l \<in> set (mk_ForSales M). for_sale_checked l"
  shows "or_Status o1 = OrderPending \<and> is_party caller (or_BuyerID o1)
    \<and> (\<exists>l l'. for_sale_row (or_SourceID o1) M = Some l \<and> for_sale_row (or_SourceID o1) M' = Some l'
        \<and> fs_QuantityAvailable l' = fs_QuantityAvailable l + total_quantity (orepo_GetOrderItems i M)
        \<and> 0 < total_quantity (orepo_GetOrderItems i M)
        \<and> fs_Status l' = (if fs_Status l = ForSaleSold then ForSaleActive else fs_Status l))
    \<and> (\<forall>j. j \<noteq> or_SourceID o1 \<longrightarrow> for_sale_row j M' = for_sale_row j M)
    \<and> mk_Escrows M' = mk_Escrows M \<and> mk_Ledger M' = mk_Ledger M
    \<and> status_at i M' = Some OrderCancelled
    \<and> (\<forall>rooms clk ids k caller M''. k \<notin> set (mk_Idempotency M') \<longrightarrow> ocs_Cancel rooms clk ids i k caller M' \<noteq> Inr M'')"
proof -
  let ?N = "M\<lparr>mk_Idempotency := mk_Idempotency M @ [k]\<rparr>" and ?o = "o1\<lparr>or_Status := OrderCancelled, or_UpdatedAt := clk 0\<rparr>"
  obtain M1 where c: "or_Status o1 = OrderPending" "is_party caller (or_BuyerID o1)" "restoreForSaleStock clk ids ?o ?N = Inr M1"
    and M': "M' = InsertEvent ''order.cancelled'' i (orepo_UpdateStatusTx ?o (reactivateShippingQuoteIfEligible rooms clk ?o M1))"
    by (rule Cancel_steps [OF run key o1(1)]) (simp add: Let_def)
  have id: "or_ID o1 = i" by (rule order_by_id_ID [OF o1(1)])
  have items: "orepo_GetOrderItems i ?N = orepo_GetOrderItems i M" by (simp add: orepo_GetOrderItems_def)
  have r: "restoreFixedPriceForSaleStock clk ?o ?N = Inr M1" using c(3) o1(2) by (simp add: restoreForSaleStock_def)
  have fs: "mk_ForSales M' = mk_ForSales M1" "mk_ForSales ?N = mk_ForSales M"
    by (simp_all add: M' InsertEvent_def orepo_UpdateStatusTx_def reactivate_for_sales)
  then have row: "for_sale_row j M' = for_sale_row j M1" "for_sale_row j ?N = for_sale_row j M" for j
    by (simp_all add: for_sale_row_def)
  have stock: "\<exists>l l'. for_sale_row (or_SourceID o1) M = Some l \<and> for_sale_row (or_SourceID o1) M' = Some l'
        \<and> 0 < total_quantity (orepo_GetOrderItems i M)
        \<and> fs_QuantityAvailable l' = fs_QuantityAvailable l + total_quantity (orepo_GetOrderItems i M)
        \<and> fs_Status l' = (if fs_Status l = ForSaleSold then ForSaleActive else fs_Status l)
        \<and> (\<forall>j. j \<noteq> or_SourceID o1 \<longrightarrow> for_sale_row j M' = for_sale_row j M)"
    using stock_restored [OF r] o1(3) rows id by (simp add: items row)
  have same: "same_rows ?N M1" by (rule restore_rows [OF c(3)])
  have "same_rows M1 (reactivateShippingQuoteIfEligible rooms clk ?o M1)" by simp
  then have f: "mk_Escrows M' = mk_Escrows M" "mk_Ledger M' = mk_Ledger M"
    using same by (simp_all add: M' same_rows_def)
  have "order_by_id i M1 = Some o1" using o1(1) same by (simp add: same_rows_def order_by_id_def)
  then have "order_by_id i (orepo_UpdateStatusTx ?o (reactivateShippingQuoteIfEligible rooms clk ?o M1)) = Some (written_order ?o o1)"
    using id by (intro order_by_id_update) (simp_all add: order_by_id_def)
  then have o2: "order_by_id i M' = Some (written_order ?o o1)" by (simp add: M' order_by_id_def)
  then have "ocs_Cancel rooms clk ids i k caller M' \<noteq> Inr M''" if "k \<notin> set (mk_Idempotency M')" for rooms clk ids k caller M''
    using Cancel_steps [OF _ that o2] by (auto simp: written_row)
  then show ?thesis using c(1,2) stock f o2 by (auto simp: status_at_def written_row)
qed

text \<open>The sample order took the last two pieces of its listing and is cancelled unpaid.\<close>

definition sold_listing :: for_sale where
  "sold_listing = (snd (forSale_ReduceQuantity 1 1 1 2 sample_listing))\<lparr>fs_ProductID := 6\<rparr>"

definition pending_market :: market where
  "pending_market = blank_market\<lparr>mk_Orders := [sample_order], mk_Items := [NewOrderItem 50 1 1 6 500 2 ''cup''],
     mk_ForSales := [sold_listing]\<rparr>"

definition cancelled_market :: market where
  "cancelled_market = (case ocs_Cancel (\<lambda>_. None) sample_clock sample_ids 1 ''c'' 2 pending_market of
     Inl _ \<Rightarrow> blank_market | Inr M \<Rightarrow> M)"

lemma pending_market_cancels:
  "ocs_Cancel (\<lambda>_. None) sample_clock sample_ids 1 ''c'' 2 pending_market = Inr cancelled_market"
proof -
  have "case ocs_Cancel (\<lambda>_. None) sample_clock sample_ids 1 ''c'' 2 pending_market of Inl _ \<Rightarrow> False | Inr M \<Rightarrow> True" by code_simp
  then show ?thesis by (simp add: cancelled_market_def split: sum.splits)
qed

theorem cancellation_returns_stock_once_witness:
  "\<exists>l'. for_sale_row 4 cancelled_market = Some l' \<and> fs_QuantityAvailable l' = 2 \<and> fs_Status l' = ForSaleActive"
proof -
  have o1: "order_by_id 1 pending_market = Some sample_order" "or_SourceType sample_order \<noteq> SourceAuction"
    "or_SourceID sample_order = 4"
    by (simp_all add: order_by_id_def pending_market_def sample_order_defs)
  have it: "orepo_GetOrderItems 1 pending_market = [NewOrderItem 50 1 1 6 500 2 ''cup'']"
    by (simp add: orepo_GetOrderItems_def pending_market_def NewOrderItem_def)
  have l: "fs_QuantityAvailable sold_listing = 0 \<and> fs_Status sold_listing = ForSaleSold \<and> fs_ID sold_listing = 4
      \<and> for_sale_checked sold_listing" by code_simp
  have "\<forall>l \<in> set (mk_ForSales pending_market). for_sale_checked l" "''c'' \<notin> set (mk_Idempotency pending_market)"
    using l by (simp_all add: pending_market_def blank_market_def)
  moreover have "total_quantity [NewOrderItem 50 1 1 6 500 2 ''cup''] = 2" by code_simp
  moreover have "for_sale_row 4 pending_market = Some sold_listing" using l by (simp add: for_sale_row_def pending_market_def)
  ultimately show ?thesis
    using cancellation_returns_stock_once [OF pending_market_cancels _ o1(1,2)] l by (auto simp: o1(3) it simp del: One_nat_def)
qed

end
