(* ===== verification/DisputeOutcome.thy ===== *)
theory DisputeOutcome
  imports OrderFlow
begin

text \<open>
  What the verdict on a dispute does to the money: a release pays the seller from the
  escrow, a refund gives the escrow back and leaves the books to the confirmation
  of the gateway, a partial refund leaves both to it; and a dispute is resolved once.
\<close>

section \<open>Frames\<close>

lemma same_rows_ready: "same_rows M N \<Longrightarrow> ready_to_release o1 a N = ready_to_release o1 a M"
  using same_escrows [of N M] by (simp add: same_rows_def ready_to_release_def escrows_ok_def)

lemma same_rows_paid: "same_rows M N \<Longrightarrow> seller_paid o1 N K = seller_paid o1 M K"
  using same_escrows [of N M] by (simp add: same_rows_def seller_paid_def)

lemma escrow_step_frames:
  "ReleaseGatewayEscrowToSeller now a x o1 M = Inr (s, M') \<Longrightarrow> mk_Disputes M' = mk_Disputes M"
  "RefundGatewayEscrow now i M = Inr (b, M') \<Longrightarrow> mk_Disputes M' = mk_Disputes M \<and> mk_Ledger M' = mk_Ledger M"
  by (auto simp: ReleaseGatewayEscrowToSeller_def ReleaseGatewayEscrow_def RefundGatewayEscrow_def Let_def sum_bind_Inr
      with_ledger_Inr esrepo_Update_def split: if_splits option.splits)

lemma drepo_frame [simp]:
  "order_by_id i (drepo_Update d M) = order_by_id i M" "mk_Ledger (drepo_Update d M) = mk_Ledger M"
  "mk_Escrows (drepo_Update d M) = mk_Escrows M"
  by (simp_all add: drepo_Update_def order_by_id_def)

lemma drepo_ready [simp]: "ready_to_release o1 a (drepo_Update d M) = ready_to_release o1 a M"
  "seller_paid o1 (drepo_Update d M) K = seller_paid o1 M K"
  using same_escrows [of "drepo_Update d M" M] by (simp_all add: ready_to_release_def seller_paid_def escrows_ok_def)

lemma order_set:
  assumes "order_by_id i M = Some o1" "or_ID o2 = i" "mk_Orders N = mk_Orders M"
  shows "\<exists>o3. order_by_id i (orepo_UpdateStatusTx o2 N) = Some o3 \<and> or_Status o3 = or_Status o2"
  using order_by_id_update [of i N o1 o2] assms by (simp add: order_by_id_def written_order_def)

section \<open>The three verdicts\<close>

lemma ReleaseFromDispute_pays:
  assumes run: "ocs_ReleaseFromDispute clk ids i adm M = Inr M'" and o1: "order_by_id i M = Some o1"
    and ready: "ready_to_release o1 (ids 0) M"
  shows "seller_paid o1 M M' \<and> (\<exists>o2. order_by_id i M' = Some o2 \<and> or_Status o2 = OrderCompleted)
    \<and> mk_Disputes M' = mk_Disputes M \<and> or_Status o1 = OrderDisputeOpen"
proof -
  let ?o = "o1\<lparr>or_Status := OrderCompleted, or_CompletedAt := Some (clk 4), or_UpdatedAt := clk 4\<rparr>"
  obtain b s M1 M2 where r: "or_Status o1 = OrderDisputeOpen"
    "AdminResolveRefundDecision (\<lambda>_. Inl '''') (\<lambda>n. clk (1 + n)) (or_ID o1) adm False 0 None M = Inr (b, M1)"
    "ReleaseGatewayEscrowToSeller (clk 3) (ids 0) (ids 1) o1 M1 = Inr (s, M2)"
    "M' = money_is_released ?o (orepo_UpdateStatusTx ?o M2)"
    using run o1 by (auto simp: ocs_ReleaseFromDispute_def in_open_dispute_def sum_bind_Inr Let_def
        simp del: One_nat_def neq0_conv split: if_splits)
  note rows = AdminResolve_rows [OF r(2)]
  have p: "seller_paid o1 M1 M2 \<and> mk_Orders M2 = mk_Orders M1"
    using release_pays [OF r(3)] ready same_rows_ready [OF rows] by blast
  then have "seller_paid o1 M M2" using same_rows_paid [OF rows] by blast
  then have "seller_paid o1 M M'" by (rule seller_paid_frame) (simp_all add: r(4))
  moreover have "\<exists>o2. order_by_id i (orepo_UpdateStatusTx ?o M2) = Some o2 \<and> or_Status o2 = or_Status ?o"
    using p rows order_by_id_ID [OF o1] by (intro order_set [OF o1]) (simp_all add: same_rows_def)
  then have "\<exists>o2. order_by_id i M' = Some o2 \<and> or_Status o2 = OrderCompleted"
    by (simp add: r(4) order_by_id_def)
  moreover have "mk_Disputes M' = mk_Disputes M"
    using escrow_step_frames(1) [OF r(3)] rows by (simp add: r(4) money_is_released_def same_rows_def)
  ultimately show ?thesis using r(1) by blast
qed

lemma order_refunded_frame:
  "mk_Escrows (order_refunded rooms clk o1 M) = mk_Escrows M" "mk_Ledger (order_refunded rooms clk o1 M) = mk_Ledger M"
  "mk_Disputes (order_refunded rooms clk o1 M) = mk_Disputes M"
  using reactivate_rows [of "invalidateRatingForOrder (or_ID o1) M" rooms clk o1]
  by (simp_all add: order_refunded_def Let_def same_rows_def invalidateRatingForOrder_def split: if_splits)

lemma RefundFromDispute_gives_back:
  assumes run: "ocs_RefundFromDispute gw rooms clk ids i adm M = Inr M'" and o1: "order_by_id i M = Some o1"
    and held: "escrows_ok M" "escrow_book M i = Some (Held n)"
  shows "escrow_book M' = (escrow_book M)(i \<mapsto> GivenBack n) \<and> mk_Ledger M' = mk_Ledger M
    \<and> (\<exists>o2. order_by_id i M' = Some o2 \<and> or_Status o2 = OrderRefunded)
    \<and> mk_Disputes M' = mk_Disputes M \<and> or_Status o1 = OrderDisputeOpen"
proof -
  let ?o = "o1\<lparr>or_Status := OrderRefunded, or_UpdatedAt := clk 4\<rparr>"
  obtain b M1 M2 where r: "or_Status o1 = OrderDisputeOpen"
    "decide_for_buyer gw clk ids o1 adm (order_PD_S o1) (''system_refund_dispute_'' @ uuid_text (or_ID o1)) M = Inr M1"
    "RefundGatewayEscrow (clk 3) i M1 = Inr (b, M2)" "M' = order_refunded rooms clk o1 M2"
    using run o1 by (auto simp: ocs_RefundFromDispute_def in_open_dispute_def sum_bind_Inr
        simp del: One_nat_def neq0_conv split: if_splits)
  note rows = decide_for_buyer_rows [OF r(2)]
  have e: "escrows_ok M1" "escrow_book M1 = escrow_book M"
    using rows held(1) same_escrows [of M1 M] by (simp_all add: same_rows_def escrows_ok_def)
  have "escrow_book M2 = (escrow_book M)(i \<mapsto> GivenBack n)"
    using refund_refines [OF e(1), of "clk 3" i] r(3) held(2) e(2) by (auto simp: refines_def spec_give_back_def split: if_splits)
  moreover have "escrow_book M' = escrow_book M2" by (rule same_escrows) (simp add: r(4) order_refunded_frame)
  moreover have "\<exists>o2. order_by_id i (orepo_UpdateStatusTx ?o M2) = Some o2 \<and> or_Status o2 = or_Status ?o"
    using escrow_step_orders(2) [OF r(3)] rows order_by_id_ID [OF o1] by (intro order_set [OF o1]) (simp_all add: same_rows_def)
  then have "\<exists>o2. order_by_id i M' = Some o2 \<and> or_Status o2 = OrderRefunded"
    by (simp add: r(4) order_by_id_def order_refunded_orders)
  ultimately show ?thesis
    using escrow_step_frames(2) [OF r(3)] rows r(1) by (simp add: r(4) order_refunded_frame same_rows_def)
qed

lemma PartialRefund_waits:
  assumes run: "ocs_PartialRefundFromDispute gw clk ids i adm M = Inr M'" and o1: "order_by_id i M = Some o1"
  shows "escrow_book M' = escrow_book M \<and> mk_Ledger M' = mk_Ledger M
    \<and> (\<exists>o2. order_by_id i M' = Some o2 \<and> or_Status o2 = OrderPartiallyRefunded)
    \<and> mk_Disputes M' = mk_Disputes M \<and> or_Status o1 = OrderDisputeOpen"
proof -
  obtain o2 k n M1 where r: "or_Status o1 = OrderDisputeOpen" "decide_for_buyer gw clk ids o1 adm n k M = Inr M1"
    "moved OrderFault (order_MarkPartiallyRefunded (clk 4) o1) = Inr o2"
    "M' = InsertEvent ''order.partially_refunded'' (or_ID o2) (orepo_UpdateStatusTx o2
       (invalidateRatingForOrder (or_ID o1) (InsertEvent ''money.partial_release'' (or_ID o1) M1)))"
    using run o1 by (auto simp: ocs_PartialRefundFromDispute_def in_open_dispute_def sum_bind_Inr Let_def
        simp del: One_nat_def neq0_conv split: if_splits)
  note rows = decide_for_buyer_rows [OF r(2)]
  have o2: "or_ID o2 = i" "or_Status o2 = OrderPartiallyRefunded"
    using r(3) order_by_id_ID [OF o1] by (auto simp: moved_Inr mutation split: if_splits)
  have "\<exists>o3. order_by_id i (orepo_UpdateStatusTx o2 (invalidateRatingForOrder (or_ID o1)
      (InsertEvent ''money.partial_release'' (or_ID o1) M1))) = Some o3 \<and> or_Status o3 = or_Status o2"
    using rows o2(1) by (intro order_set [OF o1]) (simp_all add: same_rows_def)
  then have "\<exists>o3. order_by_id i M' = Some o3 \<and> or_Status o3 = OrderPartiallyRefunded"
    by (simp add: r(4) order_by_id_def o2(2))
  moreover have "escrow_book M' = escrow_book M"
    by (rule same_escrows) (use rows in \<open>simp add: r(4) same_rows_def invalidateRatingForOrder_def\<close>)
  ultimately show ?thesis using rows r(1) by (simp add: r(4) same_rows_def invalidateRatingForOrder_def)
qed

section \<open>Resolving\<close>

fun verdict :: "ResolutionType \<Rightarrow> DisputeStatus" where
  "verdict ResolutionRefund = DisputeResolvedRefund"
| "verdict ResolutionRelease = DisputeResolvedRelease"
| "verdict _ = DisputeResolvedPartial"

lemma dispute_resolved_to:
  "moved DisputeFault (dispute_resolve_to t now adm notes d) = Inr d1 \<Longrightarrow>
     d1 = d\<lparr>di_Status := t, di_ResolvedAt := Some now, di_ResolvedBy := Some adm, di_ResolutionNotes := notes, di_UpdatedAt := now\<rparr>"
  by (auto simp: moved_Inr mutation split: if_splits)

lemma drepo_after:
  assumes "drepo_GetForUpdate i M = Inr d" "di_ID d1 = i" "mk_Disputes M' = mk_Disputes (drepo_Update d1 M)"
  shows "\<exists>d2. drepo_GetForUpdate i M' = Inr d2 \<and> di_Status d2 = di_Status d1 \<and> di_ResolvedBy d2 = di_ResolvedBy d1
    \<and> di_ResolvedAt d2 = di_ResolvedAt d1"
proof -
  have "find (\<lambda>d. di_ID d = i) (mk_Disputes M')
      = map_option (\<lambda>row. if di_ID row = di_ID d1 then written_dispute d1 row else row) (find (\<lambda>d. di_ID d = i) (mk_Disputes M))"
    unfolding assms(3) drepo_Update_def by simp (rule find_map_keep, simp add: written_dispute_def)
  moreover have "find (\<lambda>d. di_ID d = i) (mk_Disputes M) = Some d" "di_ID d = i"
    using assms(1) by (auto simp: drepo_GetForUpdate_def find_Some_iff)
  ultimately show ?thesis using assms(2) by (simp add: drepo_GetForUpdate_def written_dispute_def)
qed

lemma outcome_effect:
  assumes run: "dispute_outcome gw rooms clk ids res adm notes d M = Inr M'" and o1: "order_by_id (di_OrderID d) M = Some o1"
    and ready: "ready_to_release o1 (ids 0) M" and held: "escrow_book M (di_OrderID d) = Some (Held n)"
  shows "or_Status o1 = OrderDisputeOpen
    \<and> (\<exists>d1. mk_Disputes M' = mk_Disputes (drepo_Update d1 M) \<and> di_ID d1 = di_ID d \<and> di_Status d1 = verdict res
        \<and> di_ResolvedBy d1 = Some adm \<and> di_ResolvedAt d1 = Some (clk 0))
    \<and> (case res of
         ResolutionRelease \<Rightarrow> seller_paid o1 M M'
       | ResolutionRefund \<Rightarrow> escrow_book M' = (escrow_book M)(di_OrderID d \<mapsto> GivenBack n) \<and> mk_Ledger M' = mk_Ledger M
       | _ \<Rightarrow> escrow_book M' = escrow_book M \<and> mk_Ledger M' = mk_Ledger M)
    \<and> (\<exists>o2. order_by_id (di_OrderID d) M' = Some o2 \<and> or_Status o2 = (case res of
         ResolutionRelease \<Rightarrow> OrderCompleted | ResolutionRefund \<Rightarrow> OrderRefunded | _ \<Rightarrow> OrderPartiallyRefunded))"
proof -
  note by_verdict = dispute_ResolveRelease_def dispute_ResolveRefund_def dispute_ResolvePartialSplit_def
  have ok: "escrows_ok (drepo_Update x M)" "escrow_book (drepo_Update x M) = escrow_book M" for x
    using ready same_escrows [of "drepo_Update x M" M] by (simp_all add: ready_to_release_def escrows_ok_def)
  show ?thesis
  proof (cases res)
    case ResolutionRelease
    then obtain d1 where d: "moved DisputeFault (dispute_resolve_to (verdict res) (clk 0) adm notes d) = Inr d1"
      "ocs_ReleaseFromDispute clk ids (di_OrderID d) adm (drepo_Update d1 M) = Inr M'"
      using run by (auto simp: dispute_outcome_def by_verdict sum_bind_Inr simp del: One_nat_def neq0_conv)
    show ?thesis
      using ReleaseFromDispute_pays [OF d(2)] o1 ready dispute_resolved_to [OF d(1)] ResolutionRelease
      by (intro conjI exI [of _ d1]) simp_all
  next
    case ResolutionRefund
    then obtain d1 where d: "moved DisputeFault (dispute_resolve_to (verdict res) (clk 0) adm notes d) = Inr d1"
      "ocs_RefundFromDispute gw rooms clk ids (di_OrderID d) adm (drepo_Update d1 M) = Inr M'"
      using run by (auto simp: dispute_outcome_def by_verdict sum_bind_Inr simp del: One_nat_def neq0_conv)
    show ?thesis
      using RefundFromDispute_gives_back [OF d(2)] o1 ok held dispute_resolved_to [OF d(1)] ResolutionRefund
      by (intro conjI exI [of _ d1]) simp_all
  next
    case ResolutionPartialSplit
    then obtain d1 M1 where d: "moved DisputeFault (dispute_resolve_to (verdict res) (clk 0) adm notes d) = Inr d1"
      "ocs_PartialRefundFromDispute gw clk ids (di_OrderID d) adm M = Inr M1" "M' = drepo_Update d1 M1"
      using run by (auto simp: dispute_outcome_def by_verdict sum_bind_Inr simp del: One_nat_def neq0_conv)
    have "escrow_book M' = escrow_book M1" by (rule same_escrows) (simp add: d(3))
    then show ?thesis
      using PartialRefund_waits [OF d(2) o1] dispute_resolved_to [OF d(1)] ResolutionPartialSplit
      by (intro conjI exI [of _ d1]) (simp_all add: d(3), simp add: drepo_Update_def)
  qed (use run in \<open>simp add: dispute_outcome_def\<close>)
qed

section \<open>Property\<close>

text \<open>
  C6. A dispute that is resolved was under review on a disputed order, by the system
  or someone with the capability, and is stamped with the verdict, who
  gave it and when. A release pays the seller from the escrow, exactly once
  and exactly; a refund gives the escrow back and a partial refund leaves it held,
  both without touching the books, which wait for the gateway. No second
  verdict on the dispute succeeds.
\<close>

theorem dispute_verdict_executed_once:
  assumes run: "ResolveDispute capable gw rooms clk ids di res adm notes M = Inr M'" and d: "drepo_GetForUpdate di M = Inr d"
    and o1: "order_by_id (di_OrderID d) M = Some o1" and ready: "ready_to_release o1 (ids 0) M"
    and held: "escrow_book M (di_OrderID d) = Some (Held n)"
  shows "dispute_CanResolve d \<and> (IsSystemCaller adm \<or> capable) \<and> or_Status o1 = OrderDisputeOpen
    \<and> (\<exists>d2. drepo_GetForUpdate di M' = Inr d2 \<and> di_Status d2 = verdict res \<and> di_ResolvedBy d2 = Some adm
        \<and> di_ResolvedAt d2 = Some (clk 0))
    \<and> (case res of
         ResolutionRelease \<Rightarrow> seller_paid o1 M M'
       | ResolutionRefund \<Rightarrow> escrow_book M' = (escrow_book M)(di_OrderID d \<mapsto> GivenBack n) \<and> mk_Ledger M' = mk_Ledger M
       | _ \<Rightarrow> escrow_book M' = escrow_book M \<and> mk_Ledger M' = mk_Ledger M)
    \<and> (\<exists>o2. order_by_id (di_OrderID d) M' = Some o2 \<and> or_Status o2 = (case res of
         ResolutionRelease \<Rightarrow> OrderCompleted | ResolutionRefund \<Rightarrow> OrderRefunded | _ \<Rightarrow> OrderPartiallyRefunded))
    \<and> (\<forall>capable gw rooms clk ids res adm notes M''. ResolveDispute capable gw rooms clk ids di res adm notes M' \<noteq> Inr M'')"
proof -
  obtain M1 where M1: "dispute_outcome gw rooms clk ids res adm notes d M = Inr M1"
    "M' = InsertEvent ''dispute.resolved'' (di_ID d) M1" "dispute_CanResolve d" "IsSystemCaller adm \<or> capable"
    using run d by (auto simp: ResolveDispute_def sum_bind_Inr split: if_splits)
  note e = outcome_effect [OF M1(1) o1 ready held]
  have id: "di_ID d = di" using d by (auto simp: drepo_GetForUpdate_def find_Some_iff)
  obtain d1 where d1: "mk_Disputes M' = mk_Disputes (drepo_Update d1 M)" "di_ID d1 = di" "di_Status d1 = verdict res"
    "di_ResolvedBy d1 = Some adm" "di_ResolvedAt d1 = Some (clk 0)" using e id M1(2) by auto
  obtain d2 where d2: "drepo_GetForUpdate di M' = Inr d2" "di_Status d2 = verdict res" "di_ResolvedBy d2 = Some adm"
    "di_ResolvedAt d2 = Some (clk 0)"
    using drepo_after [OF d d1(2,1)] d1(3-5) by auto
  have "verdict res \<noteq> DisputeUnderReview" by (cases res) simp_all
  then have "\<not> dispute_CanResolve d2" using d2(2) by (simp add: dispute_CanResolve_def)
  then have again: "ResolveDispute capable gw rooms clk ids di res adm nts M' \<noteq> Inr M''"
    for capable gw rooms clk ids res adm nts M''
    using d2(1) by (auto simp: ResolveDispute_def sum_bind_Inr split: if_splits)
  have "escrow_book M' = escrow_book M1" "order_by_id (di_OrderID d) M' = order_by_id (di_OrderID d) M1"
    using same_escrows [of M' M1] by (simp_all add: M1(2) order_by_id_def)
  moreover have "seller_paid o1 M M1 \<longrightarrow> seller_paid o1 M M'" using seller_paid_frame [of o1 M M1 M'] by (simp add: M1(2))
  ultimately show ?thesis
    using e d2 M1(2-) again by (cases res) auto
qed

text \<open>The sample order of 1100 in dispute, its dispute under review, decided for the seller.\<close>

definition disputed_market :: market where
  "disputed_market = selling_market\<lparr>mk_Orders := [sample_shipped\<lparr>or_Status := OrderDisputeOpen, or_HasDispute := True\<rparr>],
     mk_Disputes := [NewDispute 90 1200 1 2 3 ''late'' None]\<rparr>"

definition judged_market :: market where
  "judged_market = (case ResolveDispute True (\<lambda>_. Inl ''down'') (\<lambda>_. None) sample_clock sample_ids 90 ResolutionRelease 7 None
     disputed_market of Inl _ \<Rightarrow> blank_market | Inr M \<Rightarrow> M)"

lemma disputed_market_judged:
  "ResolveDispute True (\<lambda>_. Inl ''down'') (\<lambda>_. None) sample_clock sample_ids 90 ResolutionRelease 7 None disputed_market
     = Inr judged_market"
proof -
  have "case ResolveDispute True (\<lambda>_. Inl ''down'') (\<lambda>_. None) sample_clock sample_ids 90 ResolutionRelease 7 None
     disputed_market of Inl _ \<Rightarrow> False | Inr M \<Rightarrow> True" by code_simp
  then show ?thesis by (simp add: judged_market_def split: sum.splits)
qed

theorem dispute_verdict_executed_once_witness:
  "escrow_book judged_market 1 = Some (PaidOut 1100)
    \<and> held (Some 3) AccountSellerPayable (mk_Ledger judged_market) = held (Some 3) AccountSellerPayable funded_books + 1050
    \<and> (\<forall>N. ResolveDispute True (\<lambda>_. Inl ''down'') (\<lambda>_. None) sample_clock sample_ids 90 ResolutionRefund 7 None judged_market
         \<noteq> Inr N)"
proof -
  let ?d = "NewDispute 90 1200 1 2 3 ''late'' None" and ?o = "sample_shipped\<lparr>or_Status := OrderDisputeOpen, or_HasDispute := True\<rparr>"
  have t: "or_ID sample_shipped = 1" "or_SellerID sample_shipped = 3" "order_PD_S sample_shipped = 1100"
    "money_Int64 (op_CommissionAmount (or_Pricing sample_shipped)) = 50" "mk_Ledger disputed_market = funded_books"
    by (simp_all add: sample_order_defs order_PD_S_def disputed_market_def selling_market_def refunding_market_def)
  have f: "mk_Escrows disputed_market = mk_Escrows selling_market" "mk_Ledger disputed_market = mk_Ledger selling_market"
    by (simp_all add: disputed_market_def)
  have d: "drepo_GetForUpdate 90 disputed_market = Inr ?d" "di_OrderID ?d = 1"
    by (simp_all add: drepo_GetForUpdate_def disputed_market_def NewDispute_def)
  have o1: "order_by_id (di_OrderID ?d) disputed_market = Some ?o"
    using t(1) by (simp add: order_by_id_def disputed_market_def NewDispute_def)
  have "ready_to_release ?o (sample_ids 0) disputed_market"
    using selling_market_ready f same_escrows [OF f(1)] by (simp add: ready_to_release_def escrows_ok_def order_PD_S_def)
  moreover have "escrow_book disputed_market (di_OrderID ?d) = Some (Held 1100)"
    by (simp add: escrow_book_def escrow_of_def disputed_market_def selling_market_def refunding_market_def NewDispute_def)
  ultimately show ?thesis
    using dispute_verdict_executed_once [OF disputed_market_judged d(1) o1] t(2-) d(2)
    by (simp add: seller_paid_def Let_def order_PD_S_def t(1))
qed

end
