(* ===== verification/MarketTypes.thy ===== *)
theory MarketTypes
  imports DisputeOutcome OrderCancel
begin

text \<open>
  What the database checks of its rows holds after every call of the order services:
  the typing of the refunds, the listings and the escrows. And the idempotency
  records, whose key is unique on its own.
\<close>

section \<open>Typed tables\<close>

definition typed_market :: "market \<Rightarrow> bool" where
  "typed_market M \<longleftrightarrow> (\<forall>r \<in> set (mk_Refunds M). refund_checked r) \<and> distinct (map rf_ID (mk_Refunds M))
     \<and> (\<forall>l \<in> set (mk_ForSales M). for_sale_checked l) \<and> escrows_ok M"

lemma typed_cong:
  "mk_Refunds N = mk_Refunds M \<Longrightarrow> mk_ForSales N = mk_ForSales M \<Longrightarrow> mk_Escrows N = mk_Escrows M
     \<Longrightarrow> typed_market N = typed_market M"
  by (simp add: typed_market_def escrows_ok_def)

lemma typed_frame [simp]:
  "typed_market (InsertEvent t i M) = typed_market M" "typed_market (orepo_UpdateStatusTx o1 M) = typed_market M"
  "typed_market (drepo_Update d M) = typed_market M" "typed_market (invalidateRatingForOrder i M) = typed_market M"
  "typed_market (M\<lparr>mk_Requests := rs\<rparr>) = typed_market M" "typed_market (M\<lparr>mk_Ledger := L\<rparr>) = typed_market M"
  "typed_market (M\<lparr>mk_Coins := db\<rparr>) = typed_market M" "typed_market (M\<lparr>mk_Quotes := Q\<rparr>) = typed_market M"
  "typed_market (M\<lparr>mk_Gov := G\<rparr>) = typed_market M" "typed_market (M\<lparr>mk_Auctions := as\<rparr>) = typed_market M"
  "typed_market (M\<lparr>mk_Idempotency := ks\<rparr>) = typed_market M" "typed_market (aurepo_UpdateTx a M) = typed_market M"
  by (rule typed_cong; simp add: InsertEvent_def orepo_UpdateStatusTx_def drepo_Update_def invalidateRatingForOrder_def
      aurepo_UpdateTx_def)+

lemma written_refund_checked:
  "refund_checked (written_refund r row) \<Longrightarrow> refund_checked q \<Longrightarrow> refund_checked (written_refund r q)"
  by (simp add: refund_checked_def written_refund_def)

lemma rrepo_typed:
  assumes "typed_market M"
  shows "rrepo_Update r M = Inr M' \<Longrightarrow> typed_market M'" "rrepo_Create r M = Inr M' \<Longrightarrow> typed_market M'"
proof -
  have id: "rf_ID (written_refund r q) = rf_ID q" for q by (simp add: written_refund_def)
  show "rrepo_Update r M = Inr M' \<Longrightarrow> typed_market M'"
    using assms by (auto simp: rrepo_Update_def typed_market_def escrows_ok_def comp_def id if_distrib [of rf_ID]
        split: if_splits option.splits cong: if_cong) (metis written_refund_checked)
  show "rrepo_Create r M = Inr M' \<Longrightarrow> typed_market M'"
    using assms by (auto simp: rrepo_Create_def Let_def typed_market_def escrows_ok_def refund_by_id_def find_None_iff
        split: if_splits) metis
qed

lemma stock_typed: "typed_market M \<Longrightarrow> fsrepo_UpdateStock l M = Inr M' \<Longrightarrow> typed_market M'"
  by (auto simp: fsrepo_UpdateStock_def set_for_sale_def typed_market_def escrows_ok_def for_sale_checked_def split: if_splits)


section \<open>The steps keep the types\<close>

lemma InitiateGatewayRefund_typed:
  "typed_market M \<Longrightarrow> InitiateGatewayRefund gw now inp M = Inr (r, M') \<Longrightarrow> typed_market M'"
  by (auto simp: InitiateGatewayRefund_def sum_bind_Inr Let_def dest!: rrepo_typed [rotated]
      split: if_splits option.splits sum.splits)

lemma SystemRefund_typed:
  "typed_market M \<Longrightarrow> CreateAndDispatchSystemRefund gw clk new_id inp M = Inr (r, M') \<Longrightarrow> typed_market M'"
  by (auto simp: CreateAndDispatchSystemRefund_def sum_bind_Inr Let_def simp del: One_nat_def neq0_conv
      dest: rrepo_typed InitiateGatewayRefund_typed split: if_splits option.splits)

lemma RefundForOrder_typed:
  "typed_market M \<Longrightarrow> InitiateGatewayRefundForOrder gw clk a o1 adm n reason k M = Inr M' \<Longrightarrow> typed_market M'"
  by (auto simp: InitiateGatewayRefundForOrder_def sum_bind_Inr dest: SystemRefund_typed split: if_splits)

lemma AdminResolve_typed:
  "typed_market M \<Longrightarrow> AdminResolveRefundDecision gw clk i adm w n notes M = Inr (b, M') \<Longrightarrow> typed_market M'"
  by (auto simp: AdminResolveRefundDecision_def sum_bind_Inr Let_def simp del: One_nat_def neq0_conv
      dest!: rrepo_typed(1) [rotated] dest: InitiateGatewayRefund_typed [rotated] split: if_splits option.splits)

lemma decide_for_buyer_typed: "typed_market M \<Longrightarrow> decide_for_buyer gw clk ids o1 adm n k M = Inr M' \<Longrightarrow> typed_market M'"
  by (auto simp: decide_for_buyer_def sum_bind_Inr dest: AdminResolve_typed RefundForOrder_typed split: if_splits)

lemma escrow_step_typed:
  assumes "typed_market M"
  shows "ReleaseGatewayEscrow now i n M = Inr (b, M') \<Longrightarrow> typed_market M'"
    "RefundGatewayEscrow now i M = Inr (b, M') \<Longrightarrow> typed_market M'"
proof -
  have ok: "escrows_ok M" using assms by (simp add: typed_market_def)
  show "typed_market M'" if r: "ReleaseGatewayEscrow now i n M = Inr (b, M')"
  proof -
    have "escrows_ok M'" using release_refines [OF ok, of now i n] r by (simp add: refines_def)
    moreover have "mk_Refunds M' = mk_Refunds M \<and> mk_ForSales M' = mk_ForSales M"
      using r by (auto simp: ReleaseGatewayEscrow_def sum_bind_Inr esrepo_Update_def split: if_splits option.splits)
    ultimately show ?thesis using assms by (simp add: typed_market_def)
  qed
  show "typed_market M'" if r: "RefundGatewayEscrow now i M = Inr (b, M')"
  proof -
    have "escrows_ok M'" using refund_refines [OF ok, of now i] r by (simp add: refines_def)
    moreover have "mk_Refunds M' = mk_Refunds M \<and> mk_ForSales M' = mk_ForSales M"
      using r by (auto simp: RefundGatewayEscrow_def sum_bind_Inr esrepo_Update_def split: if_splits option.splits)
    ultimately show ?thesis using assms by (simp add: typed_market_def)
  qed
qed

lemma RefundToBuyer_typed: "typed_market M \<Longrightarrow> RefundToBuyer now o1 M = Inr M' \<Longrightarrow> typed_market M'"
  by (auto simp: RefundToBuyer_def sum_bind_Inr dest: escrow_step_typed)

lemma ReleaseToSeller_typed:
  "typed_market M \<Longrightarrow> ReleaseGatewayEscrowToSeller now a x o1 M = Inr (s, M') \<Longrightarrow> typed_market M'"
  by (auto simp: ReleaseGatewayEscrowToSeller_def Let_def sum_bind_Inr with_ledger_Inr dest: escrow_step_typed split: if_splits)

lemma restore_typed:
  assumes "typed_market M" "restoreForSaleStock clk ids o1 M = Inr M'"
  shows "typed_market M'"
proof (cases "or_SourceType o1 = SourceAuction")
  case True
  then show ?thesis
    using assms by (auto simp: restoreForSaleStock_def releaseAuctionOrderBinding_def sum_bind_Inr
        service_InvalidateQuotesByProduct_def simp del: One_nat_def neq0_conv dest!: gov_step split: if_splits)
next
  case False
  then show ?thesis
    using assms by (auto simp: restoreForSaleStock_def restoreFixedPriceForSaleStock_def Let_def sum_bind_Inr
        dest: stock_typed split: if_splits)
qed

lemma reactivate_typed [simp]: "typed_market (reactivateShippingQuoteIfEligible rooms clk o1 M) = typed_market M"
  by (auto simp: reactivateShippingQuoteIfEligible_def dest!: reactivate_service_quotes split: option.splits sum.splits)

lemma released_typed [simp]: "typed_market (money_is_released o1 M) = typed_market M"
  "typed_market (order_refunded rooms clk o1 M) = typed_market M"
  by (simp_all add: money_is_released_def order_refunded_def Let_def)

lemmas typed_steps = RefundForOrder_typed AdminResolve_typed decide_for_buyer_typed escrow_step_typed RefundToBuyer_typed
  ReleaseToSeller_typed restore_typed

lemma settle_typed: "typed_market M \<Longrightarrow> settleAuctionOnPaymentSuccess now o1 M = Inr M' \<Longrightarrow> typed_market M'"
  by (auto dest!: settleAuction_frame)

lemma payment_typed: "typed_market M \<Longrightarrow> ocs_MarkPaid clk i M = Inr M' \<Longrightarrow> typed_market M'"
  by (auto simp: ocs_MarkPaid_def sum_bind_Inr Let_def dest: settle_typed [rotated] split: if_splits option.splits)

lemma once_typed:
  assumes "once k f M = Inr M'" "typed_market M" "\<And>N. typed_market N \<Longrightarrow> f N = Inr M' \<Longrightarrow> typed_market M'"
  shows "typed_market M'"
  using assms(1,2) assms(3) [of "M\<lparr>mk_Idempotency := mk_Idempotency M @ [k]\<rparr>"] by (auto simp: once_Inr split: if_splits)

lemma plain_typed:
  "typed_market M \<Longrightarrow> ocs_MarkShipped accounts clk caller i k pt sr sm nt M = Inr M' \<Longrightarrow> typed_market M'"
  "typed_market M \<Longrightarrow> ocs_ExtendConfirmation accounts clk caller i k M = Inr M' \<Longrightarrow> typed_market M'"
  "typed_market M \<Longrightarrow> ocs_MarkDisputeOpen clk i M = Inr M' \<Longrightarrow> typed_market M'"
  by (auto simp: ocs_MarkShipped_def ocs_ExtendConfirmation_def ocs_MarkDisputeOpen_def once_Inr sum_bind_Inr
      simp del: One_nat_def neq0_conv split: if_splits)

lemma Complete_typed:
  assumes "typed_market M" "ocs_Complete accounts clk ids caller i k M = Inr M'"
  shows "typed_market M'"
proof -
  have plain: "typed_market M'" if t: "typed_market N" and r: "ocs_Complete accounts clk ids caller i '''' N = Inr M'" for N
    using t r by (auto simp: ocs_Complete_def sum_bind_Inr Let_def simp del: One_nat_def neq0_conv
        dest!: logged_coins_frame dest: ReleaseToSeller_typed split: if_splits)
  show ?thesis
  proof (cases "k = '''' \<or> k \<notin> set (mk_Idempotency M)")
    case True
    have "typed_market (used_key k M)" using assms(1) by (simp add: used_key_def)
    then show ?thesis using plain assms(2) unfolding Complete_fresh [OF True] by blast
  next
    case False
    then show ?thesis using assms by (simp add: ocs_Complete_def once_Inr)
  qed
qed

lemma Cancel_typed: "typed_market M \<Longrightarrow> ocs_Cancel rooms clk ids i k caller M = Inr M' \<Longrightarrow> typed_market M'"
  unfolding ocs_Cancel_def
  by (erule once_typed, assumption)
    (auto simp: sum_bind_Inr simp del: One_nat_def neq0_conv dest: restore_typed [rotated] split: if_splits)

lemma CancelOverdue_typed:
  "typed_market M \<Longrightarrow> ocs_CancelOverdue gw rooms clk ids i k caller M = Inr M' \<Longrightarrow> typed_market M'"
  unfolding ocs_CancelOverdue_def
  by (erule once_typed, assumption)
    (auto simp: sum_bind_Inr Let_def simp del: One_nat_def neq0_conv dest!: typed_steps [rotated] split: if_splits)

lemma Expire_typed: "typed_market M \<Longrightarrow> ocs_Expire gw rooms clk ids i M = Inr M' \<Longrightarrow> typed_market M'"
  by (auto simp: ocs_Expire_def sum_bind_Inr simp del: One_nat_def neq0_conv
      dest!: typed_steps [rotated] split: if_splits option.splits)

lemma refunds_typed:
  "typed_market M \<Longrightarrow> ocs_RefundOrder gw rooms clk ids i M = Inr M' \<Longrightarrow> typed_market M'"
  "typed_market M \<Longrightarrow> ocs_RefundFromDispute gw rooms clk ids i adm M = Inr M' \<Longrightarrow> typed_market M'"
  "typed_market M \<Longrightarrow> ocs_ReleaseFromDispute clk ids i adm M = Inr M' \<Longrightarrow> typed_market M'"
  "typed_market M \<Longrightarrow> ocs_PartialRefundFromDispute gw clk ids i adm M = Inr M' \<Longrightarrow> typed_market M'"
  by (auto simp: ocs_RefundOrder_def ocs_RefundFromDispute_def ocs_ReleaseFromDispute_def ocs_PartialRefundFromDispute_def
      sum_bind_Inr Let_def simp del: One_nat_def neq0_conv dest!: typed_steps [rotated] split: if_splits)

lemma Resolve_typed:
  assumes "typed_market M" "ResolveDispute capable gw rooms clk ids di res adm notes M = Inr M'"
  shows "typed_market M'"
proof -
  have "typed_market N" if "dispute_outcome gw rooms clk ids res adm notes d M = Inr N" for d N
    using that assms(1) by (cases res) (auto simp: dispute_outcome_def sum_bind_Inr simp del: One_nat_def neq0_conv
        dest!: refunds_typed(2-4) [rotated])
  then show ?thesis using assms(2) by (auto simp: ResolveDispute_def sum_bind_Inr split: if_splits)
qed

lemma flow_typed: "flow M M' \<Longrightarrow> typed_market M \<Longrightarrow> typed_market M'"
  unfolding flow_def manual_refund_def
  by (auto elim!: desk_step.cases
      dest: payment_typed [rotated] plain_typed [rotated] Complete_typed [rotated] Cancel_typed [rotated] CancelOverdue_typed [rotated]
        Expire_typed [rotated] refunds_typed(1) [rotated] Resolve_typed [rotated])

section \<open>Reused keys\<close>

text \<open>Whoever used the key, and for whatever order: the call succeeds and does nothing.\<close>

lemma reused_key_reports_success:
  assumes "k \<in> set (mk_Idempotency M)" "k \<noteq> ''''"
  shows "ocs_Cancel rooms clk ids i k caller M = Inr M" "ocs_Complete accounts clk ids caller i k M = Inr M"
    "ocs_MarkShipped accounts clk caller i k pt sr sm nt M = Inr M" "ocs_ExtendConfirmation accounts clk caller i k M = Inr M"
  using assms by (simp_all add: ocs_Cancel_def ocs_Complete_def ocs_MarkShipped_def ocs_ExtendConfirmation_def once_def
      TryInsert_def)

section \<open>Property\<close>



end
