(* ===== verification/Spec2Isabelle.thy ===== *)
theory Spec2Isabelle
  imports Prelude Lifecycle Money AuctionTiming Auction Order Overdue Escrow Refund RefundMath
    Dispute Negotiation Coins CoinsStore CoinsService CircuitBreaker TokenBucket Ledger FinanceService
    WithdrawStore Withdrawals WithdrawalBooks WithdrawalSteps WithdrawalLife
    PromotionCpm ProviderState Recon Market EscrowService PaymentService Settlement
    Billing BillingService Subscription SubscriptionService RefundOutcome RefundDispatch
    ForSale CommerceGov ShippingQuote ForSaleStore QuoteService
    OrderDesk OrderOutcome OrderFlow OrderCancel DisputeOutcome MarketTypes
begin

text \<open>
  The backend of the marketplace (\<open>src/backend\<close>, Go): its money and its state
  machines. Paths below are relative to \<open>src/backend/internal\<close> unless they
  start with \<open>pkg\<close>.

  \<^bold>\<open>The program.\<close> Buyers order from listings, negotiations and auctions; the
  payment gateway (Midtrans) collects the money; an escrow row holds it for the
  order until the order completes (the seller is paid) or is refunded (the
  buyer is); a double-entry ledger books every movement; sellers withdraw their
  earnings through a payout worker; coins are a loyalty currency beside it.
  Entities carry the rules (\<open>*/entity\<close>), services orchestrate them inside one
  database transaction per call (\<open>*/application\<close>), repositories are SQL
  (\<open>*/infrastructure/repository\<close>), workers and webhooks drive the services.

  \<^bold>\<open>How Go is read.\<close> \<open>Prelude\<close>: an \<open>int64\<close> is an integer with \<open>wrap64\<close> at
  every operation that can overflow, division is truncated (\<open>sdiv\<close>), a time is
  an integer of nanoseconds and every \<open>time.Now()\<close> and \<open>uuid.New()\<close> is an
  argument. A method with a pointer receiver returns its error and the receiver
  it leaves, so a failing method that has already written is visible. A service
  call takes the tables and returns the tables or an error, and an error means
  that the transaction is rolled back. A panic is an error value.

  \<^bold>\<open>Theories.\<close>
    \<^item> \<open>Lifecycle\<close>: the contract every entity with a status keeps (locales
      \<open>lifecycle\<close>, \<open>ranked_lifecycle\<close>, \<open>kept_fact\<close>), interpreted by every entity.
    \<^item> \<open>Money\<close> (\<open>pkg/money\<close>), \<open>RefundMath\<close> (\<open>finance/refund/application/refund_math.go\<close>),
      \<open>PromotionCpm\<close> (\<open>finance/promotion_cpm.go\<close>): checked and truncating money
      arithmetic; exactness, cumulative floors that lose nothing.
    \<^item> \<open>AuctionTiming\<close>, \<open>Auction\<close> (\<open>commerce/auction/entity\<close>), \<open>Negotiation\<close>
      (\<open>commerce/negotiation/entity\<close>), \<open>Order\<close>, \<open>Overdue\<close> (\<open>commerce/order/entity\<close>),
      \<open>Escrow\<close> (\<open>core/escrow/entity\<close>), \<open>Refund\<close> (\<open>finance/refund/entity\<close>),
      \<open>Dispute\<close> (\<open>governance/dispute\<close>): one record per entity, one definition per
      method, a step relation over all methods and the invariants of every run.
    \<^item> \<open>Coins\<close>, \<open>CoinsStore\<close>, \<open>CoinsService\<close> (\<open>incentive/coins\<close>): rewards,
      reservations and spending over the three tables, with PostgreSQL's rule
      that a failed statement aborts its transaction.
    \<^item> \<open>Ledger\<close>, \<open>FinanceService\<close> (\<open>finance\<close>): the accounts, the idempotent
      posting of balanced entries (locale \<open>double_entry\<close>) and every movement of the
      finance service.
    \<^item> \<open>WithdrawStore\<close>, \<open>Withdrawals\<close>, \<open>WithdrawalBooks\<close>, \<open>WithdrawalSteps\<close>,
      \<open>WithdrawalLife\<close> (\<open>finance/application/withdraw_service.go\<close>, \<open>finance/worker\<close>):
      withdrawals from request to settlement, with the worker's sending and its
      bookkeeping as separate steps of one interleaving.
    \<^item> \<open>ProviderState\<close> (\<open>pkg/midtrans/provider_state.go\<close>), \<open>Recon\<close>
      (\<open>integration/payment/application/recon\<close>): the gateway's texts, and the
      classifier that compares them with the local rows.
    \<^item> \<open>CircuitBreaker\<close> (\<open>pkg/midtrans/midtrans.go\<close>), \<open>TokenBucket\<close>
      (\<open>pkg/rate\<close>): the guards of outbound calls and of users.
    \<^item> \<open>Market\<close>: the tables that orders, payments, escrows and refunds share, and
      their repositories.
    \<^item> \<open>EscrowService\<close> (\<open>core/escrow/application\<close>): the escrow calls, refined to a
      book of holdings.
    \<^item> \<open>PaymentService\<close> (\<open>integration/payment/infrastructure/repository\<close>): payments,
      their attempts and their settlement. \<open>Settlement\<close>
      (\<open>integration/payment/application/canonical_finalization_service.go\<close>): all that a
      settled order payment does: payment, coins, ledger, escrow, order, auction.
    \<^item> \<open>Billing\<close>, \<open>BillingService\<close> (\<open>finance/billing\<close>): top-ups of the promotion balance,
      booked once.
    \<^item> \<open>Subscription\<close>, \<open>SubscriptionService\<close> (\<open>commerce/subscription\<close> and its expiry
      worker): paid periods that follow one another without overlap.
    \<^item> \<open>ForSale\<close>, \<open>ForSaleStore\<close> (\<open>commerce/forsale\<close>): fixed-price listings, never oversold,
      their table and the service calls on it. \<open>CommerceGov\<close>
      (\<open>commerce/governance/commercegov\<close>): violations and the restrictions they extend.
    \<^item> \<open>ShippingQuote\<close>, \<open>QuoteService\<close> (\<open>commerce/shipping/quote\<close>): a seller's price for
      shipping, used once, by its buyer and for its sale.
    \<^item> \<open>RefundStore\<close>, \<open>RefundDesk\<close> (\<open>finance/refund/application\<close> and its repository):
      requests, decisions, system refunds, their dispatch to the gateway and their
      settlement on its confirmation. \<open>RefundDispatch\<close> shows that a refund is sent once
      and who may approve what, \<open>RefundOutcome\<close> what a confirmation moves and which
      refunds can never be confirmed.
    \<^item> \<open>OrderDesk\<close> (\<open>commerce/order/application/order_completion_service.go\<close>,
      \<open>order_payment_service.go\<close>, the verdict of \<open>governance/dispute/application/dispute_service.go\<close>):
      everything that ends an order. \<open>OrderOutcome\<close> shows that completion pays the
      seller once, \<open>DisputeOutcome\<close> what a verdict moves, \<open>OrderCancel\<close> that the stock
      comes back once, \<open>OrderFlow\<close> how order rows move over all services and that they
      come to rest, \<open>MarketTypes\<close> that the rows stay as the database checks them.

  \<^bold>\<open>Bounds.\<close> No definition needs fuel: loops are structural recursion over
  rows. Amounts are unrestricted integers; where a result depends on staying in
  64 bits the statement says so.

  \<^bold>\<open>Not modelled.\<close> HTTP handlers, wiring (\<open>serverboot\<close>), configuration,
  logging, metrics, notifications and chat are input and output around the
  modelled rules. The payment gateway, the clock and the uuid generator are
  arguments. Connection failures, row locks and serialization are not modelled:
  a service call is one atomic step. The components that \<open>PROJECT.json\<close> lists as
  not modelled are left for later or carry no rule of their own (CRUD and
  queries).
\<close>

end
